(* ===== verification/Prelude.thy ===== *)
theory Prelude
  imports Main "HOL-Library.Multiset" "HOL-Library.List_Lexorder" "HOL-Library.Char_ord" "HOL-Library.Product_Lexorder"
begin

text \<open>
  Shared vocabulary of the development. A Go string or byte slice is a \<^typ>\<open>string\<close>, one
  character per byte, ordered byte-wise as Go compares strings. The section on strings holds the
  functions of Go's packages strings, strconv and path that the modelled code calls. The rest are lemmas
  on sorting, lists and maps that several components use, and the collections of facts the
  component proofs are automated with.
\<close>

named_theorems str_defs "definitions of the string functions"
named_theorems fact_simps "how the operations on a fact set change its lookups"

section \<open>Bytes\<close>

definition byte :: "char \<Rightarrow> nat" where
  "byte c = of_char c"

lemma byte_less_256 [simp]: "byte c < 256"
  by (simp add: byte_def)

lemma byte_char_of [simp]: "byte (char_of (n::nat)) = n mod 256"
  by (simp add: byte_def)

lemma char_of_byte [simp]: "char_of (byte c) = c"
  by (simp add: byte_def)

lemma byte_inject [simp]: "byte c = byte d \<longleftrightarrow> c = d"
  by (metis char_of_byte)

lemma mod_window: "k * m \<le> b \<Longrightarrow> b < k * m + m \<Longrightarrow> b mod m = b - k * m" for b m k :: nat
proof -
  assume b: "k * m \<le> b" "b < k * m + m"
  have "b mod m = (b - k * m + k * m) mod m" using b by simp
  also have "\<dots> = (b - k * m) mod m" by (rule mod_mult_self1)
  also have "\<dots> = b - k * m" using b by (intro mod_less) linarith
  finally show ?thesis .
qed

section \<open>Go strings\<close>

definition has_prefix :: "string \<Rightarrow> string \<Rightarrow> bool" where
  "has_prefix s p \<longleftrightarrow> take (length p) s = p"

definition has_suffix :: "string \<Rightarrow> string \<Rightarrow> bool" where
  "has_suffix s p \<longleftrightarrow> has_prefix (rev s) (rev p)"

lemma has_prefix_append [simp]: "has_prefix (p @ s) p"
  by (simp add: has_prefix_def)

lemma has_prefix_iff: "has_prefix s p \<longleftrightarrow> (\<exists>t. s = p @ t)"
  unfolding has_prefix_def by (metis append_eq_conv_conj append_take_drop_id)

lemma has_suffix_iff: "has_suffix s p \<longleftrightarrow> (\<exists>t. s = t @ p)"
  unfolding has_suffix_def has_prefix_iff by (metis rev_append rev_rev_ident)

text \<open>strings.Contains.\<close>

fun contains :: "string \<Rightarrow> string \<Rightarrow> bool" where
  "contains [] p \<longleftrightarrow> p = []"
| "contains (c # s) p \<longleftrightarrow> has_prefix (c # s) p \<or> contains s p"

lemma contains_iff: "contains s p \<longleftrightarrow> (\<exists>a b. s = a @ p @ b)"
proof (induction s)
  case Nil
  then show ?case by auto
next
  case (Cons c s)
  show ?case
  proof
    assume "contains (c # s) p"
    then consider t where "c # s = p @ t" | a b where "s = a @ p @ b"
      using Cons.IH by (auto simp: has_prefix_iff)
    then show "\<exists>a b. c # s = a @ p @ b"
      by cases (metis append_Nil, metis append_Cons)
  next
    assume "\<exists>a b. c # s = a @ p @ b"
    then obtain a b where ab: "c # s = a @ p @ b" by blast
    show "contains (c # s) p"
    proof (cases a)
      case Nil
      then show ?thesis using ab by (metis append_Nil contains.simps(2) has_prefix_append)
    next
      case (Cons d a')
      then show ?thesis using ab Cons.IH \<open>contains s p = _\<close> by auto
    qed
  qed
qed

definition contains_any :: "string \<Rightarrow> string \<Rightarrow> bool" where
  "contains_any s cs \<longleftrightarrow> (\<exists>c \<in> set s. c \<in> set cs)"

subsection \<open>White space and trimming\<close>

text \<open>
  The UTF-8 encodings of the runes unicode.IsSpace accepts. Trimming a suffix that is one of
  these byte sequences is what DecodeLastRune does, since each begins with a rune-start byte.
\<close>

definition spaces :: "string list" where
  "spaces = [[CHR 0x20], [CHR 0x09], [CHR 0x0A], [CHR 0x0B], [CHR 0x0C], [CHR 0x0D],
     [CHR 0xC2, CHR 0x85], [CHR 0xC2, CHR 0xA0], [CHR 0xE1, CHR 0x9A, CHR 0x80],
     [CHR 0xE2, CHR 0x80, CHR 0x80], [CHR 0xE2, CHR 0x80, CHR 0x81], [CHR 0xE2, CHR 0x80, CHR 0x82],
     [CHR 0xE2, CHR 0x80, CHR 0x83], [CHR 0xE2, CHR 0x80, CHR 0x84], [CHR 0xE2, CHR 0x80, CHR 0x85],
     [CHR 0xE2, CHR 0x80, CHR 0x86], [CHR 0xE2, CHR 0x80, CHR 0x87], [CHR 0xE2, CHR 0x80, CHR 0x88],
     [CHR 0xE2, CHR 0x80, CHR 0x89], [CHR 0xE2, CHR 0x80, CHR 0x8A], [CHR 0xE2, CHR 0x80, CHR 0xA8],
     [CHR 0xE2, CHR 0x80, CHR 0xA9], [CHR 0xE2, CHR 0x80, CHR 0xAF], [CHR 0xE2, CHR 0x81, CHR 0x9F],
     [CHR 0xE3, CHR 0x80, CHR 0x80]]"

definition space_at :: "string list \<Rightarrow> string \<Rightarrow> string option" where
  "space_at ws s = find (\<lambda>w. w \<noteq> [] \<and> has_prefix s w) ws"

lemma space_at_Some: "space_at ws s = Some w \<Longrightarrow> w \<in> set ws \<and> w \<noteq> [] \<and> (\<exists>t. s = w @ t)"
  unfolding space_at_def find_Some_iff has_prefix_iff by (metis nth_mem)

function strip_left :: "string list \<Rightarrow> string \<Rightarrow> string" where
  "strip_left ws s =
     (case space_at ws s of None \<Rightarrow> s | Some w \<Rightarrow> strip_left ws (drop (length w) s))"
  by pat_completeness auto
termination
  by (relation "measure (\<lambda>(ws, s). length s)") (auto dest!: space_at_Some)

declare strip_left.simps [simp del]

definition trim_left_space :: "string \<Rightarrow> string" where
  "trim_left_space s = strip_left spaces s"

definition trim_right_space :: "string \<Rightarrow> string" where
  "trim_right_space s = rev (strip_left (map rev spaces) (rev s))"

definition trim_space :: "string \<Rightarrow> string" where
  "trim_space s = trim_right_space (trim_left_space s)"

text \<open>strings.TrimLeft and strings.TrimRight with an ASCII cutset.\<close>

definition trim_left :: "string \<Rightarrow> string \<Rightarrow> string" where
  "trim_left s cs = dropWhile (\<lambda>c. c \<in> set cs) s"

definition trim_right :: "string \<Rightarrow> string \<Rightarrow> string" where
  "trim_right s cs = rev (dropWhile (\<lambda>c. c \<in> set cs) (rev s))"

definition trim_suffix :: "string \<Rightarrow> string \<Rightarrow> string" where
  "trim_suffix s p = (if has_suffix s p then take (length s - length p) s else s)"

definition trim_prefix :: "string \<Rightarrow> string \<Rightarrow> string" where
  "trim_prefix s p = (if has_prefix s p then drop (length p) s else s)"

text \<open>strings.ReplaceAll of one byte by another.\<close>

definition replace_char :: "char \<Rightarrow> char \<Rightarrow> string \<Rightarrow> string" where
  "replace_char a b = map (\<lambda>c. if c = a then b else c)"

lemma strip_left_suffix: "\<exists>p. s = p @ strip_left ws s"
proof (induction ws s rule: strip_left.induct)
  case (1 ws s)
  show ?case
  proof (cases "space_at ws s")
    case None
    then show ?thesis by (subst strip_left.simps) simp
  next
    case (Some w)
    then obtain t where t: "s = w @ t" by (auto dest!: space_at_Some)
    then obtain p where "drop (length w) s = p @ strip_left ws (drop (length w) s)"
      using "1.IH" Some by blast
    then have "s = (w @ p) @ strip_left ws s"
      using t Some by (subst strip_left.simps) simp
    then show ?thesis by blast
  qed
qed

lemma strip_left_no_space: "space_at ws (strip_left ws s) = None"
proof (induction ws s rule: strip_left.induct)
  case (1 ws s)
  then show ?case by (subst strip_left.simps) (simp split: option.split)
qed

lemma strip_left_id: "space_at ws s = None \<Longrightarrow> strip_left ws s = s"
  by (subst strip_left.simps) simp

lemma space_at_append: "space_at ws (s @ t) = None \<Longrightarrow> space_at ws s = None"
  by (auto simp: space_at_def find_None_iff has_prefix_iff)

lemma trim_space_idem [simp]: "trim_space (trim_space s) = trim_space s"
proof -
  obtain p where p: "rev (trim_left_space s) = p @ strip_left (map rev spaces) (rev (trim_left_space s))"
    using strip_left_suffix by blast
  then have "trim_left_space s = trim_space s @ rev p"
    unfolding trim_space_def trim_right_space_def by (metis rev_append rev_rev_ident)
  then have "trim_left_space (trim_space s) = trim_space s"
    by (metis space_at_append strip_left_id strip_left_no_space trim_left_space_def)
  moreover have "trim_right_space (trim_space s) = trim_space s"
    by (simp add: trim_space_def trim_right_space_def strip_left_id strip_left_no_space)
  ultimately show ?thesis by (simp add: trim_space_def)
qed

lemma length_strip_left: "length (strip_left ws s) \<le> length s"
  using strip_left_suffix[of s ws] by (metis le_add2 length_append)

lemma trim_space_sub: "\<exists>a b. s = a @ trim_space s @ b"
proof -
  let ?l = "trim_left_space s"
  obtain a where a: "s = a @ ?l"
    unfolding trim_left_space_def using strip_left_suffix by blast
  obtain p where "rev ?l = p @ strip_left (map rev spaces) (rev ?l)"
    using strip_left_suffix by blast
  then have "?l = trim_space s @ rev p"
    unfolding trim_space_def trim_right_space_def by (metis rev_append rev_rev_ident)
  with a have "s = a @ trim_space s @ rev p" by simp
  then show ?thesis by blast
qed

lemma length_trim_space: "length (trim_space s) \<le> length s"
proof -
  obtain a b where "s = a @ trim_space s @ b" using trim_space_sub by blast
  then have "length s = length a + length (trim_space s) + length b"
    by (metis add.assoc length_append)
  then show ?thesis by simp
qed

lemma set_trim_space: "set (trim_space s) \<subseteq> set s"
proof -
  obtain a b where "s = a @ trim_space s @ b" using trim_space_sub by blast
  then have "set s = set a \<union> set (trim_space s) \<union> set b"
    by (metis set_append Un_assoc)
  then show ?thesis by blast
qed

subsection \<open>Case, splitting, joining, numbers\<close>

text \<open>
  strings.ToLower, strings.ToUpper and strings.EqualFold. The program compares their results with
  ASCII constants only, so what matters of the Unicode case tables is which runes they take to an
  ASCII letter: ToLower takes the Kelvin sign to k and the dotted capital I to i; ToUpper the dotless
  i to I and the long s to S; EqualFold identifies the Kelvin sign with k and the long s with s.
  Their encodings begin with bytes no other encoding contains. Other runes are left as they are.
\<close>

definition rune_at :: "(string \<times> char) list \<Rightarrow> string \<Rightarrow> (string \<times> char) option" where
  "rune_at tbl s = find (\<lambda>(w, c). w \<noteq> [] \<and> has_prefix s w) tbl"

function map_runes :: "(string \<times> char) list \<Rightarrow> (char \<Rightarrow> char) \<Rightarrow> string \<Rightarrow> string" where
  "map_runes tbl g s =
     (case rune_at tbl s of
        Some (w, c) \<Rightarrow> c # map_runes tbl g (drop (length w) s)
      | None \<Rightarrow> (case s of [] \<Rightarrow> [] | x # t \<Rightarrow> g x # map_runes tbl g t))"
  by pat_completeness auto

lemma rune_at_Some: "rune_at tbl s = Some (w, c) \<Longrightarrow> (w, c) \<in> set tbl \<and> w \<noteq> [] \<and> (\<exists>t. s = w @ t)"
  by (auto simp: rune_at_def find_Some_iff has_prefix_iff) (metis nth_mem)+

termination map_runes
  by (relation "measure (\<lambda>(tbl, g, s). length s)") (auto dest!: rune_at_Some)

declare map_runes.simps [simp del]

definition to_lower_char :: "char \<Rightarrow> char" where
  "to_lower_char c = (if 65 \<le> byte c \<and> byte c \<le> 90 then char_of (byte c + 32) else c)"

definition to_upper_char :: "char \<Rightarrow> char" where
  "to_upper_char c = (if 97 \<le> byte c \<and> byte c \<le> 122 then char_of (byte c - 32) else c)"

definition kelvin :: string where "kelvin = [CHR 0xE2, CHR 0x84, CHR 0xAA]"
definition dotted_I :: string where "dotted_I = [CHR 0xC4, CHR 0xB0]"
definition dotless_i :: string where "dotless_i = [CHR 0xC4, CHR 0xB1]"
definition long_s :: string where "long_s = [CHR 0xC5, CHR 0xBF]"

definition to_lower :: "string \<Rightarrow> string" where
  "to_lower s = map_runes [(kelvin, CHR ''k''), (dotted_I, CHR ''i'')] to_lower_char s"

definition to_upper :: "string \<Rightarrow> string" where
  "to_upper s = map_runes [(dotless_i, CHR ''I''), (long_s, CHR ''S'')] to_upper_char s"

definition fold_case :: "string \<Rightarrow> string" where
  "fold_case s = map_runes [(kelvin, CHR ''k''), (long_s, CHR ''s'')] to_lower_char s"

definition equal_fold :: "string \<Rightarrow> string \<Rightarrow> bool" where
  "equal_fold s t \<longleftrightarrow> fold_case s = fold_case t"

definition ascii :: "string \<Rightarrow> bool" where
  "ascii s \<longleftrightarrow> (\<forall>c \<in> set s. byte c < 128)"

lemma map_runes_ascii:
  "ascii s \<Longrightarrow> \<forall>(w, c) \<in> set tbl. \<not> ascii (take 1 w) \<Longrightarrow> map_runes tbl g s = map g s"
proof (induction s)
  case Nil
  have "rune_at tbl [] = None" by (cases "rune_at tbl []") (auto dest!: rune_at_Some)
  then show ?case by (subst map_runes.simps) simp
next
  case (Cons c s)
  have "rune_at tbl (c # s) = None"
  proof (cases "rune_at tbl (c # s)")
    case (Some p)
    then obtain w d t where "(w, d) \<in> set tbl" "w \<noteq> []" "c # s = w @ t"
      by (cases p) (auto dest!: rune_at_Some)
    then have "take 1 w = [c]" "\<not> ascii (take 1 w)" using Cons.prems(2) by (cases w; fastforce)+
    then show ?thesis using Cons.prems(1) by (simp add: ascii_def)
  qed
  then show ?case using Cons by (subst map_runes.simps) (simp add: ascii_def)
qed

lemma length_map_runes: "length (map_runes tbl g s) \<le> length s"
proof (induction tbl g s rule: map_runes.induct)
  case (1 tbl g s)
  show ?case
  proof (cases "rune_at tbl s")
    case None
    then show ?thesis using 1(1)[OF None] by (subst map_runes.simps) (auto split: list.split)
  next
    case (Some p)
    obtain w c where p: "p = (w, c)" by (cases p)
    obtain t where "s = w @ t" "w \<noteq> []" using rune_at_Some Some p by blast
    moreover have "length (map_runes tbl g (drop (length w) s)) \<le> length (drop (length w) s)"
      using 1(2)[OF Some] p by simp
    ultimately show ?thesis using Some p by (subst map_runes.simps) (cases w, auto)
  qed
qed

text \<open>A result without the letters the special runes map to comes from the string byte by byte.\<close>

lemma map_runes_plain:
  "set (map_runes tbl g s) \<inter> snd ` set tbl = {} \<Longrightarrow> map_runes tbl g s = map g s"
proof (induction tbl g s rule: map_runes.induct)
  case (1 tbl g s)
  show ?case
  proof (cases "rune_at tbl s")
    case None
    then have "map_runes tbl g s = (case s of [] \<Rightarrow> [] | x # t \<Rightarrow> g x # map_runes tbl g t)"
      by (subst map_runes.simps) simp
    then show ?thesis using 1(1)[OF None] "1.prems" by (cases s) auto
  next
    case (Some p)
    obtain w c where p: "p = (w, c)" by (cases p)
    then have "c \<in> set (map_runes tbl g s)" "c \<in> snd ` set tbl"
      using Some rune_at_Some[of tbl s w c] by (subst map_runes.simps, simp, force)
    then show ?thesis using "1.prems" by blast
  qed
qed

lemma to_lower_ascii: "ascii s \<Longrightarrow> to_lower s = map to_lower_char s"
  unfolding to_lower_def by (rule map_runes_ascii) (simp_all add: kelvin_def dotted_I_def ascii_def byte_def)

lemma to_upper_ascii: "ascii s \<Longrightarrow> to_upper s = map to_upper_char s"
  unfolding to_upper_def by (rule map_runes_ascii) (simp_all add: dotless_i_def long_s_def ascii_def byte_def)

lemma fold_case_ascii: "ascii s \<Longrightarrow> fold_case s = map to_lower_char s"
  unfolding fold_case_def by (rule map_runes_ascii) (simp_all add: kelvin_def long_s_def ascii_def byte_def)

lemma equal_fold_refl [simp]: "equal_fold s s"
  by (simp add: equal_fold_def)

lemma equal_fold_sym: "equal_fold s t \<Longrightarrow> equal_fold t s"
  by (simp add: equal_fold_def)

lemma equal_fold_trans: "equal_fold s t \<Longrightarrow> equal_fold t u \<Longrightarrow> equal_fold s u"
  by (simp add: equal_fold_def)

text \<open>strings.Split on a one-byte separator: one more piece than there are separators.\<close>

fun split_on :: "char \<Rightarrow> string \<Rightarrow> string list" where
  "split_on sep [] = [[]]"
| "split_on sep (c # s) =
     (if c = sep then [] # split_on sep s
      else (case split_on sep s of [] \<Rightarrow> [[c]] | w # ws \<Rightarrow> (c # w) # ws))"

fun join :: "string \<Rightarrow> string list \<Rightarrow> string" where
  "join sep [] = []"
| "join sep [w] = w"
| "join sep (w # ws) = w @ sep @ join sep ws"

lemma split_on_not_Nil [simp]: "split_on sep s \<noteq> []"
  by (induction s) (auto split: list.split)

lemma join_Cons: "ws \<noteq> [] \<Longrightarrow> join sep (w # ws) = w @ sep @ join sep ws"
  by (cases ws) auto

lemma join_split_on: "join [sep] (split_on sep s) = s"
proof (induction s)
  case Nil
  then show ?case by simp
next
  case (Cons c s)
  obtain w ws where w: "split_on sep s = w # ws"
    by (cases "split_on sep s") auto
  show ?case
    using Cons.IH w by (cases ws) (auto simp: join_Cons)
qed

lemma split_on_no_sep: "w \<in> set (split_on sep s) \<Longrightarrow> sep \<notin> set w"
proof (induction s arbitrary: w)
  case Nil
  then show ?case by simp
next
  case (Cons c s)
  obtain v vs where v: "split_on sep s = v # vs"
    by (cases "split_on sep s") auto
  show ?case
    using Cons v by (auto split: if_splits)
qed

text \<open>strings.Cut on a one-byte separator, None when the separator does not occur.\<close>

fun cut_at :: "char \<Rightarrow> string \<Rightarrow> (string \<times> string) option" where
  "cut_at sep [] = None"
| "cut_at sep (c # s) =
     (if c = sep then Some ([], s) else map_option (\<lambda>(a, b). (c # a, b)) (cut_at sep s))"

lemma cut_at_Some: "cut_at sep s = Some (a, b) \<Longrightarrow> s = a @ sep # b \<and> sep \<notin> set a"
  by (induction s arbitrary: a b) (auto split: if_splits)

lemma cut_at_None: "cut_at sep s = None \<longleftrightarrow> sep \<notin> set s"
  by (induction s) auto

text \<open>strings.Cut on a longer separator, at its first occurrence.\<close>

fun cut_sub :: "string \<Rightarrow> string \<Rightarrow> (string \<times> string) option" where
  "cut_sub sep s =
     (if has_prefix s sep then Some ([], drop (length sep) s)
      else (case s of [] \<Rightarrow> None | c # t \<Rightarrow> map_option (\<lambda>(a, b). (c # a, b)) (cut_sub sep t)))"

declare cut_sub.simps [simp del]

text \<open>strings.Fields: the maximal runs without white space.\<close>

fun word_end :: "string \<Rightarrow> string \<times> string" where
  "word_end s =
     (case space_at spaces s of
        Some w \<Rightarrow> ([], s)
      | None \<Rightarrow> (case s of [] \<Rightarrow> ([], []) | c # t \<Rightarrow> (let (w, r) = word_end t in (c # w, r))))"

declare word_end.simps [simp del]

lemma word_end_append: "word_end s = (w, r) \<Longrightarrow> s = w @ r"
proof (induction s arbitrary: w r rule: word_end.induct)
  case (1 s)
  then show ?case
    by (subst (asm) (2) word_end.simps) (auto split: option.splits list.splits prod.splits)
qed

lemma word_end_nonempty: "space_at spaces s = None \<Longrightarrow> s \<noteq> [] \<Longrightarrow> word_end s = (w, r) \<Longrightarrow> w \<noteq> []"
  by (subst (asm) word_end.simps) (auto split: list.splits prod.splits)

function str_fields :: "string \<Rightarrow> string list" where
  "str_fields s =
     (let t = trim_left_space s in
      if t = [] then [] else (case word_end t of (w, r) \<Rightarrow> w # str_fields r))"
  by pat_completeness auto
termination
proof (relation "measure length", goal_cases)
  case (2 s t w r)
  have "space_at spaces t = None" unfolding 2(1) trim_left_space_def by (rule strip_left_no_space)
  moreover have "word_end t = (w, r)" using 2 by simp
  ultimately have "w \<noteq> []" using 2(2) word_end_nonempty by blast
  moreover have "t = w @ r" using 2 word_end_append by simp
  moreover have "length t \<le> length s" unfolding 2(1) trim_left_space_def by (rule length_strip_left)
  ultimately show ?case by (cases w) auto
qed simp

declare str_fields.simps [simp del]

definition digit :: "nat \<Rightarrow> char" where
  "digit n = char_of (48 + n)"

fun nat_str :: "nat \<Rightarrow> string" where
  "nat_str n = (if n < 10 then [digit n] else nat_str (n div 10) @ [digit (n mod 10)])"

declare nat_str.simps [simp del]

definition int_str :: "int \<Rightarrow> string" where
  "int_str i = (if i < 0 then CHR ''-'' # nat_str (nat (- i)) else nat_str (nat i))"

text \<open>
  strconv.Quote, exact on ASCII; a byte from 0x80 on is left as it is, as Quote leaves printable
  runes.
\<close>

definition quote_char :: "char \<Rightarrow> string" where
  "quote_char c = (let b = byte c in
     if b = 0x22 \<or> b = 0x5C then [CHR 0x5C, c]
     else if b = 7 then [CHR 0x5C, CHR ''a''] else if b = 8 then [CHR 0x5C, CHR ''b'']
     else if b = 9 then [CHR 0x5C, CHR ''t''] else if b = 10 then [CHR 0x5C, CHR ''n'']
     else if b = 11 then [CHR 0x5C, CHR ''v''] else if b = 12 then [CHR 0x5C, CHR ''f'']
     else if b = 13 then [CHR 0x5C, CHR ''r'']
     else if b < 0x20 \<or> b = 0x7F
       then [CHR 0x5C, CHR ''x'', ''0123456789abcdef'' ! (b div 16), ''0123456789abcdef'' ! (b mod 16)]
     else [c])"

definition go_quote :: "string \<Rightarrow> string" where
  "go_quote s = [CHR 0x22] @ concat (map quote_char s) @ [CHR 0x22]"

definition is_digit :: "char \<Rightarrow> bool" where
  "is_digit c \<longleftrightarrow> 48 \<le> byte c \<and> byte c \<le> 57"

definition digit_val :: "char \<Rightarrow> nat" where
  "digit_val c = byte c - 48"

definition dec_val :: "string \<Rightarrow> nat" where
  "dec_val s = foldl (\<lambda>n c. 10 * n + digit_val c) 0 s"

text \<open>strconv.Atoi on a 64-bit platform: an optional sign, decimal digits, and a range test.\<close>

definition atoi :: "string \<Rightarrow> int option" where
  "atoi s =
     (let (neg, ds) = (case s of [] \<Rightarrow> (False, [])
        | c # t \<Rightarrow> if c = CHR ''-'' then (True, t) else if c = CHR ''+'' then (False, t) else (False, s));
          n = (if neg then - int (dec_val ds) else int (dec_val ds)) in
      if ds \<noteq> [] \<and> list_all is_digit ds \<and> - (2 ^ 63) \<le> n \<and> n < 2 ^ 63 then Some n else None)"

text \<open>The value of a Go int after an addition or a multiplication: the low 64 bits, signed.\<close>

definition wrap64 :: "int \<Rightarrow> int" where
  "wrap64 i = (i + 2 ^ 63) mod 2 ^ 64 - 2 ^ 63"

lemma wrap64_bounds: "- (2 ^ 63) \<le> wrap64 i \<and> wrap64 i < 2 ^ 63"
  using pos_mod_bound[of "2 ^ 64" "i + 2 ^ 63"] pos_mod_sign[of "2 ^ 64" "i + 2 ^ 63"]
  by (simp add: wrap64_def)

lemma wrap64_id: "- (2 ^ 63) \<le> i \<Longrightarrow> i < 2 ^ 63 \<Longrightarrow> wrap64 i = i"
  by (simp add: wrap64_def)

lemma atoi_bounds: "atoi s = Some n \<Longrightarrow> - (2 ^ 63) \<le> n \<and> n < 2 ^ 63"
  by (auto simp: atoi_def Let_def split: list.splits if_splits)

lemma digit_char: "n < 10 \<Longrightarrow> is_digit (digit n) \<and> digit_val (digit n) = n"
  by (simp add: is_digit_def digit_val_def digit_def)

lemma nat_str_digits: "nat_str n \<noteq> [] \<and> (\<forall>c \<in> set (nat_str n). is_digit c)"
proof (induction n rule: nat_str.induct)
  case (1 n)
  show ?case
    using 1 by (subst nat_str.simps) (subst (2) nat_str.simps, auto simp: digit_char)
qed

lemma dec_val_nat_str [simp]: "dec_val (nat_str n) = n"
proof (induction n rule: nat_str.induct)
  case (1 n)
  then show ?case
    by (subst nat_str.simps) (auto simp: dec_val_def digit_char)
qed

section \<open>Sorting\<close>

text \<open>
  sort.Strings and sort.Slice over pairwise different keys have one possible result, which
  \<^const>\<open>sort\<close> and \<^const>\<open>sort_key\<close> give; sort.SliceStable is \<^const>\<open>sort_key\<close> as it is.
\<close>

lemma sorted_list_of_set_sort: "distinct xs \<Longrightarrow> sorted_list_of_set (set xs) = sort xs"
  by (simp add: sorted_list_of_set_sort_remdups distinct_remdups_id)

lemma sort_key_filter_same: "filter (\<lambda>y. f y = k) (sort_key f xs) = filter (\<lambda>y. f y = k) xs"
  using stable_sort_key_sort_key[unfolded stable_sort_key_def] by blast

section \<open>Lists and options\<close>

lemma filter_length_le_1:
  "distinct (map f xs) \<Longrightarrow> length (filter (\<lambda>x. f x = a) xs) \<le> 1"
proof (induction xs)
  case Nil
  then show ?case by simp
next
  case (Cons x xs)
  have none: "filter (\<lambda>x. f x = a) xs = []" if "f x = a"
    using Cons.prems that by (auto simp: filter_empty_conv image_iff)
  show ?case
    using Cons none by auto
qed

lemma list_all2_map_same:
  "(\<And>x. x \<in> set xs \<Longrightarrow> P x (f x)) \<Longrightarrow> list_all2 P xs (map f xs)"
  by (induction xs) auto

lemma find_None_iff': "find P xs = None \<longleftrightarrow> (\<forall>x \<in> set xs. \<not> P x)"
  by (auto simp: find_None_iff)

lemma find_append: "find P (xs @ ys) = (case find P xs of Some x \<Rightarrow> Some x | None \<Rightarrow> find P ys)"
  by (induction xs) auto

lemma find_Some_set: "find P xs = Some x \<Longrightarrow> x \<in> set xs \<and> P x"
  by (auto simp: find_Some_iff)

section \<open>Runes of the messages\<close>

definition em_dash :: string where "em_dash = [CHR 0xE2, CHR 0x80, CHR 0x94]"
definition left_arrow :: string where "left_arrow = [CHR 0xE2, CHR 0x86, CHR 0x90]"

end
