(* ===== verification/Sanitize.thy ===== *)
theory Sanitize
  imports Prelude
begin

text \<open>
  internal/sanitize/sanitize.go: the boundary where untrusted text becomes part of a finding.
  The decoder is utf8.DecodeRuneInString; \<open>clean\<close> is the loop that escapes control characters
  and stops at its output budget. The lemmas show that what comes out is well-formed UTF-8 without
  control characters and within the budget, and that such text passes through unchanged.
\<close>

section \<open>Decoding UTF-8\<close>

definition rune_error :: nat where
  "rune_error = 0xFFFD"

definition cont_byte :: "nat \<Rightarrow> nat \<Rightarrow> char \<Rightarrow> bool" where
  "cont_byte lo hi c \<longleftrightarrow> lo \<le> byte c \<and> byte c \<le> hi"

text \<open>The accepted range of the second byte, given the first; Go's table of accept ranges.\<close>

definition second_lo :: "nat \<Rightarrow> nat" where
  "second_lo b = (if b = 0xE0 then 0xA0 else if b = 0xF0 then 0x90 else 0x80)"

definition second_hi :: "nat \<Rightarrow> nat" where
  "second_hi b = (if b = 0xED then 0x9F else if b = 0xF4 then 0x8F else 0xBF)"

definition rune_len :: "nat \<Rightarrow> nat" where
  "rune_len b = (if b < 0x80 then 1 else if b < 0xC2 then 0 else if b < 0xE0 then 2
     else if b < 0xF0 then 3 else if b < 0xF5 then 4 else 0)"

definition tail_ok :: "nat \<Rightarrow> string \<Rightarrow> bool" where
  "tail_ok b ts \<longleftrightarrow>
     (case ts of [] \<Rightarrow> False
      | c1 # cs \<Rightarrow> cont_byte (second_lo b) (second_hi b) c1 \<and> list_all (cont_byte 0x80 0xBF) cs)"

definition lead_bits :: "nat \<Rightarrow> nat" where
  "lead_bits b = (if b < 0xE0 then b mod 32 else if b < 0xF0 then b mod 16 else b mod 8)"

definition rune_value :: "nat \<Rightarrow> string \<Rightarrow> nat" where
  "rune_value b ts = foldl (\<lambda>a c. a * 64 + byte c mod 64) (lead_bits b) ts"

text \<open>
  The rune at the start of a string and its size; \<^const>\<open>rune_error\<close> with size 1 for a byte
  that begins no valid encoding, with size 0 for the empty string.
\<close>

fun decode_rune :: "string \<Rightarrow> nat \<times> nat" where
  "decode_rune [] = (rune_error, 0)"
| "decode_rune (c # s) =
     (let b = byte c; n = rune_len b; ts = take (n - 1) s in
      if n = 1 then (b, 1)
      else if 2 \<le> n \<and> length ts = n - 1 \<and> tail_ok b ts then (rune_value b ts, n)
      else (rune_error, 1))"

definition invalid_rune :: "nat \<times> nat \<Rightarrow> bool" where
  "invalid_rune rs \<longleftrightarrow> fst rs = rune_error \<and> snd rs = 1"

lemma decode_rune_size: "s \<noteq> [] \<Longrightarrow> 0 < snd (decode_rune s) \<and> snd (decode_rune s) \<le> length s"
  by (cases s) (auto simp: Let_def)

text \<open>A valid rune is decoded from its own bytes alone.\<close>

lemma decode_rune_local:
  assumes "s \<noteq> []" and "\<not> invalid_rune (decode_rune s)"
  shows "decode_rune (take (snd (decode_rune s)) s @ t) = decode_rune s"
proof -
  obtain c s' where s: "s = c # s'" using assms by (cases s) auto
  let ?n = "rune_len (byte c)"
  have ok: "?n = 1 \<or> 2 \<le> ?n \<and> length (take (?n - 1) s') = ?n - 1 \<and> tail_ok (byte c) (take (?n - 1) s')"
    using assms s by (auto simp: invalid_rune_def Let_def split: if_splits)
  then have size: "snd (decode_rune s) = ?n"
    using s by (auto simp: Let_def)
  have "take (?n - 1) (take (?n - 1) s' @ t) = take (?n - 1) s'" if "?n \<noteq> 1"
    using ok that by auto
  then show ?thesis
    using ok s size by (cases "?n = 1") (auto simp: Let_def take_Cons')
qed

text \<open>The encodings of more than one byte are of runes from 0x80 on.\<close>

lemma decode_rune_multi:
  assumes "decode_rune s = (r, n)" and "2 \<le> n"
  shows "0x80 \<le> r"
proof -
  obtain c s' where s: "s = c # s'" using assms by (cases s) auto
  let ?b = "byte c"
  define ts where "ts = take (rune_len ?b - 1) s'"
  have ok: "length ts = rune_len ?b - 1" "tail_ok ?b ts" "r = rune_value ?b ts" "n = rune_len ?b"
    using assms s by (auto simp: Let_def ts_def split: if_splits)
  have n: "n = 2 \<or> n = 3 \<or> n = 4" using ok assms by (auto simp: rune_len_def split: if_splits)
  then consider c1 where "ts = [c1]" "n = 2" | c1 c2 where "ts = [c1, c2]" "n = 3"
    | c1 c2 c3 where "ts = [c1, c2, c3]" "n = 4"
    using ok(1,4) by (auto simp: length_Suc_conv eval_nat_numeral)
  then show ?thesis
  proof cases
    case 1
    then have "0xC2 \<le> ?b" "?b < 0xE0" using ok by (auto simp: rune_len_def split: if_splits)
    then have "2 \<le> ?b mod 32" using mod_window[of 6 32 ?b] by simp
    with 1 ok \<open>?b < 0xE0\<close> show ?thesis by (simp add: rune_value_def lead_bits_def)
  next
    case 2
    then have b: "0xE0 \<le> ?b" "?b < 0xF0" using ok by (auto simp: rune_len_def split: if_splits)
    then have c1: "cont_byte (second_lo ?b) (second_hi ?b) c1" using 2 ok by (simp add: tail_ok_def)
    have "0x80 \<le> (?b mod 16) * 4096 + (byte c1 mod 64) * 64"
    proof (cases "?b = 0xE0")
      case True
      then have "0xA0 \<le> byte c1" "byte c1 \<le> 0xBF"
        using c1 by (auto simp: cont_byte_def second_lo_def second_hi_def)
      then have "32 \<le> byte c1 mod 64" using mod_window[of 2 64 "byte c1"] by simp
      then show ?thesis by simp
    next
      case False
      then have "1 \<le> ?b mod 16" using b mod_window[of 14 16 ?b] by simp
      then show ?thesis by simp
    qed
    with 2 ok b show ?thesis by (simp add: rune_value_def lead_bits_def algebra_simps)
  next
    case 3
    then have b: "0xF0 \<le> ?b" "?b < 0xF5" using ok by (auto simp: rune_len_def split: if_splits)
    then have c1: "cont_byte (second_lo ?b) (second_hi ?b) c1" using 3 ok by (simp add: tail_ok_def)
    have "0x80 \<le> (?b mod 8) * 262144 + (byte c1 mod 64) * 4096"
    proof (cases "?b = 0xF0")
      case True
      then have "0x90 \<le> byte c1" "byte c1 \<le> 0xBF"
        using c1 by (auto simp: cont_byte_def second_lo_def second_hi_def)
      then have "16 \<le> byte c1 mod 64" using mod_window[of 2 64 "byte c1"] by simp
      then show ?thesis by simp
    next
      case False
      then have "1 \<le> ?b mod 8" using b mod_window[of 30 8 ?b] by simp
      then show ?thesis by simp
    qed
    with 3 ok b show ?thesis by (simp add: rune_value_def lead_bits_def algebra_simps)
  qed
qed

section \<open>Cleaning\<close>

definition max_excerpt :: nat where "max_excerpt = 512"

definition max_text :: nat where "max_text = 4096"

definition truncation_marker :: string where
  "truncation_marker = ''... [truncated]''"

definition hex_digits :: string where
  "hex_digits = ''0123456789abcdef''"

definition escape_byte :: "nat \<Rightarrow> string" where
  "escape_byte b = [CHR 0x5C, CHR ''x'', hex_digits ! (b div 16 mod 16), hex_digits ! (b mod 16)]"

text \<open>What one step of the loop writes, and how many bytes of input it consumes.\<close>

definition control_rune :: "nat \<Rightarrow> bool" where
  "control_rune r \<longleftrightarrow> r < 0x20 \<or> r = 0x7F \<or> (0x80 \<le> r \<and> r \<le> 0x9F)"

definition piece :: "string \<Rightarrow> string" where
  "piece s = (let (r, n) = decode_rune s in
     if r = rune_error \<and> n = 1 then escape_byte (byte (hd s))
     else if r = 0x09 then [CHR 0x09]
     else if control_rune r then escape_byte (r mod 256)
     else take n s)"

text \<open>The loop: the budget is spent on output, and the loop ends when a piece does not fit.\<close>

function clean_loop :: "nat \<Rightarrow> string \<Rightarrow> string \<Rightarrow> string \<times> bool" where
  "clean_loop mx b s =
     (if s = [] then (b, False)
      else if mx < length b + length (piece s) then (b, True)
      else clean_loop mx (b @ piece s) (drop (snd (decode_rune s)) s))"
  by pat_completeness auto
termination
  by (relation "measure (\<lambda>(mx, b, s). length s)") (auto dest: decode_rune_size)

declare clean_loop.simps [simp del]

definition clean :: "string \<Rightarrow> nat \<Rightarrow> string" where
  "clean s mx = (let (b, truncated) = clean_loop mx [] s in
     if truncated then b @ truncation_marker else b)"

definition Text :: "string \<Rightarrow> string" where
  "Text s = clean s max_text"

definition Excerpt :: "string \<Rightarrow> string" where
  "Excerpt s = clean s max_excerpt"

section \<open>What comes out is safe\<close>

text \<open>
  Text is safe when it decodes without an error and holds no control rune but the tab:
  nothing in it addresses a terminal.
\<close>

function runes :: "string \<Rightarrow> (nat \<times> nat) list" where
  "runes s = (if s = [] then [] else decode_rune s # runes (drop (snd (decode_rune s)) s))"
  by pat_completeness auto
termination
  by (relation "measure length") (auto dest: decode_rune_size)

declare runes.simps [simp del]

definition safe_rune :: "nat \<times> nat \<Rightarrow> bool" where
  "safe_rune rn \<longleftrightarrow> \<not> invalid_rune rn \<and> (fst rn = 0x09 \<or> \<not> control_rune (fst rn))"

definition safe_text :: "string \<Rightarrow> bool" where
  "safe_text s \<longleftrightarrow> list_all safe_rune (runes s)"

lemma runes_Nil [simp]: "runes [] = []"
  by (simp add: runes.simps)

lemma safe_text_Nil [simp]: "safe_text []"
  by (simp add: safe_text_def)

lemma safe_text_step:
  "s \<noteq> [] \<Longrightarrow> safe_text s \<longleftrightarrow>
     safe_rune (decode_rune s) \<and> safe_text (drop (snd (decode_rune s)) s)"
  unfolding safe_text_def by (subst runes.simps) simp

lemma runes_append:
  "\<forall>rn \<in> set (runes s). \<not> invalid_rune rn \<Longrightarrow> runes (s @ t) = runes s @ runes t"
proof (induction s rule: runes.induct)
  case (1 s)
  show ?case
  proof (cases "s = []")
    case True
    then show ?thesis by simp
  next
    case False
    let ?n = "snd (decode_rune s)"
    have rs: "runes s = decode_rune s # runes (drop ?n s)"
      using False by (subst runes.simps) simp
    have valid: "\<not> invalid_rune (decode_rune s)"
      using "1.prems" rs by simp
    have n: "?n \<le> length s"
      using decode_rune_size[OF False] by simp
    have d: "decode_rune (s @ t) = decode_rune s"
      using decode_rune_local[OF False valid, of "drop ?n s @ t"]
      by (metis append_assoc append_take_drop_id)
    have "runes (s @ t) = decode_rune s # runes (drop ?n s @ t)"
      using False d n by (subst runes.simps) simp
    also have "runes (drop ?n s @ t) = runes (drop ?n s) @ runes t"
      using "1.IH" False "1.prems" rs by simp
    finally show ?thesis using rs by simp
  qed
qed

lemma safe_text_append: "safe_text s \<Longrightarrow> safe_text t \<Longrightarrow> safe_text (s @ t)"
  unfolding safe_text_def list_all_iff
  by (subst runes_append) (auto simp: safe_rune_def)

lemma safe_text_ascii: "\<forall>c \<in> set s. 0x20 \<le> byte c \<and> byte c < 0x7F \<Longrightarrow> safe_text s"
proof (induction s)
  case Nil
  then show ?case by simp
next
  case (Cons c s)
  then have "decode_rune (c # s) = (byte c, 1)"
    by (simp add: rune_len_def Let_def)
  with Cons show ?case
    by (simp add: safe_text_step safe_rune_def invalid_rune_def control_rune_def rune_error_def)
qed

lemma hex_digits_printable: "n < 16 \<Longrightarrow> 0x20 \<le> byte (hex_digits ! n) \<and> byte (hex_digits ! n) < 0x7F"
proof -
  have "\<forall>n \<in> set [0..<16]. 0x20 \<le> byte (hex_digits ! n) \<and> byte (hex_digits ! n) < 0x7F"
    by code_simp
  then show "n < 16 \<Longrightarrow> ?thesis" by simp
qed

lemma safe_escape_byte: "safe_text (escape_byte b)"
proof -
  have "byte (CHR 0x5C) = 92" "byte (CHR ''x'') = 120" by (simp_all add: byte_def)
  then show ?thesis
    using hex_digits_printable[of "b div 16 mod 16"] hex_digits_printable[of "b mod 16"]
    by (intro safe_text_ascii) (auto simp: escape_byte_def)
qed

lemma safe_piece: "s \<noteq> [] \<Longrightarrow> safe_text (piece s)"
proof -
  assume ne: "s \<noteq> []"
  obtain r n where rn: "decode_rune s = (r, n)" by fastforce
  have tab: "safe_text [CHR 0x09]"
    by (simp add: safe_text_step rune_len_def byte_def safe_rune_def invalid_rune_def rune_error_def)
  have valid: "safe_text (take n s)" if "\<not> (r = rune_error \<and> n = 1)" "\<not> control_rune r"
  proof -
    have inv: "\<not> invalid_rune (decode_rune s)" using that rn by (simp add: invalid_rune_def)
    have d: "decode_rune (take n s) = (r, n)"
      using decode_rune_local[OF ne inv, of "[]"] rn by simp
    have "take n s \<noteq> []" using decode_rune_size[OF ne] rn by auto
    then show ?thesis
      using d inv that rn by (simp add: safe_text_step safe_rune_def)
  qed
  show ?thesis
    using safe_escape_byte tab valid by (auto simp: piece_def rn)
qed

lemma clean_loop_safe:
  "safe_text b \<Longrightarrow> safe_text (fst (clean_loop mx b s))"
proof (induction mx b s rule: clean_loop.induct)
  case (1 mx b s)
  then show ?case
    by (subst clean_loop.simps) (auto intro: safe_text_append safe_piece)
qed

lemma clean_loop_length:
  "length b \<le> mx \<Longrightarrow> length (fst (clean_loop mx b s)) \<le> mx"
proof (induction mx b s rule: clean_loop.induct)
  case (1 mx b s)
  then show ?case by (subst clean_loop.simps) auto
qed

lemma safe_marker: "safe_text truncation_marker"
  by (rule safe_text_ascii) (simp add: truncation_marker_def byte_def)

lemma clean_safe: "safe_text (clean s mx)"
  using clean_loop_safe[of "[]" mx s] safe_marker
  by (auto simp: clean_def safe_text_append split: prod.split)

lemma clean_length: "length (clean s mx) \<le> mx + length truncation_marker"
  using clean_loop_length[of "[]" mx s]
  by (auto simp: clean_def split: prod.split)

section \<open>Safe text passes unchanged\<close>

lemma piece_safe: "s \<noteq> [] \<Longrightarrow> safe_rune (decode_rune s) \<Longrightarrow> piece s = take (snd (decode_rune s)) s"
proof -
  assume ne: "s \<noteq> []" and safe: "safe_rune (decode_rune s)"
  obtain r n where rn: "decode_rune s = (r, n)" by fastforce
  have "take n s = [CHR 0x09]" if r: "r = 0x09"
  proof (cases s)
    case (Cons c s')
    have "n = 1" using decode_rune_multi[OF rn] decode_rune_size[OF ne] rn r by fastforce
    moreover from this have "byte c = byte (CHR 0x09)"
      using rn r Cons by (auto simp: Let_def rune_error_def byte_def split: if_splits)
    ultimately show ?thesis using Cons by simp
  qed (use ne in simp)
  then show ?thesis
    using safe by (auto simp: piece_def rn safe_rune_def invalid_rune_def control_rune_def)
qed

lemma clean_loop_safe_id:
  "safe_text s \<Longrightarrow> length b + length s \<le> mx \<Longrightarrow> clean_loop mx b s = (b @ s, False)"
proof (induction mx b s rule: clean_loop.induct)
  case (1 mx b s)
  show ?case
  proof (cases "s = []")
    case True
    then show ?thesis by (subst clean_loop.simps) simp
  next
    case False
    let ?n = "snd (decode_rune s)"
    have safe: "safe_rune (decode_rune s)" "safe_text (drop ?n s)"
      using "1.prems" False safe_text_step by auto
    have p: "piece s = take ?n s" using piece_safe[OF False safe(1)] .
    have n: "?n \<le> length s" using decode_rune_size[OF False] by simp
    then have fits: "\<not> mx < length b + length (piece s)" using "1.prems" p by simp
    have "clean_loop mx (b @ piece s) (drop ?n s) = ((b @ piece s) @ drop ?n s, False)"
      using "1.IH"[OF False fits safe(2)] "1.prems"(2) p n by simp
    then show ?thesis
      using False fits p by (subst clean_loop.simps) simp
  qed
qed

lemma clean_id: "safe_text s \<Longrightarrow> length s \<le> mx \<Longrightarrow> clean s mx = s"
  by (simp add: clean_def clean_loop_safe_id)

lemma Text_id: "safe_text s \<Longrightarrow> length s \<le> max_text \<Longrightarrow> Text s = s"
  by (simp add: Text_def clean_id)

section \<open>Properties\<close>

text \<open>
  C19: cleaning. Whatever bytes a host put in a file or a name, the cleaned text is well-formed
  UTF-8 with no control rune but the tab, it is at most the budget plus the truncation marker
  long, and text that was already safe and within the budget is returned unchanged.
\<close>

theorem clean_is_safe_and_bounded:
  "safe_text (clean s mx) \<and> length (clean s mx) \<le> mx + length truncation_marker
   \<and> (safe_text s \<and> length s \<le> mx \<longrightarrow> clean s mx = s)"
  by (simp add: clean_safe clean_length clean_id)

theorem clean_is_safe_and_bounded_witness:
  "clean ''plain text'' 512 = ''plain text''"
proof -
  have "safe_text ''plain text''" by (rule safe_text_ascii) (simp add: byte_def)
  then show ?thesis using clean_is_safe_and_bounded[of "''plain text''" 512] by simp
qed

end
