(* ===== verification/Sha256.thy ===== *)
theory Sha256
  imports Prelude "HOL-Library.Word"
begin

unbundle bit_operations_syntax

text \<open>
  The standard-library functions behind \<open>finding.Fingerprint\<close>: crypto/sha256.Sum256 (FIPS 180-4, on
  32-bit words that wrap) and encoding/hex.EncodeToString. Nothing here is specific to the
  repository; what the components rely on is that the digest has 32 bytes and that its hexadecimal
  form consists of lowercase hexadecimal digits.
\<close>

type_synonym w32 = "32 word"

section \<open>The compression function\<close>

definition sha_k :: "w32 list" where
  "sha_k = [
    1116352408, 1899447441, 3049323471, 3921009573, 961987163, 1508970993, 2453635748, 2870763221,
    3624381080, 310598401, 607225278, 1426881987, 1925078388, 2162078206, 2614888103, 3248222580,
    3835390401, 4022224774, 264347078, 604807628, 770255983, 1249150122, 1555081692, 1996064986,
    2554220882, 2821834349, 2952996808, 3210313671, 3336571891, 3584528711, 113926993, 338241895,
    666307205, 773529912, 1294757372, 1396182291, 1695183700, 1986661051, 2177026350, 2456956037,
    2730485921, 2820302411, 3259730800, 3345764771, 3516065817, 3600352804, 4094571909, 275423344,
    430227734, 506948616, 659060556, 883997877, 958139571, 1322822218, 1537002063, 1747873779,
    1955562222, 2024104815, 2227730452, 2361852424, 2428436474, 2756734187, 3204031479, 3329325298]"

record sha_state =
  st_a :: w32
  st_b :: w32
  st_c :: w32
  st_d :: w32
  st_e :: w32
  st_f :: w32
  st_g :: w32
  st_h :: w32

definition sha_init :: sha_state where
  "sha_init = \<lparr>st_a = 1779033703, st_b = 3144134277, st_c = 1013904242, st_d = 2773480762,
     st_e = 1359893119, st_f = 2600822924, st_g = 528734635, st_h = 1541459225\<rparr>"

definition rotr :: "nat \<Rightarrow> w32 \<Rightarrow> w32" where
  "rotr n x = drop_bit n x OR push_bit (32 - n) x"

definition sha_round :: "sha_state \<Rightarrow> w32 \<times> w32 \<Rightarrow> sha_state" where
  "sha_round st kw = (let (k, w) = kw;
     s1 = rotr 6 (st_e st) XOR rotr 11 (st_e st) XOR rotr 25 (st_e st);
     ch = (st_e st AND st_f st) XOR (NOT (st_e st) AND st_g st);
     t1 = st_h st + s1 + ch + k + w;
     s0 = rotr 2 (st_a st) XOR rotr 13 (st_a st) XOR rotr 22 (st_a st);
     maj = (st_a st AND st_b st) XOR (st_a st AND st_c st) XOR (st_b st AND st_c st);
     t2 = s0 + maj
   in \<lparr>st_a = t1 + t2, st_b = st_a st, st_c = st_b st, st_d = st_c st,
       st_e = st_d st + t1, st_f = st_e st, st_g = st_f st, st_h = st_g st\<rparr>)"

text \<open>The message schedule: 16 words extended to 64, the most recent word first.\<close>

fun sha_extend :: "nat \<Rightarrow> w32 list \<Rightarrow> w32 list" where
  "sha_extend 0 ws = ws"
| "sha_extend (Suc n) ws = (let w2 = ws ! 1; w7 = ws ! 6; w15 = ws ! 14; w16 = ws ! 15;
     s0 = rotr 7 w15 XOR rotr 18 w15 XOR drop_bit 3 w15;
     s1 = rotr 17 w2 XOR rotr 19 w2 XOR drop_bit 10 w2
   in sha_extend n ((w16 + s0 + w7 + s1) # ws))"

definition sha_block :: "sha_state \<Rightarrow> w32 list \<Rightarrow> sha_state" where
  "sha_block st ws = (let st' = foldl sha_round st (zip sha_k (rev (sha_extend 48 (rev ws))))
   in \<lparr>st_a = st_a st + st_a st', st_b = st_b st + st_b st', st_c = st_c st + st_c st', st_d = st_d st + st_d st',
       st_e = st_e st + st_e st', st_f = st_f st + st_f st', st_g = st_g st + st_g st', st_h = st_h st + st_h st'\<rparr>)"

section \<open>Padding and digest\<close>

definition be_bytes :: "nat \<Rightarrow> nat \<Rightarrow> nat list" where
  "be_bytes n v = map (\<lambda>i. v div 256 ^ i mod 256) (rev [0..<n])"

definition sha_pad :: "nat list \<Rightarrow> nat list" where
  "sha_pad m = m @ 0x80 # replicate ((119 - length m mod 64) mod 64) 0 @ be_bytes 8 (8 * length m)"

fun be_words :: "nat list \<Rightarrow> w32 list" where
  "be_words (a # b # c # d # bs) =
     word_of_nat (((a * 256 + b) * 256 + c) * 256 + d) # be_words bs"
| "be_words _ = []"

function blocks16 :: "w32 list \<Rightarrow> w32 list list" where
  "blocks16 ws = (if length ws < 16 then [] else take 16 ws # blocks16 (drop 16 ws))"
  by pat_completeness auto
termination
  by (relation "measure length") auto

declare blocks16.simps [simp del]

definition sum256 :: "nat list \<Rightarrow> nat list" where
  "sum256 m = (let st = foldl sha_block sha_init (blocks16 (be_words (sha_pad m)))
   in concat (map (\<lambda>w. be_bytes 4 (unat w))
       [st_a st, st_b st, st_c st, st_d st, st_e st, st_f st, st_g st, st_h st]))"

definition hex_digit :: "nat \<Rightarrow> char" where
  "hex_digit n = ''0123456789abcdef'' ! n"

definition hex_encode :: "nat list \<Rightarrow> string" where
  "hex_encode bs = concat (map (\<lambda>b. [hex_digit (b div 16 mod 16), hex_digit (b mod 16)]) bs)"

definition is_hex :: "char \<Rightarrow> bool" where
  "is_hex c \<longleftrightarrow> (48 \<le> byte c \<and> byte c \<le> 57) \<or> (97 \<le> byte c \<and> byte c \<le> 102)"

lemma length_be_bytes [simp]: "length (be_bytes n v) = n"
  by (simp add: be_bytes_def)

lemma length_sum256: "length (sum256 m) = 32"
  by (simp add: sum256_def Let_def)

lemma length_hex_encode: "length (hex_encode bs) = 2 * length bs"
  by (induction bs) (auto simp: hex_encode_def)

lemma hex_digit_is_hex: "n < 16 \<Longrightarrow> is_hex (hex_digit n)"
proof -
  have "\<forall>n \<in> set [0..<16]. is_hex (hex_digit n)" by code_simp
  then show "n < 16 \<Longrightarrow> ?thesis" by simp
qed

lemma hex_encode_is_hex: "\<forall>c \<in> set (hex_encode bs). is_hex c"
  by (auto simp: hex_encode_def hex_digit_is_hex)

end
