(* ===== verification/Finding.thy ===== *)
theory Finding
  imports Sanitize Sha256
begin

text \<open>
  internal/finding/finding.go: the output contract. Go's string-typed enumerations are datatypes
  with one constructor per constant and one for the zero value \<open>""\<close>. Evidence is built by
  \<open>new_evidence\<close>, which sanitises; a finding's identity is its \<open>fingerprint\<close>.
\<close>

section \<open>Enumerations\<close>

datatype result = NoResult | Pass | Fail | NotApplicable | Skipped | Unknown

definition scores :: "result \<Rightarrow> bool" where
  "scores r \<longleftrightarrow> r = Pass \<or> r = Fail"

datatype severity = NoSeverity | Info | Low | Medium | High | Critical

fun weight :: "severity \<Rightarrow> nat" where
  "weight Critical = 4"
| "weight High = 3"
| "weight Medium = 2"
| "weight Low = 1"
| "weight _ = 0"

fun sev_index :: "severity \<Rightarrow> nat" where
  "sev_index NoSeverity = 0"
| "sev_index Info = 1"
| "sev_index Low = 2"
| "sev_index Medium = 3"
| "sev_index High = 4"
| "sev_index Critical = 5"

lemma sev_index_inject [simp]: "sev_index a = sev_index b \<longleftrightarrow> a = b"
  by (cases a; cases b) auto

text \<open>Severities are ordered by impact.\<close>

instantiation severity :: linorder
begin

definition less_eq_severity :: "severity \<Rightarrow> severity \<Rightarrow> bool" where
  "a \<le> b \<longleftrightarrow> sev_index a \<le> sev_index b"

definition less_severity :: "severity \<Rightarrow> severity \<Rightarrow> bool" where
  "a < b \<longleftrightarrow> sev_index a < sev_index b"

instance
  by standard (auto simp: less_eq_severity_def less_severity_def simp flip: sev_index_inject)

end

lemma weight_mono: "a \<le> b \<Longrightarrow> weight a \<le> weight b"
  by (cases a; cases b) (auto simp: less_eq_severity_def)

datatype unknown_reason =
    NoReason
  | ReasonFactMissing
  | ReasonPermission
  | ReasonParse
  | ReasonTruncated
  | ReasonFactVersion
  | ReasonAmbiguousState
  | ReasonInternal

section \<open>Evidence and findings\<close>

record evidence =
  ev_source :: string
  ev_line :: int
  ev_excerpt :: string
  ev_sha256 :: string

definition new_evidence :: "string \<Rightarrow> int \<Rightarrow> string \<Rightarrow> string \<Rightarrow> evidence" where
  "new_evidence source line excerpt sha =
     \<lparr>ev_source = Text source, ev_line = line, ev_excerpt = Excerpt excerpt, ev_sha256 = sha\<rparr>"

record remediation =
  rem_summary :: string
  rem_effort :: string
  rem_steps :: "string list"
  rem_commands :: "string list"
  rem_caution :: string

record control_ref =
  cr_framework :: string
  cr_control :: string

record reference =
  ref_title :: string
  ref_url :: string

record suppression =
  sup_justification :: string
  sup_expires_at :: string
  sup_original :: result

record finding =
  f_check_id :: string
  f_module :: string
  f_title :: string
  f_result :: result
  f_reason :: unknown_reason
  f_severity :: severity
  f_base_severity :: severity
  f_detail :: string
  f_evidence :: "evidence list"
  f_remediation :: "remediation option"
  f_mappings :: "control_ref list"
  f_references :: "reference list"
  f_fingerprint :: string
  f_subject :: string
  f_skipped_by :: string
  f_suppression :: "suppression option"

definition safe_evidence :: "evidence \<Rightarrow> bool" where
  "safe_evidence e \<longleftrightarrow> safe_text (ev_source e) \<and> safe_text (ev_excerpt e)"

lemma safe_new_evidence [simp]: "safe_evidence (new_evidence s l x d)"
  by (simp add: safe_evidence_def new_evidence_def Text_def Excerpt_def clean_safe)

section \<open>Identity\<close>

definition fingerprint :: "string \<Rightarrow> string \<Rightarrow> string" where
  "fingerprint check_id subject =
     hex_encode (take 16 (sum256 (map byte (check_id @ CHR 0x00 # trim_space subject))))"

lemma length_fingerprint: "length (fingerprint c s) = 32"
  by (simp add: fingerprint_def length_hex_encode length_sum256)

lemma fingerprint_is_hex: "\<forall>ch \<in> set (fingerprint c s). is_hex ch"
  by (simp add: fingerprint_def hex_encode_is_hex)

end
