(* ===== verification/Fact.thy ===== *)
theory Fact
  imports Prelude "HOL-Library.AList"
begin

text \<open>
  internal/fact/fact.go: the set of facts and fact errors of one collection run. A Go map is an
  association list with distinct keys (every traversal in the code sorts, so insertion order never
  shows); a fact is a record of its ID, its version, the version an opaque fact was written at,
  and a payload whose type the checks choose. The three-valued \<open>get\<close> is the code's generic
  function, with Go's type assertion as a partial projection.
\<close>

section \<open>Go maps\<close>

type_synonym 'v gomap = "(string \<times> 'v) list"

definition lookup :: "'v gomap \<Rightarrow> string \<Rightarrow> 'v option" where
  "lookup m k = map_of m k"

definition put :: "string \<Rightarrow> 'v \<Rightarrow> 'v gomap \<Rightarrow> 'v gomap" where
  "put k v m = AList.update k v m"

definition remove :: "string \<Rightarrow> 'v gomap \<Rightarrow> 'v gomap" where
  "remove k m = AList.delete k m"

definition keys :: "'v gomap \<Rightarrow> string list" where
  "keys m = sort (map fst m)"

definition wf_map :: "'v gomap \<Rightarrow> bool" where
  "wf_map m \<longleftrightarrow> distinct (map fst m)"

text \<open>What the code relies on of a map, whatever represents it.\<close>

locale go_map =
  fixes empty :: "'m"
    and lkp :: "'m \<Rightarrow> 'k::linorder \<Rightarrow> 'v option"
    and ins :: "'k \<Rightarrow> 'v \<Rightarrow> 'm \<Rightarrow> 'm"
    and del :: "'k \<Rightarrow> 'm \<Rightarrow> 'm"
    and ks :: "'m \<Rightarrow> 'k list"
    and wf :: "'m \<Rightarrow> bool"
  assumes wf_empty: "wf empty"
    and wf_ins: "wf m \<Longrightarrow> wf (ins k v m)"
    and wf_del: "wf m \<Longrightarrow> wf (del k m)"
    and lkp_empty: "lkp empty k = None"
    and lkp_ins: "lkp (ins k v m) k' = (if k' = k then Some v else lkp m k')"
    and lkp_del: "wf m \<Longrightarrow> lkp (del k m) k' = (if k' = k then None else lkp m k')"
    and set_ks: "set (ks m) = {k. lkp m k \<noteq> None}"
    and sorted_ks: "sorted (ks m)"
    and distinct_ks: "wf m \<Longrightarrow> distinct (ks m)"
begin

text \<open>The key list is a function of the lookups alone: two maps that agree list the same keys.\<close>

lemma ks_unique: "wf m \<Longrightarrow> wf n \<Longrightarrow> (\<And>k. lkp m k = lkp n k) \<Longrightarrow> ks m = ks n"
  by (intro sorted_distinct_set_unique) (auto simp: sorted_ks distinct_ks set_ks)

lemma mem_ks_ins: "k' \<in> set (ks (ins k v m)) \<longleftrightarrow> k' = k \<or> k' \<in> set (ks m)"
  by (auto simp: set_ks lkp_ins)

lemma mem_ks_del: "wf m \<Longrightarrow> k' \<in> set (ks (del k m)) \<longleftrightarrow> k' \<noteq> k \<and> k' \<in> set (ks m)"
  by (auto simp: set_ks lkp_del)

lemma lkp_ins_commute:
  "k \<noteq> k' \<Longrightarrow> lkp (ins k v (ins k' v' m)) j = lkp (ins k' v' (ins k v m)) j"
  by (simp add: lkp_ins)

end

interpretation gm: go_map "[]" lookup put remove keys wf_map
  by unfold_locales
    (auto simp: wf_map_def put_def remove_def lookup_def keys_def distinct_update distinct_delete
      update_conv' delete_conv' map_of_eq_None_iff simp flip: not_None_eq)

lemmas gomap_simps [simp, fact_simps] =
  gm.lkp_empty gm.lkp_ins gm.lkp_del gm.wf_empty gm.wf_ins gm.wf_del

section \<open>Facts and fact errors\<close>

type_synonym fact_id = string

datatype error_kind =
    ErrNotCollected
  | ErrPermission
  | ErrTimeout
  | ErrParse
  | ErrTruncated
  | ErrUnsupported
  | ErrInternal
  | OtherKind string

record fact_error =
  fe_fact :: fact_id
  fe_kind :: error_kind
  fe_msg :: string
  fe_path :: string

record 'v fact =
  fact_id :: fact_id
  fact_version :: int
  opaque_version :: "int option"
  payload :: 'v

fun kind_str :: "error_kind \<Rightarrow> string" where
  "kind_str ErrNotCollected = ''not_collected''"
| "kind_str ErrPermission = ''permission''"
| "kind_str ErrTimeout = ''timeout''"
| "kind_str ErrParse = ''parse''"
| "kind_str ErrTruncated = ''truncated''"
| "kind_str ErrUnsupported = ''unsupported''"
| "kind_str ErrInternal = ''internal''"
| "kind_str (OtherKind k) = k"

definition error_str :: "fact_error \<Rightarrow> string" where
  "error_str e =
     (if fe_path e \<noteq> [] then
        fe_fact e @ '': '' @ kind_str (fe_kind e) @ '': '' @ fe_msg e @ '' ('' @ fe_path e @ '')''
      else fe_fact e @ '': '' @ kind_str (fe_kind e) @ '': '' @ fe_msg e)"

section \<open>The fact set\<close>

record 'v fact_set =
  facts :: "'v fact gomap"
  errors :: "fact_error gomap"

definition new_set :: "'v fact_set" where
  "new_set = \<lparr>facts = [], errors = []\<rparr>"

definition Put :: "'v fact \<Rightarrow> 'v fact_set \<Rightarrow> 'v fact_set" where
  "Put f s = s\<lparr>facts := put (fact_id f) f (facts s), errors := remove (fact_id f) (errors s)\<rparr>"

definition PutError :: "fact_error \<Rightarrow> 'v fact_set \<Rightarrow> 'v fact_set" where
  "PutError e s = s\<lparr>errors := put (fe_fact e) e (errors s), facts := remove (fe_fact e) (facts s)\<rparr>"

definition Err :: "'v fact_set \<Rightarrow> fact_id \<Rightarrow> fact_error option" where
  "Err s i = lookup (errors s) i"

definition Errors :: "'v fact_set \<Rightarrow> fact_error list" where
  "Errors s = map (\<lambda>i. the (lookup (errors s) i)) (keys (errors s))"

definition Opaque :: "'v fact_set \<Rightarrow> fact_id \<Rightarrow> int option" where
  "Opaque s i = (case lookup (facts s) i of None \<Rightarrow> None | Some f \<Rightarrow> opaque_version f)"

definition IDs :: "'v fact_set \<Rightarrow> fact_id list" where
  "IDs s = keys (facts s)"

text \<open>
  The three states a check must tell apart. \<open>proj\<close> is the type assertion \<open>f.(T)\<close>;
  \<open>type_name\<close> and \<open>want\<close> are what \<open>%T\<close> prints for the stored fact and for T.
\<close>

datatype 't got = Present 't | Failed fact_error | Missing

definition get ::
  "('v fact \<Rightarrow> 't option) \<Rightarrow> ('v fact \<Rightarrow> string) \<Rightarrow> string \<Rightarrow> 'v fact_set \<Rightarrow> fact_id \<Rightarrow> 't got"
where
  "get proj type_name want s i =
     (case lookup (errors s) i of
        Some e \<Rightarrow> Failed e
      | None \<Rightarrow>
         (case lookup (facts s) i of
            None \<Rightarrow> Missing
          | Some f \<Rightarrow>
             (case proj f of
                Some t \<Rightarrow> Present t
              | None \<Rightarrow> Failed \<lparr>fe_fact = i, fe_kind = ErrInternal,
                  fe_msg = ''fact '' @ i @ '' is '' @ type_name f @ '', not '' @ want,
                  fe_path = []\<rparr>)))"

text \<open>
  Well-formedness: keys are distinct, a fact is stored under its own ID, an error under the fact
  it is about, and no ID has both a fact and an error.
\<close>

definition wf_set :: "'v fact_set \<Rightarrow> bool" where
  "wf_set s \<longleftrightarrow>
     wf_map (facts s) \<and> wf_map (errors s)
     \<and> (\<forall>i f. lookup (facts s) i = Some f \<longrightarrow> fact_id f = i)
     \<and> (\<forall>i e. lookup (errors s) i = Some e \<longrightarrow> fe_fact e = i)
     \<and> (\<forall>i. lookup (facts s) i = None \<or> lookup (errors s) i = None)"

lemma wf_new_set [simp]: "wf_set new_set"
  by (simp add: wf_set_def new_set_def)

lemma wf_Put: "wf_set s \<Longrightarrow> wf_set (Put f s)"
  by (auto simp: wf_set_def Put_def split: if_splits)

lemma wf_PutError: "wf_set s \<Longrightarrow> wf_set (PutError e s)"
  by (auto simp: wf_set_def PutError_def split: if_splits)

lemma wf_set_maps [dest]: "wf_set s \<Longrightarrow> wf_map (facts s)" "wf_set s \<Longrightarrow> wf_map (errors s)"
  by (auto simp: wf_set_def)

lemma lookup_facts_Put [simp]:
  "lookup (facts (Put f s)) i = (if i = fact_id f then Some f else lookup (facts s) i)"
  by (simp add: Put_def)

lemma lookup_facts_PutError [simp]:
  "wf_set s \<Longrightarrow>
     lookup (facts (PutError e s)) i = (if i = fe_fact e then None else lookup (facts s) i)"
  by (auto simp: PutError_def)

lemma Err_Put [simp]: "wf_set s \<Longrightarrow> Err (Put f s) i = (if i = fact_id f then None else Err s i)"
  by (auto simp: Put_def Err_def)

lemma Err_PutError [simp]: "Err (PutError e s) i = (if i = fe_fact e then Some e else Err s i)"
  by (simp add: PutError_def Err_def)

lemma Err_new_set [simp]: "Err new_set i = None"
  by (simp add: Err_def new_set_def)

lemma set_IDs: "set (IDs s) = {i. lookup (facts s) i \<noteq> None}"
  by (simp add: IDs_def gm.set_ks)

lemma IDs_sorted: "sorted (IDs s)"
  by (simp add: IDs_def gm.sorted_ks)

lemma IDs_distinct: "wf_set s \<Longrightarrow> distinct (IDs s)"
  by (auto simp: IDs_def intro: gm.distinct_ks)

lemma set_Errors: "set (Errors s) = {e. \<exists>i. Err s i = Some e}"
  by (force simp: Errors_def gm.set_ks Err_def)

lemma Errors_facts: "wf_set s \<Longrightarrow> map fe_fact (Errors s) = keys (errors s)"
  by (auto simp: Errors_def comp_def wf_set_def gm.set_ks intro!: map_idI)

lemma Err_not_fact: "wf_set s \<Longrightarrow> Err s i = Some e \<Longrightarrow> lookup (facts s) i = None"
  by (auto simp: wf_set_def Err_def)

lemma get_Failed_Err: "Err s i = Some e \<Longrightarrow> get p t w s i = Failed e"
  by (simp add: get_def Err_def)

lemma get_Missing_iff: "get p t w s i = Missing \<longleftrightarrow> Err s i = None \<and> i \<notin> set (IDs s)"
  by (auto simp: get_def Err_def set_IDs split: option.split)

section \<open>Recording errors\<close>

text \<open>
  What the runner relies on of a fact set: where an error recorded for one fact shows up, and what
  recording a fact or an error for another one leaves alone.
\<close>

locale error_store =
  fixes put_fact :: "'f \<Rightarrow> 's \<Rightarrow> 's"
    and put_error :: "'e \<Rightarrow> 's \<Rightarrow> 's"
    and err :: "'s \<Rightarrow> 'k \<Rightarrow> 'e option"
    and fact_key :: "'f \<Rightarrow> 'k"
    and error_key :: "'e \<Rightarrow> 'k"
    and ok :: "'s \<Rightarrow> bool"
  assumes ok_put_fact: "ok s \<Longrightarrow> ok (put_fact f s)"
    and ok_put_error: "ok s \<Longrightarrow> ok (put_error e s)"
    and err_put_fact: "ok s \<Longrightarrow> err (put_fact f s) k = (if k = fact_key f then None else err s k)"
    and err_put_error: "err (put_error e s) k = (if k = error_key e then Some e else err s k)"
begin

lemma ok_put_errors: "ok s \<Longrightarrow> ok (foldl (\<lambda>s e. put_error e s) s es)"
  by (induction es arbitrary: s) (auto simp: ok_put_error)

lemma ok_put_facts: "ok s \<Longrightarrow> ok (foldl (\<lambda>s f. put_fact f s) s fs)"
  by (induction fs arbitrary: s) (auto simp: ok_put_fact)

lemma err_put_errors:
  "err (foldl (\<lambda>s e. put_error e s) s es) k =
     (case find (\<lambda>e. error_key e = k) (rev es) of None \<Rightarrow> err s k | Some e \<Rightarrow> Some e)"
  by (induction es rule: rev_induct) (auto simp: err_put_error)

lemma err_put_errors_mem:
  "k \<in> error_key ` set es \<Longrightarrow> \<exists>e \<in> set es. err (foldl (\<lambda>s e. put_error e s) s es) k = Some e \<and> error_key e = k"
  by (auto simp: err_put_errors find_None_iff split: option.splits dest!: find_Some_set)

lemma err_put_errors_other:
  "k \<notin> error_key ` set es \<Longrightarrow> err (foldl (\<lambda>s e. put_error e s) s es) k = err s k"
  by (auto simp: err_put_errors image_iff split: option.splits dest!: find_Some_set)

lemma err_put_facts_other:
  "ok s \<Longrightarrow> k \<notin> fact_key ` set fs \<Longrightarrow> err (foldl (\<lambda>s f. put_fact f s) s fs) k = err s k"
  by (induction fs arbitrary: s) (auto simp: err_put_fact ok_put_fact)

end

interpretation es: error_store Put PutError Err fact_id fe_fact wf_set
  by unfold_locales (auto simp: wf_Put wf_PutError)

end
