(* ===== verification/Catalog.thy ===== *)
theory Catalog
  imports Finding Fact
begin

text \<open>
  internal/catalog/catalog.go: the immutable, ordered set of checks and its evaluation. A check's
  \<open>Eval\<close> is a function from the fact set to either the text of a panic (\<open>Inl\<close>) or an outcome
  (\<open>Inr\<close>); \<open>None\<close> is Go's nil function. The observer of \<open>EvaluateWith\<close> is the list of findings it
  is handed, in order.
\<close>

section \<open>Checks\<close>

definition Version :: int where
  "Version = 34"

record outcome =
  oc_result :: result
  oc_reason :: unknown_reason
  oc_subject :: string
  oc_detail :: string
  oc_severity :: severity
  oc_evidence :: "evidence list"

definition zero_outcome :: outcome where
  "zero_outcome = \<lparr>oc_result = NoResult, oc_reason = NoReason, oc_subject = [], oc_detail = [],
     oc_severity = NoSeverity, oc_evidence = []\<rparr>"

record deprecation =
  dep_since_catalog :: int
  dep_reason :: string
  dep_replaced_by :: "string list"

record 'v check =
  ck_id :: string
  ck_module :: string
  ck_title :: string
  ck_description :: string
  ck_base_severity :: severity
  ck_tags :: "string list"
  ck_requires :: "fact_id list"
  ck_eval :: "('v fact_set \<Rightarrow> string + outcome) option"
  ck_remediation :: "remediation option"
  ck_mappings :: "control_ref list"
  ck_references :: "reference list"
  ck_since_catalog :: int
  ck_deprecated :: "deprecation option"

record 'v catalog =
  cat_checks :: "'v check gomap"
  cat_order :: "string list"

definition validate :: "'v check \<Rightarrow> string option" where
  "validate ck =
     (if ck_id ck = [] then Some ''check has no ID''
      else if ck_module ck = [] then Some (ck_id ck @ '': no module'')
      else if \<not> has_prefix (ck_id ck) (ck_module ck @ ''-'')
        then Some (ck_id ck @ '': ID must start with module prefix '' @ go_quote (ck_module ck @ ''-''))
      else if ck_title ck = [] then Some (ck_id ck @ '': no title'')
      else if ck_base_severity ck = NoSeverity then Some (ck_id ck @ '': no base severity'')
      else if ck_eval ck = None then Some (ck_id ck @ '': no Eval'')
      else if ck_requires ck = [] then Some (ck_id ck @ '': declares no required facts'')
      else None)"

fun new_loop :: "'v check list \<Rightarrow> 'v catalog \<Rightarrow> string + 'v catalog" where
  "new_loop [] c = Inr (c\<lparr>cat_order := sort (cat_order c)\<rparr>)"
| "new_loop (ck # cks) c =
     (case validate ck of
        Some e \<Rightarrow> Inl e
      | None \<Rightarrow>
         (if lookup (cat_checks c) (ck_id ck) \<noteq> None
          then Inl (''duplicate check ID '' @ ck_id ck)
          else new_loop cks (c\<lparr>cat_checks := put (ck_id ck) ck (cat_checks c),
                               cat_order := cat_order c @ [ck_id ck]\<rparr>)))"

definition New :: "'v check list \<Rightarrow> string + 'v catalog" where
  "New cks = new_loop cks \<lparr>cat_checks = [], cat_order = []\<rparr>"

definition Get :: "'v catalog \<Rightarrow> string \<Rightarrow> 'v check option" where
  "Get c i = lookup (cat_checks c) i"

definition cat_IDs :: "'v catalog \<Rightarrow> string list" where
  "cat_IDs c = cat_order c"

definition cat_Len :: "'v catalog \<Rightarrow> nat" where
  "cat_Len c = length (cat_order c)"

section \<open>Evaluation\<close>

fun reason_for :: "error_kind \<Rightarrow> unknown_reason" where
  "reason_for ErrPermission = ReasonPermission"
| "reason_for ErrParse = ReasonParse"
| "reason_for ErrTruncated = ReasonTruncated"
| "reason_for ErrNotCollected = ReasonFactMissing"
| "reason_for ErrInternal = ReasonInternal"
| "reason_for _ = ReasonAmbiguousState"

definition contains_id :: "fact_id list \<Rightarrow> fact_id \<Rightarrow> bool" where
  "contains_id ids want \<longleftrightarrow> want \<in> set ids"

definition sanitize_evidence :: "evidence list \<Rightarrow> evidence list" where
  "sanitize_evidence es =
     map (\<lambda>e. new_evidence (ev_source e) (ev_line e) (ev_excerpt e) (ev_sha256 e)) es"

text \<open>The finding before the gate and before Eval: identity fields only.\<close>

definition base_finding :: "'v check \<Rightarrow> finding" where
  "base_finding ck =
     \<lparr>f_check_id = ck_id ck, f_module = ck_module ck, f_title = ck_title ck,
      f_result = NoResult, f_reason = NoReason,
      f_severity = ck_base_severity ck, f_base_severity = ck_base_severity ck,
      f_detail = [], f_evidence = [], f_remediation = None,
      f_mappings = ck_mappings ck, f_references = ck_references ck,
      f_fingerprint = fingerprint (ck_id ck) [], f_subject = [], f_skipped_by = [],
      f_suppression = None\<rparr>"

text \<open>
  The required-fact gate: the finding for the first required fact that is in error, absent or
  opaque, in the order the check declares them; None when every required fact is usable.
\<close>

fun gate :: "fact_id list \<Rightarrow> 'v fact_set \<Rightarrow> finding \<Rightarrow> finding option" where
  "gate [] fs f = None"
| "gate (i # is) fs f =
     (case Err fs i of
        Some e \<Rightarrow> Some (f\<lparr>f_result := Unknown, f_reason := reason_for (fe_kind e),
          f_detail := Text (''required fact '' @ i @ '' unavailable: '' @ fe_msg e),
          f_evidence := (if fe_path e \<noteq> []
            then sanitize_evidence [new_evidence (fe_path e) 0 (fe_msg e) []] else f_evidence f)\<rparr>)
      | None \<Rightarrow>
         (if \<not> contains_id (IDs fs) i then
            Some (f\<lparr>f_result := Unknown, f_reason := ReasonFactMissing,
              f_detail := ''required fact '' @ i @ '' was not collected''\<rparr>)
          else
            (case Opaque fs i of
               Some v \<Rightarrow> Some (f\<lparr>f_result := Unknown, f_reason := ReasonFactVersion,
                 f_detail := ''required fact '' @ i @ '' is present in this bundle at version ''
                   @ int_str v @ '', which this build of the catalog does not understand. Nothing ''
                   @ ''may be concluded from it: the bundle was written by a different version of ''
                   @ ''Plumbline, and re-evaluating it needs a build that knows this fact'' @ [CHR 0x27]
                   @ ''s shape.'',
                 f_evidence := sanitize_evidence [new_evidence i 0
                   (''fact version '' @ int_str v @ '' is not decodable by this build'') []]\<rparr>)
             | None \<Rightarrow> gate is fs f)))"

definition panic_finding :: "finding \<Rightarrow> string \<Rightarrow> finding" where
  "panic_finding f msg =
     f\<lparr>f_result := Unknown, f_reason := ReasonInternal,
       f_detail := ''check panicked: '' @ msg, f_remediation := None\<rparr>"

definition outcome_finding :: "'v check \<Rightarrow> finding \<Rightarrow> outcome \<Rightarrow> finding" where
  "outcome_finding ck f oc =
     (let subject = Text (oc_subject oc) in
      f\<lparr>f_result := oc_result oc, f_reason := oc_reason oc,
        f_detail := Text (oc_detail oc),
        f_evidence := sanitize_evidence (oc_evidence oc),
        f_subject := subject,
        f_fingerprint := fingerprint (ck_id ck) subject,
        f_severity := (if oc_severity oc \<noteq> NoSeverity then oc_severity oc else f_severity f),
        f_remediation := (if oc_result oc = Fail then ck_remediation ck else f_remediation f)\<rparr>)"

text \<open>A nil Eval is a nil-function call, which panics; \<open>New\<close> rejects such checks.\<close>

definition nil_call :: string where
  "nil_call = ''runtime error: invalid memory address or nil pointer dereference''"

definition EvaluateOne :: "'v check \<Rightarrow> 'v fact_set \<Rightarrow> finding" where
  "EvaluateOne ck fs =
     (let f = base_finding ck in
      case gate (ck_requires ck) fs f of
        Some f' \<Rightarrow> f'
      | None \<Rightarrow>
         (case ck_eval ck of
            None \<Rightarrow> panic_finding f nil_call
          | Some ev \<Rightarrow>
             (case ev fs of
                Inl msg \<Rightarrow> panic_finding f msg
              | Inr oc \<Rightarrow> outcome_finding ck f oc)))"

text \<open>The second component is what the observer is told, when there is one.\<close>

fun eval_loop ::
  "'v catalog \<Rightarrow> 'v fact_set \<Rightarrow> bool \<Rightarrow> string list \<Rightarrow> finding list \<times> finding list
     \<Rightarrow> finding list \<times> finding list"
where
  "eval_loop c fs obs [] acc = acc"
| "eval_loop c fs obs (i # is) (out, told) =
     (let f = EvaluateOne (the (lookup (cat_checks c) i)) fs
      in eval_loop c fs obs is (out @ [f], if obs then told @ [f] else told))"

definition EvaluateWith :: "'v catalog \<Rightarrow> 'v fact_set \<Rightarrow> bool \<Rightarrow> finding list \<times> finding list" where
  "EvaluateWith c fs obs = eval_loop c fs obs (cat_order c) ([], [])"

definition Evaluate :: "'v catalog \<Rightarrow> 'v fact_set \<Rightarrow> finding list" where
  "Evaluate c fs = fst (EvaluateWith c fs False)"

section \<open>Catalogs that New builds\<close>

definition wf_catalog :: "'v catalog \<Rightarrow> bool" where
  "wf_catalog c \<longleftrightarrow>
     wf_map (cat_checks c)
     \<and> sorted (cat_order c) \<and> distinct (cat_order c)
     \<and> set (cat_order c) = {i. lookup (cat_checks c) i \<noteq> None}
     \<and> (\<forall>i ck. lookup (cat_checks c) i = Some ck \<longrightarrow> ck_id ck = i \<and> validate ck = None)"

lemma new_loop_wf:
  assumes "new_loop cks c = Inr c'"
    and "wf_map (cat_checks c)" and "distinct (cat_order c)"
    and "set (cat_order c) = {i. lookup (cat_checks c) i \<noteq> None}"
    and "\<forall>i ck. lookup (cat_checks c) i = Some ck \<longrightarrow> ck_id ck = i \<and> validate ck = None"
  shows "wf_catalog c' \<and> mset (cat_order c') = mset (cat_order c) + mset (map ck_id cks)"
  using assms
proof (induction cks c rule: new_loop.induct)
  case (1 c)
  then show ?case by (auto simp: wf_catalog_def)
next
  case (2 ck cks c)
  have v: "validate ck = None" and fresh: "lookup (cat_checks c) (ck_id ck) = None"
    using "2.prems"(1) by (auto split: option.splits if_splits)
  let ?c = "c\<lparr>cat_checks := put (ck_id ck) ck (cat_checks c), cat_order := cat_order c @ [ck_id ck]\<rparr>"
  have rec: "new_loop cks ?c = Inr c'" using "2.prems"(1) v fresh by simp
  have notin: "ck_id ck \<notin> set (cat_order c)" using "2.prems"(4) fresh by simp
  have "wf_catalog c' \<and> mset (cat_order c') = mset (cat_order ?c) + mset (map ck_id cks)"
    by (rule "2.IH"[OF v _ rec]) (use "2.prems" v fresh notin in auto)
  then show ?case by simp
qed

lemma New_wf: "New cks = Inr c \<Longrightarrow> wf_catalog c \<and> mset (cat_order c) = mset (map ck_id cks)"
  unfolding New_def by (drule new_loop_wf) auto

lemma new_loop_lookup:
  "new_loop cks c = Inr c' \<Longrightarrow>
     (\<forall>i ck. lookup (cat_checks c) i = Some ck \<longrightarrow> lookup (cat_checks c') i = Some ck)
     \<and> (\<forall>ck \<in> set cks. lookup (cat_checks c') (ck_id ck) = Some ck)"
proof (induction cks c rule: new_loop.induct)
  case (2 ck cks c)
  have v: "validate ck = None" and fresh: "lookup (cat_checks c) (ck_id ck) = None"
    using "2.prems"(1) by (auto split: option.splits if_splits)
  let ?c = "c\<lparr>cat_checks := put (ck_id ck) ck (cat_checks c), cat_order := cat_order c @ [ck_id ck]\<rparr>"
  have "new_loop cks ?c = Inr c'" using "2.prems"(1) v fresh by simp
  from "2.IH"[OF v _ this] fresh show ?case
    by (auto split: if_splits) (metis option.distinct(1))
qed auto

lemma New_lookup: "New cks = Inr c \<Longrightarrow> \<forall>ck \<in> set cks. lookup (cat_checks c) (ck_id ck) = Some ck"
  unfolding New_def by (drule new_loop_lookup) blast

section \<open>What evaluation guarantees\<close>

text \<open>
  A required fact is usable when it is present, not in error and not opaque. The gate passes
  exactly when every one is.
\<close>

definition usable :: "'v fact_set \<Rightarrow> fact_id \<Rightarrow> bool" where
  "usable fs i \<longleftrightarrow> Err fs i = None \<and> i \<in> set (IDs fs) \<and> Opaque fs i = None"

lemma gate_None: "gate is fs f = None \<longleftrightarrow> (\<forall>i \<in> set is. usable fs i)"
  by (induction "is" fs f rule: gate.induct)
    (auto simp: usable_def contains_id_def split: option.splits)

lemma gate_Some:
  "gate is fs f = Some f' \<Longrightarrow>
     f_result f' = Unknown \<and> f_reason f' \<noteq> NoReason \<and> f_check_id f' = f_check_id f
     \<and> f_fingerprint f' = f_fingerprint f \<and> f_severity f' = f_severity f
     \<and> f_base_severity f' = f_base_severity f \<and> f_remediation f' = f_remediation f
     \<and> f_suppression f' = f_suppression f \<and> f_skipped_by f' = f_skipped_by f"
proof (induction "is" fs f rule: gate.induct)
  case (2 i "is" fs f)
  have "reason_for k \<noteq> NoReason" for k by (cases k) auto
  with 2 show ?case by (auto split: option.splits if_splits)
qed simp

lemma safe_sanitize_evidence: "list_all safe_evidence (sanitize_evidence es)"
  by (auto simp: sanitize_evidence_def list_all_iff)

lemma base_finding_simps [simp]:
  "f_check_id (base_finding ck) = ck_id ck"
  "f_base_severity (base_finding ck) = ck_base_severity ck"
  "f_severity (base_finding ck) = ck_base_severity ck"
  "f_remediation (base_finding ck) = None"
  "f_suppression (base_finding ck) = None"
  "f_skipped_by (base_finding ck) = []"
  "f_evidence (base_finding ck) = []"
  "f_subject (base_finding ck) = []"
  by (simp_all add: base_finding_def)

lemma EvaluateOne_id [simp]: "f_check_id (EvaluateOne ck fs) = ck_id ck"
  by (auto simp: EvaluateOne_def Let_def panic_finding_def outcome_finding_def
      split: option.split sum.split dest: gate_Some)

lemma EvaluateOne_fresh:
  "f_suppression (EvaluateOne ck fs) = None \<and> f_skipped_by (EvaluateOne ck fs) = []
   \<and> f_base_severity (EvaluateOne ck fs) = ck_base_severity ck"
  by (auto simp: EvaluateOne_def Let_def panic_finding_def outcome_finding_def
      split: option.split sum.split dest: gate_Some)

text \<open>A PASS or a FAIL is the outcome of the check's own code over usable facts.\<close>

lemma EvaluateOne_scored:
  assumes "f_result (EvaluateOne ck fs) = Pass \<or> f_result (EvaluateOne ck fs) = Fail"
  shows "\<exists>ev oc. ck_eval ck = Some ev \<and> ev fs = Inr oc \<and> oc_result oc = f_result (EvaluateOne ck fs)
     \<and> (\<forall>i \<in> set (ck_requires ck). usable fs i)"
proof (cases "gate (ck_requires ck) fs (base_finding ck)")
  case (Some f)
  then show ?thesis using gate_Some[OF Some] assms by (simp add: EvaluateOne_def Let_def)
next
  case None
  note g = None
  show ?thesis
  proof (cases "ck_eval ck")
    case None
    then show ?thesis using g assms by (simp add: EvaluateOne_def Let_def panic_finding_def)
  next
    case (Some ev)
    show ?thesis
    proof (cases "ev fs")
      case (Inl m)
      then show ?thesis using g Some assms by (simp add: EvaluateOne_def Let_def panic_finding_def)
    next
      case (Inr oc)
      then show ?thesis
        using g Some gate_None[of "ck_requires ck" fs] by (simp add: EvaluateOne_def Let_def outcome_finding_def)
    qed
  qed
qed

lemma usable_Put [simp]:
  "wf_set fs \<Longrightarrow> usable (Put \<lparr>fact_id = i, fact_version = 1, opaque_version = None, payload = p\<rparr> fs) i"
  by (simp add: usable_def set_IDs Opaque_def)

lemma EvaluateOne_outcome:
  assumes "\<forall>i \<in> set (ck_requires ck). usable fs i" "ck_eval ck = Some ev" "ev fs = Inr oc"
  shows "f_result (EvaluateOne ck fs) = oc_result oc \<and> f_reason (EvaluateOne ck fs) = oc_reason oc"
  using assms gate_None[of "ck_requires ck" fs] by (simp add: EvaluateOne_def Let_def outcome_finding_def)

lemma EvaluateOne_error:
  assumes "ck_requires ck = [i]" "Err fs i = Some e"
  shows "f_result (EvaluateOne ck fs) = Unknown \<and> f_reason (EvaluateOne ck fs) = reason_for (fe_kind e)"
  using assms by (simp add: EvaluateOne_def Let_def)

lemma eval_loop_eq:
  "eval_loop c fs obs is (out, told) =
     (let r = map (\<lambda>i. EvaluateOne (the (lookup (cat_checks c) i)) fs) is
      in (out @ r, if obs then told @ r else told))"
  by (induction "is" arbitrary: out told) (auto simp: Let_def)

lemma EvaluateWith_eq:
  "EvaluateWith c fs obs =
     (let r = map (\<lambda>i. EvaluateOne (the (lookup (cat_checks c) i)) fs) (cat_order c)
      in (r, if obs then r else []))"
  by (simp add: EvaluateWith_def eval_loop_eq Let_def)

lemma Evaluate_eq:
  "Evaluate c fs = map (\<lambda>i. EvaluateOne (the (lookup (cat_checks c) i)) fs) (cat_order c)"
  by (simp add: Evaluate_def EvaluateWith_eq Let_def)

lemma Evaluate_ids: "wf_catalog c \<Longrightarrow> map f_check_id (Evaluate c fs) = cat_order c"
  by (auto simp: Evaluate_eq comp_def wf_catalog_def intro!: map_idI)

text \<open>The fields of a finding that speak of the host are sanitised, the others are the check's own.\<close>

lemma EvaluateOne_clean:
  "list_all safe_evidence (f_evidence (EvaluateOne ck fs)) \<and> safe_text (f_subject (EvaluateOne ck fs))
   \<and> f_title (EvaluateOne ck fs) = ck_title ck"
proof -
  have g: "gate is fs f = Some f' \<Longrightarrow> f_evidence f = [] \<Longrightarrow> f_subject f = [] \<Longrightarrow>
      list_all safe_evidence (f_evidence f') \<and> f_subject f' = [] \<and> f_title f' = f_title f" for "is" f f'
    by (induction "is" fs f rule: gate.induct)
      (auto simp: safe_sanitize_evidence split: option.splits if_splits)
  have "f_title (base_finding ck) = ck_title ck" by (simp add: base_finding_def)
  then show ?thesis
    using g[of "ck_requires ck" "base_finding ck"]
    by (auto simp: EvaluateOne_def Let_def panic_finding_def outcome_finding_def Text_def clean_safe
        safe_sanitize_evidence split: option.splits sum.splits)
qed

section \<open>Properties\<close>

text \<open>
  A check for the witnesses: its single required fact decides it.
\<close>

definition sample_outcome :: "result \<Rightarrow> outcome" where
  "sample_outcome r = \<lparr>oc_result = r, oc_reason = NoReason, oc_subject = ''/etc/x'',
     oc_detail = ''detail'', oc_severity = NoSeverity, oc_evidence = [new_evidence ''/etc/x'' 3 ''on'' []]\<rparr>"

definition sample_check :: "string \<Rightarrow> bool check" where
  "sample_check i =
     \<lparr>ck_id = i, ck_module = ''X'', ck_title = ''t'', ck_description = [], ck_base_severity = High,
      ck_tags = [], ck_requires = [''x.fact''],
      ck_eval = Some (\<lambda>fs. case lookup (facts fs) ''x.fact'' of
         None \<Rightarrow> Inl ''nil'' | Some f \<Rightarrow> Inr (sample_outcome (if payload f then Pass else Fail))),
      ck_remediation = None, ck_mappings = [], ck_references = [], ck_since_catalog = 1,
      ck_deprecated = None\<rparr>"

definition sample_facts :: "bool fact_set" where
  "sample_facts = Put \<lparr>fact_id = ''x.fact'', fact_version = 1, opaque_version = None, payload = True\<rparr> new_set"

lemma sample_facts_simps [simp]:
  "facts sample_facts = [(''x.fact'',
     \<lparr>fact_id = ''x.fact'', fact_version = 1, opaque_version = None, payload = True\<rparr>)]"
  "Err sample_facts i = None" "IDs sample_facts = [''x.fact'']" "Opaque sample_facts ''x.fact'' = None"
  by (simp_all add: sample_facts_def Err_def Put_def new_set_def IDs_def keys_def put_def remove_def
      Opaque_def lookup_def)

lemma sample_evaluated: "EvaluateOne (sample_check i) sample_facts =
    outcome_finding (sample_check i) (base_finding (sample_check i)) (sample_outcome Pass)"
  by (simp add: EvaluateOne_def sample_check_def contains_id_def lookup_def Let_def)

text \<open>
  C1: no verdict without its facts. A finding that is anything but UNKNOWN says that every fact the
  check requires was collected, without error and at a version this build reads, and that the
  check itself ran to the end and chose that result. A missing, failed or opaque fact and a panic
  are never a PASS or a FAIL.
\<close>

theorem verdict_needs_usable_facts:
  "f_result (EvaluateOne ck fs) \<noteq> Unknown \<Longrightarrow>
     (\<forall>i \<in> set (ck_requires ck). usable fs i)
     \<and> (\<exists>ev oc. ck_eval ck = Some ev \<and> ev fs = Inr oc \<and> f_result (EvaluateOne ck fs) = oc_result oc)"
proof -
  let ?f = "base_finding ck"
  assume r: "f_result (EvaluateOne ck fs) \<noteq> Unknown"
  then have g: "gate (ck_requires ck) fs ?f = None"
    by (auto simp: EvaluateOne_def Let_def split: option.splits dest: gate_Some)
  then have "\<forall>i \<in> set (ck_requires ck). usable fs i" by (simp add: gate_None)
  moreover have "\<exists>ev oc. ck_eval ck = Some ev \<and> ev fs = Inr oc \<and> f_result (EvaluateOne ck fs) = oc_result oc"
    using r g by (auto simp: EvaluateOne_def Let_def panic_finding_def outcome_finding_def
        split: option.splits sum.splits)
  ultimately show ?thesis by blast
qed

theorem verdict_needs_usable_facts_witness:
  "f_result (EvaluateOne (sample_check ''X-0001'') sample_facts) = Pass
   \<and> usable sample_facts ''x.fact''"
proof -
  have r: "f_result (EvaluateOne (sample_check ''X-0001'') sample_facts) = Pass"
    by (simp add: sample_evaluated outcome_finding_def sample_outcome_def Let_def)
  with verdict_needs_usable_facts[of "sample_check ''X-0001''" sample_facts] show ?thesis
    by (simp add: sample_check_def)
qed

text \<open>
  The reason a finding is UNKNOWN. When a required fact is unusable, the finding is UNKNOWN with a
  reason, carries the check's identity and base severity, has no remediation, and no check code ran
  for it: the finding is the same whatever the check's Eval is.
\<close>

theorem unusable_fact_is_unknown:
  assumes "i \<in> set (ck_requires ck)" and "\<not> usable fs i"
  shows "f_result (EvaluateOne ck fs) = Unknown \<and> f_reason (EvaluateOne ck fs) \<noteq> NoReason
     \<and> f_severity (EvaluateOne ck fs) = ck_base_severity ck \<and> f_remediation (EvaluateOne ck fs) = None
     \<and> f_fingerprint (EvaluateOne ck fs) = fingerprint (ck_id ck) []
     \<and> EvaluateOne (ck\<lparr>ck_eval := ev\<rparr>) fs = EvaluateOne ck fs"
proof -
  have "gate (ck_requires ck) fs (base_finding ck) \<noteq> None" using assms gate_None by blast
  then obtain f where f: "gate (ck_requires ck) fs (base_finding ck) = Some f" by blast
  have "base_finding (ck\<lparr>ck_eval := ev\<rparr>) = base_finding ck" by (simp add: base_finding_def)
  then show ?thesis
    using f gate_Some[OF f] by (simp add: EvaluateOne_def Let_def base_finding_def)
qed

theorem unusable_fact_is_unknown_witness:
  "f_result (EvaluateOne (sample_check ''X-0001'') new_set) = Unknown"
  using unusable_fact_is_unknown[of "''x.fact''" "sample_check ''X-0001''" new_set None]
  by (simp add: sample_check_def usable_def IDs_def new_set_def keys_def)

text \<open>
  C6: a report is the catalog, in order. For a catalog that \<open>New\<close> accepted, evaluation yields one
  finding per check and no other, in the order of the check IDs, which are pairwise different; an
  observer is handed exactly the findings of the report, in its order.
\<close>

theorem evaluation_is_total_and_ordered:
  assumes "New cks = Inr c"
  shows "map f_check_id (Evaluate c fs) = sort (map ck_id cks)
     \<and> distinct (map f_check_id (Evaluate c fs))
     \<and> EvaluateWith c fs True = (Evaluate c fs, Evaluate c fs)
     \<and> (\<forall>ck \<in> set cks. EvaluateOne ck fs \<in> set (Evaluate c fs))"
proof -
  from New_wf[OF assms] have w: "wf_catalog c" and m: "mset (cat_order c) = mset (map ck_id cks)"
    by blast+
  have ord: "cat_order c = sort (map ck_id cks)"
    using w m by (metis properties_for_sort wf_catalog_def)
  have "\<forall>ck \<in> set cks. lookup (cat_checks c) (ck_id ck) = Some ck"
    using New_lookup[OF assms] by blast
  moreover have "set (cat_order c) = ck_id ` set cks" by (simp add: ord)
  ultimately have "\<forall>ck \<in> set cks. EvaluateOne ck fs \<in> set (Evaluate c fs)"
    by (force simp: Evaluate_eq)
  then show ?thesis
    using w Evaluate_ids[OF w] by (simp add: ord wf_catalog_def EvaluateWith_eq Evaluate_eq Let_def)
qed

theorem evaluation_is_total_and_ordered_witness:
  "\<exists>c. New [sample_check ''X-0002'', sample_check ''X-0001''] = Inr c
     \<and> map f_check_id (Evaluate c new_set) = [''X-0001'', ''X-0002'']"
proof -
  obtain c where c: "New [sample_check ''X-0002'', sample_check ''X-0001''] = Inr c"
    by (simp add: New_def validate_def sample_check_def has_prefix_def lookup_def put_def)
  then show ?thesis
    using evaluation_is_total_and_ordered[OF c, of new_set] by (simp add: sample_check_def)
qed

text \<open>
  C20: what a check says about the host is sanitised on its way out. The evidence and the subject of
  every finding are safe text, and so is the detail of a finding whose check returned an outcome.
\<close>

theorem findings_are_sanitised:
  "list_all safe_evidence (f_evidence (EvaluateOne ck fs))
   \<and> safe_text (f_subject (EvaluateOne ck fs))
   \<and> (case ck_eval ck of None \<Rightarrow> True
      | Some ev \<Rightarrow> (case ev fs of Inl _ \<Rightarrow> True
          | Inr oc \<Rightarrow> gate (ck_requires ck) fs (base_finding ck) = None \<longrightarrow>
                        safe_text (f_detail (EvaluateOne ck fs))))"
  using EvaluateOne_clean[of ck fs]
  by (auto simp: EvaluateOne_def Let_def panic_finding_def outcome_finding_def Text_def clean_safe
      split: option.splits sum.splits)

theorem findings_are_sanitised_witness:
  "safe_text (f_detail (EvaluateOne (sample_check ''X-0001'') sample_facts))"
proof -
  have "gate (ck_requires (sample_check ''X-0001'')) sample_facts (base_finding (sample_check ''X-0001'')) = None"
    by (simp add: sample_check_def contains_id_def)
  then show ?thesis
    using findings_are_sanitised[of "sample_check ''X-0001''" sample_facts]
    by (simp add: sample_check_def lookup_def)
qed

end
