(* ===== verification/Glob.thy ===== *)
theory Glob
  imports Sanitize
begin

text \<open>
  Go's \<open>path.Match\<close>, which the profiles use on check identifiers and the collectors on file names:
  a pattern is cut into chunks at its stars, each chunk is matched at every admissible position,
  and a malformed pattern is an error even where the name already failed to match.
\<close>

datatype 'a glob = Bad | Ok 'a

section \<open>One chunk\<close>

text \<open>\<open>getEsc\<close>: the next rune of a character class, and what follows it.\<close>

definition get_esc :: "string \<Rightarrow> (nat \<times> string) option" where
  "get_esc chunk =
     (if chunk = [] \<or> hd chunk = CHR ''-'' \<or> hd chunk = CHR '']'' then None
      else
        (let c = (if hd chunk = CHR 0x5C then tl chunk else chunk) in
         if c = [] then None
         else
           (let (r, n) = decode_rune c in
            if r = rune_error \<and> n = 1 \<or> drop n c = [] then None else Some (r, drop n c))))"

lemma get_esc_length: "get_esc chunk = Some (r, rest) \<Longrightarrow> rest \<noteq> [] \<and> length rest < length chunk"
  using decode_rune_size[of chunk] decode_rune_size[of "tl chunk"]
  by (cases chunk) (auto simp: get_esc_def Let_def split: if_splits prod.splits)

text \<open>
  The ranges of a class, for the rune r: whether some range holds it, and the rest of the chunk
  after the closing bracket. \<open>first\<close> is \<open>nrange = 0\<close>.
\<close>

function class_ranges :: "nat \<Rightarrow> bool \<Rightarrow> bool \<Rightarrow> string \<Rightarrow> (bool \<times> string) option" where
  "class_ranges r first m chunk =
     (if chunk \<noteq> [] \<and> hd chunk = CHR '']'' \<and> \<not> first then Some (m, tl chunk)
      else
        (case get_esc chunk of
           None \<Rightarrow> None
         | Some (lo, c1) \<Rightarrow>
             (if hd c1 = CHR ''-'' then
                (case get_esc (tl c1) of
                   None \<Rightarrow> None
                 | Some (hi, c2) \<Rightarrow> class_ranges r False (m \<or> lo \<le> r \<and> r \<le> hi) c2)
              else class_ranges r False (m \<or> r = lo) c1)))"
  by pat_completeness auto
termination
  by (relation "measure (\<lambda>(r, f, m, c). length c)")
    (auto dest!: get_esc_length)

declare class_ranges.simps [simp del]

lemma class_ranges_length:
  "class_ranges r f m chunk = Some (b, rest) \<Longrightarrow> length rest < length chunk"
proof (induction r f m chunk rule: class_ranges.induct)
  case (1 r f m chunk)
  show ?case
  proof (cases "chunk \<noteq> [] \<and> hd chunk = CHR '']'' \<and> \<not> f")
    case True
    then show ?thesis using "1.prems" by (subst (asm) class_ranges.simps) auto
  next
    case False
    then obtain lo c1 where c1: "get_esc chunk = Some (lo, c1)"
      using "1.prems" by (subst (asm) class_ranges.simps) (auto split: option.splits)
    note l1 = get_esc_length[OF c1]
    show ?thesis
    proof (cases "hd c1 = CHR ''-''")
      case True
      then obtain hi c2 where c2: "get_esc (tl c1) = Some (hi, c2)"
        and r: "class_ranges r False (m \<or> lo \<le> r \<and> r \<le> hi) c2 = Some (b, rest)"
        using "1.prems" False c1 by (subst (asm) class_ranges.simps) (auto split: option.splits)
      then show ?thesis
        using "1.IH"(1)[OF False c1 refl True c2 refl r] get_esc_length[OF c2] l1 by auto
    next
      case no: False
      then have "class_ranges r False (m \<or> r = lo) c1 = Some (b, rest)"
        using "1.prems" False c1 by (subst (asm) class_ranges.simps) auto
      then show ?thesis using "1.IH"(2)[OF False c1 refl no] l1 by auto
    qed
  qed
qed

text \<open>
  \<open>matchChunk\<close>: \<open>None\<close> for the subject once the match has failed, when only the syntax of the
  chunk is still read. The result is the rest of the subject, or \<open>None\<close> for no match.
\<close>

function match_chunk :: "string \<Rightarrow> string option \<Rightarrow> string option glob" where
  "match_chunk [] s = Ok s"
| "match_chunk (c # cs) s0 =
     (let s = (case s0 of Some [] \<Rightarrow> None | _ \<Rightarrow> s0) in
      if c = CHR ''['' then
        (let (r, s1) = (case s of None \<Rightarrow> (0, None)
                        | Some t \<Rightarrow> (fst (decode_rune t), Some (drop (snd (decode_rune t)) t)));
             negated = (cs \<noteq> [] \<and> hd cs = CHR 0x5E);
             body = (if negated then tl cs else cs) in
         case class_ranges r True False body of
           None \<Rightarrow> Bad
         | Some (m, rest) \<Rightarrow> match_chunk rest (if m = negated then None else s1))
      else if c = CHR ''?'' then
        match_chunk cs (case s of None \<Rightarrow> None
                        | Some t \<Rightarrow> if hd t = CHR ''/'' then None else Some (drop (snd (decode_rune t)) t))
      else
        (let lits = (if c = CHR 0x5C then cs else c # cs) in
         if lits = [] then Bad
         else match_chunk (tl lits)
                (case s of None \<Rightarrow> None | Some t \<Rightarrow> if hd lits = hd t then Some (tl t) else None)))"
  by pat_completeness auto
termination
  by (relation "measure (\<lambda>(c, s). length c)")
    (auto dest!: class_ranges_length split: if_splits)

declare match_chunk.simps(2) [simp del]

section \<open>Whole patterns\<close>

text \<open>The length of the chunk \<open>scanChunk\<close> cuts off: up to a star outside brackets.\<close>

fun scan :: "bool \<Rightarrow> string \<Rightarrow> nat" where
  "scan inrange [] = 0"
| "scan inrange (c # cs) =
     (if c = CHR 0x5C then (case cs of [] \<Rightarrow> 1 | d # ds \<Rightarrow> Suc (Suc (scan inrange ds)))
      else if c = CHR ''['' then Suc (scan True cs)
      else if c = CHR '']'' then Suc (scan False cs)
      else if c = CHR ''*'' \<and> \<not> inrange then 0
      else Suc (scan inrange cs))"

definition scan_chunk :: "string \<Rightarrow> bool \<times> string \<times> string" where
  "scan_chunk p =
     (let q = dropWhile (\<lambda>c. c = CHR ''*'') p; n = scan False q
      in (p \<noteq> [] \<and> hd p = CHR ''*'', take n q, drop n q))"

lemma scan_pos: "q \<noteq> [] \<Longrightarrow> hd q \<noteq> CHR ''*'' \<Longrightarrow> 0 < scan False q"
  by (cases q) (auto split: list.split)

lemma scan_chunk_length: "scan_chunk p = (star, chunk, rest) \<Longrightarrow> p \<noteq> [] \<Longrightarrow> length rest < length p"
proof -
  assume s: "scan_chunk p = (star, chunk, rest)" "p \<noteq> []"
  let ?q = "dropWhile (\<lambda>c. c = CHR ''*'') p"
  have rest: "rest = drop (scan False ?q) ?q" using s by (simp add: scan_chunk_def Let_def)
  have q: "length ?q \<le> length p" by (rule length_dropWhile_le)
  show ?thesis
  proof (cases "hd p = CHR ''*''")
    case True
    then have "length ?q < length p"
      using s(2) by (cases p) (auto simp: less_Suc_eq_le length_dropWhile_le)
    then show ?thesis using rest by simp
  next
    case False
    then have "?q = p" using s(2) by (cases p) auto
    then show ?thesis using rest scan_pos[OF s(2) False] s(2) by simp
  qed
qed

text \<open>The syntax check of the remaining pattern before answering no.\<close>

function rest_ok :: "string \<Rightarrow> bool glob" where
  "rest_ok p =
     (if p = [] then Ok False
      else (case scan_chunk p of (_, chunk, rest) \<Rightarrow>
              (case match_chunk chunk (Some []) of Bad \<Rightarrow> Bad | Ok _ \<Rightarrow> rest_ok rest)))"
  by pat_completeness auto
termination
  by (relation "measure length") (auto simp: scan_chunk_length[OF sym])

declare rest_ok.simps [simp del]

text \<open>
  The positions a star can skip to, from one byte on, up to the first separator; and the rest of
  the name after the first position that is accepted.
\<close>

fun skip_match :: "string \<Rightarrow> bool \<Rightarrow> string \<Rightarrow> string option glob" where
  "skip_match chunk final [] = Ok None"
| "skip_match chunk final (c # name) =
     (if c = CHR ''/'' then Ok None
      else
        (case match_chunk chunk (Some name) of
           Bad \<Rightarrow> Bad
         | Ok (Some t) \<Rightarrow> if final \<and> t \<noteq> [] then skip_match chunk final name else Ok (Some t)
         | Ok None \<Rightarrow> skip_match chunk final name))"

function match_pattern :: "string \<Rightarrow> string \<Rightarrow> bool glob" where
  "match_pattern p name =
     (if p = [] then Ok (name = [])
      else
        (case scan_chunk p of (star, chunk, rest) \<Rightarrow>
           if star \<and> chunk = [] then Ok (CHR ''/'' \<notin> set name)
           else
             (case match_chunk chunk (Some name) of
                Bad \<Rightarrow> Bad
              | Ok m \<Rightarrow>
                  (if m \<noteq> None \<and> (the m = [] \<or> rest \<noteq> []) then match_pattern rest (the m)
                   else if star then
                     (case skip_match chunk (rest = []) name of
                        Bad \<Rightarrow> Bad
                      | Ok (Some t) \<Rightarrow> match_pattern rest t
                      | Ok None \<Rightarrow> rest_ok rest)
                   else rest_ok rest))))"
  by pat_completeness auto
termination
  by (relation "measure (\<lambda>(p, n). length p)") (auto simp: scan_chunk_length[OF sym])

declare match_pattern.simps [simp del]

definition path_match :: "string \<Rightarrow> string \<Rightarrow> bool option" where
  "path_match p name = (case match_pattern p name of Bad \<Rightarrow> None | Ok b \<Rightarrow> Some b)"

section \<open>Literal patterns and module patterns\<close>

definition literal :: "string \<Rightarrow> bool" where
  "literal s \<longleftrightarrow> (\<forall>c \<in> set s. c \<noteq> CHR ''*'' \<and> c \<noteq> CHR ''?'' \<and> c \<noteq> CHR ''['' \<and> c \<noteq> CHR 0x5C)"

lemma literal_Cons [simp]: "literal (c # s) \<longleftrightarrow>
    c \<noteq> CHR ''*'' \<and> c \<noteq> CHR ''?'' \<and> c \<noteq> CHR ''['' \<and> c \<noteq> CHR 0x5C \<and> literal s"
  by (auto simp: literal_def)

lemma literal_Nil [simp]: "literal []"
  by (simp add: literal_def)

lemma match_chunk_failed: "literal l \<Longrightarrow> match_chunk l None = Ok None"
  by (induction l) (auto simp: match_chunk.simps(2))

lemma match_chunk_literal:
  "literal l \<Longrightarrow>
     match_chunk l (Some s) = Ok (if has_prefix s l then Some (drop (length l) s) else None)"
proof (induction l arbitrary: s)
  case Nil
  then show ?case by (simp add: has_prefix_def)
next
  case (Cons c l)
  then show ?case
    by (cases s) (auto simp: match_chunk.simps(2) match_chunk_failed has_prefix_def)
qed

lemma scan_literal: "literal l \<Longrightarrow> scan False l = length l"
  by (induction l) auto

lemma scan_literal_star: "literal l \<Longrightarrow> scan False (l @ CHR ''*'' # p) = length l"
  by (induction l) auto

lemma dropWhile_literal: "literal (c # l) \<Longrightarrow> dropWhile (\<lambda>c. c = CHR ''*'') ((c # l) @ p) = (c # l) @ p"
  by simp

lemma match_pattern_Nil [simp]: "match_pattern [] name = Ok (name = [])"
  by (simp add: match_pattern.simps)

lemma rest_ok_Nil [simp]: "rest_ok [] = Ok False"
  by (simp add: rest_ok.simps)

lemma scan_chunk_star [simp]: "scan_chunk ''*'' = (True, [], [])"
  by (simp add: scan_chunk_def)

lemma match_star [simp]: "match_pattern ''*'' name = Ok (CHR ''/'' \<notin> set name)"
  by (simp add: match_pattern.simps)

lemma rest_ok_star [simp]: "rest_ok ''*'' = Ok False"
  by (simp add: rest_ok.simps)

lemma path_match_literal: "literal l \<Longrightarrow> path_match l name = Some (name = l)"
proof (cases l)
  case (Cons c l')
  assume l: "literal l"
  then have "scan_chunk l = (False, l, [])"
    using Cons scan_literal[OF l] by (auto simp: scan_chunk_def Let_def)
  then show ?thesis
    using l Cons
    by (auto simp: path_match_def match_pattern.simps[of "c # l'"] match_chunk_literal has_prefix_def)
qed (simp add: path_match_def)

lemma path_match_prefix:
  "literal l \<Longrightarrow>
     path_match (l @ ''*'') name = Some (has_prefix name l \<and> CHR ''/'' \<notin> set (drop (length l) name))"
proof (cases l)
  case (Cons c l')
  assume l: "literal l"
  have "scan_chunk (l @ ''*'') = (False, l, ''*'')"
    using Cons l scan_literal_star[OF l, of "[]"] by (auto simp: scan_chunk_def Let_def)
  then show ?thesis
    using l Cons
    by (auto simp: path_match_def match_pattern.simps[of "l @ ''*''"] match_pattern.simps[of "c # l' @ ''*''"]
        match_chunk_literal has_prefix_def)
qed (simp add: path_match_def has_prefix_def)

end
