(* ===== verification/Profile.thy ===== *)
theory Profile
  imports Finding Fact Glob
begin

text \<open>
  internal/profile/profile.go and internal/cli/profile.go: the declared baselines and how one scopes
  an evaluation. \<open>Parse\<close> starts from what encoding/json decoded, or its error; the association
  list of severity overrides is in the order the code's map iteration happens to visit it. A nil
  profile is \<open>None\<close>.
\<close>

section \<open>Profiles\<close>

definition Schema :: string where
  "Schema = ''profile/v1''"

definition DefaultID :: string where
  "DefaultID = ''default''"

record profile =
  p_schema :: string
  p_id :: string
  p_title :: string
  p_description :: string
  p_included :: "string list"
  p_excluded :: "string list"
  p_overrides :: "string gomap"
  p_builtin :: bool

definition match_any :: "string list \<Rightarrow> string \<Rightarrow> bool" where
  "match_any patterns check_id \<longleftrightarrow> (\<exists>p \<in> set patterns. path_match p check_id = Some True)"

definition Includes :: "profile option \<Rightarrow> string \<Rightarrow> bool" where
  "Includes p check_id =
     (case p of
        None \<Rightarrow> True
      | Some q \<Rightarrow>
          (if \<not> match_any (p_included q) check_id then False
           else \<not> match_any (p_excluded q) check_id))"

text \<open>The constants of type \<open>finding.Severity\<close>; an override holds such a string.\<close>

fun sev_name :: "severity \<Rightarrow> string" where
  "sev_name Critical = ''CRITICAL''"
| "sev_name High = ''HIGH''"
| "sev_name Medium = ''MEDIUM''"
| "sev_name Low = ''LOW''"
| "sev_name Info = ''INFO''"
| "sev_name NoSeverity = []"

definition named_severities :: "severity list" where
  "named_severities = [Critical, High, Medium, Low, Info]"

definition sev_of :: "string \<Rightarrow> severity" where
  "sev_of s = (case find (\<lambda>v. sev_name v = s) named_severities of None \<Rightarrow> NoSeverity | Some v \<Rightarrow> v)"

definition SeverityFor :: "profile option \<Rightarrow> string \<Rightarrow> severity option" where
  "SeverityFor p check_id =
     (case p of
        None \<Rightarrow> None
      | Some q \<Rightarrow> (if p_overrides q = [] then None else map_option sev_of (lookup (p_overrides q) check_id)))"

definition Name :: "profile option \<Rightarrow> string" where
  "Name p = (case p of None \<Rightarrow> DefaultID | Some q \<Rightarrow> p_id q)"

fun Count :: "profile option \<Rightarrow> string list \<Rightarrow> nat" where
  "Count p [] = 0"
| "Count p (i # is) = (if Includes p i then Suc (Count p is) else Count p is)"

section \<open>Parsing\<close>

datatype profile_error =
    BadJSON string
  | BadSchema string
  | NoID
  | NoTitle string
  | NoChecks string
  | BadPattern string string
  | BadSeverity string string string
  | OverridePattern string string

definition valid_severity :: "string \<Rightarrow> bool" where
  "valid_severity s \<longleftrightarrow> s \<in> set (map sev_name named_severities)"

fun check_overrides :: "string \<Rightarrow> (string \<times> string) list \<Rightarrow> profile_error option" where
  "check_overrides pid [] = None"
| "check_overrides pid ((i, sev) # os) =
     (if \<not> valid_severity sev then Some (BadSeverity pid i sev)
      else if contains_any i ''*?['' then Some (OverridePattern pid i)
      else check_overrides pid os)"

definition bad_pattern :: "profile \<Rightarrow> string option" where
  "bad_pattern p = find (\<lambda>pat. path_match pat ''X-0000'' = None) (p_included p @ p_excluded p)"

definition Parse :: "string + profile \<Rightarrow> profile_error + profile" where
  "Parse decoded =
     (case decoded of
        Inl e \<Rightarrow> Inl (BadJSON e)
      | Inr p \<Rightarrow>
          (if p_schema p \<noteq> Schema then Inl (BadSchema (p_schema p))
           else if trim_space (p_id p) = [] then Inl NoID
           else if trim_space (p_title p) = [] then Inl (NoTitle (p_id p))
           else if p_included p = [] then Inl (NoChecks (p_id p))
           else
             (case bad_pattern p of
                Some pat \<Rightarrow> Inl (BadPattern (p_id p) pat)
              | None \<Rightarrow>
                  (case check_overrides (p_id p) (p_overrides p) of
                     Some e \<Rightarrow> Inl e
                   | None \<Rightarrow> Inr p))))"

text \<open>
  \<open>Builtins\<close>: the embedded files that parse, marked as built in, the default first and the rest
  by ID. \<open>Builtin\<close> looks one up.
\<close>

definition Builtins :: "(string + profile) list \<Rightarrow> profile list" where
  "Builtins embedded =
     sort_key (\<lambda>p. (p_id p \<noteq> DefaultID, p_id p))
       (concat (map (\<lambda>d. case Parse d of Inl _ \<Rightarrow> [] | Inr p \<Rightarrow> [p\<lparr>p_builtin := True\<rparr>]) embedded))"

definition Builtin :: "(string + profile) list \<Rightarrow> string \<Rightarrow> profile option" where
  "Builtin embedded i = find (\<lambda>p. p_id p = i) (Builtins embedded)"

definition BuiltinIDs :: "(string + profile) list \<Rightarrow> string list" where
  "BuiltinIDs embedded = map p_id (Builtins embedded)"

text \<open>
  \<open>profileFlags.load\<close>: the flag's value is a built-in name or, when it looks like one, the path of
  a file. \<open>read\<close> is opening and reading that file (its error, or the decoder's result).
\<close>

datatype load_error = UnknownProfile string "string list" | ProfileFile string string | ProfileParse string profile_error

definition looks_like_path :: "string \<Rightarrow> bool" where
  "looks_like_path s \<longleftrightarrow> contains_any s [CHR ''/'', CHR 0x5C, CHR ''.''] \<or> has_prefix s ''~''"

definition load_profile ::
  "(string + profile) list \<Rightarrow> (string \<Rightarrow> string + (string + profile)) \<Rightarrow> string
     \<Rightarrow> load_error + profile option"
where
  "load_profile embedded read flag =
     (let name = trim_space flag in
      if name = [] \<or> name = DefaultID then Inr (Builtin embedded DefaultID)
      else
        (case Builtin embedded name of
           Some p \<Rightarrow> Inr (Some p)
         | None \<Rightarrow>
             (if \<not> looks_like_path name then Inl (UnknownProfile name (BuiltinIDs embedded))
              else
                (case read name of
                   Inl e \<Rightarrow> Inl (ProfileFile name e)
                 | Inr decoded \<Rightarrow>
                     (case Parse decoded of
                        Inl e \<Rightarrow> Inl (ProfileParse name e)
                      | Inr p \<Rightarrow> Inr (Some p))))))"

section \<open>Scoping an evaluation\<close>

definition excluded_detail :: "profile \<Rightarrow> string" where
  "excluded_detail p =
     ''Not in profile '' @ go_quote (p_id p) @ '' ('' @ p_title p @ ''). The check was not evaluated, ''
       @ ''and it is outside the posture denominator rather than counted against this host.''"

definition scope_finding :: "profile \<Rightarrow> finding \<Rightarrow> finding" where
  "scope_finding p f =
     (if \<not> Includes (Some p) (f_check_id f) then
        f\<lparr>f_result := Skipped, f_skipped_by := p_id p, f_detail := excluded_detail p,
          f_evidence := [], f_remediation := None, f_reason := NoReason\<rparr>
      else
        (case SeverityFor (Some p) (f_check_id f) of
           Some s \<Rightarrow> f\<lparr>f_severity := s\<rparr>
         | None \<Rightarrow> f))"

definition apply_profile :: "profile option \<Rightarrow> finding list \<Rightarrow> finding list" where
  "apply_profile p fs = (case p of None \<Rightarrow> fs | Some q \<Rightarrow> map (scope_finding q) fs)"

section \<open>What the parser promises\<close>

lemma sev_of_name [simp]: "sev_of (sev_name v) = v"
  by (cases v) (simp_all add: sev_of_def named_severities_def)

lemma valid_severity_sev_of: "valid_severity s \<longleftrightarrow> (\<exists>v. v \<noteq> NoSeverity \<and> s = sev_name v)"
proof
  show "valid_severity s \<Longrightarrow> \<exists>v. v \<noteq> NoSeverity \<and> s = sev_name v"
    by (auto simp: valid_severity_def named_severities_def)
  assume "\<exists>v. v \<noteq> NoSeverity \<and> s = sev_name v"
  then obtain v where "v \<noteq> NoSeverity" "s = sev_name v" by blast
  then show "valid_severity s" by (cases v) (auto simp: valid_severity_def named_severities_def)
qed

lemma check_overrides_None:
  "check_overrides pid os = None \<longleftrightarrow>
     (\<forall>(i, s) \<in> set os. valid_severity s \<and> \<not> contains_any i ''*?['')"
  by (induction pid os rule: check_overrides.induct) auto

text \<open>A profile that parsed: a name, something included, patterns that compile, real severities.\<close>

definition wf_profile :: "profile \<Rightarrow> bool" where
  "wf_profile p \<longleftrightarrow>
     p_schema p = Schema \<and> trim_space (p_id p) \<noteq> [] \<and> trim_space (p_title p) \<noteq> []
     \<and> p_included p \<noteq> []
     \<and> (\<forall>pat \<in> set (p_included p @ p_excluded p). path_match pat ''X-0000'' \<noteq> None)
     \<and> (\<forall>(i, s) \<in> set (p_overrides p). valid_severity s \<and> \<not> contains_any i ''*?['')"

lemma wf_profile_iff:
  "wf_profile p \<longleftrightarrow> p_schema p = Schema \<and> trim_space (p_id p) \<noteq> [] \<and> trim_space (p_title p) \<noteq> []
     \<and> p_included p \<noteq> [] \<and> bad_pattern p = None \<and> check_overrides (p_id p) (p_overrides p) = None"
  by (simp add: wf_profile_def check_overrides_None bad_pattern_def find_None_iff')

lemma Parse_Inr: "Parse (Inr p) = Inr q \<longleftrightarrow> q = p \<and> wf_profile p"
  unfolding wf_profile_iff Parse_def by (auto split: option.splits)

lemma Parse_Inr_wf: "Parse d = Inr q \<Longrightarrow> wf_profile q"
  by (cases d) (simp add: Parse_def, simp add: Parse_Inr)

lemma trim_space_Nil [simp]: "trim_space [] = []"
  using length_trim_space[of "[]"] by simp

lemma wf_profile_id: "wf_profile p \<Longrightarrow> p_id p \<noteq> []"
  by (auto simp: wf_profile_def)

lemma Builtins_wf: "p \<in> set (Builtins embedded) \<Longrightarrow> wf_profile p \<and> p_builtin p"
proof -
  assume "p \<in> set (Builtins embedded)"
  then obtain d q where "Parse d = Inr q" "p = q\<lparr>p_builtin := True\<rparr>"
    unfolding Builtins_def set_sort set_concat set_map
    by (auto split: sum.splits) (metis)
  then show ?thesis
    using Parse_Inr_wf[of d q] by (simp add: wf_profile_def)
qed

text \<open>Whatever profile a run is scoped by parsed: a built-in one, or the operator's file.\<close>

lemma load_profile_wf: "load_profile embedded read flag = Inr (Some p) \<Longrightarrow> wf_profile p"
proof -
  have b: "Builtin embedded i = Some p \<Longrightarrow> wf_profile p" for i
    unfolding Builtin_def by (drule find_Some_set) (use Builtins_wf[of p embedded] in simp)
  let ?n = "trim_space flag"
  assume l: "load_profile embedded read flag = Inr (Some p)"
  show ?thesis
  proof (cases "?n = [] \<or> ?n = DefaultID \<or> Builtin embedded ?n \<noteq> None")
    case True
    then show ?thesis using l b by (auto simp: load_profile_def Let_def split: if_split_asm)
  next
    case False
    then obtain d where "Parse d = Inr p"
      using l by (cases "read ?n") (auto simp: load_profile_def Let_def split: if_split_asm sum.split_asm)
    then show ?thesis by (rule Parse_Inr_wf)
  qed
qed

section \<open>What scoping does\<close>

lemma SeverityFor_wf: "wf_profile p \<Longrightarrow> SeverityFor (Some p) i = Some s \<Longrightarrow> s \<noteq> NoSeverity"
  by (auto simp: SeverityFor_def lookup_def wf_profile_def valid_severity_sev_of
      split: if_splits dest!: map_of_SomeD)

lemma scope_excluded:
  "\<not> Includes (Some p) (f_check_id f) \<Longrightarrow>
     f_result (scope_finding p f) = Skipped \<and> f_skipped_by (scope_finding p f) = p_id p
     \<and> f_evidence (scope_finding p f) = [] \<and> f_remediation (scope_finding p f) = None"
  by (simp add: scope_finding_def)

lemma scope_included:
  "Includes (Some p) (f_check_id f) \<Longrightarrow>
     scope_finding p f =
       f\<lparr>f_severity := (case SeverityFor (Some p) (f_check_id f) of Some s \<Rightarrow> s | None \<Rightarrow> f_severity f)\<rparr>"
  by (auto simp: scope_finding_def split: option.split)

lemma scope_id [simp]:
  "f_check_id (scope_finding p f) = f_check_id f"
  "f_fingerprint (scope_finding p f) = f_fingerprint f"
  "f_base_severity (scope_finding p f) = f_base_severity f"
  "f_suppression (scope_finding p f) = f_suppression f"
  by (auto simp: scope_finding_def split: option.split)

lemma Count_eq: "Count p is = length (filter (Includes p) is)"
  by (induction p "is" rule: Count.induct) auto

text \<open>A module's pattern selects the module's checks: \<open>SSHD-*\<close> is every ID that starts so.\<close>

lemma match_any_module:
  "literal m \<Longrightarrow> path_match (m @ ''-*'') i =
     Some (has_prefix i (m @ ''-'') \<and> CHR ''/'' \<notin> set (drop (length m + 1) i))"
  using path_match_prefix[of "m @ ''-''" i] by (simp add: literal_def)

section \<open>Properties\<close>

definition sample_profile :: profile where
  "sample_profile = \<lparr>p_schema = Schema, p_id = ''ssh'', p_title = ''t'', p_description = [],
     p_included = [''SSHD-*''], p_excluded = [''SSHD-0009''],
     p_overrides = [(''SSHD-0001'', ''LOW'')], p_builtin = False\<rparr>"

lemma sample_profile_wf: "wf_profile sample_profile"
proof -
  have "path_match ''SSHD-*'' ''X-0000'' = Some False" "path_match ''SSHD-0009'' ''X-0000'' = Some False"
    using path_match_prefix[of "''SSHD-''" "''X-0000''"] path_match_literal[of "''SSHD-0009''" "''X-0000''"]
    by (simp_all add: has_prefix_def)
  moreover have "trim_space ''ssh'' \<noteq> []" "trim_space ''t'' \<noteq> []" "valid_severity ''LOW''"
      "\<not> contains_any ''SSHD-0001'' ''*?[''" by code_simp+
  ultimately show ?thesis by (simp add: wf_profile_def sample_profile_def ex_bool_eq)
qed

text \<open>
  What a module pattern selects. For a pattern made of literal characters, a hyphen and a final
  star, the checks in scope are exactly those whose ID begins with the literal part and holds no
  slash after it; a pattern with no metacharacter selects the one check it spells.
\<close>

theorem module_patterns_select_their_checks:
  assumes "literal m" and "literal x"
  shows "Includes (Some (p\<lparr>p_included := [m @ ''-*''], p_excluded := [x]\<rparr>)) i \<longleftrightarrow>
     has_prefix i (m @ ''-'') \<and> CHR ''/'' \<notin> set (drop (length m + 1) i) \<and> i \<noteq> x"
  using assms by (simp add: Includes_def match_any_def match_any_module path_match_literal)

theorem module_patterns_select_their_checks_witness:
  "Includes (Some sample_profile) ''SSHD-0010'' \<and> \<not> Includes (Some sample_profile) ''SSHD-0009''
   \<and> \<not> Includes (Some sample_profile) ''USERS-0001''"
proof -
  have p: "sample_profile = sample_profile\<lparr>p_included := [''SSHD'' @ ''-*''], p_excluded := [''SSHD-0009'']\<rparr>"
    by (simp add: sample_profile_def)
  have "literal ''SSHD''" "literal ''SSHD-0009''" by simp_all
  from module_patterns_select_their_checks[OF this, of sample_profile, folded p]
  show ?thesis by (simp add: has_prefix_def)
qed

text \<open>
  C22: every baseline a run can be scoped by is a usable one. Whatever the flag names, a built-in or
  the operator's file, loading yields no profile but one that declares an ID, a title and at least
  one included pattern, whose patterns all compile and whose overrides each name one check and one
  of the five severities; so an override never makes a severity the score cannot weigh.
\<close>

theorem loaded_profiles_are_usable:
  assumes "load_profile embedded read flag = Inr (Some p)"
  shows "p_id p \<noteq> [] \<and> p_included p \<noteq> []
     \<and> (\<forall>pat \<in> set (p_included p @ p_excluded p). path_match pat ''X-0000'' \<noteq> None)
     \<and> (case SeverityFor (Some p) i of None \<Rightarrow> True
        | Some s \<Rightarrow> s \<noteq> NoSeverity \<and> \<not> contains_any i ''*?['')"
proof -
  have w: "wf_profile p" by (rule load_profile_wf[OF assms])
  have "\<not> contains_any i ''*?[''" if "SeverityFor (Some p) i = Some s" for s
    using w that by (auto simp: SeverityFor_def lookup_def wf_profile_def split: if_splits dest!: map_of_SomeD)
  then show ?thesis
    using w SeverityFor_wf[OF w, of i] wf_profile_id[OF w] by (auto simp: wf_profile_def split: option.split)
qed

theorem loaded_profiles_are_usable_witness:
  "load_profile [Inr sample_profile] (\<lambda>_. Inl ''absent'') ''ssh'' = Inr (Some (sample_profile\<lparr>p_builtin := True\<rparr>))
   \<and> p_included (sample_profile\<lparr>p_builtin := True\<rparr>) \<noteq> []"
proof -
  have "Parse (Inr sample_profile) = Inr sample_profile" by (simp add: Parse_Inr sample_profile_wf)
  then have b: "Builtins [Inr sample_profile] = [sample_profile\<lparr>p_builtin := True\<rparr>]"
    by (simp add: Builtins_def)
  have t: "trim_space ''ssh'' = ''ssh''" by code_simp
  have l: "load_profile [Inr sample_profile] (\<lambda>_. Inl ''absent'') ''ssh''
      = Inr (Some (sample_profile\<lparr>p_builtin := True\<rparr>))"
    by (simp add: load_profile_def Let_def t DefaultID_def Builtin_def b) (simp add: sample_profile_def)
  from loaded_profiles_are_usable[OF l] l show ?thesis by blast
qed

end
