(* ===== verification/Time.thy ===== *)
theory Time
  imports Prelude
begin

text \<open>
  What the program uses of Go's package time: \<open>time.Parse(time.RFC3339, s)\<close>, \<open>IsZero\<close> and
  \<open>Before\<close>. An instant is the number of nanoseconds since 0001-01-01T00:00:00Z, so the zero
  \<open>time.Time\<close> is 0. \<open>parse_rfc3339\<close> is the layout-driven parser (its fast path accepts a subset
  with the same instants): an hour of one or two digits, a fraction after a period or a comma of
  which nine digits count, and an offset of at most 24 hours and 60 minutes.
\<close>

type_synonym instant = int

definition leap :: "int \<Rightarrow> bool" where
  "leap y \<longleftrightarrow> y mod 4 = 0 \<and> (y mod 100 \<noteq> 0 \<or> y mod 400 = 0)"

definition days_in :: "int \<Rightarrow> int \<Rightarrow> int" where
  "days_in m y =
     (if m = 2 then (if leap y then 29 else 28) else if m \<in> {4, 6, 9, 11} then 30 else 31)"

definition days_before_year :: "int \<Rightarrow> int" where
  "days_before_year y = (let z = y - 1 in 365 * z + z div 4 - z div 100 + z div 400)"

definition days_before_month :: "int \<Rightarrow> int \<Rightarrow> int" where
  "days_before_month m y = sum_list (map (\<lambda>k. days_in k y) [1..m - 1])"

definition unix_ns :: "int \<Rightarrow> int \<Rightarrow> int \<Rightarrow> int \<Rightarrow> int \<Rightarrow> int \<Rightarrow> int \<Rightarrow> int \<Rightarrow> instant" where
  "unix_ns y mo d h mi s ns off =
     ((days_before_year y + days_before_month mo y + (d - 1)) * 86400
       + h * 3600 + mi * 60 + s - off) * 1000000000 + ns"

section \<open>The parser\<close>

text \<open>Exactly n digits, and what follows them.\<close>

definition num_fixed :: "nat \<Rightarrow> string \<Rightarrow> (int \<times> string) option" where
  "num_fixed n s =
     (if n \<le> length s \<and> (\<forall>c \<in> set (take n s). is_digit c)
      then Some (int (dec_val (take n s)), drop n s) else None)"

definition num_1_or_2 :: "string \<Rightarrow> (int \<times> string) option" where
  "num_1_or_2 s = (case num_fixed 2 s of Some r \<Rightarrow> Some r | None \<Rightarrow> num_fixed 1 s)"

definition lit :: "char \<Rightarrow> string \<Rightarrow> string option" where
  "lit c s = (case s of [] \<Rightarrow> None | d # r \<Rightarrow> if d = c then Some r else None)"

definition fraction :: "string \<Rightarrow> int \<times> string" where
  "fraction s =
     (case s of
        c # r \<Rightarrow>
          (if (c = CHR ''.'' \<or> c = CHR '','') \<and> takeWhile is_digit r \<noteq> [] then
             (let ds = take 9 (takeWhile is_digit r)
              in (int (dec_val ds) * 10 ^ (9 - length ds), dropWhile is_digit r))
           else (0, s))
      | [] \<Rightarrow> (0, s))"

definition zone :: "string \<Rightarrow> (int \<times> string) option" where
  "zone s =
     (case s of
        [] \<Rightarrow> None
      | c # r \<Rightarrow>
          (if c = CHR ''Z'' then Some (0, r)
           else
             (case num_fixed 2 r of
                None \<Rightarrow> None
              | Some (hh, r1) \<Rightarrow>
                  (case lit CHR '':'' r1 of
                     None \<Rightarrow> None
                   | Some r2 \<Rightarrow>
                       (case num_fixed 2 r2 of
                          None \<Rightarrow> None
                        | Some (mm, r3) \<Rightarrow>
                            (if 24 < hh \<or> 60 < mm then None
                             else if c = CHR ''+'' then Some ((hh * 60 + mm) * 60, r3)
                             else if c = CHR ''-'' then Some (- ((hh * 60 + mm) * 60), r3)
                             else None))))))"

fun clock :: "string \<Rightarrow> (int \<times> int \<times> int \<times> string) option" where
  "clock s =
     (case num_1_or_2 s of
        None \<Rightarrow> None
      | Some (h, r) \<Rightarrow>
          (case Option.bind (lit CHR '':'' r) (num_fixed 2) of
             None \<Rightarrow> None
           | Some (mi, r1) \<Rightarrow>
               (case Option.bind (lit CHR '':'' r1) (num_fixed 2) of
                  None \<Rightarrow> None
                | Some (sec, r2) \<Rightarrow>
                    if 24 \<le> h \<or> 60 \<le> mi \<or> 60 \<le> sec then None else Some (h, mi, sec, r2))))"

fun date :: "string \<Rightarrow> (int \<times> int \<times> int \<times> string) option" where
  "date s =
     (case num_fixed 4 s of
        None \<Rightarrow> None
      | Some (y, r) \<Rightarrow>
          (case Option.bind (lit CHR ''-'' r) (num_fixed 2) of
             None \<Rightarrow> None
           | Some (mo, r1) \<Rightarrow>
               (case Option.bind (lit CHR ''-'' r1) (num_fixed 2) of
                  None \<Rightarrow> None
                | Some (d, r2) \<Rightarrow>
                    if mo < 1 \<or> 12 < mo \<or> d < 1 \<or> days_in mo y < d then None
                    else Some (y, mo, d, r2))))"

definition parse_rfc3339 :: "string \<Rightarrow> instant option" where
  "parse_rfc3339 s =
     (case date s of
        None \<Rightarrow> None
      | Some (y, mo, d, r) \<Rightarrow>
          (case Option.bind (lit CHR ''T'' r) clock of
             None \<Rightarrow> None
           | Some (h, mi, sec, r1) \<Rightarrow>
               (case fraction r1 of
                  (ns, r2) \<Rightarrow>
                    (case zone r2 of
                       Some (off, []) \<Rightarrow> Some (unix_ns y mo d h mi sec ns off)
                     | _ \<Rightarrow> None))))"

definition is_zero :: "instant \<Rightarrow> bool" where
  "is_zero t \<longleftrightarrow> t = 0"

definition before :: "instant \<Rightarrow> instant \<Rightarrow> bool" where
  "before a b \<longleftrightarrow> a < b"

end
