(* ===== verification/Suppress.thy ===== *)
theory Suppress
  imports Finding Fact Time
begin

text \<open>
  internal/suppress/suppress.go: the accepted-risk rules and their application. \<open>Parse\<close> starts
  from what encoding/json decoded the file into, or its error. A set is the Go map from
  fingerprint to rule and the file order; a nil set is \<open>None\<close>.
\<close>

section \<open>Rules and sets\<close>

definition Schema :: string where
  "Schema = ''suppressions/v1''"

text \<open>The parsed expiry is the zero time when the rule has none.\<close>

record rule =
  r_fingerprint :: string
  r_justification :: string
  r_expires_at :: string
  r_check_id :: string
  r_subject :: string
  r_expires :: instant

record rule_file =
  sf_schema :: string
  sf_rules :: "rule list"

record rule_set =
  by_fp :: "rule gomap"
  rs_order :: "string list"

definition empty_rules :: rule_set where
  "empty_rules = \<lparr>by_fp = [], rs_order = []\<rparr>"

definition Expires :: "rule \<Rightarrow> instant option" where
  "Expires r = (if is_zero (r_expires r) then None else Some (r_expires r))"

definition rules_len :: "rule_set option \<Rightarrow> nat" where
  "rules_len s = (case s of None \<Rightarrow> 0 | Some rs \<Rightarrow> length (rs_order rs))"

section \<open>Parsing\<close>

definition fingerprint_pattern :: "string \<Rightarrow> bool" where
  "fingerprint_pattern s \<longleftrightarrow> length s = 32 \<and> (\<forall>c \<in> set s. is_hex c)"

text \<open>One constructor per error of the code, with the values its message prints.\<close>

datatype parse_error =
    BadJSON string
  | BadSchema string
  | BadFingerprint nat string
  | NoJustification nat string
  | BadExpiry nat string string
  | LabelMismatch nat string string string string
  | DuplicateRule nat string

text \<open>The body of the loop, up to the duplicate test: the rule as it is stored.\<close>

definition normalise :: "nat \<Rightarrow> rule \<Rightarrow> parse_error + rule" where
  "normalise i r =
     (let fp = to_lower (trim_space (r_fingerprint r)); r1 = r\<lparr>r_fingerprint := fp\<rparr> in
      if \<not> fingerprint_pattern fp then Inl (BadFingerprint i fp)
      else if trim_space (r_justification r1) = [] then Inl (NoJustification i fp)
      else
        (case (if r_expires_at r1 \<noteq> [] then map_option Some (parse_rfc3339 (r_expires_at r1))
               else Some None) of
           None \<Rightarrow> Inl (BadExpiry i fp (r_expires_at r1))
         | Some t \<Rightarrow>
             (let r2 = (case t of None \<Rightarrow> r1 | Some e \<Rightarrow> r1\<lparr>r_expires := e\<rparr>);
                  want = Finding.fingerprint (r_check_id r2) (r_subject r2) in
              if (r_check_id r2 \<noteq> [] \<or> r_subject r2 \<noteq> []) \<and> want \<noteq> fp
              then Inl (LabelMismatch i (r_check_id r2) (r_subject r2) want fp)
              else Inr r2)))"

fun parse_rules :: "nat \<Rightarrow> rule list \<Rightarrow> rule_set \<Rightarrow> parse_error + rule_set" where
  "parse_rules i [] s = Inr s"
| "parse_rules i (r # rs) s =
     (case normalise i r of
        Inl e \<Rightarrow> Inl e
      | Inr r' \<Rightarrow>
          (if lookup (by_fp s) (r_fingerprint r') \<noteq> None then Inl (DuplicateRule i (r_fingerprint r'))
           else parse_rules (Suc i) rs
                  (s\<lparr>by_fp := put (r_fingerprint r') r' (by_fp s),
                     rs_order := rs_order s @ [r_fingerprint r']\<rparr>)))"

definition Parse :: "string + rule_file \<Rightarrow> parse_error + rule_set" where
  "Parse decoded =
     (case decoded of
        Inl e \<Rightarrow> Inl (BadJSON e)
      | Inr f \<Rightarrow>
          (if sf_schema f \<noteq> Schema then Inl (BadSchema (sf_schema f))
           else parse_rules 0 (sf_rules f) empty_rules))"

section \<open>Applying a set\<close>

record applied =
  ap_findings :: "finding list"
  ap_applied :: "rule list"
  ap_expired :: "rule list"
  ap_unmatched :: "rule list"

text \<open>
  One iteration over the findings: the finding as rewritten, and the fingerprints recorded in the
  maps \<open>applied\<close> and \<open>expired\<close>.
\<close>

definition suppressible :: "finding \<Rightarrow> bool" where
  "suppressible f \<longleftrightarrow> f_result f = Fail \<or> f_result f = Unknown"

definition lapsed :: "rule \<Rightarrow> instant \<Rightarrow> bool" where
  "lapsed r at = (case Expires r of None \<Rightarrow> False | Some e \<Rightarrow> \<not> before at e)"

definition apply_one ::
  "rule gomap \<Rightarrow> instant \<Rightarrow> finding \<Rightarrow> finding \<times> string option \<times> string option"
where
  "apply_one m at f =
     (if \<not> suppressible f then (f, None, None)
      else
        (case lookup m (f_fingerprint f) of
           None \<Rightarrow> (f, None, None)
         | Some r \<Rightarrow>
             (if lapsed r at then (f, None, Some (r_fingerprint r))
              else (f\<lparr>f_suppression := Some \<lparr>sup_justification = trim_space (r_justification r),
                        sup_expires_at = r_expires_at r, sup_original = f_result f\<rparr>,
                      f_result := Skipped\<rparr>, Some (r_fingerprint r), None))))"

fun apply_loop ::
  "rule gomap \<Rightarrow> instant \<Rightarrow> finding list \<Rightarrow> finding list \<times> string set \<times> string set"
where
  "apply_loop m at [] = ([], {}, {})"
| "apply_loop m at (f # fs) =
     (case apply_one m at f of (f', a, e) \<Rightarrow>
        (case apply_loop m at fs of (fs', as, es) \<Rightarrow>
           (f' # fs', set_option a \<union> as, set_option e \<union> es)))"

definition Apply :: "rule_set option \<Rightarrow> finding list \<Rightarrow> instant \<Rightarrow> applied" where
  "Apply s fs at =
     (case s of
        None \<Rightarrow> \<lparr>ap_findings = fs, ap_applied = [], ap_expired = [], ap_unmatched = []\<rparr>
      | Some rs \<Rightarrow>
          (if by_fp rs = [] then
             \<lparr>ap_findings = fs, ap_applied = [], ap_expired = [], ap_unmatched = []\<rparr>
           else
             (case apply_loop (by_fp rs) at fs of (fs', as, es) \<Rightarrow>
                (let rule = (\<lambda>fp. the (lookup (by_fp rs) fp)) in
                 \<lparr>ap_findings = fs',
                  ap_applied = map rule (filter (\<lambda>fp. fp \<in> as) (rs_order rs)),
                  ap_expired = map rule (filter (\<lambda>fp. fp \<notin> as \<and> fp \<in> es) (rs_order rs)),
                  ap_unmatched = map rule (filter (\<lambda>fp. fp \<notin> as \<and> fp \<notin> es) (rs_order rs))\<rparr>))))"

definition SortRules :: "rule list \<Rightarrow> rule list" where
  "SortRules rs = sort_key r_fingerprint rs"

section \<open>What the parser accepts\<close>

definition wf_rules :: "rule_set \<Rightarrow> bool" where
  "wf_rules s \<longleftrightarrow> wf_map (by_fp s) \<and> distinct (rs_order s)
     \<and> set (rs_order s) = {k. lookup (by_fp s) k \<noteq> None}
     \<and> (\<forall>k r. lookup (by_fp s) k = Some r \<longrightarrow> r_fingerprint r = k)"

definition all_rules :: "rule_set \<Rightarrow> rule list" where
  "all_rules s = map (\<lambda>k. the (lookup (by_fp s) k)) (rs_order s)"

lemma wf_empty_rules [simp]: "wf_rules empty_rules"
  by (simp add: wf_rules_def empty_rules_def)

lemma wf_rules_put:
  "wf_rules s \<Longrightarrow> lookup (by_fp s) (r_fingerprint r) = None \<Longrightarrow>
     wf_rules (s\<lparr>by_fp := put (r_fingerprint r) r (by_fp s), rs_order := rs_order s @ [r_fingerprint r]\<rparr>)"
  by (auto simp: wf_rules_def)

lemma all_rules_put:
  "wf_rules s \<Longrightarrow> lookup (by_fp s) (r_fingerprint r) = None \<Longrightarrow>
     all_rules (s\<lparr>by_fp := put (r_fingerprint r) r (by_fp s), rs_order := rs_order s @ [r_fingerprint r]\<rparr>)
     = all_rules s @ [r]"
  by (auto simp: wf_rules_def all_rules_def)

text \<open>What a rule must satisfy, stated on the rule as written in the file.\<close>

definition valid_rule :: "rule \<Rightarrow> bool" where
  "valid_rule r \<longleftrightarrow>
     fingerprint_pattern (to_lower (trim_space (r_fingerprint r)))
     \<and> trim_space (r_justification r) \<noteq> []
     \<and> (r_expires_at r \<noteq> [] \<longrightarrow> parse_rfc3339 (r_expires_at r) \<noteq> None)
     \<and> (r_check_id r \<noteq> [] \<or> r_subject r \<noteq> [] \<longrightarrow>
          Finding.fingerprint (r_check_id r) (r_subject r) = to_lower (trim_space (r_fingerprint r)))"

definition stored_rule :: "rule \<Rightarrow> rule" where
  "stored_rule r = r\<lparr>r_fingerprint := to_lower (trim_space (r_fingerprint r)),
     r_expires := (if r_expires_at r = [] then r_expires r else the (parse_rfc3339 (r_expires_at r)))\<rparr>"

lemma normalise_Inr: "normalise i r = Inr r' \<longleftrightarrow> valid_rule r \<and> r' = stored_rule r"
  by (cases r; cases "parse_rfc3339 (r_expires_at r)")
    (auto simp: normalise_def valid_rule_def stored_rule_def Let_def split: if_splits)

lemma normalise_valid: "(\<exists>e. normalise i r = Inl e) \<longleftrightarrow> \<not> valid_rule r"
  by (metis Inl_Inr_False normalise_Inr obj_sumE)

lemma parse_rules_Inr:
  "parse_rules i rs s = Inr s' \<Longrightarrow> wf_rules s \<Longrightarrow>
     (\<forall>r \<in> set rs. valid_rule r)
     \<and> distinct (map (r_fingerprint \<circ> stored_rule) rs)
     \<and> (\<forall>r \<in> set rs. lookup (by_fp s) (r_fingerprint (stored_rule r)) = None)"
proof (induction i rs s rule: parse_rules.induct)
  case (2 i r rs s)
  obtain r' where r': "normalise i r = Inr r'" using "2.prems" by (cases "normalise i r") auto
  then have v: "valid_rule r" "r' = stored_rule r" by (simp_all add: normalise_Inr)
  have fresh: "lookup (by_fp s) (r_fingerprint r') = None"
    using "2.prems" r' by (auto split: if_splits)
  let ?s = "s\<lparr>by_fp := put (r_fingerprint r') r' (by_fp s), rs_order := rs_order s @ [r_fingerprint r']\<rparr>"
  have "parse_rules (Suc i) rs ?s = Inr s'" using "2.prems"(1) r' fresh by simp
  from "2.IH"[OF r' _ this wf_rules_put[OF "2.prems"(2) fresh]] fresh
  have ih: "\<forall>r \<in> set rs. valid_rule r" "distinct (map (r_fingerprint \<circ> stored_rule) rs)"
      "\<forall>q \<in> set rs. lookup (by_fp ?s) (r_fingerprint (stored_rule q)) = None"
    by (simp_all add: comp_def)
  then have "\<forall>q \<in> set rs. r_fingerprint (stored_rule q) \<noteq> r_fingerprint r'
      \<and> lookup (by_fp s) (r_fingerprint (stored_rule q)) = None"
    by (auto split: if_splits)
  then show ?case using ih v fresh by (auto simp: comp_def)
qed simp

lemma parse_rules_complete:
  "wf_rules s \<Longrightarrow> (\<forall>r \<in> set rs. valid_rule r) \<Longrightarrow> distinct (map (r_fingerprint \<circ> stored_rule) rs) \<Longrightarrow>
   (\<forall>r \<in> set rs. lookup (by_fp s) (r_fingerprint (stored_rule r)) = None) \<Longrightarrow>
     \<exists>s'. parse_rules i rs s = Inr s' \<and> wf_rules s' \<and> all_rules s' = all_rules s @ map stored_rule rs"
proof (induction i rs s rule: parse_rules.induct)
  case (2 i r rs s)
  have n: "normalise i r = Inr (stored_rule r)" using "2.prems" by (simp add: normalise_Inr)
  have fresh: "lookup (by_fp s) (r_fingerprint (stored_rule r)) = None" using "2.prems" by simp
  let ?s = "s\<lparr>by_fp := put (r_fingerprint (stored_rule r)) (stored_rule r) (by_fp s),
     rs_order := rs_order s @ [r_fingerprint (stored_rule r)]\<rparr>"
  have "\<exists>s'. parse_rules (Suc i) rs ?s = Inr s' \<and> wf_rules s' \<and> all_rules s' = all_rules ?s @ map stored_rule rs"
    by (rule "2.IH"[OF n])
      (use "2.prems" fresh wf_rules_put[OF "2.prems"(1) fresh] in \<open>auto simp: image_iff\<close>)
  then show ?case using n fresh all_rules_put[OF "2.prems"(1) fresh] by simp
qed simp

text \<open>The parser accepts exactly the files whose rules are valid and name different findings.\<close>

lemma Parse_accepts:
  "(\<exists>s. Parse (Inr f) = Inr s) \<longleftrightarrow>
     sf_schema f = Schema \<and> (\<forall>r \<in> set (sf_rules f). valid_rule r)
     \<and> distinct (map (r_fingerprint \<circ> stored_rule) (sf_rules f))"
proof -
  have "(\<exists>s. parse_rules 0 (sf_rules f) empty_rules = Inr s) \<longleftrightarrow>
     (\<forall>r \<in> set (sf_rules f). valid_rule r) \<and> distinct (map (r_fingerprint \<circ> stored_rule) (sf_rules f))"
    using parse_rules_Inr[of 0 "sf_rules f" empty_rules, OF _ wf_empty_rules]
      parse_rules_complete[OF wf_empty_rules, of "sf_rules f" 0]
    by (auto simp: empty_rules_def)
  then show ?thesis by (simp add: Parse_def)
qed

lemma Parse_stores:
  "Parse (Inr f) = Inr s \<Longrightarrow> wf_rules s \<and> all_rules s = map stored_rule (sf_rules f)"
proof -
  assume p: "Parse (Inr f) = Inr s"
  then have "\<forall>r \<in> set (sf_rules f). valid_rule r" "distinct (map (r_fingerprint \<circ> stored_rule) (sf_rules f))"
    using Parse_accepts[of f] by auto
  from parse_rules_complete[OF wf_empty_rules this, of 0] p
  show ?thesis by (auto simp: Parse_def empty_rules_def all_rules_def split: if_splits)
qed

section \<open>What applying a set does\<close>

text \<open>The findings are rewritten one by one; the specification of that rewrite.\<close>

definition live_rule :: "rule_set \<Rightarrow> instant \<Rightarrow> finding \<Rightarrow> rule option" where
  "live_rule rs at f =
     (case lookup (by_fp rs) (f_fingerprint f) of
        Some r \<Rightarrow> if suppressible f \<and> \<not> lapsed r at then Some r else None
      | None \<Rightarrow> None)"

lemma live_rule_suppressible:
  "live_rule rs at f = Some r \<Longrightarrow> f_result f = Fail \<or> f_result f = Unknown"
  by (auto simp: live_rule_def suppressible_def split: option.splits if_splits)

definition suppress_finding :: "rule \<Rightarrow> finding \<Rightarrow> finding" where
  "suppress_finding r f =
     f\<lparr>f_suppression := Some \<lparr>sup_justification = trim_space (r_justification r),
         sup_expires_at = r_expires_at r, sup_original = f_result f\<rparr>, f_result := Skipped\<rparr>"

lemma apply_one_finding:
  "fst (apply_one (by_fp rs) at f) =
     (case live_rule rs at f of None \<Rightarrow> f | Some r \<Rightarrow> suppress_finding r f)"
  by (auto simp: apply_one_def live_rule_def suppress_finding_def split: option.split)

lemma apply_loop_findings: "fst (apply_loop m at fs) = map (\<lambda>f. fst (apply_one m at f)) fs"
  by (induction m at fs rule: apply_loop.induct) (auto split: prod.splits)

lemma apply_loop_applied:
  "fst (snd (apply_loop m at fs)) = {fp. \<exists>f \<in> set fs. fst (snd (apply_one m at f)) = Some fp}"
  by (induction m at fs rule: apply_loop.induct) (auto split: prod.splits)

lemma apply_loop_expired:
  "snd (snd (apply_loop m at fs)) = {fp. \<exists>f \<in> set fs. snd (snd (apply_one m at f)) = Some fp}"
  by (induction m at fs rule: apply_loop.induct) (auto split: prod.splits)

text \<open>
  The rules a set of findings meets: a rule whose fingerprint some FAIL or UNKNOWN carries. It is
  applied when it is live at the given instant, expired when it has lapsed.
\<close>

definition met :: "finding list \<Rightarrow> string \<Rightarrow> bool" where
  "met fs fp \<longleftrightarrow> (\<exists>f \<in> set fs. suppressible f \<and> f_fingerprint f = fp)"

lemma applied_iff:
  "wf_rules rs \<Longrightarrow> fp \<in> fst (snd (apply_loop (by_fp rs) at fs)) \<longleftrightarrow>
     met fs fp \<and> (\<exists>r. lookup (by_fp rs) fp = Some r \<and> \<not> lapsed r at)"
  unfolding apply_loop_applied met_def
  by (auto simp: apply_one_def wf_rules_def split: option.splits if_splits)

lemma expired_iff:
  "wf_rules rs \<Longrightarrow> fp \<in> snd (snd (apply_loop (by_fp rs) at fs)) \<longleftrightarrow>
     met fs fp \<and> (\<exists>r. lookup (by_fp rs) fp = Some r \<and> lapsed r at)"
  unfolding apply_loop_expired met_def
  by (auto simp: apply_one_def wf_rules_def split: option.splits if_splits)

lemma by_fp_Nil: "wf_rules rs \<Longrightarrow> by_fp rs = [] \<Longrightarrow> rs_order rs = []"
  by (auto simp: wf_rules_def)

lemma Apply_findings:
  "ap_findings (Apply s fs at) =
     (case s of None \<Rightarrow> fs
      | Some rs \<Rightarrow> map (\<lambda>f. case live_rule rs at f of None \<Rightarrow> f | Some r \<Rightarrow> suppress_finding r f) fs)"
proof (cases s)
  case (Some rs)
  have "map (\<lambda>f. case live_rule rs at f of None \<Rightarrow> f | Some r \<Rightarrow> suppress_finding r f) fs = fs"
    if "by_fp rs = []"
    using that by (auto simp: live_rule_def intro: map_idI)
  then show ?thesis
    using Some apply_loop_findings[of "by_fp rs" at fs]
    by (auto simp: Apply_def Let_def apply_one_finding split: prod.splits)
qed (simp add: Apply_def)

lemma Apply_rules:
  assumes "wf_rules rs"
  shows "ap_applied (Apply (Some rs) fs at) =
       filter (\<lambda>r. met fs (r_fingerprint r) \<and> \<not> lapsed r at) (all_rules rs)"
    and "ap_expired (Apply (Some rs) fs at) =
       filter (\<lambda>r. met fs (r_fingerprint r) \<and> lapsed r at) (all_rules rs)"
    and "ap_unmatched (Apply (Some rs) fs at) =
       filter (\<lambda>r. \<not> met fs (r_fingerprint r)) (all_rules rs)"
proof -
  let ?l = "apply_loop (by_fp rs) at fs" and ?rule = "\<lambda>fp. the (lookup (by_fp rs) fp)"
  have fp: "lookup (by_fp rs) k = Some (?rule k) \<and> r_fingerprint (?rule k) = k"
    if "k \<in> set (rs_order rs)" for k
    using that assms by (auto simp: wf_rules_def)
  have filt: "map ?rule (filter P (rs_order rs)) = filter Q (all_rules rs)"
    if "\<And>k. k \<in> set (rs_order rs) \<Longrightarrow> P k = Q (?rule k)" for P Q
    using that by (simp add: all_rules_def filter_map comp_def cong: filter_cong)
  note iffs = applied_iff[OF assms] expired_iff[OF assms]
  show "ap_applied (Apply (Some rs) fs at) =
       filter (\<lambda>r. met fs (r_fingerprint r) \<and> \<not> lapsed r at) (all_rules rs)"
  proof (cases "by_fp rs = []")
    case False
    then have "ap_applied (Apply (Some rs) fs at) = map ?rule (filter (\<lambda>k. k \<in> fst (snd ?l)) (rs_order rs))"
      by (simp add: Apply_def Let_def split: prod.split)
    also have "\<dots> = filter (\<lambda>r. met fs (r_fingerprint r) \<and> \<not> lapsed r at) (all_rules rs)"
      by (rule filt) (use fp in \<open>auto simp: iffs\<close>)
    finally show ?thesis .
  qed (use by_fp_Nil[OF assms] in \<open>auto simp: Apply_def all_rules_def\<close>)
  show "ap_expired (Apply (Some rs) fs at) =
       filter (\<lambda>r. met fs (r_fingerprint r) \<and> lapsed r at) (all_rules rs)"
  proof (cases "by_fp rs = []")
    case False
    then have "ap_expired (Apply (Some rs) fs at)
        = map ?rule (filter (\<lambda>k. k \<notin> fst (snd ?l) \<and> k \<in> snd (snd ?l)) (rs_order rs))"
      by (simp add: Apply_def Let_def split: prod.split)
    also have "\<dots> = filter (\<lambda>r. met fs (r_fingerprint r) \<and> lapsed r at) (all_rules rs)"
      by (rule filt) (use fp in \<open>auto simp: iffs\<close>)
    finally show ?thesis .
  qed (use by_fp_Nil[OF assms] in \<open>auto simp: Apply_def all_rules_def\<close>)
  show "ap_unmatched (Apply (Some rs) fs at) = filter (\<lambda>r. \<not> met fs (r_fingerprint r)) (all_rules rs)"
  proof (cases "by_fp rs = []")
    case False
    then have "ap_unmatched (Apply (Some rs) fs at)
        = map ?rule (filter (\<lambda>k. k \<notin> fst (snd ?l) \<and> k \<notin> snd (snd ?l)) (rs_order rs))"
      by (simp add: Apply_def Let_def split: prod.split)
    also have "\<dots> = filter (\<lambda>r. \<not> met fs (r_fingerprint r)) (all_rules rs)"
      by (rule filt) (use fp in \<open>auto simp: iffs\<close>)
    finally show ?thesis .
  qed (use by_fp_Nil[OF assms] in \<open>auto simp: Apply_def all_rules_def\<close>)
qed

lemma partition3:
  "mset (filter (\<lambda>r. P r \<and> \<not> Q r) rs) + mset (filter (\<lambda>r. P r \<and> Q r) rs) + mset (filter (\<lambda>r. \<not> P r) rs)
   = mset rs"
  by (induction rs) auto

section \<open>Fingerprints survive the copy into a file\<close>

lemma hex_not_space: "\<forall>c \<in> set s. is_hex c \<Longrightarrow> space_at ws s = None" if "ws = spaces \<or> ws = map rev spaces"
proof -
  assume hex: "\<forall>c \<in> set s. is_hex c"
  have "\<not> has_prefix s w" if w: "w \<in> set ws" "w \<noteq> []" for w
  proof
    assume "has_prefix s w"
    then have "hd w \<in> set s" using w(2) by (auto simp: has_prefix_iff)
    moreover have "\<not> is_hex (hd w)"
      using w(1) \<open>ws = spaces \<or> ws = map rev spaces\<close>
      by (auto simp: spaces_def is_hex_def byte_def)
    ultimately show False using hex by blast
  qed
  then show ?thesis by (auto simp: space_at_def find_None_iff')
qed

lemma trim_hex: "\<forall>c \<in> set s. is_hex c \<Longrightarrow> trim_space s = s"
  using hex_not_space[of spaces s] hex_not_space[of "map rev spaces" "rev s"]
  by (simp add: trim_space_def trim_left_space_def trim_right_space_def strip_left.simps)

lemma lower_hex: "\<forall>c \<in> set s. is_hex c \<Longrightarrow> to_lower s = s"
  by (subst to_lower_ascii) (auto simp: ascii_def to_lower_char_def is_hex_def byte_def intro!: map_idI)

lemma fingerprint_copied:
  "to_lower (trim_space (Finding.fingerprint c s)) = Finding.fingerprint c s"
  using fingerprint_is_hex[of c s] by (simp add: trim_hex lower_hex)

lemma fingerprint_pattern_fingerprint: "fingerprint_pattern (Finding.fingerprint c s)"
  by (simp add: fingerprint_pattern_def fingerprint_is_hex length_fingerprint)

text \<open>
  An expiry at the zero time is stored but not seen: \<open>Expires\<close> reports that the rule has none, so a
  deadline of 0001-01-01T00:00:00Z never lapses.
\<close>

lemma zero_time_expiry_never_lapses:
  "r_expires_at r = ''0001-01-01T00:00:00Z'' \<Longrightarrow> \<not> lapsed (stored_rule r) at"
proof -
  assume r: "r_expires_at r = ''0001-01-01T00:00:00Z''"
  have "parse_rfc3339 ''0001-01-01T00:00:00Z'' = Some 0" by code_simp
  then show ?thesis by (simp add: r stored_rule_def lapsed_def Expires_def is_zero_def)
qed

section \<open>Properties\<close>

text \<open>
  C17: what the suppression parser accepts. A decoded file is accepted exactly when its schema is the
  known one, every rule has a 32-digit fingerprint, a justification that is not blank, an expiry
  that parses if it has one and a label that hashes to its fingerprint if it has one, and no
  fingerprint is named twice; the set then holds every rule of the file, in file order.
\<close>

theorem suppression_file_accepted_iff:
  "(case Parse (Inr f) of
      Inl _ \<Rightarrow> \<not> (sf_schema f = Schema \<and> list_all valid_rule (sf_rules f)
                 \<and> distinct (map (r_fingerprint \<circ> stored_rule) (sf_rules f)))
    | Inr s \<Rightarrow> sf_schema f = Schema \<and> list_all valid_rule (sf_rules f)
                 \<and> distinct (map (r_fingerprint \<circ> stored_rule) (sf_rules f))
                 \<and> wf_rules s \<and> all_rules s = map stored_rule (sf_rules f))"
  using Parse_accepts[of f] Parse_stores[of f]
  by (cases "Parse (Inr f)") (auto simp: list_all_iff)

definition sample_rule :: "string \<Rightarrow> string \<Rightarrow> rule" where
  "sample_rule fp expires = \<lparr>r_fingerprint = fp, r_justification = ''accepted'', r_expires_at = expires,
     r_check_id = [], r_subject = [], r_expires = 0\<rparr>"

text \<open>
  A rule for any finding can be written down. The fingerprint the program prints for a finding,
  copied into a rule with any justification that is not blank and no expiry, with or without the
  finding's check ID and subject as the label, is a rule the parser accepts as it stands.
\<close>

theorem printed_fingerprints_are_accepted:
  assumes "trim_space j \<noteq> []" and "ci = [] \<and> sj = [] \<or> ci = c \<and> sj = s"
  shows "\<exists>rs. Parse (Inr \<lparr>sf_schema = Schema, sf_rules =
       [\<lparr>r_fingerprint = Finding.fingerprint c s, r_justification = j, r_expires_at = [],
         r_check_id = ci, r_subject = sj, r_expires = 0\<rparr>]\<rparr>) = Inr rs
     \<and> map r_fingerprint (all_rules rs) = [Finding.fingerprint c s]"
proof -
  let ?r = "\<lparr>r_fingerprint = Finding.fingerprint c s, r_justification = j, r_expires_at = [],
         r_check_id = ci, r_subject = sj, r_expires = 0\<rparr>"
  let ?f = "\<lparr>sf_schema = Schema, sf_rules = [?r]\<rparr>"
  have "valid_rule ?r"
    using assms by (auto simp: valid_rule_def fingerprint_copied fingerprint_pattern_fingerprint)
  then obtain rs where rs: "Parse (Inr ?f) = Inr rs" using Parse_accepts[of ?f] by auto
  then show ?thesis
    using Parse_stores[OF rs] by (simp add: stored_rule_def fingerprint_copied)
qed

theorem printed_fingerprints_are_accepted_witness:
  "\<exists>rs. map r_fingerprint (all_rules rs) = [Finding.fingerprint ''SSHD-0001'' ''/etc/ssh/sshd_config'']"
proof -
  have "trim_space ''ok'' \<noteq> []" by code_simp
  from printed_fingerprints_are_accepted[OF this disjI2[OF conjI[OF refl refl]],
      of "''SSHD-0001''" "''/etc/ssh/sshd_config''"]
  show ?thesis by (elim exE conjE) (rule exI)
qed

text \<open>
  C15: suppression hides no row. The findings come back in number and order; a finding changes only if
  it is a FAIL or UNKNOWN with a live rule for its fingerprint, and then to SKIPPED with the
  original result and the justification recorded; a PASS never changes.
\<close>

theorem suppression_keeps_every_row:
  "list_all2 (\<lambda>f g.
       f_check_id g = f_check_id f \<and> f_fingerprint g = f_fingerprint f \<and> f_severity g = f_severity f
       \<and> (case live_rule rs at f of
            None \<Rightarrow> g = f
          | Some r \<Rightarrow> (f_result f = Fail \<or> f_result f = Unknown) \<and> f_result g = Skipped
              \<and> f_suppression g = Some \<lparr>sup_justification = trim_space (r_justification r),
                  sup_expires_at = r_expires_at r, sup_original = f_result f\<rparr>)
       \<and> (case f_result f of Pass \<Rightarrow> g = f | _ \<Rightarrow> True))
     fs (ap_findings (Apply (Some rs) fs at))" (is "list_all2 ?row _ _")
  unfolding Apply_findings option.case
proof (rule list_all2_map_same)
  fix f assume "f \<in> set fs"
  show "?row f (case live_rule rs at f of None \<Rightarrow> f | Some r \<Rightarrow> suppress_finding r f)"
    using live_rule_suppressible[of rs at f]
    by (cases "live_rule rs at f"; cases "f_result f") (auto simp: suppress_finding_def)
qed

text \<open>
  Every rule is accounted for. The applied, expired and unmatched rules are together the rules of
  the set, each once: a rule no FAIL or UNKNOWN carries is unmatched, and one that is carried is
  expired if it has lapsed at the given instant and applied if not.
\<close>

theorem every_rule_is_accounted_for:
  assumes "Parse (Inr f) = Inr rs"
  shows "mset (ap_applied (Apply (Some rs) fs at)) + mset (ap_expired (Apply (Some rs) fs at))
       + mset (ap_unmatched (Apply (Some rs) fs at)) = mset (map stored_rule (sf_rules f))
     \<and> ap_expired (Apply (Some rs) fs at) =
         filter (\<lambda>r. met fs (r_fingerprint r) \<and> lapsed r at) (map stored_rule (sf_rules f))
     \<and> ap_unmatched (Apply (Some rs) fs at) =
         filter (\<lambda>r. \<not> met fs (r_fingerprint r)) (map stored_rule (sf_rules f))"
proof -
  note st = Parse_stores[OF assms]
  then have w: "wf_rules rs" by simp
  show ?thesis
    unfolding Apply_rules[OF w] partition3 using st by simp
qed

theorem every_rule_is_accounted_for_witness:
  "\<exists>rs. ap_unmatched (Apply (Some rs) [] 0) = [stored_rule (sample_rule (replicate 32 (CHR ''a'')) [])]"
proof -
  let ?f = "\<lparr>sf_schema = Schema, sf_rules = [sample_rule (replicate 32 (CHR ''a'')) []]\<rparr>"
  have "fingerprint_pattern (to_lower (trim_space (replicate 32 (CHR ''a''))))"
    "trim_space ''accepted'' \<noteq> []" by code_simp+
  then have "valid_rule (sample_rule (replicate 32 (CHR ''a'')) [])"
    by (simp add: valid_rule_def sample_rule_def)
  then obtain rs where rs: "Parse (Inr ?f) = Inr rs" using Parse_accepts[of ?f] by auto
  show ?thesis
    using every_rule_is_accounted_for[OF rs, of "[]" 0] by (auto simp: met_def)
qed

end
