(* ===== verification/Float64.thy ===== *)
theory Float64
  imports Complex_Main
begin

text \<open>
  Go's float64 arithmetic on the values the scoring code computes: IEEE 754 rounding of an exact
  rational to 53 significant bits, ties to even. The operands are sums of a few thousand small
  weights and their quotients, far inside the normal range, so overflow, subnormals, infinities
  and NaN are not modelled; a quotient by zero is never taken, as the code tests the divisor.
\<close>

section \<open>Rounding to an integer, ties to even\<close>

definition round_even :: "rat \<Rightarrow> int" where
  "round_even x = (let f = \<lfloor>x\<rfloor>; d = x - of_int f in
     if d < 1/2 then f else if 1/2 < d then f + 1 else if even f then f else f + 1)"

lemma round_even_range: "\<lfloor>x\<rfloor> \<le> round_even x \<and> round_even x \<le> \<lfloor>x\<rfloor> + 1"
  by (simp add: round_even_def Let_def)

lemma round_even_of_int [simp]: "round_even (of_int n) = n"
  by (simp add: round_even_def)

lemma round_even_mono: "x \<le> y \<Longrightarrow> round_even x \<le> round_even y"
proof (cases "\<lfloor>x\<rfloor> = \<lfloor>y\<rfloor>")
  case True
  assume "x \<le> y"
  then show ?thesis using True by (auto simp: round_even_def Let_def)
next
  case False
  assume "x \<le> y"
  then have "\<lfloor>x\<rfloor> \<le> \<lfloor>y\<rfloor>" by (rule floor_mono)
  with False show ?thesis using round_even_range[of x] round_even_range[of y] by linarith
qed

section \<open>The binary exponent\<close>

lemma ceiling_half: "1 < y \<Longrightarrow> \<lceil>y / 2\<rceil> < \<lceil>y\<rceil>" for y :: rat
proof -
  assume y: "1 < y"
  have up: "y \<le> of_int \<lceil>y\<rceil>" by simp
  have "1 < \<lceil>y\<rceil>" using y by (simp add: less_ceiling_iff)
  then have "(2::rat) \<le> of_int \<lceil>y\<rceil>" by linarith
  with up have "y / 2 \<le> of_int \<lceil>y\<rceil> - 1" by linarith
  then have "y / 2 \<le> of_int (\<lceil>y\<rceil> - 1)" by simp
  then have "\<lceil>y / 2\<rceil> \<le> \<lceil>y\<rceil> - 1" by (simp only: ceiling_le_iff)
  then show ?thesis by simp
qed

lemma powi_up: "(2::rat) powi (e + 1) = 2 * 2 powi e"
  by (simp add: power_int_add)

lemma powi_down: "(2::rat) powi (e - 1) = 2 powi e / 2"
  by (simp add: power_int_diff)

function expo :: "rat \<Rightarrow> int" where
  "expo x = (if x \<le> 0 then 0 else if x < 1 then expo (2 * x) - 1
     else if 2 \<le> x then expo (x / 2) + 1 else 0)"
  by pat_completeness auto
termination
proof (relation "measure (\<lambda>x. if x < 1 then nat \<lceil>1 / x\<rceil> + 1 else nat \<lceil>x\<rceil>)", goal_cases)
  case 1
  show ?case by simp
next
  case (2 x)
  then have y: "1 < 1 / x" by simp
  then have c: "2 \<le> \<lceil>1 / x\<rceil>" by (simp add: less_ceiling_iff)
  have half: "\<lceil>1 / (2 * x)\<rceil> < \<lceil>1 / x\<rceil>" using ceiling_half[OF y] by (simp add: mult.commute)
  have two: "\<lceil>2 * x\<rceil> \<le> 2" using 2 by (simp add: ceiling_le_iff)
  show ?case
  proof (cases "2 * x < 1")
    case True
    have "nat \<lceil>1 / (2 * x)\<rceil> + 1 < nat \<lceil>1 / x\<rceil> + 1" using half c by linarith
    then show ?thesis using 2 True by simp
  next
    case False
    have "nat \<lceil>2 * x\<rceil> < nat \<lceil>1 / x\<rceil> + 1" using two c by linarith
    then show ?thesis using 2 False by simp
  qed
next
  case (3 x)
  then show ?case using ceiling_half[of x] by auto
qed

declare expo.simps [simp del]

lemma expo_bounds: "0 < x \<Longrightarrow> 2 powi expo x \<le> x \<and> x < 2 powi (expo x + 1)"
proof (induction x rule: expo.induct)
  case (1 x)
  consider "x < 1" | "2 \<le> x" | "1 \<le> x" "x < 2" by linarith
  then show ?case
  proof cases
    case 1
    then have e: "expo x = expo (2 * x) - 1" using "1.prems" by (subst expo.simps) simp
    have "2 powi expo (2 * x) \<le> 2 * x \<and> 2 * x < 2 powi (expo (2 * x) + 1)"
      using "1.IH"(1) "1.prems" 1 by simp
    then show ?thesis unfolding e powi_up powi_down by simp
  next
    case 2
    then have e: "expo x = expo (x / 2) + 1" by (subst expo.simps) simp
    have "2 powi expo (x / 2) \<le> x / 2 \<and> x / 2 < 2 powi (expo (x / 2) + 1)"
      using "1.IH"(2) "1.prems" 2 by simp
    then show ?thesis unfolding e powi_up by simp
  next
    case 3
    then have "expo x = 0" using "1.prems" by (subst expo.simps) simp
    then show ?thesis using 3 by simp
  qed
qed

lemma powi_less: "2 powi a < (2 powi b :: rat) \<Longrightarrow> a < b"
  by (metis not_le power_int_increasing one_le_numeral leD)

lemma expo_unique: "2 powi e \<le> x \<Longrightarrow> x < 2 powi (e + 1) \<Longrightarrow> expo x = e"
proof -
  assume e: "2 powi e \<le> x" "x < 2 powi (e + 1)"
  then have "0 < x" by (meson less_le_trans zero_less_numeral zero_less_power_int)
  then have "2 powi expo x \<le> x" "x < 2 powi (expo x + 1)" using expo_bounds by auto
  with e have "2 powi e < (2 powi (expo x + 1) :: rat)" "2 powi expo x < (2 powi (e + 1) :: rat)"
    by linarith+
  then have "e < expo x + 1" "expo x < e + 1" by (blast intro: powi_less)+
  then show ?thesis by simp
qed

section \<open>Rounding to 53 bits\<close>

definition ulp :: "rat \<Rightarrow> rat" where
  "ulp x = 2 powi (expo x - 52)"

definition fl64 :: "rat \<Rightarrow> rat" where
  "fl64 x = (if x \<le> 0 then (if x = 0 then 0 else - (of_int (round_even (- x / ulp (- x))) * ulp (- x)))
     else of_int (round_even (x / ulp x)) * ulp x)"

lemma ulp_pos [simp]: "0 < ulp x"
  by (simp add: ulp_def)

lemma fl64_0 [simp]: "fl64 0 = 0"
  by (simp add: fl64_def)

lemma ulp_52: "2 powi expo x = 2 ^ 52 * ulp x"
proof -
  have "(2::rat) powi expo x = 2 powi (52 + (expo x - 52))" by simp
  also have "\<dots> = 2 powi 52 * 2 powi (expo x - 52)" by (rule power_int_add) simp
  finally show ?thesis by (simp add: ulp_def)
qed

lemma ulp_53: "2 powi (expo x + 1) = 2 ^ 53 * ulp x"
  unfolding powi_up ulp_52 by simp

lemma mantissa_bounds: "0 < x \<Longrightarrow> 2 ^ 52 \<le> x / ulp x \<and> x / ulp x < 2 ^ 53"
  using expo_bounds[of x] ulp_pos[of x] unfolding ulp_52 ulp_53
  by (simp add: field_simps)

lemma round_mantissa: "0 < x \<Longrightarrow> 2 ^ 52 \<le> round_even (x / ulp x) \<and> round_even (x / ulp x) \<le> 2 ^ 53"
proof -
  assume "0 < x"
  note b = mantissa_bounds[OF this]
  have "round_even (of_int (2 ^ 52)) \<le> round_even (x / ulp x)"
    by (rule round_even_mono) (use b in simp)
  moreover have "round_even (x / ulp x) \<le> round_even (of_int (2 ^ 53))"
    by (rule round_even_mono) (use b in simp)
  ultimately show ?thesis by (simp only: round_even_of_int)
qed

lemma fl64_binade: "0 < x \<Longrightarrow> 2 powi expo x \<le> fl64 x \<and> fl64 x \<le> 2 powi (expo x + 1)"
proof -
  assume x: "0 < x"
  have "of_int (2 ^ 52) \<le> (of_int (round_even (x / ulp x)) :: rat)"
    "(of_int (round_even (x / ulp x)) :: rat) \<le> of_int (2 ^ 53)"
    using round_mantissa[OF x] by (simp_all only: of_int_le_iff)
  then show ?thesis
    using x ulp_pos[of x] unfolding ulp_52 ulp_53 by (simp add: fl64_def)
qed

lemma fl64_pos: "0 < x \<Longrightarrow> 0 < fl64 x"
  using fl64_binade[of x] by (meson less_le_trans zero_less_numeral zero_less_power_int)

lemma fl64_mono: "0 \<le> x \<Longrightarrow> x \<le> y \<Longrightarrow> fl64 x \<le> fl64 y"
proof -
  assume x: "0 \<le> x" and xy: "x \<le> y"
  consider "x = 0" | "0 < x" "expo x = expo y" | "0 < x" "expo x \<noteq> expo y"
    using x by linarith
  then show ?thesis
  proof cases
    case 1
    then show ?thesis using xy fl64_pos[of y] by (cases "y = 0") (auto intro: less_imp_le)
  next
    case 2
    then have "ulp x = ulp y" by (simp add: ulp_def)
    moreover have "round_even (x / ulp y) \<le> round_even (y / ulp y)"
      by (rule round_even_mono) (use xy in \<open>simp add: divide_right_mono less_imp_le\<close>)
    ultimately show ?thesis
      using 2 xy ulp_pos[of y] by (simp add: fl64_def mult_right_mono less_imp_le)
  next
    case 3
    then have bx: "2 powi expo x \<le> x" and by': "y < 2 powi (expo y + 1)"
      using expo_bounds[of x] expo_bounds[of y] xy by auto
    then have "2 powi expo x < (2 powi (expo y + 1) :: rat)" using xy by linarith
    then have "expo x + 1 \<le> expo y" using 3 powi_less by fastforce
    then have "2 powi (expo x + 1) \<le> (2 powi expo y :: rat)" by (rule power_int_increasing) simp
    then show ?thesis
      using fl64_binade[of x] fl64_binade[of y] 3 xy by linarith
  qed
qed

lemma fl64_nonneg: "0 \<le> x \<Longrightarrow> 0 \<le> fl64 x"
  using fl64_mono[of 0 x] by simp

lemma fl64_exact: "0 < x \<Longrightarrow> x / ulp x = of_int k \<Longrightarrow> fl64 x = x"
proof -
  assume x: "0 < x" and k: "x / ulp x = of_int k"
  then have "of_int k * ulp x = x" using ulp_pos[of x] by (simp add: field_simps)
  then show ?thesis using x k by (simp add: fl64_def)
qed

text \<open>Integers below \<open>2 ^ 53\<close> are represented exactly.\<close>

lemma fl64_nat: "n < 2 ^ 53 \<Longrightarrow> fl64 (of_nat n) = of_nat n"
proof (cases "n = 0")
  case False
  assume n: "n < 2 ^ 53"
  let ?x = "of_nat n :: rat"
  have pos: "0 < ?x" using False by simp
  have "2 powi expo ?x < (2 powi 53 :: rat)"
  proof -
    have "?x < of_nat (2 ^ 53)" using n by (simp only: of_nat_less_iff)
    moreover have "of_nat (2 ^ 53) = (2 powi 53 :: rat)" by simp
    ultimately show ?thesis using expo_bounds[OF pos] by linarith
  qed
  then have hi: "expo ?x \<le> 52" using powi_less by fastforce
  have lo: "0 \<le> expo ?x"
  proof -
    have "1 \<le> ?x" using False by (simp add: Suc_leI)
    then have "2 powi 0 < (2 powi (expo ?x + 1) :: rat)"
      using expo_bounds[OF pos] by simp
    then show ?thesis using powi_less by fastforce
  qed
  have "?x / ulp ?x = of_int (int n * 2 ^ nat (52 - expo ?x))"
  proof -
    have "1 / ulp ?x = 2 powi (52 - expo ?x)"
      unfolding ulp_def by (metis inverse_eq_divide minus_diff_eq power_int_minus)
    also have "\<dots> = 2 ^ nat (52 - expo ?x)" using hi by (simp add: power_int_def)
    finally show ?thesis by (simp add: divide_inverse flip: inverse_eq_divide)
  qed
  then show ?thesis by (rule fl64_exact[OF pos])
qed simp

text \<open>A rounded value is representable: rounding it again changes nothing.\<close>

lemma fl64_idem: "0 \<le> x \<Longrightarrow> fl64 (fl64 x) = fl64 x"
proof (cases "x = 0")
  case False
  assume "0 \<le> x"
  with False have x: "0 < x" by simp
  let ?m = "round_even (x / ulp x)"
  have fx: "fl64 x = of_int ?m * ulp x" using x by (simp add: fl64_def)
  show ?thesis
  proof (cases "?m = 2 ^ 53")
    case True
    then have "fl64 x = 2 powi (expo x + 1)" using fx ulp_53[of x] by simp
    moreover have e: "expo (2 powi (expo x + 1) :: rat) = expo x + 1"
      by (rule expo_unique) (simp_all add: power_int_strict_increasing)
    moreover have "(2 powi (expo x + 1) :: rat) / ulp (2 powi (expo x + 1)) = of_int (2 ^ 52)"
    proof -
      have "(2 powi (expo x + 1) :: rat) = 2 ^ 52 * ulp (2 powi (expo x + 1))"
        using ulp_52[of "2 powi (expo x + 1)"] unfolding e .
      then show ?thesis
        by (metis less_irrefl nonzero_mult_div_cancel_right of_int_numeral of_int_power ulp_pos)
    qed
    ultimately show ?thesis using fl64_exact[of "2 powi (expo x + 1)"] by simp
  next
    case False
    then have "?m < 2 ^ 53" using round_mantissa[OF x] by linarith
    then have "(of_int ?m :: rat) < of_int (2 ^ 53)" by (simp only: of_int_less_iff)
    then have "fl64 x < 2 powi (expo x + 1)" using fx ulp_53[of x] ulp_pos[of x] by simp
    then have "expo (fl64 x) = expo x" using fl64_binade[OF x] by (intro expo_unique) auto
    then have "ulp (fl64 x) = ulp x" by (simp add: ulp_def)
    then have "fl64 x / ulp (fl64 x) = of_int ?m" using fx ulp_pos[of x]
      by (metis less_irrefl nonzero_mult_div_cancel_right)
    then show ?thesis using fl64_exact[OF fl64_pos[OF x]] by blast
  qed
qed simp

lemma fl64_1 [simp]: "fl64 1 = 1"
  using fl64_nat[of 1] by simp

lemma fl64_100 [simp]: "fl64 100 = 100"
  using fl64_nat[of 100] by simp

section \<open>Operations\<close>

definition fadd :: "rat \<Rightarrow> rat \<Rightarrow> rat" where
  "fadd a b = fl64 (a + b)"

definition fdiv :: "rat \<Rightarrow> rat \<Rightarrow> rat" where
  "fdiv a b = fl64 (a / b)"

definition fmul :: "rat \<Rightarrow> rat \<Rightarrow> rat" where
  "fmul a b = fl64 (a * b)"

text \<open>\<open>a / b * 100\<close>, as both figures are computed.\<close>

definition percent :: "rat \<Rightarrow> rat \<Rightarrow> rat" where
  "percent a b = fmul (fdiv a b) 100"

lemma percent_range: "0 \<le> a \<Longrightarrow> a \<le> b \<Longrightarrow> 0 < b \<Longrightarrow> 0 \<le> percent a b \<and> percent a b \<le> 100"
proof -
  assume a: "0 \<le> a" "a \<le> b" "0 < b"
  have "0 \<le> fdiv a b" "fdiv a b \<le> 1"
    using a fl64_nonneg[of "a / b"] fl64_mono[of "a / b" 1] by (simp_all add: fdiv_def)
  then show ?thesis
    using fl64_nonneg[of "fdiv a b * 100"] fl64_mono[of "fdiv a b * 100" 100]
    by (simp add: percent_def fmul_def)
qed

lemma percent_full [simp]: "0 < b \<Longrightarrow> percent b b = 100"
  by (simp add: percent_def fdiv_def fmul_def)

lemma percent_zero [simp]: "percent 0 b = 0"
  by (simp add: percent_def fdiv_def fmul_def)

lemma percent_mono: "0 \<le> a \<Longrightarrow> a \<le> c \<Longrightarrow> 0 < b \<Longrightarrow> percent a b \<le> percent c b"
  unfolding percent_def fmul_def fdiv_def
  by (intro fl64_mono mult_right_mono mult_nonneg_nonneg fl64_nonneg divide_right_mono) auto

end
