(* ===== verification/Score.thy ===== *)
theory Score
  imports Finding Float64
begin

text \<open>
  internal/score/score.go: posture and coverage. The figures are float64 values, rounded as Go
  rounds them (theory Float64); both can be undefined, which is \<open>None\<close> from the accessors.
\<close>

section \<open>Counts\<close>

record counts =
  n_pass :: int
  n_fail :: int
  n_not_applicable :: int
  n_skipped :: int
  n_unknown :: int
  n_total :: int
  n_out_of_profile :: int

definition zero_counts :: counts where
  "zero_counts = \<lparr>n_pass = 0, n_fail = 0, n_not_applicable = 0, n_skipped = 0, n_unknown = 0,
     n_total = 0, n_out_of_profile = 0\<rparr>"

definition Evaluated :: "counts \<Rightarrow> int" where
  "Evaluated c = n_pass c + n_fail c"

definition Applicable :: "counts \<Rightarrow> int" where
  "Applicable c = n_total c - n_not_applicable c - n_out_of_profile c"

section \<open>The score\<close>

record score =
  s_catalog_version :: int
  s_counts :: counts
  s_coverage :: rat
  s_coverage_defined :: bool
  s_posture :: rat
  s_posture_defined :: bool

text \<open>One iteration of the loop of \<open>Compute\<close>: counts, pass weight and evaluated weight.\<close>

definition tally :: "counts \<times> rat \<times> rat \<Rightarrow> finding \<Rightarrow> counts \<times> rat \<times> rat" where
  "tally acc f = (case acc of (c, pw, ew) \<Rightarrow>
     let c = c\<lparr>n_total := n_total c + 1\<rparr>; w = of_nat (weight (f_severity f)) in
     case f_result f of
       Pass \<Rightarrow> (c\<lparr>n_pass := n_pass c + 1\<rparr>, fadd pw w, fadd ew w)
     | Fail \<Rightarrow> (c\<lparr>n_fail := n_fail c + 1\<rparr>, pw, fadd ew w)
     | NotApplicable \<Rightarrow> (c\<lparr>n_not_applicable := n_not_applicable c + 1\<rparr>, pw, ew)
     | Skipped \<Rightarrow>
         (let c = c\<lparr>n_skipped := n_skipped c + 1\<rparr> in
          (if f_skipped_by f \<noteq> [] then c\<lparr>n_out_of_profile := n_out_of_profile c + 1\<rparr> else c, pw, ew))
     | Unknown \<Rightarrow> (c\<lparr>n_unknown := n_unknown c + 1\<rparr>, pw, ew)
     | NoResult \<Rightarrow> (c, pw, ew))"

definition Compute :: "finding list \<Rightarrow> int \<Rightarrow> score" where
  "Compute fs v =
     (let (c, pw, ew) = foldl tally (zero_counts, 0, 0) fs;
          appl = Applicable c in
      \<lparr>s_catalog_version = v, s_counts = c,
       s_coverage = (if 0 < appl then percent (of_int (Evaluated c)) (of_int appl) else 0),
       s_coverage_defined = (0 < appl),
       s_posture = (if 0 < ew then percent pw ew else 0),
       s_posture_defined = (0 < ew)\<rparr>)"

definition CatalogVersion :: "score \<Rightarrow> int" where
  "CatalogVersion s = s_catalog_version s"

definition Counts :: "score \<Rightarrow> counts" where
  "Counts s = s_counts s"

definition Coverage :: "score \<Rightarrow> rat option" where
  "Coverage s = (if s_coverage_defined s then Some (s_coverage s) else None)"

definition Posture :: "score \<Rightarrow> rat option" where
  "Posture s = (if s_posture_defined s then Some (s_posture s) else None)"

definition Comparable :: "score \<Rightarrow> score \<Rightarrow> bool" where
  "Comparable a b \<longleftrightarrow> s_catalog_version a = s_catalog_version b"

section \<open>The counts are the numbers of findings in each state\<close>

definition count_result :: "result \<Rightarrow> finding list \<Rightarrow> int" where
  "count_result r fs = int (length (filter (\<lambda>f. f_result f = r) fs))"

definition out_of_profile :: "finding \<Rightarrow> bool" where
  "out_of_profile f \<longleftrightarrow> f_result f = Skipped \<and> f_skipped_by f \<noteq> []"

definition counts_of :: "finding list \<Rightarrow> counts" where
  "counts_of fs =
     \<lparr>n_pass = count_result Pass fs, n_fail = count_result Fail fs,
      n_not_applicable = count_result NotApplicable fs, n_skipped = count_result Skipped fs,
      n_unknown = count_result Unknown fs, n_total = int (length fs),
      n_out_of_profile = int (length (filter out_of_profile fs))\<rparr>"

lemma tally_counts: "fst (foldl tally (zero_counts, a, b) fs) = counts_of fs"
proof (induction fs rule: rev_induct)
  case Nil
  then show ?case by (simp add: counts_of_def zero_counts_def count_result_def)
next
  case (snoc f fs)
  obtain c pw ew where e: "foldl tally (zero_counts, a, b) fs = (c, pw, ew)"
    by (cases "foldl tally (zero_counts, a, b) fs") auto
  then have c: "c = counts_of fs" using snoc.IH by simp
  have "foldl tally (zero_counts, a, b) (fs @ [f]) = tally (c, pw, ew) f"
    by (simp add: e)
  moreover have "fst (tally (c, pw, ew) f) = counts_of (fs @ [f])"
    by (cases "f_result f")
      (auto simp: c tally_def Let_def counts_of_def count_result_def out_of_profile_def)
  ultimately show ?case by simp
qed

lemma s_counts_Compute: "s_counts (Compute fs v) = counts_of fs"
  using tally_counts[of 0 0 fs] by (auto simp: Compute_def Let_def split: prod.splits)

lemma result_partition:
  "int (length fs) = count_result Pass fs + count_result Fail fs + count_result NotApplicable fs
     + count_result Skipped fs + count_result Unknown fs + count_result NoResult fs"
proof (induction fs)
  case (Cons f fs)
  then show ?case by (cases "f_result f") (auto simp: count_result_def)
qed (simp add: count_result_def)

lemma out_of_profile_le: "int (length (filter out_of_profile fs)) \<le> count_result Skipped fs"
proof -
  have "filter out_of_profile fs = filter out_of_profile (filter (\<lambda>f. f_result f = Skipped) fs)"
    by (induction fs) (auto simp: out_of_profile_def)
  then show ?thesis
    unfolding count_result_def by (metis length_filter_le of_nat_mono)
qed

lemma Evaluated_le_Applicable:
  "0 \<le> Evaluated (counts_of fs) \<and> Evaluated (counts_of fs) \<le> Applicable (counts_of fs)"
proof -
  have nn: "0 \<le> count_result r fs" for r by (simp add: count_result_def)
  show ?thesis
    using result_partition[of fs] out_of_profile_le[of fs] nn[of Pass] nn[of Fail] nn[of Unknown]
      nn[of NoResult]
    by (simp add: Evaluated_def Applicable_def counts_of_def)
qed

section \<open>The weights\<close>

definition weights :: "finding list \<Rightarrow> rat \<times> rat" where
  "weights fs = snd (foldl tally (zero_counts, 0, 0) fs)"

definition representable :: "rat \<Rightarrow> bool" where
  "representable x \<longleftrightarrow> 0 \<le> x \<and> fl64 x = x"

lemma weights_snoc:
  "weights (fs @ [f]) =
     (let (pw, ew) = weights fs; w = of_nat (weight (f_severity f)) in
      case f_result f of Pass \<Rightarrow> (fadd pw w, fadd ew w) | Fail \<Rightarrow> (pw, fadd ew w) | _ \<Rightarrow> (pw, ew))"
  by (cases "foldl tally (zero_counts, 0, 0) fs"; cases "f_result f")
    (auto simp: weights_def tally_def Let_def)

lemma representable_0 [simp]: "representable 0"
  by (simp add: representable_def)

lemma representable_fadd: "representable a \<Longrightarrow> 0 \<le> w \<Longrightarrow> representable (fadd a w) \<and> a \<le> fadd a w"
  using fl64_mono[of a "a + w"] by (auto simp: representable_def fadd_def fl64_idem fl64_nonneg)

lemma fadd_mono: "0 \<le> a \<Longrightarrow> a \<le> b \<Longrightarrow> 0 \<le> w \<Longrightarrow> fadd a w \<le> fadd b w"
  by (simp add: fadd_def fl64_mono)

lemma weights_inv:
  "weights fs = (pw, ew) \<Longrightarrow> representable pw \<and> representable ew \<and> pw \<le> ew"
proof (induction fs arbitrary: pw ew rule: rev_induct)
  case Nil
  then show ?case by (simp add: weights_def)
next
  case (snoc f fs)
  obtain p e where pe: "weights fs = (p, e)" by fastforce
  note ih = snoc.IH[OF pe]
  let ?w = "of_nat (weight (f_severity f)) :: rat"
  have w: "0 \<le> ?w" by simp
  have "0 \<le> p" using ih by (simp add: representable_def)
  have "p \<le> fadd e ?w" using ih representable_fadd[of e ?w] w by fastforce
  then show ?case
    using snoc.prems ih representable_fadd[OF _ w] fadd_mono[OF _ _ w]
    by (cases "f_result f")
      (auto simp: weights_snoc pe Let_def representable_def[of p] simp del: of_nat_eq_0_iff)
qed

lemma Posture_weights:
  "Posture (Compute fs v) =
     (let (pw, ew) = weights fs in if 0 < ew then Some (percent pw ew) else None)"
  by (auto simp: Posture_def Compute_def weights_def Let_def split: prod.splits)

lemma Coverage_counts:
  "Coverage (Compute fs v) =
     (let c = counts_of fs in
      if 0 < Applicable c then Some (percent (of_int (Evaluated c)) (of_int (Applicable c))) else None)"
  using tally_counts[of 0 0 fs]
  by (auto simp: Coverage_def Compute_def Let_def split: prod.splits)

lemma weights_no_fail: "\<forall>f \<in> set fs. f_result f \<noteq> Fail \<Longrightarrow> fst (weights fs) = snd (weights fs)"
  by (induction fs rule: rev_induct)
    (auto simp: weights_snoc Let_def weights_def[of "[]"] split: prod.splits result.splits)

lemma weights_no_pass: "\<forall>f \<in> set fs. f_result f \<noteq> Pass \<Longrightarrow> fst (weights fs) = 0"
  by (induction fs rule: rev_induct)
    (auto simp: weights_snoc Let_def weights_def[of "[]"] split: prod.splits result.splits)

text \<open>Undefined means no evidence of any weight: neither figure invents a number.\<close>

lemma fadd_pos: "0 \<le> a \<Longrightarrow> 0 \<le> w \<Longrightarrow> 0 < fadd a w \<longleftrightarrow> 0 < a \<or> 0 < w"
proof -
  assume aw: "0 \<le> a" "0 \<le> w"
  consider "a = 0" "w = 0" | "0 < a + w" "0 < a \<or> 0 < w" using aw by linarith
  then show ?thesis using fl64_pos[of "a + w"] by cases (auto simp: fadd_def)
qed

lemma weights_pos:
  "0 < snd (weights fs) \<longleftrightarrow> (\<exists>f \<in> set fs. scores (f_result f) \<and> 0 < weight (f_severity f))"
proof (induction fs rule: rev_induct)
  case Nil
  then show ?case by (simp add: weights_def)
next
  case (snoc f fs)
  obtain p e where pe: "weights fs = (p, e)" by fastforce
  then have "0 \<le> e" using weights_inv representable_def by blast
  then show ?case
    using snoc.IH pe by (cases "f_result f") (auto simp: weights_snoc Let_def scores_def fadd_pos)
qed

section \<open>Properties\<close>

definition sample_finding :: "string \<Rightarrow> result \<Rightarrow> severity \<Rightarrow> finding" where
  "sample_finding i r sev =
     \<lparr>f_check_id = i, f_module = ''X'', f_title = ''t'', f_result = r, f_reason = NoReason,
      f_severity = sev, f_base_severity = sev, f_detail = [], f_evidence = [], f_remediation = None,
      f_mappings = [], f_references = [], f_fingerprint = i, f_subject = [], f_skipped_by = [],
      f_suppression = None\<rparr>"

text \<open>
  C14: posture. It is undefined exactly when no PASS or FAIL carries weight, never a made-up number;
  when defined, the float64 it is computed to lies between 0 and 100, is 100 when nothing failed
  and 0 when nothing passed.
\<close>

theorem posture_meaning:
  "case Posture (Compute fs v) of
     None \<Rightarrow> \<not> (\<exists>f \<in> set fs. scores (f_result f) \<and> 0 < weight (f_severity f))
   | Some p \<Rightarrow> (\<exists>f \<in> set fs. scores (f_result f) \<and> 0 < weight (f_severity f))
       \<and> 0 \<le> p \<and> p \<le> 100
       \<and> ((\<forall>f \<in> set fs. f_result f \<noteq> Fail) \<longrightarrow> p = 100)
       \<and> ((\<forall>f \<in> set fs. f_result f \<noteq> Pass) \<longrightarrow> p = 0)"
proof -
  obtain pw ew where w: "weights fs = (pw, ew)" by fastforce
  have inv: "0 \<le> pw" "pw \<le> ew" using weights_inv[OF w] by (simp_all add: representable_def)
  have "pw = ew" if "\<forall>f \<in> set fs. f_result f \<noteq> Fail" using weights_no_fail[OF that] w by simp
  moreover have "pw = 0" if "\<forall>f \<in> set fs. f_result f \<noteq> Pass" using weights_no_pass[OF that] w by simp
  ultimately show ?thesis
    using weights_pos[of fs] percent_range[OF inv] w by (auto simp: Posture_weights Let_def)
qed

theorem posture_meaning_witness:
  "Posture (Compute [sample_finding ''X-0001'' Pass High, sample_finding ''X-0002'' Unknown Critical] 34) = Some 100"
proof -
  let ?fs = "[sample_finding ''X-0001'' Pass High, sample_finding ''X-0002'' Unknown Critical]"
  show ?thesis
    using posture_meaning[of ?fs 34]
    by (cases "Posture (Compute ?fs 34)") (auto simp: sample_finding_def scores_def)
qed

text \<open>
  Coverage. It is undefined exactly when no check was applicable; otherwise the float64 lies
  between 0 and 100, and it is 100 when every applicable check reached a verdict.
\<close>

theorem coverage_meaning:
  "case Coverage (Compute fs v) of
     None \<Rightarrow> Applicable (counts_of fs) = 0
   | Some c \<Rightarrow> 0 < Applicable (counts_of fs) \<and> 0 \<le> c \<and> c \<le> 100
       \<and> (Evaluated (counts_of fs) = Applicable (counts_of fs) \<longrightarrow> c = 100)"
proof -
  have le: "0 \<le> Evaluated (counts_of fs)" "Evaluated (counts_of fs) \<le> Applicable (counts_of fs)"
    using Evaluated_le_Applicable by blast+
  then have "0 \<le> rat_of_int (Evaluated (counts_of fs))"
    "rat_of_int (Evaluated (counts_of fs)) \<le> rat_of_int (Applicable (counts_of fs))"
    by (simp_all only: of_int_0_le_iff of_int_le_iff)
  note r = percent_range[OF this]
  show ?thesis
  proof (cases "0 < Applicable (counts_of fs)")
    case True
    then show ?thesis using r le by (auto simp: Coverage_counts Let_def)
  next
    case False
    then have "Applicable (counts_of fs) = 0" using le by linarith
    then show ?thesis by (simp add: Coverage_counts Let_def)
  qed
qed

theorem coverage_meaning_witness:
  "Coverage (Compute [sample_finding ''X-0001'' Pass High, sample_finding ''X-0002'' NotApplicable Low] 34) = Some 100"
proof -
  let ?fs = "[sample_finding ''X-0001'' Pass High, sample_finding ''X-0002'' NotApplicable Low]"
  have "Applicable (counts_of ?fs) = 1" "Evaluated (counts_of ?fs) = 1"
    by (simp_all add: counts_of_def count_result_def out_of_profile_def Applicable_def Evaluated_def
        sample_finding_def)
  then show ?thesis
    using coverage_meaning[of ?fs 34] by (cases "Coverage (Compute ?fs 34)") auto
qed

end
