(* ===== verification/Diff.thy ===== *)
theory Diff
  imports Finding Fact
begin

text \<open>
  internal/diff/diff.go: the comparison of two evaluations. A nil pointer to a finding is
  \<open>None\<close>. The joins are on Go maps, of which only sorted key lists are ever traversed.
\<close>

section \<open>Categories\<close>

datatype category = NewFailure | Regressed | VerdictChanged | NewlySuppressed | Resolved

text \<open>The report order of the categories, as the code's slice and the rank it builds from it.\<close>

definition Categories :: "category list" where
  "Categories = [NewFailure, Regressed, VerdictChanged, NewlySuppressed, Resolved]"

fun rank :: "category \<Rightarrow> nat" where
  "rank NewFailure = 0"
| "rank Regressed = 1"
| "rank VerdictChanged = 2"
| "rank NewlySuppressed = 3"
| "rank Resolved = 4"

lemma rank_nth: "Categories ! rank c = c \<and> rank c < length Categories"
  by (cases c) (auto simp: Categories_def eval_nat_numeral)

record change =
  ch_category :: category
  ch_old :: "finding option"
  ch_new :: "finding option"

text \<open>The side that is present, the new one first; the code builds no change with neither.\<close>

definition ch_finding :: "change \<Rightarrow> finding" where
  "ch_finding c = (case ch_new c of Some f \<Rightarrow> f | None \<Rightarrow> the (ch_old c))"

definition ch_check_id :: "change \<Rightarrow> string" where
  "ch_check_id c = f_check_id (ch_finding c)"

definition ch_fingerprint :: "change \<Rightarrow> string" where
  "ch_fingerprint c = f_fingerprint (ch_finding c)"

definition changes_of :: "change list \<Rightarrow> category \<Rightarrow> change list" where
  "changes_of cs c = filter (\<lambda>ch. ch_category ch = c) cs"

definition diff_empty :: "change list \<Rightarrow> bool" where
  "diff_empty cs \<longleftrightarrow> length cs = 0"

section \<open>Classifying one pair\<close>

definition suppressed :: "finding option \<Rightarrow> bool" where
  "suppressed f \<longleftrightarrow> (case f of None \<Rightarrow> False | Some g \<Rightarrow> f_suppression g \<noteq> None)"

definition underlying :: "finding option \<Rightarrow> result" where
  "underlying f = (case f of None \<Rightarrow> NoResult
     | Some g \<Rightarrow> (case f_suppression g of Some s \<Rightarrow> sup_original s | None \<Rightarrow> f_result g))"

definition failing :: "finding option \<Rightarrow> bool" where
  "failing f \<longleftrightarrow> (case underlying f of Fail \<Rightarrow> True | Unknown \<Rightarrow> True | _ \<Rightarrow> False)"

definition classify :: "finding option \<Rightarrow> finding option \<Rightarrow> category option" where
  "classify old new =
     (if suppressed old \<and> \<not> suppressed new \<and> failing new then Some Regressed
      else if \<not> suppressed old \<and> suppressed new then Some NewlySuppressed
      else if failing old \<and> \<not> failing new then Some Resolved
      else if \<not> failing old \<and> failing new then Some NewFailure
      else if failing old \<and> failing new \<and> underlying old \<noteq> underlying new then Some VerdictChanged
      else None)"

section \<open>Joining two finding sets\<close>

text \<open>\<open>index\<close>: by fingerprint, the last of several findings with one fingerprint.\<close>

definition index :: "finding list \<Rightarrow> finding gomap" where
  "index fs = foldl (\<lambda>m f. put (f_fingerprint f) f m) [] fs"

definition group_by_check :: "finding list \<Rightarrow> finding list gomap" where
  "group_by_check fs =
     foldl (\<lambda>m f. put (f_check_id f) ((case lookup m (f_check_id f) of None \<Rightarrow> [] | Some l \<Rightarrow> l) @ [f]) m)
       [] fs"

text \<open>The closure \<open>add\<close> of \<open>Compare\<close>: at most one change per pair.\<close>

definition add :: "finding option \<Rightarrow> finding option \<Rightarrow> change list" where
  "add old new = (case classify old new of None \<Rightarrow> []
     | Some c \<Rightarrow> [\<lparr>ch_category = c, ch_old = old, ch_new = new\<rparr>])"

text \<open>Pass one: pairs present on both sides, and the leftovers of each side.\<close>

definition joined :: "finding gomap \<Rightarrow> finding gomap \<Rightarrow> change list" where
  "joined om nm = concat (map (\<lambda>k. case lookup nm k of
     Some n \<Rightarrow> add (lookup om k) (Some n) | None \<Rightarrow> []) (keys om))"

definition only_in :: "finding gomap \<Rightarrow> finding gomap \<Rightarrow> finding list" where
  "only_in a b = map (\<lambda>k. the (lookup a k)) (filter (\<lambda>k. lookup b k = None) (keys a))"

text \<open>Pass two: a check with exactly one leftover on each side is the same finding.\<close>

definition singleton_ids :: "finding list \<Rightarrow> finding list \<Rightarrow> string list" where
  "singleton_ids olds news =
     filter (\<lambda>i. (case lookup (group_by_check olds) i of Some l \<Rightarrow> length l = 1 | None \<Rightarrow> False)
               \<and> (case lookup (group_by_check news) i of Some l \<Rightarrow> length l = 1 | None \<Rightarrow> False))
       (keys (group_by_check olds))"

definition pair_by_singleton ::
  "finding list \<Rightarrow> finding list \<Rightarrow> change list \<times> finding list \<times> finding list" where
  "pair_by_singleton olds news =
     (let paired = singleton_ids olds news in
      (concat (map (\<lambda>i. add (Some (hd (the (lookup (group_by_check olds) i))))
                            (Some (hd (the (lookup (group_by_check news) i))))) paired),
       filter (\<lambda>f. f_check_id f \<notin> set paired) olds,
       filter (\<lambda>f. f_check_id f \<notin> set paired) news))"

definition change_key :: "change \<Rightarrow> nat \<times> string \<times> string" where
  "change_key c = (rank (ch_category c), ch_check_id c, f_subject (ch_finding c))"

definition unsorted_changes :: "finding list \<Rightarrow> finding list \<Rightarrow> change list" where
  "unsorted_changes old next =
     (let om = index old; nm = index next;
          (pairs, old_rest, new_rest) = pair_by_singleton (only_in om nm) (only_in nm om) in
      joined om nm @ pairs
        @ concat (map (\<lambda>f. add (Some f) None) old_rest)
        @ concat (map (\<lambda>f. add None (Some f)) new_rest))"

definition Compare :: "finding list \<Rightarrow> finding list \<Rightarrow> change list" where
  "Compare old next = sort_key change_key (unsorted_changes old next)"

section \<open>Facts about the classification\<close>

lemma failing_iff: "failing f \<longleftrightarrow> underlying f = Fail \<or> underlying f = Unknown"
  by (auto simp: failing_def split: result.split)

lemma failing_None [simp]: "\<not> failing None"
  by (simp add: failing_def underlying_def)

lemma suppressed_None [simp]: "\<not> suppressed None"
  by (simp add: suppressed_def)

lemma classify_refl: "classify f f = None"
  by (auto simp: classify_def)

lemma classify_None_None [simp]: "classify None None = None"
  by (rule classify_refl)

lemma add_refl [simp]: "add f f = []"
  by (simp add: add_def classify_refl)

lemma in_add:
  "ch \<in> set (add old new) \<longleftrightarrow>
     classify old new = Some (ch_category ch) \<and> ch_old ch = old \<and> ch_new ch = new"
  by (cases ch) (auto simp: add_def split: option.split)

lemma add_present: "ch \<in> set (add old new) \<Longrightarrow> ch_old ch \<noteq> None \<or> ch_new ch \<noteq> None"
  by (cases old; cases new) (auto simp: in_add)

section \<open>Facts about the join\<close>

lemma wf_index: "wf_map (index fs)"
  by (induction fs rule: rev_induct) (auto simp: index_def)

lemma lookup_index:
  "lookup (index fs) k = find (\<lambda>f. f_fingerprint f = k) (rev fs)"
  by (induction fs rule: rev_induct) (auto simp: index_def)

lemma index_Some: "lookup (index fs) k = Some f \<Longrightarrow> f \<in> set fs \<and> f_fingerprint f = k"
  unfolding lookup_index by (drule find_Some_set) auto

lemma index_distinct:
  "distinct (map f_fingerprint fs) \<Longrightarrow>
     lookup (index fs) k = Some f \<longleftrightarrow> f \<in> set fs \<and> f_fingerprint f = k"
proof
  assume d: "distinct (map f_fingerprint fs)" and f: "f \<in> set fs \<and> f_fingerprint f = k"
  then have "find (\<lambda>f. f_fingerprint f = k) (rev fs) \<noteq> None"
    by (auto simp: find_None_iff)
  then obtain g where g: "lookup (index fs) k = Some g" by (auto simp: lookup_index)
  then have "g = f" using index_Some[OF g] f d by (metis distinct_map inj_onD)
  with g show "lookup (index fs) k = Some f" by simp
qed (rule index_Some)

lemma set_keys_index: "set (keys (index fs)) = f_fingerprint ` set fs"
  by (force simp: gm.set_ks lookup_index find_None_iff)

lemma set_only_in:
  "set (only_in a b) = {f. \<exists>k. lookup a k = Some f \<and> lookup b k = None}"
  by (force simp: only_in_def gm.set_ks)

lemma set_joined:
  "ch \<in> set (joined a b) \<longleftrightarrow>
     (\<exists>k old new. lookup a k = Some old \<and> lookup b k = Some new \<and> ch \<in> set (add (Some old) (Some new)))"
  by (auto simp: joined_def gm.set_ks split: option.splits) (metis option.exhaust)+

lemma wf_group: "wf_map (group_by_check fs)"
  by (induction fs rule: rev_induct) (auto simp: group_by_check_def)

lemma lookup_group:
  "lookup (group_by_check fs) i =
     (let l = filter (\<lambda>f. f_check_id f = i) fs in if l = [] then None else Some l)"
proof (induction fs rule: rev_induct)
  case Nil
  then show ?case by (simp add: group_by_check_def)
next
  case (snoc f fs)
  have "group_by_check (fs @ [f]) =
      put (f_check_id f) ((case lookup (group_by_check fs) (f_check_id f) of None \<Rightarrow> [] | Some l \<Rightarrow> l) @ [f])
        (group_by_check fs)"
    by (simp add: group_by_check_def)
  then show ?case using snoc.IH by (auto simp: Let_def)
qed

lemma singleton_ids_iff:
  "i \<in> set (singleton_ids olds news) \<longleftrightarrow>
     length (filter (\<lambda>f. f_check_id f = i) olds) = 1
     \<and> length (filter (\<lambda>f. f_check_id f = i) news) = 1"
  by (auto simp: singleton_ids_def gm.set_ks lookup_group Let_def split: option.splits if_splits)

lemma singleton_hd:
  "length (filter (\<lambda>f. f_check_id f = i) fs) = 1 \<Longrightarrow>
     f \<in> set fs \<and> f_check_id f = i \<longleftrightarrow> f = hd (the (lookup (group_by_check fs) i))"
proof -
  assume "length (filter (\<lambda>f. f_check_id f = i) fs) = 1"
  then obtain g where g: "filter (\<lambda>f. f_check_id f = i) fs = [g]"
    by (metis One_nat_def length_0_conv length_Suc_conv)
  have "f \<in> set fs \<and> f_check_id f = i \<longleftrightarrow> f \<in> set (filter (\<lambda>f. f_check_id f = i) fs)" by auto
  then show ?thesis using g by (simp add: lookup_group)
qed

text \<open>
  The pairs the comparison forms, as a relation: equal fingerprints on both sides; the only
  leftovers of one check on both sides; a leftover with nothing to pair with.
\<close>

definition unpaired :: "finding list \<Rightarrow> finding list \<Rightarrow> finding \<Rightarrow> bool" where
  "unpaired olds news f \<longleftrightarrow>
     \<not> (length (filter (\<lambda>g. f_check_id g = f_check_id f) olds) = 1
        \<and> length (filter (\<lambda>g. f_check_id g = f_check_id f) news) = 1)"

inductive compared :: "finding list \<Rightarrow> finding list \<Rightarrow> finding option \<Rightarrow> finding option \<Rightarrow> bool"
  for old new :: "finding list"
where
  same_fingerprint:
    "lookup (index old) k = Some f \<Longrightarrow> lookup (index new) k = Some g \<Longrightarrow>
       compared old new (Some f) (Some g)"
| same_check:
    "f \<in> set (only_in (index old) (index new)) \<Longrightarrow> g \<in> set (only_in (index new) (index old)) \<Longrightarrow>
     f_check_id f = f_check_id g \<Longrightarrow>
     \<not> unpaired (only_in (index old) (index new)) (only_in (index new) (index old)) f \<Longrightarrow>
       compared old new (Some f) (Some g)"
| vanished:
    "f \<in> set (only_in (index old) (index new)) \<Longrightarrow>
     unpaired (only_in (index old) (index new)) (only_in (index new) (index old)) f \<Longrightarrow>
       compared old new (Some f) None"
| appeared:
    "g \<in> set (only_in (index new) (index old)) \<Longrightarrow>
     unpaired (only_in (index old) (index new)) (only_in (index new) (index old)) g \<Longrightarrow>
       compared old new None (Some g)"

lemma set_pairs:
  assumes "pair_by_singleton olds news = (ps, os, ns)"
  shows "ch \<in> set ps \<longleftrightarrow> (\<exists>f g. f \<in> set olds \<and> g \<in> set news \<and> f_check_id f = f_check_id g
            \<and> \<not> unpaired olds news f \<and> ch \<in> set (add (Some f) (Some g)))" (is ?pairs)
    and "f \<in> set os \<longleftrightarrow> f \<in> set olds \<and> unpaired olds news f"
    and "f \<in> set ns \<longleftrightarrow> f \<in> set news \<and> unpaired olds news f"
proof -
  have ps: "ps = concat (map (\<lambda>i. add (Some (hd (the (lookup (group_by_check olds) i))))
      (Some (hd (the (lookup (group_by_check news) i))))) (singleton_ids olds news))"
    using assms by (simp add: pair_by_singleton_def Let_def)
  show ?pairs
  proof
    assume "ch \<in> set ps"
    then obtain i where i: "i \<in> set (singleton_ids olds news)"
      and ch: "ch \<in> set (add (Some (hd (the (lookup (group_by_check olds) i))))
                 (Some (hd (the (lookup (group_by_check news) i)))))"
      using ps by auto
    let ?f = "hd (the (lookup (group_by_check olds) i))"
    let ?g = "hd (the (lookup (group_by_check news) i))"
    have "?f \<in> set olds \<and> f_check_id ?f = i" "?g \<in> set news \<and> f_check_id ?g = i"
      using i singleton_hd[of i olds ?f] singleton_hd[of i news ?g] by (simp_all add: singleton_ids_iff)
    moreover from this have "\<not> unpaired olds news ?f"
      using i by (simp add: unpaired_def singleton_ids_iff)
    ultimately show "\<exists>f g. f \<in> set olds \<and> g \<in> set news \<and> f_check_id f = f_check_id g
            \<and> \<not> unpaired olds news f \<and> ch \<in> set (add (Some f) (Some g))"
      using ch by metis
  next
    assume "\<exists>f g. f \<in> set olds \<and> g \<in> set news \<and> f_check_id f = f_check_id g
            \<and> \<not> unpaired olds news f \<and> ch \<in> set (add (Some f) (Some g))"
    then obtain f g where fg: "f \<in> set olds" "g \<in> set news" "f_check_id f = f_check_id g"
        "\<not> unpaired olds news f" "ch \<in> set (add (Some f) (Some g))" by blast
    let ?i = "f_check_id f"
    have i: "?i \<in> set (singleton_ids olds news)" using fg by (simp add: singleton_ids_iff unpaired_def)
    then have "f = hd (the (lookup (group_by_check olds) ?i))" "g = hd (the (lookup (group_by_check news) ?i))"
      using singleton_hd[of ?i olds f] singleton_hd[of ?i news g] fg by (simp_all add: singleton_ids_iff)
    with fg(5) have "ch \<in> set (add (Some (hd (the (lookup (group_by_check olds) ?i))))
        (Some (hd (the (lookup (group_by_check news) ?i)))))" by metis
    then show "ch \<in> set ps" using ps i by auto
  qed
  show "f \<in> set os \<longleftrightarrow> f \<in> set olds \<and> unpaired olds news f"
    "f \<in> set ns \<longleftrightarrow> f \<in> set news \<and> unpaired olds news f"
    using assms by (auto simp: pair_by_singleton_def Let_def singleton_ids_iff unpaired_def)
qed

text \<open>The report holds exactly the compared pairs that classify as a change.\<close>

lemma in_Compare:
  "ch \<in> set (Compare old new) \<longleftrightarrow>
     compared old new (ch_old ch) (ch_new ch) \<and> classify (ch_old ch) (ch_new ch) = Some (ch_category ch)"
proof -
  let ?oo = "only_in (index old) (index new)" and ?nn = "only_in (index new) (index old)"
  let ?c = "\<lambda>f g. classify f g = Some (ch_category ch) \<and> ch_old ch = f \<and> ch_new ch = g"
  obtain ps os ns where p: "pair_by_singleton ?oo ?nn = (ps, os, ns)" by (cases "pair_by_singleton ?oo ?nn")
  have "ch \<in> set (Compare old new) \<longleftrightarrow>
      ch \<in> set (joined (index old) (index new)) \<or> ch \<in> set ps
      \<or> (\<exists>f \<in> set os. ch \<in> set (add (Some f) None)) \<or> (\<exists>g \<in> set ns. ch \<in> set (add None (Some g)))"
    by (auto simp: Compare_def unsorted_changes_def p Let_def)
  also have "\<dots> \<longleftrightarrow> (\<exists>f g k. lookup (index old) k = Some f \<and> lookup (index new) k = Some g \<and> ?c (Some f) (Some g))
      \<or> (\<exists>f g. f \<in> set ?oo \<and> g \<in> set ?nn \<and> f_check_id f = f_check_id g \<and> \<not> unpaired ?oo ?nn f
           \<and> ?c (Some f) (Some g))
      \<or> (\<exists>f. f \<in> set ?oo \<and> unpaired ?oo ?nn f \<and> ?c (Some f) None)
      \<or> (\<exists>g. g \<in> set ?nn \<and> unpaired ?oo ?nn g \<and> ?c None (Some g))"
    unfolding set_joined set_pairs[OF p] in_add Bex_def by blast
  also have "\<dots> \<longleftrightarrow> compared old new (ch_old ch) (ch_new ch)
      \<and> classify (ch_old ch) (ch_new ch) = Some (ch_category ch)"
    unfolding compared.simps by (cases "ch_old ch"; cases "ch_new ch"; simp; blast?)
  finally show ?thesis .
qed

text \<open>With unique fingerprints every finding of the new run is in some compared pair.\<close>

lemma new_is_compared:
  assumes "distinct (map f_fingerprint new)" and "g \<in> set new"
  shows "\<exists>o1. compared old new o1 (Some g) \<and> (o1 = None \<or> (\<exists>f \<in> set old. o1 = Some f))"
proof -
  let ?oo = "only_in (index old) (index new)" and ?nn = "only_in (index new) (index old)"
  have g: "lookup (index new) (f_fingerprint g) = Some g"
    using index_distinct[OF assms(1)] assms(2) by simp
  show ?thesis
  proof (cases "lookup (index old) (f_fingerprint g)")
    case (Some f)
    then show ?thesis using compared.same_fingerprint[OF Some g] index_Some[OF Some] by blast
  next
    case None
    then have gn: "g \<in> set ?nn" using g by (auto simp: set_only_in)
    show ?thesis
    proof (cases "unpaired ?oo ?nn g")
      case True
      then show ?thesis using compared.appeared[OF gn] by blast
    next
      case False
      then obtain f where "filter (\<lambda>h. f_check_id h = f_check_id g) ?oo = [f]"
        by (auto simp: unpaired_def length_Suc_conv)
      then have "f \<in> set (filter (\<lambda>h. f_check_id h = f_check_id g) ?oo)" by simp
      then have f: "f \<in> set ?oo" "f_check_id f = f_check_id g" by simp_all
      then have "\<not> unpaired ?oo ?nn f" using False by (simp add: unpaired_def)
      with f gn have "compared old new (Some f) (Some g)" by (intro compared.same_check)
      moreover have "f \<in> set old" using f(1) index_Some by (auto simp: set_only_in)
      ultimately show ?thesis by blast
    qed
  qed
qed

section \<open>Properties\<close>

text \<open>
  C13: the comparison of two runs is exact. A change is reported if and only if it is a pair the
  comparison forms (one fingerprint on both sides, the only leftovers of one check, or a finding
  of one side alone) and the pair classifies as a change, with the category it classifies as; and
  the report is ordered by category, then check, then subject.
\<close>

theorem compare_is_exact:
  "set (Compare old new) =
     {ch. compared old new (ch_old ch) (ch_new ch)
          \<and> classify (ch_old ch) (ch_new ch) = Some (ch_category ch)}
   \<and> sorted (map change_key (Compare old new))"
  by (auto simp: in_Compare) (simp add: Compare_def)

text \<open>
  An unchanged host has an empty diff, also when findings share a fingerprint.
\<close>

theorem compare_same_is_empty:
  "diff_empty (Compare fs fs)"
proof -
  have "only_in (index fs) (index fs) = []" by (auto simp: only_in_def gm.set_ks filter_empty_conv)
  moreover have "joined (index fs) (index fs) = []"
    by (auto simp: joined_def gm.set_ks split: option.split)
  ultimately show ?thesis
    by (simp add: diff_empty_def Compare_def unsorted_changes_def pair_by_singleton_def
        singleton_ids_def group_by_check_def keys_def Let_def)
qed

text \<open>
  A failure is never lost between two runs. When fingerprints are unique within each run, every
  FAIL or UNKNOWN of the new run that is not suppressed is in the report, or was a failure with the
  same underlying verdict, unsuppressed, under the pair the comparison formed for it.
\<close>

theorem failures_are_reported_or_old:
  assumes "distinct (map f_fingerprint new)" and "g \<in> set new"
    and "failing (Some g)" and "\<not> suppressed (Some g)"
  shows "(\<exists>ch \<in> set (Compare old new). ch_new ch = Some g)
     \<or> (\<exists>f \<in> set old. compared old new (Some f) (Some g) \<and> \<not> suppressed (Some f)
          \<and> underlying (Some f) = underlying (Some g))"
proof -
  obtain o1 where c: "compared old new o1 (Some g)" and o1: "o1 = None \<or> (\<exists>f \<in> set old. o1 = Some f)"
    using new_is_compared[OF assms(1,2)] by blast
  show ?thesis
  proof (cases "classify o1 (Some g)")
    case (Some k)
    then have "\<lparr>ch_category = k, ch_old = o1, ch_new = Some g\<rparr> \<in> set (Compare old new)"
      using c by (simp add: in_Compare)
    then show ?thesis by force
  next
    case None
    then have "failing o1 \<and> \<not> suppressed o1 \<and> underlying o1 = underlying (Some g)"
      using assms(3,4) by (auto simp: classify_def split: if_splits)
    then show ?thesis using c o1 by (cases o1) auto
  qed
qed

theorem failures_are_reported_or_old_witness:
  "\<exists>g. failing (Some g) \<and> (\<exists>ch \<in> set (Compare [] [g]). ch_new ch = Some g)"
proof -
  let ?g = "\<lparr>f_check_id = ''X-0001'', f_module = ''X'', f_title = ''t'', f_result = Fail,
      f_reason = NoReason, f_severity = High, f_base_severity = High, f_detail = [], f_evidence = [],
      f_remediation = None, f_mappings = [], f_references = [], f_fingerprint = ''00'', f_subject = [],
      f_skipped_by = [], f_suppression = None\<rparr>"
  have f: "failing (Some ?g)" "\<not> suppressed (Some ?g)"
    by (simp_all add: failing_def underlying_def suppressed_def)
  with failures_are_reported_or_old[of "[?g]" ?g "[]"] show ?thesis by auto
qed

end
