(* ===== verification/Gate.thy ===== *)
theory Gate
  imports Catalog Profile Suppress Score Diff
begin

text \<open>
  internal/cli: exit.go, eval.go, scan.go, format.go and the evaluation half of pipeline.go. What
  lies between the facts and the exit code: evaluate, scope by the profile, apply the suppressions,
  score, and resolve the gates on one ladder. An \<open>exitError\<close> is its code and message, \<open>None\<close> is a
  nil error (exit 0). Writing documents is a parameter: the error it came back with, if any.
\<close>

section \<open>The exit ladder\<close>

definition ExitOK :: nat where "ExitOK = 0"
definition ExitUsage :: nat where "ExitUsage = 1"
definition ExitFindings :: nat where "ExitFindings = 2"
definition ExitThreshold :: nat where "ExitThreshold = 3"
definition ExitDegraded :: nat where "ExitDegraded = 4"
definition ExitPrivileges :: nat where "ExitPrivileges = 10"
definition ExitTimeout :: nat where "ExitTimeout = 11"
definition ExitInternal :: nat where "ExitInternal = 70"
definition ExitInterrupted :: nat where "ExitInterrupted = 130"

lemmas exit_codes = ExitOK_def ExitUsage_def ExitFindings_def ExitThreshold_def ExitDegraded_def
  ExitPrivileges_def ExitTimeout_def ExitInternal_def ExitInterrupted_def

record exit_outcome =
  o_interrupted :: bool
  o_internal :: bool
  o_timed_out :: bool
  o_usage :: bool
  o_privileges :: bool
  o_degraded :: bool
  o_failing :: bool
  o_count_gate :: string
  o_below_threshold :: bool

definition ExitCode :: "exit_outcome \<Rightarrow> nat" where
  "ExitCode x =
     (if o_interrupted x then ExitInterrupted
      else if o_internal x then ExitInternal
      else if o_timed_out x then ExitTimeout
      else if o_usage x then ExitUsage
      else if o_privileges x then ExitPrivileges
      else if o_degraded x then ExitDegraded
      else if o_failing x then ExitFindings
      else if o_below_threshold x then ExitThreshold
      else ExitOK)"

type_synonym exit_error = "nat \<times> string"

definition usage_error :: "string \<Rightarrow> exit_error" where
  "usage_error m = (ExitUsage, m)"

section \<open>Gates\<close>

record gates =
  g_threshold :: rat
  g_threshold_set :: bool
  g_min_coverage :: rat
  g_min_coverage_set :: bool
  g_strict_privileges :: bool
  g_fail_on_critical :: int
  g_fail_on_high :: int

definition severity_rank :: "nat gomap" where
  "severity_rank = [(''none'', 0), (''info'', 1), (''low'', 2), (''medium'', 3), (''high'', 4), (''critical'', 5)]"

definition rank_of :: "severity \<Rightarrow> nat" where
  "rank_of s = (case lookup severity_rank (to_lower (sev_name s)) of None \<Rightarrow> 0 | Some r \<Rightarrow> r)"

definition parse_fail_on :: "string \<Rightarrow> exit_error + nat" where
  "parse_fail_on level =
     (case lookup severity_rank (to_lower (trim_space level)) of
        None \<Rightarrow> Inl (usage_error (''unknown --fail-on level '' @ go_quote level
                 @ ''; want one of none, info, low, medium, high, critical''))
      | Some r \<Rightarrow> Inr r)"

definition any_failure_at_or_above :: "finding list \<Rightarrow> nat \<Rightarrow> bool" where
  "any_failure_at_or_above fs threshold \<longleftrightarrow>
     threshold \<noteq> 0 \<and> (\<exists>f \<in> set fs. f_result f = Fail \<and> threshold \<le> rank_of (f_severity f))"

fun count_severity :: "finding list \<Rightarrow> severity \<Rightarrow> int" where
  "count_severity [] want = 0"
| "count_severity (f # fs) want =
     (if f_result f = Fail \<and> f_suppression f = None \<and> f_severity f = want then 1 else 0)
       + count_severity fs want"

definition lacks_privilege :: "fact_error list \<Rightarrow> bool" where
  "lacks_privilege es \<longleftrightarrow> (\<exists>e \<in> set es. fe_kind e = ErrPermission)"

definition explain :: "exit_outcome \<Rightarrow> string" where
  "explain x =
     (if o_privileges x then
        ''insufficient privileges for one or more collectors, and --strict-privileges was set''
      else if o_degraded x then
        ''completed degraded: a collector failed, or coverage is below --min-coverage''
      else if o_failing x \<and> o_count_gate x \<noteq> [] then ''findings at or above '' @ o_count_gate x
      else if o_failing x then ''findings at or above --fail-on''
      else if o_below_threshold x then ''posture is below --threshold''
      else [])"

text \<open>The three stages of \<open>gateOn\<close>: the findings gates, then the flags on privileges and figures.\<close>

definition count_gates :: "gates \<Rightarrow> finding list \<Rightarrow> exit_outcome \<Rightarrow> exit_outcome" where
  "count_gates gt fs o0 =
     (let nc = g_fail_on_critical gt; nh = g_fail_on_high gt;
          cc = count_severity fs Critical; ch = count_severity fs High;
          o1 = (if 0 < nc \<and> nc \<le> cc then
                  o0\<lparr>o_failing := True, o_count_gate :=
                      ''--fail-on-critical '' @ int_str nc @ '' ('' @ int_str cc @ '' present)''\<rparr>
                else o0)
      in if 0 < nh \<and> nh \<le> ch then
           o1\<lparr>o_failing := True, o_count_gate :=
               (if o_count_gate o1 \<noteq> [] then o_count_gate o1 @ '' and '' else o_count_gate o1)
               @ ''--fail-on-high '' @ int_str nh @ '' ('' @ int_str ch @ '' present)''\<rparr>
         else o1)"

definition gate_outcome ::
  "score \<Rightarrow> finding list \<Rightarrow> fact_error list \<Rightarrow> nat \<Rightarrow> gates \<Rightarrow> exit_outcome"
where
  "gate_outcome sco fs es fail_on gt =
     (let o0 = \<lparr>o_interrupted = False, o_internal = False, o_timed_out = False, o_usage = False,
                o_privileges = False, o_degraded = (es \<noteq> []),
                o_failing = any_failure_at_or_above fs fail_on, o_count_gate = [],
                o_below_threshold = False\<rparr>;
          o1 = count_gates gt fs o0;
          o2 = (if g_strict_privileges gt \<and> lacks_privilege es then o1\<lparr>o_privileges := True\<rparr> else o1);
          o3 = (if g_min_coverage_set gt
                   \<and> (case Coverage sco of None \<Rightarrow> True | Some c \<Rightarrow> c < g_min_coverage gt)
                then o2\<lparr>o_degraded := True\<rparr> else o2)
      in if g_threshold_set gt \<and> (case Posture sco of None \<Rightarrow> False | Some p \<Rightarrow> p < g_threshold gt)
         then o3\<lparr>o_below_threshold := True\<rparr> else o3)"

definition gate_on ::
  "score \<Rightarrow> finding list \<Rightarrow> fact_error list \<Rightarrow> nat \<Rightarrow> gates \<Rightarrow> exit_error option"
where
  "gate_on sco fs es fail_on gt =
     (let x = gate_outcome sco fs es fail_on gt; code = ExitCode x
      in if code \<noteq> ExitOK then Some (code, explain x) else None)"

section \<open>From facts to an exit code\<close>

text \<open>What \<open>renderAndGate\<close> computes before it renders: the verdicts, the score, the stderr notes.\<close>

definition report_suppressions :: "applied \<Rightarrow> string list" where
  "report_suppressions a =
     map (\<lambda>r. ''plumbline: suppression '' @ r_fingerprint r @ '' expired '' @ r_expires_at r
               @ ''; the finding is reported'') (ap_expired a)
     @ map (\<lambda>r. ''plumbline: suppression '' @ r_fingerprint r @ '' matched no failing finding; ''
               @ ''it may already be fixed, or the subject may have changed'') (ap_unmatched a)"

definition verdicts ::
  "'v catalog \<Rightarrow> profile option \<Rightarrow> rule_set option \<Rightarrow> instant \<Rightarrow> 'v fact_set \<Rightarrow> applied"
where
  "verdicts cat prof accepted started fs =
     Apply accepted (apply_profile prof (fst (EvaluateWith cat fs False))) started"

definition render_and_gate ::
  "'v catalog \<Rightarrow> 'v fact_set \<Rightarrow> instant \<Rightarrow> nat \<Rightarrow> gates \<Rightarrow> rule_set option \<Rightarrow> profile option
     \<Rightarrow> string option \<Rightarrow> exit_error option"
where
  "render_and_gate cat fs started fail_on gt accepted prof render_err =
     (let applied = verdicts cat prof accepted started fs;
          sco = Compute (ap_findings applied) Version
      in case render_err of
           Some e \<Rightarrow> Some (ExitInternal, e)
         | None \<Rightarrow> gate_on sco (ap_findings applied) (Errors fs) fail_on gt)"

definition evaluate_for_diff ::
  "'v catalog \<Rightarrow> rule_set option \<Rightarrow> instant \<Rightarrow> 'v fact_set \<Rightarrow> finding list \<times> score"
where
  "evaluate_for_diff cat accepted started fs =
     (let applied = Apply accepted (Evaluate cat fs) started
      in (ap_findings applied, Compute (ap_findings applied) Version))"

section \<open>The commands\<close>

definition FormatTerminal :: string where "FormatTerminal = ''terminal''"
definition FormatJSON :: string where "FormatJSON = ''json''"
definition FormatSARIF :: string where "FormatSARIF = ''sarif''"

text \<open>\<open>changed\<close>: whether the operator set --format.\<close>

definition resolve_format :: "string \<Rightarrow> bool \<Rightarrow> bool \<Rightarrow> exit_error + string" where
  "resolve_format fmt as_json changed =
     (let f0 = to_lower (trim_space fmt) in
      if as_json \<and> changed \<and> f0 \<noteq> FormatJSON then
        Inl (usage_error (''--json and --format '' @ f0 @ '' contradict each other; pass one of them''))
      else
        (let f = (if as_json then FormatJSON else f0) in
         if f = FormatTerminal \<or> f = FormatJSON \<or> f = FormatSARIF then Inr f
         else Inl (usage_error (''unknown --format '' @ go_quote f @ ''; want one of terminal, json, sarif''))))"

text \<open>\<open>useColor\<close>: \<open>no_color_env\<close> is the value of the variable NO_COLOR.\<close>

definition use_color :: "bool \<Rightarrow> bool \<Rightarrow> string \<Rightarrow> bool \<Rightarrow> bool" where
  "use_color no_color_flag to_file no_color_env is_terminal =
     (if no_color_flag then False else if to_file then False
      else if no_color_env \<noteq> [] then False else is_terminal)"

text \<open>
  One collection as \<open>scan\<close> sees it: an error, or the facts with what stopped the run. The remaining
  parameters are the flags and the results of loading and writing the operator's files.
\<close>

record 'v collected =
  co_facts :: "'v fact_set"
  co_started :: instant
  co_timed_out :: bool
  co_interrupted :: bool

record scan_flags =
  fl_verbose :: bool
  fl_quiet :: bool
  fl_fail_on :: string
  fl_format :: string
  fl_as_json :: bool
  fl_format_changed :: bool
  fl_fix :: bool
  fl_write_script :: string
  fl_save_bundle :: string

definition scan_command ::
  "'v catalog \<Rightarrow> scan_flags \<Rightarrow> gates \<Rightarrow> exit_error + rule_set option \<Rightarrow> exit_error + profile option
     \<Rightarrow> string + 'v collected \<Rightarrow> string option \<Rightarrow> bool \<Rightarrow> string option \<Rightarrow> exit_error option"
where
  "scan_command cat fl gt sup_r prof_r coll save_err deadline render_err =
     (if fl_verbose fl \<and> fl_quiet fl then
        Some (usage_error ''--verbose and --quiet contradict each other; pass one of them'')
      else
     (case parse_fail_on (fl_fail_on fl) of
        Inl e \<Rightarrow> Some e
      | Inr fail_on \<Rightarrow>
     (case resolve_format (fl_format fl) (fl_as_json fl) (fl_format_changed fl) of
        Inl e \<Rightarrow> Some e
      | Inr fmt \<Rightarrow>
     (if fl_write_script fl \<noteq> [] \<and> \<not> fl_fix fl then
        Some (usage_error ''--write-script needs --fix; it writes the script --fix generates'')
      else if fl_fix fl \<and> fmt \<noteq> FormatTerminal then
        Some (usage_error (''--fix prints a shell script and --format '' @ fmt
          @ '' prints a document; they cannot share stdout''))
      else
     (case sup_r of
        Inl e \<Rightarrow> Some e
      | Inr accepted \<Rightarrow>
     (case prof_r of
        Inl e \<Rightarrow> Some e
      | Inr prof \<Rightarrow>
     (case coll of
        Inl e \<Rightarrow> Some (ExitInternal, e)
      | Inr got \<Rightarrow>
         (if co_interrupted got then Some (ExitInterrupted, ''interrupted; no report was produced'')
          else if fl_save_bundle fl \<noteq> [] \<and> save_err \<noteq> None then Some (ExitInternal, the save_err)
          else if co_timed_out got \<or> deadline then Some (ExitTimeout, ''scan exceeded --timeout'')
          else render_and_gate cat (co_facts got) (co_started got) fail_on gt accepted prof render_err))))))))"

definition report_destination :: "bool \<Rightarrow> bool \<Rightarrow> string \<Rightarrow> bool \<Rightarrow> bool" where
  "report_destination verbose streamed output is_terminal =
     (if verbose \<or> \<not> streamed \<or> output \<noteq> [] then True else \<not> is_terminal)"

section \<open>What the gates promise\<close>

lemma rank_of_values:
  "rank_of NoSeverity = 0" "rank_of Info = 1" "rank_of Low = 2"
  "rank_of Medium = 3" "rank_of High = 4" "rank_of Critical = 5"
  by code_simp+

lemma rank_of_sev_index: "rank_of s = sev_index s"
  by (cases s) (simp_all add: rank_of_values)

lemma count_severity_filter:
  "count_severity fs want =
     int (length (filter (\<lambda>f. f_result f = Fail \<and> f_suppression f = None \<and> f_severity f = want) fs))"
  by (induction fs want rule: count_severity.induct) auto

lemma count_gates_simps [simp]:
  "o_interrupted (count_gates gt fs o0) = o_interrupted o0"
  "o_internal (count_gates gt fs o0) = o_internal o0"
  "o_timed_out (count_gates gt fs o0) = o_timed_out o0"
  "o_usage (count_gates gt fs o0) = o_usage o0"
  "o_privileges (count_gates gt fs o0) = o_privileges o0"
  "o_degraded (count_gates gt fs o0) = o_degraded o0"
  "o_below_threshold (count_gates gt fs o0) = o_below_threshold o0"
  by (simp_all add: count_gates_def Let_def)

lemma o_failing_count_gates:
  "o_failing (count_gates gt fs o0) \<longleftrightarrow>
     o_failing o0
     \<or> 0 < g_fail_on_critical gt \<and> g_fail_on_critical gt \<le> count_severity fs Critical
     \<or> 0 < g_fail_on_high gt \<and> g_fail_on_high gt \<le> count_severity fs High"
  by (auto simp: count_gates_def Let_def)

lemma gate_outcome_simps:
  "\<not> o_interrupted (gate_outcome sco fs es n gt)"
  "\<not> o_internal (gate_outcome sco fs es n gt)"
  "\<not> o_timed_out (gate_outcome sco fs es n gt)"
  "\<not> o_usage (gate_outcome sco fs es n gt)"
  "o_privileges (gate_outcome sco fs es n gt) \<longleftrightarrow> g_strict_privileges gt \<and> lacks_privilege es"
  "o_degraded (gate_outcome sco fs es n gt) \<longleftrightarrow> es \<noteq> [] \<or> g_min_coverage_set gt
     \<and> (case Coverage sco of None \<Rightarrow> True | Some c \<Rightarrow> c < g_min_coverage gt)"
  "o_below_threshold (gate_outcome sco fs es n gt) \<longleftrightarrow> g_threshold_set gt
     \<and> (case Posture sco of None \<Rightarrow> False | Some p \<Rightarrow> p < g_threshold gt)"
  by (auto simp: gate_outcome_def Let_def)

lemma o_failing_gate_outcome:
  "o_failing (gate_outcome sco fs es n gt) \<longleftrightarrow>
     any_failure_at_or_above fs n
     \<or> 0 < g_fail_on_critical gt \<and> g_fail_on_critical gt \<le> count_severity fs Critical
     \<or> 0 < g_fail_on_high gt \<and> g_fail_on_high gt \<le> count_severity fs High"
  by (simp add: gate_outcome_def Let_def o_failing_count_gates)

text \<open>Exit 0 says all of it at once: nothing failed to collect and no gate tripped.\<close>

lemma gate_on_None:
  "gate_on sco fs es n gt = None \<longleftrightarrow>
     es = []
     \<and> \<not> any_failure_at_or_above fs n
     \<and> (0 < g_fail_on_critical gt \<longrightarrow> count_severity fs Critical < g_fail_on_critical gt)
     \<and> (0 < g_fail_on_high gt \<longrightarrow> count_severity fs High < g_fail_on_high gt)
     \<and> (g_min_coverage_set gt \<longrightarrow> (\<exists>c. Coverage sco = Some c \<and> g_min_coverage gt \<le> c))
     \<and> (g_threshold_set gt \<longrightarrow> (\<forall>p. Posture sco = Some p \<longrightarrow> g_threshold gt \<le> p))"
  by (auto simp: gate_on_def Let_def ExitCode_def exit_codes gate_outcome_simps o_failing_gate_outcome
      lacks_privilege_def not_less split: option.splits)

lemma gate_on_Some_message: "gate_on sco fs es n gt = Some (code, msg) \<Longrightarrow> msg \<noteq> []"
  by (auto simp: gate_on_def Let_def ExitCode_def exit_codes gate_outcome_simps explain_def
      split: if_splits)

text \<open>The verdicts, finding by finding.\<close>

lemma verdicts_findings:
  "ap_findings (verdicts cat prof accepted started fs) =
     (let scoped = apply_profile prof (Evaluate cat fs) in
      case accepted of None \<Rightarrow> scoped
      | Some rs \<Rightarrow> map (\<lambda>f. case live_rule rs started f of None \<Rightarrow> f | Some r \<Rightarrow> suppress_finding r f) scoped)"
  by (simp add: verdicts_def Evaluate_def Apply_findings Let_def)

lemma suppress_finding_simps [simp]:
  "f_check_id (suppress_finding r f) = f_check_id f"
  "f_fingerprint (suppress_finding r f) = f_fingerprint f"
  "f_result (suppress_finding r f) = Skipped"
  "f_skipped_by (suppress_finding r f) = f_skipped_by f"
  "f_severity (suppress_finding r f) = f_severity f"
  by (simp_all add: suppress_finding_def)

lemma apply_profile_ids: "map f_check_id (apply_profile p fs) = map f_check_id fs"
  by (auto simp: apply_profile_def split: option.split)

lemma apply_profile_fingerprints: "map f_fingerprint (apply_profile p fs) = map f_fingerprint fs"
  by (auto simp: apply_profile_def split: option.split)

lemma verdicts_ids: "map f_check_id (ap_findings (verdicts cat prof accepted started fs)) = map f_check_id (Evaluate cat fs)"
proof -
  have "map f_check_id (map (\<lambda>f. case live_rule rs started f of None \<Rightarrow> f | Some r \<Rightarrow> suppress_finding r f) gs)
      = map f_check_id gs" for rs gs
    by (auto split: option.split)
  then show ?thesis
    by (simp add: verdicts_findings Let_def apply_profile_ids del: map_map split: option.split)
qed

section \<open>Scoping and the denominators\<close>

lemma scope_weights:
  assumes "wf_profile p"
  shows "weights (map (scope_finding p) fs)
       = weights (map (scope_finding p) (filter (\<lambda>f. Includes (Some p) (f_check_id f)) fs))"
proof (induction fs rule: rev_induct)
  case (snoc f fs)
  then show ?case
    by (cases "Includes (Some p) (f_check_id f)") (auto simp: weights_snoc scope_excluded split: prod.split)
qed simp

lemma counts_of_snoc:
  "Evaluated (counts_of (fs @ [f])) = Evaluated (counts_of fs) + (if scores (f_result f) then 1 else 0)"
  "Applicable (counts_of (fs @ [f])) =
     Applicable (counts_of fs) + (if f_result f = NotApplicable \<or> out_of_profile f then 0 else 1)"
  by (cases "f_result f"; simp add: counts_of_def count_result_def Evaluated_def Applicable_def scores_def
      out_of_profile_def)+

lemma scope_counts:
  assumes "wf_profile p"
  shows "Evaluated (counts_of (map (scope_finding p) fs))
       = Evaluated (counts_of (map (scope_finding p) (filter (\<lambda>f. Includes (Some p) (f_check_id f)) fs)))"
    and "Applicable (counts_of (map (scope_finding p) fs))
       = Applicable (counts_of (map (scope_finding p) (filter (\<lambda>f. Includes (Some p) (f_check_id f)) fs)))"
proof (induction fs rule: rev_induct)
  case (snoc f fs)
  have x: "\<not> scores Skipped" "p_id p \<noteq> []" using wf_profile_id[OF assms] by (simp_all add: scores_def)
  {
    case 1 show ?case
      using snoc x by (cases "Includes (Some p) (f_check_id f)") (auto simp: counts_of_snoc scope_excluded)
  next
    case 2 show ?case
      using snoc x
      by (cases "Includes (Some p) (f_check_id f)") (auto simp: counts_of_snoc scope_excluded out_of_profile_def)
  }
qed simp_all

section \<open>Rows after suppression\<close>

definition settle :: "rule_set \<Rightarrow> instant \<Rightarrow> finding \<Rightarrow> finding" where
  "settle rs t f = (case live_rule rs t f of None \<Rightarrow> f | Some r \<Rightarrow> suppress_finding r f)"

lemma settle_fingerprint [simp]: "f_fingerprint (settle rs t f) = f_fingerprint f"
  by (simp add: settle_def split: option.split)

lemma settle_fail: "f_result (settle rs t f) = Fail \<longleftrightarrow> f_result f = Fail \<and> live_rule rs t f = None"
  by (auto simp: settle_def split: option.split)

lemma settle_live_None: "live_rule rs t f = None \<Longrightarrow> settle rs t f = f"
  by (simp add: settle_def)

lemma Evaluate_fresh: "f \<in> set (Evaluate cat fs) \<Longrightarrow> f_suppression f = None"
  using EvaluateOne_fresh by (auto simp: Evaluate_eq)

lemma apply_profile_fresh: "f \<in> set (apply_profile p (Evaluate cat fs)) \<Longrightarrow> f_suppression f = None"
  using Evaluate_fresh by (auto simp: apply_profile_def split: option.splits)

lemma verdicts_settle:
  "ap_findings (verdicts cat prof (Some rs) t fs) = map (settle rs t) (apply_profile prof (Evaluate cat fs))"
  by (simp add: verdicts_findings settle_def Let_def)

lemma evaluate_for_diff_settle:
  "fst (evaluate_for_diff cat (Some rs) t fs) = map (settle rs t) (Evaluate cat fs)"
  by (simp add: evaluate_for_diff_def Let_def Apply_findings settle_def)

lemma count_severity_settle:
  "(\<forall>f \<in> set gs. f_suppression f = None) \<Longrightarrow>
     count_severity (map (settle rs t) gs) s =
       int (length (filter (\<lambda>f. f_result f = Fail \<and> f_severity f = s \<and> live_rule rs t f = None) gs))"
proof (induction gs)
  case (Cons f gs)
  have "f_result (settle rs t f) = Fail \<Longrightarrow> settle rs t f = f"
    by (auto simp: settle_fail settle_live_None)
  then show ?case using Cons by (auto simp: settle_fail)
qed simp

section \<open>Properties\<close>

definition quiet_gates :: gates where
  "quiet_gates = \<lparr>g_threshold = 0, g_threshold_set = False, g_min_coverage = 0, g_min_coverage_set = False,
     g_strict_privileges = False, g_fail_on_critical = 0, g_fail_on_high = 0\<rparr>"

text \<open>
  C2: the gates and the exit ladder. A completed evaluation exits 0 exactly when no collector failed,
  no FAIL reaches a findings gate, coverage is defined and not below its gate, and a defined
  posture is not below its threshold. Otherwise the exit code is the first of 10, 4, 2 and 3 whose
  condition holds, whatever else holds with it, and the message is not empty.
\<close>

theorem exit_code_is_the_first_tripped_gate:
  "case gate_on sco fs es n gt of
     None \<Rightarrow>
       es = [] \<and> \<not> any_failure_at_or_above fs n
       \<and> \<not> (0 < g_fail_on_critical gt \<and> g_fail_on_critical gt \<le> count_severity fs Critical)
       \<and> \<not> (0 < g_fail_on_high gt \<and> g_fail_on_high gt \<le> count_severity fs High)
       \<and> \<not> (g_min_coverage_set gt \<and> \<not> (\<exists>c. Coverage sco = Some c \<and> g_min_coverage gt \<le> c))
       \<and> \<not> (g_threshold_set gt \<and> (\<exists>p. Posture sco = Some p \<and> p < g_threshold gt))
   | Some (code, msg) \<Rightarrow>
       msg \<noteq> []
       \<and> (let privileges = g_strict_privileges gt \<and> (\<exists>e \<in> set es. fe_kind e = ErrPermission);
              degraded = es \<noteq> [] \<or> g_min_coverage_set gt
                \<and> \<not> (\<exists>c. Coverage sco = Some c \<and> g_min_coverage gt \<le> c);
              failing = any_failure_at_or_above fs n
                \<or> 0 < g_fail_on_critical gt \<and> g_fail_on_critical gt \<le> count_severity fs Critical
                \<or> 0 < g_fail_on_high gt \<and> g_fail_on_high gt \<le> count_severity fs High
          in code = (if privileges then 10 else if degraded then 4 else if failing then 2 else 3))"
proof -
  have cov: "(case Coverage sco of None \<Rightarrow> True | Some c \<Rightarrow> c < g_min_coverage gt)
      \<longleftrightarrow> \<not> (\<exists>c. Coverage sco = Some c \<and> g_min_coverage gt \<le> c)"
    by (auto simp: not_le split: option.split)
  show ?thesis
  proof (cases "gate_on sco fs es n gt")
    case None
    then show ?thesis unfolding None gate_on_None[THEN iffD1, OF None] option.case
      using gate_on_None[THEN iffD1, OF None] by (auto simp: not_le)
  next
    case (Some r)
    obtain code msg where r: "r = (code, msg)" by fastforce
    have "msg \<noteq> []" using gate_on_Some_message Some r by blast
    moreover have "code = ExitCode (gate_outcome sco fs es n gt)"
      and "ExitCode (gate_outcome sco fs es n gt) \<noteq> ExitOK"
      using Some r by (auto simp: gate_on_def Let_def split: if_splits)
    ultimately show ?thesis
      unfolding Some r
      by (auto simp: Let_def ExitCode_def exit_codes gate_outcome_simps o_failing_gate_outcome cov
          lacks_privilege_def split: if_splits)
  qed
qed

theorem exit_code_is_the_first_tripped_gate_witness:
  "\<exists>msg. gate_on (Compute [] 34) [sample_finding ''X-0001'' Fail High]
     [\<lparr>fe_fact = ''x'', fe_kind = ErrParse, fe_msg = [], fe_path = []\<rparr>] 1 quiet_gates = Some (4, msg)"
proof -
  let ?es = "[\<lparr>fe_fact = ''x'', fe_kind = ErrParse, fe_msg = [], fe_path = []\<rparr>]"
  let ?fs = "[sample_finding ''X-0001'' Fail High]"
  show ?thesis
    using exit_code_is_the_first_tripped_gate
      [where sco = "Compute [] 34" and fs = ?fs and es = ?es and n = 1 and gt = quiet_gates]
    by (cases "gate_on (Compute [] 34) ?fs ?es 1 quiet_gates") (auto simp: quiet_gates_def Let_def)
qed


definition plain_flags :: "string \<Rightarrow> scan_flags" where
  "plain_flags fail_on = \<lparr>fl_verbose = False, fl_quiet = False, fl_fail_on = fail_on, fl_format = ''terminal'',
     fl_as_json = False, fl_format_changed = False, fl_fix = False, fl_write_script = [], fl_save_bundle = []\<rparr>"


text \<open>
  C18: a profile's exclusions leave both denominators. Posture and coverage of a scoped run are those of
  a run of the included checks alone, although every excluded check is still a row.
\<close>

theorem excluded_checks_leave_the_denominators:
  assumes "wf_profile p"
  shows "length (apply_profile (Some p) fs) = length fs
     \<and> Posture (Compute (apply_profile (Some p) fs) v) =
         Posture (Compute (apply_profile (Some p) (filter (\<lambda>f. Includes (Some p) (f_check_id f)) fs)) v)
     \<and> Coverage (Compute (apply_profile (Some p) fs) v) =
         Coverage (Compute (apply_profile (Some p) (filter (\<lambda>f. Includes (Some p) (f_check_id f)) fs)) v)"
  using scope_weights[OF assms, of fs] scope_counts[OF assms, of fs]
  by (simp add: apply_profile_def Posture_weights Coverage_counts Let_def)

theorem excluded_checks_leave_the_denominators_witness:
  "Posture (Compute (apply_profile (Some sample_profile)
       [sample_finding ''USERS-0001'' Fail High]) 34) = None"
proof -
  have "\<not> Includes (Some sample_profile) ''USERS-0001''"
    using path_match_prefix[of "''SSHD-''" "''USERS-0001''"]
    by (simp add: Includes_def match_any_def sample_profile_def has_prefix_def)
  then show ?thesis
    using excluded_checks_leave_the_denominators[OF sample_profile_wf, of "[sample_finding ''USERS-0001'' Fail High]" 34]
    by (simp add: sample_finding_def apply_profile_def Posture_weights weights_def)
qed

text \<open>
  C12: accepted risks do not gate, and nothing else escapes the gates. The findings that count towards
  the severity gates are exactly the FAILs of the scoped evaluation, at that severity, that no live
  rule accepts; and the floor gate trips exactly when such a FAIL is at or above the floor.
\<close>

theorem only_accepted_risks_escape_the_gates:
  "count_severity (ap_findings (verdicts cat prof (Some rs) t fs)) s =
     int (length (filter (\<lambda>f. f_result f = Fail \<and> f_severity f = s \<and> live_rule rs t f = None)
       (apply_profile prof (Evaluate cat fs))))
   \<and> any_failure_at_or_above (ap_findings (verdicts cat prof (Some rs) t fs)) n =
       (n \<noteq> 0 \<and> (\<exists>f \<in> set (apply_profile prof (Evaluate cat fs)).
          f_result f = Fail \<and> live_rule rs t f = None \<and> n \<le> rank_of (f_severity f)))"
proof -
  have "count_severity (ap_findings (verdicts cat prof (Some rs) t fs)) s =
     int (length (filter (\<lambda>f. f_result f = Fail \<and> f_severity f = s \<and> live_rule rs t f = None)
       (apply_profile prof (Evaluate cat fs))))"
    unfolding verdicts_settle by (rule count_severity_settle) (blast intro: apply_profile_fresh)
  moreover have "any_failure_at_or_above (map (settle rs t) gs) n =
       (n \<noteq> 0 \<and> (\<exists>f \<in> set gs. f_result f = Fail \<and> live_rule rs t f = None \<and> n \<le> rank_of (f_severity f)))" for gs
    by (auto simp: any_failure_at_or_above_def settle_fail settle_live_None)
  ultimately show ?thesis by (simp add: verdicts_settle)
qed

text \<open>
  A lapsed acceptance is a regression. The same facts, evaluated at a time when a rule accepts a
  failing finding and again when it no longer does, diff as that finding having regressed; no host
  change is needed, and it is not reported as a new failure.
\<close>

theorem lapsed_acceptance_is_a_regression:
  assumes "distinct (map f_fingerprint (Evaluate cat fs))" and "f \<in> set (Evaluate cat fs)"
    and "live_rule rs t1 f \<noteq> None" and "live_rule rs t2 f = None"
  shows "\<exists>ch \<in> set (Compare (fst (evaluate_for_diff cat (Some rs) t1 fs)) (fst (evaluate_for_diff cat (Some rs) t2 fs))).
     ch_new ch = Some f \<and> ch_category ch = Regressed"
proof -
  let ?old = "map (settle rs t1) (Evaluate cat fs)" and ?new = "map (settle rs t2) (Evaluate cat fs)"
  let ?f1 = "settle rs t1 f"
  have d: "distinct (map f_fingerprint ?old)" "distinct (map f_fingerprint ?new)"
    using assms(1) by (simp_all add: comp_def)
  have new: "settle rs t2 f = f" by (rule settle_live_None[OF assms(4)])
  have "lookup (index ?old) (f_fingerprint f) = Some ?f1"
    using assms(2) by (simp add: index_distinct[OF d(1)])
  moreover have "lookup (index ?new) (f_fingerprint f) = Some f"
    using assms(2) new by (simp add: index_distinct[OF d(2)]) (metis image_eqI)
  ultimately have c: "compared ?old ?new (Some ?f1) (Some f)" by (rule compared.same_fingerprint)
  obtain r where r: "live_rule rs t1 f = Some r" using assms(3) by blast
  then have "suppressible f" by (auto simp: live_rule_def split: option.splits if_splits)
  moreover have "f_suppression f = None" by (rule Evaluate_fresh[OF assms(2)])
  ultimately have "classify (Some ?f1) (Some f) = Some Regressed"
    using r by (auto simp: classify_def suppressed_def failing_def underlying_def settle_def
        suppress_finding_def suppressible_def)
  then have "\<lparr>ch_category = Regressed, ch_old = Some ?f1, ch_new = Some f\<rparr> \<in> set (Compare ?old ?new)"
    using c by (simp add: in_Compare)
  then show ?thesis unfolding evaluate_for_diff_settle by force
qed

theorem lapsed_acceptance_is_a_regression_witness:
  "\<exists>cat (fs :: bool fact_set) rs. \<exists>ch \<in> set (Compare (fst (evaluate_for_diff cat (Some rs) 50 fs))
       (fst (evaluate_for_diff cat (Some rs) 100 fs))). ch_category ch = Regressed"
proof -
  let ?ck = "sample_check ''X-0001''"
  let ?fs = "Put \<lparr>fact_id = ''x.fact'', fact_version = 1, opaque_version = None, payload = False\<rparr> new_set"
  let ?cat = "\<lparr>cat_checks = [(''X-0001'', ?ck)], cat_order = [''X-0001'']\<rparr>"
  let ?f = "EvaluateOne ?ck ?fs"
  let ?r = "(sample_rule (f_fingerprint ?f) ''t'')\<lparr>r_expires := 100\<rparr>"
  let ?rs = "\<lparr>by_fp = [(f_fingerprint ?f, ?r)], rs_order = [f_fingerprint ?f]\<rparr>"
  have e: "Evaluate ?cat ?fs = [?f]" by (simp add: Evaluate_eq lookup_def)
  have fail: "f_result ?f = Fail"
    by (simp add: EvaluateOne_def sample_check_def contains_id_def lookup_def Let_def Err_def IDs_def keys_def
        Opaque_def Put_def new_set_def put_def remove_def outcome_finding_def sample_outcome_def)
  have live: "live_rule ?rs 50 ?f \<noteq> None" "live_rule ?rs 100 ?f = None"
    by (simp_all add: live_rule_def lookup_def suppressible_def fail lapsed_def Expires_def is_zero_def before_def)
  have d: "distinct (map f_fingerprint (Evaluate ?cat ?fs))" and m: "?f \<in> set (Evaluate ?cat ?fs)"
    by (simp_all add: e)
  from lapsed_acceptance_is_a_regression[OF d m live] show ?thesis by blast
qed

end
