(* ===== verification/Registry.thy ===== *)
theory Registry
  imports Fact
begin

text \<open>
  internal/collect/collect.go: what a collector declares, the registry, its cycle check and the
  dependency order. A collector's \<open>Collect\<close> method acts on a host; the runner's model takes its
  result from the environment, so a collector is the record of what its other methods return.
  The depth-first search and the topological sort are given fuel, with \<open>None\<close> for running out;
  \<open>findCycle_total\<close> and \<open>Order_topological\<close> show the fuel chosen never does.
\<close>

section \<open>Collectors\<close>

text \<open>Go's integer constants: any other value is one the code does not recognise.\<close>

definition CapNone :: int where "CapNone = 0"
definition CapRoot :: int where "CapRoot = 1"
definition Cheap :: int where "Cheap = 0"
definition Expensive :: int where "Expensive = 1"

definition cap_string :: "int \<Rightarrow> string" where
  "cap_string c = (if c = CapNone then ''none'' else if c = CapRoot then ''root''
     else ''capability('' @ int_str c @ '')'')"

definition satisfied_by :: "int \<Rightarrow> int \<Rightarrow> bool" where
  "satisfied_by c euid = (if c = CapNone then True else if c = CapRoot then euid = 0 else False)"

record collector =
  co_id :: string
  co_produces :: "fact_id list"
  co_depends_on :: "string list"
  co_requires :: int
  co_cost :: int
  co_timeout :: int

type_synonym registry = "collector gomap"

section \<open>Dependencies\<close>

fun dedupe_loop :: "string set \<Rightarrow> string list \<Rightarrow> string list" where
  "dedupe_loop seen [] = []"
| "dedupe_loop seen (s # xs) =
     (if s \<in> seen then dedupe_loop seen xs else s # dedupe_loop (insert s seen) xs)"

definition dedupe :: "string list \<Rightarrow> string list" where
  "dedupe xs = sort (dedupe_loop {} xs)"

definition Get :: "registry \<Rightarrow> string \<Rightarrow> collector option" where
  "Get r i = lookup r i"

definition reg_IDs :: "registry \<Rightarrow> string list" where
  "reg_IDs r = keys r"

definition deps_of :: "registry \<Rightarrow> string \<Rightarrow> string list" where
  "deps_of r i = (case lookup r i of None \<Rightarrow> [] | Some c \<Rightarrow> dedupe (co_depends_on c))"

definition known_deps :: "registry \<Rightarrow> string \<Rightarrow> string list" where
  "known_deps r i = filter (\<lambda>d. lookup r d \<noteq> None) (deps_of r i)"

definition missing_of :: "registry \<Rightarrow> string \<Rightarrow> string list" where
  "missing_of r i = filter (\<lambda>d. lookup r d = None) (deps_of r i)"

definition MissingDependencies :: "registry \<Rightarrow> string list gomap" where
  "MissingDependencies r =
     foldl (\<lambda>m i. if missing_of r i \<noteq> [] then put i (missing_of r i) m else m) [] (reg_IDs r)"

section \<open>The cycle check\<close>

datatype visit_state = Unvisited | Open | Closed

text \<open>
  One call of the closure \<open>visit\<close>: the colours and the path on entry, and on return whether a cycle
  was found, the colours, the path and the cycle.
\<close>

type_synonym dfs = "(string \<Rightarrow> visit_state) \<times> string list"

definition cycle_at :: "string list \<Rightarrow> string \<Rightarrow> string list" where
  "cycle_at path d = dropWhile (\<lambda>s. s \<noteq> d) path @ [d]"

function visit :: "nat \<Rightarrow> registry \<Rightarrow> string \<Rightarrow> dfs \<Rightarrow> (string list option \<times> dfs) option"
  and visit_deps :: "nat \<Rightarrow> registry \<Rightarrow> string \<Rightarrow> string list \<Rightarrow> dfs \<Rightarrow> (string list option \<times> dfs) option"
where
  "visit 0 r i s = None"
| "visit (Suc n) r i (st, path) = visit_deps n r i (deps_of r i) (st(i := Open), path @ [i])"
| "visit_deps n r i [] (st, path) = Some (None, (st(i := Closed), butlast path))"
| "visit_deps n r i (d # ds) (st, path) =
     (if lookup r d = None then visit_deps n r i ds (st, path)
      else
        (case st d of
           Open \<Rightarrow> Some (Some (cycle_at path d), (st, path))
         | Unvisited \<Rightarrow>
             (case visit n r d (st, path) of
                None \<Rightarrow> None
              | Some (Some c, s') \<Rightarrow> Some (Some c, s')
              | Some (None, s') \<Rightarrow> visit_deps n r i ds s')
         | Closed \<Rightarrow> visit_deps n r i ds (st, path)))"
  by pat_completeness auto
termination
  by (relation "inv_image (less_than <*lex*> less_than)
      (\<lambda>x. case x of Inl (n, r, i, s) \<Rightarrow> (n, 0) | Inr (n, r, i, ds, s) \<Rightarrow> (n, Suc (length ds)))") auto

fun cycle_loop :: "nat \<Rightarrow> registry \<Rightarrow> string list \<Rightarrow> dfs \<Rightarrow> string list option option" where
  "cycle_loop n r [] s = Some None"
| "cycle_loop n r (i # is) s =
     (if fst s i = Unvisited then
        (case visit n r i s of
           None \<Rightarrow> None
         | Some (Some c, s') \<Rightarrow> Some (Some c)
         | Some (None, s') \<Rightarrow> cycle_loop n r is s')
      else cycle_loop n r is s)"

definition findCycle :: "registry \<Rightarrow> string list option option" where
  "findCycle r = cycle_loop (length (keys r)) r (keys r) (\<lambda>_. Unvisited, [])"

section \<open>Registration\<close>

text \<open>The panics of \<open>Register\<close>; the registry is left as it was when it panics.\<close>

definition Register :: "collector \<Rightarrow> registry \<Rightarrow> string + registry" where
  "Register c r =
     (let i = co_id c in
      if i = [] then Inl ''collect: collector registered with an empty ID''
      else if lookup r i \<noteq> None then Inl (''collect: duplicate collector ID '' @ go_quote i)
      else if i \<in> set (co_depends_on c)
        then Inl (''collect: collector '' @ go_quote i @ '' depends on itself'')
      else
        (let r' = put i c r in
         case findCycle r' of
           Some (Some c) \<Rightarrow> Inl (''collect: dependency cycle among collectors: '' @ join '' -> '' c)
         | _ \<Rightarrow> Inr r'))"

fun register_all :: "collector list \<Rightarrow> registry \<Rightarrow> string + registry" where
  "register_all [] r = Inr r"
| "register_all (c # cs) r = (case Register c r of Inl e \<Rightarrow> Inl e | Inr r' \<Rightarrow> register_all cs r')"

section \<open>The dependency order\<close>

text \<open>The two maps \<open>Order\<close> builds, by the nested loops over the sorted IDs and their dependencies.\<close>

type_synonym plan_maps = "(string \<Rightarrow> int) \<times> (string \<Rightarrow> string list)"

definition add_edge :: "string \<Rightarrow> plan_maps \<Rightarrow> string \<Rightarrow> plan_maps" where
  "add_edge i m d = (case m of (ind, dep) \<Rightarrow> (ind(i := ind i + 1), dep(d := dep d @ [i])))"

definition plan_maps :: "registry \<Rightarrow> plan_maps" where
  "plan_maps r = foldl (\<lambda>m i. foldl (add_edge i) m (known_deps r i)) (\<lambda>_. 0, \<lambda>_. []) (reg_IDs r)"

definition release :: "(string \<Rightarrow> int) \<times> string list \<Rightarrow> string \<Rightarrow> (string \<Rightarrow> int) \<times> string list" where
  "release s d =
     (case s of (ind, ready) \<Rightarrow>
        (let ind' = ind(d := ind d - 1) in (ind', if ind' d = 0 then ready @ [d] else ready)))"

fun order_loop ::
  "nat \<Rightarrow> (string \<Rightarrow> string list) \<Rightarrow> (string \<Rightarrow> int) \<Rightarrow> string list \<Rightarrow> string list \<Rightarrow> string list option"
where
  "order_loop n dep ind [] out = Some out"
| "order_loop 0 dep ind (x # xs) out = None"
| "order_loop (Suc n) dep ind (x # xs) out =
     (case sort (x # xs) of
        [] \<Rightarrow> Some out
      | i # rest \<Rightarrow>
          (case foldl release (ind, rest) (sort (dep i)) of
             (ind', ready) \<Rightarrow> order_loop n dep ind' ready (out @ [i])))"

definition Order :: "registry \<Rightarrow> string list option" where
  "Order r =
     (case plan_maps r of (ind, dep) \<Rightarrow>
        order_loop (length (reg_IDs r)) dep ind (filter (\<lambda>i. ind i = 0) (reg_IDs r)) [])"

section \<open>Facts about dependencies\<close>

lemma set_dedupe_loop: "set (dedupe_loop seen xs) = set xs - seen"
  by (induction seen xs rule: dedupe_loop.induct) auto

lemma distinct_dedupe_loop: "distinct (dedupe_loop seen xs)"
  by (induction seen xs rule: dedupe_loop.induct) (auto simp: set_dedupe_loop)

lemma set_dedupe [simp]: "set (dedupe xs) = set xs"
  by (simp add: dedupe_def set_dedupe_loop)

lemma distinct_dedupe [simp]: "distinct (dedupe xs)"
  by (simp add: dedupe_def distinct_dedupe_loop)

lemma distinct_known_deps [simp]: "distinct (known_deps r i)"
  by (simp add: known_deps_def deps_of_def split: option.split)

lemma known_deps_known: "d \<in> set (known_deps r i) \<Longrightarrow> lookup r d \<noteq> None \<and> lookup r i \<noteq> None"
  by (cases "lookup r i") (auto simp: known_deps_def deps_of_def)

lemma set_reg_IDs: "set (reg_IDs r) = {i. lookup r i \<noteq> None}"
  by (simp add: reg_IDs_def gm.set_ks)

definition dep_rel :: "registry \<Rightarrow> (string \<times> string) set" where
  "dep_rel r = {(i, d). d \<in> set (known_deps r i)}"

lemma in_dep_rel: "(i, d) \<in> dep_rel r \<longleftrightarrow> d \<in> set (known_deps r i)"
  by (simp add: dep_rel_def)

lemma finite_dep_rel: "finite (dep_rel r)"
proof -
  have "dep_rel r \<subseteq> set (reg_IDs r) \<times> set (reg_IDs r)"
    using known_deps_known by (auto simp: dep_rel_def set_reg_IDs)
  then show ?thesis by (rule finite_subset) simp
qed

section \<open>The cycle check is right\<close>

definition is_cycle :: "registry \<Rightarrow> string list \<Rightarrow> bool" where
  "is_cycle r c \<longleftrightarrow> 2 \<le> length c \<and> hd c = last c \<and> successively (\<lambda>a b. b \<in> set (known_deps r a)) c"

text \<open>No edge leaves the closed nodes, and the edges among them form no cycle.\<close>

definition closed_ok :: "registry \<Rightarrow> (string \<Rightarrow> visit_state) \<Rightarrow> bool" where
  "closed_ok r st \<longleftrightarrow>
     (\<forall>i d. st i = Closed \<longrightarrow> d \<in> set (known_deps r i) \<longrightarrow> st d = Closed)
     \<and> acyclic {(i, d). st i = Closed \<and> d \<in> set (known_deps r i)}"

definition dfs_inv :: "registry \<Rightarrow> dfs \<Rightarrow> bool" where
  "dfs_inv r s \<longleftrightarrow> (case s of (st, path) \<Rightarrow>
     (\<forall>x. st x = Open \<longleftrightarrow> x \<in> set path) \<and> distinct path
     \<and> successively (\<lambda>a b. b \<in> set (known_deps r a)) path \<and> closed_ok r st)"

definition unvisited :: "registry \<Rightarrow> (string \<Rightarrow> visit_state) \<Rightarrow> string set" where
  "unvisited r st = {x. lookup r x \<noteq> None \<and> st x = Unvisited}"

lemma finite_unvisited [simp]: "finite (unvisited r st)"
proof (rule finite_subset)
  show "unvisited r st \<subseteq> set (reg_IDs r)" by (auto simp: unvisited_def set_reg_IDs)
qed simp

lemma successively_trancl:
  "successively R (x # xs) \<Longrightarrow> xs \<noteq> [] \<Longrightarrow> (x, last xs) \<in> {(a, b). R a b}\<^sup>+"
proof (induction xs arbitrary: x)
  case (Cons y ys)
  then show ?case
    by (cases ys) (auto intro: trancl_into_trancl2)
qed simp

lemma cycle_not_acyclic: "is_cycle r c \<Longrightarrow> \<not> acyclic (dep_rel r)"
proof -
  assume c: "is_cycle r c"
  then obtain x y ys where "c = x # y # ys"
    by (cases c; cases "tl c") (auto simp: is_cycle_def)
  then obtain xs where x: "c = x # xs" "xs \<noteq> []" by simp
  then have "(x, x) \<in> (dep_rel r)\<^sup>+"
    using c successively_trancl[of _ x xs] by (auto simp: is_cycle_def dep_rel_def)
  then show ?thesis by (auto simp: acyclic_def)
qed

lemma successively_dropWhile: "successively R xs \<Longrightarrow> successively R (dropWhile P xs)"
  by (induction xs) (auto simp: successively_Cons)

lemma cycle_at_cycle:
  assumes "successively (\<lambda>a b. b \<in> set (known_deps r a)) path" and "d \<in> set path"
    and "d \<in> set (known_deps r (last path))"
  shows "is_cycle r (cycle_at path d)"
proof -
  let ?t = "dropWhile (\<lambda>s. s \<noteq> d) path"
  have t: "?t \<noteq> []" using assms(2) by (auto simp: dropWhile_eq_Nil_conv)
  have "hd ?t = d" using hd_dropWhile[OF t] by simp
  moreover have "last ?t = last path" using t by (metis last_append takeWhile_dropWhile_id)
  moreover have "successively (\<lambda>a b. b \<in> set (known_deps r a)) ?t"
    by (rule successively_dropWhile[OF assms(1)])
  ultimately show ?thesis
    using t assms(3)
    by (auto simp: is_cycle_def cycle_at_def successively_append_iff hd_append Suc_le_eq)
qed

lemma acyclic_insert_source:
  assumes "acyclic R" and "i \<notin> Range R" and "i \<notin> D"
  shows "acyclic (R \<union> {i} \<times> D)"
proof (rule acyclicI, intro allI notI)
  fix x assume x: "(x, x) \<in> (R \<union> {i} \<times> D)\<^sup>+"
  have range: "(a, b) \<in> (R \<union> {i} \<times> D)\<^sup>+ \<Longrightarrow> b \<noteq> i" for a b
    using assms by (auto elim: tranclE)
  have stay: "(a, b) \<in> (R \<union> {i} \<times> D)\<^sup>+ \<Longrightarrow> a \<noteq> i \<Longrightarrow> (a, b) \<in> R\<^sup>+" for a b
  proof (induction rule: trancl_induct)
    case (base b) then show ?case by auto
  next
    case (step b c)
    then have "b \<noteq> i" using range by blast
    then show ?case using step by (auto intro: trancl_into_trancl)
  qed
  show False using stay[OF x] range[OF x] assms(1) by (auto simp: acyclic_def)
qed

text \<open>Closing a node whose known dependencies are all closed keeps the invariant.\<close>

lemma closed_ok_close:
  assumes "closed_ok r st" and "st i \<noteq> Closed" and "\<forall>d \<in> set (known_deps r i). st d = Closed"
  shows "closed_ok r (st(i := Closed))"
proof -
  let ?R = "{(j, d). st j = Closed \<and> d \<in> set (known_deps r j)}"
  have "{(j, d). (st(i := Closed)) j = Closed \<and> d \<in> set (known_deps r j)} = ?R \<union> {i} \<times> set (known_deps r i)"
    using assms(2) by (auto split: if_splits)
  moreover have "acyclic (?R \<union> {i} \<times> set (known_deps r i))"
    by (rule acyclic_insert_source) (use assms in \<open>auto simp: closed_ok_def Range_iff\<close>)
  ultimately show ?thesis
    using assms by (auto simp: closed_ok_def)
qed

text \<open>What a call leaves behind: it finds a real cycle, or it closes its node and restores the path.\<close>

definition dfs_post :: "registry \<Rightarrow> string \<Rightarrow> dfs \<Rightarrow> string list \<Rightarrow> (string list option \<times> dfs) option \<Rightarrow> bool" where
  "dfs_post r i s p' res \<longleftrightarrow>
     (case res of
        None \<Rightarrow> False
      | Some (Some c, _) \<Rightarrow> is_cycle r c
      | Some (None, st', path') \<Rightarrow>
          path' = p' \<and> dfs_inv r (st', path') \<and> st' i = Closed
          \<and> (\<forall>x. fst s x = Closed \<longrightarrow> st' x = Closed) \<and> unvisited r st' \<subseteq> unvisited r (fst s))"

lemma dfs_open:
  assumes "dfs_inv r (st, path)" "st i = Unvisited" "path = [] \<or> i \<in> set (known_deps r (last path))"
  shows "dfs_inv r (st(i := Open), path @ [i])"
proof -
  have "closed_ok r (st(i := Open))"
  proof -
    have "{(j, d). (st(i := Open)) j = Closed \<and> d \<in> set (known_deps r j)}
        = {(j, d). st j = Closed \<and> d \<in> set (known_deps r j)}"
      using assms(2) by (auto split: if_splits)
    then show ?thesis using assms(1,2) by (auto simp: dfs_inv_def closed_ok_def)
  qed
  moreover have "i \<notin> set path"
  proof
    assume "i \<in> set path"
    then have "st i = Open" using assms(1) by (simp add: dfs_inv_def)
    then show False using assms(2) by simp
  qed
  ultimately show ?thesis
    using assms by (auto simp: dfs_inv_def successively_append_iff)
qed

lemma dfs_close:
  assumes "dfs_inv r (st, p @ [i])" "\<forall>d \<in> set (known_deps r i). st d = Closed"
  shows "dfs_inv r (st(i := Closed), p)"
proof -
  have i: "st i = Open" "i \<notin> set p" using assms(1) by (auto simp: dfs_inv_def)
  then have "closed_ok r (st(i := Closed))"
    using closed_ok_close[of r st i] assms by (simp add: dfs_inv_def)
  then show ?thesis
    using assms(1) i by (auto simp: dfs_inv_def successively_append_iff)
qed

lemma card_unvisited_open:
  "i \<in> unvisited r st \<Longrightarrow> card (unvisited r (st(i := Open))) < card (unvisited r st)"
  by (intro psubset_card_mono finite_unvisited) (auto simp: unvisited_def)

lemma visit_spec:
  "dfs_inv r (st, path) \<Longrightarrow> st i = Unvisited \<Longrightarrow> lookup r i \<noteq> None \<Longrightarrow>
   path = [] \<or> i \<in> set (known_deps r (last path)) \<Longrightarrow> card (unvisited r st) \<le> n \<Longrightarrow>
     dfs_post r i (st, path) path (visit n r i (st, path))"
and visit_deps_spec:
  "dfs_inv r (st, p @ [i]) \<Longrightarrow> set ds \<subseteq> set (deps_of r i) \<Longrightarrow>
   (\<forall>d \<in> set (known_deps r i) - set ds. st d = Closed) \<Longrightarrow> card (unvisited r st) \<le> n \<Longrightarrow>
     dfs_post r i (st, p @ [i]) p (visit_deps n r i ds (st, p @ [i]))"
proof (induction n r i "(st, path)" and n r i ds "(st, p @ [i])" arbitrary: st path and st p
    rule: visit_visit_deps.induct)
  case (1 r i st path)
  then have "i \<in> unvisited r st" by (simp add: unvisited_def)
  then have "card (unvisited r st) \<noteq> 0" using finite_unvisited[of r st] by auto
  with "1.prems" show ?case by simp
next
  case (2 n r i st path)
  have i: "i \<in> unvisited r st" using "2.prems" by (simp add: unvisited_def)
  have "card (unvisited r (st(i := Open))) \<le> n"
    using card_unvisited_open[OF i] "2.prems"(5) by linarith
  moreover have "\<forall>d \<in> set (known_deps r i) - set (deps_of r i). (st(i := Open)) d = Closed"
    by (auto simp: known_deps_def)
  ultimately have "dfs_post r i (st(i := Open), path @ [i]) path
      (visit_deps n r i (deps_of r i) (st(i := Open), path @ [i]))"
    using "2.hyps"[OF dfs_open] "2.prems" by blast
  then show ?case
    using "2.prems"(2) by (auto simp: dfs_post_def unvisited_def split: option.splits if_splits)
next
  case (3 n r i st p)
  then have "dfs_inv r (st(i := Closed), p)" by (intro dfs_close) auto
  then show ?case by (auto simp: dfs_post_def unvisited_def)
next
  case (4 n r i d ds st p)
  show ?case
  proof (cases "lookup r d = None")
    case True
    then have "d \<notin> set (known_deps r i)" by (simp add: known_deps_def)
    then show ?thesis using 4 True by auto
  next
    case known: False
    then have d: "d \<in> set (known_deps r i)" using "4.prems"(2) by (auto simp: known_deps_def)
    show ?thesis
    proof (cases "st d")
      case Open
      then have "d \<in> set (p @ [i])" "successively (\<lambda>a b. b \<in> set (known_deps r a)) (p @ [i])"
        using "4.prems"(1) by (auto simp: dfs_inv_def)
      then show ?thesis
        using known Open d cycle_at_cycle[of r "p @ [i]" d]
        by (simp add: dfs_post_def del: not_None_eq)
    next
      case Closed
      then show ?thesis using 4 known by auto
    next
      case Unvisited
      have v: "dfs_post r d (st, p @ [i]) (p @ [i]) (visit n r d (st, p @ [i]))"
        by (rule "4.hyps"(2)[OF known Unvisited]) (use "4.prems" known Unvisited d in auto)
      then obtain c s' where c: "visit n r d (st, p @ [i]) = Some (c, s')"
        by (auto simp: dfs_post_def split: option.splits)
      show ?thesis
      proof (cases c)
        case (Some cyc)
        then show ?thesis using v c known Unvisited by (auto simp: dfs_post_def)
      next
        case None
        obtain st' where s': "s' = (st', p @ [i])" and inv: "dfs_inv r (st', p @ [i])" and dc: "st' d = Closed"
          and mono: "\<forall>x. st x = Closed \<longrightarrow> st' x = Closed" and sub: "unvisited r st' \<subseteq> unvisited r st"
          using v c None by (cases s') (auto simp: dfs_post_def)
        have "card (unvisited r st') \<le> n"
          using card_mono[OF finite_unvisited sub] "4.prems"(4) by linarith
        then have "dfs_post r i (st', p @ [i]) p (visit_deps n r i ds (st', p @ [i]))"
          using "4.hyps"(3)[OF known Unvisited c] None s' inv dc mono "4.prems" by fastforce
        then show ?thesis
          using known Unvisited c None s' mono sub
          by (auto simp: dfs_post_def split: option.splits)
      qed
    qed
  qed
qed

lemma cycle_loop_spec:
  "dfs_inv r (st, []) \<Longrightarrow> set is \<subseteq> set (reg_IDs r) \<Longrightarrow> card (unvisited r st) \<le> n \<Longrightarrow>
   (\<forall>i \<in> set (reg_IDs r) - set is. st i = Closed) \<Longrightarrow>
     (case cycle_loop n r is (st, []) of
        None \<Rightarrow> False | Some (Some c) \<Rightarrow> is_cycle r c | Some None \<Rightarrow> acyclic (dep_rel r))"
proof (induction "is" arbitrary: st)
  case Nil
  have "dep_rel r \<subseteq> {(i, d). st i = Closed \<and> d \<in> set (known_deps r i)}"
    using Nil.prems(4) known_deps_known by (auto simp: dep_rel_def set_reg_IDs simp del: not_None_eq)
  moreover have "acyclic {(i, d). st i = Closed \<and> d \<in> set (known_deps r i)}"
    using Nil.prems(1) by (simp add: dfs_inv_def closed_ok_def)
  ultimately show ?case by (auto intro: acyclic_subset)
next
  case (Cons i "is")
  show ?case
  proof (cases "st i = Unvisited")
    case True
    have "lookup r i \<noteq> None" using Cons.prems(2) by (simp add: set_reg_IDs)
    then have v: "dfs_post r i (st, []) [] (visit n r i (st, []))"
      using visit_spec[OF Cons.prems(1) True] Cons.prems(3) by simp
    then obtain c s' where c: "visit n r i (st, []) = Some (c, s')"
      by (auto simp: dfs_post_def split: option.splits)
    show ?thesis
    proof (cases c)
      case (Some cyc)
      then show ?thesis using v c True by (simp add: dfs_post_def)
    next
      case None
      obtain st' where s': "s' = (st', [])" and inv: "dfs_inv r (st', [])" and ic: "st' i = Closed"
        and mono: "\<forall>x. st x = Closed \<longrightarrow> st' x = Closed" and sub: "unvisited r st' \<subseteq> unvisited r st"
        using v c None by (cases s') (auto simp: dfs_post_def)
      have "card (unvisited r st') \<le> n"
        using card_mono[OF finite_unvisited sub] Cons.prems(3) by linarith
      then show ?thesis
        using Cons.IH[OF inv] Cons.prems True c None s' ic mono by auto
    qed
  next
    case False
    then have "st i = Closed"
      using Cons.prems(1) by (cases "st i") (auto simp: dfs_inv_def)
    then show ?thesis using Cons False by auto
  qed
qed

text \<open>The check never runs out of fuel, reports only real cycles, and misses none.\<close>

lemma findCycle_spec:
  assumes "wf_map r"
  shows "\<exists>c. findCycle r = Some c"
    and "findCycle r = Some (Some c) \<Longrightarrow> is_cycle r c"
    and "findCycle r = Some None \<longleftrightarrow> acyclic (dep_rel r)"
proof -
  have inv: "dfs_inv r (\<lambda>_. Unvisited, [])"
    by (simp add: dfs_inv_def closed_ok_def acyclic_def)
  have "unvisited r (\<lambda>_. Unvisited) = set (keys r)"
    by (auto simp: unvisited_def gm.set_ks)
  then have card: "card (unvisited r (\<lambda>_. Unvisited)) \<le> length (keys r)"
    by (simp add: card_length)
  have spec: "case findCycle r of None \<Rightarrow> False | Some (Some c) \<Rightarrow> is_cycle r c | Some None \<Rightarrow> acyclic (dep_rel r)"
    unfolding findCycle_def using cycle_loop_spec[OF inv _ card, of "keys r"] by (simp add: reg_IDs_def)
  then show "\<exists>c. findCycle r = Some c" by (auto split: option.splits)
  show "findCycle r = Some (Some c) \<Longrightarrow> is_cycle r c" using spec by simp
  show "findCycle r = Some None \<longleftrightarrow> acyclic (dep_rel r)"
    using spec cycle_not_acyclic[of r] by (auto split: option.splits)
qed

section \<open>Registration keeps the registry usable\<close>

definition wf_registry :: "registry \<Rightarrow> bool" where
  "wf_registry r \<longleftrightarrow> wf_map r \<and> acyclic (dep_rel r)
     \<and> (\<forall>i c. lookup r i = Some c \<longrightarrow> co_id c = i \<and> i \<noteq> [])"

lemma wf_registry_empty [simp]: "wf_registry []"
proof -
  have "dep_rel [] = {}" by (auto simp: dep_rel_def known_deps_def deps_of_def)
  then show ?thesis by (simp add: wf_registry_def acyclic_def)
qed

lemma Register_Inr:
  "wf_registry r \<Longrightarrow> Register c r = Inr r' \<longleftrightarrow>
     co_id c \<noteq> [] \<and> lookup r (co_id c) = None \<and> co_id c \<notin> set (co_depends_on c)
     \<and> acyclic (dep_rel (put (co_id c) c r)) \<and> r' = put (co_id c) c r"
proof -
  assume w: "wf_registry r"
  then have "wf_map (put (co_id c) c r)" by (simp add: wf_registry_def)
  note spec = findCycle_spec[OF this]
  obtain x where x: "findCycle (put (co_id c) c r) = Some x" using spec(1) by blast
  show ?thesis
    using spec(3) x by (cases x) (auto simp: Register_def Let_def)
qed

lemma Register_wf: "wf_registry r \<Longrightarrow> Register c r = Inr r' \<Longrightarrow> wf_registry r'"
  by (simp add: Register_Inr) (auto simp: wf_registry_def split: if_splits)

lemma register_all_wf: "register_all cs r = Inr r' \<Longrightarrow> wf_registry r \<Longrightarrow> wf_registry r'"
  by (induction cs r rule: register_all.induct) (auto split: sum.splits dest: Register_wf)

section \<open>The dependency order is topological\<close>

definition topological :: "registry \<Rightarrow> string list \<Rightarrow> bool" where
  "topological r xs \<longleftrightarrow> distinct xs \<and> set xs = set (reg_IDs r)
     \<and> (\<forall>k < length xs. set (known_deps r (xs ! k)) \<subseteq> set (take k xs))"

lemma add_edges:
  "distinct ds \<Longrightarrow> foldl (add_edge i) (ind, dep) ds =
     (ind(i := ind i + int (length ds)), \<lambda>d. dep d @ (if d \<in> set ds then [i] else []))"
  by (induction ds arbitrary: ind dep) (auto simp: add_edge_def fun_eq_iff)

lemma plan_loop:
  "distinct is \<Longrightarrow> foldl (\<lambda>m i. foldl (add_edge i) m (known_deps r i)) (ind, dep) is =
     (\<lambda>i. ind i + (if i \<in> set is then int (length (known_deps r i)) else 0),
      \<lambda>d. dep d @ filter (\<lambda>i. d \<in> set (known_deps r i)) is)"
  by (induction "is" arbitrary: ind dep) (auto simp: add_edges fun_eq_iff)

lemma plan_maps_eq:
  assumes "wf_map r"
  shows "plan_maps r =
     (\<lambda>i. int (length (known_deps r i)), \<lambda>d. filter (\<lambda>i. d \<in> set (known_deps r i)) (reg_IDs r))"
proof -
  have "distinct (reg_IDs r)" using assms by (simp add: reg_IDs_def gm.distinct_ks)
  moreover have "i \<notin> set (reg_IDs r) \<Longrightarrow> known_deps r i = []" for i
    by (simp add: set_reg_IDs known_deps_def deps_of_def)
  ultimately show ?thesis by (auto simp: plan_maps_def plan_loop fun_eq_iff)
qed

lemma release_all:
  "distinct ds \<Longrightarrow> foldl release (ind, ready) ds =
     (\<lambda>d. ind d - (if d \<in> set ds then 1 else 0), ready @ filter (\<lambda>d. ind d = 1) ds)"
proof (induction ds arbitrary: ind ready)
  case (Cons d ds)
  have "filter (\<lambda>e. (ind(d := ind d - 1)) e = 1) ds = filter (\<lambda>e. ind e = 1) ds"
    using Cons.prems by (intro filter_cong) auto
  then show ?case using Cons by (auto simp: release_def fun_eq_iff)
qed (simp add: fun_eq_iff)

definition order_inv :: "registry \<Rightarrow> (string \<Rightarrow> int) \<Rightarrow> string list \<Rightarrow> string list \<Rightarrow> bool" where
  "order_inv r ind ready out \<longleftrightarrow>
     distinct (out @ ready) \<and> set (out @ ready) \<subseteq> set (reg_IDs r)
     \<and> (\<forall>i. ind i = int (length (filter (\<lambda>d. d \<notin> set out) (known_deps r i))))
     \<and> (\<forall>i \<in> set (reg_IDs r). ind i = 0 \<longleftrightarrow> i \<in> set (out @ ready))
     \<and> (\<forall>k < length out. set (known_deps r (out ! k)) \<subseteq> set (take k out))"

lemma length_filter_remove:
  "distinct ds \<Longrightarrow> i \<notin> A \<Longrightarrow>
     int (length (filter (\<lambda>d. d \<notin> insert i A) ds))
       = int (length (filter (\<lambda>d. d \<notin> A) ds)) - (if i \<in> set ds then 1 else 0)"
  by (induction ds) auto

lemma order_inv_step:
  assumes inv: "order_inv r ind (x # xs) out" and s: "sort (x # xs) = i # rest"
    and ids: "distinct (reg_IDs r)"
    and dep: "dep = (\<lambda>d. filter (\<lambda>i. d \<in> set (known_deps r i)) (reg_IDs r))"
    and rel: "foldl release (ind, rest) (sort (dep i)) = (ind', ready)"
  shows "order_inv r ind' ready (out @ [i])"
proof -
  have d: "distinct (out @ x # xs)" and sub: "set (out @ x # xs) \<subseteq> set (reg_IDs r)"
    and cnt: "\<And>i. ind i = int (length (filter (\<lambda>d. d \<notin> set out) (known_deps r i)))"
    and zero: "\<And>i. i \<in> set (reg_IDs r) \<Longrightarrow> ind i = 0 \<longleftrightarrow> i \<in> set (out @ x # xs)"
    and topo: "\<And>k. k < length out \<Longrightarrow> set (known_deps r (out ! k)) \<subseteq> set (take k out)"
    using inv unfolding order_inv_def by blast+
  have set: "set (x # xs) = set (i # rest)" "distinct (i # rest)"
    using d s set_sort[of "\<lambda>k. k" "x # xs"] distinct_sort[of "\<lambda>k. k" "x # xs"]
    by (metis, auto simp del: sort_key_simps)
  have mem: "e \<in> set (dep i) \<longleftrightarrow> i \<in> set (known_deps r e)" for e
    using known_deps_known[of i r e] by (auto simp: dep set_reg_IDs)
  have dist: "distinct (sort (dep i))" using ids by (simp add: dep)
  have ind': "ind' = (\<lambda>e. ind e - (if e \<in> set (dep i) then 1 else 0))"
    and ready: "ready = rest @ filter (\<lambda>e. ind e = 1) (sort (dep i))"
    using rel release_all[OF dist, of ind rest] by auto
  have all: "set (out @ x # xs) = set (out @ i # rest)" using set(1) by auto
  have i: "i \<notin> set out" "i \<in> set (reg_IDs r)" "ind i = 0"
  proof -
    have m: "i \<in> set (x # xs)" "i \<in> set (out @ x # xs)" using set(1) by simp_all
    then show "i \<notin> set out" using d by (meson disjoint_iff distinct_append)
    show ids: "i \<in> set (reg_IDs r)" using m sub by blast
    show "ind i = 0" using zero[OF ids] m by blast
  qed
  have count: "ind' e = int (length (filter (\<lambda>d. d \<notin> set (out @ [i])) (known_deps r e)))" for e
    using length_filter_remove[OF distinct_known_deps i(1), of r e]
    by (simp add: ind' cnt[of e] mem)
  have old: "ind e = 1 \<Longrightarrow> e \<notin> set (out @ i # rest)" for e
  proof
    assume e: "ind e = 1" "e \<in> set (out @ i # rest)"
    then have "e \<in> set (out @ x # xs)" using all by blast
    then show False using zero[of e] sub e(1) by auto
  qed
  have "distinct (out @ i # rest)" using d set by (metis distinct_append)
  then have "distinct (out @ [i] @ ready)"
    using dist old by (auto simp: ready)
  moreover have "set (out @ [i] @ ready) \<subseteq> set (reg_IDs r)"
    using sub all by (auto simp: ready dep)
  moreover have "ind' j = 0 \<longleftrightarrow> j \<in> set (out @ [i] @ ready)" if j: "j \<in> set (reg_IDs r)" for j
  proof (cases "ind j = 0")
    case True
    then have "\<forall>e \<in> set (known_deps r j). e \<in> set out" using cnt[of j] by (simp add: filter_empty_conv)
    then have "j \<notin> set (dep i)" using i(1) mem by auto
    moreover have "j \<in> set (out @ i # rest)" using zero[OF j] True all by blast
    ultimately show ?thesis using True by (auto simp: ind' ready)
  next
    case False
    then have "j \<notin> set (out @ i # rest)" using zero[OF j] all by blast
    then show ?thesis using False by (auto simp: ind' ready)
  qed
  moreover have "set (known_deps r ((out @ [i]) ! k)) \<subseteq> set (take k (out @ [i]))" if "k < length (out @ [i])" for k
  proof (cases "k < length out")
    case True
    then show ?thesis using topo by (simp add: nth_append)
  next
    case False
    then have "k = length out" using that by simp
    moreover have "\<forall>e \<in> set (known_deps r i). e \<in> set out" using cnt[of i] i(3) by (simp add: filter_empty_conv)
    ultimately show ?thesis by auto
  qed
  ultimately show ?thesis using count by (simp add: order_inv_def)
qed

lemma order_inv_end:
  assumes "acyclic (dep_rel r)" and "order_inv r ind [] out"
  shows "topological r out"
proof -
  have wf: "wf ((dep_rel r)\<inverse>)"
    using assms(1) finite_dep_rel by (simp add: finite_acyclic_wf_converse)
  have "i \<in> set (reg_IDs r) \<longrightarrow> i \<in> set out" for i
  proof (induction i rule: wf_induct_rule[OF wf])
    case (1 i)
    show ?case
    proof
      assume i: "i \<in> set (reg_IDs r)"
      have "\<forall>d \<in> set (known_deps r i). d \<in> set out"
        using 1 known_deps_known[of _ r i] by (simp add: in_dep_rel set_reg_IDs)
      then have "filter (\<lambda>d. d \<notin> set out) (known_deps r i) = []" by (simp add: filter_empty_conv)
      then show "i \<in> set out" using assms(2) i by (auto simp: order_inv_def)
    qed
  qed
  then show ?thesis using assms(2) by (auto simp: order_inv_def topological_def)
qed

lemma order_loop_topological:
  assumes "acyclic (dep_rel r)" and ids: "distinct (reg_IDs r)"
  shows "dep = (\<lambda>d. filter (\<lambda>i. d \<in> set (known_deps r i)) (reg_IDs r)) \<Longrightarrow> order_inv r ind ready out \<Longrightarrow> length (reg_IDs r) \<le> n + length out \<Longrightarrow>
     \<exists>xs. order_loop n dep ind ready out = Some xs \<and> topological r xs"
proof (induction n dep ind ready out rule: order_loop.induct)
  case (1 n dep ind out)
  then show ?case using order_inv_end[OF assms(1)] by auto
next
  case (2 dep ind x xs out)
  then have "distinct (out @ x # xs)" "set (out @ x # xs) \<subseteq> set (reg_IDs r)"
    by (simp_all add: order_inv_def)
  then have "length (out @ x # xs) \<le> card (set (reg_IDs r))"
    by (metis List.finite_set card_mono distinct_card)
  then show ?case using "2.prems"(3) card_length[of "reg_IDs r"] by simp
next
  case (3 n dep' ind x xs out)
  show ?case
  proof (cases "sort (x # xs)")
    case Nil
    then show ?thesis by (metis list.distinct(1) set_empty set_sort)
  next
    case (Cons i rest)
    obtain ind' ready where rel: "foldl release (ind, rest) (sort (dep' i)) = (ind', ready)"
      by fastforce
    show ?thesis
      using "3.IH"[OF Cons rel[symmetric]] order_inv_step[OF "3.prems"(2) Cons ids "3.prems"(1) rel] "3.prems" Cons rel
      by simp
  qed
qed

lemma Order_topological: "wf_registry r \<Longrightarrow> \<exists>xs. Order r = Some xs \<and> topological r xs"
proof -
  assume w: "wf_registry r"
  then have m: "wf_map r" "acyclic (dep_rel r)" by (simp_all add: wf_registry_def)
  have ids: "distinct (reg_IDs r)" using m by (simp add: reg_IDs_def gm.distinct_ks)
  have "order_inv r (\<lambda>i. int (length (known_deps r i)))
      (filter (\<lambda>i. length (known_deps r i) = 0) (reg_IDs r)) []"
    using ids by (auto simp: order_inv_def)
  from order_loop_topological[OF m(2) ids refl this, of "length (reg_IDs r)"]
  show ?thesis by (simp add: Order_def plan_maps_eq[OF m(1)])
qed

section \<open>What the runner relies on\<close>

text \<open>
  The interface between planning and running: known nodes, dependencies that stay among them, and
  no infinite chain of dependencies. Whatever part of the work is done, something left to do has
  everything it depends on done.
\<close>

locale dependency_plan =
  fixes ids :: "'r \<Rightarrow> 'k list"
    and deps :: "'r \<Rightarrow> 'k \<Rightarrow> 'k list"
    and ok :: "'r \<Rightarrow> bool"
  assumes deps_known: "ok r \<Longrightarrow> d \<in> set (deps r i) \<Longrightarrow> d \<in> set (ids r)"
    and deps_wf: "ok r \<Longrightarrow> wf {(d, i). d \<in> set (deps r i)}"
begin

lemma ready_node:
  assumes "ok r" and "i \<in> set (ids r)" and "\<not> finished i"
  shows "\<exists>j \<in> set (ids r). \<not> finished j \<and> (\<forall>d \<in> set (deps r j). finished d)"
proof -
  let ?Q = "{j \<in> set (ids r). \<not> finished j}"
  have "i \<in> ?Q" using assms by simp
  from wfE_min[OF deps_wf[OF assms(1)] this] obtain j
    where j: "j \<in> ?Q" "\<And>d. (d, j) \<in> {(d, i). d \<in> set (deps r i)} \<Longrightarrow> d \<notin> ?Q" by blast
  then have "\<forall>d \<in> set (deps r j). finished d" using deps_known[OF assms(1)] by auto
  then show ?thesis using j(1) by blast
qed

end

interpretation rg: dependency_plan reg_IDs known_deps wf_registry
proof
  show "d \<in> set (reg_IDs r)" if "wf_registry r" "d \<in> set (known_deps r i)" for r d i
    using known_deps_known[OF that(2)] by (simp add: set_reg_IDs)
  show "wf {(d, i). d \<in> set (known_deps r i)}" if "wf_registry r" for r
  proof -
    have "{(d, i). d \<in> set (known_deps r i)} = (dep_rel r)\<inverse>" by (auto simp: dep_rel_def)
    moreover have "wf ((dep_rel r)\<inverse>)"
      using that finite_dep_rel by (simp add: wf_registry_def finite_acyclic_wf_converse)
    ultimately show ?thesis by simp
  qed
qed

lemma lookup_MissingDependencies:
  "lookup (MissingDependencies r) i = (if missing_of r i = [] then None else Some (missing_of r i))"
proof -
  have "lookup (foldl (\<lambda>m i. if missing_of r i \<noteq> [] then put i (missing_of r i) m else m) m is) i =
      (if i \<in> set is \<and> missing_of r i \<noteq> [] then Some (missing_of r i) else lookup m i)" for m "is"
    by (induction "is" arbitrary: m) auto
  moreover have "i \<notin> set (reg_IDs r) \<Longrightarrow> missing_of r i = []"
    by (simp add: set_reg_IDs missing_of_def deps_of_def)
  ultimately show ?thesis by (auto simp: MissingDependencies_def)
qed

section \<open>Properties\<close>

definition sample_collector :: "string \<Rightarrow> string list \<Rightarrow> collector" where
  "sample_collector i ds = \<lparr>co_id = i, co_produces = [i @ ''.fact''], co_depends_on = ds,
     co_requires = CapNone, co_cost = Cheap, co_timeout = 0\<rparr>"

text \<open>
  C16: the cycle check is exact. On every registry it returns, within its fuel; the path it reports is a
  real dependency cycle, and it reports none exactly when the registered collectors have no
  dependency cycle.
\<close>

theorem cycle_check_is_exact:
  assumes "wf_map r"
  shows "case findCycle r of
       None \<Rightarrow> False
     | Some None \<Rightarrow> acyclic (dep_rel r)
     | Some (Some c) \<Rightarrow> is_cycle r c \<and> \<not> acyclic (dep_rel r)"
proof -
  note spec = findCycle_spec[OF assms]
  obtain x where "findCycle r = Some x" using spec(1) by blast
  then show ?thesis using spec(2,3) cycle_not_acyclic[of r] by (cases x) auto
qed

theorem cycle_check_is_exact_witness:
  "\<not> acyclic (dep_rel [(''a'', sample_collector ''a'' [''b'']), (''b'', sample_collector ''b'' [''a''])])"
proof -
  let ?r = "[(''a'', sample_collector ''a'' [''b'']), (''b'', sample_collector ''b'' [''a''])]"
  have "findCycle ?r = Some (Some [''a'', ''b'', ''a''])" by code_simp
  moreover have "wf_map ?r" by (simp add: wf_map_def)
  ultimately show ?thesis using cycle_check_is_exact[of ?r] by simp
qed

text \<open>
  C21: registration. Starting from an empty registry, \<open>Register\<close> refuses exactly the collectors with
  an empty or taken ID, a dependency on themselves, or a dependency that closes a cycle; whatever
  sequence it accepted, the registry has no cycle and files each collector under its own ID.
\<close>

theorem registration_keeps_the_graph_usable:
  assumes "register_all cs [] = Inr r"
  shows "wf_registry r
     \<and> (case Register c r of
          Inl _ \<Rightarrow> co_id c = [] \<or> lookup r (co_id c) \<noteq> None \<or> co_id c \<in> set (co_depends_on c)
                    \<or> \<not> acyclic (dep_rel (put (co_id c) c r))
        | Inr r' \<Rightarrow> co_id c \<noteq> [] \<and> lookup r (co_id c) = None \<and> co_id c \<notin> set (co_depends_on c)
                    \<and> r' = put (co_id c) c r \<and> wf_registry r')"
proof -
  have w: "wf_registry r" by (rule register_all_wf[OF assms wf_registry_empty])
  show ?thesis
  proof (cases "Register c r")
    case (Inl e)
    then have "Register c r \<noteq> Inr (put (co_id c) c r)" by simp
    then have "\<not> (co_id c \<noteq> [] \<and> lookup r (co_id c) = None \<and> co_id c \<notin> set (co_depends_on c)
        \<and> acyclic (dep_rel (put (co_id c) c r)))"
      unfolding Register_Inr[OF w] by blast
    then show ?thesis using w Inl by simp
  next
    case (Inr r')
    then show ?thesis using w Register_wf[OF w Inr] Register_Inr[OF w, of c r'] by simp
  qed
qed

theorem registration_keeps_the_graph_usable_witness:
  "\<exists>r e. register_all [sample_collector ''b'' [''a'']] [] = Inr r
     \<and> Register (sample_collector ''a'' [''b'']) r = Inl e
     \<and> \<not> acyclic (dep_rel (put ''a'' (sample_collector ''a'' [''b'']) r))"
proof -
  let ?r = "[(''b'', sample_collector ''b'' [''a''])]"
  have a: "register_all [sample_collector ''b'' [''a'']] [] = Inr ?r" by code_simp
  have b: "Register (sample_collector ''a'' [''b'']) ?r =
      Inl ''collect: dependency cycle among collectors: a -> b -> a''" by code_simp
  have "lookup ?r ''a'' = None" by (simp add: lookup_def)
  then show ?thesis
    using registration_keeps_the_graph_usable[OF a, of "sample_collector ''a'' [''b'']"] a b
    by (simp add: sample_collector_def)
qed

text \<open>
  C7: the plan. For every registry that registration can build, \<open>Order\<close> returns, and its result lists
  each registered collector once and after everything it depends on.
\<close>

theorem order_is_topological:
  assumes "register_all cs [] = Inr r"
  shows "\<exists>xs. Order r = Some xs \<and> distinct xs \<and> set xs = set (reg_IDs r)
     \<and> (\<forall>k < length xs. set (known_deps r (xs ! k)) \<subseteq> set (take k xs))"
  using Order_topological[OF register_all_wf[OF assms wf_registry_empty]]
  by (simp add: topological_def)

theorem order_is_topological_witness:
  "\<exists>xs. Order [(''b'', sample_collector ''b'' [''a'']), (''a'', sample_collector ''a'' [])] = Some xs
     \<and> set (known_deps [(''b'', sample_collector ''b'' [''a'']), (''a'', sample_collector ''a'' [])] (xs ! 0)) = {}
     \<and> xs \<noteq> []"
proof -
  let ?r = "[(''b'', sample_collector ''b'' [''a'']), (''a'', sample_collector ''a'' [])]"
  have "register_all [sample_collector ''b'' [''a''], sample_collector ''a'' []] [] = Inr ?r" by code_simp
  from order_is_topological[OF this] obtain xs where xs: "Order ?r = Some xs" "set xs = set (reg_IDs ?r)"
    "\<forall>k < length xs. set (known_deps ?r (xs ! k)) \<subseteq> set (take k xs)" by blast
  have "''a'' \<in> set xs" unfolding xs(2) by (simp add: set_reg_IDs lookup_def)
  then have ne: "xs \<noteq> []" by auto
  then have "set (known_deps ?r (xs ! 0)) \<subseteq> set (take 0 xs)" using xs(3)[rule_format, of 0] by simp
  then show ?thesis using xs(1) ne by simp
qed

end
