(* ===== verification/Runner.thy ===== *)
theory Runner
  imports Registry
begin

text \<open>
  internal/collect/runner.go: the concurrent execution of a registry. Each collector's goroutine is a
  phase; a step is one communication (a channel closing, the slot, a context ending, a result
  arriving) or the local computation up to the next one. A label names the goroutine that moves and
  carries what its environment supplies: the result of \<open>Collect\<close>, or the reason the scan's context
  ended. Where a select has several ready cases, several labels are enabled. Writes to the shared
  fact set are under the mutex in the code and atomic here, as are the merge of a result and the
  record of its error, which the code does one after the other, and the deferred functions of one
  return. Durations are not modelled; a budget running out is a label of its own. Run's refusal of a
  nil registry, system or fact set has no counterpart: there are none here.
\<close>

section \<open>State\<close>

datatype status = CollectorOK | CollectorFailed | CollectorSkipped | CollectorTimedOut

datatype event = Started string | Done string status

text \<open>An error \<open>Collect\<close> returns: one that carries a fact error, or any other.\<close>

datatype collect_error = FactError fact_error | OtherError string

datatype 'v collect_result = Panicked string | Returned "collect_error option" "'v fact_set"

text \<open>
  \<open>WaitDeps\<close> holds what is left of the loop over \<open>DependsOn\<close>; \<open>Entering\<close> is the call of \<open>runOne\<close>
  before its first test; \<open>Running\<close> holds what is in the buffered result channel; \<open>Leaving\<close> is the
  return, with the deferred functions still to run.
\<close>

datatype 'v phase =
    NotBegun
  | WaitDeps "string list"
  | WaitSlot
  | Entering
  | Running "'v collect_result option"
  | Leaving status
  | Finished

record 'v rstate =
  rs_phase :: "string \<Rightarrow> 'v phase"
  rs_slot :: "string option"
  rs_ctx :: "string option"
  rs_expired :: "string \<Rightarrow> bool"
  rs_live :: "string \<Rightarrow> bool"
  rs_facts :: "'v fact_set"
  rs_events :: "event list"

record config =
  cf_reg :: registry
  cf_euid :: int
  cf_timeout :: int

section \<open>Recording\<close>

definition blame :: "collector \<Rightarrow> fact_id list" where
  "blame c = (if co_produces c \<noteq> [] then co_produces c else [co_id c])"

definition record_error :: "collector \<Rightarrow> error_kind \<Rightarrow> string \<Rightarrow> 'v fact_set \<Rightarrow> 'v fact_set" where
  "record_error c kind msg fs =
     foldl (\<lambda>s e. PutError e s) fs
       (map (\<lambda>i. \<lparr>fe_fact = i, fe_kind = kind, fe_msg = msg, fe_path = []\<rparr>) (blame c))"

definition merge_into :: "'v fact_set \<Rightarrow> 'v fact_set \<Rightarrow> 'v fact_set" where
  "merge_into dst src =
     foldl (\<lambda>s e. PutError e s)
       (foldl (\<lambda>s f. Put f s) dst
         (map (\<lambda>i. the (lookup (facts src) i)) (filter (\<lambda>i. Err src i = None) (IDs src))))
       (Errors src)"

definition record_collector_error :: "collector \<Rightarrow> collect_error \<Rightarrow> 'v fact_set \<Rightarrow> 'v fact_set" where
  "record_collector_error c e fs =
     (case e of
        FactError fe \<Rightarrow> PutError fe fs
      | OtherError m \<Rightarrow> record_error c ErrInternal
          (''collector '' @ co_id c @ '' returned an unclassified error: '' @ m) fs)"

definition canceled :: string where "canceled = ''context canceled''"
definition deadline_exceeded :: string where "deadline_exceeded = ''context deadline exceeded''"

definition cancelled_msg :: "collector \<Rightarrow> string \<Rightarrow> string \<Rightarrow> string" where
  "cancelled_msg c err waiting_for =
     ''collector '' @ co_id c @ '' did not run: the scan ended while '' @ waiting_for @ '' ('' @ err @ '')''"

definition timed_out_msg :: "collector \<Rightarrow> string option \<Rightarrow> string option \<Rightarrow> string" where
  "timed_out_msg c cctx parent =
     (case parent of
        Some e \<Rightarrow> ''collector '' @ co_id c @ '' stopped: the scan was cancelled ('' @ e @ '')''
      | None \<Rightarrow>
          (if cctx = Some canceled then ''collector '' @ co_id c @ '' stopped: '' @ canceled
           else ''collector '' @ co_id c @ '' exceeded its budget''))"

section \<open>Steps\<close>

definition budget :: "config \<Rightarrow> collector \<Rightarrow> int" where
  "budget cf c = (if co_timeout c \<le> 0 then cf_timeout cf else co_timeout c)"

text \<open>The error of the collector's own context: the scan's, or its budget's.\<close>

definition cctx_err :: "'v rstate \<Rightarrow> string \<Rightarrow> string option" where
  "cctx_err st i = (case rs_ctx st of Some e \<Rightarrow> Some e
     | None \<Rightarrow> if rs_expired st i then Some deadline_exceeded else None)"

definition goto :: "string \<Rightarrow> 'v phase \<Rightarrow> 'v rstate \<Rightarrow> 'v rstate" where
  "goto i ph st = st\<lparr>rs_phase := (rs_phase st)(i := ph)\<rparr>"

text \<open>Recording an error against everything a collector produces, and returning.\<close>

definition fail_with :: "collector \<Rightarrow> error_kind \<Rightarrow> string \<Rightarrow> status \<Rightarrow> 'v rstate \<Rightarrow> 'v rstate" where
  "fail_with c kind msg s st =
     goto (co_id c) (Leaving s) (st\<lparr>rs_facts := record_error c kind msg (rs_facts st)\<rparr>)"

datatype 'v label =
    Begin string
  | DepDone string
  | DepCancelled string
  | DepsDone string
  | TakeSlot string
  | SlotCancelled string
  | Enter string
  | BodyEnds string "'v collect_result"
  | BudgetOver string
  | Receive string
  | Abandon string
  | Leave string
  | Cancel string

text \<open>The prologue: unregistered dependencies, then privilege.\<close>

definition begin_collector :: "config \<Rightarrow> collector \<Rightarrow> 'v rstate \<Rightarrow> 'v rstate" where
  "begin_collector cf c st =
     (case lookup (MissingDependencies (cf_reg cf)) (co_id c) of
        Some ds \<Rightarrow> fail_with c ErrInternal
          (''collector '' @ co_id c @ '' depends on unregistered collector(s) ['' @ join '' '' ds
             @ '']; it was not run'') CollectorSkipped st
      | None \<Rightarrow>
          (if \<not> satisfied_by (co_requires c) (cf_euid cf) then
             fail_with c ErrPermission
               (''collector '' @ co_id c @ '' requires '' @ cap_string (co_requires c)
                  @ '' and the scan is running as euid '' @ int_str (cf_euid cf) @ ''; it was not run'')
               CollectorSkipped st
           else goto (co_id c) (WaitDeps (co_depends_on c)) st))"

text \<open>The three outcomes of a result that arrives in time.\<close>

definition receive :: "collector \<Rightarrow> 'v collect_result \<Rightarrow> 'v rstate \<Rightarrow> 'v rstate" where
  "receive c r st =
     (case r of
        Panicked m \<Rightarrow> fail_with c ErrInternal (''collector '' @ co_id c @ '' panicked: '' @ m) CollectorFailed st
      | Returned err priv \<Rightarrow>
          (if cctx_err st (co_id c) \<noteq> None \<and> err \<noteq> None then
             fail_with c ErrTimeout (timed_out_msg c (cctx_err st (co_id c)) (rs_ctx st)) CollectorTimedOut st
           else
             (let st1 = st\<lparr>rs_facts := merge_into (rs_facts st) priv\<rparr> in
              case err of
                None \<Rightarrow> goto (co_id c) (Leaving CollectorOK) st1
              | Some e \<Rightarrow> goto (co_id c) (Leaving CollectorFailed)
                  (st1\<lparr>rs_facts := record_collector_error c e (rs_facts st1)\<rparr>))))"

definition enter :: "collector \<Rightarrow> 'v rstate \<Rightarrow> 'v rstate" where
  "enter c st =
     (case rs_ctx st of
        Some e \<Rightarrow> fail_with c ErrTimeout (cancelled_msg c e ''the scan ended before it could start'')
          CollectorTimedOut st
      | None \<Rightarrow> goto (co_id c) (Running None)
          (st\<lparr>rs_live := (rs_live st)(co_id c := True), rs_events := rs_events st @ [Started (co_id c)]\<rparr>))"

text \<open>The deferred functions: the slot is given back, the observer told, the channel closed.\<close>

definition leave :: "collector \<Rightarrow> status \<Rightarrow> 'v rstate \<Rightarrow> 'v rstate" where
  "leave c s st = goto (co_id c) Finished
     (st\<lparr>rs_slot := (if rs_slot st = Some (co_id c) then None else rs_slot st),
         rs_events := rs_events st @ [Done (co_id c) s]\<rparr>)"

text \<open>One step of collector c, in the phase it is in; None when the label is not enabled.\<close>

definition col_step :: "config \<Rightarrow> collector \<Rightarrow> 'v label \<Rightarrow> 'v phase \<Rightarrow> 'v rstate \<Rightarrow> 'v rstate option" where
  "col_step cf c l ph st =
     (case l of
        Begin _ \<Rightarrow> (case ph of NotBegun \<Rightarrow> Some (begin_collector cf c st) | _ \<Rightarrow> None)
      | DepDone _ \<Rightarrow>
          (case ph of
             WaitDeps (d # ds) \<Rightarrow>
               (if lookup (cf_reg cf) d = None \<or> rs_phase st d = Finished
                then Some (goto (co_id c) (WaitDeps ds) st) else None)
           | _ \<Rightarrow> None)
      | DepCancelled _ \<Rightarrow>
          (case ph of
             WaitDeps (d # ds) \<Rightarrow>
               (if lookup (cf_reg cf) d = None then None
                else
                  (case rs_ctx st of
                     None \<Rightarrow> None
                   | Some e \<Rightarrow> Some (fail_with c ErrTimeout
                       (cancelled_msg c e (''waiting for dependency '' @ d)) CollectorTimedOut st)))
           | _ \<Rightarrow> None)
      | DepsDone _ \<Rightarrow>
          (case ph of
             WaitDeps [] \<Rightarrow> Some (goto (co_id c) (if co_cost c = Expensive then WaitSlot else Entering) st)
           | _ \<Rightarrow> None)
      | TakeSlot _ \<Rightarrow>
          (case ph of
             WaitSlot \<Rightarrow>
               (if rs_slot st = None then Some (goto (co_id c) Entering (st\<lparr>rs_slot := Some (co_id c)\<rparr>))
                else None)
           | _ \<Rightarrow> None)
      | SlotCancelled _ \<Rightarrow>
          (case ph of
             WaitSlot \<Rightarrow>
               (case rs_ctx st of
                  None \<Rightarrow> None
                | Some e \<Rightarrow> Some (fail_with c ErrTimeout
                    (cancelled_msg c e ''waiting for the expensive-collector slot'') CollectorTimedOut st))
           | _ \<Rightarrow> None)
      | Enter _ \<Rightarrow> (case ph of Entering \<Rightarrow> Some (enter c st) | _ \<Rightarrow> None)
      | BudgetOver _ \<Rightarrow>
          (case ph of
             Running r \<Rightarrow>
               (if 0 < budget cf c \<and> \<not> rs_expired st (co_id c)
                then Some (st\<lparr>rs_expired := (rs_expired st)(co_id c := True)\<rparr>) else None)
           | _ \<Rightarrow> None)
      | Receive _ \<Rightarrow> (case ph of Running (Some r) \<Rightarrow> Some (receive c r st) | _ \<Rightarrow> None)
      | Abandon _ \<Rightarrow>
          (case ph of
             Running r \<Rightarrow>
               (if cctx_err st (co_id c) = None then None
                else Some (fail_with c ErrTimeout (timed_out_msg c (cctx_err st (co_id c)) (rs_ctx st))
                  CollectorTimedOut st))
           | _ \<Rightarrow> None)
      | Leave _ \<Rightarrow> (case ph of Leaving s \<Rightarrow> Some (leave c s st) | _ \<Rightarrow> None)
      | _ \<Rightarrow> None)"

text \<open>
  \<open>Collect\<close> ends in the phase the runner has reached, which may be past waiting for it: the result of
  an abandoned collector goes to a channel nobody reads.
\<close>

definition body_ends :: "string \<Rightarrow> 'v collect_result \<Rightarrow> 'v rstate \<Rightarrow> 'v rstate option" where
  "body_ends i r st =
     (if \<not> rs_live st i then None
      else
        (let st1 = st\<lparr>rs_live := (rs_live st)(i := False)\<rparr> in
         Some (case rs_phase st i of Running None \<Rightarrow> goto i (Running (Some r)) st1 | _ \<Rightarrow> st1)))"

fun label_id :: "'v label \<Rightarrow> string" where
  "label_id (Begin i) = i"
| "label_id (DepDone i) = i"
| "label_id (DepCancelled i) = i"
| "label_id (DepsDone i) = i"
| "label_id (TakeSlot i) = i"
| "label_id (SlotCancelled i) = i"
| "label_id (Enter i) = i"
| "label_id (BodyEnds i r) = i"
| "label_id (BudgetOver i) = i"
| "label_id (Receive i) = i"
| "label_id (Abandon i) = i"
| "label_id (Leave i) = i"
| "label_id (Cancel e) = []"

definition step :: "config \<Rightarrow> 'v label \<Rightarrow> 'v rstate \<Rightarrow> 'v rstate option" where
  "step cf l st =
     (case l of
        Cancel e \<Rightarrow> (if rs_ctx st = None then Some (st\<lparr>rs_ctx := Some e\<rparr>) else None)
      | BodyEnds i r \<Rightarrow> (if lookup (cf_reg cf) i = None then None else body_ends i r st)
      | _ \<Rightarrow>
          (case lookup (cf_reg cf) (label_id l) of
             None \<Rightarrow> None
           | Some c \<Rightarrow> col_step cf c l (rs_phase st (label_id l)) st))"

definition initial :: "'v fact_set \<Rightarrow> 'v rstate" where
  "initial fs = \<lparr>rs_phase = (\<lambda>_. NotBegun), rs_slot = None, rs_ctx = None, rs_expired = (\<lambda>_. False),
     rs_live = (\<lambda>_. False), rs_facts = fs, rs_events = []\<rparr>"

fun exec :: "config \<Rightarrow> 'v label list \<Rightarrow> 'v rstate \<Rightarrow> 'v rstate option" where
  "exec cf [] st = Some st"
| "exec cf (l # ls) st = (case step cf l st of None \<Rightarrow> None | Some st' \<Rightarrow> exec cf ls st')"

inductive reachable :: "config \<Rightarrow> 'v fact_set \<Rightarrow> 'v rstate \<Rightarrow> bool" for cf fs where
  start: "reachable cf fs (initial fs)"
| move: "reachable cf fs st \<Longrightarrow> step cf l st = Some st' \<Longrightarrow> reachable cf fs st'"

text \<open>\<open>Run\<close> returns once every goroutine is done.\<close>

definition all_finished :: "config \<Rightarrow> 'v rstate \<Rightarrow> bool" where
  "all_finished cf st \<longleftrightarrow> (\<forall>i \<in> set (reg_IDs (cf_reg cf)). rs_phase st i = Finished)"

section \<open>The moves\<close>

text \<open>The steps by their effect, which is all the invariants need: who moves, from where to where.\<close>

inductive moves :: "config \<Rightarrow> 'v rstate \<Rightarrow> 'v rstate \<Rightarrow> bool" for cf st where
  failing: "lookup (cf_reg cf) (co_id c) = Some c \<Longrightarrow>
     ph = NotBegun \<and> s = CollectorSkipped \<or> (\<exists>ds. ph = WaitDeps ds) \<and> s = CollectorTimedOut
       \<or> ph = WaitSlot \<and> s = CollectorTimedOut \<or> ph = Entering \<and> s = CollectorTimedOut
       \<or> (\<exists>r. ph = Running r) \<and> (s = CollectorTimedOut \<or> s = CollectorFailed) \<Longrightarrow>
     rs_phase st (co_id c) = ph \<Longrightarrow> moves cf st (fail_with c kind msg s st)"
| begun: "lookup (cf_reg cf) (co_id c) = Some c \<Longrightarrow> rs_phase st (co_id c) = NotBegun \<Longrightarrow>
     missing_of (cf_reg cf) (co_id c) = [] \<Longrightarrow> satisfied_by (co_requires c) (cf_euid cf) \<Longrightarrow>
       moves cf st (goto (co_id c) (WaitDeps (co_depends_on c)) st)"
| dep_done: "lookup (cf_reg cf) (co_id c) = Some c \<Longrightarrow> rs_phase st (co_id c) = WaitDeps (d # ds) \<Longrightarrow>
     lookup (cf_reg cf) d = None \<or> rs_phase st d = Finished \<Longrightarrow>
       moves cf st (goto (co_id c) (WaitDeps ds) st)"
| deps_done: "lookup (cf_reg cf) (co_id c) = Some c \<Longrightarrow> rs_phase st (co_id c) = WaitDeps [] \<Longrightarrow>
     ph = (if co_cost c = Expensive then WaitSlot else Entering) \<Longrightarrow> moves cf st (goto (co_id c) ph st)"
| slot_taken: "lookup (cf_reg cf) (co_id c) = Some c \<Longrightarrow> rs_phase st (co_id c) = WaitSlot \<Longrightarrow>
     rs_slot st = None \<Longrightarrow> moves cf st (goto (co_id c) Entering (st\<lparr>rs_slot := Some (co_id c)\<rparr>))"
| entered: "lookup (cf_reg cf) (co_id c) = Some c \<Longrightarrow> rs_phase st (co_id c) = Entering \<Longrightarrow>
     moves cf st (goto (co_id c) (Running None)
       (st\<lparr>rs_live := (rs_live st)(co_id c := True), rs_events := rs_events st @ [Started (co_id c)]\<rparr>))"
| over: "lookup (cf_reg cf) (co_id c) = Some c \<Longrightarrow> rs_phase st (co_id c) = Running r \<Longrightarrow>
     \<not> rs_expired st (co_id c) \<Longrightarrow> moves cf st (st\<lparr>rs_expired := (rs_expired st)(co_id c := True)\<rparr>)"
| accepted: "lookup (cf_reg cf) (co_id c) = Some c \<Longrightarrow>
     rs_phase st (co_id c) = Running (Some (Returned err priv)) \<Longrightarrow>
     (case err of None \<Rightarrow> s = CollectorOK \<and> fs = merge_into (rs_facts st) priv
      | Some e \<Rightarrow> s = CollectorFailed \<and> fs = record_collector_error c e (merge_into (rs_facts st) priv)) \<Longrightarrow>
       moves cf st (goto (co_id c) (Leaving s) (st\<lparr>rs_facts := fs\<rparr>))"
| left: "lookup (cf_reg cf) (co_id c) = Some c \<Longrightarrow> rs_phase st (co_id c) = Leaving s \<Longrightarrow>
     moves cf st (leave c s st)"
| delivered: "lookup (cf_reg cf) i \<noteq> None \<Longrightarrow> rs_live st i \<Longrightarrow> rs_phase st i = Running None \<Longrightarrow>
     moves cf st (goto i (Running (Some r)) (st\<lparr>rs_live := (rs_live st)(i := False)\<rparr>))"
| dropped: "lookup (cf_reg cf) i \<noteq> None \<Longrightarrow> rs_live st i \<Longrightarrow> rs_phase st i \<noteq> Running None \<Longrightarrow>
     moves cf st (st\<lparr>rs_live := (rs_live st)(i := False)\<rparr>)"
| cancelled: "rs_ctx st = None \<Longrightarrow> moves cf st (st\<lparr>rs_ctx := Some e\<rparr>)"

lemma begin_moves:
  assumes "lookup (cf_reg cf) (co_id c) = Some c" "rs_phase st (co_id c) = NotBegun"
  shows "moves cf st (begin_collector cf c st)"
proof (cases "missing_of (cf_reg cf) (co_id c) = [] \<and> satisfied_by (co_requires c) (cf_euid cf)")
  case True
  then show ?thesis
    using moves.begun[OF assms] by (simp add: begin_collector_def lookup_MissingDependencies)
next
  case False
  then show ?thesis
    using moves.failing[OF assms(1), of NotBegun CollectorSkipped] assms(2)
    by (auto simp: begin_collector_def lookup_MissingDependencies)
qed

lemma receive_moves:
  assumes "lookup (cf_reg cf) (co_id c) = Some c" "rs_phase st (co_id c) = Running (Some r)"
  shows "moves cf st (receive c r st)"
proof (cases r)
  case (Panicked m)
  then show ?thesis
    using moves.failing[OF assms(1), of "Running (Some r)" CollectorFailed] assms(2)
    by (simp add: receive_def)
next
  case (Returned err priv)
  show ?thesis
  proof (cases "cctx_err st (co_id c) \<noteq> None \<and> err \<noteq> None")
    case True
    then show ?thesis
      using moves.failing[OF assms(1), of "Running (Some r)" CollectorTimedOut] assms(2) Returned
      by (simp add: receive_def)
  next
    case False
    then show ?thesis
      using moves.accepted[of cf c st err priv] assms Returned
      by (cases err) (auto simp: receive_def goto_def)
  qed
qed

lemma enter_moves:
  assumes "lookup (cf_reg cf) (co_id c) = Some c" "rs_phase st (co_id c) = Entering"
  shows "moves cf st (enter c st)"
  using moves.entered[OF assms] moves.failing[OF assms(1), of Entering CollectorTimedOut] assms(2)
  by (auto simp: enter_def split: option.split)

lemma col_step_moves:
  assumes r: "lookup (cf_reg cf) (co_id c) = Some c" and "col_step cf c l (rs_phase st (co_id c)) st = Some st'"
  shows "moves cf st st'"
proof -
  note fail = moves.failing[OF r, where st = st]
  show ?thesis
    using assms(2)
    by (cases l; cases "rs_phase st (co_id c)")
      (auto simp: col_step_def begin_moves[OF r] receive_moves[OF r] enter_moves[OF r]
        intro: moves.left[OF r] moves.dep_done[OF r] moves.deps_done[OF r] moves.slot_taken[OF r]
          moves.over[OF r] fail
        split: list.splits option.splits if_splits)
qed

lemma step_moves:
  assumes "wf_registry (cf_reg cf)" and "step cf l st = Some st'"
  shows "moves cf st st'"
proof -
  have reg: "lookup (cf_reg cf) i = Some c \<Longrightarrow> co_id c = i" for i c
    using assms(1) by (simp add: wf_registry_def)
  have col: "moves cf st st'" if "lookup (cf_reg cf) i = Some c" "col_step cf c l (rs_phase st i) st = Some st'" for i c
    using col_step_moves[of cf c l st st'] that reg[OF that(1)] by simp
  show ?thesis
  proof (cases l)
    case (Cancel e)
    then show ?thesis using assms(2) by (auto simp: step_def intro: moves.cancelled split: if_splits)
  next
    case (BodyEnds i r)
    then show ?thesis
      using assms(2) moves.delivered[of cf i st r] moves.dropped[of cf i st]
      by (cases "rs_phase st i = Running None")
        (auto simp: step_def body_ends_def Let_def split: if_splits phase.splits option.splits)
  qed (use assms(2) col in \<open>auto simp: step_def split: option.splits\<close>)
qed

section \<open>Invariants\<close>

definition busy :: "'v phase \<Rightarrow> bool" where
  "busy ph \<longleftrightarrow> ph = Entering \<or> (\<exists>r. ph = Running r)"

definition slot_inv :: "config \<Rightarrow> 'v rstate \<Rightarrow> bool" where
  "slot_inv cf st \<longleftrightarrow>
     (\<forall>i c. lookup (cf_reg cf) i = Some c \<longrightarrow> co_cost c = Expensive \<longrightarrow> busy (rs_phase st i) \<longrightarrow> rs_slot st = Some i)
     \<and> (\<forall>i. rs_slot st = Some i \<longrightarrow> lookup (cf_reg cf) i \<noteq> None
          \<and> (busy (rs_phase st i) \<or> (\<exists>s. rs_phase st i = Leaving s)))"

definition deps_inv :: "config \<Rightarrow> 'v rstate \<Rightarrow> bool" where
  "deps_inv cf st \<longleftrightarrow>
     (\<forall>i d. lookup (cf_reg cf) i \<noteq> None \<longrightarrow> d \<in> set (known_deps (cf_reg cf) i) \<longrightarrow>
        (case rs_phase st i of
           WaitDeps ds \<Rightarrow> d \<in> set ds \<or> rs_phase st d = Finished
         | WaitSlot \<Rightarrow> rs_phase st d = Finished
         | Entering \<Rightarrow> rs_phase st d = Finished
         | Running r \<Rightarrow> rs_phase st d = Finished
         | _ \<Rightarrow> True))"

definition dones :: "string \<Rightarrow> event list \<Rightarrow> nat" where
  "dones i es = length (filter (\<lambda>e. case e of Done j s \<Rightarrow> j = i | _ \<Rightarrow> False) es)"

definition starts :: "string \<Rightarrow> event list \<Rightarrow> nat" where
  "starts i es = length (filter (\<lambda>e. e = Started i) es)"

fun before_start :: "'v phase \<Rightarrow> bool" where
  "before_start (Running r) \<longleftrightarrow> False"
| "before_start (Leaving s) \<longleftrightarrow> False"
| "before_start Finished \<longleftrightarrow> False"
| "before_start ph \<longleftrightarrow> True"

definition event_inv :: "'v rstate \<Rightarrow> bool" where
  "event_inv st \<longleftrightarrow>
     (\<forall>i. dones i (rs_events st) = (if rs_phase st i = Finished then 1 else 0))
     \<and> (\<forall>i. starts i (rs_events st) \<le> 1 \<and> (before_start (rs_phase st i) \<longrightarrow> starts i (rs_events st) = 0))"

definition start_order_inv :: "config \<Rightarrow> 'v rstate \<Rightarrow> bool" where
  "start_order_inv cf st \<longleftrightarrow>
     (\<forall>k < length (rs_events st). \<forall>i. rs_events st ! k = Started i \<longrightarrow>
        (\<forall>d \<in> set (known_deps (cf_reg cf) i). 0 < dones d (take k (rs_events st))))"

definition live_inv :: "'v rstate \<Rightarrow> bool" where
  "live_inv st \<longleftrightarrow> (\<forall>i. rs_phase st i = Running None \<longrightarrow> rs_live st i)"

lemma goto_simps [simp]:
  "rs_phase (goto i ph st) = (rs_phase st)(i := ph)"
  "rs_slot (goto i ph st) = rs_slot st" "rs_ctx (goto i ph st) = rs_ctx st"
  "rs_expired (goto i ph st) = rs_expired st" "rs_live (goto i ph st) = rs_live st"
  "rs_facts (goto i ph st) = rs_facts st" "rs_events (goto i ph st) = rs_events st"
  by (simp_all add: goto_def)

lemma fail_with_simps [simp]:
  "rs_phase (fail_with c k m s st) = (rs_phase st)(co_id c := Leaving s)"
  "rs_slot (fail_with c k m s st) = rs_slot st" "rs_ctx (fail_with c k m s st) = rs_ctx st"
  "rs_expired (fail_with c k m s st) = rs_expired st" "rs_live (fail_with c k m s st) = rs_live st"
  "rs_facts (fail_with c k m s st) = record_error c k m (rs_facts st)"
  "rs_events (fail_with c k m s st) = rs_events st"
  by (simp_all add: fail_with_def)

lemma leave_simps [simp]:
  "rs_phase (leave c s st) = (rs_phase st)(co_id c := Finished)"
  "rs_slot (leave c s st) = (if rs_slot st = Some (co_id c) then None else rs_slot st)"
  "rs_ctx (leave c s st) = rs_ctx st" "rs_expired (leave c s st) = rs_expired st"
  "rs_live (leave c s st) = rs_live st" "rs_facts (leave c s st) = rs_facts st"
  "rs_events (leave c s st) = rs_events st @ [Done (co_id c) s]"
  by (simp_all add: leave_def)

lemma busy_simps [simp]:
  "busy Entering" "busy (Running r)" "\<not> busy NotBegun" "\<not> busy (WaitDeps ds)" "\<not> busy WaitSlot"
  "\<not> busy (Leaving s)" "\<not> busy Finished"
  by (auto simp: busy_def)

lemma dones_simps [simp]:
  "dones i [] = 0" "dones i (es @ [Started j]) = dones i es"
  "dones i (es @ [Done j s]) = dones i es + (if j = i then 1 else 0)"
  by (auto simp: dones_def)

lemma Done_dones: "Done i s \<in> set es \<Longrightarrow> 0 < dones i es"
  by (auto simp: dones_def filter_empty_conv intro!: bexI[of _ "Done i s"])

lemma starts_simps [simp]:
  "starts i [] = 0" "starts i (es @ [Done j s]) = starts i es"
  "starts i (es @ [Started j]) = starts i es + (if j = i then 1 else 0)"
  by (auto simp: starts_def)

lemma moves_slot_inv: "moves cf st st' \<Longrightarrow> slot_inv cf st \<Longrightarrow> slot_inv cf st'"
proof (induction rule: moves.induct)
  case (failing c ph s kind msg)
  then show ?case by (auto simp: slot_inv_def)
next
  case (begun c)
  then show ?case by (auto simp: slot_inv_def)
next
  case (dep_done c d ds)
  then show ?case by (auto simp: slot_inv_def)
next
  case (deps_done c ph)
  then have "rs_slot st \<noteq> Some (co_id c)" by (auto simp: slot_inv_def)
  with deps_done show ?case by (cases "co_cost c = Expensive") (simp_all add: slot_inv_def)
next
  case (slot_taken c)
  then show ?case by (auto simp: slot_inv_def)
next
  case (entered c)
  then show ?case by (auto simp: slot_inv_def)
next
  case (over c r)
  then show ?case by (auto simp: slot_inv_def)
next
  case (accepted c err priv s fs)
  then show ?case by (auto simp: slot_inv_def)
next
  case (left c s)
  then show ?case by (auto simp: slot_inv_def)
next
  case (delivered i r)
  then show ?case by (auto simp: slot_inv_def)
next
  case (dropped i)
  then show ?case by (auto simp: slot_inv_def)
next
  case (cancelled e)
  then show ?case by (auto simp: slot_inv_def)
qed

lemma moves_event_inv: "moves cf st st' \<Longrightarrow> event_inv st \<Longrightarrow> event_inv st'"
  by (induction rule: moves.induct) (fastforce simp: event_inv_def split: if_splits)+

lemma moves_live_inv: "moves cf st st' \<Longrightarrow> live_inv st \<Longrightarrow> live_inv st'"
  by (induction rule: moves.induct) (auto simp: live_inv_def split: if_splits)

text \<open>What a move does to the phases: one collector's changes, and never from \<open>Finished\<close>.\<close>

lemma moves_finished: "moves cf st st' \<Longrightarrow> rs_phase st i = Finished \<Longrightarrow> rs_phase st' i = Finished"
  by (induction rule: moves.induct) (auto split: if_splits)

lemma leaving_stays:
  "moves cf st st' \<Longrightarrow> rs_phase st i = Leaving s \<Longrightarrow> rs_phase st' i = Leaving s \<or> rs_phase st' i = Finished"
  by (induction rule: moves.induct) (auto split: if_splits)

definition deps_ok :: "config \<Rightarrow> 'v rstate \<Rightarrow> string \<Rightarrow> 'v phase \<Rightarrow> bool" where
  "deps_ok cf st i ph \<longleftrightarrow>
     (\<forall>d \<in> set (known_deps (cf_reg cf) i).
        (case ph of
           WaitDeps ds \<Rightarrow> d \<in> set ds \<or> rs_phase st d = Finished
         | WaitSlot \<Rightarrow> rs_phase st d = Finished
         | Entering \<Rightarrow> rs_phase st d = Finished
         | Running r \<Rightarrow> rs_phase st d = Finished
         | _ \<Rightarrow> True))"

lemma deps_inv_alt: "deps_inv cf st \<longleftrightarrow> (\<forall>i. lookup (cf_reg cf) i \<noteq> None \<longrightarrow> deps_ok cf st i (rs_phase st i))"
  by (auto simp: deps_inv_def deps_ok_def split: phase.splits)

lemma deps_ok_mono:
  "(\<And>d. rs_phase st d = Finished \<Longrightarrow> rs_phase st' d = Finished) \<Longrightarrow> deps_ok cf st i ph \<Longrightarrow> deps_ok cf st' i ph"
  by (auto simp: deps_ok_def split: phase.splits)

lemma moves_deps_inv:
  assumes m: "moves cf st st'" and inv: "deps_inv cf st"
  shows "deps_inv cf st'"
proof -
  have keep: "deps_ok cf st i ph \<Longrightarrow> deps_ok cf st' i ph" for i ph
    using deps_ok_mono[of st st'] moves_finished[OF m] by blast
  have "deps_ok cf st i (rs_phase st' i)" if i: "lookup (cf_reg cf) i \<noteq> None" for i
  proof -
    have old: "deps_ok cf st i (rs_phase st i)" using inv i by (simp add: deps_inv_alt)
    from m show ?thesis
    proof cases
      case (begun c)
      then have "set (known_deps (cf_reg cf) (co_id c)) \<subseteq> set (co_depends_on c)"
        by (auto simp: known_deps_def deps_of_def)
      then show ?thesis using begun old by (auto simp: deps_ok_def)
    next
      case (dep_done c d ds)
      then have "d \<notin> set (known_deps (cf_reg cf) (co_id c)) \<or> rs_phase st d = Finished"
        using known_deps_known by blast
      then show ?thesis using dep_done old by (auto simp: deps_ok_def)
    qed (use old in \<open>auto simp: deps_ok_def\<close>)
  qed
  then show ?thesis using keep by (auto simp: deps_inv_alt)
qed

lemma moves_events: "moves cf st st' \<Longrightarrow>
    rs_events st' = rs_events st
    \<or> (\<exists>c. lookup (cf_reg cf) (co_id c) = Some c \<and> rs_phase st (co_id c) = Entering
         \<and> rs_events st' = rs_events st @ [Started (co_id c)])
    \<or> (\<exists>i s. rs_events st' = rs_events st @ [Done i s])"
  by (induction rule: moves.induct) auto

lemma start_order_inv_append:
  assumes "start_order_inv cf st" and "rs_events st' = rs_events st @ [e]"
    and "\<And>i. e = Started i \<Longrightarrow> \<forall>d \<in> set (known_deps (cf_reg cf) i). 0 < dones d (rs_events st)"
  shows "start_order_inv cf st'"
  using assms by (auto simp: start_order_inv_def nth_append less_Suc_eq)

lemma moves_start_order_inv:
  assumes m: "moves cf st st'" and "start_order_inv cf st" and "deps_inv cf st" and "event_inv st"
  shows "start_order_inv cf st'"
proof -
  from moves_events[OF m] consider
      "rs_events st' = rs_events st"
    | c where "lookup (cf_reg cf) (co_id c) = Some c" "rs_phase st (co_id c) = Entering"
        "rs_events st' = rs_events st @ [Started (co_id c)]"
    | i s where "rs_events st' = rs_events st @ [Done i s]" by blast
  then show ?thesis
  proof cases
    case 1
    then show ?thesis using assms(2) by (simp add: start_order_inv_def)
  next
    case (2 c)
    then have "\<forall>d \<in> set (known_deps (cf_reg cf) (co_id c)). rs_phase st d = Finished"
      using assms(3) by (auto simp: deps_inv_def)
    then have "\<forall>d \<in> set (known_deps (cf_reg cf) (co_id c)). 0 < dones d (rs_events st)"
      using assms(4) by (simp add: event_inv_def)
    then show ?thesis using start_order_inv_append[OF assms(2) 2(3)] by auto
  next
    case (3 i s)
    then show ?thesis using start_order_inv_append[OF assms(2) 3] by auto
  qed
qed

definition wait_inv :: "config \<Rightarrow> 'v rstate \<Rightarrow> bool" where
  "wait_inv cf st \<longleftrightarrow>
     (\<forall>i c ds. lookup (cf_reg cf) i = Some c \<longrightarrow> rs_phase st i = WaitDeps ds \<longrightarrow> set ds \<subseteq> set (co_depends_on c))"

lemma moves_wait_inv: "moves cf st st' \<Longrightarrow> wait_inv cf st \<Longrightarrow> wait_inv cf st'"
  by (induction rule: moves.induct) (fastforce simp: wait_inv_def split: if_splits)+

definition runner_inv :: "config \<Rightarrow> 'v rstate \<Rightarrow> bool" where
  "runner_inv cf st \<longleftrightarrow>
     slot_inv cf st \<and> deps_inv cf st \<and> event_inv st \<and> start_order_inv cf st \<and> live_inv st
     \<and> wait_inv cf st"

lemma runner_inv_initial: "runner_inv cf (initial fs)"
  by (simp add: runner_inv_def slot_inv_def deps_inv_def event_inv_def start_order_inv_def live_inv_def wait_inv_def
      initial_def)

lemma reachable_inv:
  assumes "wf_registry (cf_reg cf)" and "reachable cf fs st"
  shows "runner_inv cf st"
  using assms(2)
proof (induction rule: reachable.induct)
  case start
  show ?case by (rule runner_inv_initial)
next
  case (move st l st')
  have m: "moves cf st st'" by (rule step_moves[OF assms(1) move.hyps(2)])
  then show ?case
    using move.IH unfolding runner_inv_def
    by (blast intro: moves_slot_inv moves_deps_inv moves_event_inv moves_start_order_inv moves_live_inv
        moves_wait_inv)
qed

section \<open>Termination and progress\<close>

fun phase_weight :: "collector \<Rightarrow> 'v phase \<Rightarrow> nat" where
  "phase_weight c NotBegun = 7 + length (co_depends_on c)"
| "phase_weight c (WaitDeps ds) = 6 + length ds"
| "phase_weight c WaitSlot = 5"
| "phase_weight c Entering = 4"
| "phase_weight c (Running r) = 2"
| "phase_weight c (Leaving s) = 1"
| "phase_weight c Finished = 0"

definition col_weight :: "config \<Rightarrow> 'v rstate \<Rightarrow> string \<Rightarrow> nat" where
  "col_weight cf st i =
     phase_weight (the (lookup (cf_reg cf) i)) (rs_phase st i)
       + (if rs_live st i then 1 else 0) + (if rs_expired st i then 0 else 1)"

definition total_weight :: "config \<Rightarrow> 'v rstate \<Rightarrow> nat" where
  "total_weight cf st =
     (\<Sum>i \<in> set (reg_IDs (cf_reg cf)). col_weight cf st i) + (if rs_ctx st = None then 1 else 0)"

lemma total_weight_less:
  assumes "lookup (cf_reg cf) i \<noteq> None" and "col_weight cf st' i < col_weight cf st i"
    and "\<And>j. j \<noteq> i \<Longrightarrow> col_weight cf st' j = col_weight cf st j" and "rs_ctx st' = rs_ctx st"
  shows "total_weight cf st' < total_weight cf st"
proof -
  have "(\<Sum>j \<in> set (reg_IDs (cf_reg cf)). col_weight cf st' j) < (\<Sum>j \<in> set (reg_IDs (cf_reg cf)). col_weight cf st j)"
  proof (rule sum_strict_mono_ex1)
    show "\<forall>j \<in> set (reg_IDs (cf_reg cf)). col_weight cf st' j \<le> col_weight cf st j"
    proof
      fix j show "col_weight cf st' j \<le> col_weight cf st j"
        using assms(2) assms(3)[of j] by (cases "j = i") auto
    qed
    show "\<exists>j \<in> set (reg_IDs (cf_reg cf)). col_weight cf st' j < col_weight cf st j"
      using assms(1,2) by (auto simp: set_reg_IDs)
  qed simp
  then show ?thesis using assms(4) by (simp add: total_weight_def)
qed

lemma moves_weight: "moves cf st st' \<Longrightarrow> total_weight cf st' < total_weight cf st"
proof (induction rule: moves.induct)
  case (failing c ph s kind msg)
  then show ?case by (intro total_weight_less[of _ "co_id c"]) (auto simp: col_weight_def)
next
  case (begun c)
  then show ?case by (intro total_weight_less[of _ "co_id c"]) (auto simp: col_weight_def)
next
  case (dep_done c d ds)
  then show ?case by (intro total_weight_less[of _ "co_id c"]) (auto simp: col_weight_def)
next
  case (deps_done c ph)
  then show ?case by (intro total_weight_less[of _ "co_id c"]) (auto simp: col_weight_def)
next
  case (slot_taken c)
  then show ?case by (intro total_weight_less[of _ "co_id c"]) (auto simp: col_weight_def)
next
  case (entered c)
  then show ?case by (intro total_weight_less[of _ "co_id c"]) (auto simp: col_weight_def)
next
  case (over c r)
  then show ?case by (intro total_weight_less[of _ "co_id c"]) (auto simp: col_weight_def)
next
  case (accepted c err priv s fs)
  then show ?case by (intro total_weight_less[of _ "co_id c"]) (auto simp: col_weight_def)
next
  case (left c s)
  then show ?case by (intro total_weight_less[of _ "co_id c"]) (auto simp: col_weight_def)
next
  case (delivered i r)
  then show ?case by (intro total_weight_less[of _ i]) (auto simp: col_weight_def)
next
  case (dropped i)
  then show ?case by (intro total_weight_less[of _ i]) (auto simp: col_weight_def)
next
  case (cancelled e)
  then show ?case by (simp add: total_weight_def col_weight_def)
qed

lemma exec_weight:
  "wf_registry (cf_reg cf) \<Longrightarrow> exec cf ls st = Some st' \<Longrightarrow> length ls + total_weight cf st' \<le> total_weight cf st"
proof (induction ls arbitrary: st)
  case (Cons l ls)
  then obtain st1 where s: "step cf l st = Some st1" and e: "exec cf ls st1 = Some st'"
    by (auto split: option.splits)
  have "total_weight cf st1 < total_weight cf st" by (rule moves_weight[OF step_moves[OF Cons.prems(1) s]])
  moreover have "length ls + total_weight cf st' \<le> total_weight cf st1" by (rule Cons.IH[OF Cons.prems(1) e])
  ultimately show ?case by simp
qed simp

lemma exec_reachable: "exec cf ls st = Some st' \<Longrightarrow> reachable cf fs st \<Longrightarrow> reachable cf fs st'"
  by (induction ls arbitrary: st) (auto split: option.splits intro: reachable.move)

text \<open>
  The labels the runner can take by itself: neither a body returning, which is up to the collector,
  nor the scan being cancelled. A budget running out is the clock's doing.
\<close>

fun internal :: "'v label \<Rightarrow> bool" where
  "internal (BodyEnds i r) \<longleftrightarrow> False"
| "internal (Cancel e) \<longleftrightarrow> False"
| "internal _ \<longleftrightarrow> True"

definition can_move :: "config \<Rightarrow> 'v rstate \<Rightarrow> bool" where
  "can_move cf st \<longleftrightarrow> (\<exists>l. internal l \<and> step cf l st \<noteq> None)"

lemma can_moveI: "internal l \<Longrightarrow> step cf l st = Some st' \<Longrightarrow> can_move cf st"
  by (auto simp: can_move_def)

lemma busy_can_move:
  assumes w: "wf_registry (cf_reg cf)" and c: "lookup (cf_reg cf) i = Some c" and b: "0 < budget cf c"
    and "busy (rs_phase st i) \<or> (\<exists>s. rs_phase st i = Leaving s)"
  shows "can_move cf st"
proof -
  have ci: "co_id c = i" using w c by (simp add: wf_registry_def)
  from assms(4) consider "rs_phase st i = Entering" | r where "rs_phase st i = Running r" | s where "rs_phase st i = Leaving s"
    by (auto simp: busy_def)
  then show ?thesis
  proof cases
    case 1
    then show ?thesis using c by (intro can_moveI[of "Enter i"]) (auto simp: step_def col_step_def)
  next
    case (2 r)
    show ?thesis
    proof (cases "cctx_err st i = None")
      case True
      then have "\<not> rs_expired st i" by (auto simp: cctx_err_def split: option.splits if_splits)
      then show ?thesis using c b 2 ci by (intro can_moveI[of "BudgetOver i"]) (auto simp: step_def col_step_def)
    next
      case False
      then show ?thesis using c 2 ci by (intro can_moveI[of "Abandon i"]) (auto simp: step_def col_step_def)
    qed
  next
    case (3 s)
    then show ?thesis using c by (intro can_moveI[of "Leave i"]) (auto simp: step_def col_step_def)
  qed
qed

lemma unfinished_can_move:
  assumes w: "wf_registry (cf_reg cf)" and inv: "runner_inv cf st"
    and budgets: "\<And>i c. lookup (cf_reg cf) i = Some c \<Longrightarrow> 0 < budget cf c"
    and "\<not> all_finished cf st"
  shows "can_move cf st"
proof -
  obtain i where "i \<in> set (reg_IDs (cf_reg cf))" "rs_phase st i \<noteq> Finished"
    using assms(4) by (auto simp: all_finished_def)
  from rg.ready_node[OF w this(1), of "\<lambda>i. rs_phase st i = Finished"] this(2)
  obtain j where j: "j \<in> set (reg_IDs (cf_reg cf))" "rs_phase st j \<noteq> Finished"
    and deps: "\<forall>d \<in> set (known_deps (cf_reg cf) j). rs_phase st d = Finished" by blast
  obtain c where c: "lookup (cf_reg cf) j = Some c" using j(1) by (auto simp: set_reg_IDs)
  have cj: "co_id c = j" using w c by (simp add: wf_registry_def)
  show ?thesis
  proof (cases "rs_phase st j")
    case NotBegun
    then show ?thesis using c by (intro can_moveI[of "Begin j"]) (auto simp: step_def col_step_def)
  next
    case (WaitDeps ds)
    show ?thesis
    proof (cases ds)
      case Nil
      then show ?thesis using c WaitDeps by (intro can_moveI[of "DepsDone j"]) (auto simp: step_def col_step_def)
    next
      case (Cons d ds')
      have own: "set ds \<subseteq> set (co_depends_on c)"
        using inv c WaitDeps unfolding runner_inv_def wait_inv_def by blast
      show ?thesis
      proof (cases "lookup (cf_reg cf) d = None \<or> rs_phase st d = Finished")
        case True
        then show ?thesis
          using c WaitDeps Cons by (intro can_moveI[of "DepDone j"]) (auto simp: step_def col_step_def)
      next
        case False
        then have "d \<notin> set (known_deps (cf_reg cf) j)" using deps by blast
        then have "d \<notin> set (co_depends_on c)" using False c by (auto simp: known_deps_def deps_of_def)
        then show ?thesis using own Cons by simp
      qed
    qed
  next
    case WaitSlot
    show ?thesis
    proof (cases "rs_slot st")
      case None
      then show ?thesis using c WaitSlot by (intro can_moveI[of "TakeSlot j"]) (auto simp: step_def col_step_def)
    next
      case (Some h)
      then obtain ch where "lookup (cf_reg cf) h = Some ch" "busy (rs_phase st h) \<or> (\<exists>s. rs_phase st h = Leaving s)"
        using inv by (auto simp: runner_inv_def slot_inv_def)
      then show ?thesis using busy_can_move[OF w] budgets by blast
    qed
  qed (use j busy_can_move[OF w c budgets[OF c], of st] in auto)
qed

section \<open>No silent gap\<close>

text \<open>
  The contract on collectors: what \<open>Collect\<close> wrote is about the facts the collector is responsible
  for, and no two collectors are responsible for one fact.
\<close>

definition owned_result :: "collector \<Rightarrow> 'v collect_result \<Rightarrow> bool" where
  "owned_result c r \<longleftrightarrow>
     (case r of
        Panicked m \<Rightarrow> True
      | Returned err priv \<Rightarrow>
          wf_set priv \<and> set (IDs priv) \<subseteq> set (blame c) \<and> fe_fact ` set (Errors priv) \<subseteq> set (blame c)
          \<and> (case err of Some (FactError fe) \<Rightarrow> fe_fact fe \<in> set (blame c) | _ \<Rightarrow> True))"

definition owned_label :: "config \<Rightarrow> 'v label \<Rightarrow> bool" where
  "owned_label cf l \<longleftrightarrow>
     (case l of BodyEnds i r \<Rightarrow> owned_result (the (lookup (cf_reg cf) i)) r | _ \<Rightarrow> True)"

definition disjoint_blame :: "registry \<Rightarrow> bool" where
  "disjoint_blame r \<longleftrightarrow>
     (\<forall>i c j d. lookup r i = Some c \<longrightarrow> lookup r j = Some d \<longrightarrow> i \<noteq> j \<longrightarrow> set (blame c) \<inter> set (blame d) = {})"

text \<open>What must be on record when a collector has ended so: an error for each of its facts, or for some.\<close>

definition accounted :: "collector \<Rightarrow> 'v fact_set \<Rightarrow> status \<Rightarrow> bool" where
  "accounted c fs s \<longleftrightarrow>
     (case s of
        CollectorOK \<Rightarrow> True
      | CollectorFailed \<Rightarrow> (\<exists>f \<in> set (blame c). Err fs f \<noteq> None)
      | CollectorSkipped \<Rightarrow> (\<forall>f \<in> set (blame c). Err fs f \<noteq> None)
      | CollectorTimedOut \<Rightarrow> (\<forall>f \<in> set (blame c). Err fs f \<noteq> None))"

lemma blame_not_Nil: "blame c \<noteq> []"
  by (simp add: blame_def)

lemma wf_record_error: "wf_set fs \<Longrightarrow> wf_set (record_error c k m fs)"
  unfolding record_error_def by (rule es.ok_put_errors)

lemma Err_record_error:
  "f \<in> set (blame c) \<Longrightarrow> Err (record_error c k m fs) f \<noteq> None"
  "f \<notin> set (blame c) \<Longrightarrow> Err (record_error c k m fs) f = Err fs f"
  using es.err_put_errors_mem[of f "map (\<lambda>i. \<lparr>fe_fact = i, fe_kind = k, fe_msg = m, fe_path = []\<rparr>) (blame c)" fs]
    es.err_put_errors_other[of f "map (\<lambda>i. \<lparr>fe_fact = i, fe_kind = k, fe_msg = m, fe_path = []\<rparr>) (blame c)" fs]
  by (auto simp: record_error_def image_image)

lemma wf_merge_into: "wf_set dst \<Longrightarrow> wf_set (merge_into dst src)"
  unfolding merge_into_def by (intro es.ok_put_errors es.ok_put_facts)

lemma Err_merge_into_other:
  assumes "wf_set dst" and "wf_set src" and "f \<notin> set (IDs src)" and "f \<notin> fe_fact ` set (Errors src)"
  shows "Err (merge_into dst src) f = Err dst f"
proof -
  have "fact_id (the (lookup (facts src) i)) = i" if "i \<in> set (IDs src)" for i
    using that assms(2) by (auto simp: set_IDs wf_set_def)
  then have "f \<notin> fact_id ` set (map (\<lambda>i. the (lookup (facts src) i)) (filter (\<lambda>i. Err src i = None) (IDs src)))"
    using assms(3) by auto
  then show ?thesis
    unfolding merge_into_def using assms(1,4) by (simp add: es.err_put_errors_other es.err_put_facts_other)
qed

lemma Err_merge_owned:
  "wf_set dst \<Longrightarrow> owned_result c (Returned err priv) \<Longrightarrow> f \<notin> set (blame c) \<Longrightarrow>
     Err (merge_into dst priv) f = Err dst f"
  by (rule Err_merge_into_other) (auto simp: owned_result_def)

lemma accounted_all: "(\<And>f. f \<in> set (blame c) \<Longrightarrow> Err fs f \<noteq> None) \<Longrightarrow> accounted c fs s"
  using hd_in_set[OF blame_not_Nil[of c]] by (cases s) (auto simp: accounted_def)

lemma collector_error_accounted:
  "owned_result c (Returned (Some e) priv) \<Longrightarrow> accounted c (record_collector_error c e fs) CollectorFailed"
proof (cases e)
  case (FactError fe)
  then show "owned_result c (Returned (Some e) priv) \<Longrightarrow> ?thesis"
    by (auto simp: accounted_def record_collector_error_def owned_result_def)
next
  case (OtherError m)
  then show ?thesis by (simp add: record_collector_error_def Err_record_error accounted_all del: not_None_eq)
qed

lemma Err_collector_error_other:
  "owned_result c (Returned (Some e) priv) \<Longrightarrow> f \<notin> set (blame c) \<Longrightarrow>
     Err (record_collector_error c e fs) f = Err fs f"
  by (cases e) (auto simp: record_collector_error_def owned_result_def Err_record_error)

lemma wf_collector_error: "wf_set fs \<Longrightarrow> wf_set (record_collector_error c e fs)"
  by (cases e) (auto simp: record_collector_error_def wf_record_error wf_PutError)

lemma fail_accounted: "s \<noteq> CollectorOK \<Longrightarrow> accounted c (record_error c k m fs) s"
  by (simp add: accounted_all Err_record_error)

definition gap_inv :: "config \<Rightarrow> 'v rstate \<Rightarrow> bool" where
  "gap_inv cf st \<longleftrightarrow>
     wf_set (rs_facts st)
     \<and> (\<forall>i c r. lookup (cf_reg cf) i = Some c \<longrightarrow> rs_phase st i = Running (Some r) \<longrightarrow> owned_result c r)
     \<and> (\<forall>i c s. lookup (cf_reg cf) i = Some c \<longrightarrow> rs_phase st i = Leaving s \<or> Done i s \<in> set (rs_events st) \<longrightarrow>
          accounted c (rs_facts st) s)"

text \<open>A move that writes facts is its collector's last before \<open>Leaving\<close>, and writes only its own.\<close>

lemma moves_facts:
  assumes m: "moves cf st st'" and g: "gap_inv cf st"
  shows "wf_set (rs_facts st')
     \<and> (rs_facts st' = rs_facts st
        \<or> (\<exists>c s. lookup (cf_reg cf) (co_id c) = Some c \<and> rs_phase st (co_id c) \<noteq> Finished
             \<and> rs_phase st' (co_id c) = Leaving s \<and> accounted c (rs_facts st') s
             \<and> (\<forall>f. f \<notin> set (blame c) \<longrightarrow> Err (rs_facts st') f = Err (rs_facts st) f)))"
  using m
proof cases
  case (failing c ph s kind msg)
  then have "s \<noteq> CollectorOK" by auto
  then show ?thesis
    using failing g fail_accounted[of s c kind msg "rs_facts st"]
    by (auto simp: gap_inv_def wf_record_error Err_record_error intro!: exI[of _ c])
next
  case (accepted c err priv s fs)
  have own: "owned_result c (Returned err priv)" and w: "wf_set (rs_facts st)"
    using accepted g by (auto simp: gap_inv_def)
  show ?thesis
  proof (cases err)
    case None
    then show ?thesis
      using accepted own w Err_merge_owned[OF w own]
      by (auto simp: wf_merge_into accounted_def intro!: exI[of _ c])
  next
    case (Some e)
    then have own: "owned_result c (Returned (Some e) priv)" using own by simp
    have "f \<notin> set (blame c) \<Longrightarrow>
        Err (record_collector_error c e (merge_into (rs_facts st) priv)) f = Err (rs_facts st) f" for f
      using Err_collector_error_other[OF own, of f "merge_into (rs_facts st) priv"] Err_merge_owned[OF w own, of f] by simp
    then show ?thesis
      using accepted Some w collector_error_accounted[OF own]
      by (auto simp: wf_merge_into wf_collector_error intro!: exI[of _ c])
  qed
qed (use g in \<open>auto simp: gap_inv_def\<close>)

lemma accounted_cong:
  "(\<And>f. f \<in> set (blame c) \<Longrightarrow> Err fs' f = Err fs f) \<Longrightarrow> accounted c fs' s = accounted c fs s"
  by (auto simp: accounted_def split: status.split)

text \<open>Where a collector is newly \<open>Leaving\<close>, or its \<open>Done\<close> is new.\<close>

lemma moves_ended:
  "moves cf st st' \<Longrightarrow> lookup (cf_reg cf) i = Some c \<Longrightarrow> rs_phase st' i = Leaving s \<or> Done i s \<in> set (rs_events st') \<Longrightarrow>
     rs_phase st i = Leaving s \<or> Done i s \<in> set (rs_events st)
     \<or> rs_phase st' i = Leaving s \<and> (\<exists>d. lookup (cf_reg cf) (co_id d) = Some d \<and> co_id d = i
          \<and> accounted c (rs_facts st') s)"
  if "gap_inv cf st"
proof -
  assume m: "moves cf st st'" and c: "lookup (cf_reg cf) i = Some c"
    and e: "rs_phase st' i = Leaving s \<or> Done i s \<in> set (rs_events st')"
  have own: "rs_phase st i = Running (Some r) \<Longrightarrow> owned_result c r" for r
    using that c by (auto simp: gap_inv_def)
  from m e show ?thesis
  proof cases
    case (failing d ph s' kind msg)
    then have "s' \<noteq> CollectorOK" by auto
    then show ?thesis
      using failing e c fail_accounted[of s' d kind msg "rs_facts st"] by (auto split: if_splits)
  next
    case (accepted d err priv s' fs)
    then show ?thesis
      using e c own collector_error_accounted[of c _ priv]
      by (cases err) (auto simp: accounted_def[of _ _ CollectorOK] split: if_splits)
  qed (auto split: if_splits)
qed

lemma moves_gap_inv:
  assumes m: "moves cf st st'" and g: "gap_inv cf st" and ev: "event_inv st"
    and w: "wf_registry (cf_reg cf)" and dj: "disjoint_blame (cf_reg cf)"
    and own: "\<And>i c r. lookup (cf_reg cf) i = Some c \<Longrightarrow> rs_phase st' i = Running (Some r) \<Longrightarrow>
       rs_phase st i = Running (Some r) \<or> owned_result c r"
  shows "gap_inv cf st'"
proof -
  note facts = moves_facts[OF m g]
  have id: "lookup (cf_reg cf) i = Some c \<Longrightarrow> co_id c = i" for i c using w by (simp add: wf_registry_def)
  have "accounted c (rs_facts st') s"
    if c: "lookup (cf_reg cf) i = Some c" and e: "rs_phase st' i = Leaving s \<or> Done i s \<in> set (rs_events st')" for i c s
  proof (cases "rs_phase st i = Leaving s \<or> Done i s \<in> set (rs_events st)")
    case True
    then have old: "accounted c (rs_facts st) s" using g c by (auto simp: gap_inv_def)
    from facts consider "rs_facts st' = rs_facts st"
      | d s' where "lookup (cf_reg cf) (co_id d) = Some d" "rs_phase st (co_id d) \<noteq> Finished"
          "rs_phase st' (co_id d) = Leaving s'" "accounted d (rs_facts st') s'"
          "\<forall>f. f \<notin> set (blame d) \<longrightarrow> Err (rs_facts st') f = Err (rs_facts st) f" by blast
    then show ?thesis
    proof cases
      case 1
      then show ?thesis using old by simp
    next
      case (2 d s')
      show ?thesis
      proof (cases "co_id d = i")
        case False
        then have "set (blame c) \<inter> set (blame d) = {}" using dj c 2(1) by (auto simp: disjoint_blame_def)
        then show ?thesis using old accounted_cong[of c "rs_facts st'" "rs_facts st" s] 2(5) by blast
      next
        case same: True
        then have dc: "d = c" using c 2(1) by simp
        have "Done i s \<notin> set (rs_events st)"
          using ev 2(2) same Done_dones[of i s] by (fastforce simp: event_inv_def)
        then have "rs_phase st i = Leaving s" using True by blast
        then have "rs_phase st' i = Leaving s" using leaving_stays[OF m, of i s] 2(3) same by simp
        then show ?thesis using 2(3,4) same dc by simp
      qed
    qed
  next
    case False
    then show ?thesis using moves_ended[OF g m c e] by blast
  qed
  moreover have "owned_result c r" if "lookup (cf_reg cf) i = Some c" "rs_phase st' i = Running (Some r)" for i c r
    using own[OF that] g that(1) by (auto simp: gap_inv_def)
  ultimately show ?thesis using facts by (auto simp: gap_inv_def)
qed

lemma step_running:
  assumes "step cf l st = Some st'" and "wf_registry (cf_reg cf)" and "rs_phase st' i = Running (Some r)"
  shows "rs_phase st i = Running (Some r) \<or> l = BodyEnds i r"
proof -
  have id: "lookup (cf_reg cf) j = Some c \<Longrightarrow> co_id c = j" for j c
    using assms(2) by (simp add: wf_registry_def)
  have col: "rs_phase st i = Running (Some r)"
    if "col_step cf c l (rs_phase st (co_id c)) st = Some st'" for c
    using that assms(3)
    by (cases l; cases "rs_phase st (co_id c)")
      (auto simp: col_step_def begin_collector_def receive_def enter_def Let_def
        split: list.splits option.splits if_splits collect_result.splits)
  show ?thesis
  proof (cases l)
    case (BodyEnds j q)
    then show ?thesis
      using assms(1,3)
      by (auto simp: step_def body_ends_def Let_def split: if_splits option.splits phase.splits)
  next
    case (Cancel e)
    then show ?thesis using assms(1,3) by (auto simp: step_def split: if_splits)
  qed (use assms(1) col id in \<open>auto simp: step_def split: option.splits\<close>)
qed

lemma gap_inv_initial: "wf_set fs \<Longrightarrow> gap_inv cf (initial fs)"
  by (simp add: gap_inv_def initial_def)

lemma exec_gap_inv:
  assumes w: "wf_registry (cf_reg cf)" and dj: "disjoint_blame (cf_reg cf)"
  shows "exec cf ls st = Some st' \<Longrightarrow> \<forall>l \<in> set ls. owned_label cf l \<Longrightarrow> runner_inv cf st \<Longrightarrow> gap_inv cf st \<Longrightarrow>
    reachable cf fs st \<Longrightarrow> gap_inv cf st' \<and> reachable cf fs st'"
proof (induction ls arbitrary: st)
  case (Cons l ls)
  then obtain st1 where s: "step cf l st = Some st1" and e: "exec cf ls st1 = Some st'"
    by (auto split: option.splits)
  have m: "moves cf st st1" by (rule step_moves[OF w s])
  have r1: "reachable cf fs st1" by (rule reachable.move[OF Cons.prems(5) s])
  have "event_inv st" using Cons.prems(3) by (simp add: runner_inv_def)
  moreover have "rs_phase st i = Running (Some r) \<or> owned_result c r"
    if "lookup (cf_reg cf) i = Some c" "rs_phase st1 i = Running (Some r)" for i c r
    using step_running[OF s w that(2)] Cons.prems(2) that(1) by (auto simp: owned_label_def)
  ultimately have "gap_inv cf st1" by (intro moves_gap_inv[OF m Cons.prems(4) _ w dj])
  then show ?case using Cons.IH[OF e] Cons.prems(2) reachable_inv[OF w r1] r1 by simp
qed simp

section \<open>Properties\<close>

text \<open>A registry of two expensive collectors, and a run of it in which one hangs.\<close>

definition two_walks :: config where
  "two_walks = \<lparr>cf_reg = [(''a'', (sample_collector ''a'' [])\<lparr>co_cost := Expensive\<rparr>),
       (''b'', (sample_collector ''b'' [])\<lparr>co_cost := Expensive\<rparr>)],
     cf_euid = 0, cf_timeout = 120\<rparr>"

definition hung_run :: "unit label list" where
  "hung_run = [Begin ''a'', DepsDone ''a'', Begin ''b'', DepsDone ''b'', TakeSlot ''a'', Enter ''a'',
     BudgetOver ''a'', Abandon ''a'', Leave ''a'', TakeSlot ''b'', Enter ''b'']"


definition chain_config :: config where
  "chain_config = \<lparr>cf_reg = [(''b'', sample_collector ''b'' [''a'']), (''a'', sample_collector ''a'' [])],
     cf_euid = 0, cf_timeout = 120\<rparr>"

definition chain_run :: "unit label list" where
  "chain_run = [Begin ''b'', Begin ''a'', DepsDone ''a'', Enter ''a'', BodyEnds ''a'' (Returned None new_set),
     Receive ''a'', Leave ''a'', DepDone ''b'', DepsDone ''b'', Enter ''b'']"

lemma chain_registered:
  "register_all [sample_collector ''b'' [''a''], sample_collector ''a'' []] [] = Inr (cf_reg chain_config)"
  by code_simp





definition hung_a :: config where
  "hung_a = chain_config\<lparr>cf_reg := [(''a'', sample_collector ''a'' [])]\<rparr>"



end
