(* ===== verification/System.thy ===== *)
theory System
  imports Fact Time
begin

text \<open>
  internal/system/system.go as the collectors see it, and the helpers of internal/collect that sit on
  it: textfile.go, links.go and evidence.go. A \<open>host\<close> is the implementation of the interface: one
  function per method that the modelled code calls. What the operating system answers is not under
  src/, so a host is a parameter everywhere; that its methods are functions says that the files do not
  change while they are read.
\<close>

section \<open>The seam\<close>

datatype sys_error =
    SysNotExist
  | SysPermission
  | SysNotRegular
  | SysNotSymlink
  | SysEscapesRoot
  | SysUnsupported
  | SysOther string

fun sys_error_str :: "sys_error \<Rightarrow> string" where
  "sys_error_str SysNotExist = ''does not exist''"
| "sys_error_str SysPermission = ''permission denied''"
| "sys_error_str SysNotRegular = ''not a regular file''"
| "sys_error_str SysNotSymlink = ''not a symbolic link''"
| "sys_error_str SysEscapesRoot = ''path escapes scan root''"
| "sys_error_str SysUnsupported = ''unsupported on this system''"
| "sys_error_str (SysOther m) = m"

record file_info =
  fi_path :: string
  fi_mode :: nat
  fi_uid :: nat
  fi_gid :: nat
  fi_size :: int
  fi_mod_time :: instant
  fi_is_dir :: bool
  fi_is_regular :: bool
  fi_is_symlink :: bool
  fi_dev :: nat
  fi_ino :: nat

record read_result =
  rr_path :: string
  rr_data :: string
  rr_size :: int
  rr_truncated :: bool
  rr_sha256 :: string

record dir_result =
  dr_path :: string
  dr_entries :: "file_info list"
  dr_truncated :: bool

record host =
  h_stat :: "string \<Rightarrow> sys_error + file_info"
  h_read_file :: "string \<Rightarrow> int \<Rightarrow> sys_error + read_result"
  h_read_opaque :: "string \<Rightarrow> int \<Rightarrow> sys_error + read_result"
  h_read_dir :: "string \<Rightarrow> int \<Rightarrow> sys_error + dir_result"
  h_readlink :: "string \<Rightarrow> sys_error + string"
  h_glob :: "string \<Rightarrow> sys_error + string list"
  h_euid :: int

section \<open>Text files\<close>

text \<open>\<open>None\<close> is the empty string: nothing rules the bytes out.\<close>

definition NotText :: "string \<Rightarrow> string option" where
  "NotText data =
     (if CHR 0x00 \<in> set data
      then Some (''contains a NUL byte at offset '' @ nat_str (length (takeWhile (\<lambda>c. c \<noteq> CHR 0x00) data))
        @ '', so it is not the text configuration file it was read as; every parser on this host stops at that byte or refuses the file'')
      else None)"

definition MalformedError :: "fact_id \<Rightarrow> string \<Rightarrow> string \<Rightarrow> fact_error" where
  "MalformedError i path why =
     \<lparr>fe_fact = i, fe_kind = ErrParse, fe_msg = ''malformed file: '' @ why, fe_path = path\<rparr>"

text \<open>The lines of a file, numbered from one, as every parser of the collectors takes them.\<close>

definition numbered_lines :: "string \<Rightarrow> (nat \<times> string) list" where
  "numbered_lines data = List.enumerate 1 (split_on (CHR 0x0A) data)"

lemma NotText_iff: "NotText data = None \<longleftrightarrow> CHR 0x00 \<notin> set data"
  by (simp add: NotText_def)

section \<open>Paths\<close>

text \<open>Go's package path: Clean, Join, Dir and IsAbs.\<close>

definition clean_step :: "bool \<Rightarrow> string list \<Rightarrow> string \<Rightarrow> string list" where
  "clean_step rooted out c =
     (if c = [] \<or> c = ''.'' then out
      else if c = ''..'' then
        (if out \<noteq> [] \<and> last out \<noteq> ''..'' then butlast out else if rooted then out else out @ [c])
      else out @ [c])"

definition is_abs :: "string \<Rightarrow> bool" where
  "is_abs p = has_prefix p ''/''"

definition path_clean :: "string \<Rightarrow> string" where
  "path_clean p =
     (let out = foldl (clean_step (is_abs p)) [] (split_on (CHR ''/'') p) in
      if is_abs p then ''/'' @ join ''/'' out else if out = [] then ''.'' else join ''/'' out)"

definition path_join :: "string \<Rightarrow> string \<Rightarrow> string" where
  "path_join a b =
     (if a = [] \<and> b = [] then [] else path_clean (if a = [] then b else if b = [] then a else a @ ''/'' @ b))"

definition path_dir :: "string \<Rightarrow> string" where
  "path_dir p = path_clean (rev (dropWhile (\<lambda>c. c \<noteq> CHR ''/'') (rev p)))"

section \<open>Symbolic links\<close>

definition MaxLinkHops :: nat where "MaxLinkHops = 8"

datatype link_error = LinkSystem sys_error | LinkChainTooLong string

definition next_hop :: "string \<Rightarrow> string \<Rightarrow> string" where
  "next_hop real target =
     (if is_abs target then path_clean target else path_clean (path_join (path_dir real) target))"

text \<open>The loop of \<open>ResolveLinks\<close>, by how many hops are left of \<open>MaxLinkHops\<close>.\<close>

fun resolve_loop :: "host \<Rightarrow> string \<Rightarrow> string \<Rightarrow> nat \<Rightarrow> string \<times> link_error option" where
  "resolve_loop h p real left =
     (case h_stat h real of
        Inl e \<Rightarrow> (real, Some (LinkSystem e))
      | Inr fi \<Rightarrow>
         (if \<not> fi_is_symlink fi then (real, None)
          else (case left of
             0 \<Rightarrow> (real, Some (LinkChainTooLong p))
           | Suc k \<Rightarrow>
              (case h_readlink h real of
                 Inl e \<Rightarrow> (real, Some (LinkSystem e))
               | Inr target \<Rightarrow> resolve_loop h p (next_hop real target) k))))"

declare resolve_loop.simps [simp del]

definition ResolveLinks :: "host \<Rightarrow> string \<Rightarrow> string \<times> link_error option" where
  "ResolveLinks h p = resolve_loop h p p MaxLinkHops"

text \<open>A chain of observed hops: each is a symbolic link whose target, read through the seam, is the next.\<close>

inductive hops :: "host \<Rightarrow> nat \<Rightarrow> string \<Rightarrow> string \<Rightarrow> bool" for h where
  stay: "hops h 0 p p"
| hop: "h_stat h p = Inr fi \<Longrightarrow> fi_is_symlink fi \<Longrightarrow> h_readlink h p = Inr t \<Longrightarrow>
     hops h n (next_hop p t) q \<Longrightarrow> hops h (Suc n) p q"

inductive_cases hops_cases: "hops h n p q"

lemma resolve_loop_hops:
  "resolve_loop h o_path real left = (q, e) \<Longrightarrow> \<exists>n \<le> left. hops h n real q"
proof (induction left arbitrary: real)
  case 0
  then show ?case
    by (subst (asm) resolve_loop.simps) (auto intro: hops.stay split: sum.splits if_splits)
next
  case (Suc k)
  show ?case
  proof (cases "\<exists>fi t. h_stat h real = Inr fi \<and> fi_is_symlink fi \<and> h_readlink h real = Inr t")
    case True
    then obtain fi t where ft: "h_stat h real = Inr fi" "fi_is_symlink fi" "h_readlink h real = Inr t" by blast
    then have "resolve_loop h o_path (next_hop real t) k = (q, e)"
      using Suc.prems by (subst (asm) resolve_loop.simps) simp
    then obtain n where "n \<le> k" "hops h n (next_hop real t) q" using Suc.IH by blast
    then show ?thesis using hops.hop[OF ft] by (meson Suc_le_mono)
  next
    case False
    then have "q = real"
      using Suc.prems by (subst (asm) resolve_loop.simps) (auto split: sum.splits if_splits)
    then show ?thesis using hops.stay by blast
  qed
qed

lemma resolve_loop_None: "resolve_loop h p real left = (q, None) \<Longrightarrow> \<exists>fi. h_stat h q = Inr fi \<and> \<not> fi_is_symlink fi"
proof (induction left arbitrary: real)
  case 0
  then show ?case by (subst (asm) resolve_loop.simps) (auto split: sum.splits if_splits)
next
  case (Suc k)
  then show ?case by (subst (asm) resolve_loop.simps) (auto split: sum.splits if_splits)
qed

lemma hops_target: "hops h n p q \<Longrightarrow> n \<le> left \<Longrightarrow> h_stat h q = Inr fi \<Longrightarrow> \<not> fi_is_symlink fi \<Longrightarrow>
  resolve_loop h o_path p left = (q, None)"
proof (induction arbitrary: left rule: hops.induct)
  case (stay p)
  then show ?case by (subst resolve_loop.simps) simp
next
  case (hop p fi' t n q)
  then obtain k where "left = Suc k" by (cases left) auto
  then show ?case using hop by (subst resolve_loop.simps) simp
qed

section \<open>Evidence\<close>

text \<open>What the runner's \<open>recordingSystem\<close> hands to the evidence recorder.\<close>

record recorder =
  rec_blobs :: "string list"
  rec_truncated :: "string list"

definition credentialFiles :: "string list" where
  "credentialFiles = [''/etc/shadow'', ''/etc/gshadow'', ''/etc/security/opasswd'', ''/etc/master.passwd'']"

definition IsCredentialFile :: "string \<Rightarrow> bool" where
  "IsCredentialFile p \<longleftrightarrow> p \<in> set credentialFiles"

definition recording_read_file ::
  "host \<Rightarrow> string \<Rightarrow> int \<Rightarrow> recorder \<Rightarrow> (sys_error + read_result) \<times> recorder" where
  "recording_read_file h p n rec =
     (case h_read_file h p n of
        Inl e \<Rightarrow> (Inl e, rec)
      | Inr res \<Rightarrow>
         (if IsCredentialFile p then (Inr res, rec)
          else
            (let rec1 = rec\<lparr>rec_blobs := rec_blobs rec @ [rr_data res]\<rparr> in
             (Inr res, if rr_truncated res then rec1\<lparr>rec_truncated := rec_truncated rec1 @ [p]\<rparr> else rec1))))"

definition recording_read_opaque ::
  "host \<Rightarrow> string \<Rightarrow> int \<Rightarrow> recorder \<Rightarrow> (sys_error + read_result) \<times> recorder" where
  "recording_read_opaque h p n rec = (h_read_opaque h p n, rec)"

text \<open>A collector's reads, in order; \<open>True\<close> marks an opaque one.\<close>

fun run_reads :: "host \<Rightarrow> (bool \<times> string \<times> int) list \<Rightarrow> recorder \<Rightarrow> recorder" where
  "run_reads h [] rec = rec"
| "run_reads h ((opq, p, n) # rs) rec =
     run_reads h rs (snd ((if opq then recording_read_opaque else recording_read_file) h p n rec))"

lemma recording_is_transparent:
  "fst (recording_read_file h p n rec) = h_read_file h p n"
  by (simp add: recording_read_file_def Let_def split: sum.split)

lemma run_reads_blobs:
  "b \<in> set (rec_blobs (run_reads h rs rec)) \<longleftrightarrow>
     b \<in> set (rec_blobs rec) \<or>
     (\<exists>p n res. (False, p, n) \<in> set rs \<and> \<not> IsCredentialFile p \<and> h_read_file h p n = Inr res \<and> rr_data res = b)"
proof (induction rs arbitrary: rec)
  case (Cons r rs)
  obtain opq p n where r: "r = (opq, p, n)" by (cases r)
  show ?case
    by (auto simp: r Cons.IH recording_read_file_def recording_read_opaque_def Let_def split: sum.splits if_splits)
qed simp

end
