(* ===== verification/Sshd.thy ===== *)
theory Sshd
  imports System "HOL-Library.Sublist"
begin

text \<open>
  internal/fact/sshd.go and internal/collect/collectors/sshd/sshd.go: the include-resolved sshd
  configuration and the collector that builds it. The parser's state is the record \<open>parser\<close>; what the
  code reads from its context is a parameter: \<open>ended n\<close> says that the n-th test of \<open>ctx.Err\<close> finds the
  scan over. The recursion through Include is on how many levels are left of \<open>maxIncludeDepth\<close>.
\<close>

section \<open>The fact\<close>

definition SSHDConfigID :: fact_id where "SSHDConfigID = ''sshd.config''"

record directive =
  d_keyword :: string
  d_value :: string
  d_file :: string
  d_line :: int
  d_in_match :: bool
  d_match :: string

record config_line =
  cl_file :: string
  cl_line :: int
  cl_text :: string

record sshd_config =
  sc_installed :: bool
  sc_files :: "string list"
  sc_directives :: "directive list"
  sc_unresolved :: "string list"
  sc_syntax :: "config_line list"
  sc_digests :: "string gomap"

definition empty_config :: sshd_config where
  "empty_config = \<lparr>sc_installed = False, sc_files = [], sc_directives = [], sc_unresolved = [],
     sc_syntax = [], sc_digests = []\<rparr>"

definition Effective :: "sshd_config \<Rightarrow> string \<Rightarrow> directive option" where
  "Effective c keyword =
     find (\<lambda>d. \<not> d_in_match d \<and> to_lower (d_keyword d) = to_lower keyword) (sc_directives c)"

definition AllOccurrences :: "sshd_config \<Rightarrow> string \<Rightarrow> directive list" where
  "AllOccurrences c keyword = filter (\<lambda>d. to_lower (d_keyword d) = to_lower keyword) (sc_directives c)"

text \<open>Go's map lookup: the empty string for a file without a digest.\<close>

definition digest_of :: "sshd_config \<Rightarrow> string \<Rightarrow> string" where
  "digest_of c f = (case lookup (sc_digests c) f of None \<Rightarrow> [] | Some s \<Rightarrow> s)"

section \<open>Lines\<close>

definition splitDirective :: "string \<Rightarrow> string \<times> string" where
  "splitDirective line =
     (if \<exists>c \<in> set line. c \<in> set [CHR '' '', CHR 0x09, CHR ''='']
      then
        (let sep = [CHR '' '', CHR 0x09, CHR ''=''];
             keyword = trim_space (takeWhile (\<lambda>c. c \<notin> set sep) line);
             value = trim_space (trim_left (dropWhile (\<lambda>c. c \<notin> set sep) line) sep);
             value' = (case cut_sub '' #'' value of None \<Rightarrow> value | Some (a, b) \<Rightarrow> trim_space a)
         in (keyword, value'))
      else (trim_space line, []))"

text \<open>What one line is, before the parser's state comes into it.\<close>

datatype line_kind =
    Blank
  | BadLine string
  | MatchAll
  | MatchBlock string
  | Include string
  | Setting string string

definition classify_line :: "string \<Rightarrow> line_kind" where
  "classify_line raw =
     (let line = trim_space (trim_suffix raw [CHR 0x0D]) in
      if line = [] \<or> has_prefix line ''#'' then Blank
      else
        (let (keyword, value) = splitDirective line in
         if keyword = [] then Blank
         else if trim_space value = [] then BadLine line
         else if to_lower keyword = ''match'' then
           (if equal_fold (trim_space value) ''all'' then MatchAll else MatchBlock value)
         else if to_lower keyword = ''include'' then Include value
         else Setting keyword value))"

section \<open>The parser\<close>

record parser =
  p_cfg :: sshd_config
  p_seen :: "string list"
  p_match :: string
  p_polls :: nat

definition maxIncludeDepth :: nat where "maxIncludeDepth = 8"

definition unresolved :: "string \<Rightarrow> parser \<Rightarrow> parser" where
  "unresolved what p = p\<lparr>p_cfg := (p_cfg p)\<lparr>sc_unresolved := sc_unresolved (p_cfg p) @ [what]\<rparr>\<rparr>"

text \<open>One match of one pattern. \<open>parse\<close> is \<open>parseFile\<close> one level deeper.\<close>

definition expand_match ::
  "host \<Rightarrow> (nat \<Rightarrow> bool) \<Rightarrow> (string \<Rightarrow> string \<Rightarrow> parser \<Rightarrow> parser) \<Rightarrow> parser \<Rightarrow> string \<Rightarrow> parser" where
  "expand_match h ended parse p m =
     (if m \<in> set (p_seen p) then p
      else
        (let p1 = p\<lparr>p_polls := Suc (p_polls p)\<rparr> in
         if ended (p_polls p) then unresolved m p1
         else
           (case h_read_file h m 0 of
              Inl e \<Rightarrow> unresolved m p1
            | Inr res \<Rightarrow>
                (if \<not> rr_truncated res \<and> NotText (rr_data res) \<noteq> None then unresolved m p1
                 else if rr_truncated res then unresolved m p1
                 else parse m (rr_data res)
                   (p1\<lparr>p_cfg := (p_cfg p1)\<lparr>sc_digests := put m (rr_sha256 res) (sc_digests (p_cfg p1))\<rparr>\<rparr>)))))"

definition absolute_pattern :: "string \<Rightarrow> string" where
  "absolute_pattern pat = (if has_prefix pat ''/'' then pat else ''/etc/ssh/'' @ pat)"

definition expand_pattern ::
  "host \<Rightarrow> (nat \<Rightarrow> bool) \<Rightarrow> (string \<Rightarrow> string \<Rightarrow> parser \<Rightarrow> parser) \<Rightarrow> parser \<Rightarrow> string \<Rightarrow> parser" where
  "expand_pattern h ended parse p pat =
     (let pattern = absolute_pattern pat in
      case h_glob h pattern of
        Inl e \<Rightarrow> unresolved pattern p
      | Inr [] \<Rightarrow> unresolved pattern p
      | Inr ms \<Rightarrow> foldl (expand_match h ended parse) p (sort ms))"

text \<open>\<open>None\<close> is a call at \<open>maxIncludeDepth\<close>.\<close>

definition expandInclude ::
  "host \<Rightarrow> (nat \<Rightarrow> bool) \<Rightarrow> (string \<Rightarrow> string \<Rightarrow> parser \<Rightarrow> parser) option \<Rightarrow> string \<Rightarrow> parser \<Rightarrow> parser" where
  "expandInclude h ended parse patterns p =
     (case parse of
        None \<Rightarrow> unresolved (patterns @ '' (include depth limit reached)'') p
      | Some f \<Rightarrow> foldl (expand_pattern h ended f) p (str_fields patterns))"

definition parse_line ::
  "host \<Rightarrow> (nat \<Rightarrow> bool) \<Rightarrow> (string \<Rightarrow> string \<Rightarrow> parser \<Rightarrow> parser) option \<Rightarrow> string \<Rightarrow>
     parser \<Rightarrow> nat \<times> string \<Rightarrow> parser" where
  "parse_line h ended parse path p = (\<lambda>(n, raw).
     (case classify_line raw of
        Blank \<Rightarrow> p
      | BadLine line \<Rightarrow> p\<lparr>p_cfg := (p_cfg p)\<lparr>sc_syntax := sc_syntax (p_cfg p)
            @ [\<lparr>cl_file = path, cl_line = int n, cl_text = line\<rparr>]\<rparr>\<rparr>
      | MatchAll \<Rightarrow> p\<lparr>p_match := []\<rparr>
      | MatchBlock v \<Rightarrow> p\<lparr>p_match := v\<rparr>
      | Include v \<Rightarrow> expandInclude h ended parse v p
      | Setting k v \<Rightarrow> p\<lparr>p_cfg := (p_cfg p)\<lparr>sc_directives := sc_directives (p_cfg p)
            @ [\<lparr>d_keyword = k, d_value = v, d_file = path, d_line = int n,
                d_in_match = (p_match p \<noteq> []), d_match = p_match p\<rparr>]\<rparr>\<rparr>))"

definition enter_file :: "string \<Rightarrow> parser \<Rightarrow> parser" where
  "enter_file path p =
     p\<lparr>p_cfg := (p_cfg p)\<lparr>sc_files := sc_files (p_cfg p) @ [path]\<rparr>, p_seen := path # p_seen p\<rparr>"

text \<open>\<open>parseFile\<close> at depth \<open>maxIncludeDepth - left\<close>.\<close>

fun parseFile :: "host \<Rightarrow> (nat \<Rightarrow> bool) \<Rightarrow> nat \<Rightarrow> string \<Rightarrow> string \<Rightarrow> parser \<Rightarrow> parser" where
  "parseFile h ended left path data p =
     (let rec = (case left of 0 \<Rightarrow> None | Suc k \<Rightarrow> Some (parseFile h ended k));
          p1 = foldl (parse_line h ended rec path) (enter_file path p) (numbered_lines data)
      in p1\<lparr>p_match := p_match p\<rparr>)"

declare parseFile.simps [simp del]

section \<open>The collector\<close>

definition DefaultConfigPath :: string where "DefaultConfigPath = ''/etc/ssh/sshd_config''"

definition sshd_error :: "error_kind \<Rightarrow> string \<Rightarrow> fact_error" where
  "sshd_error k m = \<lparr>fe_fact = SSHDConfigID, fe_kind = k, fe_msg = m, fe_path = DefaultConfigPath\<rparr>"

definition collectConfig :: "host \<Rightarrow> (nat \<Rightarrow> bool) \<Rightarrow> fact_error + sshd_config" where
  "collectConfig h ended =
     (case h_read_file h DefaultConfigPath 0 of
        Inl SysNotExist \<Rightarrow> Inr empty_config
      | Inl SysPermission \<Rightarrow> Inl (sshd_error ErrPermission ''cannot read sshd configuration'')
      | Inl SysNotRegular \<Rightarrow> Inl (sshd_error ErrParse ''sshd configuration path is not a regular file'')
      | Inl e \<Rightarrow> Inl (sshd_error ErrInternal (sys_error_str e))
      | Inr res \<Rightarrow>
          (if rr_truncated res then Inl (sshd_error ErrTruncated ''sshd configuration exceeded the read cap'')
           else
             (case NotText (rr_data res) of
                Some why \<Rightarrow> Inl (MalformedError SSHDConfigID DefaultConfigPath why)
              | None \<Rightarrow>
                  Inr (p_cfg (parseFile h ended maxIncludeDepth DefaultConfigPath (rr_data res)
                    \<lparr>p_cfg = empty_config\<lparr>sc_installed := True,
                       sc_digests := [(DefaultConfigPath, rr_sha256 res)]\<rparr>,
                     p_seen = [], p_match = [], p_polls = 0\<rparr>)))))"

text \<open>\<open>Collect\<close>, with \<open>wrap\<close> the fact set's view of the fact: it never returns an error.\<close>

definition Collect :: "(sshd_config \<Rightarrow> 'v) \<Rightarrow> host \<Rightarrow> (nat \<Rightarrow> bool) \<Rightarrow> 'v fact_set \<Rightarrow> 'v fact_set" where
  "Collect wrap h ended fs =
     (case collectConfig h ended of
        Inl e \<Rightarrow> PutError e fs
      | Inr cfg \<Rightarrow> Put \<lparr>fact_id = SSHDConfigID, fact_version = 1, opaque_version = None, payload = wrap cfg\<rparr> fs)"

section \<open>What Include means\<close>

text \<open>
  The declarative reading the parser is checked against: which files are part of the configuration,
  each with the Match scope it is included under, and which lines of theirs set something.
\<close>

definition reads :: "host \<Rightarrow> string \<Rightarrow> string \<Rightarrow> bool" where
  "reads h f data \<longleftrightarrow>
     (\<exists>res. h_read_file h f 0 = Inr res \<and> \<not> rr_truncated res \<and> NotText data = None \<and> rr_data res = data)"

definition scope_step :: "string \<Rightarrow> string \<Rightarrow> string" where
  "scope_step scope raw =
     (case classify_line raw of MatchAll \<Rightarrow> [] | MatchBlock v \<Rightarrow> v | _ \<Rightarrow> scope)"

definition scope_after :: "string \<Rightarrow> string list \<Rightarrow> string" where
  "scope_after scope raws = foldl scope_step scope raws"

inductive included :: "host \<Rightarrow> string \<Rightarrow> string \<Rightarrow> bool" for h where
  root: "included h DefaultConfigPath []"
| via: "included h g scope \<Longrightarrow> reads h g data \<Longrightarrow> split_on (CHR 0x0A) data = pre @ raw # post \<Longrightarrow>
     classify_line raw = Include v \<Longrightarrow> pat \<in> set (str_fields v) \<Longrightarrow>
     h_glob h (absolute_pattern pat) = Inr ms \<Longrightarrow> m \<in> set ms \<Longrightarrow> included h m (scope_after scope pre)"

definition line_at :: "host \<Rightarrow> string \<Rightarrow> nat \<Rightarrow> string \<Rightarrow> string \<Rightarrow> bool" where
  "line_at h f n raw scope \<longleftrightarrow>
     (\<exists>data sc pre post. included h f sc \<and> reads h f data \<and> split_on (CHR 0x0A) data = pre @ raw # post
        \<and> n = Suc (length pre) \<and> scope = scope_after sc pre)"

section \<open>The parser's invariant\<close>

definition directive_ok :: "host \<Rightarrow> directive \<Rightarrow> bool" where
  "directive_ok h d \<longleftrightarrow>
     (\<exists>n raw. d_line d = int n \<and> line_at h (d_file d) n raw (d_match d) \<and> classify_line raw = Setting (d_keyword d) (d_value d))
     \<and> d_in_match d = (d_match d \<noteq> [])"

definition syntax_ok :: "host \<Rightarrow> config_line \<Rightarrow> bool" where
  "syntax_ok h l \<longleftrightarrow>
     (\<exists>n raw scope. cl_line l = int n \<and> line_at h (cl_file l) n raw scope \<and> classify_line raw = BadLine (cl_text l))"

definition pattern_done :: "host \<Rightarrow> sshd_config \<Rightarrow> string \<Rightarrow> bool" where
  "pattern_done h c pat \<longleftrightarrow>
     absolute_pattern pat \<in> set (sc_unresolved c)
     \<or> (\<exists>ms. h_glob h (absolute_pattern pat) = Inr ms \<and> ms \<noteq> []
          \<and> (\<forall>m \<in> set ms. m \<in> set (sc_files c) \<or> m \<in> set (sc_unresolved c)))"

definition line_done :: "host \<Rightarrow> sshd_config \<Rightarrow> string \<Rightarrow> nat \<Rightarrow> string \<Rightarrow> bool" where
  "line_done h c f n raw \<longleftrightarrow>
     (case classify_line raw of
        Setting k v \<Rightarrow> (\<exists>d \<in> set (sc_directives c). d_file d = f \<and> d_line d = int n \<and> d_keyword d = k \<and> d_value d = v)
      | BadLine l \<Rightarrow> \<lparr>cl_file = f, cl_line = int n, cl_text = l\<rparr> \<in> set (sc_syntax c)
      | Include v \<Rightarrow> v @ '' (include depth limit reached)'' \<in> set (sc_unresolved c)
          \<or> (\<forall>pat \<in> set (str_fields v). pattern_done h c pat)
      | _ \<Rightarrow> True)"

definition grows :: "sshd_config \<Rightarrow> sshd_config \<Rightarrow> bool" where
  "grows c c' \<longleftrightarrow> prefix (sc_files c) (sc_files c') \<and> prefix (sc_directives c) (sc_directives c')
     \<and> prefix (sc_unresolved c) (sc_unresolved c') \<and> prefix (sc_syntax c) (sc_syntax c')
     \<and> sc_installed c = sc_installed c'"

text \<open>\<open>S\<close> holds the files that are being parsed.\<close>

definition parser_inv :: "host \<Rightarrow> string set \<Rightarrow> parser \<Rightarrow> bool" where
  "parser_inv h S p \<longleftrightarrow>
     set (p_seen p) = set (sc_files (p_cfg p)) \<and> distinct (sc_files (p_cfg p)) \<and> S \<subseteq> set (p_seen p)
     \<and> (\<forall>f \<in> set (sc_files (p_cfg p)). \<exists>data scope. reads h f data \<and> included h f scope)
     \<and> (\<forall>d \<in> set (sc_directives (p_cfg p)). directive_ok h d)
     \<and> (\<forall>l \<in> set (sc_syntax (p_cfg p)). syntax_ok h l)
     \<and> (\<forall>f \<in> set (sc_files (p_cfg p)) - S. \<forall>data. reads h f data \<longrightarrow>
          (\<forall>(n, raw) \<in> set (numbered_lines data). line_done h (p_cfg p) f n raw))"

lemma reads_unique: "reads h f a \<Longrightarrow> reads h f b \<Longrightarrow> a = b"
  by (auto simp: reads_def)

lemma grows_refl [simp, intro]: "grows c c"
  by (simp add: grows_def)

lemma grows_trans: "grows a b \<Longrightarrow> grows b c \<Longrightarrow> grows a c"
  unfolding grows_def using prefix_order.trans by metis

lemma grows_sets:
  assumes "grows c c'"
  shows "f \<in> set (sc_files c) \<Longrightarrow> f \<in> set (sc_files c')" "d \<in> set (sc_directives c) \<Longrightarrow> d \<in> set (sc_directives c')"
    "u \<in> set (sc_unresolved c) \<Longrightarrow> u \<in> set (sc_unresolved c')" "l \<in> set (sc_syntax c) \<Longrightarrow> l \<in> set (sc_syntax c')"
  using assms set_mono_prefix by (auto simp: grows_def)

lemma pattern_done_mono: "grows c c' \<Longrightarrow> pattern_done h c pat \<Longrightarrow> pattern_done h c' pat"
  unfolding pattern_done_def using grows_sets[of c c'] by meson

lemma line_done_mono: "grows c c' \<Longrightarrow> line_done h c f n raw \<Longrightarrow> line_done h c' f n raw"
  using pattern_done_mono[of c c' h] grows_sets[of c c']
  by (cases "classify_line raw") (simp_all add: line_done_def, blast+)

lemma parser_inv_seen: "parser_inv h S p \<Longrightarrow> set (p_seen p) = set (sc_files (p_cfg p))"
  by (simp add: parser_inv_def)

text \<open>Changes that leave the files, the directives and the syntax errors alone.\<close>

lemma parser_inv_same:
  assumes "parser_inv h S p" "sc_files (p_cfg q) = sc_files (p_cfg p)" "p_seen q = p_seen p"
    "sc_directives (p_cfg q) = sc_directives (p_cfg p)" "sc_syntax (p_cfg q) = sc_syntax (p_cfg p)"
    "grows (p_cfg p) (p_cfg q)"
  shows "parser_inv h S q"
  using assms line_done_mono[OF assms(6)] unfolding parser_inv_def by fastforce

lemma unresolved_simps [simp]:
  "sc_files (p_cfg (unresolved w p)) = sc_files (p_cfg p)"
  "sc_directives (p_cfg (unresolved w p)) = sc_directives (p_cfg p)"
  "sc_syntax (p_cfg (unresolved w p)) = sc_syntax (p_cfg p)"
  "sc_unresolved (p_cfg (unresolved w p)) = sc_unresolved (p_cfg p) @ [w]"
  "sc_installed (p_cfg (unresolved w p)) = sc_installed (p_cfg p)"
  "p_seen (unresolved w p) = p_seen p"
  "p_match (unresolved w p) = p_match p"
  by (simp_all add: unresolved_def)

text \<open>What a run of a part of the parser keeps: the invariant, the growth of the fact, the scope.\<close>

definition keeps :: "host \<Rightarrow> string set \<Rightarrow> parser \<Rightarrow> parser \<Rightarrow> bool" where
  "keeps h S p q \<longleftrightarrow> parser_inv h S q \<and> grows (p_cfg p) (p_cfg q) \<and> p_match q = p_match p"

lemma keeps_trans: "keeps h S p q \<Longrightarrow> keeps h S q r \<Longrightarrow> keeps h S p r"
  using grows_trans by (auto simp: keeps_def)

lemma keeps_unresolved: "parser_inv h S p \<Longrightarrow> keeps h S p (unresolved w p)"
  unfolding keeps_def by (auto simp: grows_def intro: parser_inv_same)

definition parses :: "host \<Rightarrow> (string \<Rightarrow> string \<Rightarrow> parser \<Rightarrow> parser) \<Rightarrow> bool" where
  "parses h parse \<longleftrightarrow>
     (\<forall>S path data p. parser_inv h S p \<longrightarrow> reads h path data \<longrightarrow> path \<notin> set (p_seen p) \<longrightarrow>
        included h path (p_match p) \<longrightarrow>
        keeps h S p (parse path data p) \<and> path \<in> set (sc_files (p_cfg (parse path data p))))"

lemma expand_match_keeps:
  assumes "parses h parse" "parser_inv h S p" "included h m (p_match p)"
  shows "keeps h S p (expand_match h ended parse p m)
    \<and> (let c = p_cfg (expand_match h ended parse p m) in m \<in> set (sc_files c) \<or> m \<in> set (sc_unresolved c))"
proof (cases "m \<in> set (p_seen p)")
  case True
  then show ?thesis using assms(2) by (auto simp: expand_match_def keeps_def parser_inv_seen)
next
  case False
  let ?p1 = "p\<lparr>p_polls := Suc (p_polls p)\<rparr>"
  have i1: "parser_inv h S ?p1" by (rule parser_inv_same[OF assms(2)]) auto
  have bad: "keeps h S p (unresolved m ?p1)"
    using keeps_unresolved[OF i1, of m] by (simp add: keeps_def)
  show ?thesis
  proof (cases "\<exists>res. h_read_file h m 0 = Inr res \<and> \<not> rr_truncated res \<and> NotText (rr_data res) = None
      \<and> \<not> ended (p_polls p)")
    case True
    then obtain res where res: "h_read_file h m 0 = Inr res" "\<not> rr_truncated res"
      "NotText (rr_data res) = None" "\<not> ended (p_polls p)" by blast
    let ?p2 = "?p1\<lparr>p_cfg := (p_cfg ?p1)\<lparr>sc_digests := put m (rr_sha256 res) (sc_digests (p_cfg ?p1))\<rparr>\<rparr>"
    have i2: "parser_inv h S ?p2" by (rule parser_inv_same[OF i1]) (auto simp: grows_def)
    have "reads h m (rr_data res)" using res by (auto simp: reads_def)
    then have "keeps h S ?p2 (parse m (rr_data res) ?p2) \<and> m \<in> set (sc_files (p_cfg (parse m (rr_data res) ?p2)))"
      using assms(1)[unfolded parses_def, rule_format, OF i2] False assms(3) by simp
    then show ?thesis using False res by (simp add: expand_match_def keeps_def grows_def)
  next
    case F: False
    then have "expand_match h ended parse p m = unresolved m ?p1"
      using False by (auto simp: expand_match_def Let_def split: sum.splits)
    then show ?thesis using bad by simp
  qed
qed

lemma expand_matches_keep:
  assumes "parses h parse"
  shows "parser_inv h S p \<Longrightarrow> \<forall>m \<in> set ms. included h m (p_match p) \<Longrightarrow>
    keeps h S p (foldl (expand_match h ended parse) p ms)
    \<and> (\<forall>m \<in> set ms. m \<in> set (sc_files (p_cfg (foldl (expand_match h ended parse) p ms)))
        \<or> m \<in> set (sc_unresolved (p_cfg (foldl (expand_match h ended parse) p ms))))"
proof (induction ms arbitrary: p)
  case Nil
  then show ?case by (simp add: keeps_def)
next
  case (Cons m ms)
  let ?q = "expand_match h ended parse p m"
  have q: "keeps h S p ?q" "m \<in> set (sc_files (p_cfg ?q)) \<or> m \<in> set (sc_unresolved (p_cfg ?q))"
    using expand_match_keeps[OF assms Cons.prems(1), of m ended] Cons.prems(2) by (auto simp: Let_def)
  have r: "keeps h S ?q (foldl (expand_match h ended parse) ?q ms)"
    and dn: "\<forall>m \<in> set ms. m \<in> set (sc_files (p_cfg (foldl (expand_match h ended parse) ?q ms)))
        \<or> m \<in> set (sc_unresolved (p_cfg (foldl (expand_match h ended parse) ?q ms)))"
    using Cons.IH[of ?q] q(1) Cons.prems(2) by (auto simp: keeps_def)
  have "grows (p_cfg ?q) (p_cfg (foldl (expand_match h ended parse) ?q ms))" using r by (simp add: keeps_def)
  then have "m \<in> set (sc_files (p_cfg (foldl (expand_match h ended parse) ?q ms)))
        \<or> m \<in> set (sc_unresolved (p_cfg (foldl (expand_match h ended parse) ?q ms)))"
    using q(2) grows_sets by blast
  then show ?case using keeps_trans[OF q(1) r] dn by simp
qed

lemma expand_pattern_keeps:
  assumes "parses h parse" "parser_inv h S p"
    and "\<And>ms m. h_glob h (absolute_pattern pat) = Inr ms \<Longrightarrow> m \<in> set ms \<Longrightarrow> included h m (p_match p)"
  shows "keeps h S p (expand_pattern h ended parse p pat)
    \<and> pattern_done h (p_cfg (expand_pattern h ended parse p pat)) pat"
proof (cases "\<exists>ms. h_glob h (absolute_pattern pat) = Inr ms \<and> ms \<noteq> []")
  case True
  then obtain ms where ms: "h_glob h (absolute_pattern pat) = Inr ms" "ms \<noteq> []" by blast
  then have e: "expand_pattern h ended parse p pat = foldl (expand_match h ended parse) p (sort ms)"
    by (auto simp: expand_pattern_def Let_def split: list.split)
  have "\<forall>m \<in> set (sort ms). included h m (p_match p)" using assms(3)[OF ms(1)] by simp
  from expand_matches_keep[OF assms(1,2) this] show ?thesis using ms by (auto simp: e pattern_done_def)
next
  case False
  then have "expand_pattern h ended parse p pat = unresolved (absolute_pattern pat) p"
    by (auto simp: expand_pattern_def Let_def split: sum.splits list.splits)
  then show ?thesis using keeps_unresolved[OF assms(2)] by (simp add: pattern_done_def)
qed

lemma expand_patterns_keep:
  assumes "parses h parse"
  shows "parser_inv h S p \<Longrightarrow>
    (\<And>pat ms m. pat \<in> set pats \<Longrightarrow> h_glob h (absolute_pattern pat) = Inr ms \<Longrightarrow> m \<in> set ms \<Longrightarrow> included h m (p_match p)) \<Longrightarrow>
    keeps h S p (foldl (expand_pattern h ended parse) p pats)
    \<and> (\<forall>pat \<in> set pats. pattern_done h (p_cfg (foldl (expand_pattern h ended parse) p pats)) pat)"
proof (induction pats arbitrary: p)
  case Nil
  then show ?case by (simp add: keeps_def)
next
  case (Cons pat pats)
  let ?q = "expand_pattern h ended parse p pat"
  have q: "keeps h S p ?q \<and> pattern_done h (p_cfg ?q) pat"
    by (rule expand_pattern_keeps[OF assms Cons.prems(1)]) (use Cons.prems(2) in auto)
  have r: "keeps h S ?q (foldl (expand_pattern h ended parse) ?q pats)
    \<and> (\<forall>pat \<in> set pats. pattern_done h (p_cfg (foldl (expand_pattern h ended parse) ?q pats)) pat)"
    by (rule Cons.IH) (use q Cons.prems(2) in \<open>auto simp: keeps_def\<close>)
  then have "pattern_done h (p_cfg (foldl (expand_pattern h ended parse) ?q pats)) pat"
    using q pattern_done_mono by (auto simp: keeps_def)
  then show ?case using q r keeps_trans by auto
qed

lemma line_at_included:
  assumes "line_at h f n raw scope" "classify_line raw = Include v" "pat \<in> set (str_fields v)"
    "h_glob h (absolute_pattern pat) = Inr ms" "m \<in> set ms"
  shows "included h m scope"
  using assms included.via[OF _ _ _ assms(2,3,4,5)] unfolding line_at_def by blast

lemma expandInclude_keeps:
  assumes "case parse of None \<Rightarrow> True | Some f \<Rightarrow> parses h f" "parser_inv h S p"
    "line_at h path n raw (p_match p)" "classify_line raw = Include v"
  shows "keeps h S p (expandInclude h ended parse v p)
    \<and> line_done h (p_cfg (expandInclude h ended parse v p)) path n raw"
proof (cases parse)
  case None
  then show ?thesis using keeps_unresolved[OF assms(2)] assms(4) by (simp add: expandInclude_def line_done_def)
next
  case (Some f)
  have "parses h f" using assms(1) Some by simp
  then have "keeps h S p (foldl (expand_pattern h ended f) p (str_fields v))
    \<and> (\<forall>pat \<in> set (str_fields v). pattern_done h (p_cfg (foldl (expand_pattern h ended f) p (str_fields v))) pat)"
    by (rule expand_patterns_keep[OF _ assms(2)]) (rule line_at_included[OF assms(3,4)])
  then show ?thesis using Some assms(4) by (simp add: expandInclude_def line_done_def)
qed

lemma parser_inv_setting:
  assumes "parser_inv h S p" "directive_ok h d"
  shows "parser_inv h S (p\<lparr>p_cfg := (p_cfg p)\<lparr>sc_directives := sc_directives (p_cfg p) @ [d]\<rparr>\<rparr>)"
proof -
  let ?q = "p\<lparr>p_cfg := (p_cfg p)\<lparr>sc_directives := sc_directives (p_cfg p) @ [d]\<rparr>\<rparr>"
  have "grows (p_cfg p) (p_cfg ?q)" by (auto simp: grows_def)
  from line_done_mono[OF this] show ?thesis using assms unfolding parser_inv_def by fastforce
qed

lemma parser_inv_syntax:
  assumes "parser_inv h S p" "syntax_ok h l"
  shows "parser_inv h S (p\<lparr>p_cfg := (p_cfg p)\<lparr>sc_syntax := sc_syntax (p_cfg p) @ [l]\<rparr>\<rparr>)"
proof -
  let ?q = "p\<lparr>p_cfg := (p_cfg p)\<lparr>sc_syntax := sc_syntax (p_cfg p) @ [l]\<rparr>\<rparr>"
  have "grows (p_cfg p) (p_cfg ?q)" by (auto simp: grows_def)
  from line_done_mono[OF this] show ?thesis using assms unfolding parser_inv_def by fastforce
qed

lemma parse_line_inv:
  assumes "case parse of None \<Rightarrow> True | Some f \<Rightarrow> parses h f" "parser_inv h S p" "line_at h path n raw (p_match p)"
  shows "let q = parse_line h ended parse path p (n, raw) in
    parser_inv h S q \<and> grows (p_cfg p) (p_cfg q) \<and> line_done h (p_cfg q) path n raw
    \<and> p_match q = scope_step (p_match p) raw"
proof (cases "classify_line raw")
  case (Include v)
  then show ?thesis using expandInclude_keeps[OF assms Include, of ended]
    by (simp add: parse_line_def keeps_def scope_step_def)
next
  case (Setting k v)
  let ?d = "\<lparr>d_keyword = k, d_value = v, d_file = path, d_line = int n, d_in_match = (p_match p \<noteq> []), d_match = p_match p\<rparr>"
  have "directive_ok h ?d" using assms(3) Setting by (auto simp: directive_ok_def)
  from parser_inv_setting[OF assms(2) this] show ?thesis
    using Setting by (simp add: parse_line_def grows_def line_done_def scope_step_def)
next
  case (BadLine l)
  let ?l = "\<lparr>cl_file = path, cl_line = int n, cl_text = l\<rparr>"
  have "syntax_ok h ?l" using assms(3) BadLine by (auto simp: syntax_ok_def)
  from parser_inv_syntax[OF assms(2) this] show ?thesis
    using BadLine by (simp add: parse_line_def grows_def line_done_def scope_step_def)
qed (use assms(2) in \<open>auto simp: parse_line_def line_done_def scope_step_def intro: parser_inv_same\<close>)

lemma parse_lines_inv:
  assumes "case parse of None \<Rightarrow> True | Some f \<Rightarrow> parses h f" "included h path sc" "reads h path data"
  shows "split_on (CHR 0x0A) data = pre @ mid @ post \<Longrightarrow> p_match p = scope_after sc pre \<Longrightarrow> parser_inv h S p \<Longrightarrow>
    let q = foldl (parse_line h ended parse path) p (List.enumerate (Suc (length pre)) mid) in
    parser_inv h S q \<and> grows (p_cfg p) (p_cfg q)
    \<and> (\<forall>(n, raw) \<in> set (List.enumerate (Suc (length pre)) mid). line_done h (p_cfg q) path n raw)
    \<and> p_match q = scope_after sc (pre @ mid)"
proof (induction mid arbitrary: pre p)
  case (Cons raw mid)
  let ?q = "parse_line h ended parse path p (Suc (length pre), raw)"
  let ?r = "foldl (parse_line h ended parse path) ?q (List.enumerate (Suc (length (pre @ [raw]))) mid)"
  have "split_on (CHR 0x0A) data = pre @ raw # (mid @ post)" using Cons.prems(1) by simp
  then have "line_at h path (Suc (length pre)) raw (p_match p)"
    using assms(2,3) Cons.prems(2) unfolding line_at_def by blast
  from parse_line_inv[OF assms(1) Cons.prems(3) this, of ended]
  have q: "parser_inv h S ?q" "grows (p_cfg p) (p_cfg ?q)" "line_done h (p_cfg ?q) path (Suc (length pre)) raw"
    "p_match ?q = scope_step (p_match p) raw" by (simp_all add: Let_def)
  have "let q = ?r in parser_inv h S q \<and> grows (p_cfg ?q) (p_cfg q)
    \<and> (\<forall>(n, raw) \<in> set (List.enumerate (Suc (length (pre @ [raw]))) mid). line_done h (p_cfg q) path n raw)
    \<and> p_match q = scope_after sc ((pre @ [raw]) @ mid)"
    by (rule Cons.IH) (use Cons.prems q in \<open>simp_all add: scope_after_def\<close>)
  then have r: "parser_inv h S ?r" "grows (p_cfg ?q) (p_cfg ?r)"
    "\<forall>(n, raw) \<in> set (List.enumerate (Suc (length (pre @ [raw]))) mid). line_done h (p_cfg ?r) path n raw"
    "p_match ?r = scope_after sc (pre @ raw # mid)"
    by (simp_all add: Let_def)
  then show ?case using line_done_mono[OF r(2) q(3)] grows_trans[OF q(2) r(2)] r(4) by (simp add: Let_def)
qed simp

lemma parser_inv_enter:
  assumes "parser_inv h S p" "reads h path data" "path \<notin> set (p_seen p)" "included h path sc"
  shows "parser_inv h (insert path S) (enter_file path p)"
proof -
  have g: "grows (p_cfg p) (p_cfg (enter_file path p))" by (auto simp: grows_def enter_file_def)
  have "line_done h (p_cfg (enter_file path p)) f n raw"
    if "f \<in> set (sc_files (p_cfg p)) - S" "reads h f d" "(n, raw) \<in> set (numbered_lines d)" for f d n raw
    using line_done_mono[OF g] assms(1) that unfolding parser_inv_def by fastforce
  then show ?thesis using assms by (auto simp: parser_inv_def enter_file_def)
qed

lemma parser_inv_leave:
  assumes "parser_inv h (insert path S) p" "reads h path data" "S \<subseteq> set (p_seen p)"
    "\<forall>(n, raw) \<in> set (numbered_lines data). line_done h (p_cfg p) path n raw"
  shows "parser_inv h S (p\<lparr>p_match := m\<rparr>)"
proof -
  have "line_done h (p_cfg p) f n raw"
    if "f \<in> set (sc_files (p_cfg p)) - S" "reads h f d" "(n, raw) \<in> set (numbered_lines d)" for f d n raw
  proof (cases "f = path")
    case True
    then have "d = data" using that(2) assms(2) reads_unique by blast
    then show ?thesis using True that(3) assms(4) by auto
  next
    case False
    then show ?thesis using assms(1) that unfolding parser_inv_def by fastforce
  qed
  then show ?thesis using assms(1,3) by (auto simp: parser_inv_def)
qed

lemma parser_inv_progress: "parser_inv h S p \<Longrightarrow> S \<subseteq> set (p_seen p)"
  unfolding parser_inv_def by blast

lemma parses_step:
  assumes ok: "case rec of None \<Rightarrow> True | Some f \<Rightarrow> parses h f"
    and p: "parser_inv h S p" "reads h path data" "path \<notin> set (p_seen p)" "included h path (p_match p)"
    and q_def: "q = (foldl (parse_line h ended rec path) (enter_file path p) (numbered_lines data))\<lparr>p_match := p_match p\<rparr>"
  shows "keeps h S p q \<and> path \<in> set (sc_files (p_cfg q))"
proof -
  let ?e = "enter_file path p"
  let ?r = "foldl (parse_line h ended rec path) ?e (numbered_lines data)"
  have "let r = foldl (parse_line h ended rec path) ?e (List.enumerate (Suc (length ([]::string list))) (split_on (CHR 0x0A) data)) in
      parser_inv h (insert path S) r \<and> grows (p_cfg ?e) (p_cfg r)
      \<and> (\<forall>(n, raw) \<in> set (List.enumerate (Suc (length ([]::string list))) (split_on (CHR 0x0A) data)). line_done h (p_cfg r) path n raw)
      \<and> p_match r = scope_after (p_match p) ([] @ split_on (CHR 0x0A) data)"
    by (rule parse_lines_inv[OF ok p(4,2), where pre = "[]" and post = "[]"])
      (use parser_inv_enter[OF p] in \<open>simp_all add: scope_after_def enter_file_def\<close>)
  then have r: "parser_inv h (insert path S) ?r" "grows (p_cfg ?e) (p_cfg ?r)"
    "\<forall>(n, raw) \<in> set (numbered_lines data). line_done h (p_cfg ?r) path n raw"
    by (simp_all add: Let_def numbered_lines_def)
  have "S \<subseteq> set (p_seen ?r)" using parser_inv_progress[OF r(1)] by blast
  from parser_inv_leave[OF r(1) p(2) this r(3)]
  have inv: "parser_inv h S q" by (simp add: q_def)
  have "path \<in> set (sc_files (p_cfg ?e))" "grows (p_cfg p) (p_cfg ?e)" by (auto simp: enter_file_def grows_def)
  then show ?thesis using inv r(2) grows_trans grows_sets(1)[OF r(2)] by (auto simp: keeps_def q_def)
qed

lemma parseFile_parses: "parses h (parseFile h ended left)"
proof (induction left)
  case 0
  show ?case unfolding parses_def
  proof (intro allI impI)
    fix S path data p
    assume "parser_inv h S p" "reads h path data" "path \<notin> set (p_seen p)" "included h path (p_match p)"
    from parses_step[OF _ this refl, of None ended]
    show "keeps h S p (parseFile h ended 0 path data p) \<and> path \<in> set (sc_files (p_cfg (parseFile h ended 0 path data p)))"
      by (simp add: parseFile.simps)
  qed
next
  case (Suc k)
  show ?case unfolding parses_def
  proof (intro allI impI)
    fix S path data p
    assume "parser_inv h S p" "reads h path data" "path \<notin> set (p_seen p)" "included h path (p_match p)"
    from parses_step[OF _ this refl, of "Some (parseFile h ended k)" ended] Suc
    show "keeps h S p (parseFile h ended (Suc k) path data p)
      \<and> path \<in> set (sc_files (p_cfg (parseFile h ended (Suc k) path data p)))"
      by (simp add: parseFile.simps[of h ended "Suc k"])
  qed
qed

text \<open>What the collector returns when there is a configuration.\<close>

definition collected :: "host \<Rightarrow> sshd_config \<Rightarrow> bool" where
  "collected h c \<longleftrightarrow>
     (\<exists>p. parser_inv h {} p \<and> p_cfg p = c) \<and> DefaultConfigPath \<in> set (sc_files c)"

lemma collectConfig_collected:
  assumes "collectConfig h ended = Inr c" "sc_installed c"
  shows "collected h c"
proof -
  obtain res where res: "h_read_file h DefaultConfigPath 0 = Inr res" "\<not> rr_truncated res" "NotText (rr_data res) = None"
    using assms by (auto simp: collectConfig_def empty_config_def split: sum.splits sys_error.splits if_splits option.splits)
  define p where "p = \<lparr>p_cfg = empty_config\<lparr>sc_installed := True, sc_digests := [(DefaultConfigPath, rr_sha256 res)]\<rparr>,
    p_seen = [], p_match = [], p_polls = 0\<rparr>"
  have c: "c = p_cfg (parseFile h ended maxIncludeDepth DefaultConfigPath (rr_data res) p)"
    using assms(1) res by (simp add: collectConfig_def p_def)
  have "parser_inv h {} p" by (simp add: parser_inv_def p_def empty_config_def)
  moreover have "reads h DefaultConfigPath (rr_data res)" using res by (auto simp: reads_def)
  moreover have "DefaultConfigPath \<notin> set (p_seen p)" "included h DefaultConfigPath (p_match p)"
    by (simp_all add: p_def included.root)
  ultimately show ?thesis
    using parseFile_parses[of h ended maxIncludeDepth] c unfolding parses_def collected_def keeps_def by blast
qed

lemma collected_line:
  assumes "collected h c" "f \<in> set (sc_files c)" "reads h f data" "(n, raw) \<in> set (numbered_lines data)"
  shows "line_done h c f n raw"
  using assms unfolding collected_def parser_inv_def by fastforce

lemma collected_files:
  assumes "collected h c" "sc_unresolved c = []"
  shows "included h f scope \<Longrightarrow> f \<in> set (sc_files c)"
proof (induction rule: included.induct)
  case root
  then show ?case using assms(1) by (simp add: collected_def)
next
  case (via g scope data pre raw post v pat ms m)
  have "(Suc (length pre), raw) \<in> set (numbered_lines data)"
    by (simp add: numbered_lines_def via.hyps in_set_enumerate_eq nth_append)
  from collected_line[OF assms(1) via.IH via.hyps(2) this] show ?case
    using via.hyps assms(2) by (auto simp: line_done_def pattern_done_def)
qed

text \<open>The fact only grows at its end, so a value once effective stays effective.\<close>

lemma Effective_grows: "Effective c kw = Some d \<Longrightarrow> grows c c' \<Longrightarrow> Effective c' kw = Some d"
  by (auto simp: Effective_def grows_def prefix_def find_append)

lemma parse_lines_no_include:
  assumes "\<forall>r \<in> set raws. \<forall>v. classify_line r \<noteq> Include v"
    and "\<And>a r b k v. raws = a @ r # b \<Longrightarrow> classify_line r = Setting k v \<Longrightarrow> to_lower k = to_lower kw \<Longrightarrow>
      scope_after (p_match p) a \<noteq> []"
    and "Effective (p_cfg p) kw = None"
  shows "Effective (p_cfg (foldl (parse_line h ended rec path) p (List.enumerate n raws))) kw = None
    \<and> p_match (foldl (parse_line h ended rec path) p (List.enumerate n raws)) = scope_after (p_match p) raws"
  using assms
proof (induction raws arbitrary: p n)
  case (Cons r raws)
  let ?q = "parse_line h ended rec path p (n, r)"
  have m: "p_match ?q = scope_step (p_match p) r"
    using Cons.prems(1) by (auto simp: parse_line_def scope_step_def split: line_kind.splits)
  have e: "Effective (p_cfg ?q) kw = None"
    using Cons.prems(1) Cons.prems(2)[of "[]" r raws] Cons.prems(3)
    by (auto simp: parse_line_def Effective_def find_append scope_after_def split: line_kind.splits)
  have "scope_after (p_match ?q) a \<noteq> []"
    if "raws = a @ r' # b" "classify_line r' = Setting k v" "to_lower k = to_lower kw" for a r' b k v
    using Cons.prems(2)[of "r # a" r' b k v] that m by (simp add: scope_after_def)
  from Cons.IH[where n = "Suc n", OF _ this e] Cons.prems(1) show ?case
    by (simp add: m scope_after_def)
qed (simp add: scope_after_def)

section \<open>Examples\<close>

text \<open>A host that holds the given text files and nothing else, in which a pattern matches itself.\<close>

definition file_host :: "string gomap \<Rightarrow> host" where
  "file_host files =
     \<lparr>h_stat = (\<lambda>_. Inl SysUnsupported),
      h_read_file = (\<lambda>p _. case lookup files p of None \<Rightarrow> Inl SysNotExist
        | Some d \<Rightarrow> Inr \<lparr>rr_path = p, rr_data = d, rr_size = int (length d), rr_truncated = False, rr_sha256 = []\<rparr>),
      h_read_opaque = (\<lambda>_ _. Inl SysUnsupported), h_read_dir = (\<lambda>_ _. Inl SysUnsupported),
      h_readlink = (\<lambda>_. Inl SysUnsupported),
      h_glob = (\<lambda>pat. Inr (filter ((=) pat) (keys files))), h_euid = 0\<rparr>"

definition lines_of :: "string list \<Rightarrow> string" where
  "lines_of ls = join [CHR 0x0A] ls"

text \<open>A drop-in included first inside a Match block and then again at global scope.\<close>

definition twice_included :: host where
  "twice_included = file_host
     [(DefaultConfigPath, lines_of [''Match User backup'', ''Include /etc/ssh/extra'', ''Match all'', ''Include /etc/ssh/extra'']),
      (''/etc/ssh/extra'', lines_of [''PermitEmptyPasswords yes''])]"

definition plain_host :: host where
  "plain_host = file_host
     [(DefaultConfigPath, lines_of [''Port 22'', ''Include extra'', ''PermitRootLogin yes'']),
      (''/etc/ssh/extra'', lines_of [''# site'', ''PermitRootLogin no''])]"

section \<open>Properties\<close>



text \<open>
  The first value wins, globally. When a line of the main file sets a keyword at global scope and
  no line before it is an Include or sets that keyword at global scope, that line's value is the
  effective one, whatever the rest of the file and the files it includes say.
\<close>

theorem first_global_value_is_effective:
  assumes "h_read_file h DefaultConfigPath 0 = Inr res" and "\<not> rr_truncated res" and "NotText (rr_data res) = None"
    and "split_on (CHR 0x0A) (rr_data res) = pre @ raw # post"
    and "classify_line raw = Setting k v" and "to_lower k = to_lower keyword" and "scope_after [] pre = []"
    and "\<forall>r \<in> set pre. \<forall>w. classify_line r \<noteq> Include w"
    and "\<And>a r b k' v'. pre = a @ r # b \<Longrightarrow> classify_line r = Setting k' v' \<Longrightarrow> to_lower k' = to_lower keyword \<Longrightarrow>
      scope_after [] a \<noteq> []"
    and "collectConfig h ended = Inr c"
  shows "Effective c keyword = Some \<lparr>d_keyword = k, d_value = v, d_file = DefaultConfigPath,
    d_line = int (Suc (length pre)), d_in_match = False, d_match = []\<rparr>"
proof -
  let ?d = "\<lparr>d_keyword = k, d_value = v, d_file = DefaultConfigPath, d_line = int (Suc (length pre)), d_in_match = False, d_match = []\<rparr>"
  define p where "p = enter_file DefaultConfigPath \<lparr>p_cfg = empty_config\<lparr>sc_installed := True,
    sc_digests := [(DefaultConfigPath, rr_sha256 res)]\<rparr>, p_seen = [], p_match = [], p_polls = 0\<rparr>"
  define rec where "rec = Some (parseFile h ended 7)"
  let ?line = "parse_line h ended rec DefaultConfigPath"
  define q where "q = foldl ?line p (List.enumerate 1 pre)"
  define q' where "q' = ?line q (Suc (length pre), raw)"
  let ?r = "foldl ?line q' (List.enumerate (Suc (Suc (length pre))) post)"
  have m0: "p_match p = []" "Effective (p_cfg p) keyword = None"
    by (simp_all add: p_def enter_file_def empty_config_def Effective_def)
  have q: "Effective (p_cfg q) keyword = None" "p_match q = []"
    using parse_lines_no_include[OF assms(8), where p = p and kw = keyword and h = h and ended = ended and rec = rec and path = DefaultConfigPath and n = 1] assms(7,9)
    by (simp_all add: m0 q_def)
  have q': "Effective (p_cfg q') keyword = Some ?d"
    using q assms(5,6) by (simp add: q'_def parse_line_def Effective_def find_append)
  have rd: "reads h DefaultConfigPath (rr_data res)" using assms(1-3) by (auto simp: reads_def)
  have ok: "case rec of None \<Rightarrow> True | Some f \<Rightarrow> parses h f" by (simp add: rec_def parseFile_parses)
  have i0: "parser_inv h {DefaultConfigPath} p" unfolding p_def
    by (rule parser_inv_enter[OF _ rd _ included.root]) (simp_all add: parser_inv_def empty_config_def)
  have "parser_inv h {DefaultConfigPath} q"
    using parse_lines_inv[OF ok included.root rd, where pre = "[]" and mid = pre and post = "raw # post" and p = p and ended = ended] assms(4) i0 m0
    by (simp add: scope_after_def Let_def q_def)
  then have i: "parser_inv h {DefaultConfigPath} q'"
    using parse_lines_inv[OF ok included.root rd, where pre = pre and mid = "[raw]" and post = post and p = q and ended = ended] assms(4,7) q(2)
    by (simp add: Let_def q'_def)
  have "grows (p_cfg q') (p_cfg ?r)"
    using parse_lines_inv[OF ok included.root rd, where pre = "pre @ [raw]" and mid = post and post = "[]" and p = q' and ended = ended] assms(4,5,7) i q(2)
    by (simp add: Let_def q'_def parse_line_def scope_after_def scope_step_def)
  moreover have "c = p_cfg ?r"
    using assms(1-4,10) by (simp add: collectConfig_def parseFile.simps[of _ _ 8] maxIncludeDepth_def
        numbered_lines_def enumerate_append_eq p_def q_def q'_def rec_def Let_def)
  ultimately show ?thesis using Effective_grows[OF q'] by simp
qed

definition two_values :: host where
  "two_values = file_host [(DefaultConfigPath,
     lines_of [''Match User bob'', ''PermitRootLogin yes'', ''Match all'', ''permitrootlogin=no # site'', ''PermitRootLogin yes''])]"

theorem first_global_value_is_effective_witness:
  "\<exists>c. collectConfig two_values (\<lambda>_. False) = Inr c \<and>
     Effective c ''PermitRootLogin'' = Some \<lparr>d_keyword = ''permitrootlogin'', d_value = ''no'', d_file = DefaultConfigPath,
       d_line = 4, d_in_match = False, d_match = []\<rparr>"
proof -
  let ?pre = "[''Match User bob'', ''PermitRootLogin yes'', ''Match all'']"
  let ?data = "lines_of (?pre @ [''permitrootlogin=no # site'', ''PermitRootLogin yes''])"
  let ?res = "\<lparr>rr_path = DefaultConfigPath, rr_data = ?data, rr_size = int (length ?data), rr_truncated = False, rr_sha256 = []\<rparr>"
  have r: "h_read_file two_values DefaultConfigPath 0 = Inr ?res" by (simp add: two_values_def file_host_def lookup_def)
  have t: "NotText ?data = None" by code_simp
  have s: "split_on (CHR 0x0A) ?data = ?pre @ ''permitrootlogin=no # site'' # [''PermitRootLogin yes'']" by code_simp
  have k: "classify_line ''permitrootlogin=no # site'' = Setting ''permitrootlogin'' ''no''" by code_simp
  have l: "to_lower ''permitrootlogin'' = to_lower ''PermitRootLogin''" by code_simp
  have cl: "classify_line ''Match User bob'' = MatchBlock ''User bob''" "classify_line ''Match all'' = MatchAll"
    "classify_line ''PermitRootLogin yes'' = Setting ''PermitRootLogin'' ''yes''" by code_simp+
  have e: "\<not> isl (collectConfig two_values (\<lambda>_. False))" by code_simp
  then obtain c where c: "collectConfig two_values (\<lambda>_. False) = Inr c" by (cases "collectConfig two_values (\<lambda>_. False)") auto
  have "Effective c ''PermitRootLogin'' = Some \<lparr>d_keyword = ''permitrootlogin'', d_value = ''no'',
      d_file = DefaultConfigPath, d_line = int (Suc (length ?pre)), d_in_match = False, d_match = []\<rparr>"
    by (rule first_global_value_is_effective[OF r _ _ _ k l _ _ _ c])
      (use t s in \<open>simp_all add: scope_after_def scope_step_def cl Cons_eq_append_conv\<close>, auto simp: scope_step_def cl)
  then show ?thesis using c by simp
qed


end
