(* ===== verification/Sysctl.thy ===== *)
theory Sysctl
  imports System Glob
begin

text \<open>
  internal/fact/kernel.go and internal/collect/collectors/kernel/sysctl.go: the kernel's parameters as they
  run and as the configuration files set them. Where the code ranges over a map, the model takes the keys
  in order: the results that depend on the order are sorted afterwards.
\<close>

section \<open>The fact\<close>

definition SysctlID :: fact_id where "SysctlID = ''kernel.sysctl''"

text \<open>A state is a string, as a decoded fact may hold any.\<close>

definition SysctlObserved :: string where "SysctlObserved = ''observed''"
definition SysctlAbsent :: string where "SysctlAbsent = ''absent''"
definition SysctlDenied :: string where "SysctlDenied = ''denied''"
definition SysctlError :: string where "SysctlError = ''error''"

lemmas sysctl_states = SysctlObserved_def SysctlAbsent_def SysctlDenied_def SysctlError_def

record sysctl_running =
  sr_key :: string
  sr_state :: string
  sr_value :: string
  sr_path :: string
  sr_msg :: string

record sysctl_setting =
  ss_key :: string
  ss_value :: string
  ss_file :: string
  ss_line :: int

record unreadable_file =
  uf_file :: string
  uf_kind :: error_kind
  uf_msg :: string

record sysctl =
  sy_running :: "sysctl_running gomap"
  sy_configured :: "sysctl_setting list gomap"
  sy_files :: "string list"
  sy_digests :: "string gomap"
  sy_resolved :: "string gomap"
  sy_excluded :: "sysctl_setting list"
  sy_unreadable :: "unreadable_file list"

definition empty_sysctl :: sysctl where
  "empty_sysctl = \<lparr>sy_running = [], sy_configured = [], sy_files = [], sy_digests = [], sy_resolved = [],
     sy_excluded = [], sy_unreadable = []\<rparr>"

definition run_int :: "sysctl_running \<Rightarrow> int option" where
  "run_int r = (if sr_state r \<noteq> SysctlObserved then None else atoi (trim_space (sr_value r)))"

definition Run :: "sysctl \<Rightarrow> string \<Rightarrow> sysctl_running option" where
  "Run s key = lookup (sy_running s) key"

definition RunningMatching :: "sysctl \<Rightarrow> string \<Rightarrow> string \<Rightarrow> sysctl_running list" where
  "RunningMatching s prefix suffix =
     sort_key sr_key
       (map (\<lambda>k. the (lookup (sy_running s) k))
         (filter (\<lambda>k. has_prefix k prefix \<and> has_suffix k suffix) (keys (sy_running s))))"

definition configured :: "sysctl \<Rightarrow> string \<Rightarrow> sysctl_setting list" where
  "configured s key = (case lookup (sy_configured s) key of None \<Rightarrow> [] | Some l \<Rightarrow> l)"

definition isGlob :: "string \<Rightarrow> bool" where
  "isGlob key = contains_any key ''*?[''"

definition globMatches :: "string \<Rightarrow> string \<Rightarrow> bool" where
  "globMatches pattern key =
     (path_match (replace_char (CHR ''.'') (CHR ''/'') pattern) (replace_char (CHR ''.'') (CHR ''/'') key) = Some True)"

text \<open>Where a file stands in the order of application; a file that was never listed stands first.\<close>

definition file_pos :: "sysctl \<Rightarrow> string \<Rightarrow> nat" where
  "file_pos s f = (if f \<in> set (sy_files s) then length (takeWhile (\<lambda>g. g \<noteq> f) (sy_files s)) else 0)"

definition SettingsFor :: "sysctl \<Rightarrow> string \<Rightarrow> sysctl_setting list" where
  "SettingsFor s key =
     (if configured s key \<noteq> [] then configured s key
      else if \<exists>ex \<in> set (sy_excluded s). ss_key ex = key then []
      else
        (let out = concat (map (configured s)
               (filter (\<lambda>p. isGlob p \<and> globMatches p key) (keys (sy_configured s)))) in
         if length out < 2 then out
         else sort_key (\<lambda>x. file_pos s (ss_file x)) (sort_key ss_line out)))"

definition EffectiveConfigured :: "sysctl \<Rightarrow> string \<Rightarrow> sysctl_setting option" where
  "EffectiveConfigured s key = (let all = SettingsFor s key in if all = [] then None else Some (last all))"

definition GlobbedBy :: "sysctl \<Rightarrow> string \<Rightarrow> sysctl_setting option" where
  "GlobbedBy s key =
     (if configured s key \<noteq> [] then None
      else
        (case EffectiveConfigured s key of
           None \<Rightarrow> None
         | Some x \<Rightarrow> if isGlob (ss_key x) then Some x else None))"

definition ExcludedFrom :: "sysctl \<Rightarrow> string \<Rightarrow> sysctl_setting option" where
  "ExcludedFrom s key =
     (if configured s key \<noteq> [] then None else find (\<lambda>ex. ss_key ex = key) (sy_excluded s))"

definition configDir :: "string \<Rightarrow> string" where
  "configDir file =
     (case dropWhile (\<lambda>c. c \<noteq> CHR ''/'') (rev file) of
        [] \<Rightarrow> file
      | c # r \<Rightarrow> if r = [] \<or> rev r = ''/etc'' then file else rev r)"

text \<open>\<^const>\<open>put\<close> keeps the place a key was first given, which is what the slice \<open>order\<close> records.\<close>

definition directoryWinners :: "sysctl \<Rightarrow> string \<Rightarrow> sysctl_setting list" where
  "directoryWinners s key = map snd (fold (\<lambda>x m. put (configDir (ss_file x)) x m) (SettingsFor s key) [])"

definition ConfiguredConflict :: "sysctl \<Rightarrow> string \<Rightarrow> bool" where
  "ConfiguredConflict s key =
     (case directoryWinners s key of
        [] \<Rightarrow> False
      | w # ws \<Rightarrow> \<exists>v \<in> set ws. trim_space (ss_value v) \<noteq> trim_space (ss_value w))"

definition ConfiguredKeys :: "sysctl \<Rightarrow> string list" where
  "ConfiguredKeys s = keys (sy_configured s)"

definition RunningKeys :: "sysctl \<Rightarrow> string list" where
  "RunningKeys s = keys (sy_running s)"

definition ResolvedFrom :: "sysctl \<Rightarrow> string \<Rightarrow> string option" where
  "ResolvedFrom s file = lookup (sy_resolved s) file"

definition UnreadableFileNames :: "sysctl \<Rightarrow> string list" where
  "UnreadableFileNames s = sort (map uf_file (sy_unreadable s))"

definition WorstUnreadableKind :: "sysctl \<Rightarrow> error_kind option" where
  "WorstUnreadableKind s =
     (case sy_unreadable s of
        [] \<Rightarrow> None
      | u # us \<Rightarrow> if \<exists>f \<in> set (u # us). uf_kind f = ErrPermission then Some ErrPermission else Some (uf_kind u))"

section \<open>The collector\<close>

definition ProcSysRoot :: string where "ProcSysRoot = ''/proc/sys''"
definition maxSysctlRead :: int where "maxSysctlRead = 65536"
definition maxConfigRead :: int where "maxConfigRead = 1048576"

definition probedKeys :: "string list" where
  "probedKeys = [''fs.protected_fifos'', ''fs.protected_hardlinks'', ''fs.protected_regular'',
     ''fs.protected_symlinks'', ''fs.suid_dumpable'', ''kernel.core_pattern'', ''kernel.dmesg_restrict'',
     ''kernel.kptr_restrict'', ''kernel.perf_event_paranoid'', ''kernel.randomize_va_space'', ''kernel.sysrq'',
     ''kernel.unprivileged_bpf_disabled'', ''kernel.yama.ptrace_scope'', ''net.core.bpf_jit_harden'',
     ''net.ipv6.conf.all.accept_ra'', ''net.ipv6.conf.default.accept_ra'', ''net.ipv4.ip_forward'',
     ''net.ipv4.tcp_rfc1337'', ''net.ipv4.tcp_syncookies'']"

definition interfaceConfDir :: string where "interfaceConfDir = ''/proc/sys/net/ipv4/conf''"

definition perInterfaceLeaves :: "string list" where
  "perInterfaceLeaves = [''accept_redirects'', ''accept_source_route'', ''rp_filter'', ''send_redirects'']"

definition configDirs :: "string list" where
  "configDirs = [''/usr/lib/sysctl.d'', ''/lib/sysctl.d'', ''/usr/local/lib/sysctl.d'', ''/run/sysctl.d'', ''/etc/sysctl.d'']"

definition mainConfigFile :: string where "mainConfigFile = ''/etc/sysctl.conf''"
definition maxConfigLinkHops :: nat where "maxConfigLinkHops = 4"

definition procPathFor :: "string \<Rightarrow> string" where
  "procPathFor key = path_join ProcSysRoot (replace_char (CHR ''.'') (CHR ''/'') key)"

definition keyForProcPath :: "string \<Rightarrow> string" where
  "keyForProcPath p = replace_char (CHR ''/'') (CHR ''.'') (trim_prefix (path_clean p) (ProcSysRoot @ ''/''))"

definition readRunning :: "host \<Rightarrow> string \<Rightarrow> string \<Rightarrow> sysctl_running" where
  "readRunning h key p =
     (let r = \<lparr>sr_key = key, sr_state = [], sr_value = [], sr_path = p, sr_msg = []\<rparr> in
      case h_read_file h p maxSysctlRead of
        Inr res \<Rightarrow>
          (if rr_truncated res
           then r\<lparr>sr_state := SysctlError, sr_msg := ''value exceeded the read cap; this is not a sysctl-shaped file''\<rparr>
           else r\<lparr>sr_state := SysctlObserved, sr_value := trim_space (rr_data res)\<rparr>)
      | Inl SysNotExist \<Rightarrow> r\<lparr>sr_state := SysctlAbsent, sr_msg := ''no such parameter in this kernel''\<rparr>
      | Inl SysPermission \<Rightarrow> r\<lparr>sr_state := SysctlDenied, sr_msg := ''permission denied''\<rparr>
      | Inl e \<Rightarrow> r\<lparr>sr_state := SysctlError, sr_msg := sys_error_str e\<rparr>)"

definition enumerateInterfaces :: "host \<Rightarrow> string list" where
  "enumerateInterfaces h =
     (case h_read_dir h interfaceConfDir 0 of
        Inl e \<Rightarrow> []
      | Inr listing \<Rightarrow>
          (if dr_truncated listing then []
           else concat (map (\<lambda>e. map (\<lambda>leaf. keyForProcPath (path_join (fi_path e) leaf)) perInterfaceLeaves)
             (filter (\<lambda>e. fi_is_dir e \<and> \<not> fi_is_symlink e) (dr_entries listing)))))"

datatype sysctl_line = LineIgnored | LineAssignment string string | LineExclusion string

definition normaliseSysctlKey :: "string \<Rightarrow> string" where
  "normaliseSysctlKey k = replace_char (CHR ''/'') (CHR ''.'') (trim_space k)"

definition parseSysctlLine :: "string \<Rightarrow> sysctl_line" where
  "parseSysctlLine raw =
     (let line = trim_space (trim_suffix raw [CHR 0x0D]) in
      if line = [] \<or> has_prefix line ''#'' \<or> has_prefix line '';'' then LineIgnored
      else
        (case cut_at (CHR ''='') line of
           None \<Rightarrow>
             (if has_prefix line ''-'' \<and> normaliseSysctlKey (drop 1 line) \<noteq> []
              then LineExclusion (normaliseSysctlKey (drop 1 line)) else LineIgnored)
         | Some (k, v) \<Rightarrow>
             (let key = normaliseSysctlKey (trim_prefix (trim_space k) ''-'') in
              if key = [] then LineIgnored else LineAssignment key (trim_space v))))"

definition record_line :: "string \<Rightarrow> sysctl \<Rightarrow> nat \<times> string \<Rightarrow> sysctl" where
  "record_line file s = (\<lambda>(n, raw).
     (case parseSysctlLine raw of
        LineIgnored \<Rightarrow> s
      | LineAssignment key value \<Rightarrow> s\<lparr>sy_configured := put key
          (configured s key @ [\<lparr>ss_key = key, ss_value = value, ss_file = file, ss_line = int n\<rparr>]) (sy_configured s)\<rparr>
      | LineExclusion key \<Rightarrow> s\<lparr>sy_excluded := sy_excluded s
          @ [\<lparr>ss_key = key, ss_value = [], ss_file = file, ss_line = int n\<rparr>]\<rparr>))"

definition recordConfig :: "string \<Rightarrow> string \<Rightarrow> string \<Rightarrow> sysctl \<Rightarrow> sysctl" where
  "recordConfig file digest data s =
     foldl (record_line file)
       (s\<lparr>sy_files := sy_files s @ [file], sy_digests := put file digest (sy_digests s)\<rparr>) (numbered_lines data)"

definition unreadable_config :: "string \<Rightarrow> error_kind \<Rightarrow> string \<Rightarrow> sysctl \<Rightarrow> sysctl" where
  "unreadable_config file k m s = s\<lparr>sy_unreadable := sy_unreadable s @ [\<lparr>uf_file = file, uf_kind = k, uf_msg = m\<rparr>]\<rparr>"

definition resolveLinkPath :: "string \<Rightarrow> string \<Rightarrow> string" where
  "resolveLinkPath link dest =
     (if is_abs dest then path_clean dest else path_clean (path_join (path_dir link) dest))"

text \<open>The loop of \<open>resolveConfigLink\<close> by how many hops are left: the target, and the fact with what was recorded.\<close>

fun resolve_hops :: "host \<Rightarrow> string \<Rightarrow> nat \<Rightarrow> string \<Rightarrow> sysctl \<Rightarrow> string option \<times> sysctl" where
  "resolve_hops h file 0 target s =
     (None, unreadable_config file ErrInternal
        ''the symlink chain is too long to follow, which is a loop or an attempt at one'' s)"
| "resolve_hops h file (Suc n) target s =
     (case h_readlink h target of
        Inl SysNotSymlink \<Rightarrow> (None, s)
      | Inl e \<Rightarrow> (None, unreadable_config file ErrInternal
          (''the path is not a regular file and its link could not be read: '' @ sys_error_str e) s)
      | Inr dest \<Rightarrow>
          (let next = resolveLinkPath target dest in
           case h_stat h next of
             Inl SysNotExist \<Rightarrow> (None, s)
           | Inl e \<Rightarrow> (None, unreadable_config file ErrInternal
               (''the link target could not be examined: '' @ sys_error_str e) s)
           | Inr fi \<Rightarrow>
               (if fi_is_symlink fi then resolve_hops h file n next s
                else if \<not> fi_is_regular fi
                then (None, unreadable_config file ErrInternal ''the link target is not a regular file'' s)
                else (Some next, s))))"

definition resolveConfigLink :: "host \<Rightarrow> string \<Rightarrow> sysctl \<Rightarrow> string option \<times> sysctl" where
  "resolveConfigLink h file s = resolve_hops h file maxConfigLinkHops file s"

definition readResolvedConfig :: "host \<Rightarrow> string \<Rightarrow> string \<Rightarrow> sysctl \<Rightarrow> sysctl" where
  "readResolvedConfig h file target s =
     (case h_read_opaque h target maxConfigRead of
        Inl SysPermission \<Rightarrow> unreadable_config file ErrPermission (''permission denied reading the link target '' @ target) s
      | Inl e \<Rightarrow> unreadable_config file ErrInternal (sys_error_str e) s
      | Inr res \<Rightarrow>
          (if rr_truncated res then unreadable_config file ErrTruncated ''file exceeded the read cap'' s
           else
             (case NotText (rr_data res) of
                Some why \<Rightarrow> unreadable_config file ErrParse why s
              | None \<Rightarrow> recordConfig file (rr_sha256 res) (rr_data res)
                  (s\<lparr>sy_resolved := put file target (sy_resolved s)\<rparr>))))"

definition readConfigFile :: "host \<Rightarrow> string \<Rightarrow> sysctl \<Rightarrow> sysctl" where
  "readConfigFile h file s =
     (if (case h_stat h file of Inr fi \<Rightarrow> fi_is_symlink fi | Inl e \<Rightarrow> False)
      then
        (case resolveConfigLink h file s of
           (Some target, s') \<Rightarrow> readResolvedConfig h file target s'
         | (None, s') \<Rightarrow> s')
      else
        (case h_read_file h file maxConfigRead of
           Inl SysNotExist \<Rightarrow> s
         | Inl SysPermission \<Rightarrow> unreadable_config file ErrPermission ''permission denied'' s
         | Inl e \<Rightarrow> unreadable_config file ErrInternal (sys_error_str e) s
         | Inr res \<Rightarrow>
             (if rr_truncated res then unreadable_config file ErrTruncated ''file exceeded the read cap'' s
              else
                (case NotText (rr_data res) of
                   Some why \<Rightarrow> unreadable_config file ErrParse why s
                 | None \<Rightarrow> recordConfig file (rr_sha256 res) (rr_data res) s))))"

text \<open>One drop-in directory: the directories seen, by device and inode, and the files so far.\<close>

definition add_dir :: "host \<Rightarrow> (nat \<times> nat) list \<times> string list \<Rightarrow> string \<Rightarrow> (nat \<times> nat) list \<times> string list" where
  "add_dir h = (\<lambda>(seen, out) dir.
     (let key = (case h_stat h dir of Inr fi \<Rightarrow> if fi_ino fi \<noteq> 0 then Some (fi_dev fi, fi_ino fi) else None | Inl e \<Rightarrow> None);
          seen' = (case key of None \<Rightarrow> seen | Some k \<Rightarrow> k # seen) in
      if (case key of None \<Rightarrow> False | Some k \<Rightarrow> k \<in> set seen) then (seen, out)
      else
        (case h_read_dir h dir 0 of
           Inl e \<Rightarrow> (seen', out)
         | Inr listing \<Rightarrow> (seen', out @ sort (map fi_path
             (filter (\<lambda>e. \<not> fi_is_dir e \<and> has_suffix (fi_path e) ''.conf'') (dr_entries listing)))))))"

definition configFileList :: "host \<Rightarrow> string list" where
  "configFileList h = snd (foldl (add_dir h) ([], []) configDirs)"

text \<open>\<open>ended n\<close> says that the n-th test of \<open>ctx.Err\<close> finds the scan over; the counter is passed along.\<close>

fun read_keys :: "host \<Rightarrow> (nat \<Rightarrow> bool) \<Rightarrow> string list \<Rightarrow> nat \<Rightarrow> sysctl \<Rightarrow> nat \<times> sysctl" where
  "read_keys h ended [] n s = (n, s)"
| "read_keys h ended (key # ks) n s =
     (if ended n then (Suc n, s)
      else read_keys h ended ks (Suc n)
        (s\<lparr>sy_running := put key (readRunning h key (procPathFor key)) (sy_running s)\<rparr>))"

fun read_files :: "host \<Rightarrow> (nat \<Rightarrow> bool) \<Rightarrow> string list \<Rightarrow> nat \<Rightarrow> sysctl \<Rightarrow> sysctl" where
  "read_files h ended [] n s = readConfigFile h mainConfigFile s"
| "read_files h ended (f # fs) n s =
     (if ended n then s else read_files h ended fs (Suc n) (readConfigFile h f s))"

definition readConfiguration :: "host \<Rightarrow> (nat \<Rightarrow> bool) \<Rightarrow> nat \<Rightarrow> sysctl \<Rightarrow> sysctl" where
  "readConfiguration h ended n s = read_files h ended (configFileList h) n s"

definition collect_sysctl :: "host \<Rightarrow> (nat \<Rightarrow> bool) \<Rightarrow> sysctl" where
  "collect_sysctl h ended =
     (case read_keys h ended (sort (probedKeys @ enumerateInterfaces h)) 0 empty_sysctl of
        (n, s) \<Rightarrow> readConfiguration h ended n s)"

definition Collect :: "(sysctl \<Rightarrow> 'v) \<Rightarrow> host \<Rightarrow> (nat \<Rightarrow> bool) \<Rightarrow> 'v fact_set \<Rightarrow> 'v fact_set" where
  "Collect wrap h ended fs =
     Put \<lparr>fact_id = SysctlID, fact_version = 1, opaque_version = None, payload = wrap (collect_sysctl h ended)\<rparr> fs"

end
