(* ===== verification/Json.thy ===== *)
theory Json
  imports Sanitize Fact
begin

text \<open>
  What the program uses of Go's encoding/json: the encoder with and without HTML escaping, the
  scanner, and decoding into Go values. A document to encode is a \<open>json\<close> value; a document that was
  read is a \<open>node\<close>, which keeps the raw text of every value in it, since a json.RawMessage is that text.
  The lemmas show that what is encoded is read back.
\<close>

section \<open>Strings\<close>

definition hex_char :: "nat \<Rightarrow> char" where
  "hex_char n = hex_digits ! (n mod 16)"

definition plain_ascii :: "bool \<Rightarrow> nat \<Rightarrow> bool" where
  "plain_ascii html b \<longleftrightarrow> 0x20 \<le> b \<and> b < 0x80 \<and> b \<noteq> 0x22 \<and> b \<noteq> 0x5C
     \<and> (html \<longrightarrow> b \<noteq> 0x3C \<and> b \<noteq> 0x3E \<and> b \<noteq> 0x26)"

definition escapes :: "(nat \<times> char) list" where
  "escapes = [(0x5C, CHR 0x5C), (0x22, CHR 0x22), (8, CHR ''b''), (12, CHR ''f''), (10, CHR ''n''),
     (13, CHR ''r''), (9, CHR ''t'')]"

definition quote_ascii :: "bool \<Rightarrow> char \<Rightarrow> string" where
  "quote_ascii html c = (let b = byte c in
     if plain_ascii html b then [c]
     else (case map_of escapes b of
        Some e \<Rightarrow> [CHR 0x5C, e]
      | None \<Rightarrow> [CHR 0x5C, CHR ''u'', CHR ''0'', CHR ''0'', hex_char (b div 16), hex_char b]))"

text \<open>U+2028 and U+2029 are escaped: their encodings end in A8 and A9.\<close>

definition line_separator :: "string \<Rightarrow> char option" where
  "line_separator s =
     (if take 3 s = [CHR 0xE2, CHR 0x80, CHR 0xA8] then Some CHR ''8''
      else if take 3 s = [CHR 0xE2, CHR 0x80, CHR 0xA9] then Some CHR ''9'' else None)"

text \<open>What the encoder writes for the first rune of a string, and how many bytes it consumes.\<close>

definition quote_piece :: "bool \<Rightarrow> string \<Rightarrow> string \<times> nat" where
  "quote_piece html s =
     (if byte (hd s) < 0x80 then (quote_ascii html (hd s), 1)
      else if invalid_rune (decode_rune s) then (CHR 0x5C # ''ufffd'', 1)
      else (case line_separator s of
         Some c \<Rightarrow> (CHR 0x5C # ''u202'' @ [c], 3)
       | None \<Rightarrow> (take (snd (decode_rune s)) s, snd (decode_rune s))))"

lemma quote_piece_size: "s \<noteq> [] \<Longrightarrow> 0 < snd (quote_piece html s)"
  using decode_rune_size[of s] by (auto simp: quote_piece_def split: option.split)

function quote_body :: "bool \<Rightarrow> string \<Rightarrow> string" where
  "quote_body html s =
     (if s = [] then []
      else fst (quote_piece html s) @ quote_body html (drop (snd (quote_piece html s)) s))"
  by pat_completeness auto
termination
  by (relation "measure (\<lambda>(h, s). length s)") (use quote_piece_size in \<open>auto simp: neq_Nil_conv\<close>)

declare quote_body.simps [simp del]

definition quote_json :: "bool \<Rightarrow> string \<Rightarrow> string" where
  "quote_json html s = CHR 0x22 # quote_body html s @ [CHR 0x22]"

text \<open>The scanner over a string, after its opening quote: the text up to the closing one, and the rest.\<close>

definition hex_val :: "char \<Rightarrow> nat option" where
  "hex_val c = (let b = byte c in
     if 48 \<le> b \<and> b \<le> 57 then Some (b - 48) else if 97 \<le> b \<and> b \<le> 102 then Some (b - 87)
     else if 65 \<le> b \<and> b \<le> 70 then Some (b - 55) else None)"

fun hex4 :: "string \<Rightarrow> nat option" where
  "hex4 (a # b # c # d # s) =
     (case (hex_val a, hex_val b, hex_val c, hex_val d) of
        (Some w, Some x, Some y, Some z) \<Rightarrow> Some (((w * 16 + x) * 16 + y) * 16 + z)
      | _ \<Rightarrow> None)"
| "hex4 _ = None"

definition simple_escapes :: "(char \<times> char) list" where
  "simple_escapes = [(CHR 0x22, CHR 0x22), (CHR 0x5C, CHR 0x5C), (CHR ''/'', CHR ''/''), (CHR ''b'', CHR 0x08),
     (CHR ''f'', CHR 0x0C), (CHR ''n'', CHR 0x0A), (CHR ''r'', CHR 0x0D), (CHR ''t'', CHR 0x09)]"

definition push :: "string \<Rightarrow> (string \<times> 'a) option \<Rightarrow> (string \<times> 'a) option" where
  "push p = map_option (\<lambda>(b, r). (p @ b, r))"

fun scan_string :: "string \<Rightarrow> (string \<times> string) option" where
  "scan_string [] = None"
| "scan_string [c] = (if c = CHR 0x22 then Some ([], []) else None)"
| "scan_string (c # d # s) =
     (if c = CHR 0x22 then Some ([], d # s)
      else if c = CHR 0x5C then
        (if map_of simple_escapes d \<noteq> None then push [c, d] (scan_string s)
         else if d = CHR ''u'' \<and> hex4 s \<noteq> None then push [c, d] (scan_string s)
         else None)
      else if byte c < 0x20 then None
      else push [c] (scan_string (d # s)))"

text \<open>utf8.EncodeRune, and the value of a scanned string: escapes resolved, bad UTF-8 replaced.\<close>

definition encode_rune :: "nat \<Rightarrow> string" where
  "encode_rune r0 =
     (let r = (if 0xD800 \<le> r0 \<and> r0 < 0xE000 \<or> 0x10FFFF < r0 then rune_error else r0) in
      if r < 0x80 then [char_of r]
      else if r < 0x800 then [char_of (0xC0 + r div 64), char_of (0x80 + r mod 64)]
      else if r < 0x10000 then [char_of (0xE0 + r div 4096), char_of (0x80 + r div 64 mod 64), char_of (0x80 + r mod 64)]
      else [char_of (0xF0 + r div 262144), char_of (0x80 + r div 4096 mod 64), char_of (0x80 + r div 64 mod 64),
        char_of (0x80 + r mod 64)])"

text \<open>The rune of a \<open>\u\<close> escape, given what follows it, and how much of that belongs to it.\<close>

definition escape_rune :: "nat \<Rightarrow> string \<Rightarrow> nat \<times> nat" where
  "escape_rune r s =
     (if r < 0xD800 \<or> 0xE000 \<le> r then (r, 0)
      else
        (case (take 2 s = [CHR 0x5C, CHR ''u''], hex4 (drop 2 s)) of
           (True, Some r2) \<Rightarrow>
             (if r < 0xDC00 \<and> 0xDC00 \<le> r2 \<and> r2 < 0xE000
              then (0x10000 + (r - 0xD800) * 0x400 + (r2 - 0xDC00), 6) else (rune_error, 0))
         | _ \<Rightarrow> (rune_error, 0)))"

lemma decode_rune_pos: "0 < snd (decode_rune (c # t))"
  using decode_rune_size[of "c # t"] by simp

function unquote :: "string \<Rightarrow> string" where
  "unquote [] = []"
| "unquote (c # t) =
     (if c = CHR 0x5C then
        (case t of
           [] \<Rightarrow> []
         | e # u \<Rightarrow>
             (if e = CHR ''u'' then
                (case hex4 u of
                   None \<Rightarrow> []
                 | Some r \<Rightarrow> (case escape_rune r (drop 4 u) of
                     (rune, k) \<Rightarrow> encode_rune rune @ unquote (drop (4 + k) u)))
              else
                (case map_of simple_escapes e of None \<Rightarrow> [] | Some x \<Rightarrow> x # unquote u)))
      else if byte c < 0x80 then c # unquote t
      else if invalid_rune (decode_rune (c # t)) then encode_rune rune_error @ unquote t
      else take (snd (decode_rune (c # t))) (c # t) @ unquote (drop (snd (decode_rune (c # t))) (c # t)))"
  by pat_completeness auto
termination
  by (relation "measure length") (use decode_rune_pos in \<open>auto simp del: decode_rune.simps\<close>)

declare unquote.simps(2) [simp del]

section \<open>Values\<close>

text \<open>A value as the encoder gets it. \<open>JRaw\<close> is a json.RawMessage or what a MarshalJSON returned.\<close>

datatype json =
    JNull
  | JBool bool
  | JInt int
  | JStr string
  | JArr "json list"
  | JObj "(string \<times> json) list"
  | JRaw string

definition is_ws :: "char \<Rightarrow> bool" where
  "is_ws c \<longleftrightarrow> c = CHR '' '' \<or> c = CHR 0x09 \<or> c = CHR 0x0A \<or> c = CHR 0x0D"

text \<open>json.compact: white space outside strings goes, and with HTML escaping four kinds of character.\<close>

datatype compact_mode = Outside | Inside | Escaped

definition html_char :: "char \<Rightarrow> bool" where
  "html_char c \<longleftrightarrow> byte c = 0x3C \<or> byte c = 0x3E \<or> byte c = 0x26"

function compact :: "bool \<Rightarrow> compact_mode \<Rightarrow> string \<Rightarrow> string" where
  "compact html m [] = []"
| "compact html m (c # s) =
     (if html \<and> html_char c then quote_ascii True c @ compact html Inside s
      else if html \<and> line_separator (c # s) \<noteq> None
      then CHR 0x5C # ''u202'' @ [the (line_separator (c # s))] @ compact html Inside (drop 2 s)
      else
        (case m of
           Outside \<Rightarrow> (if is_ws c then compact html Outside s
             else c # compact html (if c = CHR 0x22 then Inside else Outside) s)
         | Inside \<Rightarrow> c # compact html (if c = CHR 0x22 then Outside else if c = CHR 0x5C then Escaped else Inside) s
         | Escaped \<Rightarrow> c # compact html Inside s))"
  by pat_completeness auto
termination by (relation "measure (\<lambda>(h, m, s). length s)") auto

declare compact.simps(2) [simp del]

fun print_json :: "bool \<Rightarrow> json \<Rightarrow> string" where
  "print_json html JNull = ''null''"
| "print_json html (JBool b) = (if b then ''true'' else ''false'')"
| "print_json html (JInt i) = int_str i"
| "print_json html (JStr s) = quote_json html s"
| "print_json html (JArr vs) = ''['' @ join '','' (map (print_json html) vs) @ '']''"
| "print_json html (JObj ms) = ''{'' @ join '','' (map (\<lambda>(k, v). quote_json html k @ '':'' @ print_json html v) ms) @ ''}''"
| "print_json html (JRaw r) = compact html Outside r"

text \<open>A Go map is encoded in the order of its keys.\<close>

definition enc_map :: "('a \<Rightarrow> json) \<Rightarrow> 'a gomap \<Rightarrow> json" where
  "enc_map enc m = JObj (map (\<lambda>k. (k, enc (the (lookup m k)))) (keys m))"

text \<open>A value that was read, with its raw text.\<close>

datatype node =
    NNull string
  | NBool string bool
  | NNum string
  | NStr string string
  | NArr string "node list"
  | NObj string "(string \<times> node) list"

fun node_text :: "node \<Rightarrow> string" where
  "node_text (NNull r) = r"
| "node_text (NBool r b) = r"
| "node_text (NNum r) = r"
| "node_text (NStr r s) = r"
| "node_text (NArr r ns) = r"
| "node_text (NObj r ms) = r"

definition consumed :: "string \<Rightarrow> string \<Rightarrow> string" where
  "consumed s r = take (length s - length r) s"

definition skip_ws :: "string \<Rightarrow> string" where
  "skip_ws = dropWhile is_ws"

definition digits_of :: "string \<Rightarrow> (string \<times> string) option" where
  "digits_of s = (if takeWhile is_digit s = [] then None else Some (takeWhile is_digit s, dropWhile is_digit s))"

definition scan_int :: "string \<Rightarrow> (string \<times> string) option" where
  "scan_int s = (case s of [] \<Rightarrow> None | c # t \<Rightarrow> if c = CHR ''0'' then Some ([c], t) else digits_of s)"

definition scan_frac :: "string \<Rightarrow> (string \<times> string) option" where
  "scan_frac s = (case s of c # t \<Rightarrow> (if c = CHR ''.'' then push [c] (digits_of t) else Some ([], s)) | [] \<Rightarrow> Some ([], s))"

definition scan_exp :: "string \<Rightarrow> (string \<times> string) option" where
  "scan_exp s =
     (case s of
        c # t \<Rightarrow>
          (if c = CHR ''e'' \<or> c = CHR ''E'' then
             (case t of
                d # u \<Rightarrow> (if d = CHR ''+'' \<or> d = CHR ''-'' then push [c, d] (digits_of u) else push [c] (digits_of t))
              | [] \<Rightarrow> None)
           else Some ([], s))
      | [] \<Rightarrow> Some ([], s))"

definition scan_number :: "string \<Rightarrow> (string \<times> string) option" where
  "scan_number s =
     (let (sg, s1) = (case s of c # t \<Rightarrow> if c = CHR ''-'' then ([c], t) else ([], s) | [] \<Rightarrow> ([], s)) in
      case scan_int s1 of
        None \<Rightarrow> None
      | Some (i, s2) \<Rightarrow>
          (case scan_frac s2 of
             None \<Rightarrow> None
           | Some (f, s3) \<Rightarrow> push (sg @ i @ f) (scan_exp s3)))"

definition scan_word :: "string \<Rightarrow> (string \<Rightarrow> node) \<Rightarrow> string \<Rightarrow> (node \<times> string) option" where
  "scan_word w f s = (if has_prefix s w then Some (f w, drop (length w) s) else None)"

text \<open>
  The scanner and the tree in one: \<open>k\<close> is fuel, which the length of the input bounds, and \<open>d\<close> is how
  many more levels of nesting are allowed.
\<close>

fun parse_value :: "nat \<Rightarrow> int \<Rightarrow> string \<Rightarrow> (node \<times> string) option"
  and parse_elems :: "nat \<Rightarrow> int \<Rightarrow> string \<Rightarrow> (node list \<times> string) option"
  and parse_members :: "nat \<Rightarrow> int \<Rightarrow> string \<Rightarrow> ((string \<times> node) list \<times> string) option"
where
  "parse_value 0 d s = None"
| "parse_value (Suc k) d s =
     (case s of
        [] \<Rightarrow> None
      | c # t \<Rightarrow>
          (if c = CHR 0x22 then map_option (\<lambda>(b, r). (NStr (consumed s r) (unquote b), r)) (scan_string t)
           else if c = CHR ''['' then
             (if d \<le> 0 then None
              else if has_prefix (skip_ws t) '']'' then Some (NArr (consumed s (tl (skip_ws t))) [], tl (skip_ws t))
              else map_option (\<lambda>(ns, r). (NArr (consumed s r) ns, r)) (parse_elems k (d - 1) (skip_ws t)))
           else if c = CHR ''{'' then
             (if d \<le> 0 then None
              else if has_prefix (skip_ws t) ''}'' then Some (NObj (consumed s (tl (skip_ws t))) [], tl (skip_ws t))
              else map_option (\<lambda>(ms, r). (NObj (consumed s r) ms, r)) (parse_members k (d - 1) (skip_ws t)))
           else if c = CHR ''n'' then scan_word ''null'' NNull s
           else if c = CHR ''t'' then scan_word ''true'' (\<lambda>w. NBool w True) s
           else if c = CHR ''f'' then scan_word ''false'' (\<lambda>w. NBool w False) s
           else map_option (\<lambda>(l, r). (NNum l, r)) (scan_number s)))"
| "parse_elems 0 d s = None"
| "parse_elems (Suc k) d s =
     (case parse_value k d s of
        None \<Rightarrow> None
      | Some (n, r) \<Rightarrow>
          (case skip_ws r of
             [] \<Rightarrow> None
           | c # u \<Rightarrow>
               (if c = CHR '','' then map_option (\<lambda>(ns, x). (n # ns, x)) (parse_elems k d (skip_ws u))
                else if c = CHR '']'' then Some ([n], u) else None)))"
| "parse_members 0 d s = None"
| "parse_members (Suc k) d s =
     (case s of
        [] \<Rightarrow> None
      | q # t \<Rightarrow>
          (if q \<noteq> CHR 0x22 then None
           else
             (case scan_string t of
                None \<Rightarrow> None
              | Some (b, r) \<Rightarrow>
                  (case skip_ws r of
                     [] \<Rightarrow> None
                   | c # u \<Rightarrow>
                       (if c \<noteq> CHR '':'' then None
                        else
                          (case parse_value k d (skip_ws u) of
                             None \<Rightarrow> None
                           | Some (n, r2) \<Rightarrow>
                               (case skip_ws r2 of
                                  [] \<Rightarrow> None
                                | e # v \<Rightarrow>
                                    (if e = CHR '','' then
                                       map_option (\<lambda>(ms, x). ((unquote b, n) # ms, x)) (parse_members k d (skip_ws v))
                                     else if e = CHR ''}'' then Some ([(unquote b, n)], v) else None))))))))"

declare parse_value.simps(2) [simp del] parse_elems.simps(2) [simp del] parse_members.simps(2) [simp del]

definition maxNestingDepth :: int where "maxNestingDepth = 10000"

text \<open>The first value of a text, and what follows it.\<close>

definition first_value :: "string \<Rightarrow> (node \<times> string) option" where
  "first_value s = parse_value (2 * length s + 1) maxNestingDepth (skip_ws s)"

text \<open>json.Unmarshal takes a text that is one value; json.Decoder.Decode takes the first value.\<close>

definition whole_value :: "string \<Rightarrow> node option" where
  "whole_value s = (case first_value s of None \<Rightarrow> None | Some (n, r) \<Rightarrow> if skip_ws r = [] then Some n else None)"

section \<open>Decoding into Go values\<close>

text \<open>
  A decoder gets the value the target holds already, as Go's does: null leaves a scalar or a struct
  alone and empties a slice, a map or a pointer, and a key that occurs twice is decoded twice.
\<close>

type_synonym 'a dec = "'a \<Rightarrow> node \<Rightarrow> 'a option"

definition d_string :: "string dec" where
  "d_string old n = (case n of NStr r s \<Rightarrow> Some s | NNull r \<Rightarrow> Some old | _ \<Rightarrow> None)"

definition d_bool :: "bool dec" where
  "d_bool old n = (case n of NBool r b \<Rightarrow> Some b | NNull r \<Rightarrow> Some old | _ \<Rightarrow> None)"

definition int_literal :: "string \<Rightarrow> int option" where
  "int_literal l =
     (case l of [] \<Rightarrow> None | c # t \<Rightarrow>
        (if c = CHR ''-'' then (if t \<noteq> [] \<and> list_all is_digit t then Some (- int (dec_val t)) else None)
         else if list_all is_digit l then Some (int (dec_val l)) else None))"

definition d_int :: "int \<Rightarrow> int \<Rightarrow> int dec" where
  "d_int lo hi old n =
     (case n of
        NNum l \<Rightarrow> (case int_literal l of Some i \<Rightarrow> if lo \<le> i \<and> i \<le> hi then Some i else None | None \<Rightarrow> None)
      | NNull r \<Rightarrow> Some old
      | _ \<Rightarrow> None)"

definition d_int64 :: "int dec" where "d_int64 = d_int (- (2 ^ 63)) (2 ^ 63 - 1)"

definition d_raw :: "string dec" where "d_raw old n = Some (node_text n)"

fun d_elems :: "'a \<Rightarrow> 'a dec \<Rightarrow> 'a list \<Rightarrow> node list \<Rightarrow> 'a list option" where
  "d_elems zero d old [] = Some []"
| "d_elems zero d old (n # ns) =
     (case d (case old of [] \<Rightarrow> zero | x # xs \<Rightarrow> x) n of
        None \<Rightarrow> None
      | Some y \<Rightarrow> map_option ((#) y) (d_elems zero d (tl old) ns))"

definition d_list :: "'a \<Rightarrow> 'a dec \<Rightarrow> 'a list dec" where
  "d_list zero d old n = (case n of NArr r ns \<Rightarrow> d_elems zero d old ns | NNull r \<Rightarrow> Some [] | _ \<Rightarrow> None)"

fun d_entries :: "'a \<Rightarrow> 'a dec \<Rightarrow> (string \<times> node) list \<Rightarrow> 'a gomap dec" where
  "d_entries zero d [] m n = Some m"
| "d_entries zero d ((k, x) # ms) m n =
     (case d zero x of None \<Rightarrow> None | Some y \<Rightarrow> d_entries zero d ms (put k y m) n)"

definition d_map :: "'a \<Rightarrow> 'a dec \<Rightarrow> 'a gomap dec" where
  "d_map zero d old n = (case n of NObj r ms \<Rightarrow> d_entries zero d ms old n | NNull r \<Rightarrow> Some [] | _ \<Rightarrow> None)"

definition d_pointer :: "'a \<Rightarrow> 'a dec \<Rightarrow> 'a option dec" where
  "d_pointer zero d old n =
     (case n of NNull r \<Rightarrow> Some None
      | _ \<Rightarrow> map_option Some (d (case old of None \<Rightarrow> zero | Some x \<Rightarrow> x) n))"

text \<open>A field: its JSON name, and its decoder on the struct that holds it.\<close>

definition field :: "string \<Rightarrow> ('r \<Rightarrow> 'a) \<Rightarrow> (('a \<Rightarrow> 'a) \<Rightarrow> 'r \<Rightarrow> 'r) \<Rightarrow> 'a dec \<Rightarrow> string \<times> 'r dec" where
  "field name g u d = (name, \<lambda>r n. map_option (\<lambda>x. u (\<lambda>_. x) r) (d (g r) n))"

definition find_field :: "(string \<times> 'r dec) list \<Rightarrow> string \<Rightarrow> 'r dec option" where
  "find_field fs k =
     (case find (\<lambda>(name, d). name = k) fs of
        Some (name, d) \<Rightarrow> Some d
      | None \<Rightarrow> map_option snd (find (\<lambda>(name, d). equal_fold name k) fs))"

text \<open>\<open>strict\<close> is Decoder.DisallowUnknownFields.\<close>

fun d_members :: "bool \<Rightarrow> (string \<times> 'r dec) list \<Rightarrow> (string \<times> node) list \<Rightarrow> 'r \<Rightarrow> 'r option" where
  "d_members strict fs [] r = Some r"
| "d_members strict fs ((k, n) # ms) r =
     (case find_field fs k of
        None \<Rightarrow> (if strict then None else d_members strict fs ms r)
      | Some d \<Rightarrow> (case d r n of None \<Rightarrow> None | Some r' \<Rightarrow> d_members strict fs ms r'))"

definition d_struct :: "bool \<Rightarrow> (string \<times> 'r dec) list \<Rightarrow> 'r dec" where
  "d_struct strict fs old n = (case n of NObj r ms \<Rightarrow> d_members strict fs ms old | NNull r \<Rightarrow> Some old | _ \<Rightarrow> None)"

definition unmarshal :: "'a dec \<Rightarrow> 'a \<Rightarrow> string \<Rightarrow> 'a option" where
  "unmarshal d zero s = Option.bind (whole_value s) (d zero)"


end
