(* ===== verification/Users.thy ===== *)
theory Users
  imports System Json
begin

text \<open>
  internal/fact/users.go, internal/fact/nsswitch.go and internal/collect/collectors/users: the local account
  databases and the name-service routing table. A uid or gid is an integer below 2 ^ 32, which is what
  \<open>parse_uint32\<close> yields; nothing is computed with it.
\<close>

section \<open>The facts\<close>

definition PasswdID :: fact_id where "PasswdID = ''users.passwd''"
definition ShadowID :: fact_id where "ShadowID = ''users.shadow''"
definition GroupID :: fact_id where "GroupID = ''users.group''"
definition NSSwitchID :: fact_id where "NSSwitchID = ''users.nsswitch''"

record passwd_entry =
  pe_name :: string
  pe_uid :: int
  pe_gid :: int
  pe_home :: string
  pe_shell :: string
  pe_line :: int

record compat_entry =
  ce_spec :: string
  ce_line :: int

record passwd =
  pw_entries :: "passwd_entry list"
  pw_compat :: "compat_entry list"
  pw_malformed :: "int list"
  pw_path :: string
  pw_digest :: string

text \<open>An algorithm is a string, as a decoded fact may hold any.\<close>

definition HashNone :: string where "HashNone = ''''"
definition HashDES :: string where "HashDES = ''des''"
definition HashMD5 :: string where "HashMD5 = ''md5''"
definition HashBcryptA :: string where "HashBcryptA = ''bcrypt''"
definition HashSHA256 :: string where "HashSHA256 = ''sha256''"
definition HashSHA512 :: string where "HashSHA512 = ''sha512''"
definition HashScrypt :: string where "HashScrypt = ''scrypt''"
definition HashYescrypt :: string where "HashYescrypt = ''yescrypt''"
definition HashGostYescrypt :: string where "HashGostYescrypt = ''gost-yescrypt''"
definition HashUnknown :: string where "HashUnknown = ''unknown''"

lemmas hash_names = HashNone_def HashDES_def HashMD5_def HashBcryptA_def HashSHA256_def HashSHA512_def
  HashScrypt_def HashYescrypt_def HashGostYescrypt_def HashUnknown_def

record shadow_entry =
  se_name :: string
  se_empty :: bool
  se_locked :: bool
  se_algorithm :: string
  se_line :: int
  se_min_days :: "int option"
  se_max_days :: "int option"

definition Authenticates :: "shadow_entry \<Rightarrow> bool" where
  "Authenticates e \<longleftrightarrow> \<not> se_locked e \<and> \<not> se_empty e \<and> se_algorithm e \<noteq> HashNone"

record shadow =
  sh_entries :: "shadow_entry list"
  sh_malformed :: "int list"
  sh_path :: string

record group_entry =
  ge_name :: string
  ge_gid :: int
  ge_members :: "string list"
  ge_line :: int

record group_file =
  gr_entries :: "group_entry list"
  gr_compat :: "compat_entry list"
  gr_malformed :: "int list"
  gr_path :: string
  gr_digest :: string

section \<open>Questions about the facts\<close>

text \<open>The keys that occur more than once, in order.\<close>

definition duplicates :: "('a \<Rightarrow> 'k::linorder) \<Rightarrow> 'a list \<Rightarrow> 'k list" where
  "duplicates k xs = sort (remdups (filter (\<lambda>v. 1 < length (filter (\<lambda>x. k x = v) xs)) (map k xs)))"

definition ByUID :: "passwd \<Rightarrow> int \<Rightarrow> passwd_entry list" where
  "ByUID p uid = filter (\<lambda>e. pe_uid e = uid) (pw_entries p)"

definition DuplicateUIDs :: "passwd \<Rightarrow> int list" where
  "DuplicateUIDs p = duplicates pe_uid (pw_entries p)"

definition DuplicateUserNames :: "passwd \<Rightarrow> string list" where
  "DuplicateUserNames p = duplicates pe_name (pw_entries p)"

definition ByGID :: "group_file \<Rightarrow> int \<Rightarrow> group_entry list" where
  "ByGID g gid = filter (\<lambda>e. ge_gid e = gid) (gr_entries g)"

definition DuplicateGIDs :: "group_file \<Rightarrow> int list" where
  "DuplicateGIDs g = duplicates ge_gid (gr_entries g)"

definition DuplicateGroupNames :: "group_file \<Rightarrow> string list" where
  "DuplicateGroupNames g = duplicates ge_name (gr_entries g)"

definition Entry :: "shadow \<Rightarrow> string \<Rightarrow> shadow_entry option" where
  "Entry s name = find (\<lambda>e. se_name e = name) (sh_entries s)"

definition Named :: "group_file \<Rightarrow> string \<Rightarrow> group_entry option" where
  "Named g name = find (\<lambda>e. ge_name e = name) (gr_entries g)"

definition Strong :: "string \<Rightarrow> bool" where
  "Strong a \<longleftrightarrow> a \<in> set [HashSHA512, HashYescrypt, HashGostYescrypt, HashScrypt, HashBcryptA]"

definition Weak :: "string \<Rightarrow> bool" where
  "Weak a \<longleftrightarrow> a \<in> set [HashDES, HashMD5, HashSHA256]"

section \<open>The password field\<close>

definition schemes :: "string gomap" where
  "schemes = [(''1'', HashMD5), (''2'', HashBcryptA), (''2a'', HashBcryptA), (''2b'', HashBcryptA), (''2x'', HashBcryptA),
     (''2y'', HashBcryptA), (''5'', HashSHA256), (''6'', HashSHA512), (''7'', HashScrypt), (''y'', HashYescrypt),
     (''gy'', HashGostYescrypt)]"

text \<open>The scheme of a field that begins with a dollar sign: what stands before the next one, when there is a next one.\<close>

definition scheme_of :: "string \<Rightarrow> string" where
  "scheme_of rest =
     (case cut_at (CHR ''$'') (drop 1 rest) of
        None \<Rightarrow> HashUnknown
      | Some (i, t) \<Rightarrow> (case lookup schemes i of None \<Rightarrow> HashUnknown | Some a \<Rightarrow> a))"

definition AlgorithmFor :: "string \<Rightarrow> string \<times> bool \<times> bool" where
  "AlgorithmFor fld =
     (if fld = [] then (HashNone, False, True)
      else
        (let rest = dropWhile (\<lambda>c. c = CHR ''!'') fld; locked = (rest \<noteq> fld) in
         if rest = [] \<or> has_prefix rest ''*'' then (HashNone, True, False)
         else if rest = ''x'' then (HashUnknown, locked, False)
         else if \<not> has_prefix rest ''$'' then (HashDES, locked, False)
         else (scheme_of rest, locked, False)))"

section \<open>Reading a database\<close>

definition PasswdPath :: string where "PasswdPath = ''/etc/passwd''"
definition ShadowPath :: string where "ShadowPath = ''/etc/shadow''"
definition GroupPath :: string where "GroupPath = ''/etc/group''"
definition maxDatabaseRead :: int where "maxDatabaseRead = 16777216"
definition passwdFields :: nat where "passwdFields = 7"
definition shadowFields :: nat where "shadowFields = 9"
definition groupFields :: nat where "groupFields = 4"

definition database_error :: "fact_id \<Rightarrow> string \<Rightarrow> error_kind \<Rightarrow> string \<Rightarrow> fact_error" where
  "database_error i path k m = \<lparr>fe_fact = i, fe_kind = k, fe_msg = m, fe_path = path\<rparr>"

definition readDatabase :: "host \<Rightarrow> fact_id \<Rightarrow> string \<Rightarrow> fact_error + read_result" where
  "readDatabase h i path =
     (case h_read_file h path maxDatabaseRead of
        Inl SysPermission \<Rightarrow> Inl (database_error i path ErrPermission ''permission denied; run as root to read this file'')
      | Inl SysNotExist \<Rightarrow> Inl (database_error i path ErrNotCollected ''file does not exist on this host'')
      | Inl SysNotRegular \<Rightarrow> Inl (database_error i path ErrParse ''path is not a regular file'')
      | Inl e \<Rightarrow> Inl (database_error i path ErrInternal (sys_error_str e))
      | Inr res \<Rightarrow>
          (if rr_truncated res
           then Inl (database_error i path ErrTruncated ''file exceeded the read cap; the account list is incomplete'')
           else
             (case NotText (rr_data res) of
                Some why \<Rightarrow> Inl (MalformedError i path why)
              | None \<Rightarrow> Inr res)))"

definition skippable :: "string \<Rightarrow> bool" where
  "skippable line \<longleftrightarrow> trim_space line = [] \<or> has_prefix (trim_space line) ''#''"

definition first_field :: "string \<Rightarrow> string" where
  "first_field line = takeWhile (\<lambda>c. c \<noteq> CHR '':'') line"

definition is_compat :: "string \<Rightarrow> bool" where
  "is_compat line \<longleftrightarrow> has_prefix (first_field line) ''+'' \<or> has_prefix (first_field line) ''-''"

text \<open>strconv.ParseUint in base 10 and 32 bits.\<close>

definition parse_uint32 :: "string \<Rightarrow> int option" where
  "parse_uint32 s =
     (if s \<noteq> [] \<and> list_all is_digit s \<and> int (dec_val s) < 2 ^ 32 then Some (int (dec_val s)) else None)"

definition optionalInt :: "string list \<Rightarrow> nat \<Rightarrow> int option" where
  "optionalInt f i =
     (if length f \<le> i then None
      else if trim_space (f ! i) = [] then None
      else atoi (trim_space (f ! i)))"

text \<open>What one line of a database is.\<close>

datatype 'e db_line = SkippedLine | CompatLine compat_entry | MalformedLine int | EntryLine 'e

definition line_text :: "string \<Rightarrow> string" where
  "line_text raw = trim_suffix raw [CHR 0x0D]"

definition passwd_line :: "nat \<times> string \<Rightarrow> passwd_entry db_line" where
  "passwd_line = (\<lambda>(n, raw).
     (let line = line_text raw; f = split_on (CHR '':'') line in
      if skippable line then SkippedLine
      else if is_compat line then CompatLine \<lparr>ce_spec = first_field line, ce_line = int n\<rparr>
      else if length f < passwdFields then MalformedLine (int n)
      else
        (case (parse_uint32 (f ! 2), parse_uint32 (f ! 3)) of
           (Some uid, Some gid) \<Rightarrow> EntryLine \<lparr>pe_name = f ! 0, pe_uid = uid, pe_gid = gid, pe_home = f ! 5,
             pe_shell = f ! 6, pe_line = int n\<rparr>
         | _ \<Rightarrow> MalformedLine (int n))))"

definition shadow_line :: "nat \<times> string \<Rightarrow> shadow_entry db_line" where
  "shadow_line = (\<lambda>(n, raw).
     (let line = line_text raw; f = split_on (CHR '':'') line in
      if skippable line then SkippedLine
      else if length f < shadowFields then MalformedLine (int n)
      else
        (case AlgorithmFor (f ! 1) of
           (alg, locked, none) \<Rightarrow> EntryLine \<lparr>se_name = f ! 0, se_empty = none, se_locked = locked, se_algorithm = alg,
             se_line = int n, se_min_days = optionalInt f 3, se_max_days = optionalInt f 4\<rparr>)))"

definition group_line :: "nat \<times> string \<Rightarrow> group_entry db_line" where
  "group_line = (\<lambda>(n, raw).
     (let line = line_text raw; f = split_on (CHR '':'') line in
      if skippable line then SkippedLine
      else if is_compat line then CompatLine \<lparr>ce_spec = first_field line, ce_line = int n\<rparr>
      else if length f < groupFields then MalformedLine (int n)
      else
        (case parse_uint32 (f ! 2) of
           None \<Rightarrow> MalformedLine (int n)
         | Some gid \<Rightarrow> EntryLine \<lparr>ge_name = f ! 0, ge_gid = gid,
             ge_members = filter (\<lambda>m. m \<noteq> []) (map trim_space (split_on (CHR '','') (f ! 3))), ge_line = int n\<rparr>)))"

text \<open>The loops: each line is appended to the list it belongs to.\<close>

definition add_passwd :: "passwd \<Rightarrow> nat \<times> string \<Rightarrow> passwd" where
  "add_passwd p l =
     (case passwd_line l of
        SkippedLine \<Rightarrow> p
      | CompatLine c \<Rightarrow> p\<lparr>pw_compat := pw_compat p @ [c]\<rparr>
      | MalformedLine n \<Rightarrow> p\<lparr>pw_malformed := pw_malformed p @ [n]\<rparr>
      | EntryLine e \<Rightarrow> p\<lparr>pw_entries := pw_entries p @ [e]\<rparr>)"

definition add_shadow :: "shadow \<Rightarrow> nat \<times> string \<Rightarrow> shadow" where
  "add_shadow s l =
     (case shadow_line l of
        MalformedLine n \<Rightarrow> s\<lparr>sh_malformed := sh_malformed s @ [n]\<rparr>
      | EntryLine e \<Rightarrow> s\<lparr>sh_entries := sh_entries s @ [e]\<rparr>
      | _ \<Rightarrow> s)"

definition add_group :: "group_file \<Rightarrow> nat \<times> string \<Rightarrow> group_file" where
  "add_group g l =
     (case group_line l of
        SkippedLine \<Rightarrow> g
      | CompatLine c \<Rightarrow> g\<lparr>gr_compat := gr_compat g @ [c]\<rparr>
      | MalformedLine n \<Rightarrow> g\<lparr>gr_malformed := gr_malformed g @ [n]\<rparr>
      | EntryLine e \<Rightarrow> g\<lparr>gr_entries := gr_entries g @ [e]\<rparr>)"

definition parse_passwd :: "read_result \<Rightarrow> passwd" where
  "parse_passwd res = foldl add_passwd
     \<lparr>pw_entries = [], pw_compat = [], pw_malformed = [], pw_path = PasswdPath, pw_digest = rr_sha256 res\<rparr>
     (numbered_lines (rr_data res))"

definition parse_shadow :: "read_result \<Rightarrow> shadow" where
  "parse_shadow res = foldl add_shadow \<lparr>sh_entries = [], sh_malformed = [], sh_path = ShadowPath\<rparr>
     (numbered_lines (rr_data res))"

definition parse_group :: "read_result \<Rightarrow> group_file" where
  "parse_group res = foldl add_group
     \<lparr>gr_entries = [], gr_compat = [], gr_malformed = [], gr_path = GroupPath, gr_digest = rr_sha256 res\<rparr>
     (numbered_lines (rr_data res))"

definition collectPasswd :: "host \<Rightarrow> fact_error + passwd" where
  "collectPasswd h = map_sum id parse_passwd (readDatabase h PasswdID PasswdPath)"

definition collectShadow :: "host \<Rightarrow> fact_error + shadow" where
  "collectShadow h = map_sum id parse_shadow (readDatabase h ShadowID ShadowPath)"

definition collectGroup :: "host \<Rightarrow> fact_error + group_file" where
  "collectGroup h = map_sum id parse_group (readDatabase h GroupID GroupPath)"

section \<open>The name-service routing table\<close>

text \<open>A state is a string, as a decoded fact may hold any.\<close>

definition FilePresent :: string where "FilePresent = ''present''"
definition FileAbsent :: string where "FileAbsent = ''absent''"
definition FileDenied :: string where "FileDenied = ''denied''"
definition FileError :: string where "FileError = ''error''"

record nsswitch_db =
  nd_name :: string
  nd_sources :: "string list"
  nd_line :: int

record nsswitch =
  ns_databases :: "nsswitch_db list"
  ns_state :: string
  ns_path :: string
  ns_malformed :: "int list"
  ns_digest :: string

definition Sources :: "nsswitch \<Rightarrow> string \<Rightarrow> string list option" where
  "Sources n db = map_option nd_sources (find (\<lambda>d. nd_name d = db) (ns_databases n))"

definition LocalFilesAuthoritative :: "nsswitch \<Rightarrow> string \<Rightarrow> bool" where
  "LocalFilesAuthoritative n db \<longleftrightarrow> ns_state n = FilePresent \<and> Sources n db = Some [''files'']"

definition NonFileSources :: "nsswitch \<Rightarrow> string \<Rightarrow> string list" where
  "NonFileSources n db = (case Sources n db of None \<Rightarrow> [] | Some src \<Rightarrow> filter (\<lambda>s. s \<noteq> ''files'') src)"

text \<open>The bytes a strings.Builder holds after the runes of a string were written to it: bad UTF-8 is replaced.\<close>

function valid_runes :: "string \<Rightarrow> string" where
  "valid_runes [] = []"
| "valid_runes (c # s) =
     (case decode_rune (c # s) of (r, w) \<Rightarrow> encode_rune r @ valid_runes (drop w (c # s)))"
  by pat_completeness auto
termination
proof (relation "measure length")
  fix c s x y assume "(x, y) = decode_rune (c # s)"
  then have "0 < y" using decode_rune_pos[of c s] by (metis snd_conv)
  then show "(drop y (c # s), c # s) \<in> measure length" by simp
qed simp

declare valid_runes.simps [simp del]

text \<open>The loop over the text after the colon: the depth of the action brackets, the token and the sources so far.\<close>

definition flush_token :: "string \<Rightarrow> string list \<Rightarrow> string list" where
  "flush_token tok out = (if tok = [] then out else out @ [to_lower tok])"

fun source_loop :: "nat \<Rightarrow> string \<Rightarrow> string list \<Rightarrow> string \<Rightarrow> string list" where
  "source_loop depth tok out [] = flush_token tok out"
| "source_loop depth tok out (c # s) =
     (if c = CHR ''['' then source_loop (Suc depth) [] (flush_token tok out) s
      else if c = CHR '']'' then source_loop (depth - 1) tok out s
      else if 0 < depth then source_loop depth tok out s
      else if c = CHR '' '' \<or> c = CHR 0x09 then source_loop depth [] (flush_token tok out) s
      else source_loop depth (tok @ [c]) out s)"

definition ParseNSSwitchLine :: "string \<Rightarrow> (string \<times> string list) option" where
  "ParseNSSwitchLine raw =
     (let line = trim_space (takeWhile (\<lambda>c. c \<noteq> CHR ''#'') raw) in
      if line = [] then None
      else
        (case cut_at (CHR '':'') line of
           None \<Rightarrow> None
         | Some (nm, rest) \<Rightarrow>
             (let name = trim_space nm in
              if name = [] \<or> contains_any name [CHR '' '', CHR 0x09] then None
              else Some (to_lower name, source_loop 0 [] [] (valid_runes rest)))))"

definition NSSwitchPath :: string where "NSSwitchPath = ''/etc/nsswitch.conf''"

definition add_nsswitch :: "nsswitch \<Rightarrow> nat \<times> string \<Rightarrow> nsswitch" where
  "add_nsswitch n = (\<lambda>(i, raw).
     (let line = line_text raw in
      if skippable line then n
      else
        (case ParseNSSwitchLine line of
           None \<Rightarrow> n\<lparr>ns_malformed := ns_malformed n @ [int i]\<rparr>
         | Some (db, sources) \<Rightarrow> n\<lparr>ns_databases := ns_databases n @ [\<lparr>nd_name = db, nd_sources = sources, nd_line = int i\<rparr>]\<rparr>)))"

definition collectNSSwitch :: "host \<Rightarrow> nsswitch" where
  "collectNSSwitch h =
     (let n = \<lparr>ns_databases = [], ns_state = FilePresent, ns_path = NSSwitchPath, ns_malformed = [], ns_digest = []\<rparr> in
      case h_read_file h NSSwitchPath maxDatabaseRead of
        Inl SysNotExist \<Rightarrow> n\<lparr>ns_state := FileAbsent\<rparr>
      | Inl SysPermission \<Rightarrow> n\<lparr>ns_state := FileDenied\<rparr>
      | Inl e \<Rightarrow> n\<lparr>ns_state := FileError\<rparr>
      | Inr res \<Rightarrow>
          (if rr_truncated res then n\<lparr>ns_state := FileError\<rparr>
           else if NotText (rr_data res) \<noteq> None then n\<lparr>ns_state := FileError\<rparr>
           else foldl add_nsswitch (n\<lparr>ns_digest := rr_sha256 res\<rparr>) (numbered_lines (rr_data res))))"

section \<open>The collector\<close>

text \<open>
  \<open>store\<close> puts a database or its error into the fact set. The collector stops between two files when the scan is
  over, which is what \<open>ended n\<close> says at its n-th test, and keeps what it has.
\<close>

definition store :: "fact_id \<Rightarrow> ('a \<Rightarrow> 'v) \<Rightarrow> fact_error + 'a \<Rightarrow> 'v fact_set \<Rightarrow> 'v fact_set" where
  "store i wrap r fs =
     (case r of
        Inl e \<Rightarrow> PutError e fs
      | Inr x \<Rightarrow> Put \<lparr>fact_id = i, fact_version = 1, opaque_version = None, payload = wrap x\<rparr> fs)"

definition Collect ::
  "(passwd \<Rightarrow> 'v) \<Rightarrow> (shadow \<Rightarrow> 'v) \<Rightarrow> (group_file \<Rightarrow> 'v) \<Rightarrow> (nsswitch \<Rightarrow> 'v) \<Rightarrow> host \<Rightarrow> (nat \<Rightarrow> bool) \<Rightarrow> 'v fact_set \<Rightarrow> 'v fact_set" where
  "Collect wp ws wg wn h ended fs =
     (let fs1 = store PasswdID wp (collectPasswd h) fs in
      if ended 0 then fs1
      else
        (let fs2 = store ShadowID ws (collectShadow h) fs1 in
         if ended 1 then fs2
         else
           (let fs3 = store GroupID wg (collectGroup h) fs2 in
            if ended 2 then fs3 else store NSSwitchID wn (Inr (collectNSSwitch h)) fs3)))"

end
