(* ===== verification/Logindefs.thy ===== *)
theory Logindefs
  imports System Finding
begin

text \<open>
  internal/fact/logindefs.go, the reader of /etc/login.defs in internal/collect/collectors/auth/logindefs.go, and
  internal/catalog/checks/logindefs, what the checks that read the file share.
\<close>

section \<open>The fact\<close>

definition LoginDefsID :: fact_id where "LoginDefsID = ''auth.login_defs''"

definition SourcePresent :: string where "SourcePresent = ''present''"
definition SourceAbsent :: string where "SourceAbsent = ''absent''"
definition SourceDenied :: string where "SourceDenied = ''denied''"
definition SourceError :: string where "SourceError = ''error''"

record login_setting =
  ls_key :: string
  ls_value :: string
  ls_line :: int

record login_defs =
  ld_state :: string
  ld_path :: string
  ld_msg :: string
  ld_digest :: string
  ld_settings :: "login_setting list"

definition IsPresent :: "login_defs \<Rightarrow> bool" where
  "IsPresent l \<longleftrightarrow> ld_state l = SourcePresent"

definition EffectiveSetting :: "login_defs \<Rightarrow> string \<Rightarrow> login_setting option" where
  "EffectiveSetting l key = find (\<lambda>s. ls_key s = key) (ld_settings l)"

definition Shadowed :: "login_defs \<Rightarrow> string \<Rightarrow> login_setting list" where
  "Shadowed l key = drop 1 (filter (\<lambda>s. ls_key s = key) (ld_settings l))"

text \<open>The value as a number and the setting it was read from; \<open>None\<close> when there is no setting or no number.\<close>

definition IntSetting :: "login_defs \<Rightarrow> string \<Rightarrow> (int \<times> login_setting) option" where
  "IntSetting l key =
     (case EffectiveSetting l key of
        None \<Rightarrow> None
      | Some s \<Rightarrow> map_option (\<lambda>n. (n, s)) (atoi (ls_value s)))"

section \<open>Reading the file\<close>

definition LoginDefsPath :: string where "LoginDefsPath = ''/etc/login.defs''"
definition maxLoginDefsRead :: int where "maxLoginDefsRead = 1048576"

text \<open>The key and the rest of a line: cut at the first space, or at the first tab when there is no space.\<close>

definition cut_key :: "string \<Rightarrow> (string \<times> string) option" where
  "cut_key line =
     (case cut_at (CHR '' '') line of
        Some kr \<Rightarrow> Some kr
      | None \<Rightarrow> cut_at (CHR 0x09) line)"

definition parseLoginDefsLine :: "string \<Rightarrow> (string \<times> string) option" where
  "parseLoginDefsLine raw =
     (let line = trim_space raw in
      if line = [] \<or> has_prefix line ''#'' then None
      else
        (case cut_key line of
           None \<Rightarrow> None
         | Some (key, rest) \<Rightarrow>
             (if contains_any key ''='' then None
              else
                (let v = trim_space rest;
                     value = (case cut_at (CHR ''#'') v of None \<Rightarrow> v | Some (a, b) \<Rightarrow> trim_space a) in
                 if v = [] \<or> value = [] then None else Some (key, value)))))"

definition settings_of :: "string \<Rightarrow> login_setting list" where
  "settings_of data = List.map_filter (\<lambda>(n, raw).
     map_option (\<lambda>(key, value). \<lparr>ls_key = key, ls_value = value, ls_line = int n\<rparr>) (parseLoginDefsLine raw))
     (numbered_lines data)"

definition readLoginDefs :: "host \<Rightarrow> login_defs" where
  "readLoginDefs h =
     (let l = \<lparr>ld_state = [], ld_path = LoginDefsPath, ld_msg = [], ld_digest = [], ld_settings = []\<rparr> in
      case h_read_file h LoginDefsPath maxLoginDefsRead of
        Inl SysNotExist \<Rightarrow> l\<lparr>ld_state := SourceAbsent\<rparr>
      | Inl SysPermission \<Rightarrow> l\<lparr>ld_state := SourceDenied, ld_msg := ''permission denied''\<rparr>
      | Inl e \<Rightarrow> l\<lparr>ld_state := SourceError, ld_msg := sys_error_str e\<rparr>
      | Inr res \<Rightarrow>
          (case NotText (rr_data res) of
             Some why \<Rightarrow> l\<lparr>ld_state := SourceError, ld_msg := why\<rparr>
           | None \<Rightarrow> l\<lparr>ld_state := SourcePresent, ld_digest := rr_sha256 res, ld_settings := settings_of (rr_data res)\<rparr>))"

section \<open>What the checks share\<close>

definition Evidence :: "login_defs \<Rightarrow> login_setting \<Rightarrow> evidence" where
  "Evidence l s = new_evidence (ld_path l) (ls_line s) (ls_key s @ '' '' @ ls_value s) (ld_digest l)"

definition plural :: "nat \<Rightarrow> string \<Rightarrow> string \<Rightarrow> string" where
  "plural n one many = (if n = 1 then one else many)"

definition ShadowedNote :: "login_defs \<Rightarrow> string \<Rightarrow> string" where
  "ShadowedNote l key =
     (let dead = Shadowed l key in
      if dead = [] then []
      else '' '' @ (if 1 < length dead then ''Further definitions'' else ''One further definition'') @ '' of '' @ key
        @ '' appear below it and '' @ plural (length dead) ''is'' ''are''
        @ '' never read '' @ em_dash @ '' login.defs takes the first match: ''
        @ join '', '' (map (\<lambda>s. ''line '' @ int_str (ls_line s) @ '' ('' @ ls_value s @ '')'') dead) @ ''.'')"

section \<open>What a line holds\<close>

text \<open>
  Only the first of space and tab that is tried separates the key. A line that uses a tab there and has a space
  later, before a comment for instance, loses its setting, or keeps it under a key with the tab in it.
\<close>

lemma tab_before_comment:
  "parseLoginDefsLine (''PASS_MIN_DAYS'' @ [CHR 0x09] @ ''7'') = Some (''PASS_MIN_DAYS'', ''7'')"
  "parseLoginDefsLine (''PASS_MIN_DAYS'' @ [CHR 0x09] @ ''7 # a week'') = None"
  "parseLoginDefsLine (''PASS_MIN_DAYS'' @ [CHR 0x09] @ ''7 days'') = Some (''PASS_MIN_DAYS'' @ [CHR 0x09] @ ''7'', ''days'')"
  by code_simp+

end
