(* ===== verification/Payload.thy ===== *)
theory Payload
  imports Sshd Sysctl Users Logindefs Json
begin

text \<open>
  The Go types a fact of the set can have. \<open>UnknownFact\<close> is the bundle's, with the bytes it preserves;
  \<open>OtherFact\<close> is a fact of a type the development has no constructor for, by the name of its type and
  the JSON it marshals to.
\<close>

datatype payload = SSHDFact sshd_config | SysctlFact sysctl | PasswdFact passwd | ShadowFact shadow | GroupFact group_file
  | NSSwitchFact nsswitch | LoginDefsFact login_defs | UnknownFact string | OtherFact string json

fun payload_type :: "payload \<Rightarrow> string" where
  "payload_type (SSHDFact c) = ''fact.SSHDConfig''"
| "payload_type (SysctlFact s) = ''fact.Sysctl''"
| "payload_type (PasswdFact p) = ''fact.Passwd''"
| "payload_type (ShadowFact s) = ''fact.Shadow''"
| "payload_type (GroupFact g) = ''fact.Group''"
| "payload_type (NSSwitchFact n) = ''fact.NSSwitch''"
| "payload_type (LoginDefsFact l) = ''fact.LoginDefs''"
| "payload_type (UnknownFact raw) = ''bundle.UnknownFact''"
| "payload_type (OtherFact t j) = t"

fun as_sshd :: "payload \<Rightarrow> sshd_config option" where
  "as_sshd (SSHDFact c) = Some c"
| "as_sshd _ = None"

fun as_sysctl :: "payload \<Rightarrow> sysctl option" where
  "as_sysctl (SysctlFact s) = Some s"
| "as_sysctl _ = None"

fun as_passwd :: "payload \<Rightarrow> passwd option" where
  "as_passwd (PasswdFact x) = Some x"
| "as_passwd _ = None"

fun as_shadow :: "payload \<Rightarrow> shadow option" where
  "as_shadow (ShadowFact x) = Some x"
| "as_shadow _ = None"

fun as_group :: "payload \<Rightarrow> group_file option" where
  "as_group (GroupFact x) = Some x"
| "as_group _ = None"

fun as_login_defs :: "payload \<Rightarrow> login_defs option" where
  "as_login_defs (LoginDefsFact x) = Some x"
| "as_login_defs _ = None"

end
