(* ===== verification/Sshd_Checks.thy ===== *)
theory Sshd_Checks
  imports Payload Catalog
begin

text \<open>
  internal/catalog/checks/sshd: the evaluation half of the SSHD module. First the plumbing of sshd.go,
  which every check shares, then the three kinds of specification (boolean.go, numeric.go,
  algorithms.go) and the checks that are written out. A specification is a record of what the check
  declares, function fields included, and its \<open>eval\<close> is the method. A check reads the fact set and
  returns an outcome; \<open>Inl\<close> is a panic. Go's int is an integer whose sums and products are cut to 64
  bits by \<open>wrap64\<close>.
\<close>

section \<open>Reading the fact\<close>

definition configFact :: "payload fact_set \<Rightarrow> sshd_config" where
  "configFact fs =
     (case get (\<lambda>f. as_sshd (payload f)) (\<lambda>f. payload_type (payload f)) ''fact.SSHDConfig'' fs SSHDConfigID of
        Present c \<Rightarrow> c
      | _ \<Rightarrow> empty_config)"

section \<open>Shared plumbing\<close>

text \<open>OpenSSH's built-in defaults.\<close>

definition defaultPasswordAuthentication :: string where "defaultPasswordAuthentication = ''yes''"
definition defaultPermitEmptyPasswords :: string where "defaultPermitEmptyPasswords = ''no''"
definition defaultX11Forwarding :: string where "defaultX11Forwarding = ''no''"
definition defaultMaxAuthTries :: int where "defaultMaxAuthTries = 6"
definition defaultClientAliveInterval :: int where "defaultClientAliveInterval = 0"
definition defaultClientAliveCountMax :: int where "defaultClientAliveCountMax = 3"
definition defaultAllowTcpForwarding :: string where "defaultAllowTcpForwarding = ''yes''"
definition defaultLogLevel :: string where "defaultLogLevel = ''INFO''"
definition defaultIgnoreRhosts :: string where "defaultIgnoreRhosts = ''yes''"
definition defaultHostbasedAuthentication :: string where "defaultHostbasedAuthentication = ''no''"
definition defaultPermitUserEnvironment :: string where "defaultPermitUserEnvironment = ''no''"
definition defaultLoginGraceTime :: int where "defaultLoginGraceTime = 120"
definition defaultAllowAgentForwarding :: string where "defaultAllowAgentForwarding = ''yes''"
definition defaultStrictModes :: string where "defaultStrictModes = ''yes''"
definition defaultUsePAM :: string where "defaultUsePAM = ''no''"

definition notApplicable :: outcome where
  "notApplicable = zero_outcome\<lparr>oc_result := NotApplicable,
     oc_detail := ''No sshd configuration found; the SSH server is not configured on this host.''\<rparr>"

definition primaryEvidence :: "sshd_config \<Rightarrow> string \<Rightarrow> evidence" where
  "primaryEvidence cfg excerpt =
     (let f = (case sc_files cfg of [] \<Rightarrow> [] | f # _ \<Rightarrow> f)
      in new_evidence f 0 excerpt (digest_of cfg f))"

definition directiveEvidence :: "sshd_config \<Rightarrow> directive \<Rightarrow> evidence" where
  "directiveEvidence cfg d =
     new_evidence (d_file d) (d_line d) (d_keyword d @ '' '' @ d_value d) (digest_of cfg (d_file d))"

definition unresolvedInclude :: "sshd_config \<Rightarrow> string \<Rightarrow> outcome" where
  "unresolvedInclude cfg keyword = zero_outcome\<lparr>oc_result := Unknown, oc_reason := ReasonAmbiguousState,
     oc_detail := keyword @ '' is not set in any readable file, but '' @ nat_str (length (sc_unresolved cfg)) @
       '' Include directive(s) could not be resolved ('' @ join '', '' (sc_unresolved cfg) @
       ''); the effective value cannot be determined.'',
     oc_evidence := [primaryEvidence cfg (''unresolved Include: '' @ join '', '' (sc_unresolved cfg))]\<rparr>"

definition matchScopedEvidence :: "sshd_config \<Rightarrow> string \<Rightarrow> evidence list" where
  "matchScopedEvidence cfg keyword =
     map (\<lambda>d. new_evidence (d_file d) (d_line d)
         (d_keyword d @ '' '' @ d_value d @ ''  (inside 'Match '' @ d_match d @ [CHR 0x27] @
           ''; conditional, does not set the global value)'')
         (digest_of cfg (d_file d)))
       (filter d_in_match (AllOccurrences cfg keyword))"

definition syntaxError :: "sshd_config \<Rightarrow> string \<Rightarrow> outcome" where
  "syntaxError cfg keyword =
     (let first = hd (sc_syntax cfg) in
      zero_outcome\<lparr>oc_result := Unknown, oc_reason := ReasonParse, oc_subject := keyword,
        oc_detail := ''The effective value of '' @ keyword @ '' cannot be determined: '' @ cl_file first @
          '' carries '' @ nat_str (length (sc_syntax cfg)) @ '' line(s) that sshd will not parse, the first at '' @
          cl_file first @ '':'' @ int_str (cl_line first) @ '' ('' @ go_quote (cl_text first) @
          ''). sshd refuses a configuration file as a unit rather than skipping the bad line, so this '' @
          ''file is not loaded '' @ em_dash @
          '' the daemon is running whatever configuration last parsed successfully, or is not running '' @
          ''at all, and neither is visible from disk. Fix the syntax and re-scan; 'sshd -t' reports '' @
          ''the same lines.'',
        oc_evidence := map (\<lambda>l. new_evidence (cl_file l) (cl_line l)
          (cl_text l @ ''  '' @ left_arrow @
            '' keyword with no argument; sshd -t rejects this'') []) (sc_syntax cfg)\<rparr>)"

definition evaluate ::
  "payload fact_set \<Rightarrow> string \<Rightarrow> (sshd_config \<Rightarrow> outcome) \<Rightarrow> (sshd_config \<Rightarrow> directive \<Rightarrow> outcome) \<Rightarrow> outcome" where
  "evaluate fs keyword onAbsent onValue =
     (let cfg = configFact fs in
      if \<not> sc_installed cfg then notApplicable
      else if sc_syntax cfg \<noteq> [] then syntaxError cfg keyword
      else
        (case Effective cfg keyword of
           None \<Rightarrow> (if sc_unresolved cfg \<noteq> [] then unresolvedInclude cfg keyword else onAbsent cfg)
         | Some d \<Rightarrow> onValue cfg d))"

definition loosenedInMatch :: "sshd_config \<Rightarrow> string \<Rightarrow> (string \<Rightarrow> bool) \<Rightarrow> directive list" where
  "loosenedInMatch cfg keyword insecure = filter (\<lambda>d. d_in_match d \<and> insecure (d_value d)) (AllOccurrences cfg keyword)"

fun oneLower :: "severity \<Rightarrow> severity" where
  "oneLower Critical = High"
| "oneLower High = Medium"
| "oneLower Medium = Low"
| "oneLower _ = Info"

definition scopes_text :: "directive list \<Rightarrow> string" where
  "scopes_text loosened = join ''; '' (map (\<lambda>d.
     [CHR 0x27] @ ''Match '' @ d_match d @ [CHR 0x27] @ '' sets '' @ d_keyword d @ '' to '' @ go_quote (d_value d) @
       '' at '' @ d_file d @ '':'' @ int_str (d_line d)) loosened)"

definition conditionalFail ::
  "sshd_config \<Rightarrow> string \<Rightarrow> string \<Rightarrow> evidence \<Rightarrow> directive list \<Rightarrow> severity \<Rightarrow> string \<Rightarrow> outcome" where
  "conditionalFail cfg keyword globalDesc globalEv loosened base consequence =
     zero_outcome\<lparr>oc_result := Fail, oc_severity := oneLower base, oc_subject := keyword,
       oc_detail := keyword @ '' is '' @ globalDesc @ '', but '' @ nat_str (length loosened) @
         '' Match block(s) override it for a subset of connections: '' @ scopes_text loosened @ ''. '' @ consequence @
         '' The severity is one step below a global misconfiguration because the exposure is '' @ ''conditional '' @
         em_dash @ '' but it is reachable, so this is not a PASS.'',
       oc_evidence := globalEv # map (\<lambda>d. new_evidence (d_file d) (d_line d)
         (d_keyword d @ '' '' @ d_value d @ ''  (inside 'Match '' @ d_match d @ [CHR 0x27] @
           ''; overrides the global value for matching connections)'')
         (digest_of cfg (d_file d))) loosened\<rparr>"

section \<open>Keywords with two values\<close>

record boolSpec =
  bs_Keyword :: string
  bs_Secure :: string
  bs_Default :: string
  bs_Base :: severity
  bs_FailSeverity :: severity
  bs_Consequence :: string
  bs_Assurance :: string

definition opposite :: "boolSpec \<Rightarrow> string" where
  "opposite s = (if equal_fold (bs_Secure s) ''yes'' then ''no'' else ''yes'')"

definition bool_insecure :: "boolSpec \<Rightarrow> string \<Rightarrow> bool" where
  "bool_insecure s v \<longleftrightarrow> equal_fold (trim_space v) (opposite s)"

definition bool_severity :: "boolSpec \<Rightarrow> severity" where
  "bool_severity s = (if bs_FailSeverity s = NoSeverity then bs_Base s else bs_FailSeverity s)"

definition bool_absent :: "boolSpec \<Rightarrow> sshd_config \<Rightarrow> outcome" where
  "bool_absent s cfg =
     (let desc = ''not configured, so sshd applies its built-in default of '' @ go_quote (bs_Default s);
          ev = primaryEvidence cfg (bs_Keyword s @ '' not present in any parsed file; built-in default '' @
            go_quote (bs_Default s) @ '' applies'');
          loosened = loosenedInMatch cfg (bs_Keyword s) (bool_insecure s) in
      if \<not> equal_fold (bs_Default s) (bs_Secure s) then
        zero_outcome\<lparr>oc_result := Fail, oc_severity := bool_severity s, oc_subject := bs_Keyword s,
          oc_detail := bs_Keyword s @ '' is '' @ desc @ '', so '' @ bs_Consequence s, oc_evidence := [ev]\<rparr>
      else if loosened \<noteq> [] then
        conditionalFail cfg (bs_Keyword s) desc ev loosened (bs_Base s) (bs_Consequence s)
      else
        zero_outcome\<lparr>oc_result := Pass,
          oc_detail := bs_Keyword s @ '' is '' @ desc @ '', which is the secure value; '' @ bs_Assurance s,
          oc_evidence := [ev]\<rparr>)"

definition bool_value :: "boolSpec \<Rightarrow> sshd_config \<Rightarrow> directive \<Rightarrow> outcome" where
  "bool_value s cfg d =
     (let ev = directiveEvidence cfg d; value = trim_space (d_value d);
          loosened = loosenedInMatch cfg (bs_Keyword s) (bool_insecure s) in
      if equal_fold value (bs_Secure s) then
        (if loosened \<noteq> [] then
           conditionalFail cfg (bs_Keyword s)
             (''set to '' @ go_quote (d_value d) @ '' globally at '' @ d_file d @ '':'' @ int_str (d_line d))
             ev loosened (bs_Base s) (bs_Consequence s)
         else
           zero_outcome\<lparr>oc_result := Pass,
             oc_detail := bs_Keyword s @ '' is set to '' @ go_quote (d_value d) @ '' at '' @ d_file d @ '':'' @
               int_str (d_line d) @ ''; '' @ bs_Assurance s,
             oc_evidence := [ev] @ matchScopedEvidence cfg (bs_Keyword s)\<rparr>)
      else if bool_insecure s value then
        zero_outcome\<lparr>oc_result := Fail, oc_severity := bool_severity s, oc_subject := bs_Keyword s,
          oc_detail := bs_Keyword s @ '' is set to '' @ go_quote (d_value d) @ '' at '' @ d_file d @ '':'' @
            int_str (d_line d) @ '', so '' @ bs_Consequence s,
          oc_evidence := [ev] @ matchScopedEvidence cfg (bs_Keyword s)\<rparr>
      else
        zero_outcome\<lparr>oc_result := Unknown, oc_reason := ReasonParse, oc_subject := bs_Keyword s,
          oc_detail := bs_Keyword s @ '' has unrecognised value '' @ go_quote (d_value d) @ '' at '' @ d_file d @
            '':'' @ int_str (d_line d) @
            ''; sshd accepts only yes or no here and would reject this configuration, so the running '' @
            ''server may be using a different file.'',
          oc_evidence := [ev]\<rparr>)"

definition bool_eval :: "boolSpec \<Rightarrow> payload fact_set \<Rightarrow> outcome" where
  "bool_eval s fs = evaluate fs (bs_Keyword s) (bool_absent s) (bool_value s)"

section \<open>Keywords with a number\<close>

definition parseInt :: "string \<Rightarrow> int option" where
  "parseInt v = atoi (trim_space v)"

text \<open>The unit of a byte, in either case: bit 5 is set before the look-up.\<close>

definition time_unit :: "char \<Rightarrow> int option" where
  "time_unit c = map_of [(0x73, 1), (0x6D, 60), (0x68, 3600), (0x64, 86400), (0x77, 604800)]
     (Bit_Operations.or (byte c) 0x20)"

fun time_loop :: "string \<Rightarrow> int \<Rightarrow> string \<Rightarrow> int option" where
  "time_loop [] acc digits = (if digits \<noteq> [] then None else Some acc)"
| "time_loop (c # s) acc digits =
     (if is_digit c then time_loop s acc (digits @ [c])
      else
        (case time_unit c of
           None \<Rightarrow> None
         | Some mul \<Rightarrow>
             (if digits = [] then None
              else
                (case atoi digits of
                   None \<Rightarrow> None
                 | Some n \<Rightarrow> time_loop s (wrap64 (acc + wrap64 (n * mul))) []))))"

definition parseTimeSeconds :: "string \<Rightarrow> int option" where
  "parseTimeSeconds v =
     (let s = trim_space v in
      if s = [] then None
      else
        (case parseInt s of
           Some n \<Rightarrow> (if 0 \<le> n then Some n else None)
         | None \<Rightarrow> time_loop s 0 []))"

record intSpec =
  is_Keyword :: string
  is_Default :: int
  is_Parse :: "(string \<Rightarrow> int option) option"
  is_Acceptable :: "int \<Rightarrow> bool"
  is_Render :: "(int \<Rightarrow> string) option"
  is_Base :: severity
  is_FailSeverity :: severity
  is_Consequence :: string
  is_Assurance :: string
  is_Syntax :: string

definition int_parse :: "intSpec \<Rightarrow> string \<Rightarrow> int option" where
  "int_parse s v = (case is_Parse s of Some f \<Rightarrow> f v | None \<Rightarrow> parseInt v)"

definition int_render :: "intSpec \<Rightarrow> int \<Rightarrow> string" where
  "int_render s n = (case is_Render s of Some f \<Rightarrow> f n | None \<Rightarrow> int_str n)"

definition int_insecure :: "intSpec \<Rightarrow> string \<Rightarrow> bool" where
  "int_insecure s v = (case int_parse s v of Some n \<Rightarrow> \<not> is_Acceptable s n | None \<Rightarrow> False)"

definition int_severity :: "intSpec \<Rightarrow> severity" where
  "int_severity s = (if is_FailSeverity s = NoSeverity then is_Base s else is_FailSeverity s)"

definition int_absent :: "intSpec \<Rightarrow> sshd_config \<Rightarrow> outcome" where
  "int_absent s cfg =
     (let desc = ''not configured, so sshd applies its built-in default of '' @ int_render s (is_Default s);
          ev = primaryEvidence cfg (is_Keyword s @ '' not present in any parsed file; built-in default '' @
            int_render s (is_Default s) @ '' applies'');
          loosened = loosenedInMatch cfg (is_Keyword s) (int_insecure s) in
      if \<not> is_Acceptable s (is_Default s) then
        zero_outcome\<lparr>oc_result := Fail, oc_severity := int_severity s, oc_subject := is_Keyword s,
          oc_detail := is_Keyword s @ '' is '' @ desc @ '', so '' @ is_Consequence s, oc_evidence := [ev]\<rparr>
      else if loosened \<noteq> [] then
        conditionalFail cfg (is_Keyword s) desc ev loosened (is_Base s) (is_Consequence s)
      else
        zero_outcome\<lparr>oc_result := Pass,
          oc_detail := is_Keyword s @ '' is '' @ desc @ '', which satisfies this check; '' @ is_Assurance s,
          oc_evidence := [ev]\<rparr>)"

definition int_value :: "intSpec \<Rightarrow> sshd_config \<Rightarrow> directive \<Rightarrow> outcome" where
  "int_value s cfg d =
     (let ev = directiveEvidence cfg d in
      case int_parse s (d_value d) of
        None \<Rightarrow>
          zero_outcome\<lparr>oc_result := Unknown, oc_reason := ReasonParse, oc_subject := is_Keyword s,
            oc_detail := is_Keyword s @ '' has unreadable value '' @ go_quote (d_value d) @ '' at '' @ d_file d @
              '':'' @ int_str (d_line d) @ ''; sshd accepts '' @ is_Syntax s @
              '' here and would reject this configuration, so the running server may be using a different '' @
              ''file.'',
            oc_evidence := [ev]\<rparr>
      | Some n \<Rightarrow>
          (let loosened = loosenedInMatch cfg (is_Keyword s) (int_insecure s) in
           if \<not> is_Acceptable s n then
             zero_outcome\<lparr>oc_result := Fail, oc_severity := int_severity s, oc_subject := is_Keyword s,
               oc_detail := is_Keyword s @ '' is set to '' @ int_render s n @ '' at '' @ d_file d @ '':'' @
                 int_str (d_line d) @ '', so '' @ is_Consequence s,
               oc_evidence := [ev] @ matchScopedEvidence cfg (is_Keyword s)\<rparr>
           else if loosened \<noteq> [] then
             conditionalFail cfg (is_Keyword s)
               (''set to '' @ int_render s n @ '' globally at '' @ d_file d @ '':'' @ int_str (d_line d))
               ev loosened (is_Base s) (is_Consequence s)
           else
             zero_outcome\<lparr>oc_result := Pass,
               oc_detail := is_Keyword s @ '' is set to '' @ int_render s n @ '' at '' @ d_file d @ '':'' @
                 int_str (d_line d) @ ''; '' @ is_Assurance s,
               oc_evidence := [ev] @ matchScopedEvidence cfg (is_Keyword s)\<rparr>))"

definition int_eval :: "intSpec \<Rightarrow> payload fact_set \<Rightarrow> outcome" where
  "int_eval s fs = evaluate fs (is_Keyword s) (int_absent s) (int_value s)"

section \<open>Algorithm lists\<close>

datatype algMode = algAbsolute | algAdd | algRemove | algHead

record algList =
  al_Mode :: algMode
  al_Items :: "string list"

definition mode_of :: "char \<Rightarrow> algMode" where
  "mode_of c = (if c = CHR ''+'' then algAdd else if c = CHR ''-'' then algRemove
     else if c = CHR ''^'' then algHead else algAbsolute)"

definition parseAlgList :: "string \<Rightarrow> algList" where
  "parseAlgList v =
     (let s = trim_space v in
      case s of
        [] \<Rightarrow> \<lparr>al_Mode = algAbsolute, al_Items = []\<rparr>
      | c # t \<Rightarrow>
          (let m = mode_of c; rest = (if m = algAbsolute then s else t) in
           \<lparr>al_Mode = m, al_Items = filter (\<lambda>i. i \<noteq> []) (map trim_space (split_on (CHR '','') rest))\<rparr>))"

definition weakCipher :: "string \<Rightarrow> string option" where
  "weakCipher name =
     (let n = to_lower (trim_space name) in
      if n = ''none'' then Some (''no encryption at all; the session is plaintext'')
      else if has_prefix n ''3des'' then Some (''3DES has a 64-bit block, which makes it vulnerable to the Sweet32 birthday attack '' @
        ''(CVE-2016-2183) on long-lived connections'')
      else if has_prefix n ''arcfour'' then Some (''RC4 has a biased keystream and is prohibited for TLS by RFC 7465; it was removed from '' @
        ''OpenSSH's defaults in 6.7'')
      else if has_prefix n ''blowfish'' \<or> has_prefix n ''cast128'' then Some (''a 64-bit block cipher, vulnerable to the same birthday bound as 3DES'')
      else if has_prefix n ''des-'' \<or> n = ''des'' then Some (''single DES has a 56-bit key and is brute-forceable'')
      else if has_suffix n ''-cbc'' \<or> contains n ''-cbc@'' then Some (''CBC mode in SSH is vulnerable to the plaintext-recovery attack of CVE-2008-5161; OpenSSH '' @
        ''removed CBC ciphers from its defaults in 7.6'')
      else None)"

definition weakMAC :: "string \<Rightarrow> string option" where
  "weakMAC name =
     (let n = to_lower (trim_space name) in
      if n = ''none'' then Some (''no integrity protection at all; the session can be modified in transit'')
      else if contains n ''md5'' then Some (''MD5 is collision-broken and has been unsuitable for authentication for two decades'')
      else if contains n ''sha1'' then Some (''SHA-1 is collision-broken (SHAttered, 2017) and RFC 9142 deprecates it for SSH'')
      else if contains n ''umac-64'' then Some (''a 64-bit authentication tag is short enough to forge with feasible work'')
      else if contains n ''-96'' then Some (''the tag is truncated to 96 bits, which weakens forgery resistance for no useful saving'')
      else None)"

definition weakKex :: "string \<Rightarrow> string option" where
  "weakKex name =
     (let n = to_lower (trim_space name) in
      if n = ''none'' then Some (''no key exchange; there is no shared secret to protect the session'')
      else if contains n ''group1-'' \<or> contains n ''group1sha1'' then Some (''the 1024-bit MODP group is within reach of a precomputation attack of the kind Logjam '' @
        ''described, and a well-resourced adversary is assumed to have done it'')
      else if contains n ''rsa1024'' then Some (''a 1024-bit RSA key exchange is below every current minimum'')
      else if contains n ''sha1'' then Some (''SHA-1 is collision-broken and RFC 9142 deprecates it for SSH key exchange; OpenSSH '' @
        ''removed these from its defaults in 8.2'')
      else None)"

record algSpec =
  as_Keyword :: string
  as_Noun :: string
  as_Weak :: "string \<Rightarrow> string option"
  as_Base :: severity
  as_Consequence :: string
  as_Assurance :: string

text \<open>The weak entries with their reasons, by name; equal names have equal reasons.\<close>

definition weaknesses :: "algSpec \<Rightarrow> string list \<Rightarrow> (string \<times> string) list" where
  "weaknesses s items =
     sort_key fst (map (\<lambda>i. (i, the (as_Weak s i))) (filter (\<lambda>i. as_Weak s i \<noteq> None) items))"

definition describeWeaknesses :: "(string \<times> string) list \<Rightarrow> string" where
  "describeWeaknesses ws = join ''; '' (map (\<lambda>(n, r). n @ '' '' @ em_dash @ '' '' @ r) ws)"

text \<open>The first byte in upper case: every consequence begins with an ASCII letter.\<close>

definition sentence :: "string \<Rightarrow> string" where
  "sentence s = (case s of [] \<Rightarrow> [] | c # t \<Rightarrow> to_upper_char c # t)"

definition alg_absent :: "algSpec \<Rightarrow> sshd_config \<Rightarrow> outcome" where
  "alg_absent s cfg =
     zero_outcome\<lparr>oc_result := Unknown, oc_reason := ReasonAmbiguousState, oc_subject := as_Keyword s,
       oc_detail := as_Keyword s @ '' is not configured, so the effective '' @ as_Noun s @
         '' list is the one compiled into this host's sshd binary. That list differs between OpenSSH '' @
         ''releases and is rewritten by some distributions' crypto policy, and Plumbline does not '' @
         ''read the binary's version '' @ em_dash @
         '' so which algorithms are enabled cannot be determined from the configuration alone. Setting '' @
         as_Keyword s @ '' explicitly is both the remedy and the way to make this check answerable.'',
       oc_evidence := [primaryEvidence cfg (as_Keyword s @
         '' not present in any parsed file; the built-in default list applies and is not readable '' @
         ''from configuration'')]\<rparr>"

definition alg_value :: "algSpec \<Rightarrow> sshd_config \<Rightarrow> directive \<Rightarrow> outcome" where
  "alg_value s cfg d =
     (let l = parseAlgList (d_value d);
          found = weaknesses s (al_Items l);
          ev0 = [directiveEvidence cfg d];
          ev = ev0 @ map (\<lambda>(n, r). new_evidence (d_file d) (d_line d) (n @ '': '' @
            r) (digest_of cfg (d_file d))) found;
          verb = (if al_Mode l = algHead then ''places at the head of'' else ''appends to'') in
      if al_Items l = [] then
        zero_outcome\<lparr>oc_result := Unknown, oc_reason := ReasonParse, oc_subject := as_Keyword s,
          oc_detail := as_Keyword s @ '' at '' @ d_file d @ '':'' @ int_str (d_line d) @
            '' has a value this parser could not read as an algorithm list ('' @ go_quote (d_value d) @
            ''); sshd would reject an empty list, so the running server may be using a different file.'',
          oc_evidence := ev0\<rparr>
      else if al_Mode l = algAdd \<or> al_Mode l = algHead then
        (if found \<noteq> [] then
           zero_outcome\<lparr>oc_result := Fail, oc_subject := as_Keyword s,
             oc_detail := as_Keyword s @ '' at '' @ d_file d @ '':'' @ int_str (d_line d) @ '' '' @ verb @
               '' the built-in list, and '' @ nat_str (length found) @ '' of the '' @ as_Noun s @
               ''(s) it adds are unacceptable: '' @ describeWeaknesses found @
               ''. This verdict does not depend on what the built-in default contains '' @ em_dash @
               '' these are enabled because this line enables them. '' @ sentence (as_Consequence s),
             oc_evidence := ev\<rparr>
         else
           zero_outcome\<lparr>oc_result := Unknown, oc_reason := ReasonAmbiguousState, oc_subject := as_Keyword s,
             oc_detail := as_Keyword s @ '' at '' @ d_file d @ '':'' @ int_str (d_line d) @ '' '' @ verb @
               '' the built-in list rather than replacing it. Nothing it adds is unacceptable, but the '' @
               ''rest of the effective list is the default compiled into this host's sshd binary, which '' @
               ''Plumbline cannot read '' @ em_dash @ '' so the absence of a weak '' @ as_Noun s @
               '' cannot be confirmed. Replace the relative form with an explicit list to make this '' @
               ''answerable.'',
             oc_evidence := ev\<rparr>)
      else if al_Mode l = algRemove then
        zero_outcome\<lparr>oc_result := Unknown, oc_reason := ReasonAmbiguousState, oc_subject := as_Keyword s,
          oc_detail := as_Keyword s @ '' at '' @ d_file d @ '':'' @ int_str (d_line d) @ '' removes '' @
            nat_str (length (al_Items l)) @
            '' entr(ies) from the built-in list rather than replacing it. Removal cannot introduce a weak '' @
            as_Noun s @ '', but what remains is the default compiled into this host's sshd binary, which Plumbline '' @
            ''cannot read '' @ em_dash @ '' so this is not evidence that no weak '' @ as_Noun s @
            '' is enabled. Replace the relative form with an explicit list to make this answerable.'',
          oc_evidence := ev\<rparr>
      else if found \<noteq> [] then
        zero_outcome\<lparr>oc_result := Fail, oc_subject := as_Keyword s,
          oc_detail := as_Keyword s @ '' at '' @ d_file d @ '':'' @ int_str (d_line d) @ '' enables '' @
            nat_str (length found) @ '' unacceptable '' @ as_Noun s @ ''(s) of the '' @ nat_str (length (al_Items l)) @
            '' listed: '' @ describeWeaknesses found @ ''. '' @ sentence (as_Consequence s),
          oc_evidence := ev\<rparr>
      else
        zero_outcome\<lparr>oc_result := Pass,
          oc_detail := as_Keyword s @ '' at '' @ d_file d @ '':'' @ int_str (d_line d) @ '' lists '' @
            nat_str (length (al_Items l)) @ '' '' @ as_Noun s @ ''(s) explicitly ('' @ join '', '' (al_Items l) @
            '') and none of them is deprecated or broken; '' @ as_Assurance s,
          oc_evidence := ev\<rparr>)"

definition alg_eval :: "algSpec \<Rightarrow> payload fact_set \<Rightarrow> outcome" where
  "alg_eval s fs = evaluate fs (as_Keyword s) (alg_absent s) (alg_value s)"

section \<open>SSHD-0002: root login\<close>

definition permitsRootLogin :: "string \<Rightarrow> bool" where
  "permitsRootLogin v \<longleftrightarrow>
     to_lower (trim_space v) \<in> set [''yes'', ''prohibit-password'', ''without-password'', ''forced-commands-only'']"

definition openSSHDefaultPermitRootLogin :: string where
  "openSSHDefaultPermitRootLogin = ''prohibit-password''"

text \<open>The check reads \<open>cfg.Files[0]\<close>, which panics on an installed configuration that names no file.\<close>

definition root_login_value :: "sshd_config \<Rightarrow> directive \<Rightarrow> outcome" where
  "root_login_value cfg d =
     (let ev0 = new_evidence (d_file d) (d_line d) (d_keyword d @ '' '' @ d_value d) (digest_of cfg (d_file d));
          ev = [ev0] @ matchScopedEvidence cfg ''PermitRootLogin'';
          v = to_lower (d_value d);
          loosened = loosenedInMatch cfg ''PermitRootLogin'' permitsRootLogin in
      if v = ''no'' then
        (if loosened \<noteq> [] then
           conditionalFail cfg ''PermitRootLogin''
             (''set to '' @ go_quote (d_value d) @ '' globally at '' @ d_file d @ '':'' @
               int_str (d_line d)) ev0 loosened High
             (''Root may log in directly on connections matching those blocks, so administrator actions '' @
               ''from them are not individually attributable.'')
         else
           zero_outcome\<lparr>oc_result := Pass,
             oc_detail := ''PermitRootLogin is set to no; direct root login over SSH is refused.'',
             oc_evidence := ev\<rparr>)
      else if v = ''yes'' then
        zero_outcome\<lparr>oc_result := Fail, oc_severity := High,
          oc_detail := ''PermitRootLogin is set to '' @ go_quote (d_value d) @ '' at '' @ d_file d @ '':'' @
            int_str (d_line d) @ ''; root may log in directly, including with a password.'',
          oc_evidence := ev\<rparr>
      else if v \<in> set [''prohibit-password'', ''without-password'', ''forced-commands-only''] then
        zero_outcome\<lparr>oc_result := Fail, oc_severity := Medium,
          oc_detail := ''PermitRootLogin is set to '' @ go_quote (d_value d) @ '' at '' @ d_file d @ '':'' @
            int_str (d_line d) @
            ''; password login is refused but root may still authenticate directly with a key, so '' @
            ''administrator actions are not individually attributable.'',
          oc_evidence := ev\<rparr>
      else
        zero_outcome\<lparr>oc_result := Unknown, oc_reason := ReasonParse,
          oc_detail := ''PermitRootLogin has unrecognised value '' @ go_quote (d_value d) @ '' at '' @ d_file d @
            '':'' @ int_str (d_line d) @
            ''; sshd would reject this configuration, so the running server may be using a different file.'',
          oc_evidence := ev\<rparr>)"

definition root_login_eval :: "payload fact_set \<Rightarrow> string + outcome" where
  "root_login_eval fs =
     (let cfg = configFact fs in
      if \<not> sc_installed cfg then Inr (zero_outcome\<lparr>oc_result := NotApplicable,
        oc_detail := ''No sshd configuration found; the SSH server is not configured on this host.''\<rparr>)
      else if sc_syntax cfg \<noteq> [] then Inr (syntaxError cfg ''PermitRootLogin'')
      else
        (case Effective cfg ''PermitRootLogin'' of
           Some d \<Rightarrow> Inr (root_login_value cfg d)
         | None \<Rightarrow>
             (case sc_files cfg of
                [] \<Rightarrow> Inl ''runtime error: index out of range [0] with length 0''
              | f # _ \<Rightarrow> Inr
                  (if sc_unresolved cfg \<noteq> [] then
                     zero_outcome\<lparr>oc_result := Unknown, oc_reason := ReasonAmbiguousState,
                       oc_detail := ''PermitRootLogin is not set in any readable file, but '' @
                         nat_str (length (sc_unresolved cfg)) @ '' Include directive(s) could not be resolved ('' @
                         join '', '' (sc_unresolved cfg) @ ''); the effective value cannot be determined.'',
                       oc_evidence := [new_evidence f 0 (''unresolved Include: '' @
                         join '', '' (sc_unresolved cfg)) (digest_of cfg f)]\<rparr>
                   else
                     zero_outcome\<lparr>oc_result := Fail, oc_severity := Medium,
                       oc_detail := ''PermitRootLogin is not configured; sshd applies its built-in default of '' @
                         go_quote openSSHDefaultPermitRootLogin @ '', which permits root login with a key.'',
                       oc_evidence := [new_evidence f 0 ''PermitRootLogin not present in any parsed file'' (digest_of cfg f)]\<rparr>))))"

section \<open>SSHD-0007: the idle timeout\<close>

definition idleTimeoutLimit :: int where "idleTimeoutLimit = 900"

text \<open>The value of one keyword and where it comes from, or the outcome that stops the check.\<close>

definition resolveIdleValue ::
  "sshd_config \<Rightarrow> string \<Rightarrow> directive option \<Rightarrow> int \<Rightarrow> outcome + int \<times> string" where
  "resolveIdleValue cfg keyword found def =
     (case found of
        None \<Rightarrow> Inr (def, int_str def @ '' by sshd's built-in default (the keyword is not configured)'')
      | Some d \<Rightarrow>
          (case parseInt (d_value d) of
             None \<Rightarrow> Inl (zero_outcome\<lparr>oc_result := Unknown, oc_reason := ReasonParse, oc_subject := keyword,
               oc_detail := keyword @ '' has unreadable value '' @ go_quote (d_value d) @ '' at '' @ d_file d @ '':'' @
                 int_str (d_line d) @
                 ''; sshd accepts a whole number here and would reject this configuration, so the running '' @
                 ''server may be using a different file.'',
               oc_evidence := [directiveEvidence cfg d]\<rparr>)
           | Some n \<Rightarrow> Inr (n, int_str n @ '' at '' @ d_file d @ '':'' @ int_str (d_line d))))"

definition idle_evidence :: "sshd_config \<Rightarrow> string \<Rightarrow> directive option \<Rightarrow> int \<Rightarrow> evidence" where
  "idle_evidence cfg keyword found def =
     (case found of
        Some d \<Rightarrow> directiveEvidence cfg d
      | None \<Rightarrow> primaryEvidence cfg (keyword @ '' not present in any parsed file; built-in default '' @
        int_str def @ '' applies''))"

definition idle_verdict ::
  "sshd_config \<Rightarrow> evidence list \<Rightarrow> int \<Rightarrow> string \<Rightarrow> int \<Rightarrow> string \<Rightarrow> outcome" where
  "idle_verdict cfg ev intervalN intervalWhere countN countWhere =
     (let product = wrap64 (intervalN * countN);
          loosened =
            loosenedInMatch cfg ''ClientAliveInterval'' (\<lambda>v. case parseInt v of None \<Rightarrow> False
              | Some n \<Rightarrow> n \<le> 0 \<or> idleTimeoutLimit < wrap64 (n * countN))
            @ loosenedInMatch cfg ''ClientAliveCountMax'' (\<lambda>v. case parseInt v of None \<Rightarrow> False
              | Some n \<Rightarrow> n \<le> 0 \<or> idleTimeoutLimit < wrap64 (n * intervalN)) in
      if intervalN \<le> 0 then
        zero_outcome\<lparr>oc_result := Fail, oc_subject := ''ClientAliveInterval'',
          oc_detail := ''ClientAliveInterval is '' @ intervalWhere @
            '', so sshd never probes an idle connection and no session is ever timed out. An '' @
            ''authenticated session left unattended stays authenticated indefinitely.'',
          oc_evidence := ev\<rparr>
      else if countN \<le> 0 then
        zero_outcome\<lparr>oc_result := Fail, oc_subject := ''ClientAliveCountMax'',
          oc_detail := ''ClientAliveCountMax is '' @ countWhere @
            '', which disables connection termination outright: sshd probes every '' @ int_str intervalN @
            '' second(s) and never acts on the silence. This is the configuration that most often looks '' @
            ''correct '' @ em_dash @ '' the interval is set, so the setting appears present '' @ em_dash @
            '' while producing no timeout at all.'',
          oc_evidence := ev\<rparr>
      else if idleTimeoutLimit < product then
        zero_outcome\<lparr>oc_result := Fail, oc_subject := ''ClientAliveInterval'',
          oc_detail := ''The effective idle timeout is '' @ int_str product @ '' second(s) '' @ em_dash @
            '' ClientAliveInterval '' @ intervalWhere @ '' multiplied by ClientAliveCountMax '' @ countWhere @ '' '' @
            em_dash @ '' which exceeds the '' @ int_str idleTimeoutLimit @
            '' second limit this check applies. An unattended authenticated session stays usable for '' @
            ''that long.'',
          oc_evidence := ev\<rparr>
      else if loosened \<noteq> [] then
        conditionalFail cfg ''ClientAliveInterval''
          (''configured globally for a '' @ int_str product @ '' second idle timeout'') (hd ev) loosened Medium
          (''Sessions matching those blocks are not timed out on the schedule the global setting implies.'')
      else
        zero_outcome\<lparr>oc_result := Pass,
          oc_detail := ''Idle sessions are disconnected after '' @ int_str product @
            '' second(s): ClientAliveInterval '' @ intervalWhere @ '' multiplied by ClientAliveCountMax '' @
            countWhere @ '', within the '' @ int_str idleTimeoutLimit @ '' second limit.'',
          oc_evidence := ev\<rparr>)"

definition idle_eval :: "payload fact_set \<Rightarrow> outcome" where
  "idle_eval fs =
     (let cfg = configFact fs;
          interval = Effective cfg ''ClientAliveInterval'';
          count = Effective cfg ''ClientAliveCountMax'';
          missing = (if interval = None then [''ClientAliveInterval''] else [])
            @ (if count = None then [''ClientAliveCountMax''] else []) in
      if \<not> sc_installed cfg then notApplicable
      else if sc_syntax cfg \<noteq> [] then syntaxError cfg ''ClientAliveInterval''
      else if (interval = None \<or> count = None) \<and> sc_unresolved cfg \<noteq> [] then
        zero_outcome\<lparr>oc_result := Unknown, oc_reason := ReasonAmbiguousState,
          oc_detail := join '' and '' missing @ '' is not set in any readable file, but '' @
            nat_str (length (sc_unresolved cfg)) @ '' Include directive(s) could not be resolved ('' @
            join '', '' (sc_unresolved cfg) @
            ''); the effective idle timeout is the product of both keywords and cannot be determined.'',
          oc_evidence := [primaryEvidence cfg (''unresolved Include: '' @ join '', '' (sc_unresolved cfg))]\<rparr>
      else
        (case resolveIdleValue cfg ''ClientAliveInterval'' interval defaultClientAliveInterval of
           Inl oc \<Rightarrow> oc
         | Inr (intervalN, intervalWhere) \<Rightarrow>
             (case resolveIdleValue cfg ''ClientAliveCountMax'' count defaultClientAliveCountMax of
                Inl oc \<Rightarrow> oc
              | Inr (countN, countWhere) \<Rightarrow>
                  idle_verdict cfg
                    ([idle_evidence cfg ''ClientAliveInterval'' interval defaultClientAliveInterval,
                      idle_evidence cfg ''ClientAliveCountMax'' count defaultClientAliveCountMax]
                     @ matchScopedEvidence cfg ''ClientAliveInterval'' @
                       matchScopedEvidence cfg ''ClientAliveCountMax'')
                    intervalN intervalWhere countN countWhere)))"

section \<open>SSHD-0008: TCP forwarding\<close>

definition unrestricted :: "string \<Rightarrow> bool" where
  "unrestricted v \<longleftrightarrow> to_lower (trim_space v) \<in> set [''yes'', ''all'']"

definition forwarding_absent :: "sshd_config \<Rightarrow> outcome" where
  "forwarding_absent cfg =
     zero_outcome\<lparr>oc_result := Fail, oc_subject := ''AllowTcpForwarding'',
       oc_detail := ''AllowTcpForwarding is not configured, so sshd applies its built-in default of '' @
         go_quote defaultAllowTcpForwarding @ '': any account that can authenticate '' @ em_dash @
         '' including one with a nologin shell '' @ em_dash @
         '' can tunnel arbitrary TCP in both directions through this host, reaching anything this '' @
         ''host can reach and exposing this host's network to their client.'',
       oc_evidence := [primaryEvidence cfg (''AllowTcpForwarding not present in any parsed file; built-in default '' @
         go_quote defaultAllowTcpForwarding @ '' applies'')]\<rparr>"

definition forwarding_pass :: "sshd_config \<Rightarrow> directive \<Rightarrow> string \<Rightarrow> outcome" where
  "forwarding_pass cfg d detail =
     (let ev = [directiveEvidence cfg d] @ matchScopedEvidence cfg ''AllowTcpForwarding'';
          loosened = loosenedInMatch cfg ''AllowTcpForwarding'' unrestricted in
      if loosened \<noteq> [] then
        conditionalFail cfg ''AllowTcpForwarding''
          (''set to '' @ go_quote (d_value d) @ '' globally at '' @ d_file d @ '':'' @
            int_str (d_line d)) (directiveEvidence cfg d) loosened Medium
          (''Connections matching those blocks can tunnel arbitrary TCP through this host in both '' @
            ''directions.'')
      else zero_outcome\<lparr>oc_result := Pass, oc_detail := detail, oc_evidence := ev\<rparr>)"

definition forwarding_value :: "sshd_config \<Rightarrow> directive \<Rightarrow> outcome" where
  "forwarding_value cfg d =
     (let v = to_lower (trim_space (d_value d));
          ev = [directiveEvidence cfg d] @ matchScopedEvidence cfg ''AllowTcpForwarding'' in
      if v = ''no'' then forwarding_pass cfg d
        (''AllowTcpForwarding is set to '' @ go_quote (d_value d) @ '' at '' @ d_file d @ '':'' @ int_str (d_line d) @
          ''; no session can tunnel TCP in either direction, so an account on this host cannot be '' @
          ''used to reach past the network boundary it sits behind.'')
      else if v = ''local'' then forwarding_pass cfg d
        (''AllowTcpForwarding is set to '' @ go_quote (d_value d) @ '' at '' @ d_file d @ '':'' @ int_str (d_line d) @
          ''; remote forwarding (-R) is refused, so this host's network cannot be exposed to a '' @
          ''client. Local forwarding (-L) remains available, which still lets an authenticated user '' @
          ''reach anything this host can reach '' @ em_dash @ '' set 'no' if that is not intended.'')
      else if v = ''remote'' then forwarding_pass cfg d
        (''AllowTcpForwarding is set to '' @ go_quote (d_value d) @ '' at '' @ d_file d @ '':'' @ int_str (d_line d) @
          ''; local forwarding (-L) is refused, so a user cannot reach past this host into its '' @
          ''network. Remote forwarding (-R) remains available, which still lets a user expose a '' @
          ''listener on this host '' @ em_dash @ '' set 'no' if that is not intended.'')
      else if v \<in> set [''yes'', ''all''] then
        zero_outcome\<lparr>oc_result := Fail, oc_subject := ''AllowTcpForwarding'',
          oc_detail := ''AllowTcpForwarding is set to '' @ go_quote (d_value d) @ '' at '' @ d_file d @ '':'' @
            int_str (d_line d) @
            '', so any account that can authenticate can tunnel arbitrary TCP in both directions: '' @
            ''reaching anything this host can reach, and exposing this host's network to their own '' @
            ''client. Network segmentation around this host does not constrain an authenticated SSH '' @ ''user.'',
          oc_evidence := ev\<rparr>
      else
        zero_outcome\<lparr>oc_result := Unknown, oc_reason := ReasonParse, oc_subject := ''AllowTcpForwarding'',
          oc_detail := ''AllowTcpForwarding has unrecognised value '' @ go_quote (d_value d) @ '' at '' @ d_file d @
            '':'' @ int_str (d_line d) @
            ''; sshd accepts only yes, all, no, local or remote and would reject this configuration, so '' @
            ''the running server may be using a different file.'',
          oc_evidence := ev\<rparr>)"

definition forwarding_eval :: "payload fact_set \<Rightarrow> outcome" where
  "forwarding_eval fs = evaluate fs ''AllowTcpForwarding'' forwarding_absent forwarding_value"

section \<open>SSHD-0009: the log level\<close>

definition debug_levels :: "string list" where
  "debug_levels = [''DEBUG'', ''DEBUG1'', ''DEBUG2'', ''DEBUG3'']"

definition insufficient :: "string \<Rightarrow> bool" where
  "insufficient v \<longleftrightarrow> to_upper (trim_space v) \<in> set ([''QUIET'', ''FATAL'', ''ERROR''] @
    debug_levels)"

definition loglevel_absent :: "sshd_config \<Rightarrow> outcome" where
  "loglevel_absent cfg =
     (let ev = primaryEvidence cfg (''LogLevel not present in any parsed file; built-in default '' @
       go_quote defaultLogLevel @ '' applies'');
          desc = ''not configured, so sshd applies its built-in default of '' @ go_quote defaultLogLevel;
          loosened = loosenedInMatch cfg ''LogLevel'' insufficient in
      if loosened \<noteq> [] then
        conditionalFail cfg ''LogLevel'' desc ev loosened Medium
          (''Connections matching those blocks are logged in less detail than the rest.'')
      else
        zero_outcome\<lparr>oc_result := Pass,
          oc_detail := ''LogLevel is '' @ desc @
            '', which records accepted and failed authentications with the account, source address and '' @
            ''method. Setting VERBOSE additionally records the fingerprint of the key used, which is '' @
            ''what makes a key-based login attributable to one key rather than to the account.'',
          oc_evidence := [ev]\<rparr>)"

definition loglevel_value :: "sshd_config \<Rightarrow> directive \<Rightarrow> outcome" where
  "loglevel_value cfg d =
     (let ev = [directiveEvidence cfg d] @ matchScopedEvidence cfg ''LogLevel'';
          value = to_upper (trim_space (d_value d));
          loosened = loosenedInMatch cfg ''LogLevel'' insufficient in
      if value \<in> set [''INFO'', ''VERBOSE''] then
        (if loosened \<noteq> [] then
           conditionalFail cfg ''LogLevel''
             (''set to '' @ go_quote (d_value d) @ '' globally at '' @ d_file d @ '':'' @
               int_str (d_line d)) (directiveEvidence cfg d) loosened Medium
             (''Connections matching those blocks are logged in less detail than the rest.'')
         else
           zero_outcome\<lparr>oc_result := Pass,
             oc_detail := ''LogLevel is set to '' @ go_quote (d_value d) @ '' at '' @ d_file d @ '':'' @
               int_str (d_line d) @
               ''; authentication outcomes are recorded with the account, source address and method.''
               @
                 (if value = ''INFO'' then '' VERBOSE would additionally record the fingerprint of the key used, which is what '' @
                 ''distinguishes one key from another when an account has several.''
                  else '' The key fingerprint is recorded, so a login is attributable to the specific key that '' @
                    ''authenticated it.''),
             oc_evidence := ev\<rparr>)
      else if value \<in> set [''QUIET'', ''FATAL'', ''ERROR''] then
        zero_outcome\<lparr>oc_result := Fail, oc_subject := ''LogLevel'',
          oc_detail := ''LogLevel is set to '' @ go_quote (d_value d) @ '' at '' @ d_file d @ '':'' @
            int_str (d_line d) @
            '', below the level at which sshd records authentication outcomes. Successful logins '' @
            ''produce no log entry, so there is no record of who connected to this host '' @ em_dash @
            '' and the absence only becomes visible during an investigation, when it can no longer be '' @
            ''fixed retroactively.'',
          oc_evidence := ev\<rparr>
      else if value \<in> set debug_levels then
        zero_outcome\<lparr>oc_result := Fail, oc_severity := Low, oc_subject := ''LogLevel'',
          oc_detail := ''LogLevel is set to '' @ go_quote (d_value d) @ '' at '' @ d_file d @ '':'' @
            int_str (d_line d) @
            ''. sshd_config(5) states that logging at this level violates the privacy of users: the '' @
            ''output carries material from the authentication exchange that does not belong in an '' @
            ''operational log, and the volume can roll the file before an investigator reads it. Debug '' @
            ''levels are for diagnosing a specific fault, not for running a host.'',
          oc_evidence := ev\<rparr>
      else
        zero_outcome\<lparr>oc_result := Unknown, oc_reason := ReasonParse, oc_subject := ''LogLevel'',
          oc_detail := ''LogLevel has unrecognised value '' @ go_quote (d_value d) @ '' at '' @ d_file d @ '':'' @
            int_str (d_line d) @
            ''; sshd accepts QUIET, FATAL, ERROR, INFO, VERBOSE or DEBUG1-3 and would reject this '' @
            ''configuration, so the running server may be using a different file.'',
          oc_evidence := ev\<rparr>)"

definition loglevel_eval :: "payload fact_set \<Rightarrow> outcome" where
  "loglevel_eval fs = evaluate fs ''LogLevel'' loglevel_absent loglevel_value"

section \<open>SSHD-0017: the banner\<close>

definition banner_disabled :: "string \<Rightarrow> bool" where
  "banner_disabled v \<longleftrightarrow> equal_fold (trim_space v) ''none''"

definition banner_absent :: "sshd_config \<Rightarrow> outcome" where
  "banner_absent cfg =
     zero_outcome\<lparr>oc_result := Fail, oc_subject := ''Banner'',
       oc_detail := ''Banner is not configured, so sshd applies its built-in default of '' @ [CHR 0x22] @ ''none'' @
         [CHR 0x22] @ '' and presents nothing before authentication. Access conditions are therefore not '' @
         ''announced to anyone connecting, which is the condition several legal regimes and most '' @
         ''computer-use policies require before unauthorised access can be acted on.'',
       oc_evidence := [primaryEvidence cfg (''Banner not present in any parsed file; built-in default '' @ [CHR 0x22] @
         ''none'' @ [CHR 0x22] @ '' applies'')]\<rparr>"

definition banner_value :: "sshd_config \<Rightarrow> directive \<Rightarrow> outcome" where
  "banner_value cfg d =
     (let ev = [directiveEvidence cfg d] @ matchScopedEvidence cfg ''Banner'';
          loosened = loosenedInMatch cfg ''Banner'' banner_disabled in
      if banner_disabled (d_value d) then
        zero_outcome\<lparr>oc_result := Fail, oc_subject := ''Banner'',
          oc_detail := ''Banner is set to '' @ go_quote (d_value d) @ '' at '' @ d_file d @ '':'' @ int_str (d_line d) @
            '', which explicitly disables the pre-authentication banner. Nothing is presented before '' @
            ''authentication, so access conditions are not announced.'',
          oc_evidence := ev\<rparr>
      else if loosened \<noteq> [] then
        conditionalFail cfg ''Banner''
          (''set to '' @ go_quote (d_value d) @ '' globally at '' @ d_file d @ '':'' @
            int_str (d_line d)) (directiveEvidence cfg d) loosened Low
          (''Connections matching those blocks are presented with no banner at all.'')
      else
        zero_outcome\<lparr>oc_result := Pass,
          oc_detail := ''Banner is set to '' @ go_quote (d_value d) @ '' at '' @ d_file d @ '':'' @ int_str (d_line d) @
            '', so access conditions are presented before authentication. This check does not read that '' @
            ''file: whether it exists, and whether its contents leak host details that should not be '' @
            ''shown before authentication, are not verified here.'',
          oc_evidence := ev\<rparr>)"

definition banner_eval :: "payload fact_set \<Rightarrow> outcome" where
  "banner_eval fs = evaluate fs ''Banner'' banner_absent banner_value"

end
