(* ===== verification/Sshd_Catalog.thy ===== *)
theory Sshd_Catalog
  imports Sshd_Checks
begin

text \<open>
  The nineteen entries of internal/catalog/checks/sshd, each a catalog check with its text, its
  remediation and its evaluation, and their share of internal/cli/catalog.go. The theorems say what a
  verdict of the module rests on.
\<close>

section \<open>The entries\<close>

definition maxAuthTriesLimit :: int where "maxAuthTriesLimit = 4"
definition loginGraceLimit :: int where "loginGraceLimit = 60"

definition Check0002 :: "payload check" where
  "Check0002 = \<lparr>ck_id = ''SSHD-0002'',
     ck_module = ''SSHD'',
     ck_title = ''Root login over SSH is disabled'',
     ck_description = ''Direct root login over SSH removes the accountability that'' @ [CHR 0x0A] @
       ''sudo provides, every action is attributed to '' @ [CHR 0x22] @ ''root'' @ [CHR 0x22] @
       '' rather than to a person,'' @ [CHR 0x0A] @
       ''and it presents remote attackers with a username that is guaranteed to exist on'' @ [CHR 0x0A] @
       ''every system, which makes credential attacks meaningfully cheaper.'' @ [CHR 0x0A, CHR 0x0A] @
       ''PermitRootLogin no requires an administrator to authenticate as themselves and'' @ [CHR 0x0A] @
       ''then escalate, which leaves an audit trail. The OpenSSH default when the'' @ [CHR 0x0A] @
       ''keyword is absent is prohibit-password: key-based root login remains possible.'',
     ck_base_severity = High,
     ck_tags = [''ssh'', ''remote-access'', ''accountability''],
     ck_requires = [SSHDConfigID],
     ck_eval = Some root_login_eval,
     ck_remediation = Some \<lparr>rem_summary = ''Set PermitRootLogin to no and reload sshd.'',
       rem_effort = ''LOW'',
       rem_steps = [''Confirm you have a non-root account that can log in over SSH and escalate with sudo.'',
        ''Verify that account works in a second, separate session before continuing.'',
        ''Set 'PermitRootLogin no' in /etc/ssh/sshd_config, or in a file under '' @
          ''/etc/ssh/sshd_config.d/ if the distribution uses Include.'',
        ''Check the configuration parses: sshd -t'',
        ''Reload sshd; keep the existing session open until a new one is verified.''],
       rem_commands = [''sshd -t'',
        ''systemctl reload sshd''],
       rem_caution = ''Applying this while your only access is a root SSH session will lock you out. Verify a '' @
         ''non-root path in a separate session first, and never reload sshd from the session you '' @
         ''would lose.''\<rparr>,
     ck_mappings = [\<lparr>cr_framework = ''nist-800-53-r5'', cr_control = ''AC-6(2)''\<rparr>,
        \<lparr>cr_framework = ''nist-800-53-r5'', cr_control = ''AC-6(5)''\<rparr>,
        \<lparr>cr_framework = ''nist-800-53-r5'', cr_control = ''IA-2(1)''\<rparr>],
     ck_references = [\<lparr>ref_title = ''sshd_config(5). PermitRootLogin'', ref_url = ''https://man.openbsd.org/sshd_config#PermitRootLogin''\<rparr>],
     ck_since_catalog = 1,
     ck_deprecated = None\<rparr>"

definition spec0003 :: boolSpec where
  "spec0003 = \<lparr>bs_Keyword = ''PasswordAuthentication'',
     bs_Secure = ''no'',
     bs_Default = defaultPasswordAuthentication,
     bs_Base = High,
     bs_FailSeverity = NoSeverity,
     bs_Consequence = ''any account with a usable password can be attacked remotely by guessing it, at whatever '' @
       ''rate this server tolerates'',
     bs_Assurance = ''authentication requires a key, so there is no secret an attacker can guess remotely''\<rparr>"

definition Check0003 :: "payload check" where
  "Check0003 = \<lparr>ck_id = ''SSHD-0003'',
     ck_module = ''SSHD'',
     ck_title = ''Password authentication over SSH is disabled'',
     ck_description = ''A password is a secret a person can be persuaded to type. Over'' @ [CHR 0x0A] @
       ''SSH it is also a secret an attacker can attempt from anywhere on the internet,'' @ [CHR 0x0A] @
       ''at whatever rate the server will tolerate, against a username list that is'' @ [CHR 0x0A] @
       ''largely guessable. Every large-scale SSH compromise of the last two decades has'' @ [CHR 0x0A] @
       ''run through this door: credential stuffing from other breaches, spraying a'' @ [CHR 0x0A] @
       ''common password across many accounts, or simply exhausting a weak one.'' @ [CHR 0x0A, CHR 0x0A] @
       ''Public-key authentication removes the class entirely. The private key never'' @ [CHR 0x0A] @
       ''leaves the client, there is nothing to guess, and a stolen credential is a file'' @ [CHR 0x0A] @
       ''an attacker must first obtain rather than a string they can derive.'' @ [CHR 0x0A, CHR 0x0A] @
       ''The OpenSSH default is yes, so a host that has never been configured accepts'' @ [CHR 0x0A] @
       ''passwords. Debian, Ubuntu and RHEL all ship it explicitly as yes as well, which'' @ [CHR 0x0A] @
       ''means this finding appears on a stock installation of every mainstream'' @ [CHR 0x0A] @
       ''distribution, correctly.'',
     ck_base_severity = High,
     ck_tags = [''ssh'', ''remote-access'', ''authentication'', ''credentials''],
     ck_requires = [SSHDConfigID],
     ck_eval = Some (\<lambda>fs. Inr (bool_eval spec0003 fs)),
     ck_remediation = Some \<lparr>rem_summary = ''Deploy keys for every account that needs SSH access, then set PasswordAuthentication no.'',
       rem_effort = ''MEDIUM'',
       rem_steps = [''Establish key access first: 'ssh-copy-id <user>@<host>' for every account that logs in, '' @
         ''and confirm each one works in a separate session.'',
        ''Check who would be locked out: 'awk -F: '' @ [CHR 0x27, CHR 0x5C, CHR 0x27, CHR 0x27] @
          ''$2 !~ /^[!*]/ && $2 != '' @ [CHR 0x22, CHR 0x22] @ '' {print $1}'' @
          [CHR 0x27, CHR 0x5C, CHR 0x27, CHR 0x27] @
          '' /etc/shadow' lists accounts that currently rely on a password.'',
        ''Set 'PasswordAuthentication no' in /etc/ssh/sshd_config, or in a drop-in under '' @
          ''/etc/ssh/sshd_config.d/ if the distribution uses Include.'',
        ''Set 'KbdInteractiveAuthentication no' as well. On a host with UsePAM yes, leaving it at '' @
          ''its default can let PAM accept a password through a different code path, which is the '' @
          ''most common reason this change appears not to take effect.'',
        ''Validate and reload: 'sshd -t' then 'systemctl reload sshd', keeping the current session '' @
          ''open until a new one is verified.''],
       rem_commands = [''sshd -t'',
        ''sshd -T | grep -Ei 'passwordauthentication|kbdinteractive'' @ [CHR 0x27]],
       rem_caution = ''This is the change most likely to lock you out of a remote host. Verify key '' @
         ''authentication works in a second, independent session before reloading, and never reload '' @
         ''from the session you would lose. If the host has no out-of-band console, arrange one '' @
         ''first.''\<rparr>,
     ck_mappings = [\<lparr>cr_framework = ''nist-800-53-r5'', cr_control = ''IA-2(1)''\<rparr>,
        \<lparr>cr_framework = ''nist-800-53-r5'', cr_control = ''IA-5''\<rparr>,
        \<lparr>cr_framework = ''nist-800-53-r5'', cr_control = ''AC-17''\<rparr>],
     ck_references = [\<lparr>ref_title = ''sshd_config(5). PasswordAuthentication'', ref_url = ''https://man.openbsd.org/sshd_config#PasswordAuthentication''\<rparr>],
     ck_since_catalog = 6,
     ck_deprecated = None\<rparr>"

definition spec0004 :: boolSpec where
  "spec0004 = \<lparr>bs_Keyword = ''PermitEmptyPasswords'',
     bs_Secure = ''no'',
     bs_Default = defaultPermitEmptyPasswords,
     bs_Base = Critical,
     bs_FailSeverity = NoSeverity,
     bs_Consequence = ''any account whose password field is empty can log in remotely by pressing return, with no '' @
       ''credential to steal and nothing to guess'',
     bs_Assurance = ''an account with an empty password field is refused rather than admitted''\<rparr>"

definition Check0004 :: "payload check" where
  "Check0004 = \<lparr>ck_id = ''SSHD-0004'',
     ck_module = ''SSHD'',
     ck_title = ''Accounts with empty passwords cannot log in over SSH'',
     ck_description = ''PermitEmptyPasswords yes allows an account whose password'' @ [CHR 0x0A] @
       ''field in /etc/shadow is empty to authenticate over SSH by pressing return. No'' @ [CHR 0x0A] @
       ''guessing, no credential, no rate limit that matters.'' @ [CHR 0x0A, CHR 0x0A] @
       ''The OpenSSH default is no, so this can only be reached deliberately, usually by'' @ [CHR 0x0A] @
       ''a hardening script that inverted a value, an appliance image built for'' @ [CHR 0x0A] @
       ''convenience, or a container base image where a password was never set and the'' @ [CHR 0x0A] @
       ''setting was relaxed to make the account usable.'' @ [CHR 0x0A, CHR 0x0A] @
       ''This is the SSH-facing half of USERS-0003. That check reports which accounts'' @ [CHR 0x0A] @
       ''have an empty password field; this one reports whether the SSH server will'' @ [CHR 0x0A] @
       ''accept it. Either alone is survivable. Both together is remote unauthenticated'' @ [CHR 0x0A] @
       ''access, which is why this check is CRITICAL rather than HIGH: no other single'' @ [CHR 0x0A] @
       ''sshd_config value produces that outcome by itself.'',
     ck_base_severity = Critical,
     ck_tags = [''ssh'', ''remote-access'', ''authentication'', ''credentials''],
     ck_requires = [SSHDConfigID],
     ck_eval = Some (\<lambda>fs. Inr (bool_eval spec0004 fs)),
     ck_remediation = Some \<lparr>rem_summary = ''Set PermitEmptyPasswords no, and fix the accounts that made it reachable.'',
       rem_effort = ''LOW'',
       rem_steps = [''Set 'PermitEmptyPasswords no' in /etc/ssh/sshd_config. This is the OpenSSH default, so '' @
         ''the line can also simply be removed.'',
        ''Find the accounts this was protecting or exposing: 'awk -F: '' @ [CHR 0x27, CHR 0x5C, CHR 0x27, CHR 0x27] @
          ''$2 == '' @ [CHR 0x22, CHR 0x22] @ '' {print $1}'' @ [CHR 0x27, CHR 0x5C, CHR 0x27, CHR 0x27] @
          '' /etc/shadow'. USERS-0003 reports the same set.'',
        ''For each, decide whether it needs a password ('passwd <name>') or should not authenticate '' @
          ''at all ('passwd -l <name>').'',
        ''Validate and reload: 'sshd -t' then 'systemctl reload sshd'.'',
        ''Check whether the door was used while it was open: 'last', 'lastlog', and the '' @
          ''authentication log for accepted logins by those accounts.''],
       rem_commands = [''sshd -T | grep -i permitemptypasswords'',
        ''awk -F: '$2 == '' @ [CHR 0x22, CHR 0x22] @ '' {print $1}' /etc/shadow''],
       rem_caution = ''If a service or automation authenticates as an account with an empty password, this '' @
         ''change stops it. That is the correct outcome, but find out what breaks before you are '' @
         ''told by an outage, and treat any account that was reachable this way as potentially '' @
         ''compromised rather than merely misconfigured.''\<rparr>,
     ck_mappings = [\<lparr>cr_framework = ''nist-800-53-r5'', cr_control = ''IA-5''\<rparr>,
        \<lparr>cr_framework = ''nist-800-53-r5'', cr_control = ''IA-2''\<rparr>,
        \<lparr>cr_framework = ''nist-800-53-r5'', cr_control = ''AC-17''\<rparr>],
     ck_references = [\<lparr>ref_title = ''sshd_config(5). PermitEmptyPasswords'', ref_url = ''https://man.openbsd.org/sshd_config#PermitEmptyPasswords''\<rparr>],
     ck_since_catalog = 6,
     ck_deprecated = None\<rparr>"

definition spec0005 :: boolSpec where
  "spec0005 = \<lparr>bs_Keyword = ''X11Forwarding'',
     bs_Secure = ''no'',
     bs_Default = defaultX11Forwarding,
     bs_Base = Medium,
     bs_FailSeverity = NoSeverity,
     bs_Consequence = ''a process on this server can reach back through a user's session to their workstation '' @
       ''display, where X11's absence of client isolation lets it log keystrokes and inject input '' @
       ''into every other window'',
     bs_Assurance = ''no session can reach a client's X display through this server''\<rparr>"

definition Check0005 :: "payload check" where
  "Check0005 = \<lparr>ck_id = ''SSHD-0005'',
     ck_module = ''SSHD'',
     ck_title = ''X11 forwarding is disabled'',
     ck_description = ''X11 has no meaningful isolation between clients. A program'' @ [CHR 0x0A] @
       ''connected to an X display can read every keystroke sent to any other window on'' @ [CHR 0x0A] @
       ''that display, take screenshots of it, and inject synthetic input into it. That'' @ [CHR 0x0A] @
       ''is not a defect; it is the protocol working as designed for a 1984 model of a'' @ [CHR 0x0A] @
       ''trusted local network.'' @ [CHR 0x0A, CHR 0x0A] @
       ''X11 forwarding extends that display across an SSH connection. When a user with'' @ [CHR 0x0A] @
       ''forwarding enabled logs into a server, a process on the server can reach back'' @ [CHR 0x0A] @
       ''through the tunnel to their workstation's display, so a compromise of the'' @ [CHR 0x0A] @
       ''server becomes a keylogger on the administrator's desktop. 'ForwardX11Trusted'' @ [CHR 0x27, CHR 0x0A] @
       ''makes this explicit; without it the X11 SECURITY extension restricts some'' @ [CHR 0x0A] @
       ''operations, but it is widely regarded as insufficient and OpenSSH's own manual'' @ [CHR 0x0A] @
       ''warns against relying on it.'' @ [CHR 0x0A, CHR 0x0A] @
       ''The upstream OpenSSH default is no. **Debian and Ubuntu ship X11Forwarding yes'' @ [CHR 0x0A] @
       ''in their packaged sshd_config**, so this check reports a finding on a stock'' @ [CHR 0x0A] @
       ''installation of either, which is correct, and is the most common reason it'' @ [CHR 0x0A] @ ''appears.'',
     ck_base_severity = Medium,
     ck_tags = [''ssh'', ''remote-access'', ''attack-surface'', ''lateral-movement''],
     ck_requires = [SSHDConfigID],
     ck_eval = Some (\<lambda>fs. Inr (bool_eval spec0005 fs)),
     ck_remediation = Some \<lparr>rem_summary = ''Set X11Forwarding no; use a browser or a purpose-built remote desktop where a GUI is '' @
       ''genuinely needed.'',
       rem_effort = ''LOW'',
       rem_steps = [''Find out whether anything uses it before disabling it: 'grep -i x11 /var/log/auth.log' or '' @
         '''journalctl -u sshd | grep -i x11' shows forwarding requests.'',
        ''Set 'X11Forwarding no' in /etc/ssh/sshd_config. On Debian and Ubuntu the packaged file '' @
          ''sets it to yes explicitly, so the line must be changed rather than removed.'',
        ''Where a small number of users genuinely need it, scope it rather than enabling it '' @
          ''globally: a 'Match User' block confines the exposure to named accounts. Plumbline reports '' @
          ''that as a conditional finding rather than a clean pass, which is the honest reading.'',
        ''Validate and reload: 'sshd -t' then 'systemctl reload sshd'.''],
       rem_commands = [''sshd -T | grep -i x11forwarding''],
       rem_caution = ''Administrators who run graphical tools over SSH, installers, database consoles, some '' @
         ''vendor appliances, will find them stop working with no error more helpful than 'cannot '' @
         ''open display'. Establish the replacement path before making the change.''\<rparr>,
     ck_mappings = [\<lparr>cr_framework = ''nist-800-53-r5'', cr_control = ''CM-7''\<rparr>,
        \<lparr>cr_framework = ''nist-800-53-r5'', cr_control = ''AC-17''\<rparr>],
     ck_references = [\<lparr>ref_title = ''sshd_config(5). X11Forwarding'', ref_url = ''https://man.openbsd.org/sshd_config#X11Forwarding''\<rparr>,
        \<lparr>ref_title = ''ssh(1). X11 forwarding warning'', ref_url = ''https://man.openbsd.org/ssh#X''\<rparr>],
     ck_since_catalog = 6,
     ck_deprecated = None\<rparr>"

definition spec0006 :: intSpec where
  "spec0006 = \<lparr>is_Keyword = ''MaxAuthTries'',
     is_Default = defaultMaxAuthTries,
     is_Parse = None,
     is_Acceptable = (\<lambda>n. 1 \<le> n \<and> n \<le> maxAuthTriesLimit),
     is_Render = Some (\<lambda>n. int_str n @ '' attempt(s) per connection''),
     is_Base = Medium,
     is_FailSeverity = NoSeverity,
     is_Consequence = ''each connection may make more than '' @ int_str maxAuthTriesLimit @
       '' attempts, and because sshd only logs a failure once a connection has used more than half '' @
       ''its allowance, the earlier attempts leave no record for anything watching the '' @ ''authentication log'',
     is_Assurance = ''a connection is dropped after a small number of attempts, and a failure is logged early '' @
       ''enough for log-based detection to see it'',
     is_Syntax = ''a positive whole number''\<rparr>"

definition Check0006 :: "payload check" where
  "Check0006 = \<lparr>ck_id = ''SSHD-0006'',
     ck_module = ''SSHD'',
     ck_title = ''Authentication attempts per connection are limited'',
     ck_description = ''MaxAuthTries bounds the number of authentication attempts sshd'' @ [CHR 0x0A] @
       ''will accept on a single TCP connection before dropping it. It does not limit how'' @ [CHR 0x0A] @
       ''many connections an attacker may open, so it is not by itself a defence against'' @ [CHR 0x0A] @
       ''password guessing, pam_faillock and a rate limit at the network layer are what'' @ [CHR 0x0A] @ ''do that.'' @
       [CHR 0x0A, CHR 0x0A] @ ''What it does control is the cost per connection and, less obviously, what gets'' @
       [CHR 0x0A] @ ''logged. sshd writes a failure to the authentication log once a connection has'' @ [CHR 0x0A] @
       ''used more than **half** of MaxAuthTries. With the default of 6 the first three'' @ [CHR 0x0A] @
       ''attempts of every connection produce no log line at all, which is a meaningful'' @ [CHR 0x0A] @
       ''blind spot for anything watching that log for brute-force patterns. Lowering the'' @ [CHR 0x0A] @
       ''limit to 4 makes the third attempt visible.'' @ [CHR 0x0A, CHR 0x0A] @
       ''The upstream default is 6. This check accepts 4 or fewer, and treats 0 as a'' @ [CHR 0x0A] @
       ''misconfiguration rather than maximum strictness: sshd refuses every'' @ [CHR 0x0A] @
       ''authentication at 0, which is a denial of service rather than a hardening.'',
     ck_base_severity = Medium,
     ck_tags = [''ssh'', ''remote-access'', ''authentication'', ''logging''],
     ck_requires = [SSHDConfigID],
     ck_eval = Some (\<lambda>fs. Inr (int_eval spec0006 fs)),
     ck_remediation = Some \<lparr>rem_summary = ''Set MaxAuthTries to 4 or fewer, and add a real lockout mechanism alongside it.'',
       rem_effort = ''LOW'',
       rem_steps = [''Set 'MaxAuthTries 4' in /etc/ssh/sshd_config.'',
        ''Do not treat this as brute-force protection on its own. It bounds attempts per '' @
          ''connection, not per attacker; configure pam_faillock (or the distribution equivalent) for '' @
          ''account lockout, and rate-limit port 22 at the firewall.'',
        ''If users authenticate with several keys, check that the limit still fits: each key the '' @
          ''client offers consumes one attempt, so a user with five keys loaded can exhaust a limit '' @
          ''of 4 before reaching the right one. 'IdentitiesOnly yes' in their client configuration is '' @
          ''the fix on that side.'',
        ''Validate and reload: 'sshd -t' then 'systemctl reload sshd'.''],
       rem_commands = [''sshd -T | grep -i maxauthtries''],
       rem_caution = ''Users with many keys in their agent can be disconnected before the correct key is '' @
         ''offered, which presents as an intermittent 'Too many authentication failures' that is '' @
         ''easy to misattribute to the server. Warn users to set IdentitiesOnly, or raise the limit '' @
         ''slightly rather than leaving it at the default.''\<rparr>,
     ck_mappings = [\<lparr>cr_framework = ''nist-800-53-r5'', cr_control = ''AC-7''\<rparr>,
        \<lparr>cr_framework = ''nist-800-53-r5'', cr_control = ''AU-2''\<rparr>],
     ck_references = [\<lparr>ref_title = ''sshd_config(5). MaxAuthTries'', ref_url = ''https://man.openbsd.org/sshd_config#MaxAuthTries''\<rparr>],
     ck_since_catalog = 6,
     ck_deprecated = None\<rparr>"

definition Check0007 :: "payload check" where
  "Check0007 = \<lparr>ck_id = ''SSHD-0007'',
     ck_module = ''SSHD'',
     ck_title = ''Idle SSH sessions are disconnected'',
     ck_description = ''An SSH session that is idle is a session nobody is watching.'' @ [CHR 0x0A] @
       ''The laptop is closed, the terminal is behind a browser window, the desk is'' @ [CHR 0x0A] @
       ''empty, and the session is still authenticated, still authorised, and still'' @ [CHR 0x0A] @
       ''able to run anything the user can run. That is the exposure an idle timeout'' @ [CHR 0x0A] @
       ''closes: not an attack on the protocol, but the ordinary case of an unattended'' @ [CHR 0x0A] @
       ''authenticated shell.'' @ [CHR 0x0A, CHR 0x0A] @
       ''Two keywords produce the timeout together. ClientAliveInterval is how often'' @ [CHR 0x0A] @
       ''sshd sends an encrypted keepalive when the channel has been silent;'' @ [CHR 0x0A] @
       ''ClientAliveCountMax is how many go unanswered before the connection is dropped.'' @ [CHR 0x0A] @
       ''The effective idle timeout is their product, and each has a value that disables'' @ [CHR 0x0A] @
       ''the mechanism outright: an interval of 0 means no probe is ever sent, and a'' @ [CHR 0x0A] @
       ''count of 0 means the connection is never terminated no matter how many probes'' @ [CHR 0x0A] @
       ''go unanswered.'' @ [CHR 0x0A, CHR 0x0A] @
       ''The OpenSSH defaults are interval 0 and count 3, no timeout at all. This check'' @ [CHR 0x0A] @
       ''requires both to be positive and their product to be at most 15 minutes.'' @ [CHR 0x0A, CHR 0x0A] @
       ''Note that this is not the same as TMOUT in the shell. TMOUT ends the shell; the'' @ [CHR 0x0A] @
       ''client-alive mechanism ends the connection, which also covers port forwards and'' @ [CHR 0x0A] @
       ''sessions where no shell was ever started.'',
     ck_base_severity = Medium,
     ck_tags = [''ssh'', ''remote-access'', ''session-management''],
     ck_requires = [SSHDConfigID],
     ck_eval = Some (\<lambda>fs. Inr (idle_eval fs)),
     ck_remediation = Some \<lparr>rem_summary = ''Set ClientAliveInterval 300 and ClientAliveCountMax 3, and check that neither is zero.'',
       rem_effort = ''LOW'',
       rem_steps = [''Set both in /etc/ssh/sshd_config: 'ClientAliveInterval 300' and 'ClientAliveCountMax 3'. '' @
         ''That is a 15-minute idle timeout.'',
        ''Check specifically that ClientAliveCountMax is not 0. A zero there disables termination '' @
          ''entirely while leaving the configuration looking as though a timeout is in force, it is '' @
          ''the most common way this setting is wrong.'',
        ''Confirm the effective values rather than the file: 'sshd -T | grep -i clientalive' '' @
          ''resolves Include directives and Match defaults.'',
        ''Consider TMOUT in /etc/profile.d/ as well. It ends an idle shell; this setting ends an '' @
          ''idle connection, and they cover different cases, a session with a port forward and no '' @
          ''shell is only covered by this one.'',
        ''Validate and reload: 'sshd -t' then 'systemctl reload sshd'.''],
       rem_commands = [''sshd -T | grep -i clientalive''],
       rem_caution = ''Long-running work started in a foreground shell, a database migration, a large rsync, '' @
         ''will be killed when the connection drops. Tell users to run such work under tmux or '' @
         ''screen before shortening the timeout, or the first casualty will be a job somebody has '' @
         ''been running for six hours.''\<rparr>,
     ck_mappings = [\<lparr>cr_framework = ''nist-800-53-r5'', cr_control = ''AC-11''\<rparr>,
        \<lparr>cr_framework = ''nist-800-53-r5'', cr_control = ''AC-12''\<rparr>,
        \<lparr>cr_framework = ''nist-800-53-r5'', cr_control = ''AC-17''\<rparr>],
     ck_references = [\<lparr>ref_title = ''sshd_config(5). ClientAliveInterval'', ref_url = ''https://man.openbsd.org/sshd_config#ClientAliveInterval''\<rparr>,
        \<lparr>ref_title = ''sshd_config(5). ClientAliveCountMax'', ref_url = ''https://man.openbsd.org/sshd_config#ClientAliveCountMax''\<rparr>],
     ck_since_catalog = 6,
     ck_deprecated = None\<rparr>"

definition Check0008 :: "payload check" where
  "Check0008 = \<lparr>ck_id = ''SSHD-0008'',
     ck_module = ''SSHD'',
     ck_title = ''TCP forwarding is restricted'',
     ck_description = ''TCP forwarding turns an SSH session into a general-purpose'' @ [CHR 0x0A] @
       ''network tunnel. With it unrestricted, any user who can log in can reach any'' @ [CHR 0x0A] @
       ''address this host can reach ('ssh -L'), and can expose any port of this host's'' @ [CHR 0x0A] @
       ''network to their own client ('ssh -R'). Neither requires a shell: an account'' @ [CHR 0x0A] @
       ''with /usr/sbin/nologin still forwards.'' @ [CHR 0x0A, CHR 0x0A] @
       ''That matters because network segmentation is usually the control that survives'' @ [CHR 0x0A] @
       ''when everything else has failed. A database in a private subnet, a management'' @ [CHR 0x0A] @
       ''interface on a separate VLAN, an internal API with no authentication because it'' @ [CHR 0x0A] @ ''is '' @
       [CHR 0x22] @ ''not reachable'' @ [CHR 0x22] @ '', all of them are reachable from a workstation the moment one'' @
       [CHR 0x0A] @ ''account on a host in that subnet can forward. Egress filtering fails the same'' @ [CHR 0x0A] @
       ''way in reverse.'' @ [CHR 0x0A, CHR 0x0A] @
       ''sshd accepts five values. 'yes' and 'all' permit everything. 'local' permits'' @ [CHR 0x0A] @
       ''only -L, 'remote' only -R, and 'no' neither. The OpenSSH default is 'yes'.'' @ [CHR 0x0A, CHR 0x0A] @
       ''This check fails only the unrestricted values. 'local' and 'remote' each close'' @ [CHR 0x0A] @
       ''one direction and are reported as a pass with the remaining direction named,'' @ [CHR 0x0A] @
       ''because which one a host needs is a question about its role that no scanner can'' @ [CHR 0x0A] @
       ''answer. Note also that this is not a boundary against a determined user with'' @ [CHR 0x0A] @
       ''shell access, anyone who can execute code can run their own tunnel, so it is'' @ [CHR 0x0A] @
       ''a control over the default and the accidental, not over the adversary who'' @ [CHR 0x0A] @
       ''already has a shell.'',
     ck_base_severity = Medium,
     ck_tags = [''ssh'', ''remote-access'', ''network'', ''lateral-movement''],
     ck_requires = [SSHDConfigID],
     ck_eval = Some (\<lambda>fs. Inr (forwarding_eval fs)),
     ck_remediation = Some \<lparr>rem_summary = ''Set AllowTcpForwarding no, or restrict it to the direction the host's role requires.'',
       rem_effort = ''MEDIUM'',
       rem_steps = [''Establish what uses it first. Forwarding is invisible in most monitoring; 'ss -tnp' on '' @
         ''the host during normal operation shows the loopback listeners that -R creates, and '' @
         ''client-side ~/.ssh/config files often document -L usage.'',
        ''For a host with no tunnelling role, set 'AllowTcpForwarding no' in /etc/ssh/sshd_config.'',
        ''For a bastion, forwarding is the point, scope it instead. A 'Match Group jumpusers' block '' @
          ''with 'AllowTcpForwarding yes' inside an otherwise-'no' configuration confines it to the '' @
          ''accounts that need it. Plumbline reports that as a conditional finding rather than a '' @
          ''clean pass, which is the accurate reading: the capability exists, for a named set of '' @ ''users.'',
        ''Where an account only needs sftp, combine 'ForceCommand internal-sftp' with '' @
          '''AllowTcpForwarding no', the shell restriction alone does not stop forwarding.'',
        ''Validate and reload: 'sshd -t' then 'systemctl reload sshd'.''],
       rem_commands = [''sshd -T | grep -i allowtcpforwarding''],
       rem_caution = ''Database clients, CI runners and remote IDE sessions frequently tunnel through a host '' @
         ''without anyone recording that they do. Turning this off produces connection failures in '' @
         ''tooling far from the host you changed, and the error surfaces on the client, not here.''\<rparr>,
     ck_mappings = [\<lparr>cr_framework = ''nist-800-53-r5'', cr_control = ''SC-7''\<rparr>,
        \<lparr>cr_framework = ''nist-800-53-r5'', cr_control = ''AC-4''\<rparr>,
        \<lparr>cr_framework = ''nist-800-53-r5'', cr_control = ''CM-7''\<rparr>],
     ck_references = [\<lparr>ref_title = ''sshd_config(5). AllowTcpForwarding'', ref_url = ''https://man.openbsd.org/sshd_config#AllowTcpForwarding''\<rparr>],
     ck_since_catalog = 6,
     ck_deprecated = None\<rparr>"

definition Check0009 :: "payload check" where
  "Check0009 = \<lparr>ck_id = ''SSHD-0009'',
     ck_module = ''SSHD'',
     ck_title = ''sshd logging is detailed enough to reconstruct access'',
     ck_description = ''The authentication log is where an SSH compromise is found,'' @ [CHR 0x0A] @
       ''and it is the only place a successful login leaves a durable record. LogLevel'' @ [CHR 0x0A] @
       ''decides how much of that record exists.'' @ [CHR 0x0A, CHR 0x0A] @
       ''At ERROR or below, sshd logs failures of the daemon but not the outcome of'' @ [CHR 0x0A] @
       ''authentication attempts: successful logins produce nothing. An investigation'' @ [CHR 0x0A] @ ''into '' @
       [CHR 0x22] @ ''who was on this host last Tuesday'' @ [CHR 0x22] @ '' has no source to consult, and the'' @
       [CHR 0x0A] @ ''absence is not visible until the moment it matters.'' @ [CHR 0x0A, CHR 0x0A] @
       ''INFO is the default and logs accepted and failed authentications with the'' @ [CHR 0x0A] @
       ''account, the source address and the method. VERBOSE adds the **fingerprint of'' @ [CHR 0x0A] @
       ''the public key that was used**, which is the difference between knowing that'' @ [CHR 0x0A] @
       ''somebody authenticated as deploy@ and knowing which of the eleven keys in that'' @ [CHR 0x0A] @
       ''account's authorized_keys file did it. On any host where more than one key can'' @ [CHR 0x0A] @
       ''open an account, VERBOSE is what makes key-based logins attributable at all.'' @ [CHR 0x0A, CHR 0x0A] @
       ''DEBUG and DEBUG1-3 fail this check from the other direction. sshd_config(5)'' @ [CHR 0x0A] @
       ''states plainly that logging at DEBUG '' @ [CHR 0x22] @ ''violates the privacy of users and is not'' @
       [CHR 0x0A] @ ''recommended'' @ [CHR 0x22] @ '': the output includes material from the authentication exchange'' @
       [CHR 0x0A] @ ''that has no place in a log an operations team reads. It also produces enough'' @ [CHR 0x0A] @
       ''volume to roll a log file before an investigator reaches it.'',
     ck_base_severity = Medium,
     ck_tags = [''ssh'', ''logging'', ''forensics'', ''attribution''],
     ck_requires = [SSHDConfigID],
     ck_eval = Some (\<lambda>fs. Inr (loglevel_eval fs)),
     ck_remediation = Some \<lparr>rem_summary = ''Set LogLevel VERBOSE, and confirm the log is actually being collected.'',
       rem_effort = ''LOW'',
       rem_steps = [''Set 'LogLevel VERBOSE' in /etc/ssh/sshd_config. INFO also passes this check. VERBOSE '' @
         ''records key fingerprints, which is what makes key-based logins individually attributable.'',
        ''Verify the fingerprints are appearing: after a key login, 'journalctl -u sshd | grep -i '' @ [CHR 0x22] @
          ''Accepted publickey'' @ [CHR 0x22, CHR 0x27] @ '' should show a SHA256: fingerprint.'',
        ''Confirm the log leaves the host. A local authentication log is deleted by whoever '' @
          ''compromises the host; forwarding to a collector is what makes it evidence. LOGGING module '' @
          ''checks cover that side.'',
        ''If the level was at DEBUG, check the existing log files for authentication material '' @
          ''before rotating them, and rotate them rather than leaving them in place.'',
        ''Validate and reload: 'sshd -t' then 'systemctl reload sshd'.''],
       rem_commands = [''sshd -T | grep -i loglevel'',
        ''journalctl -u sshd -n 50''],
       rem_caution = ''VERBOSE increases log volume noticeably on a busy bastion. Check the retention and disk '' @
         ''headroom on the log partition before making the change, or the first symptom will be a '' @
         ''full filesystem rather than a better audit trail.''\<rparr>,
     ck_mappings = [\<lparr>cr_framework = ''nist-800-53-r5'', cr_control = ''AU-2''\<rparr>,
        \<lparr>cr_framework = ''nist-800-53-r5'', cr_control = ''AU-3''\<rparr>,
        \<lparr>cr_framework = ''nist-800-53-r5'', cr_control = ''AU-12''\<rparr>],
     ck_references = [\<lparr>ref_title = ''sshd_config(5). LogLevel'', ref_url = ''https://man.openbsd.org/sshd_config#LogLevel''\<rparr>],
     ck_since_catalog = 6,
     ck_deprecated = None\<rparr>"

definition spec0010 :: algSpec where
  "spec0010 = \<lparr>as_Keyword = ''Ciphers'',
     as_Noun = ''cipher'',
     as_Weak = weakCipher,
     as_Base = High,
     as_Consequence = ''a client that offers one of these will be given it, so the confidentiality of the session '' @
       ''rests on the weakest entry in the list rather than the strongest'',
     as_Assurance = ''every session this host will agree to carry uses a cipher with no known practical attack''\<rparr>"

definition Check0010 :: "payload check" where
  "Check0010 = \<lparr>ck_id = ''SSHD-0010'',
     ck_module = ''SSHD'',
     ck_title = ''No deprecated or broken cipher is offered'',
     ck_description = ''The Ciphers list is what the server will agree to encrypt a'' @ [CHR 0x0A] @
       ''session with. A client chooses from it, so the weakest entry is the weakest'' @ [CHR 0x0A] @
       ''session this host will ever carry, and a client that prefers a weak cipher,'' @ [CHR 0x0A] @
       ''whether through age or through an attacker's influence over the negotiation, is'' @ [CHR 0x0A] @
       ''not exotic.'' @ [CHR 0x0A, CHR 0x0A] @ ''Three families fail this check:'' @ [CHR 0x0A, CHR 0x0A] @
       ''- **CBC modes** (anything ending -cbc). SSH's use of CBC lets an attacker who'' @ [CHR 0x0A] @
       ''  can inject ciphertext recover 32 bits of plaintext with probability 2^-18 per'' @ [CHR 0x0A] @
       ''  attempt (CVE-2008-5161). OpenSSH removed CBC from its default list in 7.6.'' @ [CHR 0x0A] @
       ''- **64-bit block ciphers**, 3DES, Blowfish, CAST-128. Sweet32 (CVE-2016-2183)'' @ [CHR 0x0A] @
       ''  recovers plaintext from a long-lived connection carrying enough data, and a'' @ [CHR 0x0A] @
       ''  persistent SSH tunnel is exactly the shape that attack wants.'' @ [CHR 0x0A] @
       ''- **RC4** (arcfour). Biased keystream, prohibited for TLS by RFC 7465, removed'' @ [CHR 0x0A] @
       ''  from OpenSSH's defaults in 6.7.'' @ [CHR 0x0A, CHR 0x0A, CHR 0x27] @
       ''none' fails for the obvious reason.'' @ [CHR 0x0A, CHR 0x0A] @
       ''When Ciphers is absent this check returns UNKNOWN rather than PASS. The'' @ [CHR 0x0A] @
       ''effective list is compiled into the sshd binary, differs by release, and is'' @ [CHR 0x0A] @
       ''rewritten by Red Hat's crypto-policies; asserting it without reading the binary'' @ [CHR 0x0A] @
       ''would be a guess. See algorithms.go.'',
     ck_base_severity = High,
     ck_tags = [''ssh'', ''cryptography'', ''remote-access''],
     ck_requires = [SSHDConfigID],
     ck_eval = Some (\<lambda>fs. Inr (alg_eval spec0010 fs)),
     ck_remediation = Some \<lparr>rem_summary = ''Set an explicit Ciphers list containing only AEAD and CTR modes.'',
       rem_effort = ''MEDIUM'',
       rem_steps = [''Find out what actually connects before restricting anything. 'journalctl -u sshd | grep -i '' @
         [CHR 0x22] @ ''cipher'' @ [CHR 0x22, CHR 0x27] @
         '' at LogLevel VERBOSE, or a packet capture of a few negotiations, will show which ciphers '' @
         ''clients are choosing.'',
        ''Set an explicit list in /etc/ssh/sshd_config: 'Ciphers '' @
          ''chacha20-poly1305@openssh.com,aes256-gcm@openssh.com,aes128-gcm@openssh.com,aes256-ctr,aes'' @
          ''192-ctr,aes128-ctr'.'',
        ''Prefer the absolute form over 'Ciphers -*-cbc'. The relative form leaves the rest of the '' @
          ''list at whatever this binary was built with, which is both unauditable and '' @
          ''version-dependent. Plumbline reports it as UNKNOWN for that reason.'',
        ''On RHEL 8+ and Fedora, sshd's list is governed by crypto-policies. Changing sshd_config '' @
          ''alone may be overridden; 'update-crypto-policies --show' tells you which profile is '' @
          ''active, and a policy submodule is the durable place to make the change.'',
        ''Validate and reload: 'sshd -t' then 'systemctl reload sshd'.''],
       rem_commands = [''sshd -T | grep -i '^ciphers'' @ [CHR 0x27],
        ''ssh -Q cipher''],
       rem_caution = ''Clients older than roughly 2014, embedded management controllers, network appliances, '' @
         ''legacy Java SSH libraries, may support nothing on a modern list and will fail to connect '' @
         ''with 'no matching cipher found'. Inventory what connects to this host before restricting '' @
         ''it, especially on anything with out-of-band management.''\<rparr>,
     ck_mappings = [\<lparr>cr_framework = ''nist-800-53-r5'', cr_control = ''SC-8''\<rparr>,
        \<lparr>cr_framework = ''nist-800-53-r5'', cr_control = ''SC-8(1)''\<rparr>,
        \<lparr>cr_framework = ''nist-800-53-r5'', cr_control = ''SC-13''\<rparr>],
     ck_references = [\<lparr>ref_title = ''sshd_config(5). Ciphers'', ref_url = ''https://man.openbsd.org/sshd_config#Ciphers''\<rparr>,
        \<lparr>ref_title = ''CVE-2008-5161. SSH CBC plaintext recovery'', ref_url = ''https://nvd.nist.gov/vuln/detail/CVE-2008-5161''\<rparr>,
        \<lparr>ref_title = ''CVE-2016-2183. Sweet32'', ref_url = ''https://nvd.nist.gov/vuln/detail/CVE-2016-2183''\<rparr>],
     ck_since_catalog = 6,
     ck_deprecated = None\<rparr>"

definition spec0011 :: algSpec where
  "spec0011 = \<lparr>as_Keyword = ''MACs'',
     as_Noun = ''MAC'',
     as_Weak = weakMAC,
     as_Base = High,
     as_Consequence = ''a client that offers one of these will be given it, so the integrity of the session rests '' @
       ''on a construction that is either broken or deliberately truncated '' @ em_dash @
       '' and a session an attacker can modify is not protected by having been encrypted'',
     as_Assurance = ''every session this host will agree to carry is protected by a MAC with no known practical '' @
       ''forgery''\<rparr>"

definition Check0011 :: "payload check" where
  "Check0011 = \<lparr>ck_id = ''SSHD-0011'',
     ck_module = ''SSHD'',
     ck_title = ''No deprecated or truncated MAC is offered'',
     ck_description = ''The MAC is what stops an attacker on the path from modifying a'' @ [CHR 0x0A] @
       ''session rather than merely reading it. Encryption without integrity is not a'' @ [CHR 0x0A] @
       ''weaker guarantee, it is a different one, and SSH's own history is a series of'' @ [CHR 0x0A] @
       ''attacks that exploited exactly that gap.'' @ [CHR 0x0A, CHR 0x0A] @ ''Four categories fail:'' @
       [CHR 0x0A, CHR 0x0A] @ ''- **MD5** in any form. Collision-broken since 2004 and unsuitable for'' @ [CHR 0x0A] @
       ''  authentication for as long as that has been known.'' @ [CHR 0x0A] @
       ''- **SHA-1** in any form. Collision-broken in practice since SHAttered (2017),'' @ [CHR 0x0A] @
       ''  and RFC 9142 deprecates it for SSH.'' @ [CHR 0x0A] @
       ''- **Truncated tags** (-96 variants). Cutting the tag to 96 bits reduces forgery'' @ [CHR 0x0A] @
       ''  resistance for a saving of four bytes per packet.'' @ [CHR 0x0A] @
       ''- **umac-64**. A 64-bit tag is short enough to attack with feasible work.'' @ [CHR 0x0A, CHR 0x0A] @
       ''A related point this check does not fail on: MACs whose names end -etm@openssh.com'' @ [CHR 0x0A] @
       ''apply the MAC to the ciphertext (encrypt-then-MAC), which is the construction'' @ [CHR 0x0A] @
       ''with the sound security proof, while the plain forms MAC the plaintext. Both'' @ [CHR 0x0A] @
       ''appear in OpenSSH's defaults and neither is broken, so preferring the ETM forms'' @ [CHR 0x0A] @
       ''is a recommendation in the remediation rather than a verdict here.'' @ [CHR 0x0A, CHR 0x0A] @
       ''When MACs is absent this check returns UNKNOWN rather than PASS, for the reason'' @ [CHR 0x0A] @
       ''set out in algorithms.go: the effective list is compiled into the binary and'' @ [CHR 0x0A] @
       ''cannot be read from the configuration.'',
     ck_base_severity = High,
     ck_tags = [''ssh'', ''cryptography'', ''remote-access''],
     ck_requires = [SSHDConfigID],
     ck_eval = Some (\<lambda>fs. Inr (alg_eval spec0011 fs)),
     ck_remediation = Some \<lparr>rem_summary = ''Set an explicit MACs list containing only full-length SHA-2 and UMAC-128 constructions, '' @
       ''preferring the ETM forms.'',
       rem_effort = ''MEDIUM'',
       rem_steps = [''Set an explicit list in /etc/ssh/sshd_config: 'MACs '' @
         ''hmac-sha2-512-etm@openssh.com,hmac-sha2-256-etm@openssh.com,umac-128-etm@openssh.com'.'',
        ''Note that the AEAD ciphers, chacha20-poly1305 and the -gcm modes, carry their own '' @
          ''integrity and ignore this list entirely. On a host whose Ciphers list is AEAD-only, the '' @
          ''MACs list only governs the fallback, but leaving a broken entry there is still a '' @
          ''negotiable path.'',
        ''Prefer the absolute form over 'MACs -hmac-sha1*'; the relative form leaves the remainder '' @
          ''at the binary's built-in default, which Plumbline reports as UNKNOWN because it cannot be '' @
          ''read from configuration.'',
        ''On RHEL 8+ and Fedora, check 'update-crypto-policies --show', the system policy can '' @
          ''override what sshd_config says.'',
        ''Validate and reload: 'sshd -t' then 'systemctl reload sshd'.''],
       rem_commands = [''sshd -T | grep -i '^macs'' @ [CHR 0x27],
        ''ssh -Q mac''],
       rem_caution = ''The same compatibility warning as SSHD-0010 applies: older embedded clients frequently '' @
         ''offer only hmac-sha1, and restricting this list will disconnect them with 'no matching '' @
         ''MAC found'. Check management controllers and appliances before changing a host they reach.''\<rparr>,
     ck_mappings = [\<lparr>cr_framework = ''nist-800-53-r5'', cr_control = ''SC-8''\<rparr>,
        \<lparr>cr_framework = ''nist-800-53-r5'', cr_control = ''SC-8(1)''\<rparr>,
        \<lparr>cr_framework = ''nist-800-53-r5'', cr_control = ''SC-13''\<rparr>],
     ck_references = [\<lparr>ref_title = ''sshd_config(5). MACs'', ref_url = ''https://man.openbsd.org/sshd_config#MACs''\<rparr>,
        \<lparr>ref_title = ''RFC 9142. Key Exchange (KEX) Method Updates for SSH'', ref_url = ''https://www.rfc-editor.org/rfc/rfc9142''\<rparr>],
     ck_since_catalog = 6,
     ck_deprecated = None\<rparr>"

definition spec0012 :: algSpec where
  "spec0012 = \<lparr>as_Keyword = ''KexAlgorithms'',
     as_Noun = ''key exchange'',
     as_Weak = weakKex,
     as_Base = High,
     as_Consequence = ''a client that offers one of these will be given it, and an adversary who recovers the '' @
       ''exchanged secret reads and modifies the whole session no matter how strong the cipher and '' @
       ''MAC negotiated on top of it were'',
     as_Assurance = ''every session this host will agree to carry establishes its secret with a method that has '' @
       ''no known practical attack''\<rparr>"

definition Check0012 :: "payload check" where
  "Check0012 = \<lparr>ck_id = ''SSHD-0012'',
     ck_module = ''SSHD'',
     ck_title = ''No deprecated key exchange method is offered'',
     ck_description = ''Key exchange establishes the shared secret everything else in'' @ [CHR 0x0A] @
       ''the session depends on. It is the one negotiation where a weakness is not'' @ [CHR 0x0A] @
       ''partial: an adversary who can recover the exchanged secret reads and modifies'' @ [CHR 0x0A] @
       ''the session regardless of how strong the cipher and MAC were.'' @ [CHR 0x0A, CHR 0x0A] @
       ''Two families fail:'' @ [CHR 0x0A, CHR 0x0A] @
       ''- **The 1024-bit MODP groups**, diffie-hellman-group1-sha1 and its relatives.'' @ [CHR 0x0A] @
       ''  Logjam (2015) showed that a single expensive precomputation against a fixed'' @ [CHR 0x0A] @
       ''  1024-bit group makes individual exchanges cheap thereafter, and that the'' @ [CHR 0x0A] @
       ''  small number of groups in widespread use makes that precomputation worth'' @ [CHR 0x0A] @
       ''  doing. The prudent assumption is that it has been done.'' @ [CHR 0x0A] @
       ''- **SHA-1 key exchanges**, group14-sha1, group-exchange-sha1, and the gss-'' @ [CHR 0x0A] @
       ''  variants. RFC 9142 deprecates SHA-1 for SSH key exchange, and OpenSSH removed'' @ [CHR 0x0A] @
       ''  these from its default list in 8.2.'' @ [CHR 0x0A, CHR 0x0A] @
       ''A note on scope: the Terrapin attack (CVE-2023-48795) is a weakness in the'' @ [CHR 0x0A] @
       ''handshake's sequence-number handling rather than in any algorithm on this list,'' @ [CHR 0x0A] @
       ''and it is fixed by OpenSSH 9.6's strict-KEX extension rather than by a'' @ [CHR 0x0A] @
       ''configuration change. This check does not detect it, a host with a perfectly'' @ [CHR 0x0A] @
       ''acceptable KexAlgorithms list can still be vulnerable if the binary predates'' @ [CHR 0x0A] @
       ''9.6. Version-based detection belongs to a vulnerability feed, not here.'' @ [CHR 0x0A, CHR 0x0A] @
       ''When KexAlgorithms is absent this check returns UNKNOWN rather than PASS, for'' @ [CHR 0x0A] @
       ''the reason set out in algorithms.go.'',
     ck_base_severity = High,
     ck_tags = [''ssh'', ''cryptography'', ''remote-access''],
     ck_requires = [SSHDConfigID],
     ck_eval = Some (\<lambda>fs. Inr (alg_eval spec0012 fs)),
     ck_remediation = Some \<lparr>rem_summary = ''Set an explicit KexAlgorithms list of SHA-2 curve and large-group methods.'',
       rem_effort = ''MEDIUM'',
       rem_steps = [''Set an explicit list in /etc/ssh/sshd_config: 'KexAlgorithms '' @
         ''curve25519-sha256,curve25519-sha256@libssh.org,diffie-hellman-group16-sha512,diffie-hellma'' @
         ''n-group-exchange-sha256'.'',
        ''Where the host must keep a DH group-exchange method, also remove the small moduli from '' @
          ''/etc/ssh/moduli: 'awk '' @ [CHR 0x5C, CHR 0x27] @ ''$5 >= 3071'' @ [CHR 0x5C, CHR 0x27] @
          '' /etc/ssh/moduli > /etc/ssh/moduli.tmp && mv /etc/ssh/moduli.tmp /etc/ssh/moduli'. '' @
          ''Leaving 1024-bit moduli in that file undoes much of the point of the list.'',
        ''Confirm the sshd binary is 9.6 or later, so the strict-KEX mitigation for Terrapin '' @
          ''(CVE-2023-48795) is present. That is a version question, not a configuration one, and '' @
          ''this check does not answer it: 'sshd -V' or the package version.'',
        ''On RHEL 8+ and Fedora, check 'update-crypto-policies --show', the system policy governs '' @
          ''this list too.'',
        ''Validate and reload: 'sshd -t' then 'systemctl reload sshd'.''],
       rem_commands = [''sshd -T | grep -i '^kexalgorithms'' @ [CHR 0x27],
        ''ssh -Q kex''],
       rem_caution = ''Key exchange is the first thing negotiated, so a client that supports nothing on the list '' @
         ''fails before authentication with 'no matching key exchange method found' and no '' @
         ''indication of which host setting caused it. This is the algorithm list most likely to '' @
         ''break old automation; check it against every client that reaches this host, including '' @
         ''backup agents and monitoring probes.''\<rparr>,
     ck_mappings = [\<lparr>cr_framework = ''nist-800-53-r5'', cr_control = ''SC-8''\<rparr>,
        \<lparr>cr_framework = ''nist-800-53-r5'', cr_control = ''SC-12''\<rparr>,
        \<lparr>cr_framework = ''nist-800-53-r5'', cr_control = ''SC-13''\<rparr>],
     ck_references = [\<lparr>ref_title = ''sshd_config(5). KexAlgorithms'', ref_url = ''https://man.openbsd.org/sshd_config#KexAlgorithms''\<rparr>,
        \<lparr>ref_title = ''RFC 9142. Key Exchange (KEX) Method Updates for SSH'', ref_url = ''https://www.rfc-editor.org/rfc/rfc9142''\<rparr>,
        \<lparr>ref_title = ''Logjam / Weak Diffie-Hellman'', ref_url = ''https://weakdh.org/''\<rparr>],
     ck_since_catalog = 6,
     ck_deprecated = None\<rparr>"

definition spec0013 :: boolSpec where
  "spec0013 = \<lparr>bs_Keyword = ''IgnoreRhosts'',
     bs_Secure = ''yes'',
     bs_Default = defaultIgnoreRhosts,
     bs_Base = Medium,
     bs_FailSeverity = NoSeverity,
     bs_Consequence = ''sshd consults ~/.rhosts and ~/.shosts, so a user who can write their own home directory '' @
       ''can grant access to any account on any host they can impersonate on the network'',
     bs_Assurance = ''the legacy rhosts trust files are not consulted, so a writable home directory cannot '' @
       ''grant remote access''\<rparr>"

definition Check0013 :: "payload check" where
  "Check0013 = \<lparr>ck_id = ''SSHD-0013'',
     ck_module = ''SSHD'',
     ck_title = ''Per-user .rhosts and .shosts files are ignored'',
     ck_description = ''~/.rhosts and ~/.shosts are the BSD r-command trust files: a'' @ [CHR 0x0A] @
       ''line naming a host and a user in one of them says '' @ [CHR 0x22] @ ''let that user in from that'' @
       [CHR 0x0A] @ ''host without a credential'' @ [CHR 0x22] @ ''. The trust is asserted by the client's hostname,'' @
       [CHR 0x0A] @ ''which is exactly the thing an attacker on the network controls.'' @ [CHR 0x0A, CHR 0x0A] @
       ''IgnoreRhosts yes tells sshd not to consult them. The keyword only has an effect'' @ [CHR 0x0A] @
       ''where host-based authentication is actually enabled (SSHD-0014), so on most'' @ [CHR 0x0A] @
       ''hosts this is defence in depth rather than an active exposure, but the two'' @ [CHR 0x0A] @
       ''settings are frequently changed together by the same legacy migration, and a'' @ [CHR 0x0A] @
       ''host that has turned one on has usually turned the other on too.'' @ [CHR 0x0A, CHR 0x0A] @
       ''The OpenSSH default is yes. A host reporting a failure here has been configured'' @ [CHR 0x0A] @
       ''to honour these files deliberately, which is worth knowing on its own.'',
     ck_base_severity = Medium,
     ck_tags = [''ssh'', ''remote-access'', ''authentication'', ''legacy''],
     ck_requires = [SSHDConfigID],
     ck_eval = Some (\<lambda>fs. Inr (bool_eval spec0013 fs)),
     ck_remediation = Some \<lparr>rem_summary = ''Set IgnoreRhosts yes and remove the trust files that are already on disk.'',
       rem_effort = ''LOW'',
       rem_steps = [''Set 'IgnoreRhosts yes' in /etc/ssh/sshd_config. This is the OpenSSH default, so the line '' @
         ''can also be removed.'',
        ''Find the files that exist regardless: 'find /home /root -maxdepth 2 -name .rhosts -o '' @
          ''-name .shosts'.'',
        ''Read each one before deleting it, its contents record who was trusted, which is worth '' @
          ''keeping for the incident record if the host has been exposed.'',
        ''Confirm host-based authentication is also off (SSHD-0014), since that is what gives these '' @
          ''files their effect.'',
        ''Validate and reload: 'sshd -t' then 'systemctl reload sshd'.''],
       rem_commands = [''sshd -T | grep -i ignorerhosts'',
        ''find /home /root -maxdepth 2 '' @ [CHR 0x5C] @ ''( -name .rhosts -o -name .shosts '' @ [CHR 0x5C] @ '')''],
       rem_caution = ''A legacy application that still relies on r-command trust will stop authenticating. Those '' @
         ''are rare in 2026 and each one is a standing unauthenticated-access path, so find out what '' @
         ''breaks rather than leaving the setting in place.''\<rparr>,
     ck_mappings = [\<lparr>cr_framework = ''nist-800-53-r5'', cr_control = ''IA-2''\<rparr>,
        \<lparr>cr_framework = ''nist-800-53-r5'', cr_control = ''AC-17''\<rparr>,
        \<lparr>cr_framework = ''nist-800-53-r5'', cr_control = ''CM-7''\<rparr>],
     ck_references = [\<lparr>ref_title = ''sshd_config(5). IgnoreRhosts'', ref_url = ''https://man.openbsd.org/sshd_config#IgnoreRhosts''\<rparr>],
     ck_since_catalog = 6,
     ck_deprecated = None\<rparr>"

definition spec0014 :: boolSpec where
  "spec0014 = \<lparr>bs_Keyword = ''HostbasedAuthentication'',
     bs_Secure = ''no'',
     bs_Default = defaultHostbasedAuthentication,
     bs_Base = High,
     bs_FailSeverity = NoSeverity,
     bs_Consequence = ''a user is admitted on the strength of the machine they came from, so root on any trusted '' @
       ''host '' @ em_dash @ '' or anyone holding a copy of its host key '' @ em_dash @
       '' can authenticate here as any user that trust covers'',
     bs_Assurance = ''authentication requires a credential this user holds rather than a machine they came from''\<rparr>"

definition Check0014 :: "payload check" where
  "Check0014 = \<lparr>ck_id = ''SSHD-0014'',
     ck_module = ''SSHD'',
     ck_title = ''Host-based authentication is disabled'',
     ck_description = ''Host-based authentication admits a user because of the machine'' @ [CHR 0x0A] @
       ''they are connecting from, not because of anything they know or hold. The client'' @ [CHR 0x0A] @
       ''host proves its identity with its own host key, and from that point sshd accepts'' @ [CHR 0x0A] @
       ''whichever local username the client asserts.'' @ [CHR 0x0A, CHR 0x0A] @
       ''The consequence is that the trusted host's security boundary becomes this host's'' @ [CHR 0x0A] @
       ''security boundary. Anyone with root on the trusted machine, or anyone who can'' @ [CHR 0x0A] @
       ''read its host key, which lives on disk and is often included in backups and'' @ [CHR 0x0A] @
       ''machine images, can authenticate here as any user the trust covers. A single'' @ [CHR 0x0A] @
       ''compromised workstation becomes access to every host that trusted it, with no'' @ [CHR 0x0A] @
       ''credential to steal and nothing in this host's logs that distinguishes it from'' @ [CHR 0x0A] @
       ''a legitimate login.'' @ [CHR 0x0A, CHR 0x0A] @
       ''The OpenSSH default is no. This is the modern descendant of rhosts trust'' @ [CHR 0x0A] @
       ''(SSHD-0013), and the two are usually enabled together.'',
     ck_base_severity = High,
     ck_tags = [''ssh'', ''remote-access'', ''authentication'', ''lateral-movement''],
     ck_requires = [SSHDConfigID],
     ck_eval = Some (\<lambda>fs. Inr (bool_eval spec0014 fs)),
     ck_remediation = Some \<lparr>rem_summary = ''Set HostbasedAuthentication no and remove the trust configuration behind it.'',
       rem_effort = ''MEDIUM'',
       rem_steps = [''Establish what currently depends on it before changing anything: 'cat '' @
         ''/etc/ssh/shosts.equiv /etc/hosts.equiv' and the per-user ~/.shosts files list the trusted '' @ ''hosts.'',
        ''Replace the trust with keys for whatever automation relied on it. A per-account key with '' @
          ''a forced command is both narrower and auditable.'',
        ''Set 'HostbasedAuthentication no' in /etc/ssh/sshd_config, the OpenSSH default, so the '' @
          ''line may simply be removed.'',
        ''Remove /etc/shosts.equiv, /etc/hosts.equiv and any ~/.shosts files, after recording their '' @
          ''contents for the incident trail.'',
        ''Validate and reload: 'sshd -t' then 'systemctl reload sshd'.''],
       rem_commands = [''sshd -T | grep -i hostbasedauthentication'',
        ''cat /etc/ssh/shosts.equiv /etc/hosts.equiv 2>/dev/null''],
       rem_caution = ''Cluster tooling from the HPC and older Unix worlds, parallel shells, batch schedulers, '' @
         ''some backup agents, depends on this. Each of those is currently authenticating with no '' @
         ''per-user credential; migrate them to keys rather than leaving the trust in place, and '' @
         ''expect the migration to take longer than the config change.''\<rparr>,
     ck_mappings = [\<lparr>cr_framework = ''nist-800-53-r5'', cr_control = ''IA-2''\<rparr>,
        \<lparr>cr_framework = ''nist-800-53-r5'', cr_control = ''IA-3''\<rparr>,
        \<lparr>cr_framework = ''nist-800-53-r5'', cr_control = ''AC-17''\<rparr>],
     ck_references = [\<lparr>ref_title = ''sshd_config(5). HostbasedAuthentication'', ref_url = ''https://man.openbsd.org/sshd_config#HostbasedAuthentication''\<rparr>],
     ck_since_catalog = 6,
     ck_deprecated = None\<rparr>"

definition spec0015 :: boolSpec where
  "spec0015 = \<lparr>bs_Keyword = ''PermitUserEnvironment'',
     bs_Secure = ''no'',
     bs_Default = defaultPermitUserEnvironment,
     bs_Base = Medium,
     bs_FailSeverity = NoSeverity,
     bs_Consequence = ''a user can set LD_PRELOAD and PATH for their own session from a file they control, which '' @
       ''subverts forced commands, restricted shells and any other constraint that limits what '' @
       ''they may run rather than what they may load'',
     bs_Assurance = ''the session environment comes from the system rather than from files the user can write''\<rparr>"

definition Check0015 :: "payload check" where
  "Check0015 = \<lparr>ck_id = ''SSHD-0015'',
     ck_module = ''SSHD'',
     ck_title = ''Users cannot set arbitrary environment variables at login'',
     ck_description = ''PermitUserEnvironment yes makes sshd read ~/.ssh/environment'' @ [CHR 0x0A] @
       ''and the environment= options in ~/.ssh/authorized_keys, and apply what it finds'' @ [CHR 0x0A] @
       ''to the session before any shell starts.'' @ [CHR 0x0A, CHR 0x0A] @
       ''That turns a file the user can write into the environment of a process the'' @ [CHR 0x0A] @
       ''system starts on their behalf. LD_PRELOAD is the direct route: a user who can'' @ [CHR 0x0A] @
       ''set it loads a library of their choosing into every program run from that'' @ [CHR 0x0A] @
       ''session, including anything the session later escalates to. PATH, LD_LIBRARY_PATH'' @ [CHR 0x0A] @
       ''and BASH_ENV are variations on the same theme.'' @ [CHR 0x0A, CHR 0x0A] @
       ''Where this matters most is exactly where the user was supposed to be'' @ [CHR 0x0A] @
       ''constrained, a forced-command key, a restricted shell, an sftp-only account.'' @ [CHR 0x0A] @
       ''Each of those confines what the user may run, and none of them confines what'' @ [CHR 0x0A] @
       ''the user may load into it.'' @ [CHR 0x0A, CHR 0x0A] @
       ''The OpenSSH default is no, and the manual page recommends leaving it there.'',
     ck_base_severity = Medium,
     ck_tags = [''ssh'', ''remote-access'', ''privilege''],
     ck_requires = [SSHDConfigID],
     ck_eval = Some (\<lambda>fs. Inr (bool_eval spec0015 fs)),
     ck_remediation = Some \<lparr>rem_summary = ''Set PermitUserEnvironment no and use AcceptEnv or SetEnv for variables that genuinely '' @
       ''need to pass through.'',
       rem_effort = ''LOW'',
       rem_steps = [''Find out what is relying on it: 'ls /home/*/.ssh/environment' and 'grep -l environment= '' @
         ''/home/*/.ssh/authorized_keys'.'',
        ''Set 'PermitUserEnvironment no' in /etc/ssh/sshd_config, the OpenSSH default, so the line '' @
          ''may be removed.'',
        ''Where a variable genuinely must reach the session, name it explicitly: 'AcceptEnv' allows '' @
          ''a listed variable from the client, and 'SetEnv' sets one from the server. Both are '' @
          ''administrator-controlled, which is the difference that matters.'',
        ''Validate and reload: 'sshd -t' then 'systemctl reload sshd'.''],
       rem_commands = [''sshd -T | grep -i permituserenvironment'',
        ''ls /home/*/.ssh/environment 2>/dev/null''],
       rem_caution = ''Automation that sets variables through authorized_keys, build agents and deployment keys '' @
         ''most often, will lose them silently: the session starts normally and the variable is '' @
         ''simply absent. Check for the files before reloading rather than after the first failed '' @
         ''job.''\<rparr>,
     ck_mappings = [\<lparr>cr_framework = ''nist-800-53-r5'', cr_control = ''CM-7''\<rparr>,
        \<lparr>cr_framework = ''nist-800-53-r5'', cr_control = ''AC-6''\<rparr>,
        \<lparr>cr_framework = ''nist-800-53-r5'', cr_control = ''SI-3''\<rparr>],
     ck_references = [\<lparr>ref_title = ''sshd_config(5). PermitUserEnvironment'', ref_url = ''https://man.openbsd.org/sshd_config#PermitUserEnvironment''\<rparr>],
     ck_since_catalog = 6,
     ck_deprecated = None\<rparr>"

definition spec0016 :: intSpec where
  "spec0016 = \<lparr>is_Keyword = ''LoginGraceTime'',
     is_Default = defaultLoginGraceTime,
     is_Parse = Some parseTimeSeconds,
     is_Acceptable = (\<lambda>n. 0 < n \<and> n \<le> loginGraceLimit),
     is_Render = Some (\<lambda>n. int_str n @ '' second(s)''),
     is_Base = Low,
     is_FailSeverity = NoSeverity,
     is_Consequence = ''an unauthenticated connection may occupy a listener slot for longer than '' @
       int_str loginGraceLimit @
       '' seconds, so a small number of connections that never authenticate can exhaust the '' @
       ''unauthenticated capacity, and each one holds open the most exposed code in the daemon'',
     is_Assurance = ''an unauthenticated connection is closed promptly, so the pre-authentication capacity of '' @
       ''the listener cannot be held open cheaply'',
     is_Syntax = ''a number of seconds, or a time format such as '1m'' @ [CHR 0x27]\<rparr>"

definition Check0016 :: "payload check" where
  "Check0016 = \<lparr>ck_id = ''SSHD-0016'',
     ck_module = ''SSHD'',
     ck_title = ''Unauthenticated connections are closed promptly'',
     ck_description = ''LoginGraceTime is how long sshd will hold a connection open'' @ [CHR 0x0A] @
       ''before the client has authenticated. Every such connection occupies one of the'' @ [CHR 0x0A] @
       ''slots MaxStartups allows, and each one runs a pre-authentication process.'' @ [CHR 0x0A, CHR 0x0A] @
       ''The default is 120 seconds, which means an attacker can hold the listener's'' @ [CHR 0x0A] @
       ''unauthenticated capacity with a trickle of connections that never complete,'' @ [CHR 0x0A] @
       ''the classic slow-loris shape applied to SSH. Reducing it to 60 seconds or less'' @ [CHR 0x0A] @
       ''halves the cost of holding a slot without inconveniencing anyone: an interactive'' @ [CHR 0x0A] @
       ''login that takes more than a minute to authenticate has a different problem.'' @ [CHR 0x0A, CHR 0x0A] @
       ''The wider reason to care is that pre-authentication code is the most exposed'' @ [CHR 0x0A] @
       ''code in the daemon. It is what CVE-2024-6387 ('' @ [CHR 0x22] @ ''regreSSHion'' @ [CHR 0x22] @
       '') reached, and that'' @ [CHR 0x0A] @
       ''vulnerability was triggered specifically by letting the grace timer expire, on'' @ [CHR 0x0A] @
       ''a host running the vulnerable version, a shorter grace time raised the cost of'' @ [CHR 0x0A] @
       ''the attack because each attempt had to be repeated more often. Shortening the'' @ [CHR 0x0A] @
       ''window does not fix such bugs, but it reduces how long an unauthenticated peer'' @ [CHR 0x0A] @
       ''gets to work with the code that contains them.'',
     ck_base_severity = Low,
     ck_tags = [''ssh'', ''remote-access'', ''availability'', ''attack-surface''],
     ck_requires = [SSHDConfigID],
     ck_eval = Some (\<lambda>fs. Inr (int_eval spec0016 fs)),
     ck_remediation = Some \<lparr>rem_summary = ''Set LoginGraceTime to 60 seconds or less.'',
       rem_effort = ''LOW'',
       rem_steps = [''Set 'LoginGraceTime 60' in /etc/ssh/sshd_config. Never set it to 0, that disables the '' @
         ''timeout rather than tightening it.'',
        ''Review MaxStartups at the same time; the grace time and the connection limit together '' @
          ''decide how cheaply the listener can be saturated.'',
        ''Validate and reload: 'sshd -t' then 'systemctl reload sshd'.''],
       rem_commands = [''sshd -T | grep -Ei 'logingracetime|maxstartups'' @ [CHR 0x27]],
       rem_caution = ''Interactive authentication that involves a hardware token, a push notification or a slow '' @
         ''directory lookup can legitimately take longer than a user expects. Sixty seconds is '' @
         ''comfortable for all three; going much below that will start rejecting real logins during '' @
         ''a directory outage.''\<rparr>,
     ck_mappings = [\<lparr>cr_framework = ''nist-800-53-r5'', cr_control = ''SC-5''\<rparr>,
        \<lparr>cr_framework = ''nist-800-53-r5'', cr_control = ''AC-17''\<rparr>],
     ck_references = [\<lparr>ref_title = ''sshd_config(5). LoginGraceTime'', ref_url = ''https://man.openbsd.org/sshd_config#LoginGraceTime''\<rparr>,
        \<lparr>ref_title = ''CVE-2024-6387 (regreSSHion)'', ref_url = ''https://nvd.nist.gov/vuln/detail/CVE-2024-6387''\<rparr>],
     ck_since_catalog = 6,
     ck_deprecated = None\<rparr>"

definition Check0017 :: "payload check" where
  "Check0017 = \<lparr>ck_id = ''SSHD-0017'',
     ck_module = ''SSHD'',
     ck_title = ''A pre-authentication warning banner is presented'',
     ck_description = ''Banner names a file whose contents sshd sends to the client'' @ [CHR 0x0A] @
       ''before authentication. It has no effect on what anyone can do.'' @ [CHR 0x0A, CHR 0x0A] @
       ''Its purpose is evidentiary. Several legal regimes, and most organisational'' @ [CHR 0x0A] @
       ''computer-use policies, distinguish between a system that announced its access'' @ [CHR 0x0A] @
       ''conditions and one that did not, and the announcement has to precede'' @ [CHR 0x0A] @
       ''authentication to be relied on. Where an organisation intends to be able to act'' @ [CHR 0x0A] @
       ''on unauthorised access, this is the mechanism that records the intent.'' @ [CHR 0x0A, CHR 0x0A] @
       ''Two practical notes. The banner must not describe the host: version numbers,'' @ [CHR 0x0A] @
       ''hostnames, roles and contact details in a pre-authentication banner are'' @ [CHR 0x0A] @
       ''reconnaissance handed to anyone who connects, and the file is world-readable to'' @ [CHR 0x0A] @
       ''the internet by construction. And Banner is not the same as MOTD, which is'' @ [CHR 0x0A] @
       ''displayed after authentication and therefore says nothing to anyone who failed'' @ [CHR 0x0A] @
       ''to authenticate.'' @ [CHR 0x0A, CHR 0x0A] @ ''The OpenSSH default is 'none', no banner.'',
     ck_base_severity = Low,
     ck_tags = [''ssh'', ''compliance'', ''policy''],
     ck_requires = [SSHDConfigID],
     ck_eval = Some (\<lambda>fs. Inr (banner_eval fs)),
     ck_remediation = Some \<lparr>rem_summary = ''Write a banner file containing your organisation's access notice and point Banner at it.'',
       rem_effort = ''LOW'',
       rem_steps = [''Get the wording from whoever owns it, legal or security, not the person editing '' @
         ''sshd_config. The text is the entire value of this control and a generic one may not carry '' @
         ''the effect intended.'',
        ''Write it to /etc/issue.net and set 'Banner /etc/issue.net' in /etc/ssh/sshd_config.'',
        ''Check what the file does not say: no hostname, no operating system version, no role, no '' @
          ''contact details. Everything in it is shown to anyone who connects, before they '' @ ''authenticate.'',
        ''Confirm the file is world-readable and not a symlink into anything unexpected: 'ls -lL '' @
          ''/etc/issue.net'.'',
        ''Validate and reload: 'sshd -t' then 'systemctl reload sshd'. Verify with 'ssh -o '' @
          ''PreferredAuthentications=none <host>' from elsewhere.''],
       rem_commands = [''sshd -T | grep -i banner'',
        ''ssh -o PreferredAuthentications=none <host>''],
       rem_caution = ''Automated clients that parse SSH output, older scripted transfers and some monitoring '' @
         ''probes, can be confused by unexpected banner text. Test against the automation that talks '' @
         ''to this host, not only from an interactive terminal.''\<rparr>,
     ck_mappings = [\<lparr>cr_framework = ''nist-800-53-r5'', cr_control = ''AC-8''\<rparr>],
     ck_references = [\<lparr>ref_title = ''sshd_config(5). Banner'', ref_url = ''https://man.openbsd.org/sshd_config#Banner''\<rparr>],
     ck_since_catalog = 6,
     ck_deprecated = None\<rparr>"

definition spec0018 :: boolSpec where
  "spec0018 = \<lparr>bs_Keyword = ''AllowAgentForwarding'',
     bs_Secure = ''no'',
     bs_Default = defaultAllowAgentForwarding,
     bs_Base = Low,
     bs_FailSeverity = NoSeverity,
     bs_Consequence = ''a user who forwards their agent exposes a socket on this host that root here can use to '' @
       ''authenticate as them to every other host their keys open, for as long as the session lasts'',
     bs_Assurance = ''no forwarded agent socket is created, so a compromise of this host cannot borrow a user's '' @
       ''keys''\<rparr>"

definition Check0018 :: "payload check" where
  "Check0018 = \<lparr>ck_id = ''SSHD-0018'',
     ck_module = ''SSHD'',
     ck_title = ''SSH agent forwarding is disabled'',
     ck_description = ''Agent forwarding places a socket on the server that anyone'' @ [CHR 0x0A] @
       ''with root there, or the user's own uid, can use to sign authentication'' @ [CHR 0x0A] @
       ''requests with the keys held in the user's local agent. The keys themselves do'' @ [CHR 0x0A] @
       ''not move, which is what the feature is usually defended with, but the ability to'' @ [CHR 0x0A] @
       ''authenticate with them does, for as long as the session is open. A compromised'' @ [CHR 0x0A] @
       ''jump host can use a forwarded agent to log into every other host that user's key'' @ [CHR 0x0A] @
       ''opens, and the resulting logins are indistinguishable from the real ones.'' @ [CHR 0x0A, CHR 0x0A] @
       ''ProxyJump ('ssh -J') achieves what agent forwarding is normally used for without'' @ [CHR 0x0A] @
       ''this property: the connection to the final host is negotiated from the client,'' @ [CHR 0x0A] @
       ''the intermediate host sees only encrypted traffic, and no socket is exposed on'' @ [CHR 0x0A] @
       ''it. It has been available since OpenSSH 7.3 (2016) and is the answer in almost'' @ [CHR 0x0A] @
       ''every case where agent forwarding is still configured.'' @ [CHR 0x0A, CHR 0x0A] @
       ''The OpenSSH default is yes. This ships at LOW because the exposure requires the'' @ [CHR 0x0A] @
       ''server to be compromised first, and because the setting is only reachable when'' @ [CHR 0x0A] @
       ''a user chooses to forward, but on a bastion, which is precisely where agent'' @ [CHR 0x0A] @
       ''forwarding is most used, that first condition is the whole threat model.'',
     ck_base_severity = Low,
     ck_tags = [''ssh'', ''remote-access'', ''lateral-movement'', ''credentials''],
     ck_requires = [SSHDConfigID],
     ck_eval = Some (\<lambda>fs. Inr (bool_eval spec0018 fs)),
     ck_remediation = Some \<lparr>rem_summary = ''Set AllowAgentForwarding no and move users to ProxyJump.'',
       rem_effort = ''LOW'',
       rem_steps = [''Establish the replacement first: 'ssh -J bastion.example.net target.example.net', or a '' @
         '''ProxyJump' line in the users' ~/.ssh/config. This is what agent forwarding is usually '' @
         ''being used for.'',
        ''Set 'AllowAgentForwarding no' in /etc/ssh/sshd_config.'',
        ''Note that this is not a security boundary against a determined user, anyone who can run a '' @
          ''shell here can forward a connection themselves. It removes the default and the accident, '' @
          ''not the capability.'',
        ''Validate and reload: 'sshd -t' then 'systemctl reload sshd'.''],
       rem_commands = [''sshd -T | grep -i allowagentforwarding''],
       rem_caution = ''Deployment tooling that hops through this host to reach a git remote or a downstream '' @
         ''server will stop authenticating. ProxyJump or a deploy key scoped to the specific '' @
         ''repository are the replacements; arrange one before the change rather than after the '' @
         ''pipeline fails.''\<rparr>,
     ck_mappings = [\<lparr>cr_framework = ''nist-800-53-r5'', cr_control = ''AC-17''\<rparr>,
        \<lparr>cr_framework = ''nist-800-53-r5'', cr_control = ''IA-5''\<rparr>,
        \<lparr>cr_framework = ''nist-800-53-r5'', cr_control = ''CM-7''\<rparr>],
     ck_references = [\<lparr>ref_title = ''sshd_config(5). AllowAgentForwarding'', ref_url = ''https://man.openbsd.org/sshd_config#AllowAgentForwarding''\<rparr>,
        \<lparr>ref_title = ''ssh_config(5). ProxyJump'', ref_url = ''https://man.openbsd.org/ssh_config#ProxyJump''\<rparr>],
     ck_since_catalog = 6,
     ck_deprecated = None\<rparr>"

definition spec0019 :: boolSpec where
  "spec0019 = \<lparr>bs_Keyword = ''StrictModes'',
     bs_Secure = ''yes'',
     bs_Default = defaultStrictModes,
     bs_Base = Medium,
     bs_FailSeverity = NoSeverity,
     bs_Consequence = ''sshd accepts an authorized_keys file regardless of who can write it, so anyone able to '' @
       ''write a user's home directory can add their own key and log in as that user'',
     bs_Assurance = ''a key file that is writable by anyone other than its owner is refused rather than trusted''\<rparr>"

definition Check0019 :: "payload check" where
  "Check0019 = \<lparr>ck_id = ''SSHD-0019'',
     ck_module = ''SSHD'',
     ck_title = ''sshd verifies ownership and permissions of user key files'',
     ck_description = ''Before accepting a public key, sshd checks that the user owns'' @ [CHR 0x0A] @
       ''their home directory, ~/.ssh and ~/.ssh/authorized_keys, and that none of them'' @ [CHR 0x0A] @
       ''is writable by group or other. StrictModes yes is what performs that check.'' @ [CHR 0x0A, CHR 0x0A] @
       ''With StrictModes no, a world-writable home directory becomes a way in: anyone'' @ [CHR 0x0A] @
       ''who can write it can create ~/.ssh/authorized_keys, add their own public key,'' @ [CHR 0x0A] @
       ''and log in as that user. No credential is stolen and nothing is guessed, the'' @ [CHR 0x0A] @
       ''account simply starts trusting a new key. The same applies to a home directory'' @ [CHR 0x0A] @
       ''on a group-writable share, which is the more common accidental case.'' @ [CHR 0x0A, CHR 0x0A] @
       ''The OpenSSH default is yes. The reason this setting gets turned off is almost'' @ [CHR 0x0A] @
       ''always a home directory on a network filesystem whose ownership does not survive'' @ [CHR 0x0A] @
       ''the mount, and the correct fix is to repair the mount rather than to stop'' @ [CHR 0x0A] @ ''checking.'',
     ck_base_severity = Medium,
     ck_tags = [''ssh'', ''remote-access'', ''authentication'', ''file-permissions''],
     ck_requires = [SSHDConfigID],
     ck_eval = Some (\<lambda>fs. Inr (bool_eval spec0019 fs)),
     ck_remediation = Some \<lparr>rem_summary = ''Set StrictModes yes and fix the permissions that made turning it off seem necessary.'',
       rem_effort = ''LOW'',
       rem_steps = [''Find what would now be rejected: 'find /home -maxdepth 1 -perm /022 -type d' lists group- '' @
         ''or world-writable home directories.'',
        ''Repair them: 'chmod go-w /home/<user>', 'chmod 700 /home/<user>/.ssh', 'chmod 600 '' @
          ''/home/<user>/.ssh/authorized_keys', and confirm ownership with 'chown -R <user>: '' @
          ''/home/<user>/.ssh'.'',
        ''Where home directories are on NFS, the usual cause is an ownership mismatch across the '' @
          ''mount rather than a genuine permission problem, fix the export or the idmap rather than '' @
          ''the sshd setting.'',
        ''Set 'StrictModes yes' in /etc/ssh/sshd_config, the OpenSSH default, so the line may be '' @ ''removed.'',
        ''Validate and reload: 'sshd -t' then 'systemctl reload sshd'.''],
       rem_commands = [''sshd -T | grep -i strictmodes'',
        ''find /home -maxdepth 1 -perm /022 -type d''],
       rem_caution = ''Turning this back on will refuse key authentication for any user whose permissions are '' @
         ''currently wrong, and the failure is silent from the client's side, it simply falls '' @
         ''through to the next method or is rejected. Audit and repair the directories in the same '' @
         ''maintenance window as the change.''\<rparr>,
     ck_mappings = [\<lparr>cr_framework = ''nist-800-53-r5'', cr_control = ''AC-3''\<rparr>,
        \<lparr>cr_framework = ''nist-800-53-r5'', cr_control = ''AC-6''\<rparr>,
        \<lparr>cr_framework = ''nist-800-53-r5'', cr_control = ''IA-5''\<rparr>],
     ck_references = [\<lparr>ref_title = ''sshd_config(5). StrictModes'', ref_url = ''https://man.openbsd.org/sshd_config#StrictModes''\<rparr>],
     ck_since_catalog = 6,
     ck_deprecated = None\<rparr>"

definition spec0020 :: boolSpec where
  "spec0020 = \<lparr>bs_Keyword = ''UsePAM'',
     bs_Secure = ''yes'',
     bs_Default = defaultUsePAM,
     bs_Base = High,
     bs_FailSeverity = NoSeverity,
     bs_Consequence = ''sshd never runs the PAM account and session stack, so password aging, account expiry, '' @
       ''failed-login lockout, pam_access restrictions and /etc/nologin are all bypassed for SSH '' @ ''logins '' @
       em_dash @ '' the policy is configured and simply not applied'',
     bs_Assurance = ''the PAM account and session stack runs, so account expiry, lockout and access policy '' @
       ''apply to SSH logins as configured''\<rparr>"

definition Check0020 :: "payload check" where
  "Check0020 = \<lparr>ck_id = ''SSHD-0020'',
     ck_module = ''SSHD'',
     ck_title = ''sshd runs the PAM account and session stack'',
     ck_description = ''With UsePAM no, sshd authenticates against /etc/shadow itself'' @ [CHR 0x0A] @
       ''and starts the session directly. Nothing in the PAM stack runs, and everything'' @ [CHR 0x0A] @
       ''that lives there stops applying to SSH logins specifically:'' @ [CHR 0x0A, CHR 0x0A] @
       ''- **Account expiry and password aging.** The shadow fields USERS-0009 and'' @ [CHR 0x0A] @
       ''  USERS-0010 report are enforced by pam_unix's account phase. Without it, an'' @ [CHR 0x0A] @
       ''  expired password and an expired account both still log in.'' @ [CHR 0x0A] @
       ''- **Lockout after repeated failures.** pam_faillock and pam_tally2 never see the'' @ [CHR 0x0A] @
       ''  attempt, so an account can be attacked indefinitely regardless of how the'' @ [CHR 0x0A] @
       ''  lockout policy is written.'' @ [CHR 0x0A] @
       ''- **Access restrictions.** pam_access, pam_time and pam_nologin are all bypassed,'' @ [CHR 0x0A] @
       ''  including the /etc/nologin file an administrator writes during maintenance.'' @ [CHR 0x0A] @
       ''- **Session accounting.** pam_limits, pam_loginuid and the session records other'' @ [CHR 0x0A] @
       ''  tools read are never established, which degrades both resource control and the'' @ [CHR 0x0A] @
       ''  audit trail.'' @ [CHR 0x0A, CHR 0x0A] @
       ''The upstream OpenSSH default is **no**. Every mainstream distribution ships'' @ [CHR 0x0A, CHR 0x27] @
       ''UsePAM yes' in its packaged sshd_config, so a host reporting a failure here has'' @ [CHR 0x0A] @
       ''either had the line removed or is running a configuration built from scratch,'' @ [CHR 0x0A] @
       ''and in either case a policy the operator believes is in force is not.'',
     ck_base_severity = High,
     ck_tags = [''ssh'', ''remote-access'', ''authentication'', ''policy-enforcement''],
     ck_requires = [SSHDConfigID],
     ck_eval = Some (\<lambda>fs. Inr (bool_eval spec0020 fs)),
     ck_remediation = Some \<lparr>rem_summary = ''Set UsePAM yes and confirm the PAM stack for sshd is present.'',
       rem_effort = ''LOW'',
       rem_steps = [''Confirm the PAM service file exists before enabling it: '/etc/pam.d/sshd'. Enabling '' @
         ''UsePAM without it will refuse every login.'',
        ''Set 'UsePAM yes' in /etc/ssh/sshd_config.'',
        ''Validate and reload: 'sshd -t' then 'systemctl reload sshd', keeping the current session '' @
          ''open until a new login is verified.'',
        ''Check that the policy is now actually in force: an account with an expired password '' @
          ''should be prompted to change it at login rather than being let in.'',
        ''Note the interaction with SSHD-0003: with UsePAM yes, 'PasswordAuthentication no' alone '' @
          ''does not close password login, because PAM can still accept one through '' @
          ''keyboard-interactive. 'KbdInteractiveAuthentication no' is the other half.''],
       rem_commands = [''sshd -T | grep -i usepam'',
        ''ls -l /etc/pam.d/sshd''],
       rem_caution = ''If /etc/pam.d/sshd is missing or broken, turning UsePAM on refuses every SSH login '' @
         ''immediately. Verify the file exists, reload from a session you are not depending on, and '' @
         ''keep a console or second session open.''\<rparr>,
     ck_mappings = [\<lparr>cr_framework = ''nist-800-53-r5'', cr_control = ''AC-7''\<rparr>,
        \<lparr>cr_framework = ''nist-800-53-r5'', cr_control = ''IA-5''\<rparr>,
        \<lparr>cr_framework = ''nist-800-53-r5'', cr_control = ''AC-2''\<rparr>],
     ck_references = [\<lparr>ref_title = ''sshd_config(5). UsePAM'', ref_url = ''https://man.openbsd.org/sshd_config#UsePAM''\<rparr>],
     ck_since_catalog = 6,
     ck_deprecated = None\<rparr>"

section \<open>The module\<close>

text \<open>The SSHD lines of \<open>buildCatalog\<close>.\<close>

definition sshd_checks :: "payload check list" where
  "sshd_checks = [Check0002, Check0003, Check0004, Check0005, Check0006, Check0007, Check0008, Check0009,
     Check0010, Check0011, Check0012, Check0013, Check0014, Check0015, Check0016, Check0017, Check0018,
     Check0019, Check0020]"

lemmas check_defs = Check0002_def Check0003_def Check0004_def Check0005_def Check0006_def Check0007_def
  Check0008_def Check0009_def Check0010_def Check0011_def Check0012_def Check0013_def Check0014_def
  Check0015_def Check0016_def Check0017_def Check0018_def Check0019_def Check0020_def

lemmas spec_defs = spec0003_def spec0004_def spec0005_def spec0006_def spec0010_def spec0011_def
  spec0012_def spec0013_def spec0014_def spec0015_def spec0016_def spec0018_def spec0019_def spec0020_def

definition sshd_id :: "nat \<Rightarrow> string" where
  "sshd_id n = ''SSHD-00'' @ (if n < 10 then ''0'' else []) @ nat_str n"

lemma sshd_check_ids: "map ck_id sshd_checks = map sshd_id [2..<21]"
  by (simp add: sshd_checks_def check_defs) code_simp

lemma sshd_check_requires: "ck \<in> set sshd_checks \<Longrightarrow> ck_requires ck = [SSHDConfigID]"
  by (auto simp: sshd_checks_def check_defs)

end
