(* ===== verification/Sshd_Verdicts.thy ===== *)
theory Sshd_Verdicts
  imports Sshd_Catalog
begin

text \<open>
  What the verdicts of the SSHD module rest on and what they say about the running daemon. The
  reference semantics is \<open>value_in_force\<close>: the value sshd uses for a connection, where a satisfied Match
  block overrides the global section and the first value obtained wins.
\<close>

section \<open>Reference semantics\<close>

text \<open>\<open>applies\<close> says which Match criteria a connection satisfies.\<close>

definition value_in_force :: "sshd_config \<Rightarrow> string \<Rightarrow> string \<Rightarrow> (string \<Rightarrow> bool) \<Rightarrow> string" where
  "value_in_force cfg keyword builtin applies =
     (case find (\<lambda>d. d_in_match d \<and> applies (d_match d)) (AllOccurrences cfg keyword) of
        Some d \<Rightarrow> d_value d
      | None \<Rightarrow> (case Effective cfg keyword of Some d \<Rightarrow> d_value d | None \<Rightarrow> builtin))"

text \<open>A policy: the check, its keyword, sshd's built-in value, and which values the check is against.\<close>

type_synonym policy = "payload check \<times> string \<times> string \<times> (string \<Rightarrow> bool)"

definition bool_policy :: "payload check \<Rightarrow> boolSpec \<Rightarrow> policy" where
  "bool_policy ck s = (ck, bs_Keyword s, bs_Default s, bool_insecure s)"

definition int_policy :: "payload check \<Rightarrow> intSpec \<Rightarrow> policy" where
  "int_policy ck s = (ck, is_Keyword s, int_str (is_Default s), int_insecure s)"

definition sshd_policies :: "policy list" where
  "sshd_policies =
     [(Check0002, ''PermitRootLogin'', openSSHDefaultPermitRootLogin, permitsRootLogin),
      bool_policy Check0003 spec0003, bool_policy Check0004 spec0004, bool_policy Check0005 spec0005,
      int_policy Check0006 spec0006,
      (Check0008, ''AllowTcpForwarding'', defaultAllowTcpForwarding, unrestricted),
      (Check0009, ''LogLevel'', defaultLogLevel, insufficient),
      bool_policy Check0013 spec0013, bool_policy Check0014 spec0014, bool_policy Check0015 spec0015,
      int_policy Check0016 spec0016,
      (Check0017, ''Banner'', ''none'', banner_disabled),
      bool_policy Check0018 spec0018, bool_policy Check0019 spec0019, bool_policy Check0020 spec0020]"

lemma value_in_force_ok:
  assumes "loosenedInMatch cfg kw bad = []"
    and "case Effective cfg kw of Some d \<Rightarrow> \<not> bad (d_value d) | None \<Rightarrow> \<not> bad builtin"
  shows "\<not> bad (value_in_force cfg kw builtin applies)"
proof (cases "find (\<lambda>d. d_in_match d \<and> applies (d_match d)) (AllOccurrences cfg kw)")
  case None
  then show ?thesis using assms(2) by (auto simp: value_in_force_def split: option.splits)
next
  case (Some d)
  then have "d \<in> set (AllOccurrences cfg kw)" "d_in_match d" by (auto dest: find_Some_set)
  then show ?thesis using assms(1) Some
    by (auto simp: value_in_force_def loosenedInMatch_def filter_empty_conv)
qed

section \<open>The shared gates\<close>

lemma result_simps [simp]:
  "oc_result notApplicable = NotApplicable"
  "oc_result (syntaxError cfg kw) = Unknown"
  "oc_result (unresolvedInclude cfg kw) = Unknown"
  "oc_result (conditionalFail cfg kw g e l b c) = Fail"
  by (simp_all add: notApplicable_def syntaxError_def unresolvedInclude_def conditionalFail_def Let_def)

definition scored :: "outcome \<Rightarrow> bool" where
  "scored oc \<longleftrightarrow> oc_result oc = Pass \<or> oc_result oc = Fail"

lemma evaluate_scored:
  assumes "scored (evaluate fs kw a v)"
  defines "cfg \<equiv> configFact fs"
  shows "sc_installed cfg \<and> sc_syntax cfg = [] \<and>
    (case Effective cfg kw of
       None \<Rightarrow> sc_unresolved cfg = [] \<and> evaluate fs kw a v = a cfg
     | Some d \<Rightarrow> evaluate fs kw a v = v cfg d)"
  using assms by (auto simp: evaluate_def scored_def Let_def split: option.splits if_splits)

text \<open>A verdict of a keyword check: the file is in force and the keyword is not hidden.\<close>

definition rests_on_file :: "sshd_config \<Rightarrow> string list \<Rightarrow> bool" where
  "rests_on_file cfg kws \<longleftrightarrow> sc_installed cfg \<and> sc_syntax cfg = []
     \<and> (\<forall>kw \<in> set kws. Effective cfg kw \<noteq> None \<or> sc_unresolved cfg = [])"

lemma evaluate_rests: "scored (evaluate fs kw a v) \<Longrightarrow> rests_on_file (configFact fs) [kw]"
  using evaluate_scored[of fs kw a v] by (auto simp: rests_on_file_def split: option.splits)

lemma root_login_rests:
  "root_login_eval fs = Inr oc \<Longrightarrow> scored oc \<Longrightarrow> rests_on_file (configFact fs) [''PermitRootLogin'']"
  by (auto simp: root_login_eval_def Let_def scored_def rests_on_file_def split: if_splits option.splits list.splits)

lemma idle_rests:
  "scored (idle_eval fs) \<Longrightarrow> rests_on_file (configFact fs) [''ClientAliveInterval'', ''ClientAliveCountMax'']"
  by (auto simp: idle_eval_def Let_def scored_def rests_on_file_def split: if_splits)

lemmas evaluate_based = bool_eval_def int_eval_def alg_eval_def forwarding_eval_def loglevel_eval_def banner_eval_def

text \<open>The keywords a check reads.\<close>

definition sshd_keywords :: "(payload check \<times> string list) list" where
  "sshd_keywords =
     [(Check0002, [''PermitRootLogin'']), (Check0003, [''PasswordAuthentication'']),
      (Check0004, [''PermitEmptyPasswords'']), (Check0005, [''X11Forwarding'']), (Check0006, [''MaxAuthTries'']),
      (Check0007, [''ClientAliveInterval'', ''ClientAliveCountMax'']), (Check0008, [''AllowTcpForwarding'']),
      (Check0009, [''LogLevel'']), (Check0010, [''Ciphers'']), (Check0011, [''MACs'']),
      (Check0012, [''KexAlgorithms'']), (Check0013, [''IgnoreRhosts'']), (Check0014, [''HostbasedAuthentication'']),
      (Check0015, [''PermitUserEnvironment'']), (Check0016, [''LoginGraceTime'']), (Check0017, [''Banner'']),
      (Check0018, [''AllowAgentForwarding'']), (Check0019, [''StrictModes'']), (Check0020, [''UsePAM''])]"

lemma sshd_keywords_checks: "map fst sshd_keywords = sshd_checks"
  by (simp add: sshd_keywords_def sshd_checks_def)

lemma sshd_evals:
  "ck_eval Check0002 = Some root_login_eval" "ck_eval Check0007 = Some (\<lambda>fs. Inr (idle_eval fs))"
  "ck_eval Check0008 = Some (\<lambda>fs. Inr (forwarding_eval fs))" "ck_eval Check0009 = Some (\<lambda>fs. Inr (loglevel_eval fs))"
  "ck_eval Check0017 = Some (\<lambda>fs. Inr (banner_eval fs))"
  "ck_eval Check0003 = Some (\<lambda>fs. Inr (bool_eval spec0003 fs))" "ck_eval Check0004 = Some (\<lambda>fs. Inr (bool_eval spec0004 fs))"
  "ck_eval Check0005 = Some (\<lambda>fs. Inr (bool_eval spec0005 fs))" "ck_eval Check0013 = Some (\<lambda>fs. Inr (bool_eval spec0013 fs))"
  "ck_eval Check0014 = Some (\<lambda>fs. Inr (bool_eval spec0014 fs))" "ck_eval Check0015 = Some (\<lambda>fs. Inr (bool_eval spec0015 fs))"
  "ck_eval Check0018 = Some (\<lambda>fs. Inr (bool_eval spec0018 fs))" "ck_eval Check0019 = Some (\<lambda>fs. Inr (bool_eval spec0019 fs))"
  "ck_eval Check0020 = Some (\<lambda>fs. Inr (bool_eval spec0020 fs))"
  "ck_eval Check0006 = Some (\<lambda>fs. Inr (int_eval spec0006 fs))" "ck_eval Check0016 = Some (\<lambda>fs. Inr (int_eval spec0016 fs))"
  "ck_eval Check0010 = Some (\<lambda>fs. Inr (alg_eval spec0010 fs))" "ck_eval Check0011 = Some (\<lambda>fs. Inr (alg_eval spec0011 fs))"
  "ck_eval Check0012 = Some (\<lambda>fs. Inr (alg_eval spec0012 fs))"
  by (simp_all add: check_defs)

lemma spec_keywords:
  "bs_Keyword spec0003 = ''PasswordAuthentication''" "bs_Keyword spec0004 = ''PermitEmptyPasswords''"
  "bs_Keyword spec0005 = ''X11Forwarding''" "bs_Keyword spec0013 = ''IgnoreRhosts''"
  "bs_Keyword spec0014 = ''HostbasedAuthentication''" "bs_Keyword spec0015 = ''PermitUserEnvironment''"
  "bs_Keyword spec0018 = ''AllowAgentForwarding''" "bs_Keyword spec0019 = ''StrictModes''" "bs_Keyword spec0020 = ''UsePAM''"
  "is_Keyword spec0006 = ''MaxAuthTries''" "is_Keyword spec0016 = ''LoginGraceTime''"
  "as_Keyword spec0010 = ''Ciphers''" "as_Keyword spec0011 = ''MACs''" "as_Keyword spec0012 = ''KexAlgorithms''"
  by (simp_all add: spec_defs)

lemma sshd_eval_rests:
  assumes "(ck, kws) \<in> set sshd_keywords" "ck_eval ck = Some ev" "ev fs = Inr oc" "scored oc"
  shows "rests_on_file (configFact fs) kws"
proof -
  have e: "scored (evaluate fs kw a v) \<Longrightarrow> rests_on_file (configFact fs) [kw]" for kw a v
    by (rule evaluate_rests)
  show ?thesis
    using assms unfolding sshd_keywords_def
    by (auto simp: sshd_evals evaluate_based spec_keywords intro: root_login_rests idle_rests dest: e)
qed

section \<open>A PASS and the value in force\<close>

definition pass_ok :: "outcome \<Rightarrow> sshd_config \<Rightarrow> string \<Rightarrow> string \<Rightarrow> (string \<Rightarrow> bool) \<Rightarrow> bool" where
  "pass_ok oc cfg kw builtin bad \<longleftrightarrow>
     (oc_result oc = Pass \<longrightarrow> loosenedInMatch cfg kw bad = []
        \<and> (case Effective cfg kw of Some d \<Rightarrow> \<not> bad (d_value d) | None \<Rightarrow> \<not> bad builtin))"

lemma evaluate_pass_ok:
  assumes "Effective (configFact fs) kw = None \<Longrightarrow> oc_result (a (configFact fs)) = Pass \<Longrightarrow>
      loosenedInMatch (configFact fs) kw bad = [] \<and> \<not> bad builtin"
    and "\<And>d. Effective (configFact fs) kw = Some d \<Longrightarrow> oc_result (v (configFact fs) d) = Pass \<Longrightarrow>
      loosenedInMatch (configFact fs) kw bad = [] \<and> \<not> bad (d_value d)"
  shows "pass_ok (evaluate fs kw a v) (configFact fs) kw builtin bad"
  using assms by (auto simp: pass_ok_def evaluate_def Let_def split: option.splits)

lemma yes_no: "\<not> equal_fold ''yes'' ''no''" "\<not> equal_fold ''no'' ''yes''"
  by code_simp+

lemma trim_yes_no: "trim_space ''yes'' = ''yes''" "trim_space ''no'' = ''no''"
  by code_simp+

definition wf_bool :: "boolSpec \<Rightarrow> bool" where
  "wf_bool s \<longleftrightarrow> bs_Secure s \<in> {''yes'', ''no''} \<and> bs_Default s \<in> {''yes'', ''no''}"

lemma secure_not_insecure: "wf_bool s \<Longrightarrow> equal_fold (trim_space v) (bs_Secure s) \<Longrightarrow> \<not> bool_insecure s v"
proof
  assume wf: "wf_bool s" and v: "equal_fold (trim_space v) (bs_Secure s)" and i: "bool_insecure s v"
  have so: "bs_Secure s = ''yes'' \<and> opposite s = ''no'' \<or> bs_Secure s = ''no'' \<and> opposite s = ''yes''"
    using wf yes_no by (auto simp: wf_bool_def opposite_def)
  have "equal_fold (bs_Secure s) (opposite s)"
    using equal_fold_trans[OF equal_fold_sym[OF v]] i by (simp add: bool_insecure_def)
  then show False using so yes_no by auto
qed

lemma bool_pass_ok:
  assumes "wf_bool s"
  shows "pass_ok (bool_eval s fs) (configFact fs) (bs_Keyword s) (bs_Default s) (bool_insecure s)"
  unfolding bool_eval_def
proof (rule evaluate_pass_ok)
  assume "oc_result (bool_absent s (configFact fs)) = Pass"
  then have "equal_fold (bs_Default s) (bs_Secure s)" "loosenedInMatch (configFact fs) (bs_Keyword s) (bool_insecure s) = []"
    by (auto simp: bool_absent_def Let_def split: if_splits)
  moreover have "trim_space (bs_Default s) = bs_Default s" using assms trim_yes_no by (auto simp: wf_bool_def)
  ultimately show "loosenedInMatch (configFact fs) (bs_Keyword s) (bool_insecure s) = [] \<and> \<not> bool_insecure s (bs_Default s)"
    using secure_not_insecure[OF assms] by simp
next
  fix d
  assume "oc_result (bool_value s (configFact fs) d) = Pass"
  then have "equal_fold (trim_space (d_value d)) (bs_Secure s)" "loosenedInMatch (configFact fs) (bs_Keyword s) (bool_insecure s) = []"
    by (auto simp: bool_value_def Let_def split: if_splits)
  then show "loosenedInMatch (configFact fs) (bs_Keyword s) (bool_insecure s) = [] \<and> \<not> bool_insecure s (d_value d)"
    using secure_not_insecure[OF assms] by simp
qed

lemma int_pass_ok:
  assumes "int_parse s (int_str (is_Default s)) = Some (is_Default s)"
  shows "pass_ok (int_eval s fs) (configFact fs) (is_Keyword s) (int_str (is_Default s)) (int_insecure s)"
  unfolding int_eval_def
proof (rule evaluate_pass_ok)
  assume "oc_result (int_absent s (configFact fs)) = Pass"
  then show "loosenedInMatch (configFact fs) (is_Keyword s) (int_insecure s) = [] \<and> \<not> int_insecure s (int_str (is_Default s))"
    using assms by (auto simp: int_absent_def int_insecure_def Let_def split: if_splits)
next
  fix d
  assume "oc_result (int_value s (configFact fs) d) = Pass"
  then show "loosenedInMatch (configFact fs) (is_Keyword s) (int_insecure s) = [] \<and> \<not> int_insecure s (d_value d)"
    by (auto simp: int_value_def int_insecure_def Let_def split: if_splits option.splits)
qed

lemma forwarding_pass_ok:
  "pass_ok (forwarding_eval fs) (configFact fs) ''AllowTcpForwarding'' b unrestricted"
  unfolding forwarding_eval_def
  by (rule evaluate_pass_ok)
    (auto simp: forwarding_absent_def forwarding_value_def forwarding_pass_def unrestricted_def Let_def split: if_splits)

lemma loglevel_pass_ok: "pass_ok (loglevel_eval fs) (configFact fs) ''LogLevel'' defaultLogLevel insufficient"
proof -
  have d: "\<not> insufficient defaultLogLevel" by code_simp
  show ?thesis unfolding loglevel_eval_def
  proof (rule evaluate_pass_ok)
    assume "oc_result (loglevel_absent (configFact fs)) = Pass"
    then show "loosenedInMatch (configFact fs) ''LogLevel'' insufficient = [] \<and> \<not> insufficient defaultLogLevel"
      using d by (auto simp: loglevel_absent_def Let_def split: if_splits)
  next
    fix d
    assume p: "oc_result (loglevel_value (configFact fs) d) = Pass"
    then have "loosenedInMatch (configFact fs) ''LogLevel'' insufficient = []"
      by (auto simp: loglevel_value_def Let_def split: if_splits)
    moreover have "to_upper (trim_space (d_value d)) \<in> {''INFO'', ''VERBOSE''}"
      using p by (auto simp: loglevel_value_def Let_def split: if_splits)
    ultimately show "loosenedInMatch (configFact fs) ''LogLevel'' insufficient = [] \<and> \<not> insufficient (d_value d)"
      by (auto simp: insufficient_def debug_levels_def)
  qed
qed

lemma banner_pass_ok: "pass_ok (banner_eval fs) (configFact fs) ''Banner'' b banner_disabled"
  unfolding banner_eval_def
  by (rule evaluate_pass_ok) (auto simp: banner_absent_def banner_value_def Let_def split: if_splits)

lemma lower_no: "to_lower v = ''no'' \<Longrightarrow> \<not> permitsRootLogin v"
proof -
  assume v: "to_lower v = ''no''"
  have "to_lower v = map to_lower_char v" unfolding to_lower_def
    by (rule map_runes_plain) (use v in \<open>simp add: to_lower_def\<close>)
  then have "map to_lower_char v = ''no''" using v by simp
  then have "length v = 2" using length_map[of to_lower_char v] by simp
  then have "length (trim_space v) \<le> 2" using length_trim_space[of v] by simp
  then have "length (to_lower (trim_space v)) \<le> 2"
    unfolding to_lower_def using length_map_runes order_trans by blast
  then show ?thesis by (auto simp: permitsRootLogin_def)
qed

lemma root_login_pass_ok:
  "root_login_eval fs = Inr oc \<Longrightarrow> pass_ok oc (configFact fs) ''PermitRootLogin'' b permitsRootLogin"
proof -
  assume r: "root_login_eval fs = Inr oc"
  show ?thesis
  proof (cases "oc_result oc = Pass")
    case True
    then obtain d where d: "Effective (configFact fs) ''PermitRootLogin'' = Some d" "oc = root_login_value (configFact fs) d"
      using r by (auto simp: root_login_eval_def Let_def split: if_splits option.splits list.splits)
    then have "to_lower (d_value d) = ''no''" "loosenedInMatch (configFact fs) ''PermitRootLogin'' permitsRootLogin = []"
      using True by (auto simp: root_login_value_def Let_def split: if_splits)
    then show ?thesis using d(1) lower_no by (simp add: pass_ok_def)
  qed (simp add: pass_ok_def)
qed

lemma specs_wf:
  "wf_bool spec0003" "wf_bool spec0004" "wf_bool spec0005" "wf_bool spec0013" "wf_bool spec0014"
  "wf_bool spec0015" "wf_bool spec0018" "wf_bool spec0019" "wf_bool spec0020"
  by (simp_all add: wf_bool_def spec_defs defaultPasswordAuthentication_def defaultPermitEmptyPasswords_def
      defaultX11Forwarding_def defaultIgnoreRhosts_def defaultHostbasedAuthentication_def
      defaultPermitUserEnvironment_def defaultAllowAgentForwarding_def defaultStrictModes_def defaultUsePAM_def)

lemma int_defaults_parse:
  "int_parse spec0006 (int_str (is_Default spec0006)) = Some (is_Default spec0006)"
  "int_parse spec0016 (int_str (is_Default spec0016)) = Some (is_Default spec0016)"
proof -
  have "atoi (trim_space ''6'') = Some 6" "parseTimeSeconds ''120'' = Some 120" by code_simp+
  moreover have "int_str 6 = ''6''" "int_str 120 = ''120''" by code_simp+
  ultimately show "int_parse spec0006 (int_str (is_Default spec0006)) = Some (is_Default spec0006)"
    "int_parse spec0016 (int_str (is_Default spec0016)) = Some (is_Default spec0016)"
    by (simp_all add: spec0006_def spec0016_def int_parse_def parseInt_def defaultMaxAuthTries_def defaultLoginGraceTime_def)
qed

lemma policies_pass_ok:
  assumes "(ck, kw, b, bad) \<in> set sshd_policies" "ck_eval ck = Some ev" "ev fs = Inr oc"
  shows "pass_ok oc (configFact fs) kw b bad"
  using assms unfolding sshd_policies_def bool_policy_def int_policy_def
  by (auto simp: sshd_evals intro: root_login_pass_ok forwarding_pass_ok banner_pass_ok loglevel_pass_ok
      specs_wf[THEN bool_pass_ok] int_defaults_parse[THEN int_pass_ok])

section \<open>Algorithm lists\<close>

lemma alg_pass_iff:
  "oc_result (alg_eval s fs) = Pass \<longleftrightarrow>
     sc_installed (configFact fs) \<and> sc_syntax (configFact fs) = []
     \<and> (\<exists>d l. Effective (configFact fs) (as_Keyword s) = Some d \<and> l = parseAlgList (d_value d)
          \<and> al_Mode l = algAbsolute \<and> al_Items l \<noteq> [] \<and> (\<forall>i \<in> set (al_Items l). as_Weak s i = None))"
proof -
  have w: "weaknesses s items = [] \<longleftrightarrow> (\<forall>i \<in> set items. as_Weak s i = None)" for items
    by (auto simp: weaknesses_def filter_empty_conv dest: arg_cong[of _ _ length])
  have v: "oc_result (alg_value s cfg d) = Pass \<longleftrightarrow>
      (let l = parseAlgList (d_value d) in al_Mode l = algAbsolute \<and> al_Items l \<noteq> []
         \<and> (\<forall>i \<in> set (al_Items l). as_Weak s i = None))" for cfg d
    unfolding alg_value_def Let_def
    by (cases "al_Mode (parseAlgList (d_value d))") (simp_all add: w)
  have a: "oc_result (alg_absent s cfg) \<noteq> Pass" for cfg by (simp add: alg_absent_def)
  show ?thesis
    by (auto simp: alg_eval_def evaluate_def Let_def v a split: option.split)
qed

section \<open>From the read to the verdict\<close>

lemma configFact_Put [simp]:
  "wf_set fs \<Longrightarrow> configFact (Put \<lparr>fact_id = SSHDConfigID, fact_version = 1, opaque_version = None,
     payload = SSHDFact c\<rparr> fs) = c"
  by (simp add: configFact_def get_def Err_def[symmetric])

lemma not_installed_evals:
  assumes "(ck, kws) \<in> set sshd_keywords" "\<not> sc_installed (configFact fs)"
  shows "\<exists>ev oc. ck_eval ck = Some ev \<and> ev fs = Inr oc \<and> oc_result oc = NotApplicable \<and> oc_reason oc = NoReason"
proof -
  have n: "oc_result notApplicable = NotApplicable" "oc_reason notApplicable = NoReason"
    by (simp_all add: notApplicable_def zero_outcome_def)
  have e: "evaluate fs kw a v = notApplicable" for kw a v using assms(2) by (simp add: evaluate_def Let_def)
  have i: "idle_eval fs = notApplicable" using assms(2) by (simp add: idle_eval_def Let_def)
  have r: "\<exists>oc. root_login_eval fs = Inr oc \<and> oc_result oc = NotApplicable \<and> oc_reason oc = NoReason"
    using assms(2) by (simp add: root_login_eval_def Let_def zero_outcome_def)
  show ?thesis
    using assms(1) r unfolding sshd_keywords_def by (auto simp: sshd_evals evaluate_based e i n)
qed

section \<open>Properties\<close>

definition sshd_facts :: "sshd_config \<Rightarrow> payload fact_set" where
  "sshd_facts c = Put \<lparr>fact_id = SSHDConfigID, fact_version = 1, opaque_version = None, payload = SSHDFact c\<rparr> new_set"

definition setting :: "string \<Rightarrow> string \<Rightarrow> int \<Rightarrow> string \<Rightarrow> directive" where
  "setting k v n m = \<lparr>d_keyword = k, d_value = v, d_file = DefaultConfigPath, d_line = n, d_in_match = (m \<noteq> []), d_match = m\<rparr>"

definition config_of :: "directive list \<Rightarrow> sshd_config" where
  "config_of ds = empty_config\<lparr>sc_installed := True, sc_files := [DefaultConfigPath], sc_directives := ds\<rparr>"

lemma sshd_facts_simps [simp]:
  "configFact (sshd_facts c) = c" "usable (sshd_facts c) SSHDConfigID"
  by (simp_all add: sshd_facts_def)


definition secure_facts :: "payload fact_set" where
  "secure_facts = sshd_facts (config_of [setting ''passwordauthentication'' ''No'' 3 []])"

lemma secure_result: "f_result (EvaluateOne Check0003 secure_facts) = Pass"
proof -
  have "to_lower ''passwordauthentication'' = ''passwordauthentication''" "equal_fold (trim_space ''No'') ''no''"
    "to_lower ''PasswordAuthentication'' = ''passwordauthentication''" by code_simp+
  then have "oc_result (bool_eval spec0003 secure_facts) = Pass"
    by (simp add: secure_facts_def bool_eval_def spec_keywords evaluate_def config_of_def setting_def empty_config_def
        Effective_def bool_value_def Let_def loosenedInMatch_def AllOccurrences_def)
      (simp add: spec0003_def)
  then show ?thesis
    using EvaluateOne_outcome[of Check0003 secure_facts] by (simp add: sshd_evals secure_facts_def check_defs)
qed


text \<open>
  C23: a PASS holds for every connection. When one of the fifteen checks that judge a single keyword
  reports PASS, then whichever Match blocks a connection satisfies, the value sshd uses for it,
  overrides and built-in default included, is not one the check is against.
\<close>

theorem sshd_pass_holds_for_every_connection:
  assumes "(ck, kw, builtin, bad) \<in> set sshd_policies" and "f_result (EvaluateOne ck fs) = Pass"
  shows "\<not> bad (value_in_force (configFact fs) kw builtin applies)"
proof -
  obtain ev oc where e: "ck_eval ck = Some ev" "ev fs = Inr oc" "oc_result oc = Pass"
    using EvaluateOne_scored[of ck fs] assms(2) by auto
  from policies_pass_ok[OF assms(1) e(1,2)] e(3) show ?thesis
    by (intro value_in_force_ok) (simp_all add: pass_ok_def)
qed

theorem sshd_pass_holds_for_every_connection_witness:
  "\<not> bool_insecure spec0003 (value_in_force (configFact secure_facts) ''PasswordAuthentication'' ''yes'' (\<lambda>_. True))"
  using sshd_pass_holds_for_every_connection[of Check0003 "''PasswordAuthentication''" "''yes''" "bool_insecure spec0003" secure_facts "\<lambda>_. True"]
  by (simp add: secure_result sshd_policies_def bool_policy_def spec_keywords, simp add: spec_defs defaultPasswordAuthentication_def)

text \<open>
  An algorithm list passes only when it is written out. The check of Ciphers, MACs or KexAlgorithms
  reports PASS exactly when sshd would load the configuration and the global value is an absolute
  list, not empty, without a weak entry: an absent keyword or a relative form never passes.
\<close>

theorem algorithm_pass_needs_an_explicit_list:
  "oc_result (alg_eval s fs) = Pass \<longleftrightarrow>
     sc_installed (configFact fs) \<and> sc_syntax (configFact fs) = []
     \<and> (\<exists>d. Effective (configFact fs) (as_Keyword s) = Some d
          \<and> al_Mode (parseAlgList (d_value d)) = algAbsolute \<and> al_Items (parseAlgList (d_value d)) \<noteq> []
          \<and> (\<forall>i \<in> set (al_Items (parseAlgList (d_value d))). as_Weak s i = None))"
  by (simp add: alg_pass_iff)

definition explicit_list :: "payload fact_set" where
  "explicit_list = sshd_facts (config_of [setting ''Ciphers'' ''aes256-gcm@openssh.com,aes128-ctr'' 3 []])"

lemma explicit_list_parts:
  "to_lower ''Ciphers'' = ''ciphers''"
  "parseAlgList ''aes256-gcm@openssh.com,aes128-ctr'' =
     \<lparr>al_Mode = algAbsolute, al_Items = [''aes256-gcm@openssh.com'', ''aes128-ctr'']\<rparr>"
  "weakCipher ''aes256-gcm@openssh.com'' = None" "weakCipher ''aes128-ctr'' = None"
  by code_simp+

theorem algorithm_pass_needs_an_explicit_list_witness: "oc_result (alg_eval spec0010 explicit_list) = Pass"
  unfolding algorithm_pass_needs_an_explicit_list
  by (simp add: explicit_list_def config_of_def empty_config_def setting_def Effective_def spec_keywords
      explicit_list_parts, simp add: spec0010_def explicit_list_parts)

text \<open>
  C26: what the host answers decides the verdict. When /etc/ssh/sshd_config is absent all checks of the
  module are NOT_APPLICABLE; when it cannot be read, is no regular file, is cut at the read cap or is
  not text, all are UNKNOWN for that reason.
\<close>

theorem unreadable_sshd_config_verdicts:
  assumes "wf_set fs" and "(ck, kws) \<in> set sshd_keywords"
    and f: "f = EvaluateOne ck (Sshd.Collect SSHDFact h ended fs)"
  shows "case h_read_file h DefaultConfigPath 0 of
       Inl SysNotExist \<Rightarrow> f_result f = NotApplicable
     | Inl SysPermission \<Rightarrow> f_result f = Unknown \<and> f_reason f = ReasonPermission
     | Inl SysNotRegular \<Rightarrow> f_result f = Unknown \<and> f_reason f = ReasonParse
     | Inl _ \<Rightarrow> f_result f = Unknown \<and> f_reason f = ReasonInternal
     | Inr res \<Rightarrow>
         (rr_truncated res \<longrightarrow> f_result f = Unknown \<and> f_reason f = ReasonTruncated)
         \<and> (\<not> rr_truncated res \<and> CHR 0x00 \<in> set (rr_data res) \<longrightarrow> f_result f = Unknown \<and> f_reason f = ReasonParse)"
proof -
  have ck: "ck_requires ck = [SSHDConfigID]"
    using assms(2) sshd_keywords_checks sshd_check_requires by (metis fst_conv image_eqI list.set_map)
  have err: "f_result f = Unknown \<and> f_reason f = reason_for (fe_kind e)"
    if "collectConfig h ended = Inl e" "fe_fact e = SSHDConfigID" for e
    using EvaluateOne_error[OF ck, of "PutError e fs" e] that assms(1)
    by (simp add: f Sshd.Collect_def)
  have na: "f_result f = NotApplicable" if "collectConfig h ended = Inr empty_config"
  proof -
    let ?fs = "Put \<lparr>fact_id = SSHDConfigID, fact_version = 1, opaque_version = None, payload = SSHDFact empty_config\<rparr> fs"
    have c: "Sshd.Collect SSHDFact h ended fs = ?fs" using that by (simp add: Sshd.Collect_def)
    have "\<not> sc_installed (configFact ?fs)" using assms(1) by (simp add: empty_config_def)
    from not_installed_evals[OF assms(2) this] obtain ev oc
      where e: "ck_eval ck = Some ev" "ev ?fs = Inr oc" "oc_result oc = NotApplicable" by blast
    have "\<forall>i \<in> set (ck_requires ck). usable ?fs i" using ck assms(1) by simp
    from EvaluateOne_outcome[OF this e(1,2)] e(3) show ?thesis by (simp add: f c)
  qed
  have fail: "f_result f = Unknown \<and> f_reason f = reason_for k"
    if "collectConfig h ended = Inl (sshd_error k m)" for k m
    using err[OF that] by (simp add: sshd_error_def)
  show ?thesis
  proof (cases "h_read_file h DefaultConfigPath 0")
    case (Inl e)
    then show ?thesis
    proof (cases e)
      case SysNotExist
      then show ?thesis using Inl na by (simp add: collectConfig_def)
    qed (use Inl fail[of ErrPermission "''cannot read sshd configuration''"]
        fail[of ErrParse "''sshd configuration path is not a regular file''"]
        fail[of ErrInternal "sys_error_str e"] in \<open>simp_all add: collectConfig_def\<close>)
  next
    case (Inr res)
    have "f_result f = Unknown \<and> f_reason f = ReasonTruncated" if "rr_truncated res"
      using fail[of ErrTruncated] that Inr by (simp add: collectConfig_def)
    moreover have "f_result f = Unknown \<and> f_reason f = ReasonParse"
      if "\<not> rr_truncated res" "CHR 0x00 \<in> set (rr_data res)"
      using err that Inr by (auto simp: collectConfig_def NotText_def MalformedError_def)
    ultimately show ?thesis using Inr by simp
  qed
qed

theorem unreadable_sshd_config_verdicts_witness:
  "f_result (EvaluateOne Check0003 (Sshd.Collect SSHDFact (file_host []) (\<lambda>_. False) new_set)) = NotApplicable"
  using unreadable_sshd_config_verdicts[OF wf_new_set, of Check0003 "[''PasswordAuthentication'']" _ "file_host []" "\<lambda>_. False"]
  by (simp add: sshd_keywords_def file_host_def lookup_def)

definition idle_match :: "payload fact_set" where
  "idle_match = sshd_facts (config_of
     [setting ''ClientAliveInterval'' ''10'' 1 [], setting ''ClientAliveCountMax'' ''3'' 2 [],
      setting ''ClientAliveInterval'' ''100'' 4 ''User bob'', setting ''ClientAliveCountMax'' ''90'' 5 ''User bob''])"

definition idle_wrap :: "payload fact_set" where
  "idle_wrap = sshd_facts (config_of
     [setting ''ClientAliveInterval'' ''4294967296'' 1 [], setting ''ClientAliveCountMax'' ''4294967296'' 2 []])"

lemma idle_pass:
  assumes "sc_installed cfg" "sc_syntax cfg = []" "sc_unresolved cfg = []" "configFact fs = cfg"
   "Effective cfg ''ClientAliveInterval'' = Some d" "parseInt (d_value d) = Some i" "0 < i"
   "Effective cfg ''ClientAliveCountMax'' = Some e" "parseInt (d_value e) = Some c" "0 < c"
   "wrap64 (i * c) \<le> idleTimeoutLimit"
   "\<forall>d \<in> set (AllOccurrences cfg ''ClientAliveInterval''). d_in_match d \<longrightarrow> (\<exists>n. parseInt (d_value d) = Some n \<and> 0 < n \<and> wrap64 (n * c) \<le> idleTimeoutLimit)"
   "\<forall>d \<in> set (AllOccurrences cfg ''ClientAliveCountMax''). d_in_match d \<longrightarrow> (\<exists>n. parseInt (d_value d) = Some n \<and> 0 < n \<and> wrap64 (n * i) \<le> idleTimeoutLimit)"
  shows "oc_result (idle_eval fs) = Pass"
proof -
  have l: "loosenedInMatch cfg ''ClientAliveInterval'' (\<lambda>v. case parseInt v of None \<Rightarrow> False | Some n \<Rightarrow> n \<le> 0 \<or> idleTimeoutLimit < wrap64 (n * c)) = []"
    "loosenedInMatch cfg ''ClientAliveCountMax'' (\<lambda>v. case parseInt v of None \<Rightarrow> False | Some n \<Rightarrow> n \<le> 0 \<or> idleTimeoutLimit < wrap64 (n * i)) = []"
   using assms(12,13) by (fastforce simp: loosenedInMatch_def filter_empty_conv not_less)+
  have "oc_result (idle_verdict cfg ev i x c y) = Pass" for ev x y
    using assms(7,10,11) by (simp add: idle_verdict_def Let_def l)
  then show ?thesis using assms(1-9)
    by (simp add: idle_eval_def resolveIdleValue_def)
qed

lemma idle_words:
  "to_lower ''ClientAliveInterval'' = ''clientaliveinterval''" "to_lower ''ClientAliveCountMax'' = ''clientalivecountmax''"
  "parseInt ''10'' = Some 10" "parseInt ''3'' = Some 3" "parseInt ''100'' = Some 100" "parseInt ''90'' = Some 90"
  by code_simp+

lemma large_value: "parseInt ''4294967296'' = Some 4294967296"
proof -
  have "trim_space ''4294967296'' = ''4294967296''" by code_simp
  then show ?thesis by (simp add: parseInt_def atoi_def dec_val_def digit_val_def is_digit_def byte_def)
qed

lemmas idle_eval_rules = config_of_def empty_config_def setting_def AllOccurrences_def Effective_def idle_words large_value
  wrap64_def idleTimeoutLimit_def

lemma idle_match_pass: "oc_result (idle_eval idle_match) = Pass"
  unfolding idle_match_def by (rule idle_pass[OF _ _ _ sshd_facts_simps(1), where i = 10 and c = 3]) (simp_all add: idle_eval_rules, simp_all add: idle_words large_value)

lemma idle_wrap_pass: "oc_result (idle_eval idle_wrap) = Pass"
  unfolding idle_wrap_def by (rule idle_pass[OF _ _ _ sshd_facts_simps(1), where i = 4294967296 and c = 4294967296]) (simp_all add: idle_eval_rules, simp_all add: idle_words large_value)

text \<open>
  The idle-timeout check can pass wrongly. It judges the two keywords of a Match block one at a
  time, so a block that raises both passes although the timeout it sets is ten times the limit; and
  the product of two large global values wraps around to zero seconds, which passes too.
\<close>

theorem idle_timeout_can_pass_wrongly:
  "oc_result (idle_eval idle_match) = Pass
   \<and> value_in_force (configFact idle_match) ''ClientAliveInterval'' ''0'' (\<lambda>m. m = ''User bob'') = ''100''
   \<and> value_in_force (configFact idle_match) ''ClientAliveCountMax'' ''3'' (\<lambda>m. m = ''User bob'') = ''90''
   \<and> idleTimeoutLimit < 100 * 90
   \<and> oc_result (idle_eval idle_wrap) = Pass
   \<and> value_in_force (configFact idle_wrap) ''ClientAliveInterval'' ''0'' (\<lambda>_. False) = ''4294967296''"
  using idle_match_pass idle_wrap_pass
  by (simp add: idle_match_def idle_wrap_def value_in_force_def idle_eval_rules)

text \<open>
  The login grace time wraps around as well: a number of hours whose seconds are 16 modulo 2^64 is
  read as sixteen seconds.
\<close>

lemma grace_time_wraps: "parseTimeSeconds ''1147797409030816545h'' = Some 16"
proof -
  have "trim_space ''1147797409030816545h'' = ''1147797409030816545h''" by code_simp
  moreover have "atoi ''1147797409030816545h'' = None" "atoi ''1147797409030816545'' = Some 1147797409030816545"
    by (simp_all add: atoi_def dec_val_def digit_val_def is_digit_def byte_def)
  ultimately show ?thesis
    by (simp add: parseTimeSeconds_def parseInt_def time_unit_def is_digit_def byte_def wrap64_def)
qed

end
