(* ===== verification/Bundle.thy ===== *)
theory Bundle
  imports Json Sha256 Time
begin

text \<open>
  internal/bundle: the archive a collection is kept in. Documents are encoded and decoded by the JSON
  model. The container, tar members in a zstd stream, is read as a stream of items, since zstd is
  a library the program calls. How a stored fact is marshalled and which decoders are registered is the
  record \<open>codec\<close>; its decoders work on the JSON that a fact member holds. A time is its RFC 3339 text.
\<close>

section \<open>The evidence store\<close>

definition digest :: "string \<Rightarrow> string" where
  "digest b = hex_encode (sum256 (map byte b))"

record evidence_store =
  blobs :: "string gomap"
  truncated :: "unit gomap"

definition NewEvidenceStore :: evidence_store where
  "NewEvidenceStore = \<lparr>blobs = [], truncated = []\<rparr>"

definition Add :: "string \<Rightarrow> evidence_store \<Rightarrow> string \<times> evidence_store" where
  "Add d s =
     (let sum = digest d in
      (sum, if lookup (blobs s) sum = None then s\<lparr>blobs := put sum d (blobs s)\<rparr> else s))"

definition Get :: "evidence_store \<Rightarrow> string \<Rightarrow> string option" where
  "Get s sha = lookup (blobs s) sha"

definition MarkTruncated :: "string \<Rightarrow> evidence_store \<Rightarrow> evidence_store" where
  "MarkTruncated source s = s\<lparr>truncated := put (Text source) () (truncated s)\<rparr>"

definition Digests :: "evidence_store \<Rightarrow> string list" where
  "Digests s = keys (blobs s)"

definition TruncatedSources :: "evidence_store \<Rightarrow> string list" where
  "TruncatedSources s = keys (truncated s)"

definition Len :: "evidence_store \<Rightarrow> nat" where
  "Len s = length (keys (blobs s))"

definition TotalBytes :: "evidence_store \<Rightarrow> nat" where
  "TotalBytes s = sum_list (map (\<lambda>k. length (the (lookup (blobs s) k))) (keys (blobs s)))"

record evidence_index =
  ei_count :: int
  ei_total_bytes :: int
  ei_truncated :: "string list"

definition store_index :: "evidence_store \<Rightarrow> evidence_index" where
  "store_index s = \<lparr>ei_count = int (Len s), ei_total_bytes = int (TotalBytes s), ei_truncated = TruncatedSources s\<rparr>"

section \<open>The documents\<close>

record tool =
  tl_name :: string
  tl_version :: string

record scan =
  sn_root :: string
  sn_euid :: int
  sn_started :: string
  sn_finished :: string
  sn_profile :: string

record fact_ref =
  fr_id :: fact_id
  fr_version :: int
  fr_member :: string
  fr_sha256 :: string

record integrity =
  ig_member :: string
  ig_algorithm :: string

record manifest =
  mf_schema :: string
  mf_bundle_id :: string
  mf_tool :: tool
  mf_catalog_version :: int
  mf_created :: string
  mf_redacted :: bool
  mf_meta_member :: string
  mf_scan :: scan
  mf_facts :: "fact_ref list"
  mf_evidence :: "evidence_index option"
  mf_errors_member :: string
  mf_integrity :: integrity

record meta =
  mt_hostname :: string
  mt_os_release :: string
  mt_kernel :: string
  mt_arch :: string

record fact_doc =
  fd_id :: fact_id
  fd_version :: int
  fd_data :: string

record integrity_doc =
  id_algorithm :: string
  id_members :: "string gomap"

text \<open>The zero values that decoding starts from.\<close>

definition zero_time :: string where "zero_time = ''0001-01-01T00:00:00Z''"

definition zero_tool :: tool where "zero_tool = \<lparr>tl_name = [], tl_version = []\<rparr>"

definition zero_scan :: scan where
  "zero_scan = \<lparr>sn_root = [], sn_euid = 0, sn_started = zero_time, sn_finished = zero_time, sn_profile = []\<rparr>"

definition zero_ref :: fact_ref where "zero_ref = \<lparr>fr_id = [], fr_version = 0, fr_member = [], fr_sha256 = []\<rparr>"

definition zero_index :: evidence_index where
  "zero_index = \<lparr>ei_count = 0, ei_total_bytes = 0, ei_truncated = []\<rparr>"

definition zero_manifest :: manifest where
  "zero_manifest = \<lparr>mf_schema = [], mf_bundle_id = [], mf_tool = zero_tool, mf_catalog_version = 0,
     mf_created = zero_time, mf_redacted = False, mf_meta_member = [], mf_scan = zero_scan, mf_facts = [],
     mf_evidence = None, mf_errors_member = [], mf_integrity = \<lparr>ig_member = [], ig_algorithm = []\<rparr>\<rparr>"

definition zero_meta :: meta where
  "zero_meta = \<lparr>mt_hostname = [], mt_os_release = [], mt_kernel = [], mt_arch = []\<rparr>"

definition zero_doc :: fact_doc where "zero_doc = \<lparr>fd_id = [], fd_version = 0, fd_data = []\<rparr>"

definition zero_integrity :: integrity_doc where "zero_integrity = \<lparr>id_algorithm = [], id_members = []\<rparr>"

definition zero_error :: fact_error where
  "zero_error = \<lparr>fe_fact = [], fe_kind = OtherKind [], fe_msg = [], fe_path = []\<rparr>"

text \<open>The struct tags, as encoders.\<close>

definition omit_string :: "string \<Rightarrow> string \<Rightarrow> (string \<times> json) list" where
  "omit_string k s = (if s = [] then [] else [(k, JStr s)])"

definition enc_tool :: "tool \<Rightarrow> json" where
  "enc_tool t = JObj [(''name'', JStr (tl_name t)), (''version'', JStr (tl_version t))]"

definition enc_scan :: "scan \<Rightarrow> json" where
  "enc_scan s = JObj [(''root'', JStr (sn_root s)), (''euid'', JInt (sn_euid s)), (''started'', JStr (sn_started s)),
     (''finished'', JStr (sn_finished s)), (''profile'', JStr (sn_profile s))]"

definition enc_ref :: "fact_ref \<Rightarrow> json" where
  "enc_ref r = JObj [(''id'', JStr (fr_id r)), (''fact_version'', JInt (fr_version r)),
     (''member'', JStr (fr_member r)), (''sha256'', JStr (fr_sha256 r))]"

definition enc_index :: "evidence_index \<Rightarrow> json" where
  "enc_index i = JObj ([(''count'', JInt (ei_count i)), (''total_bytes'', JInt (ei_total_bytes i))]
     @ (if ei_truncated i = [] then [] else [(''truncated_sources'', JArr (map JStr (ei_truncated i)))]))"

definition enc_integrity :: "integrity \<Rightarrow> json" where
  "enc_integrity i = JObj [(''member'', JStr (ig_member i)), (''algorithm'', JStr (ig_algorithm i))]"

definition enc_manifest :: "manifest \<Rightarrow> json" where
  "enc_manifest m = JObj
     ([(''schema'', JStr (mf_schema m)), (''bundle_id'', JStr (mf_bundle_id m)), (''tool'', enc_tool (mf_tool m)),
       (''catalog_version'', JInt (mf_catalog_version m)), (''created'', JStr (mf_created m))]
      @ (if mf_redacted m then [(''redacted'', JBool True)] else [])
      @ omit_string ''meta_member'' (mf_meta_member m)
      @ [(''scan'', enc_scan (mf_scan m)), (''facts'', JArr (map enc_ref (mf_facts m)))]
      @ (case mf_evidence m of None \<Rightarrow> [] | Some i \<Rightarrow> [(''evidence'', enc_index i)])
      @ omit_string ''errors_member'' (mf_errors_member m)
      @ [(''integrity'', enc_integrity (mf_integrity m))])"

definition enc_meta :: "meta \<Rightarrow> json" where
  "enc_meta m = JObj (omit_string ''hostname'' (mt_hostname m) @ omit_string ''os_release'' (mt_os_release m)
     @ omit_string ''kernel'' (mt_kernel m) @ omit_string ''arch'' (mt_arch m))"

definition enc_doc :: "fact_doc \<Rightarrow> json" where
  "enc_doc d = JObj [(''id'', JStr (fd_id d)), (''fact_version'', JInt (fd_version d)), (''data'', JRaw (fd_data d))]"

definition enc_integrity_doc :: "integrity_doc \<Rightarrow> json" where
  "enc_integrity_doc d = JObj [(''algorithm'', JStr (id_algorithm d)), (''members'', enc_map JStr (id_members d))]"

definition enc_error :: "fact_error \<Rightarrow> json" where
  "enc_error e = JObj ([(''fact'', JStr (fe_fact e)), (''kind'', JStr (kind_str (fe_kind e))), (''message'', JStr (fe_msg e))]
     @ omit_string ''path'' (fe_path e))"

text \<open>The struct tags, as decoders.\<close>

definition d_time :: "string dec" where
  "d_time old n =
     (case n of
        NStr r s \<Rightarrow> (let t = butlast (tl r) in if parse_rfc3339 t = None then None else Some t)
      | NNull r \<Rightarrow> Some old
      | _ \<Rightarrow> None)"

definition kind_of :: "string \<Rightarrow> error_kind" where
  "kind_of s = (case find (\<lambda>k. kind_str k = s)
       [ErrNotCollected, ErrPermission, ErrTimeout, ErrParse, ErrTruncated, ErrUnsupported, ErrInternal] of
     Some k \<Rightarrow> k | None \<Rightarrow> OtherKind s)"

definition d_kind :: "error_kind dec" where
  "d_kind old n = map_option kind_of (d_string (kind_str old) n)"

definition d_tool :: "tool dec" where
  "d_tool = d_struct False [field ''name'' tl_name tl_name_update d_string, field ''version'' tl_version tl_version_update d_string]"

definition d_scan :: "scan dec" where
  "d_scan = d_struct False [field ''root'' sn_root sn_root_update d_string, field ''euid'' sn_euid sn_euid_update d_int64,
     field ''started'' sn_started sn_started_update d_time, field ''finished'' sn_finished sn_finished_update d_time,
     field ''profile'' sn_profile sn_profile_update d_string]"

definition d_ref :: "fact_ref dec" where
  "d_ref = d_struct False [field ''id'' fr_id fr_id_update d_string, field ''fact_version'' fr_version fr_version_update d_int64,
     field ''member'' fr_member fr_member_update d_string, field ''sha256'' fr_sha256 fr_sha256_update d_string]"

definition d_index :: "evidence_index dec" where
  "d_index = d_struct False [field ''count'' ei_count ei_count_update d_int64,
     field ''total_bytes'' ei_total_bytes ei_total_bytes_update d_int64,
     field ''truncated_sources'' ei_truncated ei_truncated_update (d_list [] d_string)]"

definition d_integrity :: "integrity dec" where
  "d_integrity = d_struct False [field ''member'' ig_member ig_member_update d_string,
     field ''algorithm'' ig_algorithm ig_algorithm_update d_string]"

definition d_manifest :: "manifest dec" where
  "d_manifest = d_struct False
     [field ''schema'' mf_schema mf_schema_update d_string, field ''bundle_id'' mf_bundle_id mf_bundle_id_update d_string,
      field ''tool'' mf_tool mf_tool_update d_tool,
      field ''catalog_version'' mf_catalog_version mf_catalog_version_update d_int64,
      field ''created'' mf_created mf_created_update d_time, field ''redacted'' mf_redacted mf_redacted_update d_bool,
      field ''meta_member'' mf_meta_member mf_meta_member_update d_string, field ''scan'' mf_scan mf_scan_update d_scan,
      field ''facts'' mf_facts mf_facts_update (d_list zero_ref d_ref),
      field ''evidence'' mf_evidence mf_evidence_update (d_pointer zero_index d_index),
      field ''errors_member'' mf_errors_member mf_errors_member_update d_string,
      field ''integrity'' mf_integrity mf_integrity_update d_integrity]"

definition d_meta :: "meta dec" where
  "d_meta = d_struct False [field ''hostname'' mt_hostname mt_hostname_update d_string,
     field ''os_release'' mt_os_release mt_os_release_update d_string, field ''kernel'' mt_kernel mt_kernel_update d_string,
     field ''arch'' mt_arch mt_arch_update d_string]"

definition d_doc :: "fact_doc dec" where
  "d_doc = d_struct False [field ''id'' fd_id fd_id_update d_string, field ''fact_version'' fd_version fd_version_update d_int64,
     field ''data'' fd_data fd_data_update d_raw]"

definition d_integrity_doc :: "integrity_doc dec" where
  "d_integrity_doc = d_struct False [field ''algorithm'' id_algorithm id_algorithm_update d_string,
     field ''members'' id_members id_members_update (d_map [] d_string)]"

definition d_error :: "fact_error dec" where
  "d_error = d_struct False [field ''fact'' fe_fact fe_fact_update d_string, field ''kind'' fe_kind fe_kind_update d_kind,
     field ''message'' fe_msg fe_msg_update d_string, field ''path'' fe_path fe_path_update d_string]"

section \<open>Facts and their decoders\<close>

text \<open>
  A decoder has the version it understands. The registry has one decoder per fact of a fixed name; the
  facts of the shared walker are named by prefix. \<open>cd_marshal\<close> is what the fact's own JSON is, and
  \<open>cd_unknown\<close> a fact whose bytes are kept as they are.
\<close>

record 'v decoder =
  dc_version :: int
  dc_decode :: "node \<Rightarrow> 'v fact option"

record 'v codec =
  cd_marshal :: "'v \<Rightarrow> json"
  cd_unknown :: "string \<Rightarrow> 'v"
  cd_registry :: "(fact_id \<times> 'v decoder) list"
  cd_tally :: "'v decoder"
  cd_matches :: "'v decoder"

definition FSFactPrefix :: string where "FSFactPrefix = ''fs.''"

definition FSTallyPrefix :: string where "FSTallyPrefix = ''fs.tally.''"

definition decoderFor :: "'v codec \<Rightarrow> fact_id \<Rightarrow> 'v decoder option" where
  "decoderFor cd i =
     (case map_of (cd_registry cd) i of
        Some d \<Rightarrow> Some d
      | None \<Rightarrow>
          (if has_prefix i FSTallyPrefix \<and> length FSTallyPrefix < length i then Some (cd_tally cd)
           else if has_prefix i FSFactPrefix \<and> length FSFactPrefix < length i then Some (cd_matches cd)
           else None))"

definition unknown_fact :: "'v codec \<Rightarrow> fact_id \<Rightarrow> int \<Rightarrow> string \<Rightarrow> 'v fact" where
  "unknown_fact cd i v raw = \<lparr>fact_id = i, fact_version = v, opaque_version = Some v, payload = cd_unknown cd raw\<rparr>"

text \<open>\<open>UnknownFact.MarshalJSON\<close>: the preserved bytes, or null when there are none.\<close>

definition unknown_json :: "string \<Rightarrow> json" where
  "unknown_json raw = (if raw = [] then JNull else JRaw raw)"

section \<open>Errors\<close>

text \<open>One constructor per error of the code, with the values its message prints.\<close>

datatype bundle_error =
    NoFactSet
  | BadBundleID string
  | BadCatalogVersion int
  | ZstdReader string
  | TarError string
  | NotRegular string
  | UnsafeName string
  | DuplicateMember string
  | MemberRead string
  | TooLarge
  | NoIntegrity
  | BadMember string
  | BadAlgorithm string
  | IntegrityError string string string
  | NoManifest
  | MissingMember string
  | IndexMismatch string fact_id int fact_id int
  | BadFact fact_id
  | NotIndexed string
  | BadEvidenceName string
  | EvidenceMismatch int int int int

section \<open>Writing\<close>

definition Schema :: string where "Schema = ''bundle/v1''"
definition toolName :: string where "toolName = ''plumbline''"
definition hashAlgorithm :: string where "hashAlgorithm = ''sha256''"
definition manifestMember :: string where "manifestMember = ''manifest.json''"
definition metaMember :: string where "metaMember = ''meta.json''"
definition errorsMember :: string where "errorsMember = ''errors.json''"
definition integrityMember :: string where "integrityMember = ''integrity.json''"
definition factsPrefix :: string where "factsPrefix = ''facts/''"
definition factsSuffix :: string where "factsSuffix = ''.json''"
definition evidencePrefix :: string where "evidencePrefix = ''evidence/''"
definition evidenceSuffix :: string where "evidenceSuffix = ''.blob''"

record 'v fact_bundle =
  bd_manifest :: manifest
  bd_meta :: meta
  bd_facts :: "'v fact_set option"
  bd_evidence :: "evidence_store option"

type_synonym member = "string \<times> string"

text \<open>\<open>marshal\<close>: the encoder without HTML escaping ends every document with a newline.\<close>

definition marshal :: "json \<Rightarrow> string" where
  "marshal v = print_json False v @ [CHR 0x0A]"

definition hex_id :: "nat \<Rightarrow> string \<Rightarrow> bool" where
  "hex_id n s \<longleftrightarrow> length s = n \<and> list_all is_hex s"

definition fact_member :: "'v codec \<Rightarrow> 'v fact_set \<Rightarrow> fact_id \<Rightarrow> member" where
  "fact_member cd s i =
     (let f = the (lookup (facts s) i) in
      (factsPrefix @ i @ factsSuffix,
       marshal (enc_doc \<lparr>fd_id = i, fd_version = fact_version f, fd_data = print_json True (cd_marshal cd (payload f))\<rparr>)))"

definition fact_index :: "'v codec \<Rightarrow> 'v fact_set \<Rightarrow> fact_id \<Rightarrow> fact_ref" where
  "fact_index cd s i = \<lparr>fr_id = i, fr_version = fact_version (the (lookup (facts s) i)),
     fr_member = fst (fact_member cd s i), fr_sha256 = digest (snd (fact_member cd s i))\<rparr>"

definition evidenceMembers :: "evidence_store option \<Rightarrow> member list" where
  "evidenceMembers store =
     (case store of None \<Rightarrow> []
      | Some s \<Rightarrow> map (\<lambda>sum. (evidencePrefix @ sum @ evidenceSuffix, the (Get s sum))) (Digests s))"

definition written_manifest :: "'v codec \<Rightarrow> 'v fact_bundle \<Rightarrow> 'v fact_set \<Rightarrow> manifest" where
  "written_manifest cd b fs =
     (bd_manifest b)\<lparr>mf_schema := Schema, mf_tool := (mf_tool (bd_manifest b))\<lparr>tl_name := toolName\<rparr>,
       mf_meta_member := metaMember, mf_errors_member := errorsMember, mf_facts := map (fact_index cd fs) (IDs fs),
       mf_evidence := map_option store_index (bd_evidence b),
       mf_integrity := \<lparr>ig_member = integrityMember, ig_algorithm = hashAlgorithm\<rparr>\<rparr>"

definition content_members :: "'v codec \<Rightarrow> 'v fact_bundle \<Rightarrow> 'v fact_set \<Rightarrow> member list" where
  "content_members cd b fs =
     [(manifestMember, marshal (enc_manifest (written_manifest cd b fs))), (metaMember, marshal (enc_meta (bd_meta b)))]
     @ map (fact_member cd fs) (IDs fs) @ evidenceMembers (bd_evidence b)
     @ [(errorsMember, marshal (JArr (map enc_error (Errors fs))))]"

text \<open>The map of digests: a later member of the same name would overwrite an earlier one.\<close>

definition digest_map :: "member list \<Rightarrow> string gomap" where
  "digest_map ms = foldl (\<lambda>m (name, d). put name (digest d) m) [] ms"

definition Write :: "'v codec \<Rightarrow> 'v fact_bundle \<Rightarrow> bundle_error + member list" where
  "Write cd b =
     (case bd_facts b of
        None \<Rightarrow> Inl NoFactSet
      | Some fs \<Rightarrow>
          (if \<not> hex_id 32 (mf_bundle_id (bd_manifest b)) then Inl (BadBundleID (mf_bundle_id (bd_manifest b)))
           else if mf_catalog_version (bd_manifest b) < 1 then Inl (BadCatalogVersion (mf_catalog_version (bd_manifest b)))
           else
             (let ms = content_members cd b fs in
              Inr (ms @ [(integrityMember,
                marshal (enc_integrity_doc \<lparr>id_algorithm = hashAlgorithm, id_members = digest_map ms\<rparr>))]))))"

section \<open>Reading\<close>

text \<open>
  The container as the tar reader presents it: whether the decompressor opens, the members in order, each
  with the bytes that can be read of it and the error that stops the reading, and how the stream ends.
\<close>

record tar_member =
  tm_name :: string
  tm_regular :: bool
  tm_data :: string
  tm_error :: "string option"

record container =
  ct_open :: "string option"
  ct_members :: "tar_member list"
  ct_end :: "string option"

definition maxDecompressedBytes :: int where "maxDecompressedBytes = 268435456"

definition validMemberName :: "string \<Rightarrow> bool" where
  "validMemberName name \<longleftrightarrow> \<not> (name = [] \<or> has_prefix name ''/'' \<or> contains name ''..'')"

text \<open>\<open>left\<close> is the part of the budget that is left; one byte more than it is copied of each member.\<close>

fun read_members :: "tar_member list \<Rightarrow> string option \<Rightarrow> int \<Rightarrow> string gomap \<Rightarrow> bundle_error + string gomap" where
  "read_members [] fin left m = (case fin of Some e \<Rightarrow> Inl (TarError e) | None \<Rightarrow> Inr m)"
| "read_members (t # ts) fin left m =
     (if \<not> tm_regular t then Inl (NotRegular (tm_name t))
      else if \<not> validMemberName (tm_name t) then Inl (UnsafeName (tm_name t))
      else if lookup m (tm_name t) \<noteq> None then Inl (DuplicateMember (tm_name t))
      else if int (length (tm_data t)) \<le> left \<and> tm_error t \<noteq> None then Inl (MemberRead (tm_name t))
      else if left < int (length (tm_data t)) then Inl TooLarge
      else read_members ts fin (left - int (length (tm_data t))) (put (tm_name t) (tm_data t) m))"

definition readArchive :: "container \<Rightarrow> bundle_error + string gomap" where
  "readArchive c =
     (case ct_open c of
        Some e \<Rightarrow> Inl (ZstdReader e)
      | None \<Rightarrow> read_members (ct_members c) (ct_end c) maxDecompressedBytes [])"

fun verify_members :: "string gomap \<Rightarrow> string gomap \<Rightarrow> string list \<Rightarrow> bundle_error option" where
  "verify_members ds ms [] = None"
| "verify_members ds ms (name # names) =
     (if name = integrityMember then verify_members ds ms names
      else
        (let got = digest (the (lookup ms name)) in
         case lookup ds name of
           None \<Rightarrow> Some (IntegrityError name [] got)
         | Some want \<Rightarrow> if want \<noteq> got then Some (IntegrityError name want got) else verify_members ds ms names))"

definition verifyIntegrity :: "string gomap \<Rightarrow> bundle_error option" where
  "verifyIntegrity ms =
     (case lookup ms integrityMember of
        None \<Rightarrow> Some NoIntegrity
      | Some raw \<Rightarrow>
          (case unmarshal d_integrity_doc zero_integrity raw of
             None \<Rightarrow> Some (BadMember integrityMember)
           | Some doc \<Rightarrow>
               (if id_algorithm doc \<noteq> hashAlgorithm then Some (BadAlgorithm (id_algorithm doc))
                else
                  (case verify_members (id_members doc) ms (keys ms) of
                     Some e \<Rightarrow> Some e
                   | None \<Rightarrow>
                       (case find (\<lambda>name. lookup ms name = None) (keys (id_members doc)) of
                          None \<Rightarrow> None
                        | Some name \<Rightarrow> Some (IntegrityError name (the (lookup (id_members doc) name)) []))))))"

definition read_fact :: "'v codec \<Rightarrow> string gomap \<Rightarrow> fact_ref \<Rightarrow> bundle_error + 'v fact" where
  "read_fact cd ms r =
     (case lookup ms (fr_member r) of
        None \<Rightarrow> Inl (MissingMember (fr_member r))
      | Some raw \<Rightarrow>
          (if digest raw \<noteq> fr_sha256 r then Inl (IntegrityError (fr_member r) (fr_sha256 r) (digest raw))
           else
             (case unmarshal d_doc zero_doc raw of
                None \<Rightarrow> Inl (BadMember (fr_member r))
              | Some doc \<Rightarrow>
                  (if fd_id doc \<noteq> fr_id r \<or> fd_version doc \<noteq> fr_version r
                   then Inl (IndexMismatch (fr_member r) (fd_id doc) (fd_version doc) (fr_id r) (fr_version r))
                   else
                     (case decoderFor cd (fd_id doc) of
                        None \<Rightarrow> Inr (unknown_fact cd (fd_id doc) (fd_version doc) (fd_data doc))
                      | Some d \<Rightarrow>
                          (if dc_version d \<noteq> fd_version doc
                           then Inr (unknown_fact cd (fd_id doc) (fd_version doc) (fd_data doc))
                           else
                             (case Option.bind (whole_value (fd_data doc)) (dc_decode d) of
                                None \<Rightarrow> Inl (BadFact (fd_id doc))
                              | Some f \<Rightarrow> Inr f)))))))"

fun read_refs :: "'v codec \<Rightarrow> string gomap \<Rightarrow> fact_ref list \<Rightarrow> 'v fact_set \<Rightarrow> bundle_error + 'v fact_set" where
  "read_refs cd ms [] fs = Inr fs"
| "read_refs cd ms (r # rs) fs =
     (case read_fact cd ms r of Inl e \<Rightarrow> Inl e | Inr f \<Rightarrow> read_refs cd ms rs (Put f fs))"

definition readFacts :: "'v codec \<Rightarrow> manifest \<Rightarrow> string gomap \<Rightarrow> bundle_error + 'v fact_set" where
  "readFacts cd mf ms =
     (case read_refs cd ms (mf_facts mf) new_set of
        Inl e \<Rightarrow> Inl e
      | Inr fs \<Rightarrow>
          (case find (\<lambda>name. has_prefix name factsPrefix \<and> name \<notin> set (map fr_member (mf_facts mf))) (keys ms) of
             Some name \<Rightarrow> Inl (NotIndexed name)
           | None \<Rightarrow> Inr fs))"

text \<open>The digest an evidence member is named for.\<close>

definition evidence_sum :: "string \<Rightarrow> string option" where
  "evidence_sum name =
     (let rest = drop (length evidencePrefix) name in
      if has_suffix rest evidenceSuffix \<and> hex_id 64 (take (length rest - length evidenceSuffix) rest)
      then Some (take (length rest - length evidenceSuffix) rest) else None)"

fun read_blobs :: "string gomap \<Rightarrow> string list \<Rightarrow> evidence_store option \<Rightarrow> bundle_error + evidence_store option" where
  "read_blobs ms [] store = Inr store"
| "read_blobs ms (name # names) store =
     (if \<not> has_prefix name evidencePrefix then read_blobs ms names store
      else
        (case evidence_sum name of
           None \<Rightarrow> Inl (BadEvidenceName name)
         | Some want \<Rightarrow>
             (let d = the (lookup ms name) in
              if digest d \<noteq> want then Inl (IntegrityError name want (digest d))
              else read_blobs ms names
                (Some (snd (Add d (case store of None \<Rightarrow> NewEvidenceStore | Some s \<Rightarrow> s)))))))"

definition readEvidence :: "manifest \<Rightarrow> string gomap \<Rightarrow> bundle_error + evidence_store option" where
  "readEvidence mf ms =
     (case read_blobs ms (keys ms) None of
        Inl e \<Rightarrow> Inl e
      | Inr store \<Rightarrow>
          (case mf_evidence mf of
             None \<Rightarrow> Inr store
           | Some idx \<Rightarrow>
               (let s = foldl (\<lambda>s src. MarkTruncated src s) (case store of None \<Rightarrow> NewEvidenceStore | Some s \<Rightarrow> s)
                  (ei_truncated idx) in
                if ei_count idx \<noteq> int (Len s) \<or> ei_total_bytes idx \<noteq> int (TotalBytes s)
                then Inl (EvidenceMismatch (ei_count idx) (ei_total_bytes idx) (int (Len s)) (int (TotalBytes s)))
                else Inr (Some s))))"

text \<open>An optional member: absent it decodes to the zero value.\<close>

definition optional_member :: "string gomap \<Rightarrow> string \<Rightarrow> 'a dec \<Rightarrow> 'a \<Rightarrow> bundle_error + 'a" where
  "optional_member ms name d zero =
     (case lookup ms name of
        None \<Rightarrow> Inr zero
      | Some raw \<Rightarrow> (case unmarshal d zero raw of None \<Rightarrow> Inl (BadMember name) | Some x \<Rightarrow> Inr x))"

definition read_verified :: "'v codec \<Rightarrow> string gomap \<Rightarrow> bundle_error + 'v fact_bundle" where
  "read_verified cd ms =
     (case lookup ms manifestMember of
        None \<Rightarrow> Inl NoManifest
      | Some raw \<Rightarrow>
          (case unmarshal d_manifest zero_manifest raw of
             None \<Rightarrow> Inl (BadMember manifestMember)
           | Some mf \<Rightarrow>
               (case optional_member ms metaMember d_meta zero_meta of
                  Inl e \<Rightarrow> Inl e
                | Inr mt \<Rightarrow>
                    (case readFacts cd mf ms of
                       Inl e \<Rightarrow> Inl e
                     | Inr fs \<Rightarrow>
                         (case readEvidence mf ms of
                            Inl e \<Rightarrow> Inl e
                          | Inr ev \<Rightarrow>
                              (case optional_member ms errorsMember (d_list zero_error d_error) [] of
                                 Inl e \<Rightarrow> Inl e
                               | Inr es \<Rightarrow>
                                   Inr \<lparr>bd_manifest = mf, bd_meta = mt,
                                     bd_facts = Some (foldl (\<lambda>s e. PutError e s) fs es), bd_evidence = ev\<rparr>))))))"

definition Read :: "'v codec \<Rightarrow> container \<Rightarrow> bundle_error + 'v fact_bundle" where
  "Read cd c =
     (case readArchive c of
        Inl e \<Rightarrow> Inl e
      | Inr ms \<Rightarrow> (case verifyIntegrity ms of Some e \<Rightarrow> Inl e | None \<Rightarrow> read_verified cd ms))"

end
