(* ===== verification/Json_Laws.thy ===== *)
theory Json_Laws
  imports Json
begin

text \<open>
  What is encoded is read back: strings, values and the raw texts inside them. Also that the scanner's
  fuel is enough, that the raw text of a value is the text it was read from, and what the decoders make
  of an encoded slice or map.
\<close>

section \<open>What is quoted is read back\<close>

definition utf8 :: "string \<Rightarrow> bool" where
  "utf8 s \<longleftrightarrow> (\<forall>rn \<in> set (runes s). \<not> invalid_rune rn)"

lemma utf8_Nil [simp]: "utf8 []"
  by (simp add: utf8_def)

lemma utf8_step:
  "s \<noteq> [] \<Longrightarrow> utf8 s \<longleftrightarrow> \<not> invalid_rune (decode_rune s) \<and> utf8 (drop (snd (decode_rune s)) s)"
  unfolding utf8_def by (subst runes.simps) simp

lemma utf8_append: "utf8 s \<Longrightarrow> utf8 t \<Longrightarrow> utf8 (s @ t)"
  unfolding utf8_def by (subst runes_append) auto

lemma safe_text_utf8: "safe_text s \<Longrightarrow> utf8 s"
  by (auto simp: safe_text_def utf8_def safe_rune_def list_all_iff)

lemma decode_rune_ascii: "byte c < 0x80 \<Longrightarrow> decode_rune (c # s) = (byte c, 1)"
  by (simp add: rune_len_def Let_def)

lemma utf8_ascii_Cons: "byte c < 0x80 \<Longrightarrow> utf8 (c # s) \<longleftrightarrow> utf8 s"
  by (simp add: utf8_step decode_rune_ascii invalid_rune_def rune_error_def del: decode_rune.simps)

lemma utf8_ascii: "ascii s \<Longrightarrow> utf8 s"
  by (induction s) (auto simp: utf8_ascii_Cons ascii_def)

lemma push_push [simp]: "push p (push q x) = push (p @ q) x"
  by (cases x) (auto simp: push_def split: prod.splits)

lemma push_Some [simp]: "push p (Some (b, r)) = Some (p @ b, r)"
  by (simp add: push_def)

lemma push_Nil [simp]: "push [] x = x"
  by (cases x) (auto simp: push_def)

declare scan_string.simps(3) [simp del]

definition ordinary :: "char \<Rightarrow> bool" where
  "ordinary c \<longleftrightarrow> c \<noteq> CHR 0x22 \<and> c \<noteq> CHR 0x5C \<and> 0x20 \<le> byte c"

lemma scan_ordinary: "ordinary c \<Longrightarrow> scan_string (c # r) = push [c] (scan_string r)"
  by (cases r) (auto simp: ordinary_def push_def scan_string.simps(3))

lemma scan_ordinaries: "list_all ordinary ps \<Longrightarrow> scan_string (ps @ r) = push ps (scan_string r)"
  by (induction ps) (auto simp: scan_ordinary)

lemma scan_escape: "map_of simple_escapes e \<noteq> None \<Longrightarrow> scan_string (CHR 0x5C # e # r) = push [CHR 0x5C, e] (scan_string r)"
  by (simp add: scan_string.simps(3))

lemma unquote_escape:
  "map_of simple_escapes e = Some x \<Longrightarrow> unquote (CHR 0x5C # e # r) = x # unquote r"
  by (subst unquote.simps) (auto simp: simple_escapes_def split: if_splits)

lemma hex_char_val: "hex_val (hex_char n) = Some (n mod 16)" and hex_char_ordinary: "ordinary (hex_char n)"
proof -
  have "list_all (\<lambda>n. hex_val (hex_digits ! n) = Some n \<and> ordinary (hex_digits ! n)) [0..<16]"
    by (simp add: upt_conv_Cons hex_digits_def hex_val_def ordinary_def byte_def)
  then have "hex_val (hex_digits ! (n mod 16)) = Some (n mod 16) \<and> ordinary (hex_digits ! (n mod 16))"
    by (simp add: list_all_iff)
  then show "hex_val (hex_char n) = Some (n mod 16)" "ordinary (hex_char n)" by (simp_all add: hex_char_def)
qed

lemma scan_u: "hex4 (h @ r) \<noteq> None \<Longrightarrow> list_all ordinary h \<Longrightarrow>
    scan_string (CHR 0x5C # CHR ''u'' # h @ r) = push (CHR 0x5C # CHR ''u'' # h) (scan_string r)"
  by (simp add: simple_escapes_def scan_ordinaries scan_string.simps(3))

lemma unquote_u:
  "hex4 (h @ r) = Some v \<Longrightarrow> length h = 4 \<Longrightarrow> v < 0xD800 \<or> 0xE000 \<le> v \<Longrightarrow>
     unquote (CHR 0x5C # CHR ''u'' # h @ r) = encode_rune v @ unquote r"
  by (subst unquote.simps) (auto simp: escape_rune_def)

lemma multi_ordinary:
  assumes "s \<noteq> []" "0x80 \<le> byte (hd s)" "\<not> invalid_rune (decode_rune s)"
  shows "list_all ordinary (take (snd (decode_rune s)) s)"
proof -
  obtain c t where s: "s = c # t" using assms(1) by (cases s) auto
  let ?n = "rune_len (byte c)"
  have "?n \<noteq> 1" using assms(2) s by (simp add: rune_len_def)
  then have ok: "tail_ok (byte c) (take (?n - 1) t)" "2 \<le> ?n" "snd (decode_rune s) = ?n"
    using assms(3) s by (simp_all add: invalid_rune_def Let_def split: if_split_asm)
  have o: "ordinary d" if "0x80 \<le> byte d" for d
  proof -
    have "byte (CHR 0x22) < 0x80" "byte (CHR 0x5C) < 0x80" by (simp_all add: byte_def)
    then have "d \<noteq> CHR 0x22" "d \<noteq> CHR 0x5C" using that by (metis not_less)+
    then show ?thesis using that by (simp add: ordinary_def)
  qed
  have "0x80 \<le> byte d" if d: "d \<in> set (take (?n - 1) t)" for d
  proof -
    obtain c1 cs where "take (?n - 1) t = c1 # cs" using ok(1) by (cases "take (?n - 1) t") (auto simp: tail_ok_def)
    moreover have "0x80 \<le> second_lo (byte c)" by (simp add: second_lo_def)
    ultimately show ?thesis using ok(1) d by (auto simp: tail_ok_def cont_byte_def list_all_iff)
  qed
  then show ?thesis using o assms s ok(2,3) by (auto simp: list_all_iff take_Cons' )
qed

lemma multi_tail:
  assumes "s \<noteq> []" "0x80 \<le> byte (hd s)" "\<not> invalid_rune (decode_rune s)" "take (snd (decode_rune s)) s = c # p" "d \<in> set p"
  shows "0x80 \<le> byte d \<and> byte d \<le> 0xBF"
proof -
  obtain t where s: "s = c # t" using assms(1,4) by (cases s; cases "snd (decode_rune s)") auto
  let ?n = "rune_len (byte c)"
  have "?n \<noteq> 1" using assms(2) s by (simp add: rune_len_def)
  then have ok: "tail_ok (byte c) (take (?n - 1) t)" "2 \<le> ?n" "snd (decode_rune s) = ?n"
    using assms(3) s by (simp_all add: invalid_rune_def Let_def split: if_split_asm)
  then have "tail_ok (byte c) p" using assms(4) s by (simp add: take_Cons')
  moreover have "0x80 \<le> second_lo (byte c)" "second_hi (byte c) \<le> 0xBF" by (simp_all add: second_lo_def second_hi_def)
  ultimately show ?thesis using assms(5)
    by (cases p) (auto simp: tail_ok_def cont_byte_def list_all_iff)
qed

lemma simple_escape_values:
  "map_of escapes b = Some e \<Longrightarrow> map_of simple_escapes e = Some (char_of b)"
proof -
  have "\<forall>(b, e) \<in> set escapes. map_of simple_escapes e = Some (char_of b)" by code_simp
  then show "map_of escapes b = Some e \<Longrightarrow> ?thesis" by (auto dest: map_of_SomeD)
qed

lemma quote_ascii_read:
  assumes "byte c < 0x80"
  shows "scan_string (quote_ascii html c @ r) = push (quote_ascii html c) (scan_string r)"
    and "unquote (quote_ascii html c @ r) = c # unquote r"
proof -
  consider "plain_ascii html (byte c)" | e where "\<not> plain_ascii html (byte c)" "map_of escapes (byte c) = Some e"
    | "\<not> plain_ascii html (byte c)" "map_of escapes (byte c) = None" by fastforce
  then have "scan_string (quote_ascii html c @ r) = push (quote_ascii html c) (scan_string r)
      \<and> unquote (quote_ascii html c @ r) = c # unquote r"
  proof cases
    case 1
    then have "ordinary c" by (auto simp: plain_ascii_def ordinary_def byte_def)
    then show ?thesis using 1 assms
      by (auto simp: quote_ascii_def ordinary_def scan_ordinary unquote.simps(2))
  next
    case 2
    then show ?thesis using simple_escape_values[OF 2(2)]
      by (simp add: quote_ascii_def scan_escape unquote_escape del: scan_string.simps)
  next
    case 3
    let ?h = "[CHR ''0'', CHR ''0'', hex_char (byte c div 16), hex_char (byte c)]"
    have z: "ordinary CHR ''0''" "hex_val CHR ''0'' = Some 0" by (simp_all add: ordinary_def hex_val_def byte_def)
    have "hex4 (?h @ r) = Some (byte c)" using assms by (simp add: hex_char_val z)
    moreover have "encode_rune (byte c) = [c]" using assms by (simp add: encode_rune_def)
    ultimately show ?thesis using 3 assms scan_u[of ?h r] unquote_u[of ?h r "byte c"]
      by (simp add: quote_ascii_def hex_char_ordinary z Let_def del: hex4.simps)
  qed
  then show "scan_string (quote_ascii html c @ r) = push (quote_ascii html c) (scan_string r)"
    "unquote (quote_ascii html c @ r) = c # unquote r" by auto
qed

lemma line_separator_rune:
  assumes "line_separator s = Some c"
  shows "decode_rune s = (0x2020 + digit_val c, 3) \<and> take 3 s = encode_rune (0x2020 + digit_val c) \<and> (c = CHR ''8'' \<or> c = CHR ''9'')"
proof -
  obtain x where x: "take 3 s = [CHR 0xE2, CHR 0x80, x]" "(x = CHR 0xA8 \<and> c = CHR ''8'') \<or> (x = CHR 0xA9 \<and> c = CHR ''9'')"
    using assms by (auto simp: line_separator_def split: if_splits)
  then obtain t where t: "s = [CHR 0xE2, CHR 0x80, x] @ t" by (metis append_take_drop_id)
  have "encode_rune 0x2028 = [CHR 0xE2, CHR 0x80, CHR 0xA8]" "encode_rune 0x2029 = [CHR 0xE2, CHR 0x80, CHR 0xA9]"
    by (simp_all add: encode_rune_def char_of_def bit_0)
  moreover have "decode_rune (CHR 0xE2 # CHR 0x80 # CHR 0xA8 # t) = (0x2028, 3)"
    "decode_rune (CHR 0xE2 # CHR 0x80 # CHR 0xA9 # t) = (0x2029, 3)"
    by (simp_all add: rune_len_def byte_def tail_ok_def cont_byte_def second_lo_def second_hi_def rune_value_def lead_bits_def)
  ultimately show ?thesis using x(2) unfolding t
    by (elim disjE conjE) (simp_all add: digit_val_def byte_def del: decode_rune.simps)
qed

lemma quote_piece_read:
  assumes "s \<noteq> []" and "\<not> invalid_rune (decode_rune s)"
  shows "snd (quote_piece html s) = snd (decode_rune s)"
    and "scan_string (fst (quote_piece html s) @ r) = push (fst (quote_piece html s)) (scan_string r)"
    and "unquote (fst (quote_piece html s) @ r) = take (snd (decode_rune s)) s @ unquote r"
proof -
  obtain c t where s: "s = c # t" using assms(1) by (cases s) auto
  have "snd (quote_piece html s) = snd (decode_rune s)
    \<and> scan_string (fst (quote_piece html s) @ r) = push (fst (quote_piece html s)) (scan_string r)
    \<and> unquote (fst (quote_piece html s) @ r) = take (snd (decode_rune s)) s @ unquote r"
  proof (cases "byte c < 0x80")
    case True
    then show ?thesis using s
      by (simp add: quote_piece_def decode_rune_ascii quote_ascii_read del: decode_rune.simps)
  next
    case False
    show ?thesis
    proof (cases "line_separator s")
      case (Some d)
      note d = line_separator_rune[OF Some]
      let ?h = "[CHR ''2'', CHR ''0'', CHR ''2'', d]"
      have o: "list_all ordinary ?h" and h: "hex4 (?h @ r) = Some (0x2020 + digit_val d)"
        using d by (auto simp: ordinary_def byte_def hex_val_def digit_val_def)
      have "0x2020 + digit_val d < 0xD800" using d by (auto simp: digit_val_def byte_def)
      then show ?thesis using False s Some assms(2) d o h scan_u[of ?h r] unquote_u[OF h]
        by (simp add: quote_piece_def del: decode_rune.simps)
    next
      case None
      then have q: "quote_piece html s = (take (snd (decode_rune s)) s, snd (decode_rune s))"
        using False s assms(2) by (simp add: quote_piece_def del: decode_rune.simps)
      have o: "list_all ordinary (take (snd (decode_rune s)) s)"
        by (rule multi_ordinary) (use assms False s in auto)
      have "decode_rune (take (snd (decode_rune s)) s @ r) = decode_rune s"
        using decode_rune_local assms by blast
      moreover obtain p where p: "take (snd (decode_rune s)) s = c # p"
        using s decode_rune_pos[of c t] by (cases "snd (decode_rune s)") (auto simp del: decode_rune.simps)
      moreover have "snd (decode_rune s) = Suc (length p)"
        using decode_rune_size[of s] assms(1) arg_cong[OF p, of length] by simp
      ultimately have "unquote (take (snd (decode_rune s)) s @ r) = take (snd (decode_rune s)) s @ unquote r"
        using False assms(2) by (auto simp: unquote.simps(2) byte_def simp del: decode_rune.simps)
      then show ?thesis using q scan_ordinaries[OF o] by simp
    qed
  qed
  then show "snd (quote_piece html s) = snd (decode_rune s)"
    "scan_string (fst (quote_piece html s) @ r) = push (fst (quote_piece html s)) (scan_string r)"
    "unquote (fst (quote_piece html s) @ r) = take (snd (decode_rune s)) s @ unquote r" by auto
qed

lemma quote_body_read:
  "utf8 s \<Longrightarrow> scan_string (quote_body html s @ r) = push (quote_body html s) (scan_string r)
     \<and> unquote (quote_body html s @ r) = s @ unquote r"
proof (induction html s arbitrary: r rule: quote_body.induct)
  case (1 html s)
  show ?case
  proof (cases "s = []")
    case True
    then show ?thesis by (subst (1 2 3) quote_body.simps) simp
  next
    case False
    let ?n = "snd (decode_rune s)"
    have v: "\<not> invalid_rune (decode_rune s)" "utf8 (drop ?n s)" using 1 False utf8_step by auto
    note p = quote_piece_read[OF False v(1), of html]
    have b: "quote_body html s = fst (quote_piece html s) @ quote_body html (drop ?n s)"
      using False p(1) by (subst quote_body.simps) simp
    note IH = "1.IH"[OF False, unfolded p(1), OF v(2)]
    have sc: "scan_string (quote_body html s @ r) = push (quote_body html s) (scan_string r)"
      using b p(2) IH[of r] by simp
    have "unquote (quote_body html s @ r) = take ?n s @ drop ?n s @ unquote r"
      using b p(3)[of "quote_body html (drop ?n s) @ r"] IH[of r] by simp
    then show ?thesis using sc by (metis append.assoc append_take_drop_id)
  qed
qed

lemma scan_close: "scan_string (CHR 0x22 # r) = Some ([], r)"
  by (cases r) (simp_all add: scan_string.simps(3))

lemma unquote_quote_body: "utf8 s \<Longrightarrow> unquote (quote_body html s) = s"
  using quote_body_read[of s html "[]"] by simp

lemma scan_quote_body: "utf8 s \<Longrightarrow> scan_string (quote_body html s @ CHR 0x22 # r) = Some (quote_body html s, r)"
  using quote_body_read[of s html "CHR 0x22 # r"] by (simp add: scan_close)

section \<open>What is printed is read back\<close>

text \<open>What may follow a value without being taken for a part of it.\<close>

definition stop :: "string \<Rightarrow> bool" where
  "stop r \<longleftrightarrow> r = [] \<or> \<not> is_digit (hd r) \<and> hd r \<notin> {CHR ''.'', CHR ''e'', CHR ''E''}"

lemma nat_str_head: "\<exists>c t. nat_str n = c # t \<and> is_digit c \<and> (0 < n \<longrightarrow> c \<noteq> CHR ''0'')"
proof (induction n rule: nat_str.induct)
  case (1 n)
  have d: "is_digit (digit m)" if "m < 10" for m using that digit_char by blast
  have z: "digit m \<noteq> CHR ''0''" if "m < 10" "0 < m" for m
  proof -
    have "digit_val (digit m) = m" using digit_char that by blast
    then show ?thesis using that by (auto simp: digit_val_def byte_def)
  qed
  show ?case
  proof (cases "n < 10")
    case True
    then show ?thesis using d z by (subst nat_str.simps) auto
  next
    case False
    then obtain c t where "nat_str (n div 10) = c # t" "is_digit c" "c \<noteq> CHR ''0''" using 1 by force
    then show ?thesis using False by (subst nat_str.simps) auto
  qed
qed

lemma digits_of_stop: "ds \<noteq> [] \<Longrightarrow> \<forall>c \<in> set ds. is_digit c \<Longrightarrow> stop r \<Longrightarrow> digits_of (ds @ r) = Some (ds, r)"
  by (cases r; cases ds) (auto simp: digits_of_def stop_def dropWhile_append takeWhile_append takeWhile_eq_all_conv[THEN iffD2])

lemma scan_nat: "stop r \<Longrightarrow> scan_int (nat_str n @ r) = Some (nat_str n, r)"
proof -
  assume r: "stop r"
  obtain c t where ct: "nat_str n = c # t" "is_digit c" "0 < n \<longrightarrow> c \<noteq> CHR ''0''" using nat_str_head by blast
  show ?thesis
  proof (cases "n = 0")
    case True
    then have "nat_str n = ''0''" by (simp add: nat_str.simps digit_def char_of_def bit_0)
    then show ?thesis by (simp add: scan_int_def)
  next
    case False
    then show ?thesis using ct digits_of_stop[of "nat_str n" r] nat_str_digits[of n] r
      by (simp add: scan_int_def)
  qed
qed

lemma scan_stop: "stop r \<Longrightarrow> scan_frac r = Some ([], r)" "stop r \<Longrightarrow> scan_exp r = Some ([], r)"
  by (cases r; auto simp: stop_def scan_frac_def scan_exp_def)+

lemma scan_int_str: "stop r \<Longrightarrow> scan_number (int_str i @ r) = Some (int_str i, r)"
proof -
  assume r: "stop r"
  obtain c t where ct: "nat_str (nat i) = c # t" "is_digit c" using nat_str_head by blast
  then have "c \<noteq> CHR ''-''" by (auto simp: is_digit_def byte_def)
  then show ?thesis using ct scan_nat[OF r, of "nat i"] scan_nat[OF r, of "nat (- i)"] scan_stop[OF r]
    by (cases "i < 0") (simp_all add: scan_number_def int_str_def)
qed

fun node_of :: "bool \<Rightarrow> json \<Rightarrow> node" where
  "node_of html JNull = NNull ''null''"
| "node_of html (JBool b) = NBool (if b then ''true'' else ''false'') b"
| "node_of html (JInt i) = NNum (int_str i)"
| "node_of html (JStr s) = NStr (quote_json html s) s"
| "node_of html (JArr vs) = NArr (print_json html (JArr vs)) (map (node_of html) vs)"
| "node_of html (JObj ms) = NObj (print_json html (JObj ms)) (map (\<lambda>(k, v). (k, node_of html v)) ms)"
| "node_of html (JRaw r) = (case first_value r of Some (n, _) \<Rightarrow> n | None \<Rightarrow> NNull r)"

fun node_levels :: "node \<Rightarrow> nat" where
  "node_levels (NArr r ns) = Suc (Max (insert 0 (set (map node_levels ns))))"
| "node_levels (NObj r ms) = Suc (Max (insert 0 (set (map (\<lambda>(k, n). node_levels n) ms))))"
| "node_levels _ = 0"

fun levels :: "json \<Rightarrow> nat" where
  "levels (JArr vs) = Suc (Max (insert 0 (set (map levels vs))))"
| "levels (JObj ms) = Suc (Max (insert 0 (set (map (\<lambda>(k, v). levels v) ms))))"
| "levels (JRaw r) = (case first_value r of Some (n, _) \<Rightarrow> node_levels n | None \<Rightarrow> 0)"
| "levels _ = 0"

text \<open>Values whose strings are UTF-8; \<open>R\<close> says which raw texts may occur.\<close>

fun plain :: "(string \<Rightarrow> bool) \<Rightarrow> json \<Rightarrow> bool" where
  "plain R (JStr s) = utf8 s"
| "plain R (JArr vs) = list_all (plain R) vs"
| "plain R (JObj ms) = list_all (\<lambda>(k, v). utf8 k \<and> plain R v) ms"
| "plain R (JRaw r) = R r"
| "plain R _ = True"

lemma consumed_append [simp]: "consumed (p @ r) r = p" and consumed_Cons [simp]: "consumed (c # p @ r) r = c # p"
  by (simp_all add: consumed_def)

lemma parse_str:
  "utf8 s \<Longrightarrow> parse_value (Suc k) d (quote_json html s @ r) = Some (NStr (quote_json html s) s, r)"
  using consumed_append[of "CHR 0x22 # quote_body html s @ [CHR 0x22]" r]
  by (simp add: parse_value.simps(2) quote_json_def scan_quote_body unquote_quote_body)

lemma stop_close: "stop (CHR '','' # r)" "stop (CHR '']'' # r)" "stop (CHR ''}'' # r)"
  by (simp_all add: stop_def is_digit_def byte_def)

definition parsed_back :: "bool \<Rightarrow> json \<Rightarrow> bool" where
  "parsed_back html v \<longleftrightarrow> (\<forall>d k r. int (levels v) \<le> d \<longrightarrow> length (print_json html v) \<le> k \<longrightarrow> stop r \<longrightarrow>
     parse_value k d (print_json html v @ r) = Some (node_of html v, r))"

lemma parsed_backD:
  "parsed_back html v \<Longrightarrow> int (levels v) \<le> d \<Longrightarrow> length (print_json html v) \<le> k \<Longrightarrow> stop r \<Longrightarrow>
     parse_value k d (print_json html v @ r) = Some (node_of html v, r)"
  by (simp add: parsed_back_def)

lemma skip_ws_Cons [simp]: "skip_ws (c # r) = (if is_ws c then skip_ws r else c # r)" and skip_ws_Nil [simp]: "skip_ws [] = []"
  by (simp_all add: skip_ws_def)

lemma punctuation [simp]: "\<not> is_ws CHR '',''" "\<not> is_ws CHR '':''" "\<not> is_ws CHR '']''" "\<not> is_ws CHR ''}''"
    "\<not> is_ws CHR 0x22" "\<not> is_ws CHR ''[''" "\<not> is_ws CHR ''{''"
  by (simp_all add: is_ws_def)

lemma join_head:
  "ws \<noteq> [] \<Longrightarrow> hd ws = c # t \<Longrightarrow> \<exists>u. join sep ws = c # u"
  by (cases "tl ws = []") (auto simp: neq_Nil_conv join_Cons)

definition print_member :: "bool \<Rightarrow> string \<times> json \<Rightarrow> string" where
  "print_member html = (\<lambda>(k, v). quote_json html k @ '':'' @ print_json html v)"

lemma print_JObj: "print_json html (JObj ms) = ''{'' @ join '','' (map (print_member html) ms) @ ''}''"
  by (simp add: print_member_def)

lemma levels_JArr: "int (levels (JArr vs)) \<le> d \<Longrightarrow> v \<in> set vs \<Longrightarrow> int (levels v) \<le> d - 1"
proof -
  assume v: "int (levels (JArr vs)) \<le> d" "v \<in> set vs"
  then have "levels v < levels (JArr vs)" by (simp add: less_Suc_eq_le)
  then show ?thesis using v(1) by linarith
qed

lemma levels_JObj: "int (levels (JObj ms)) \<le> d \<Longrightarrow> (k, v) \<in> set ms \<Longrightarrow> int (levels v) \<le> d - 1"
proof -
  assume v: "int (levels (JObj ms)) \<le> d" "(k, v) \<in> set ms"
  then have "levels v \<in> insert 0 (set (map (\<lambda>(k, v). levels v) ms))" by force
  from Max_ge[OF _ this] have "levels v < levels (JObj ms)" by (simp only: levels.simps less_Suc_eq_le finite_insert finite_set simp_thms)
  then show ?thesis using v(1) by linarith
qed

text \<open>What a raw text must do to stand inside a printed value.\<close>

locale raw_texts =
  fixes R :: "string \<Rightarrow> bool"
  assumes raw_head: "R r \<Longrightarrow> \<exists>c t. compact html Outside r = c # t \<and> \<not> is_ws c \<and> c \<notin> set '',:]}''"
    and raw_parsed_back: "R r \<Longrightarrow> parsed_back html (JRaw r)"
begin

lemma print_head:
  "plain R v \<Longrightarrow> \<exists>c t. print_json html v = c # t \<and> \<not> is_ws c \<and> c \<notin> set '',:]}''"
proof (cases v)
  case (JInt i)
  obtain c t where "nat_str (nat i) = c # t" "is_digit c" using nat_str_head by blast
  then show ?thesis using JInt by (auto simp: int_str_def is_ws_def is_digit_def byte_def)
next
  assume p: "plain R v"
  case (JRaw r)
  then show ?thesis using raw_head[of r html] p by simp
qed (auto simp: quote_json_def is_ws_def)

lemma skip_ws_print: "plain R v \<Longrightarrow> skip_ws (print_json html v @ r) = print_json html v @ r"
  using print_head[of v html] by (auto simp: skip_ws_def)

lemma print_length: "plain R v \<Longrightarrow> 0 < length (print_json html v)"
  using print_head[of v html] by auto

lemma skip_ws_elems:
  assumes "vs \<noteq> []" "\<forall>v \<in> set vs. plain R v"
  shows "skip_ws (join '','' (map (print_json html) vs) @ r) = join '','' (map (print_json html) vs) @ r"
proof -
  obtain c t where "print_json html (hd vs) = c # t" "\<not> is_ws c" using print_head[of "hd vs" html] assms by auto
  then show ?thesis using join_head[of "map (print_json html) vs" c t "'',''"] assms(1) by (auto simp: hd_map)
qed

lemma parse_elems_print:
  assumes "vs \<noteq> []" "\<forall>v \<in> set vs. plain R v \<and> parsed_back html v \<and> int (levels v) \<le> d"
    and "length (join '','' (map (print_json html) vs)) < k"
  shows "parse_elems k d (join '','' (map (print_json html) vs) @ CHR '']'' # r) = Some (map (node_of html) vs, r)"
  using assms
proof (induction vs arbitrary: k)
  case (Cons v vs)
  from Cons.prems(3) obtain k' where k: "k = Suc k'" by (cases k) auto
  show ?case
  proof (cases "vs = []")
    case True
    then show ?thesis using Cons.prems k
      by (simp add: parse_elems.simps(2) parsed_backD stop_close)
  next
    case False
    then have j: "join '','' (map (print_json html) (v # vs)) = print_json html v @ CHR '','' # join '','' (map (print_json html) vs)"
      by (simp add: join_Cons)
    show ?thesis using Cons.IH[OF False, of k'] Cons.prems k j skip_ws_elems[OF False]
      by (simp add: parse_elems.simps(2) parsed_backD stop_close)
  qed
qed simp


lemma parse_members_print:
  assumes "ms \<noteq> []" "\<forall>(key, v) \<in> set ms. utf8 key \<and> plain R v \<and> parsed_back html v \<and> int (levels v) \<le> d"
    and "length (join '','' (map (print_member html) ms)) < k"
  shows "parse_members k d (join '','' (map (print_member html) ms) @ CHR ''}'' # r)
     = Some (map (\<lambda>(key, v). (key, node_of html v)) ms, r)"
  using assms
proof (induction ms arbitrary: k)
  case (Cons m ms)
  obtain key v where m: "m = (key, v)" by (cases m)
  have v: "utf8 key" "plain R v" "parsed_back html v" "int (levels v) \<le> d" using Cons.prems(2) m by auto
  from Cons.prems(3) obtain k' where k: "k = Suc k'" by (cases k) auto
  have p: "print_member html m = CHR 0x22 # quote_body html key @ CHR 0x22 # CHR '':'' # print_json html v"
    by (simp add: m print_member_def quote_json_def)
  show ?case
  proof (cases "ms = []")
    case True
    then show ?thesis using Cons.prems(3) k p v
      by (simp add: m parse_members.simps(2) scan_quote_body skip_ws_print parsed_backD stop_close unquote_quote_body)
  next
    case False
    have "skip_ws (join '','' (map (print_member html) ms) @ CHR ''}'' # r) = join '','' (map (print_member html) ms) @ CHR ''}'' # r"
      using join_head[of "map (print_member html) ms" "CHR 0x22" _ "'',''"] False
      by (fastforce simp: hd_map print_member_def quote_json_def split: prod.splits)
    then show ?thesis using Cons.IH[OF False, of k'] Cons.prems False k p v
      by (simp add: m parse_members.simps(2) scan_quote_body skip_ws_print parsed_backD stop_close unquote_quote_body join_Cons)
  qed
qed simp

lemma parsed_backI:
  assumes "plain R v" and "\<And>d k r. stop r \<Longrightarrow> int (levels v) \<le> d \<Longrightarrow> length (print_json html v) \<le> Suc k \<Longrightarrow>
      parse_value (Suc k) d (print_json html v @ r) = Some (node_of html v, r)"
  shows "parsed_back html v"
  unfolding parsed_back_def
proof (intro allI impI)
  fix d k r assume a: "int (levels v) \<le> d" "length (print_json html v) \<le> k" "stop r"
  then obtain k' where "k = Suc k'" using print_length[OF assms(1), of html] by (cases k) auto
  then show "parse_value k d (print_json html v @ r) = Some (node_of html v, r)" using assms(2) a by blast
qed

lemma plain_parsed_back: "plain R v \<Longrightarrow> parsed_back html v"
proof (induction html v rule: node_of.induct)
  case (1 html)
  then show ?case by (intro parsed_backI) (auto simp: parse_value.simps(2) scan_word_def has_prefix_def)
next
  case (2 html b)
  then show ?case by (intro parsed_backI) (auto simp: parse_value.simps(2) scan_word_def has_prefix_def)
next
  case (3 html i)
  obtain c t where ct: "int_str i = c # t" "c = CHR ''-'' \<or> is_digit c"
    using nat_str_head[of "nat i"] by (cases "i < 0") (auto simp: int_str_def)
  then have c: "c \<notin> set (CHR 0x22 # ''[{ntf'')" by (auto simp: is_digit_def byte_def)
  show ?case
  proof (rule parsed_backI)
    fix d k r assume "stop r"
    then show "parse_value (Suc k) d (print_json html (JInt i) @ r) = Some (node_of html (JInt i), r)"
      using ct c scan_int_str[of r i] by (simp add: parse_value.simps(2))
  qed (use 3 in simp)
next
  case (4 html s)
  then show ?case using parse_str by (intro parsed_backI) auto
next
  case (5 html vs)
  show ?case
  proof (rule parsed_backI)
    fix d k r assume a: "int (levels (JArr vs)) \<le> d" "length (print_json html (JArr vs)) \<le> Suc k" "stop r"
    have e: "\<forall>v \<in> set vs. plain R v \<and> parsed_back html v \<and> int (levels v) \<le> d - 1"
      using 5 levels_JArr[OF a(1)] by (auto simp: list_all_iff)
    have d: "\<not> d \<le> 0" using a(1) by auto
    show "parse_value (Suc k) d (print_json html (JArr vs) @ r) = Some (node_of html (JArr vs), r)"
    proof (cases "vs = []")
      case True
      then show ?thesis using d consumed_append[of "''[]''" r] by (simp add: parse_value.simps(2) has_prefix_def)
    next
      case False
      then have "\<not> has_prefix (join '','' (map (print_json html) vs) @ CHR '']'' # r) '']''"
        using join_head[of "map (print_json html) vs" _ _ "'',''"] print_head[of "hd vs" html] e by (fastforce simp: has_prefix_def hd_map)
      then show ?thesis
        using d a(2) parse_elems_print[OF False e, of k r] skip_ws_elems[OF False, of html "CHR '']'' # r"] e
          consumed_append[of "print_json html (JArr vs)" r]
        by (simp add: parse_value.simps(2))
    qed
  qed (use 5 in simp)
next
  case (6 html ms)
  show ?case
  proof (rule parsed_backI)
    fix d k r assume a: "int (levels (JObj ms)) \<le> d" "length (print_json html (JObj ms)) \<le> Suc k" "stop r"
    have e: "\<forall>(key, v) \<in> set ms. utf8 key \<and> plain R v \<and> parsed_back html v \<and> int (levels v) \<le> d - 1"
      using 6 levels_JObj[OF a(1)] by (fastforce simp: list_all_iff)
    have d: "\<not> d \<le> 0" using a(1) by auto
    show "parse_value (Suc k) d (print_json html (JObj ms) @ r) = Some (node_of html (JObj ms), r)"
    proof (cases "ms = []")
      case True
      then show ?thesis using d consumed_append[of "''{}''" r] by (simp add: parse_value.simps(2) has_prefix_def)
    next
      case False
      obtain u where u: "join '','' (map (print_member html) ms) = CHR 0x22 # u"
        using join_head[of "map (print_member html) ms" "CHR 0x22" _ "'',''"] False
        by (fastforce simp: hd_map print_member_def quote_json_def split: prod.splits)
      have len: "length (join '','' (map (print_member html) ms)) < k" using a(2) by (simp add: print_JObj del: print_json.simps)
      show ?thesis
        using d parse_members_print[OF False e len, of r] u consumed_append[of "print_json html (JObj ms)" r]
        by (simp add: parse_value.simps(2) print_JObj has_prefix_def del: print_json.simps(6))
    qed
  qed (use 6 in simp)
qed (use raw_parsed_back in simp)

lemma first_value_print:
  "plain R v \<Longrightarrow> int (levels v) \<le> maxNestingDepth \<Longrightarrow> stop r \<Longrightarrow>
     first_value (print_json html v @ r) = Some (node_of html v, r)"
  using plain_parsed_back[of v html] by (simp add: first_value_def skip_ws_print parsed_back_def)

lemma whole_value_print:
  "plain R v \<Longrightarrow> int (levels v) \<le> maxNestingDepth \<Longrightarrow> whole_value (print_json html v @ [CHR 0x0A]) = Some (node_of html v)"
  using first_value_print[of v "[CHR 0x0A]" html]
  by (simp add: whole_value_def stop_def is_digit_def byte_def is_ws_def)

end

section \<open>Raw texts\<close>

interpretation no_raw: raw_texts "\<lambda>_. False"
  by unfold_locales auto

abbreviation rawless :: "json \<Rightarrow> bool" where
  "rawless \<equiv> plain (\<lambda>_. False)"

lemma node_levels_of: "rawless v \<Longrightarrow> node_levels (node_of html v) = levels v"
proof (induction html v rule: node_of.induct)
  case (5 html vs)
  then have "map node_levels (map (node_of html) vs) = map levels vs" by (simp add: list_all_iff)
  then show ?case by (simp del: map_map)
next
  case (6 html ms)
  then have "map (\<lambda>(k, n). node_levels n) (map (\<lambda>(k, v). (k, node_of html v)) ms) = map (\<lambda>(k, v). levels v) ms"
    by (auto simp: list_all_iff)
  then show ?case by (simp del: map_map)
qed auto

text \<open>Compaction leaves what the encoder printed alone.\<close>

lemma compact_outside: "\<not> is_ws c \<Longrightarrow> byte c < 0x80 \<Longrightarrow> \<not> html_char c \<Longrightarrow> c \<noteq> CHR 0x22 \<Longrightarrow>
    compact html Outside (c # r) = c # compact html Outside r"
  by (auto simp: compact.simps(2) line_separator_def byte_def)

lemma compact_outsides:
  "\<forall>c \<in> set p. \<not> is_ws c \<and> byte c < 0x80 \<and> \<not> html_char c \<and> c \<noteq> CHR 0x22 \<Longrightarrow>
     compact html Outside (p @ r) = p @ compact html Outside r"
  by (induction p) (auto simp: compact_outside)

definition inside_ok :: "char \<Rightarrow> bool" where
  "inside_ok c \<longleftrightarrow> ordinary c \<and> \<not> html_char c \<and> c \<noteq> CHR 0xE2"

lemma compact_inside: "inside_ok c \<Longrightarrow> compact html Inside (c # r) = c # compact html Inside r"
  by (auto simp: compact.simps(2) inside_ok_def ordinary_def line_separator_def)

lemma compact_insides: "list_all inside_ok p \<Longrightarrow> compact html Inside (p @ r) = p @ compact html Inside r"
  by (induction p) (auto simp: compact_inside)

lemma compact_escape: "\<not> html_char e \<Longrightarrow> e \<noteq> CHR 0xE2 \<Longrightarrow> 
    compact html Inside (CHR 0x5C # e # r) = CHR 0x5C # e # compact html Inside r"
  by (simp add: compact.simps(2) html_char_def byte_def line_separator_def)

lemma hex_char_inside: "inside_ok (hex_char n)"
proof -
  have "list_all (\<lambda>n. inside_ok (hex_digits ! n)) [0..<16]"
    by (simp add: upt_conv_Cons hex_digits_def inside_ok_def ordinary_def html_char_def byte_def)
  then have "inside_ok (hex_digits ! (n mod 16))" by (simp add: list_all_iff)
  then show ?thesis by (simp add: hex_char_def)
qed

lemma compact_quote_ascii:
  assumes "byte c < 0x80"
  shows "compact html Inside (quote_ascii True c @ r) = quote_ascii True c @ compact html Inside r"
proof -
  consider "plain_ascii True (byte c)" | e where "\<not> plain_ascii True (byte c)" "map_of escapes (byte c) = Some e"
    | "\<not> plain_ascii True (byte c)" "map_of escapes (byte c) = None" by fastforce
  then show ?thesis
  proof cases
    case 1
    then have "inside_ok c" by (auto simp: plain_ascii_def inside_ok_def ordinary_def html_char_def byte_def)
    then show ?thesis using 1 by (simp add: quote_ascii_def compact_inside)
  next
    case 2
    have "\<forall>(b, e) \<in> set escapes. \<not> html_char e \<and> e \<noteq> CHR 0xE2" by (simp add: escapes_def html_char_def byte_def)
    then have "\<not> html_char e \<and> e \<noteq> CHR 0xE2" using 2(2) by (auto dest!: map_of_SomeD)
    then show ?thesis using 2 by (simp add: quote_ascii_def compact_escape)
  next
    case 3
    have "inside_ok CHR ''0''" by (simp add: inside_ok_def ordinary_def html_char_def byte_def)
    moreover have "\<not> html_char CHR ''u''" by (simp add: html_char_def byte_def)
    ultimately show ?thesis using 3 by (simp add: quote_ascii_def Let_def compact_escape compact_inside hex_char_inside)
  qed
qed

lemma compact_piece:
  assumes "s \<noteq> []" and "\<not> invalid_rune (decode_rune s)"
  shows "compact html Inside (fst (quote_piece True s) @ r) = fst (quote_piece True s) @ compact html Inside r"
proof -
  obtain c t where s: "s = c # t" using assms(1) by (cases s) auto
  show ?thesis
  proof (cases "byte c < 0x80")
    case True
    then show ?thesis using s by (simp add: quote_piece_def compact_quote_ascii)
  next
    case False
    show ?thesis
    proof (cases "line_separator s")
      case (Some d)
      then have "d = CHR ''8'' \<or> d = CHR ''9''" using line_separator_rune by blast
      moreover have "\<not> html_char CHR ''u''" "list_all inside_ok ''20289''"
        by (simp_all add: html_char_def inside_ok_def ordinary_def byte_def)
      ultimately show ?thesis using False s Some assms(2)
        by (auto simp: quote_piece_def compact_escape compact_inside simp del: decode_rune.simps)
    next
      case None
      let ?p = "take (snd (decode_rune s)) s"
      have q: "fst (quote_piece True s) = ?p"
        using False s assms(2) None by (simp add: quote_piece_def del: decode_rune.simps)
      have o: "list_all ordinary ?p" by (rule multi_ordinary) (use assms False s in auto)
      obtain p where p: "?p = c # p"
        using s decode_rune_pos[of c t] by (cases "snd (decode_rune s)") (auto simp del: decode_rune.simps)
      have hi: "\<not> html_char d \<and> d \<noteq> CHR 0xE2" if d: "d \<in> set p" for d
      proof -
        have "byte (CHR 0xE2) = 226" by (simp add: byte_def)
        moreover have "0x80 \<le> byte d \<and> byte d \<le> 0xBF"
          by (rule multi_tail[OF assms(1) _ assms(2) p d]) (use False s in simp)
        ultimately show ?thesis by (auto simp: html_char_def)
      qed
      then have "list_all inside_ok p"
        using o p hi by (auto simp: list_all_iff inside_ok_def)
      moreover have "compact html Inside (c # p @ r) = c # compact html Inside (p @ r)"
      proof -
        have "line_separator (c # p @ r) = None"
        proof (cases "c = CHR 0xE2")
          case True
          then have n: "snd (decode_rune s) = 3" using assms(2) s by (auto simp: byte_def rune_len_def invalid_rune_def Let_def split: if_split_asm)
          have "length ?p = 3" using decode_rune_size[OF assms(1)] n by simp
          then have "length p = 2" using p by simp
          then have tk: "take 3 (c # p @ r) = take 3 s" using p n by simp
          have "line_separator (c # p @ r) = line_separator s" unfolding line_separator_def tk ..
          then show ?thesis using None by simp
        qed (simp add: line_separator_def)
        then show ?thesis using False o p
          by (auto simp: compact.simps(2) html_char_def ordinary_def)
      qed
      ultimately show ?thesis using q p compact_insides by simp
    qed
  qed
qed

lemma compact_quote_body: "utf8 s \<Longrightarrow> compact html Inside (quote_body True s @ r) = quote_body True s @ compact html Inside r"
proof (induction "True" s rule: quote_body.induct)
  case (1 s)
  show ?case
  proof (cases "s = []")
    case True
    then show ?thesis by (simp add: quote_body.simps)
  next
    case False
    then have v: "\<not> invalid_rune (decode_rune s)" "utf8 (drop (snd (decode_rune s)) s)" using 1 utf8_step by auto
    note p = quote_piece_read(1)[OF False v(1)]
    have b: "quote_body True s = fst (quote_piece True s) @ quote_body True (drop (snd (decode_rune s)) s)"
      using False p by (subst quote_body.simps) simp
    show ?thesis using b compact_piece[OF False v(1)] 1(1)[OF False, unfolded p, OF v(2)] by simp
  qed
qed

lemma compact_quote: "utf8 s \<Longrightarrow> compact html Outside (quote_json True s @ r) = quote_json True s @ compact html Outside r"
  by (simp add: quote_json_def compact.simps(2)[of html Outside] compact_quote_body compact.simps(2)[of html Inside]
      html_char_def byte_def line_separator_def is_ws_def)

lemma compact_ascii:
  "list_all (\<lambda>c. \<not> is_ws c \<and> byte c < 0x80 \<and> \<not> html_char c \<and> c \<noteq> CHR 0x22) p \<Longrightarrow>
     compact html Outside (p @ r) = p @ compact html Outside r"
  by (rule compact_outsides) (simp add: list_all_iff)

lemma compact_print:
  "rawless v \<Longrightarrow> compact html Outside (print_json True v @ r) = print_json True v @ compact html Outside r"
proof (induction v arbitrary: r)
  case (JInt i)
  have d: "\<not> is_ws c \<and> byte c < 0x80 \<and> \<not> html_char c \<and> c \<noteq> CHR 0x22" if "is_digit c \<or> c = CHR ''-''" for c
    using that by (auto simp: is_digit_def is_ws_def html_char_def byte_def)
  have "c \<in> set (int_str i) \<Longrightarrow> is_digit c \<or> c = CHR ''-''" for c
    using nat_str_digits by (auto simp: int_str_def split: if_splits)
  then show ?case using d by (simp add: compact_outsides)
next
  case (JStr s)
  then show ?case by (simp add: compact_quote)
next
  case (JArr vs)
  have "compact html Outside (join '','' (map (print_json True) vs) @ x) = join '','' (map (print_json True) vs) @ compact html Outside x" for x
    using JArr
  proof (induction vs arbitrary: x)
    case (Cons v vs)
    then show ?case
      by (cases "vs = []") (auto simp: join_Cons compact_outside html_char_def byte_def)
  qed simp
  then show ?case by (simp add: compact_outside html_char_def byte_def)
next
  case (JObj ms)
  have "compact html Outside (join '','' (map (print_member True) ms) @ x) = join '','' (map (print_member True) ms) @ compact html Outside x" for x
    using JObj
  proof (induction ms arbitrary: x)
    case (Cons m ms)
    obtain k v where m: "m = (k, v)" by (cases m)
    have v: "compact html Outside (print_json True v @ y) = print_json True v @ compact html Outside y" for y
      using Cons.prems(1)[of "(k, v)" v] Cons.prems(2) m by simp
    have k: "utf8 k" using Cons.prems m by simp
    have p: "compact html Outside (print_member True m @ y) = print_member True m @ compact html Outside y" for y
      by (simp add: m print_member_def compact_quote k v compact_outside html_char_def byte_def)
    have IH: "compact html Outside (join '','' (map (print_member True) ms) @ x) = join '','' (map (print_member True) ms) @ compact html Outside x" for x
      by (rule Cons.IH) (use Cons.prems in auto)
    show ?case using p IH by (cases "ms = []") (auto simp: join_Cons compact_outside html_char_def byte_def)
  qed simp
  then show ?case unfolding print_JObj by (simp add: compact_outside html_char_def byte_def)
qed (auto intro!: compact_ascii simp: is_ws_def html_char_def byte_def simp del: append.simps)

text \<open>
  The raw text of a value the encoder printed with HTML escaping, as json.Marshal does, that may stand
  one level down in a document.
\<close>

definition marshalled :: "string \<Rightarrow> bool" where
  "marshalled r \<longleftrightarrow> (\<exists>v. rawless v \<and> int (levels v) < maxNestingDepth \<and> r = print_json True v)"

lemma compact_marshalled: "marshalled r \<Longrightarrow> compact html Outside r = r"
  using compact_print[of _ html "[]"] by (auto simp: marshalled_def)

interpretation marshalled: raw_texts marshalled
proof
  fix r html assume m: "marshalled r"
  then obtain v where v: "rawless v" "int (levels v) \<le> maxNestingDepth" "r = print_json True v"
    by (force simp: marshalled_def)
  show "\<exists>c t. compact html Outside r = c # t \<and> \<not> is_ws c \<and> c \<notin> set '',:]}''"
    using compact_marshalled[OF m] no_raw.print_head[OF v(1)] v(3) by simp
  have f: "first_value r = Some (node_of True v, [])"
    using no_raw.first_value_print[OF v(1,2), of "[]" True] v(3) by (simp add: stop_def)
  show "parsed_back html (JRaw r)"
    unfolding parsed_back_def using compact_marshalled[OF m] f v no_raw.plain_parsed_back[OF v(1), of True]
    by (simp add: parsed_back_def node_levels_of)
qed

section \<open>The raw text of a value, and how much fuel the scanner needs\<close>

lemma scan_string_split: "scan_string s = Some (b, r) \<Longrightarrow> s = b @ CHR 0x22 # r"
proof (induction s arbitrary: b rule: scan_string.induct)
  case (3 c d s)
  then show ?case
    by (auto simp: scan_string.simps(3) push_def split: if_splits)
qed (auto split: if_splits)

lemma digits_of_split: "digits_of s = Some (l, r) \<Longrightarrow> s = l @ r \<and> l \<noteq> []"
  by (auto simp: digits_of_def split: if_splits)

lemma push_SomeD: "push p x = Some (l, r) \<Longrightarrow> \<exists>m. x = Some (m, r) \<and> l = p @ m"
  by (auto simp: push_def)

lemma scan_number_split: "scan_number s = Some (l, r) \<Longrightarrow> s = l @ r \<and> l \<noteq> []"
proof -
  assume a: "scan_number s = Some (l, r)"
  obtain sg s1 where sg: "(case s of c # t \<Rightarrow> if c = CHR ''-'' then ([c], t) else ([], s) | [] \<Rightarrow> ([], s)) = (sg, s1)"
    by fastforce
  then have s: "s = sg @ s1" by (auto split: list.splits if_splits)
  from a sg obtain i s2 f s3 e where i: "scan_int s1 = Some (i, s2)" "scan_frac s2 = Some (f, s3)"
    "scan_exp s3 = Some (e, r)" "l = sg @ i @ f @ e"
    by (auto simp: scan_number_def split: option.splits dest!: push_SomeD)
  have "s1 = i @ s2 \<and> i \<noteq> []" using i(1) by (auto simp: scan_int_def split: list.splits if_splits dest: digits_of_split)
  moreover have "s2 = f @ s3" using i(2)
    by (auto simp: scan_frac_def split: list.splits if_splits dest!: push_SomeD dest: digits_of_split)
  moreover have "s3 = e @ r" using i(3)
    by (auto simp: scan_exp_def split: list.splits if_splits dest!: push_SomeD dest: digits_of_split)
  ultimately show ?thesis using s i(4) by simp
qed

lemma skip_ws_split: "\<exists>w. s = w @ skip_ws s"
  by (metis skip_ws_def takeWhile_dropWhile_id)

lemma length_skip_ws: "length (skip_ws s) \<le> length s"
  by (simp add: skip_ws_def length_dropWhile_le)

definition sfx :: "string \<Rightarrow> string \<Rightarrow> bool" where
  "sfx r s \<longleftrightarrow> (\<exists>p. p \<noteq> [] \<and> s = p @ r)"

lemma consumed_sfx: "sfx r s \<Longrightarrow> s = consumed s r @ r"
  by (auto simp: sfx_def consumed_def)

lemma sfx_trans [trans]: "sfx r s \<Longrightarrow> sfx s t \<Longrightarrow> sfx r t"
proof -
  assume "sfx r s" "sfx s t"
  then obtain p q where "p \<noteq> []" "s = p @ r" "t = q @ s" by (auto simp: sfx_def)
  then have "q @ p \<noteq> []" "t = (q @ p) @ r" by simp_all
  then show ?thesis unfolding sfx_def by blast
qed

lemma sfx_skip: "sfx r (skip_ws s) \<Longrightarrow> sfx r s"
proof -
  assume "sfx r (skip_ws s)"
  then obtain p where "p \<noteq> []" "skip_ws s = p @ r" by (auto simp: sfx_def)
  moreover obtain w where "s = w @ skip_ws s" using skip_ws_split by blast
  ultimately have "w @ p \<noteq> []" "s = (w @ p) @ r" by simp_all
  then show ?thesis unfolding sfx_def by blast
qed

lemma sfx_skip_head: "skip_ws s = c # u \<Longrightarrow> sfx u s"
  using sfx_skip[of u s] by (auto simp: sfx_def)

lemma sfx_length: "sfx r s \<Longrightarrow> length r < length s"
  by (auto simp: sfx_def)

lemma sfx_Cons: "sfx r s \<Longrightarrow> sfx r (c # s)" "sfx s (c # s)"
proof -
  show "sfx r s \<Longrightarrow> sfx r (c # s)" by (auto simp: sfx_def intro: exI[of _ "c # _"])
  show "sfx s (c # s)" by (simp add: sfx_def)
qed
 
lemma scan_string_sfx: "scan_string s = Some (b, r) \<Longrightarrow> sfx r s"
  by (auto simp: sfx_def dest!: scan_string_split)

lemma scan_word_Some: "scan_word w f s = Some (n, r) \<Longrightarrow> n = f w \<and> s = w @ r"
  by (auto simp: scan_word_def has_prefix_iff split: if_splits)

lemma parse_sfx:
  "parse_value k d s = Some (n, r) \<Longrightarrow> sfx r s \<and> s = node_text n @ r"
  "parse_elems k d s = Some (ns, r) \<Longrightarrow> sfx r s"
  "parse_members k d s = Some (ms, r) \<Longrightarrow> sfx r s"
proof (induction k d s and k d s and k d s arbitrary: n r and ns r and ms r
    rule: parse_value_parse_elems_parse_members.induct)
  case (2 k d s)
  then obtain c t where s: "s = c # t" by (cases s) (auto simp: parse_value.simps(2))
  have ok: "sfx r s \<and> s = node_text n @ r" if "sfx r s" "node_text n = consumed s r"
    using that consumed_sfx by simp
  have t: "sfx r s" if "sfx r (skip_ws t)" for r using that s sfx_skip sfx_Cons(1) by blast
  have e: "sfx (tl (skip_ws t)) s" if "has_prefix (skip_ws t) [x]" for x
    using that s sfx_skip_head sfx_Cons by (auto simp: has_prefix_iff)
  note eq = 2(3)[unfolded s parse_value.simps(2) list.case]
  show ?case
  proof (cases "c = CHR 0x22")
    case True
    then obtain b where "scan_string t = Some (b, r)" "n = NStr (consumed s r) (unquote b)" using eq s by auto
    then show ?thesis using scan_string_sfx sfx_Cons(1) s by (intro ok) auto
  next
    case q: False
    show ?thesis
    proof (cases "c = CHR ''[''")
      case True
      then show ?thesis using eq s e 2(1)[OF s q True] t by (intro ok) (auto split: if_splits)
    next
      case a: False
      show ?thesis
      proof (cases "c = CHR ''{''")
        case True
        then show ?thesis using eq s e 2(2)[OF s q a True] t by (intro ok) (auto split: if_splits)
      next
        case b: False
        have "s = node_text n @ r \<and> node_text n \<noteq> []"
          using eq q a b s scan_number_split[of s]
          by (auto split: if_splits dest!: scan_word_Some)
        then show ?thesis by (auto simp: sfx_def)
      qed
    qed
  qed
next
  case (4 k d s)
  then obtain n' r' where v: "parse_value k d s = Some (n', r')" by (auto simp: parse_elems.simps(2) split: option.splits)
  obtain c u where c: "skip_ws r' = c # u" using 4 v by (cases "skip_ws r'") (auto simp: parse_elems.simps(2))
  have "sfx u s" using sfx_skip_head[OF c] 4(1)[OF v] sfx_trans by blast
  moreover have "r = u \<or> sfx r u"
  proof (cases "c = CHR '',''")
    case True
    then obtain ns' where "parse_elems k d (skip_ws u) = Some (ns', r)" using 4(3) v c by (auto simp: parse_elems.simps(2))
    then show ?thesis using 4(2)[OF v _ c True] sfx_skip by fastforce
  next
    case False
    then show ?thesis using 4(3) v c by (simp add: parse_elems.simps(2) split: if_splits)
  qed
  ultimately show ?case using sfx_trans by blast
next
  case (6 k d s)
  then obtain t where s: "s = CHR 0x22 # t" by (cases s) (auto simp: parse_members.simps(2) split: if_splits)
  obtain b r1 where b: "scan_string t = Some (b, r1)" using 6 s by (auto simp: parse_members.simps(2) split: option.splits)
  obtain u where u: "skip_ws r1 = CHR '':'' # u" using 6 s b
    by (cases "skip_ws r1") (auto simp: parse_members.simps(2) split: if_splits)
  obtain n' r2 where v: "parse_value k d (skip_ws u) = Some (n', r2)"
    using 6 s b u by (auto simp: parse_members.simps(2) split: option.splits)
  obtain e w where w: "skip_ws r2 = e # w" using 6 s b u v by (cases "skip_ws r2") (auto simp: parse_members.simps(2))
  have "sfx r2 (skip_ws u)" using 6(1)[OF s _ b refl u _ v] by blast
  then have "sfx r2 u" by (rule sfx_skip)
  moreover have "sfx t s" using s sfx_Cons by simp
  ultimately have "sfx w s"
    using sfx_skip_head[OF w] sfx_skip_head[OF u] scan_string_sfx[OF b] sfx_trans by blast
  moreover have "r = w \<or> sfx r w"
  proof (cases "e = CHR '',''")
    case True
    then obtain ms' where m: "parse_members k d (skip_ws w) = Some (ms', r)"
      using 6(3) s b u v w by (auto simp: parse_members.simps(2))
    have "sfx r (skip_ws w)" using 6(2)[OF s _ b refl u _ v refl w True m] by simp
    then show ?thesis using sfx_skip by blast
  next
    case False
    then show ?thesis using 6(3) s b u v w by (simp add: parse_members.simps(2) split: if_splits)
  qed
  ultimately show ?case using sfx_trans by blast
qed auto

lemma parse_fuel_Suc:
  "2 * length s + 1 \<le> k \<Longrightarrow> parse_value (Suc k) d s = parse_value k d s"
  "2 * length s + 2 \<le> k \<Longrightarrow> parse_elems (Suc k) d s = parse_elems k d s"
  "2 * length s + 2 \<le> k \<Longrightarrow> parse_members (Suc k) d s = parse_members k d s"
proof (induction k d s and k d s and k d s rule: parse_value_parse_elems_parse_members.induct)
  case (2 k d s)
  show ?case
  proof (cases s)
    case (Cons c t)
    have "2 * length (skip_ws t) + 2 \<le> k" using 2(3) Cons length_skip_ws[of t] by simp
    then show ?thesis using 2(1)[OF Cons] 2(2)[OF Cons] Cons
      by (simp add: parse_value.simps(2)[of "Suc k"] parse_value.simps(2)[of k])
  qed (simp add: parse_value.simps(2))
next
  case (4 k d s)
  have v: "parse_value (Suc k) d s = parse_value k d s" using 4(1,3) by simp
  show ?case
  proof (cases "parse_value k d s")
    case (Some nr)
    obtain n r where nr: "nr = (n, r)" by (cases nr)
    then have r: "length r < length s" using parse_sfx(1) sfx_length Some by blast
    show ?thesis
    proof (cases "skip_ws r")
      case (Cons c u)
      have "length u < length r" using sfx_skip_head[OF Cons] sfx_length by blast
      then have "2 * length (skip_ws u) + 2 \<le> k" using r 4(3) length_skip_ws[of u] by simp
      then show ?thesis using 4(2)[OF Some nr[symmetric] Cons] Cons v Some nr
        by (simp add: parse_elems.simps(2)[of "Suc k"] parse_elems.simps(2)[of k])
    qed (simp add: parse_elems.simps(2)[of "Suc k"] parse_elems.simps(2)[of k] v Some nr)
  qed (simp add: parse_elems.simps(2)[of "Suc k"] parse_elems.simps(2)[of k] v)
next
  case (6 k d s)
  note eqs = parse_members.simps(2)[of "Suc k"] parse_members.simps(2)[of k]
  show ?case
  proof (cases "\<exists>t b r u. s = CHR 0x22 # t \<and> scan_string t = Some (b, r) \<and> skip_ws r = CHR '':'' # u")
    case True
    then obtain t b r u where s: "s = CHR 0x22 # t" "scan_string t = Some (b, r)" "skip_ws r = CHR '':'' # u" by blast
    have u: "length (skip_ws u) < length s"
      using s sfx_length[OF sfx_skip_head[OF s(3)]] sfx_length[OF scan_string_sfx[OF s(2)]] length_skip_ws[of u] by simp
    then have v: "parse_value (Suc k) d (skip_ws u) = parse_value k d (skip_ws u)"
      using 6(1)[OF s(1) _ s(2) refl s(3)] 6(3) by simp
    show ?thesis
    proof (cases "parse_value k d (skip_ws u)")
      case (Some nr)
      obtain n r2 where nr: "nr = (n, r2)" by (cases nr)
      then have r2: "length r2 < length (skip_ws u)" using parse_sfx(1) sfx_length Some by blast
      show ?thesis
      proof (cases "skip_ws r2")
        case (Cons e w)
        have "length w < length r2" using sfx_skip_head[OF Cons] sfx_length by blast
        then have "2 * length (skip_ws w) + 2 \<le> k" using r2 u 6(3) length_skip_ws[of w] by simp
        then show ?thesis using 6(2)[OF s(1) _ s(2) refl s(3) _ Some nr[symmetric] Cons] Cons v Some nr s
          by (simp add: eqs)
      qed (simp add: eqs s v Some nr)
    qed (simp add: eqs s v)
  next
    case False
    have "parse_members (Suc j) d s = None" for j
    proof (cases "\<exists>t b r. s = CHR 0x22 # t \<and> scan_string t = Some (b, r)")
      case True
      then obtain t b r where s: "s = CHR 0x22 # t" "scan_string t = Some (b, r)" by blast
      then show ?thesis using False by (cases "skip_ws r") (auto simp: parse_members.simps(2))
    qed (cases s; auto simp: parse_members.simps(2) split: option.split)
    then show ?thesis by simp
  qed
qed auto

lemma parse_fuel:
  "2 * length s + 1 \<le> k \<Longrightarrow> 2 * length s + 1 \<le> k' \<Longrightarrow> parse_value k d s = parse_value k' d s"
proof -
  have "parse_value (2 * length s + 1 + i) d s = parse_value (2 * length s + 1) d s" for i
    by (induction i) (simp_all add: parse_fuel_Suc(1))
  then show "2 * length s + 1 \<le> k \<Longrightarrow> 2 * length s + 1 \<le> k' \<Longrightarrow> ?thesis" by (metis le_Suc_ex)
qed

lemma first_value_text: "first_value s = Some (n, r) \<Longrightarrow> skip_ws s = node_text n @ r"
  using parse_sfx(1) by (auto simp: first_value_def)

section \<open>Decoding what was encoded\<close>

lemma node_text_of: "rawless v \<Longrightarrow> node_text (node_of html v) = print_json html v"
  by (cases v) auto

declare node_of.simps(5,6,7) [simp del]

lemma d_struct_encoded [simp]:
  "d_struct strict fs old (node_of html (JObj ms)) = d_members strict fs (map (\<lambda>(k, v). (k, node_of html v)) ms) old"
  by (simp add: d_struct_def node_of.simps(6))

lemma d_string_encoded [simp]: "d_string old (node_of html (JStr s)) = Some s"
  by (simp add: d_string_def)

lemma d_bool_encoded [simp]: "d_bool old (node_of html (JBool b)) = Some b"
  by (simp add: d_bool_def)

lemma int_literal_str: "int_literal (int_str i) = Some i"
proof -
  obtain c t where ct: "nat_str (nat i) = c # t" "is_digit c" using nat_str_head by blast
  then have "c \<noteq> CHR ''-''" by (auto simp: is_digit_def byte_def)
  moreover have "list_all is_digit (c # t)" using nat_str_digits[of "nat i"] ct(1) by (simp add: list_all_iff)
  moreover have "dec_val (c # t) = nat i" using dec_val_nat_str[of "nat i"] ct(1) by simp
  ultimately show ?thesis
    using ct nat_str_digits[of "nat (- i)"]
    by (cases "i < 0") (auto simp: int_literal_def int_str_def list_all_iff)
qed

lemma d_int_encoded [simp]: "lo \<le> i \<Longrightarrow> i \<le> hi \<Longrightarrow> d_int lo hi old (node_of html (JInt i)) = Some i"
  by (simp add: d_int_def int_literal_str)

lemma d_raw_encoded [simp]: "marshalled r \<Longrightarrow> d_raw old (node_of html (JRaw r)) = Some r"
proof -
  assume "marshalled r"
  then obtain v where v: "rawless v" "int (levels v) \<le> maxNestingDepth" "r = print_json True v"
    by (force simp: marshalled_def)
  have "first_value r = Some (node_of True v, [])"
    using no_raw.first_value_print[OF v(1,2), of "[]" True] v(3) by (simp add: stop_def)
  then show ?thesis using v by (simp add: d_raw_def node_of.simps(7) node_text_of)
qed

lemma whole_value_marshalled: "rawless v \<Longrightarrow> int (levels v) \<le> maxNestingDepth \<Longrightarrow> whole_value (print_json html v) = Some (node_of html v)"
  using no_raw.first_value_print[of v "[]" html] by (simp add: whole_value_def stop_def)

lemma d_list_encoded:
  assumes "\<forall>x \<in> set xs. d zero (node_of html (enc x)) = Some (c x)"
  shows "d_list zero d [] (node_of html (JArr (map enc xs))) = Some (map c xs)"
proof -
  have "d_elems zero d [] (map (node_of html) (map enc xs)) = Some (map c xs)"
    using assms by (induction xs) auto
  then show ?thesis by (simp add: d_list_def comp_def node_of.simps(5))
qed

text \<open>The map that decoding an encoded map makes.\<close>

definition rebuild :: "('a \<Rightarrow> 'b) \<Rightarrow> 'a gomap \<Rightarrow> 'b gomap" where
  "rebuild c m = foldl (\<lambda>a k. put k (c (the (lookup m k))) a) [] (keys m)"

lemma d_map_encoded:
  assumes "\<forall>k \<in> set (keys m). d zero (node_of html (enc (the (lookup m k)))) = Some (c (the (lookup m k)))"
  shows "d_map zero d [] (node_of html (enc_map enc m)) = Some (rebuild c m)"
proof -
  have "d_entries zero d (map (\<lambda>k. (k, node_of html (enc (the (lookup m k))))) ks) a n
      = Some (foldl (\<lambda>a k. put k (c (the (lookup m k))) a) a ks)"
    if "set ks \<subseteq> set (keys m)" for ks a n
    using that assms by (induction ks arbitrary: a) auto
  then show ?thesis by (simp add: d_map_def enc_map_def rebuild_def comp_def node_of.simps(6))
qed

lemma wf_foldl_put: "wf_map a \<Longrightarrow> wf_map (foldl (\<lambda>a k. put k (f k) a) a ks)"
  by (induction ks arbitrary: a) auto

lemma lookup_foldl_put:
  "wf_map a \<Longrightarrow> lookup (foldl (\<lambda>a k. put k (f k) a) a ks) k = (if k \<in> set ks then Some (f k) else lookup a k)"
  by (induction ks arbitrary: a) auto

lemma lookup_rebuild [simp]: "wf_map m \<Longrightarrow> lookup (rebuild c m) k = map_option c (lookup m k)"
  by (simp add: rebuild_def lookup_foldl_put gm.set_ks) (auto simp: gm.lkp_empty)

lemma wf_rebuild [simp]: "wf_map (rebuild c m)"
  by (simp add: rebuild_def wf_foldl_put)

lemma enc_map_plain: "\<forall>k \<in> set (keys m). utf8 k \<and> plain R (enc (the (lookup m k))) \<Longrightarrow> plain R (enc_map enc m)"
  by (auto simp: enc_map_def list_all_iff)

text \<open>How deep the encoded values are.\<close>

lemma levels_JArr_le: "\<forall>x \<in> set xs. levels (enc x) \<le> n \<Longrightarrow> levels (JArr (map enc xs)) \<le> Suc n"
  by auto

lemma levels_JObj_le: "\<forall>(k, v) \<in> set ms. levels v \<le> n \<Longrightarrow> levels (JObj ms) \<le> Suc n"
  by auto

declare levels.simps(1,2) [simp del]

lemma levels_marshalled: "marshalled r \<Longrightarrow> int (levels (JRaw r)) < maxNestingDepth"
proof -
  assume "marshalled r"
  then obtain v where v: "rawless v" "int (levels v) < maxNestingDepth" "r = print_json True v"
    by (force simp: marshalled_def)
  have "first_value r = Some (node_of True v, [])"
    using no_raw.first_value_print[OF v(1), of "[]" True] v by (simp add: stop_def)
  then show ?thesis using v by (simp add: node_levels_of)
qed

lemma unmarshal_encoded:
  assumes "raw_texts R" "plain R v" "int (levels v) \<le> maxNestingDepth"
  shows "unmarshal d zero (print_json html v @ [CHR 0x0A]) = d zero (node_of html v)"
  using raw_texts.whole_value_print[OF assms] by (simp add: unmarshal_def)

end
