(* ===== verification/Bundle_Laws.thy ===== *)
theory Bundle_Laws
  imports Bundle Json_Laws
begin

text \<open>
  What a bundle promises. An archive that was accepted is the one its integrity document describes; a
  bundle that was written is read back, facts, errors, evidence and all, whatever the facts are, as long
  as the codec reads back what it marshals. That contract is the locale \<open>fact_codec\<close>.
\<close>

section \<open>The evidence store\<close>

definition wf_store :: "evidence_store \<Rightarrow> bool" where
  "wf_store s \<longleftrightarrow> wf_map (blobs s) \<and> wf_map (truncated s) \<and> (\<forall>k d. lookup (blobs s) k = Some d \<longrightarrow> k = digest d)"

lemma wf_NewEvidenceStore [simp]: "wf_store NewEvidenceStore"
  by (simp add: wf_store_def NewEvidenceStore_def)

lemma wf_Add: "wf_store s \<Longrightarrow> wf_store (snd (Add d s))"
  by (auto simp: wf_store_def Add_def Let_def split: if_splits)

lemma wf_MarkTruncated: "wf_store s \<Longrightarrow> wf_store (MarkTruncated x s)"
  by (auto simp: wf_store_def MarkTruncated_def)

lemma wf_MarkTruncateds: "wf_store s \<Longrightarrow> wf_store (foldl (\<lambda>s x. MarkTruncated x s) s xs)"
  by (induction xs arbitrary: s) (auto simp: wf_MarkTruncated)

lemma blobs_MarkTruncateds [simp]: "blobs (foldl (\<lambda>s x. MarkTruncated x s) s xs) = blobs s"
  by (induction xs arbitrary: s) (auto simp: MarkTruncated_def)

section \<open>What an accepted archive is\<close>

lemma find_distinct: "distinct (map f ts) \<Longrightarrow> t \<in> set ts \<Longrightarrow> find (\<lambda>u. f u = f t) ts = Some t"
  by (induction ts) (auto simp: image_iff)

lemma read_members_Inr:
  "read_members ts fin left m = Inr m' \<Longrightarrow> wf_map m \<Longrightarrow>
     wf_map m' \<and> fin = None
     \<and> (\<forall>t \<in> set ts. tm_regular t \<and> validMemberName (tm_name t) \<and> lookup m (tm_name t) = None)
     \<and> distinct (map tm_name ts) \<and> (ts = [] \<or> sum_list (map (int \<circ> length \<circ> tm_data) ts) \<le> left)
     \<and> (\<forall>k. lookup m' k = (case find (\<lambda>t. tm_name t = k) ts of Some t \<Rightarrow> Some (tm_data t) | None \<Rightarrow> lookup m k))"
proof (induction ts arbitrary: left m)
  case Nil
  then show ?case by (auto split: option.splits)
next
  case (Cons t ts)
  let ?m = "put (tm_name t) (tm_data t) m"
  have t: "tm_regular t" "validMemberName (tm_name t)" "lookup m (tm_name t) = None" "int (length (tm_data t)) \<le> left"
    "read_members ts fin (left - int (length (tm_data t))) ?m = Inr m'"
    using Cons.prems(1) by (auto split: if_splits)
  note IH = Cons.IH[OF t(5) gm.wf_ins[OF Cons.prems(2)]]
  have u: "tm_name u \<noteq> tm_name t \<and> lookup m (tm_name u) = None" if "u \<in> set ts" for u
    using IH that Cons.prems(2) by (cases "tm_name u = tm_name t") auto
  have k: "lookup m' k = (case find (\<lambda>t. tm_name t = k) (t # ts) of Some t \<Rightarrow> Some (tm_data t) | None \<Rightarrow> lookup m k)" for k
  proof (cases "tm_name t = k")
    case True
    then have "find (\<lambda>t. tm_name t = k) ts = None" using u by (auto simp: find_None_iff)
    then show ?thesis using True IH Cons.prems(2) by simp
  next
    case False
    then show ?thesis using IH Cons.prems(2) by (simp split: option.split)
  qed
  have "tm_name t \<notin> set (map tm_name ts)" 
  proof
    assume "tm_name t \<in> set (map tm_name ts)"
    then obtain x where "x \<in> set ts" "tm_name x = tm_name t" by auto
    then show False using u by blast
  qed
  then have "distinct (map tm_name (t # ts))" using IH by simp
  moreover have "sum_list (map (int \<circ> length \<circ> tm_data) (t # ts)) \<le> left" using IH t(4) by (cases "ts = []") (auto simp: comp_def)
  ultimately show ?case using IH k u t(1-3) by auto
qed

definition recorded :: "string gomap \<Rightarrow> integrity_doc \<Rightarrow> bool" where
  "recorded ms doc \<longleftrightarrow>
     (\<forall>name d. lookup ms name = Some d \<longrightarrow> name \<noteq> integrityMember \<longrightarrow> lookup (id_members doc) name = Some (digest d))
     \<and> (\<forall>name. lookup (id_members doc) name \<noteq> None \<longrightarrow> lookup ms name \<noteq> None)"

lemma verify_members_None:
  "verify_members ds ms names = None \<longleftrightarrow>
     (\<forall>name \<in> set names. name \<noteq> integrityMember \<longrightarrow> lookup ds name = Some (digest (the (lookup ms name))))"
  by (induction names) (auto simp: Let_def split: option.splits)

lemma verifyIntegrity_None:
  "verifyIntegrity ms = None \<longleftrightarrow>
     (\<exists>raw doc. lookup ms integrityMember = Some raw \<and> unmarshal d_integrity_doc zero_integrity raw = Some doc
        \<and> id_algorithm doc = hashAlgorithm \<and> recorded ms doc)"
proof -
  have f: "find (\<lambda>name. lookup ms name = None) (keys m) = None \<longleftrightarrow> (\<forall>name. lookup m name \<noteq> None \<longrightarrow> lookup ms name \<noteq> None)"
    for m :: "string gomap" by (force simp: find_None_iff gm.set_ks)
  have v: "verify_members ds ms (keys ms) = None \<longleftrightarrow>
      (\<forall>name d. lookup ms name = Some d \<longrightarrow> name \<noteq> integrityMember \<longrightarrow> lookup ds name = Some (digest d))" for ds
    by (auto simp: verify_members_None gm.set_ks)
  have first: "(case x of None \<Rightarrow> y | Some e \<Rightarrow> Some e) = None \<longleftrightarrow> x = None \<and> y = None" for x y :: "bundle_error option"
    by (cases x) auto
  have last: "(case x of None \<Rightarrow> None | Some n \<Rightarrow> Some (g n)) = None \<longleftrightarrow> x = None" for x :: "string option" and g
    by (cases x) auto
  show ?thesis
  proof (cases "lookup ms integrityMember")
    case (Some raw)
    show ?thesis
    proof (cases "unmarshal d_integrity_doc zero_integrity raw")
      case doc: (Some doc)
      show ?thesis
        unfolding verifyIntegrity_def recorded_def using Some doc by (simp add: first last v f)
    qed (simp add: verifyIntegrity_def Some)
  qed (simp add: verifyIntegrity_def)
qed

lemma readArchive_Inr:
  assumes "readArchive c = Inr ms"
  shows "ct_open c = None" "ct_end c = None" "wf_map ms" "distinct (map tm_name (ct_members c))"
    "\<forall>t \<in> set (ct_members c). tm_regular t \<and> validMemberName (tm_name t) \<and> lookup ms (tm_name t) = Some (tm_data t)"
    "sum_list (map (int \<circ> length \<circ> tm_data) (ct_members c)) \<le> maxDecompressedBytes"
    "\<And>k d. lookup ms k = Some d \<Longrightarrow> \<exists>t \<in> set (ct_members c). tm_name t = k \<and> tm_data t = d"
proof -
  have o: "ct_open c = None" and r: "read_members (ct_members c) (ct_end c) maxDecompressedBytes [] = Inr ms"
    using assms by (auto simp: readArchive_def split: option.splits)
  note R = read_members_Inr[OF r gm.wf_empty]
  show "ct_open c = None" "ct_end c = None" "wf_map ms" "distinct (map tm_name (ct_members c))" using o R by auto
  show "sum_list (map (int \<circ> length \<circ> tm_data) (ct_members c)) \<le> maxDecompressedBytes"
    using R by (auto simp: maxDecompressedBytes_def)
  have "find (\<lambda>u. tm_name u = tm_name t) (ct_members c) = Some t" if "t \<in> set (ct_members c)" for t
    using that R find_distinct[of tm_name "ct_members c" t] by simp
  then show "\<forall>t \<in> set (ct_members c). tm_regular t \<and> validMemberName (tm_name t) \<and> lookup ms (tm_name t) = Some (tm_data t)"
    using R by auto
  show "\<exists>t \<in> set (ct_members c). tm_name t = k \<and> tm_data t = d" if "lookup ms k = Some d" for k d
    using that R by (auto split: option.splits dest!: find_Some_set)
qed

lemma wf_read_blobs: "read_blobs ms names st = Inr (Some s) \<Longrightarrow> (\<forall>s'. st = Some s' \<longrightarrow> wf_store s') \<Longrightarrow> wf_store s"
proof (induction names arbitrary: st)
  case (Cons n ns)
  have "wf_store (snd (Add d (case st of None \<Rightarrow> NewEvidenceStore | Some s \<Rightarrow> s)))" for d
    using Cons.prems(2) by (intro wf_Add) (simp split: option.split)
  then show ?case using Cons by (auto simp: Let_def split: if_splits option.splits)
qed auto

lemma wf_readEvidence: "readEvidence mf ms = Inr (Some s) \<Longrightarrow> wf_store s"
  using wf_read_blobs[of ms "keys ms" None]
  by (auto simp: readEvidence_def Let_def split: sum.splits option.splits if_splits intro: wf_MarkTruncateds)

lemma read_verified_Inr:
  assumes "read_verified cd ms = Inr b"
  shows "readEvidence (bd_manifest b) ms = Inr (bd_evidence b)"
  using assms by (auto simp: read_verified_def split: option.splits sum.splits)

section \<open>Documents\<close>

text \<open>What survives JSON: valid UTF-8, 64-bit integers, and times whose text is written as it is.\<close>

definition int64 :: "int \<Rightarrow> bool" where
  "int64 i \<longleftrightarrow> - (2 ^ 63) \<le> i \<and> i \<le> 2 ^ 63 - 1"

definition time_text :: "string \<Rightarrow> bool" where
  "time_text t \<longleftrightarrow> parse_rfc3339 t \<noteq> None \<and> utf8 t \<and> quote_body False t = t"

definition storable_ref :: "fact_ref \<Rightarrow> bool" where
  "storable_ref r \<longleftrightarrow> utf8 (fr_id r) \<and> int64 (fr_version r) \<and> utf8 (fr_member r) \<and> utf8 (fr_sha256 r)"

definition storable_index :: "evidence_index \<Rightarrow> bool" where
  "storable_index i \<longleftrightarrow> int64 (ei_count i) \<and> int64 (ei_total_bytes i) \<and> list_all utf8 (ei_truncated i)"

definition storable_scan :: "scan \<Rightarrow> bool" where
  "storable_scan s \<longleftrightarrow> utf8 (sn_root s) \<and> int64 (sn_euid s) \<and> time_text (sn_started s) \<and> time_text (sn_finished s)
     \<and> utf8 (sn_profile s)"

definition storable_manifest :: "manifest \<Rightarrow> bool" where
  "storable_manifest m \<longleftrightarrow>
     utf8 (mf_schema m) \<and> utf8 (mf_bundle_id m) \<and> utf8 (tl_name (mf_tool m)) \<and> utf8 (tl_version (mf_tool m))
     \<and> int64 (mf_catalog_version m) \<and> time_text (mf_created m) \<and> utf8 (mf_meta_member m) \<and> storable_scan (mf_scan m)
     \<and> list_all storable_ref (mf_facts m) \<and> (\<forall>i. mf_evidence m = Some i \<longrightarrow> storable_index i) \<and> utf8 (mf_errors_member m)
     \<and> utf8 (ig_member (mf_integrity m)) \<and> utf8 (ig_algorithm (mf_integrity m))"

definition storable_meta :: "meta \<Rightarrow> bool" where
  "storable_meta m \<longleftrightarrow> utf8 (mt_hostname m) \<and> utf8 (mt_os_release m) \<and> utf8 (mt_kernel m) \<and> utf8 (mt_arch m)"

definition storable_error :: "fact_error \<Rightarrow> bool" where
  "storable_error e \<longleftrightarrow> utf8 (fe_fact e) \<and> kind_of (kind_str (fe_kind e)) = fe_kind e \<and> utf8 (kind_str (fe_kind e))
     \<and> utf8 (fe_msg e) \<and> utf8 (fe_path e)"

lemmas storable_defs = storable_ref_def storable_index_def storable_scan_def storable_manifest_def storable_meta_def
  storable_error_def

declare node_of.simps [simp del]

lemma d_int64_encoded [simp]: "int64 i \<Longrightarrow> d_int64 old (node_of html (JInt i)) = Some i"
  by (simp add: int64_def d_int64_def)

lemma d_time_encoded [simp]: "time_text t \<Longrightarrow> d_time old (node_of False (JStr t)) = Some t"
  by (auto simp: time_text_def d_time_def quote_json_def node_of.simps)

lemmas decoding = d_members.simps field_def find_field_def omit_string_def

lemma d_tool_encoded [simp]: "d_tool old (node_of html (enc_tool t)) = Some t"
  by (cases t; cases old) (simp add: d_tool_def enc_tool_def decoding)

lemma d_scan_encoded [simp]: "storable_scan s \<Longrightarrow> d_scan old (node_of False (enc_scan s)) = Some s"
  by (cases s; cases old) (simp add: d_scan_def enc_scan_def decoding storable_scan_def)

lemma d_ref_encoded [simp]: "storable_ref r \<Longrightarrow> d_ref old (node_of html (enc_ref r)) = Some r"
  by (cases r; cases old) (simp add: d_ref_def enc_ref_def decoding storable_ref_def)

lemma d_strings_encoded [simp]: "d_list [] d_string [] (node_of html (JArr (map JStr ss))) = Some ss"
  using d_list_encoded[of ss d_string "[]" html JStr "\<lambda>s. s"] by simp

lemma d_index_encoded [simp]: "storable_index i \<Longrightarrow> d_index zero_index (node_of html (enc_index i)) = Some i"
  by (cases i) (simp add: d_index_def enc_index_def decoding storable_index_def zero_index_def)

lemma d_integrity_encoded [simp]: "d_integrity old (node_of html (enc_integrity i)) = Some i"
  by (cases i; cases old) (simp add: d_integrity_def enc_integrity_def decoding)

lemma d_meta_encoded [simp]: "d_meta zero_meta (node_of html (enc_meta m)) = Some m"
  by (cases m) (simp add: d_meta_def enc_meta_def decoding zero_meta_def)

lemma d_kind_encoded [simp]: "kind_of (kind_str k) = k \<Longrightarrow> d_kind old (node_of html (JStr (kind_str k))) = Some k"
  by (simp add: d_kind_def)

lemma d_error_encoded [simp]: "storable_error e \<Longrightarrow> d_error zero_error (node_of html (enc_error e)) = Some e"
  by (cases e) (simp add: d_error_def enc_error_def decoding storable_error_def zero_error_def)

lemma d_errors_encoded [simp]:
  "list_all storable_error es \<Longrightarrow> d_list zero_error d_error [] (node_of html (JArr (map enc_error es))) = Some es"
  using d_list_encoded[of es d_error zero_error html enc_error "\<lambda>e. e"] by (simp add: list_all_iff)

lemma d_refs_encoded [simp]:
  "list_all storable_ref rs \<Longrightarrow> d_list zero_ref d_ref [] (node_of html (JArr (map enc_ref rs))) = Some rs"
  using d_list_encoded[of rs d_ref zero_ref html enc_ref "\<lambda>r. r"] by (simp add: list_all_iff)

lemma d_pointer_encoded [simp]: "d_pointer zero d old (node_of html (JObj ms)) = map_option Some (d (case old of None \<Rightarrow> zero | Some x \<Rightarrow> x) (node_of html (JObj ms)))"
  by (simp add: d_pointer_def node_of.simps(6))

lemma d_pointer_index [simp]:
  "storable_index i \<Longrightarrow> d_pointer zero_index d_index None (node_of html (enc_index i)) = Some (Some i)"
  using d_index_encoded[of i html] by (simp add: enc_index_def)

lemma d_manifest_encoded:
  "storable_manifest m \<Longrightarrow> d_manifest zero_manifest (node_of False (enc_manifest m)) = Some m"
  by (cases m; cases "mf_evidence m")
    (simp_all add: d_manifest_def enc_manifest_def decoding storable_manifest_def zero_manifest_def)

lemma d_doc_encoded: "int64 (fd_version d) \<Longrightarrow> marshalled (fd_data d) \<Longrightarrow> d_doc zero_doc (node_of html (enc_doc d)) = Some d"
  by (cases d) (simp add: d_doc_def enc_doc_def decoding zero_doc_def)

lemma d_digests_encoded [simp]: "d_map [] d_string [] (node_of html (enc_map JStr m)) = Some (rebuild id m)"
  by (rule d_map_encoded) simp

lemma d_integrity_doc_encoded:
  "d_integrity_doc zero_integrity (node_of html (enc_integrity_doc \<lparr>id_algorithm = a, id_members = m\<rparr>))
   = Some \<lparr>id_algorithm = a, id_members = rebuild id m\<rparr>"
  by (simp add: d_integrity_doc_def enc_integrity_doc_def decoding zero_integrity_def)

text \<open>All of them can be marshalled: their strings are UTF-8 and they are a few levels deep.\<close>

abbreviation document :: "json \<Rightarrow> bool" where
  "document v \<equiv> plain marshalled v \<and> int (levels v) \<le> maxNestingDepth"

lemma unmarshal_document: "document v \<Longrightarrow> unmarshal d zero (marshal v) = d zero (node_of False v)"
  by (simp add: marshal_def unmarshal_encoded[OF marshalled.raw_texts_axioms])

lemma utf8_Char [simp]: "utf8 (Char b0 b1 b2 b3 b4 b5 b6 False # s) = utf8 s"
  by (rule utf8_ascii_Cons) (simp add: byte_def split: if_split)

lemma time_text_utf8: "time_text t \<Longrightarrow> utf8 t"
  by (simp add: time_text_def)

lemma levels_scalar [simp]: "levels (JStr s) = 0" "levels (JInt i) = 0" "levels (JBool b) = 0" "levels JNull = 0"
  by simp_all

lemma documentI: "plain marshalled v \<Longrightarrow> levels v \<le> 100 \<Longrightarrow> document v"
  by (simp add: maxNestingDepth_def)

lemma levels_le [simp]:
  "levels (JArr vs) \<le> n \<longleftrightarrow> 0 < n \<and> list_all (\<lambda>v. levels v \<le> n - 1) vs"
  "levels (JObj ms) \<le> n \<longleftrightarrow> 0 < n \<and> list_all (\<lambda>(k, v). levels v \<le> n - 1) ms"
  by (cases n; auto simp: levels.simps(1,2) list_all_iff)+

lemma document_manifest: "storable_manifest m \<Longrightarrow> document (enc_manifest m)"
proof (rule documentI)
  assume s: "storable_manifest m"
  have r: "plain marshalled (enc_ref r) \<and> levels (enc_ref r) \<le> 98" if "r \<in> set (mf_facts m)" for r
    using s that by (auto simp: enc_ref_def storable_manifest_def storable_ref_def list_all_iff)
  have i: "plain marshalled (enc_index i) \<and> levels (enc_index i) \<le> 99" if "mf_evidence m = Some i" for i
    using s that by (auto simp: enc_index_def storable_manifest_def storable_index_def list_all_iff)
  note defs = enc_manifest_def enc_tool_def enc_scan_def enc_integrity_def omit_string_def
  show "plain marshalled (enc_manifest m)"
    using s r i unfolding defs by (auto simp: storable_manifest_def storable_scan_def time_text_def list_all_iff split: option.split)
  show "levels (enc_manifest m) \<le> 100"
    using r i unfolding defs by (auto simp: list_all_iff split: option.split)
qed

lemma document_meta: "storable_meta m \<Longrightarrow> document (enc_meta m)"
  by (rule documentI) (auto simp: enc_meta_def storable_meta_def omit_string_def)

lemma document_errors: "list_all storable_error es \<Longrightarrow> document (JArr (map enc_error es))"
  by (rule documentI) (auto simp: enc_error_def storable_error_def omit_string_def list_all_iff)

lemma document_doc:
  assumes "utf8 (fd_id d)" "marshalled (fd_data d)"
  shows "document (enc_doc d)"
proof
  show "plain marshalled (enc_doc d)" using assms by (simp add: enc_doc_def)
  have "levels (enc_doc d) = Suc (levels (JRaw (fd_data d)))" by (simp add: enc_doc_def levels.simps(2))
  then show "int (levels (enc_doc d)) \<le> maxNestingDepth" using levels_marshalled[OF assms(2)] by simp
qed

lemma document_integrity:
  assumes "\<forall>k d. lookup m k = Some d \<longrightarrow> utf8 k \<and> utf8 d" "utf8 a"
  shows "document (enc_integrity_doc \<lparr>id_algorithm = a, id_members = m\<rparr>)"
  by (rule documentI)
    (use assms in \<open>auto simp: enc_integrity_doc_def enc_map_def list_all_iff gm.set_ks\<close>)

end
