(* ===== verification/Bundle_Roundtrip.thy ===== *)
theory Bundle_Roundtrip
  imports Bundle_Laws
begin

text \<open>
  What was written is read back: facts, fact errors and evidence. What the format asks of the facts is the
  locale \<open>fact_codec\<close>, and \<open>storable\<close> says what else a bundle must be for its documents to survive JSON.
\<close>

section \<open>The archive of a list of members\<close>

definition archive :: "member list \<Rightarrow> container" where
  "archive ms = \<lparr>ct_open = None,
     ct_members = map (\<lambda>(n, d). \<lparr>tm_name = n, tm_regular = True, tm_data = d, tm_error = None\<rparr>) ms, ct_end = None\<rparr>"

definition size_of :: "member list \<Rightarrow> int" where
  "size_of ms = (\<Sum>(n, d) \<leftarrow> ms. int (length d))"

lemma size_of_simps [simp]: "size_of [] = 0" "size_of ((n, d) # ms) = int (length d) + size_of ms"
  by (simp_all add: size_of_def)

lemma size_of_nonneg: "0 \<le> size_of ms"
  by (induction ms) auto

lemma read_members_archive:
  assumes "distinct (map fst ms)" "\<forall>n \<in> set (map fst ms). validMemberName n \<and> lookup m n = None"
    "size_of ms \<le> left" "wf_map m"
  shows "\<exists>mm. read_members (ct_members (archive ms)) None left m = Inr mm \<and> wf_map mm
    \<and> (\<forall>k. lookup mm k = (case map_of ms k of Some d \<Rightarrow> Some d | None \<Rightarrow> lookup m k))"
  using assms
proof (induction ms arbitrary: left m)
  case Nil
  then show ?case by (simp add: archive_def)
next
  case (Cons x ms)
  obtain n d where x: "x = (n, d)" by (cases x)
  have l: "int (length d) \<le> left" using Cons.prems(3) x size_of_nonneg[of ms] by simp
  have "\<exists>mm. read_members (ct_members (archive ms)) None (left - int (length d)) (put n d m) = Inr mm \<and> wf_map mm
    \<and> (\<forall>k. lookup mm k = (case map_of ms k of Some d \<Rightarrow> Some d | None \<Rightarrow> lookup (put n d m) k))"
  proof (rule Cons.IH)
    show "\<forall>n' \<in> set (map fst ms). validMemberName n' \<and> lookup (put n d m) n' = None"
      using Cons.prems(1,2) x by auto
  qed (use Cons.prems x in auto)
  then obtain mm where mm: "read_members (ct_members (archive ms)) None (left - int (length d)) (put n d m) = Inr mm"
    "wf_map mm" "\<forall>k. lookup mm k = (case map_of ms k of Some d \<Rightarrow> Some d | None \<Rightarrow> lookup (put n d m) k)" by blast
  have "map_of ms n = None" using Cons.prems(1) x by (simp add: map_of_eq_None_iff)
  then have "lookup mm k = (case map_of (x # ms) k of Some d \<Rightarrow> Some d | None \<Rightarrow> lookup m k)" for k
    using mm(3) x by (simp split: option.split)
  moreover have "read_members (ct_members (archive (x # ms))) None left m = Inr mm"
    using mm(1) x l Cons.prems(2) by (simp add: archive_def)
  ultimately show ?case using mm(2) by blast
qed

lemma readArchive_archive:
  assumes "distinct (map fst ms)" "list_all (\<lambda>(n, d). validMemberName n) ms" "size_of ms \<le> maxDecompressedBytes"
  obtains mm where "readArchive (archive ms) = Inr mm" "wf_map mm" "\<And>k. lookup mm k = map_of ms k"
proof -
  have "\<forall>n \<in> set (map fst ms). validMemberName n \<and> lookup ([] :: string gomap) n = None"
    using assms(2) by (auto simp: list_all_iff)
  from read_members_archive[OF assms(1) this assms(3) gm.wf_empty]
  obtain mm where mm: "read_members (ct_members (archive ms)) None maxDecompressedBytes [] = Inr mm" "wf_map mm"
    "\<forall>k. lookup mm k = (case map_of ms k of Some d \<Rightarrow> Some d | None \<Rightarrow> lookup [] k)" by blast
  have "readArchive (archive ms) = Inr mm" using mm(1) by (simp add: readArchive_def archive_def)
  moreover have "lookup mm k = map_of ms k" for k using mm(3) by (simp split: option.split)
  ultimately show ?thesis using mm(2) that by blast
qed

lemma digest_map_wf: "wf_map (digest_map ms)"
  unfolding digest_map_def by (induction ms rule: rev_induct) (auto split: prod.split)

lemma lookup_digest_map:
  "distinct (map fst ms) \<Longrightarrow> lookup (digest_map ms) k = map_option digest (map_of ms k)"
proof (induction ms rule: rev_induct)
  case (snoc x ms)
  then have "map_of ms (fst x) = None" by (simp add: map_of_eq_None_iff)
  then show ?case using snoc
    by (auto simp: digest_map_def map_add_def split: prod.split option.split)
qed (simp add: digest_map_def)

section \<open>Digests as names\<close>

lemma hex_digest: "hex_id 64 (digest d)"
  by (simp add: hex_id_def digest_def length_hex_encode length_sum256 hex_encode_is_hex list_all_iff)

lemma length_digest [simp]: "length (digest d) = 64"
  using hex_digest by (simp add: hex_id_def)

lemma is_hex_ascii: "is_hex c \<Longrightarrow> byte c < 0x80 \<and> c \<noteq> CHR ''.''"
  by (auto simp: is_hex_def byte_def)

lemma utf8_hex: "list_all is_hex s \<Longrightarrow> utf8 s"
  by (rule utf8_ascii) (auto simp: ascii_def list_all_iff dest: is_hex_ascii)

lemma utf8_digest [simp]: "utf8 (digest d)"
  using hex_digest[of d] by (auto simp: hex_id_def intro: utf8_hex)

lemma evidence_sum_name: "evidence_sum (evidencePrefix @ digest d @ evidenceSuffix) = Some (digest d)"
  by (simp add: evidence_sum_def Let_def has_suffix_def hex_digest)

lemma one_dot: "list_all (\<lambda>c. c \<noteq> CHR ''.'') a \<Longrightarrow> list_all (\<lambda>c. c \<noteq> CHR ''.'') b \<Longrightarrow> \<not> contains (a @ CHR ''.'' # b) ''..''"
proof
  assume a: "list_all (\<lambda>c. c \<noteq> CHR ''.'') a" "list_all (\<lambda>c. c \<noteq> CHR ''.'') b"
  assume "contains (a @ CHR ''.'' # b) ''..''"
  then obtain p q where "a @ CHR ''.'' # b = p @ ''..'' @ q" by (auto simp: contains_iff)
  then have "count_list (a @ CHR ''.'' # b) CHR ''.'' = count_list (p @ ''..'' @ q) CHR ''.''" by simp
  moreover have "count_list x CHR ''.'' = 0" if "list_all (\<lambda>c. c \<noteq> CHR ''.'') x" for x
    using that by (induction x) auto
  ultimately show False using a by simp
qed

lemma evidence_name_valid: "validMemberName (evidencePrefix @ digest d @ evidenceSuffix)"
proof -
  have "list_all (\<lambda>c. c \<noteq> CHR ''.'') (digest d)"
    using hex_digest[of d] by (auto simp: hex_id_def list_all_iff dest: is_hex_ascii)
  then have "\<not> contains ((evidencePrefix @ digest d) @ CHR ''.'' # ''blob'') ''..''"
    by (intro one_dot) (simp_all add: evidencePrefix_def)
  then show ?thesis by (simp add: validMemberName_def evidencePrefix_def evidenceSuffix_def has_prefix_def)
qed

section \<open>Evidence\<close>

abbreviation add_all :: "string list \<Rightarrow> evidence_store \<Rightarrow> evidence_store" where
  "add_all ds s \<equiv> foldl (\<lambda>s d. snd (Add d s)) s ds"

lemma wf_add_all: "wf_store s \<Longrightarrow> wf_store (add_all ds s)"
  by (induction ds arbitrary: s) (auto simp: wf_Add)

lemma lookup_add_all:
  "lookup (blobs (add_all ds s)) k = (case lookup (blobs s) k of Some d \<Rightarrow> Some d | None \<Rightarrow> find (\<lambda>d. digest d = k) ds)"
  by (induction ds arbitrary: s) (auto simp: Add_def Let_def split: option.split)

lemma truncated_add_all: "truncated (add_all ds s) = truncated s"
  by (induction ds arbitrary: s) (auto simp: Add_def Let_def)

lemma read_blobs_names:
  assumes "\<forall>n \<in> set names. has_prefix n evidencePrefix \<longrightarrow> evidence_sum n = Some (digest (the (lookup ms n)))"
  shows "read_blobs ms names store = Inr
    (let ds = map (\<lambda>n. the (lookup ms n)) (filter (\<lambda>n. has_prefix n evidencePrefix) names) in
     if ds = [] then store else Some (add_all ds (case store of None \<Rightarrow> NewEvidenceStore | Some s \<Rightarrow> s)))"
  using assms by (induction names arbitrary: store) (auto simp: Let_def)

text \<open>Two stores that hold the same blobs and the same truncated sources.\<close>

definition same_store :: "evidence_store \<Rightarrow> evidence_store \<Rightarrow> bool" where
  "same_store s t \<longleftrightarrow> (\<forall>k. Get s k = Get t k) \<and> TruncatedSources s = TruncatedSources t"

lemma same_store_index: "wf_store s \<Longrightarrow> wf_store t \<Longrightarrow> same_store s t \<Longrightarrow> store_index s = store_index t"
proof -
  assume a: "wf_store s" "wf_store t" "same_store s t"
  then have g: "lookup (blobs s) k = lookup (blobs t) k" for k by (simp add: same_store_def Get_def)
  then have "keys (blobs s) = keys (blobs t)" using a by (intro gm.ks_unique) (auto simp: wf_store_def)
  then show ?thesis using a(3) g by (simp add: store_index_def Len_def TotalBytes_def same_store_def)
qed

lemma lookup_marked:
  "lookup (truncated (foldl (\<lambda>s x. MarkTruncated x s) s xs)) k =
     (if k \<in> Text ` set xs then Some () else lookup (truncated s) k)"
  by (induction xs arbitrary: s) (auto simp: MarkTruncated_def)

lemma readEvidence_written:
  assumes wf: "wf_store s" and tx: "\<forall>x \<in> set (TruncatedSources s). Text x = x"
    and ms: "\<And>n d. lookup ms n = Some d \<Longrightarrow> has_prefix n evidencePrefix \<Longrightarrow> n = evidencePrefix @ digest d @ evidenceSuffix"
    and ev: "\<And>k d. lookup (blobs s) k = Some d \<longleftrightarrow> lookup ms (evidencePrefix @ k @ evidenceSuffix) = Some d"
    and mf: "mf_evidence mf = Some (store_index s)"
  shows "\<exists>t. readEvidence mf ms = Inr (Some t) \<and> same_store t s"
proof -
  let ?names = "filter (\<lambda>n. has_prefix n evidencePrefix) (keys ms)"
  let ?ds = "map (\<lambda>n. the (lookup ms n)) ?names"
  let ?t = "foldl (\<lambda>s src. MarkTruncated src s) (add_all ?ds NewEvidenceStore) (TruncatedSources s)"
  have "\<forall>n \<in> set (keys ms). has_prefix n evidencePrefix \<longrightarrow> evidence_sum n = Some (digest (the (lookup ms n)))"
    using ms evidence_sum_name by (fastforce simp: gm.set_ks)
  note rb = read_blobs_names[OF this, of None]
  then have rb: "(case (case read_blobs ms (keys ms) None of Inr st \<Rightarrow> st | Inl _ \<Rightarrow> None) of None \<Rightarrow> NewEvidenceStore | Some s \<Rightarrow> s)
      = add_all ?ds NewEvidenceStore" "\<exists>st. read_blobs ms (keys ms) None = Inr st"
    by (auto simp: Let_def)
  have wft: "wf_store ?t" by (intro wf_MarkTruncateds wf_add_all) simp
  have get: "Get ?t k = Get s k" for k
  proof -
    have "find (\<lambda>d. digest d = k) ?ds = lookup (blobs s) k"
    proof (cases "find (\<lambda>d. digest d = k) ?ds")
      case None
      then have n: "\<forall>d \<in> set ?ds. digest d \<noteq> k" by (simp add: find_None_iff)
      have "lookup (blobs s) k \<noteq> Some d" for d
      proof
        assume l: "lookup (blobs s) k = Some d"
        then have "lookup ms (evidencePrefix @ k @ evidenceSuffix) = Some d" using ev by blast
        then have "d \<in> set ?ds" by (force simp: gm.set_ks)
        then show False using n l wf by (auto simp: wf_store_def)
      qed
      then show ?thesis using None by (cases "lookup (blobs s) k") auto
    next
      case (Some d)
      then have "d \<in> set ?ds" "digest d = k" by (auto dest!: find_Some_set)
      then obtain n where n: "n \<in> set (keys ms)" "has_prefix n evidencePrefix" "the (lookup ms n) = d" by auto
      then have "lookup ms n = Some d" by (auto simp: gm.set_ks)
      then have "lookup (blobs s) k = Some d" using ms n(2) ev \<open>digest d = k\<close> by blast
      then show ?thesis using Some by simp
    qed
    then show ?thesis by (simp add: Get_def lookup_add_all NewEvidenceStore_def)
  qed
  have "keys (truncated ?t) = keys (truncated s)"
  proof (rule gm.ks_unique)
    have "Text ` set (keys (truncated s)) = set (keys (truncated s))" using tx by (auto simp: TruncatedSources_def)
    then show "lookup (truncated ?t) k = lookup (truncated s) k" for k
      by (cases "lookup (truncated s) k")
        (simp_all add: lookup_marked truncated_add_all NewEvidenceStore_def TruncatedSources_def gm.set_ks)
  qed (use wft wf in \<open>auto simp: wf_store_def TruncatedSources_def\<close>)
  then have "TruncatedSources ?t = TruncatedSources s" unfolding TruncatedSources_def .
  then have same: "same_store ?t s" using get by (simp add: same_store_def)
  then have "store_index ?t = store_index s" by (intro same_store_index wft wf)
  then have "readEvidence mf ms = Inr (Some ?t)"
    using rb mf unfolding readEvidence_def by (auto simp: Let_def store_index_def)
  then show ?thesis using same by blast
qed

section \<open>The members of a written bundle\<close>

text \<open>
  A bundle whose content JSON keeps: the documents are storable, every fact has a member name that reading
  accepts, every error a kind of its own text, and the evidence is as the store keeps it.
\<close>

definition storable :: "'v codec \<Rightarrow> ('v fact \<Rightarrow> bool) \<Rightarrow> 'v fact_bundle \<Rightarrow> 'v fact_set \<Rightarrow> bool" where
  "storable cd good b fs \<longleftrightarrow>
     bd_facts b = Some fs \<and> wf_set fs \<and> storable_manifest (written_manifest cd b fs) \<and> storable_meta (bd_meta b)
     \<and> list_all (\<lambda>i. good (the (lookup (facts fs) i)) \<and> validMemberName (factsPrefix @ i @ factsSuffix)) (IDs fs)
     \<and> list_all storable_error (Errors fs)
     \<and> (case bd_evidence b of None \<Rightarrow> True | Some s \<Rightarrow> wf_store s \<and> list_all (\<lambda>x. Text x = x) (TruncatedSources s))"

lemma storable_fact: "storable cd good b fs \<Longrightarrow> lookup (facts fs) i = Some f \<Longrightarrow>
  good f \<and> fact_id f = i \<and> utf8 i \<and> int64 (fact_version f) \<and> validMemberName (factsPrefix @ i @ factsSuffix)
  \<and> storable_ref (fact_index cd fs i)"
proof -
  assume s: "storable cd good b fs" and f: "lookup (facts fs) i = Some f"
  then have i: "i \<in> set (IDs fs)" by (simp add: set_IDs)
  then have r: "storable_ref (fact_index cd fs i)"
    using s by (simp add: storable_def storable_manifest_def written_manifest_def list_all_iff)
  then have "utf8 i \<and> int64 (fact_version f)" using f by (simp add: storable_ref_def fact_index_def)
  moreover have "good f \<and> validMemberName (factsPrefix @ i @ factsSuffix)" using s i f by (auto simp: storable_def list_all_iff)
  moreover have "fact_id f = i" using s f by (auto simp: storable_def wf_set_def)
  ultimately show ?thesis using r by blast
qed

lemmas member_names = manifestMember_def metaMember_def errorsMember_def integrityMember_def factsPrefix_def
  evidencePrefix_def

lemma fixed_names [simp]: "validMemberName manifestMember" "validMemberName metaMember" "validMemberName errorsMember"
  "validMemberName integrityMember"
  by code_simp+

lemma fact_member_name: "fst (fact_member cd fs i) = factsPrefix @ i @ factsSuffix"
  by (simp add: fact_member_def Let_def)

lemma map_fst_evidenceMembers: "map fst (evidenceMembers ev) =
   (case ev of None \<Rightarrow> [] | Some s \<Rightarrow> map (\<lambda>k. evidencePrefix @ k @ evidenceSuffix) (Digests s))"
  by (auto simp: evidenceMembers_def comp_def split: option.split)

lemma map_fst_content: "map fst (content_members cd b fs) =
   [manifestMember, metaMember] @ map (\<lambda>i. factsPrefix @ i @ factsSuffix) (IDs fs)
   @ map fst (evidenceMembers (bd_evidence b)) @ [errorsMember]"
  by (simp add: content_members_def comp_def fact_member_name)

lemma distinct_content:
  assumes "storable cd good b fs"
  shows "distinct (map fst (content_members cd b fs) @ [integrityMember])"
proof -
  have "distinct (IDs fs)" using assms IDs_distinct by (auto simp: storable_def)
  then have f: "distinct (map (\<lambda>i. factsPrefix @ i @ factsSuffix) (IDs fs))" by (simp add: distinct_map inj_on_def)
  have e: "distinct (map fst (evidenceMembers (bd_evidence b)))"
    using assms gm.distinct_ks unfolding map_fst_evidenceMembers
    by (auto simp: storable_def wf_store_def Digests_def distinct_map inj_on_def split: option.splits)
  show ?thesis unfolding map_fst_content
    using f e by (auto simp: map_fst_evidenceMembers member_names split: option.splits)
qed

lemma written_valid:
  assumes "storable cd good b fs" "(n, d) \<in> set (content_members cd b fs)"
  shows "validMemberName n \<and> utf8 n"
proof -
  have "n \<in> set (map fst (content_members cd b fs))" using assms(2) by force
  then consider "n \<in> {manifestMember, metaMember, errorsMember}"
    | i where "i \<in> set (IDs fs)" "n = factsPrefix @ i @ factsSuffix"
    | st k where "bd_evidence b = Some st" "k \<in> set (Digests st)" "n = evidencePrefix @ k @ evidenceSuffix"
    unfolding map_fst_content map_fst_evidenceMembers by (cases "bd_evidence b") auto
  then show ?thesis
  proof cases
    case 1
    then have "utf8 n" by (auto simp: member_names)
    then show ?thesis using 1 by auto
  next
    case 2
    then obtain f where "lookup (facts fs) i = Some f" by (auto simp: set_IDs)
    then show ?thesis using storable_fact[OF assms(1)] 2(2)
      by (auto simp: factsPrefix_def factsSuffix_def intro: utf8_append)
  next
    case 3
    then obtain d where "k = digest d" using assms(1) by (auto simp: storable_def wf_store_def Digests_def gm.set_ks)
    then show ?thesis using 3(3) evidence_name_valid[of d]
      by (auto simp: evidencePrefix_def evidenceSuffix_def intro: utf8_append)
  qed
qed

lemma fact_members_only:
  "(n, d) \<in> set (content_members cd b fs) \<Longrightarrow> has_prefix n factsPrefix \<Longrightarrow> \<exists>i \<in> set (IDs fs). (n, d) = fact_member cd fs i"
  by (auto simp: content_members_def evidenceMembers_def member_names has_prefix_def split: option.splits)

lemma evidence_members_only:
  "(n, d) \<in> set (content_members cd b fs) \<Longrightarrow> has_prefix n evidencePrefix \<Longrightarrow> (n, d) \<in> set (evidenceMembers (bd_evidence b))"
  by (auto simp: content_members_def fact_member_def Let_def member_names has_prefix_def)

section \<open>The contract of a codec\<close>

definition decode_data :: "'v codec \<Rightarrow> fact_id \<Rightarrow> int \<Rightarrow> string \<Rightarrow> 'v fact option" where
  "decode_data cd i v raw =
     (case decoderFor cd i of
        None \<Rightarrow> Some (unknown_fact cd i v raw)
      | Some d \<Rightarrow> if dc_version d \<noteq> v then Some (unknown_fact cd i v raw) else Option.bind (whole_value raw) (dc_decode d))"

abbreviation fact_json :: "'v codec \<Rightarrow> 'v fact \<Rightarrow> string" where
  "fact_json cd f \<equiv> print_json True (cd_marshal cd (payload f))"

lemma read_fact_indexed:
  assumes l: "lookup ms (fr_member (fact_index cd fs i)) = Some (snd (fact_member cd fs i))"
    and f: "lookup (facts fs) i = Some f" and u: "utf8 i" and v: "int64 (fact_version f)"
    and m: "marshalled (fact_json cd f)"
    and d: "decode_data cd i (fact_version f) (fact_json cd f) = Some g"
  shows "read_fact cd ms (fact_index cd fs i) = Inr g"
proof -
  let ?doc = "\<lparr>fd_id = i, fd_version = fact_version f, fd_data = fact_json cd f\<rparr>"
  have raw: "snd (fact_member cd fs i) = marshal (enc_doc ?doc)" using f by (simp add: fact_member_def Let_def)
  have "unmarshal d_doc zero_doc (marshal (enc_doc ?doc)) = Some ?doc"
    using document_doc[of ?doc] u m v by (simp add: unmarshal_document d_doc_encoded)
  then show ?thesis using l raw f d
    by (auto simp: read_fact_def fact_index_def decode_data_def split: option.splits if_splits)
qed

lemma restored_errors:
  assumes "wf_set fs"
  shows "Err (foldl (\<lambda>s e. PutError e s) acc (Errors fs)) i = (case Err fs i of Some e \<Rightarrow> Some e | None \<Rightarrow> Err acc i)"
proof (cases "Err fs i")
  case None
  have "i \<notin> fe_fact ` set (Errors fs)"
    using None assms by (auto simp: set_Errors wf_set_def Err_def)
  then show ?thesis using None by (simp add: es.err_put_errors_other)
next
  case (Some e)
  then have "fe_fact e = i" "e \<in> set (Errors fs)" using assms by (auto simp: set_Errors wf_set_def Err_def)
  then obtain e' where e': "e' \<in> set (Errors fs)" "fe_fact e' = i"
    "Err (foldl (\<lambda>s e. PutError e s) acc (Errors fs)) i = Some e'"
    using es.err_put_errors_mem[of i "Errors fs" acc] by auto
  then have "Err fs i = Some e'" using assms by (auto simp: set_Errors wf_set_def Err_def)
  then show ?thesis using e'(3) Some by simp
qed

lemma facts_put_errors:
  "wf_set acc \<Longrightarrow> lookup (facts (foldl (\<lambda>s e. PutError e s) acc es)) i = (if i \<in> fe_fact ` set es then None else lookup (facts acc) i)"
  by (induction es arbitrary: acc) (auto simp: wf_PutError)

lemma restored_facts:
  assumes "wf_set fs" "wf_set acc" "lookup (facts acc) i = map_option canon (lookup (facts fs) i)"
  shows "lookup (facts (foldl (\<lambda>s e. PutError e s) acc (Errors fs))) i = map_option canon (lookup (facts fs) i)"
proof -
  have "lookup (facts fs) i = None" if "i \<in> fe_fact ` set (Errors fs)"
    using that assms(1) by (auto simp: set_Errors wf_set_def Err_def)
  then show ?thesis using assms(2,3) by (simp add: facts_put_errors)
qed

text \<open>What reading a written bundle gives.\<close>

definition restored :: "'v codec \<Rightarrow> ('v fact \<Rightarrow> 'v fact) \<Rightarrow> 'v fact_bundle \<Rightarrow> 'v fact_set \<Rightarrow> 'v fact_bundle \<Rightarrow> 'v fact_set \<Rightarrow> bool" where
  "restored cd canon b fs b' fs' \<longleftrightarrow>
     bd_manifest b' = written_manifest cd b fs \<and> bd_meta b' = bd_meta b \<and> bd_facts b' = Some fs' \<and> wf_set fs'
     \<and> (\<forall>i. lookup (facts fs') i = map_option canon (lookup (facts fs) i)) \<and> (\<forall>i. Err fs' i = Err fs i)
     \<and> (case (bd_evidence b, bd_evidence b') of (None, None) \<Rightarrow> True | (Some s, Some s') \<Rightarrow> same_store s' s | _ \<Rightarrow> False)"

locale fact_codec =
  fixes cd :: "'v codec"
    and good :: "'v fact \<Rightarrow> bool"
    and canon :: "'v fact \<Rightarrow> 'v fact"
  assumes json: "good f \<Longrightarrow> marshalled (fact_json cd f)"
    and decoded: "good f \<Longrightarrow> decode_data cd (fact_id f) (fact_version f) (fact_json cd f) = Some (canon f)"
    and canon_id: "good f \<Longrightarrow> fact_id (canon f) = fact_id f"
begin

lemma read_refs_written:
  assumes st: "storable cd good b fs"
    and ms: "\<And>i. i \<in> set (IDs fs) \<Longrightarrow> lookup ms (fr_member (fact_index cd fs i)) = Some (snd (fact_member cd fs i))"
  shows "set is \<subseteq> set (IDs fs) \<Longrightarrow> wf_set acc \<Longrightarrow> \<exists>fs'. read_refs cd ms (map (fact_index cd fs) is) acc = Inr fs'
    \<and> wf_set fs' \<and> (\<forall>i. lookup (facts fs') i = (if i \<in> set is then map_option canon (lookup (facts fs) i) else lookup (facts acc) i))
    \<and> (\<forall>i. Err fs' i = (if i \<in> set is then None else Err acc i))"
proof (induction "is" arbitrary: acc)
  case (Cons i "is")
  then obtain f where f: "lookup (facts fs) i = Some f" by (auto simp: set_IDs)
  note s = storable_fact[OF st f]
  have r: "read_fact cd ms (fact_index cd fs i) = Inr (canon f)"
    using read_fact_indexed[OF ms f] Cons.prems(1) s json decoded by fastforce
  have c: "fact_id (canon f) = i" using s canon_id by simp
  have "wf_set (Put (canon f) acc)" using Cons.prems(2) by (rule wf_Put)
  then obtain fs' where fs': "read_refs cd ms (map (fact_index cd fs) is) (Put (canon f) acc) = Inr fs'" "wf_set fs'"
    "\<forall>j. lookup (facts fs') j = (if j \<in> set is then map_option canon (lookup (facts fs) j) else lookup (facts (Put (canon f) acc)) j)"
    "\<forall>j. Err fs' j = (if j \<in> set is then None else Err (Put (canon f) acc) j)"
    using Cons.IH Cons.prems(1) by (meson set_subset_Cons subset_trans)
  then show ?case using r f c Cons.prems(2) by auto
qed auto

lemma readFacts_written:
  assumes st: "storable cd good b fs"
    and ms: "\<And>n d. (n, d) \<in> set (content_members cd b fs) \<Longrightarrow> lookup ms n = Some d"
    and only: "\<And>n d. lookup ms n = Some d \<Longrightarrow> has_prefix n factsPrefix \<Longrightarrow> (n, d) \<in> set (content_members cd b fs)"
  shows "\<exists>fs'. readFacts cd (written_manifest cd b fs) ms = Inr fs' \<and> wf_set fs'
    \<and> (\<forall>i. lookup (facts fs') i = map_option canon (lookup (facts fs) i)) \<and> (\<forall>i. Err fs' i = None)"
proof -
  let ?mf = "written_manifest cd b fs"
  have mf: "mf_facts ?mf = map (fact_index cd fs) (IDs fs)" by (simp add: written_manifest_def)
  have l: "lookup ms (fr_member (fact_index cd fs i)) = Some (snd (fact_member cd fs i))" if "i \<in> set (IDs fs)" for i
    using that ms[of "fst (fact_member cd fs i)" "snd (fact_member cd fs i)"] by (simp add: content_members_def fact_index_def)
  obtain fs' where
    fs': "read_refs cd ms (mf_facts ?mf) new_set = Inr fs'" "wf_set fs'"
    "\<forall>i. lookup (facts fs') i = (if i \<in> set (IDs fs) then map_option canon (lookup (facts fs) i) else lookup (facts new_set) i)"
    "\<forall>i. Err fs' i = (if i \<in> set (IDs fs) then None else Err new_set i)"
    using read_refs_written[OF st l subset_refl wf_new_set] unfolding mf by auto
  have "find (\<lambda>n. has_prefix n factsPrefix \<and> n \<notin> set (map fr_member (mf_facts ?mf))) (keys ms) = None"
    unfolding find_None_iff
  proof (intro notI, elim bexE exE conjE)
    fix n assume n: "n \<in> set (keys ms)" "has_prefix n factsPrefix" "n \<notin> set (map fr_member (mf_facts ?mf))"
    then obtain d where "lookup ms n = Some d" by (auto simp: gm.set_ks)
    then obtain i where i: "i \<in> set (IDs fs)" "(n, d) = fact_member cd fs i"
      using only n(2) fact_members_only by blast
    then have "n = fr_member (fact_index cd fs i)" by (metis fact_index_def fact_ref.select_convs(3) fst_conv)
    then have "n \<in> set (map fr_member (mf_facts ?mf))" unfolding mf using i(1) by simp
    then show False using n(3) by blast
  qed
  then have "readFacts cd ?mf ms = Inr fs'" using fs'(1) by (simp add: readFacts_def)
  moreover have "lookup (facts fs') i = map_option canon (lookup (facts fs) i)" for i
    using fs'(3) by (auto simp: set_IDs new_set_def)
  moreover have "Err fs' i = None" for i using fs'(4) by auto
  ultimately show ?thesis using fs'(2) by blast
qed

lemma verifyIntegrity_written:
  assumes st: "storable cd good b fs" and ms: "ms = content_members cd b fs" and wf: "wf_map mm"
    and l: "\<And>k. lookup mm k = map_of (ms @ [(integrityMember,
      marshal (enc_integrity_doc \<lparr>id_algorithm = hashAlgorithm, id_members = digest_map ms\<rparr>))]) k"
  shows "verifyIntegrity mm = None"
proof -
  let ?doc = "\<lparr>id_algorithm = hashAlgorithm, id_members = digest_map ms\<rparr>"
  have d: "distinct (map fst ms)" "integrityMember \<notin> set (map fst ms)" using distinct_content[OF st] ms by auto
  have n: "map_of ms integrityMember = None" using d(2) by (simp add: map_of_eq_None_iff)
  note dm = lookup_digest_map[OF d(1)]
  have "document (enc_integrity_doc ?doc)"
  proof (rule document_integrity)
    show "\<forall>k x. lookup (digest_map ms) k = Some x \<longrightarrow> utf8 k \<and> utf8 x"
      using written_valid[OF st, folded ms] by (auto simp: dm dest!: map_of_SomeD)
    show "utf8 hashAlgorithm" by (simp add: hashAlgorithm_def)
  qed
  then have u: "unmarshal d_integrity_doc zero_integrity (marshal (enc_integrity_doc ?doc))
      = Some \<lparr>id_algorithm = hashAlgorithm, id_members = rebuild id (digest_map ms)\<rparr>"
    by (simp add: unmarshal_document d_integrity_doc_encoded)
  have "lookup mm integrityMember = Some (marshal (enc_integrity_doc ?doc))" using l n by (simp add: map_add_def)
  moreover have "recorded mm \<lparr>id_algorithm = hashAlgorithm, id_members = rebuild id (digest_map ms)\<rparr>"
    using n by (auto simp: recorded_def l dm digest_map_wf map_add_def split: option.splits if_splits)
  ultimately show ?thesis using u unfolding verifyIntegrity_None by fastforce
qed

lemma Write_Inr: "bd_facts b = Some fs \<Longrightarrow> Write cd b = Inr all \<Longrightarrow> all = content_members cd b fs @
    [(integrityMember, marshal (enc_integrity_doc \<lparr>id_algorithm = hashAlgorithm, id_members = digest_map (content_members cd b fs)\<rparr>))]"
  by (auto simp: Write_def Let_def split: if_splits)

lemma evidence_written:
  assumes st: "storable cd good b fs"
    and ms: "\<And>n d. (n, d) \<in> set (content_members cd b fs) \<Longrightarrow> lookup mm n = Some d"
    and only: "\<And>n d. lookup mm n = Some d \<Longrightarrow> has_prefix n evidencePrefix \<Longrightarrow> (n, d) \<in> set (content_members cd b fs)"
  shows "\<exists>ev. readEvidence (written_manifest cd b fs) mm = Inr ev
    \<and> (case (bd_evidence b, ev) of (None, None) \<Rightarrow> True | (Some s, Some s') \<Rightarrow> same_store s' s | _ \<Rightarrow> False)"
proof -
  let ?mf = "written_manifest cd b fs"
  have em: "(n, d) \<in> set (evidenceMembers (bd_evidence b))" if "lookup mm n = Some d" "has_prefix n evidencePrefix" for n d
    using only[OF that] that(2) by (rule evidence_members_only)
  show ?thesis
  proof (cases "bd_evidence b")
    case None
    then have "\<not> has_prefix n evidencePrefix" if "n \<in> set (keys mm)" for n
      using that em by (auto simp: gm.set_ks evidenceMembers_def)
    then have "read_blobs mm (keys mm) None = Inr None" using read_blobs_names[of "keys mm" mm None] by (simp add: Let_def)
    moreover have "mf_evidence ?mf = None" using None by (simp add: written_manifest_def)
    ultimately show ?thesis using None by (simp add: readEvidence_def)
  next
    case (Some s)
    have wf: "wf_store s" and tx: "\<forall>x \<in> set (TruncatedSources s). Text x = x"
      using st Some by (auto simp: storable_def list_all_iff)
    have in_s: "(n, d) \<in> set (evidenceMembers (bd_evidence b))
        \<longleftrightarrow> (\<exists>k. n = evidencePrefix @ k @ evidenceSuffix \<and> lookup (blobs s) k = Some d)" for n d
      using Some by (auto simp: evidenceMembers_def Digests_def gm.set_ks Get_def)
    have "\<exists>t. readEvidence ?mf mm = Inr (Some t) \<and> same_store t s"
    proof (rule readEvidence_written[OF wf tx])
      show "n = evidencePrefix @ digest d @ evidenceSuffix" if "lookup mm n = Some d" "has_prefix n evidencePrefix" for n d
        using em[OF that] in_s wf by (auto simp: wf_store_def)
      show "lookup (blobs s) k = Some d \<longleftrightarrow> lookup mm (evidencePrefix @ k @ evidenceSuffix) = Some d" for k d
      proof
        assume "lookup (blobs s) k = Some d"
        then have "(evidencePrefix @ k @ evidenceSuffix, d) \<in> set (evidenceMembers (bd_evidence b))" using in_s by blast
        then show "lookup mm (evidencePrefix @ k @ evidenceSuffix) = Some d" by (intro ms) (simp add: content_members_def)
      next
        assume a: "lookup mm (evidencePrefix @ k @ evidenceSuffix) = Some d"
        have "\<exists>k'. evidencePrefix @ k @ evidenceSuffix = evidencePrefix @ k' @ evidenceSuffix \<and> lookup (blobs s) k' = Some d"
          using em[OF a has_prefix_append] in_s by simp
        then show "lookup (blobs s) k = Some d" by simp
      qed
      show "mf_evidence ?mf = Some (store_index s)" using Some by (simp add: written_manifest_def)
    qed
    then show ?thesis using Some by auto
  qed
qed

theorem Read_Write:
  assumes st: "storable cd good b fs" and w: "Write cd b = Inr ms" and sz: "size_of ms \<le> maxDecompressedBytes"
  shows "\<exists>b' fs'. Read cd (archive ms) = Inr b' \<and> restored cd canon b fs b' fs'"
proof -
  let ?mf = "written_manifest cd b fs" and ?cm = "content_members cd b fs"
  have b: "bd_facts b = Some fs" and wf: "wf_set fs" using st by (auto simp: storable_def)
  note all = Write_Inr[OF b w]
  have dist: "distinct (map fst ms)" using distinct_content[OF st] all by simp
  have "list_all (\<lambda>(n, d). validMemberName n) ms" unfolding all
    using written_valid[OF st] by (auto simp: list_all_iff)
  then obtain mm where mm: "readArchive (archive ms) = Inr mm" "wf_map mm" "\<And>k. lookup mm k = map_of ms k"
    using readArchive_archive[OF dist _ sz] by blast
  have ms: "lookup mm n = Some d" if "(n, d) \<in> set ?cm" for n d
    using that mm(3) dist all by (auto intro!: map_of_is_SomeI)
  have only: "(n, d) \<in> set ?cm" if "lookup mm n = Some d" "n \<noteq> integrityMember" for n d
    using that mm(3) all by (auto dest!: map_of_SomeD)
  have "\<not> has_prefix integrityMember factsPrefix" "\<not> has_prefix integrityMember evidencePrefix"
    by (simp_all add: member_names has_prefix_def)
  then have only_facts: "lookup mm n = Some d \<Longrightarrow> has_prefix n factsPrefix \<Longrightarrow> (n, d) \<in> set ?cm"
    and only_evidence: "lookup mm n = Some d \<Longrightarrow> has_prefix n evidencePrefix \<Longrightarrow> (n, d) \<in> set ?cm" for n d
    using only by blast+
  have v: "verifyIntegrity mm = None"
    by (rule verifyIntegrity_written[OF st refl mm(2)]) (simp only: mm(3) all)
  have "document (enc_manifest ?mf)" using st by (intro document_manifest) (simp add: storable_def)
  then have mf: "unmarshal d_manifest zero_manifest (marshal (enc_manifest ?mf)) = Some ?mf"
    using st by (simp add: unmarshal_document d_manifest_encoded storable_def)
  have mt: "unmarshal d_meta zero_meta (marshal (enc_meta (bd_meta b))) = Some (bd_meta b)"
    using st document_meta by (simp add: unmarshal_document storable_def)
  have es: "unmarshal (d_list zero_error d_error) [] (marshal (JArr (map enc_error (Errors fs)))) = Some (Errors fs)"
    using st document_errors by (simp add: unmarshal_document storable_def)
  obtain fs0 where fs0: "readFacts cd ?mf mm = Inr fs0" "wf_set fs0"
    "\<forall>i. lookup (facts fs0) i = map_option canon (lookup (facts fs) i)" "\<forall>i. Err fs0 i = None"
    using readFacts_written[OF st ms only_facts] by blast
  obtain ev where ev: "readEvidence ?mf mm = Inr ev"
    "case (bd_evidence b, ev) of (None, None) \<Rightarrow> True | (Some s, Some s') \<Rightarrow> same_store s' s | _ \<Rightarrow> False"
    using evidence_written[OF st ms only_evidence] by blast
  let ?fs = "foldl (\<lambda>s e. PutError e s) fs0 (Errors fs)"
  let ?b = "\<lparr>bd_manifest = ?mf, bd_meta = bd_meta b, bd_facts = Some ?fs, bd_evidence = ev\<rparr>"
  have "lookup mm manifestMember = Some (marshal (enc_manifest ?mf))" "lookup mm metaMember = Some (marshal (enc_meta (bd_meta b)))"
    "lookup mm errorsMember = Some (marshal (JArr (map enc_error (Errors fs))))"
    by (intro ms; simp add: content_members_def)+
  then have "Read cd (archive ms) = Inr ?b"
    using mm(1) v mf mt es fs0(1) ev(1) by (simp add: Read_def read_verified_def optional_member_def)
  moreover have "restored cd canon b fs ?b ?fs"
  proof -
    have "wf_set ?fs" using fs0(2) by (rule es.ok_put_errors)
    moreover have "Err ?fs i = Err fs i" for i
      using fs0(4) by (simp add: restored_errors[OF wf] split: option.split)
    moreover have "lookup (facts ?fs) i = map_option canon (lookup (facts fs) i)" for i
      by (rule restored_facts[OF wf fs0(2)]) (simp add: fs0(3))
    ultimately show ?thesis using ev(2) by (simp add: restored_def)
  qed
  ultimately show ?thesis by blast
qed

end

end
