(* ===== verification/Account_Codec.thy ===== *)
theory Account_Codec
  imports Bundle_Roundtrip Payload
begin

text \<open>
  How the facts of the account databases, the name-service table and login.defs are marshalled and decoded. None
  of them holds a map, so what is decoded is what was marshalled. An empty Go slice is taken to be nil, which is
  the only empty one the collectors make and marshals to null.
\<close>

section \<open>Slices and pointers\<close>

definition enc_slice :: "('a \<Rightarrow> json) \<Rightarrow> 'a list \<Rightarrow> json" where
  "enc_slice enc xs = (if xs = [] then JNull else JArr (map enc xs))"

definition omit_slice :: "string \<Rightarrow> ('a \<Rightarrow> json) \<Rightarrow> 'a list \<Rightarrow> (string \<times> json) list" where
  "omit_slice k enc xs = (if xs = [] then [] else [(k, JArr (map enc xs))])"

text \<open>A pointer to an integer under omitempty.\<close>

definition omit_int :: "string \<Rightarrow> int option \<Rightarrow> (string \<times> json) list" where
  "omit_int k v = (case v of None \<Rightarrow> [] | Some n \<Rightarrow> [(k, JInt n)])"

definition d_uint32 :: "int dec" where "d_uint32 = d_int 0 (2 ^ 32 - 1)"

definition uint32 :: "int \<Rightarrow> bool" where
  "uint32 i \<longleftrightarrow> 0 \<le> i \<and> i \<le> 2 ^ 32 - 1"

lemma enc_slice_simps: "enc_slice enc xs = (case xs of [] \<Rightarrow> JNull | _ \<Rightarrow> JArr (map enc xs))"
  by (cases xs) (auto simp: enc_slice_def)

lemma d_list_null [simp]: "d_list zero d old (node_of html JNull) = Some []"
  by (simp add: d_list_def node_of.simps)

lemma d_uint32_encoded [simp]: "uint32 i \<Longrightarrow> d_uint32 old (node_of html (JInt i)) = Some i"
  by (simp add: uint32_def d_uint32_def)

lemma d_pointer_int [simp]: "int64 i \<Longrightarrow> d_pointer z d_int64 None (node_of html (JInt i)) = Some (Some i)"
  using d_int64_encoded[of i z html] by (simp add: d_pointer_def node_of.simps)

lemma d_ints_encoded [simp]:
  "list_all int64 is \<Longrightarrow> d_list 0 d_int64 [] (node_of html (JArr (map JInt is))) = Some is"
  using d_list_encoded[of "is" d_int64 0 html JInt "\<lambda>i. i"]
  by (simp add: list_all_iff)

section \<open>The facts\<close>

definition enc_passwd_entry :: "passwd_entry \<Rightarrow> json" where
  "enc_passwd_entry x = JObj [(''name'', JStr (pe_name x)), (''uid'', JInt (pe_uid x)),
     (''gid'', JInt (pe_gid x)), (''home'', JStr (pe_home x)), (''shell'', JStr (pe_shell x)), (''line'', JInt (pe_line x))]"

definition zero_passwd_entry :: passwd_entry where
  "zero_passwd_entry = \<lparr>pe_name = [], pe_uid = 0, pe_gid = 0, pe_home = [], pe_shell = [], pe_line = 0\<rparr>"

definition d_passwd_entry :: "passwd_entry dec" where
  "d_passwd_entry = d_struct False
     [field ''name'' pe_name pe_name_update d_string,
      field ''uid'' pe_uid pe_uid_update d_uint32,
      field ''gid'' pe_gid pe_gid_update d_uint32,
      field ''home'' pe_home pe_home_update d_string,
      field ''shell'' pe_shell pe_shell_update d_string,
      field ''line'' pe_line pe_line_update d_int64]"

definition storable_passwd_entry :: "passwd_entry \<Rightarrow> bool" where
  "storable_passwd_entry x \<longleftrightarrow> utf8 (pe_name x)
     \<and> uint32 (pe_uid x)
     \<and> uint32 (pe_gid x)
     \<and> utf8 (pe_home x)
     \<and> utf8 (pe_shell x)
     \<and> int64 (pe_line x)"

definition enc_compat :: "compat_entry \<Rightarrow> json" where
  "enc_compat x = JObj [(''spec'', JStr (ce_spec x)), (''line'', JInt (ce_line x))]"

definition zero_compat :: compat_entry where
  "zero_compat = \<lparr>ce_spec = [], ce_line = 0\<rparr>"

definition d_compat :: "compat_entry dec" where
  "d_compat = d_struct False
     [field ''spec'' ce_spec ce_spec_update d_string,
      field ''line'' ce_line ce_line_update d_int64]"

definition storable_compat :: "compat_entry \<Rightarrow> bool" where
  "storable_compat x \<longleftrightarrow> utf8 (ce_spec x)
     \<and> int64 (ce_line x)"

definition enc_passwd :: "passwd \<Rightarrow> json" where
  "enc_passwd x = JObj ([(''entries'', enc_slice enc_passwd_entry (pw_entries x))] @
    omit_slice ''compat_entries'' enc_compat (pw_compat x) @ omit_slice ''malformed_lines'' JInt (pw_malformed x) @
    [(''path'', JStr (pw_path x))] @ omit_string ''digest'' (pw_digest x))"

definition zero_passwd :: passwd where
  "zero_passwd = \<lparr>pw_entries = [], pw_compat = [], pw_malformed = [], pw_path = [], pw_digest = []\<rparr>"

definition d_passwd :: "passwd dec" where
  "d_passwd = d_struct False
     [field ''entries'' pw_entries pw_entries_update (d_list zero_passwd_entry d_passwd_entry),
      field ''compat_entries'' pw_compat pw_compat_update (d_list zero_compat d_compat),
      field ''malformed_lines'' pw_malformed pw_malformed_update (d_list 0 d_int64),
      field ''path'' pw_path pw_path_update d_string,
      field ''digest'' pw_digest pw_digest_update d_string]"

definition storable_passwd :: "passwd \<Rightarrow> bool" where
  "storable_passwd x \<longleftrightarrow> list_all storable_passwd_entry (pw_entries x)
     \<and> list_all storable_compat (pw_compat x)
     \<and> list_all int64 (pw_malformed x)
     \<and> utf8 (pw_path x)
     \<and> utf8 (pw_digest x)"

definition enc_shadow_entry :: "shadow_entry \<Rightarrow> json" where
  "enc_shadow_entry x = JObj ([(''name'', JStr (se_name x)), (''empty'', JBool (se_empty x)), (''locked'', JBool (se_locked x))] @
    omit_string ''algorithm'' (se_algorithm x) @ [(''line'', JInt (se_line x))] @
    omit_int ''min_days'' (se_min_days x) @ omit_int ''max_days'' (se_max_days x))"

definition zero_shadow_entry :: shadow_entry where
  "zero_shadow_entry = \<lparr>se_name = [], se_empty = False, se_locked = False, se_algorithm = [], se_line = 0,
     se_min_days = None, se_max_days = None\<rparr>"

definition d_shadow_entry :: "shadow_entry dec" where
  "d_shadow_entry = d_struct False
     [field ''name'' se_name se_name_update d_string,
      field ''empty'' se_empty se_empty_update d_bool,
      field ''locked'' se_locked se_locked_update d_bool,
      field ''algorithm'' se_algorithm se_algorithm_update d_string,
      field ''line'' se_line se_line_update d_int64,
      field ''min_days'' se_min_days se_min_days_update (d_pointer 0 d_int64),
      field ''max_days'' se_max_days se_max_days_update (d_pointer 0 d_int64)]"

definition storable_shadow_entry :: "shadow_entry \<Rightarrow> bool" where
  "storable_shadow_entry x \<longleftrightarrow> utf8 (se_name x)
     \<and> utf8 (se_algorithm x)
     \<and> int64 (se_line x)
     \<and> (case se_min_days x of None \<Rightarrow> True | Some n \<Rightarrow> int64 n)
     \<and> (case se_max_days x of None \<Rightarrow> True | Some n \<Rightarrow> int64 n)"

definition enc_shadow :: "shadow \<Rightarrow> json" where
  "enc_shadow x = JObj ([(''entries'', enc_slice enc_shadow_entry (sh_entries x))] @
    omit_slice ''malformed_lines'' JInt (sh_malformed x) @ [(''path'', JStr (sh_path x))])"

definition zero_shadow :: shadow where
  "zero_shadow = \<lparr>sh_entries = [], sh_malformed = [], sh_path = []\<rparr>"

definition d_shadow :: "shadow dec" where
  "d_shadow = d_struct False
     [field ''entries'' sh_entries sh_entries_update (d_list zero_shadow_entry d_shadow_entry),
      field ''malformed_lines'' sh_malformed sh_malformed_update (d_list 0 d_int64),
      field ''path'' sh_path sh_path_update d_string]"

definition storable_shadow :: "shadow \<Rightarrow> bool" where
  "storable_shadow x \<longleftrightarrow> list_all storable_shadow_entry (sh_entries x)
     \<and> list_all int64 (sh_malformed x)
     \<and> utf8 (sh_path x)"

definition enc_group_entry :: "group_entry \<Rightarrow> json" where
  "enc_group_entry x = JObj ([(''name'', JStr (ge_name x)), (''gid'', JInt (ge_gid x))] @
    omit_slice ''members'' JStr (ge_members x) @ [(''line'', JInt (ge_line x))])"

definition zero_group_entry :: group_entry where
  "zero_group_entry = \<lparr>ge_name = [], ge_gid = 0, ge_members = [], ge_line = 0\<rparr>"

definition d_group_entry :: "group_entry dec" where
  "d_group_entry = d_struct False
     [field ''name'' ge_name ge_name_update d_string,
      field ''gid'' ge_gid ge_gid_update d_uint32,
      field ''members'' ge_members ge_members_update (d_list [] d_string),
      field ''line'' ge_line ge_line_update d_int64]"

definition storable_group_entry :: "group_entry \<Rightarrow> bool" where
  "storable_group_entry x \<longleftrightarrow> utf8 (ge_name x)
     \<and> uint32 (ge_gid x)
     \<and> list_all utf8 (ge_members x)
     \<and> int64 (ge_line x)"

definition enc_group :: "group_file \<Rightarrow> json" where
  "enc_group x = JObj ([(''entries'', enc_slice enc_group_entry (gr_entries x))] @
    omit_slice ''compat_entries'' enc_compat (gr_compat x) @ omit_slice ''malformed_lines'' JInt (gr_malformed x) @
    [(''path'', JStr (gr_path x))] @ omit_string ''digest'' (gr_digest x))"

definition zero_group :: group_file where
  "zero_group = \<lparr>gr_entries = [], gr_compat = [], gr_malformed = [], gr_path = [], gr_digest = []\<rparr>"

definition d_group :: "group_file dec" where
  "d_group = d_struct False
     [field ''entries'' gr_entries gr_entries_update (d_list zero_group_entry d_group_entry),
      field ''compat_entries'' gr_compat gr_compat_update (d_list zero_compat d_compat),
      field ''malformed_lines'' gr_malformed gr_malformed_update (d_list 0 d_int64),
      field ''path'' gr_path gr_path_update d_string,
      field ''digest'' gr_digest gr_digest_update d_string]"

definition storable_group :: "group_file \<Rightarrow> bool" where
  "storable_group x \<longleftrightarrow> list_all storable_group_entry (gr_entries x)
     \<and> list_all storable_compat (gr_compat x)
     \<and> list_all int64 (gr_malformed x)
     \<and> utf8 (gr_path x)
     \<and> utf8 (gr_digest x)"

definition enc_nsswitch_db :: "nsswitch_db \<Rightarrow> json" where
  "enc_nsswitch_db x = JObj [(''name'', JStr (nd_name x)), (''sources'', enc_slice JStr (nd_sources x)),
     (''line'', JInt (nd_line x))]"

definition zero_nsswitch_db :: nsswitch_db where
  "zero_nsswitch_db = \<lparr>nd_name = [], nd_sources = [], nd_line = 0\<rparr>"

definition d_nsswitch_db :: "nsswitch_db dec" where
  "d_nsswitch_db = d_struct False
     [field ''name'' nd_name nd_name_update d_string,
      field ''sources'' nd_sources nd_sources_update (d_list [] d_string),
      field ''line'' nd_line nd_line_update d_int64]"

definition storable_nsswitch_db :: "nsswitch_db \<Rightarrow> bool" where
  "storable_nsswitch_db x \<longleftrightarrow> utf8 (nd_name x)
     \<and> list_all utf8 (nd_sources x)
     \<and> int64 (nd_line x)"

definition enc_nsswitch :: "nsswitch \<Rightarrow> json" where
  "enc_nsswitch x = JObj (omit_slice ''databases'' enc_nsswitch_db (ns_databases x) @
    [(''state'', JStr (ns_state x)), (''path'', JStr (ns_path x))] @
    omit_slice ''malformed_lines'' JInt (ns_malformed x) @ omit_string ''digest'' (ns_digest x))"

definition zero_nsswitch :: nsswitch where
  "zero_nsswitch = \<lparr>ns_databases = [], ns_state = [], ns_path = [], ns_malformed = [], ns_digest = []\<rparr>"

definition d_nsswitch :: "nsswitch dec" where
  "d_nsswitch = d_struct False
     [field ''databases'' ns_databases ns_databases_update (d_list zero_nsswitch_db d_nsswitch_db),
      field ''state'' ns_state ns_state_update d_string,
      field ''path'' ns_path ns_path_update d_string,
      field ''malformed_lines'' ns_malformed ns_malformed_update (d_list 0 d_int64),
      field ''digest'' ns_digest ns_digest_update d_string]"

definition storable_nsswitch :: "nsswitch \<Rightarrow> bool" where
  "storable_nsswitch x \<longleftrightarrow> list_all storable_nsswitch_db (ns_databases x)
     \<and> utf8 (ns_state x)
     \<and> utf8 (ns_path x)
     \<and> list_all int64 (ns_malformed x)
     \<and> utf8 (ns_digest x)"

definition enc_login_setting :: "login_setting \<Rightarrow> json" where
  "enc_login_setting x = JObj [(''key'', JStr (ls_key x)), (''value'', JStr (ls_value x)), (''line'', JInt (ls_line x))]"

definition zero_login_setting :: login_setting where
  "zero_login_setting = \<lparr>ls_key = [], ls_value = [], ls_line = 0\<rparr>"

definition d_login_setting :: "login_setting dec" where
  "d_login_setting = d_struct False
     [field ''key'' ls_key ls_key_update d_string,
      field ''value'' ls_value ls_value_update d_string,
      field ''line'' ls_line ls_line_update d_int64]"

definition storable_login_setting :: "login_setting \<Rightarrow> bool" where
  "storable_login_setting x \<longleftrightarrow> utf8 (ls_key x)
     \<and> utf8 (ls_value x)
     \<and> int64 (ls_line x)"

definition enc_login_defs :: "login_defs \<Rightarrow> json" where
  "enc_login_defs x = JObj ([(''state'', JStr (ld_state x)), (''path'', JStr (ld_path x))] @
    omit_string ''message'' (ld_msg x) @ omit_string ''digest'' (ld_digest x) @
    omit_slice ''settings'' enc_login_setting (ld_settings x))"

definition zero_login_defs :: login_defs where
  "zero_login_defs = \<lparr>ld_state = [], ld_path = [], ld_msg = [], ld_digest = [], ld_settings = []\<rparr>"

definition d_login_defs :: "login_defs dec" where
  "d_login_defs = d_struct False
     [field ''state'' ld_state ld_state_update d_string,
      field ''path'' ld_path ld_path_update d_string,
      field ''message'' ld_msg ld_msg_update d_string,
      field ''digest'' ld_digest ld_digest_update d_string,
      field ''settings'' ld_settings ld_settings_update (d_list zero_login_setting d_login_setting)]"

definition storable_login_defs :: "login_defs \<Rightarrow> bool" where
  "storable_login_defs x \<longleftrightarrow> utf8 (ld_state x)
     \<and> utf8 (ld_path x)
     \<and> utf8 (ld_msg x)
     \<and> utf8 (ld_digest x)
     \<and> list_all storable_login_setting (ld_settings x)"

section \<open>What is decoded is what was marshalled\<close>

lemmas slice_defs = enc_slice_def omit_slice_def omit_int_def

lemmas account_defs =
  enc_passwd_entry_def d_passwd_entry_def zero_passwd_entry_def storable_passwd_entry_def
  enc_compat_def d_compat_def zero_compat_def storable_compat_def
  enc_passwd_def d_passwd_def zero_passwd_def storable_passwd_def
  enc_shadow_entry_def d_shadow_entry_def zero_shadow_entry_def storable_shadow_entry_def
  enc_shadow_def d_shadow_def zero_shadow_def storable_shadow_def
  enc_group_entry_def d_group_entry_def zero_group_entry_def storable_group_entry_def
  enc_group_def d_group_def zero_group_def storable_group_def
  enc_nsswitch_db_def d_nsswitch_db_def zero_nsswitch_db_def storable_nsswitch_db_def
  enc_nsswitch_def d_nsswitch_def zero_nsswitch_def storable_nsswitch_def
  enc_login_setting_def d_login_setting_def zero_login_setting_def storable_login_setting_def
  enc_login_defs_def d_login_defs_def zero_login_defs_def storable_login_defs_def
  slice_defs

lemma d_passwd_entry_encoded [simp]:
  "storable_passwd_entry x \<Longrightarrow>
    d_passwd_entry zero_passwd_entry (node_of html (enc_passwd_entry x)) = Some x"
  by (cases x)
    (simp_all add: d_passwd_entry_def enc_passwd_entry_def zero_passwd_entry_def storable_passwd_entry_def slice_defs decoding split: option.split)

lemma d_passwd_entry_list [simp]: "list_all storable_passwd_entry xs \<Longrightarrow>
    d_list zero_passwd_entry d_passwd_entry [] (node_of html (JArr (map enc_passwd_entry xs))) = Some xs"
  using d_list_encoded[of xs d_passwd_entry zero_passwd_entry html enc_passwd_entry "\<lambda>x. x"]
  by (simp add: list_all_iff)

lemma d_compat_encoded [simp]:
  "storable_compat x \<Longrightarrow>
    d_compat zero_compat (node_of html (enc_compat x)) = Some x"
  by (cases x)
    (simp_all add: d_compat_def enc_compat_def zero_compat_def storable_compat_def slice_defs decoding split: option.split)

lemma d_compat_list [simp]: "list_all storable_compat xs \<Longrightarrow>
    d_list zero_compat d_compat [] (node_of html (JArr (map enc_compat xs))) = Some xs"
  using d_list_encoded[of xs d_compat zero_compat html enc_compat "\<lambda>x. x"]
  by (simp add: list_all_iff)

lemma d_passwd_encoded [simp]:
  "storable_passwd x \<Longrightarrow>
    d_passwd zero_passwd (node_of html (enc_passwd x)) = Some x"
  by (cases x)
    (simp_all add: d_passwd_def enc_passwd_def zero_passwd_def storable_passwd_def slice_defs decoding split: option.split)

lemma d_shadow_entry_encoded [simp]:
  "storable_shadow_entry x \<Longrightarrow>
    d_shadow_entry zero_shadow_entry (node_of html (enc_shadow_entry x)) = Some x"
  by (cases x; cases "se_min_days x"; cases "se_max_days x")
    (simp_all add: d_shadow_entry_def enc_shadow_entry_def zero_shadow_entry_def storable_shadow_entry_def slice_defs decoding split: option.split)

lemma d_shadow_entry_list [simp]: "list_all storable_shadow_entry xs \<Longrightarrow>
    d_list zero_shadow_entry d_shadow_entry [] (node_of html (JArr (map enc_shadow_entry xs))) = Some xs"
  using d_list_encoded[of xs d_shadow_entry zero_shadow_entry html enc_shadow_entry "\<lambda>x. x"]
  by (simp add: list_all_iff)

lemma d_shadow_encoded [simp]:
  "storable_shadow x \<Longrightarrow>
    d_shadow zero_shadow (node_of html (enc_shadow x)) = Some x"
  by (cases x)
    (simp_all add: d_shadow_def enc_shadow_def zero_shadow_def storable_shadow_def slice_defs decoding split: option.split)

lemma d_group_entry_encoded [simp]:
  "storable_group_entry x \<Longrightarrow>
    d_group_entry zero_group_entry (node_of html (enc_group_entry x)) = Some x"
  by (cases x)
    (simp_all add: d_group_entry_def enc_group_entry_def zero_group_entry_def storable_group_entry_def slice_defs decoding split: option.split)

lemma d_group_entry_list [simp]: "list_all storable_group_entry xs \<Longrightarrow>
    d_list zero_group_entry d_group_entry [] (node_of html (JArr (map enc_group_entry xs))) = Some xs"
  using d_list_encoded[of xs d_group_entry zero_group_entry html enc_group_entry "\<lambda>x. x"]
  by (simp add: list_all_iff)

lemma d_group_encoded [simp]:
  "storable_group x \<Longrightarrow>
    d_group zero_group (node_of html (enc_group x)) = Some x"
  by (cases x)
    (simp_all add: d_group_def enc_group_def zero_group_def storable_group_def slice_defs decoding split: option.split)

lemma d_nsswitch_db_encoded [simp]:
  "storable_nsswitch_db x \<Longrightarrow>
    d_nsswitch_db zero_nsswitch_db (node_of html (enc_nsswitch_db x)) = Some x"
  by (cases x)
    (simp_all add: d_nsswitch_db_def enc_nsswitch_db_def zero_nsswitch_db_def storable_nsswitch_db_def slice_defs decoding split: option.split)

lemma d_nsswitch_db_list [simp]: "list_all storable_nsswitch_db xs \<Longrightarrow>
    d_list zero_nsswitch_db d_nsswitch_db [] (node_of html (JArr (map enc_nsswitch_db xs))) = Some xs"
  using d_list_encoded[of xs d_nsswitch_db zero_nsswitch_db html enc_nsswitch_db "\<lambda>x. x"]
  by (simp add: list_all_iff)

lemma d_nsswitch_encoded [simp]:
  "storable_nsswitch x \<Longrightarrow>
    d_nsswitch zero_nsswitch (node_of html (enc_nsswitch x)) = Some x"
  by (cases x)
    (simp_all add: d_nsswitch_def enc_nsswitch_def zero_nsswitch_def storable_nsswitch_def slice_defs decoding split: option.split)

lemma d_login_setting_encoded [simp]:
  "storable_login_setting x \<Longrightarrow>
    d_login_setting zero_login_setting (node_of html (enc_login_setting x)) = Some x"
  by (cases x)
    (simp_all add: d_login_setting_def enc_login_setting_def zero_login_setting_def storable_login_setting_def slice_defs decoding split: option.split)

lemma d_login_setting_list [simp]: "list_all storable_login_setting xs \<Longrightarrow>
    d_list zero_login_setting d_login_setting [] (node_of html (JArr (map enc_login_setting xs))) = Some xs"
  using d_list_encoded[of xs d_login_setting zero_login_setting html enc_login_setting "\<lambda>x. x"]
  by (simp add: list_all_iff)

lemma d_login_defs_encoded [simp]:
  "storable_login_defs x \<Longrightarrow>
    d_login_defs zero_login_defs (node_of html (enc_login_defs x)) = Some x"
  by (cases x)
    (simp_all add: d_login_defs_def enc_login_defs_def zero_login_defs_def storable_login_defs_def slice_defs decoding split: option.split)

lemma enc_passwd_marshalled:
  assumes "storable_passwd x"
  shows "rawless (enc_passwd x)" "levels (enc_passwd x) \<le> 100"
  using assms by (auto simp: account_defs omit_string_def list_all_iff split: option.split)

lemma enc_shadow_marshalled:
  assumes "storable_shadow x"
  shows "rawless (enc_shadow x)" "levels (enc_shadow x) \<le> 100"
  using assms by (auto simp: account_defs omit_string_def list_all_iff split: option.split)

lemma enc_group_marshalled:
  assumes "storable_group x"
  shows "rawless (enc_group x)" "levels (enc_group x) \<le> 100"
  using assms by (auto simp: account_defs omit_string_def list_all_iff split: option.split)

lemma enc_nsswitch_marshalled:
  assumes "storable_nsswitch x"
  shows "rawless (enc_nsswitch x)" "levels (enc_nsswitch x) \<le> 100"
  using assms by (auto simp: account_defs omit_string_def list_all_iff split: option.split)

lemma enc_login_defs_marshalled:
  assumes "storable_login_defs x"
  shows "rawless (enc_login_defs x)" "levels (enc_login_defs x) \<le> 100"
  using assms by (auto simp: account_defs omit_string_def list_all_iff split: option.split)

end
