(* ===== verification/Fact_Codec.thy ===== *)
theory Fact_Codec
  imports Account_Codec
begin

text \<open>
  The codec of the program: how fact.SSHDConfig, fact.Sysctl and bundle.UnknownFact are marshalled and decoded,
  with the facts of theory Account_Codec. The decoders of the other registered facts and of the two fs namespaces
  are parameters. An empty Go slice is taken to be nil, which is the only empty one the collector makes and marshals
  to null.
\<close>

section \<open>The sshd configuration as JSON\<close>

definition enc_directive :: "directive \<Rightarrow> json" where
  "enc_directive d = JObj ([(''keyword'', JStr (d_keyword d)), (''value'', JStr (d_value d)), (''file'', JStr (d_file d)),
     (''line'', JInt (d_line d)), (''in_match'', JBool (d_in_match d))] @ omit_string ''match_criteria'' (d_match d))"

definition enc_config_line :: "config_line \<Rightarrow> json" where
  "enc_config_line l = JObj [(''file'', JStr (cl_file l)), (''line'', JInt (cl_line l)), (''text'', JStr (cl_text l))]"

definition enc_sshd :: "sshd_config \<Rightarrow> json" where
  "enc_sshd c = JObj
     ([(''installed'', JBool (sc_installed c)), (''files'', enc_slice JStr (sc_files c)),
       (''directives'', enc_slice enc_directive (sc_directives c))]
      @ omit_slice ''unresolved_includes'' JStr (sc_unresolved c)
      @ omit_slice ''syntax_errors'' enc_config_line (sc_syntax c)
      @ (if sc_digests c = [] then [] else [(''digests'', enc_map JStr (sc_digests c))]))"

definition zero_directive :: directive where
  "zero_directive = \<lparr>d_keyword = [], d_value = [], d_file = [], d_line = 0, d_in_match = False, d_match = []\<rparr>"

definition zero_line :: config_line where "zero_line = \<lparr>cl_file = [], cl_line = 0, cl_text = []\<rparr>"

definition d_directive :: "directive dec" where
  "d_directive = d_struct False
     [field ''keyword'' d_keyword d_keyword_update d_string, field ''value'' d_value d_value_update d_string,
      field ''file'' d_file d_file_update d_string, field ''line'' d_line d_line_update d_int64,
      field ''in_match'' d_in_match d_in_match_update d_bool,
      field ''match_criteria'' d_match d_match_update d_string]"

definition d_config_line :: "config_line dec" where
  "d_config_line = d_struct False
     [field ''file'' cl_file cl_file_update d_string, field ''line'' cl_line cl_line_update d_int64,
      field ''text'' cl_text cl_text_update d_string]"

definition d_sshd :: "sshd_config dec" where
  "d_sshd = d_struct False
     [field ''installed'' sc_installed sc_installed_update d_bool,
      field ''files'' sc_files sc_files_update (d_list [] d_string),
      field ''directives'' sc_directives sc_directives_update (d_list zero_directive d_directive),
      field ''unresolved_includes'' sc_unresolved sc_unresolved_update (d_list [] d_string),
      field ''syntax_errors'' sc_syntax sc_syntax_update (d_list zero_line d_config_line),
      field ''digests'' sc_digests sc_digests_update (d_map [] d_string)]"

section \<open>The kernel's parameters as JSON\<close>

text \<open>The collector makes the map of running parameters, so an empty one is not nil.\<close>

definition enc_running :: "sysctl_running \<Rightarrow> json" where
  "enc_running r = JObj ([(''key'', JStr (sr_key r)), (''state'', JStr (sr_state r))] @ omit_string ''value'' (sr_value r)
     @ [(''path'', JStr (sr_path r))] @ omit_string ''message'' (sr_msg r))"

definition enc_setting :: "sysctl_setting \<Rightarrow> json" where
  "enc_setting x = JObj [(''key'', JStr (ss_key x)), (''value'', JStr (ss_value x)), (''file'', JStr (ss_file x)),
     (''line'', JInt (ss_line x))]"

definition enc_unreadable :: "unreadable_file \<Rightarrow> json" where
  "enc_unreadable u = JObj ([(''file'', JStr (uf_file u)), (''kind'', JStr (kind_str (uf_kind u)))]
     @ omit_string ''message'' (uf_msg u))"

definition omit_map :: "string \<Rightarrow> ('a \<Rightarrow> json) \<Rightarrow> 'a gomap \<Rightarrow> (string \<times> json) list" where
  "omit_map k enc m = (if m = [] then [] else [(k, enc_map enc m)])"

definition enc_sysctl :: "sysctl \<Rightarrow> json" where
  "enc_sysctl s = JObj
     ([(''running'', enc_map enc_running (sy_running s))]
      @ omit_map ''configured'' (enc_slice enc_setting) (sy_configured s)
      @ omit_slice ''files'' JStr (sy_files s)
      @ omit_map ''digests'' JStr (sy_digests s)
      @ omit_map ''resolved'' JStr (sy_resolved s)
      @ omit_slice ''excluded'' enc_setting (sy_excluded s)
      @ omit_slice ''unreadable_files'' enc_unreadable (sy_unreadable s))"

definition zero_running_parameter :: sysctl_running where
  "zero_running_parameter = \<lparr>sr_key = [], sr_state = [], sr_value = [], sr_path = [], sr_msg = []\<rparr>"

definition zero_setting :: sysctl_setting where
  "zero_setting = \<lparr>ss_key = [], ss_value = [], ss_file = [], ss_line = 0\<rparr>"

definition zero_unreadable :: unreadable_file where
  "zero_unreadable = \<lparr>uf_file = [], uf_kind = OtherKind [], uf_msg = []\<rparr>"

definition d_running :: "sysctl_running dec" where
  "d_running = d_struct False
     [field ''key'' sr_key sr_key_update d_string, field ''state'' sr_state sr_state_update d_string,
      field ''value'' sr_value sr_value_update d_string, field ''path'' sr_path sr_path_update d_string,
      field ''message'' sr_msg sr_msg_update d_string]"

definition d_setting :: "sysctl_setting dec" where
  "d_setting = d_struct False
     [field ''key'' ss_key ss_key_update d_string, field ''value'' ss_value ss_value_update d_string,
      field ''file'' ss_file ss_file_update d_string, field ''line'' ss_line ss_line_update d_int64]"

definition d_unreadable :: "unreadable_file dec" where
  "d_unreadable = d_struct False
     [field ''file'' uf_file uf_file_update d_string, field ''kind'' uf_kind uf_kind_update d_kind,
      field ''message'' uf_msg uf_msg_update d_string]"

definition d_sysctl :: "sysctl dec" where
  "d_sysctl = d_struct False
     [field ''running'' sy_running sy_running_update (d_map zero_running_parameter d_running),
      field ''configured'' sy_configured sy_configured_update (d_map [] (d_list zero_setting d_setting)),
      field ''files'' sy_files sy_files_update (d_list [] d_string),
      field ''digests'' sy_digests sy_digests_update (d_map [] d_string),
      field ''resolved'' sy_resolved sy_resolved_update (d_map [] d_string),
      field ''excluded'' sy_excluded sy_excluded_update (d_list zero_setting d_setting),
      field ''unreadable_files'' sy_unreadable sy_unreadable_update (d_list zero_unreadable d_unreadable)]"

section \<open>The codec\<close>

fun marshal_payload :: "payload \<Rightarrow> json" where
  "marshal_payload (SSHDFact c) = enc_sshd c"
| "marshal_payload (SysctlFact s) = enc_sysctl s"
| "marshal_payload (PasswdFact p) = enc_passwd p"
| "marshal_payload (ShadowFact s) = enc_shadow s"
| "marshal_payload (GroupFact g) = enc_group g"
| "marshal_payload (NSSwitchFact n) = enc_nsswitch n"
| "marshal_payload (LoginDefsFact l) = enc_login_defs l"
| "marshal_payload (UnknownFact raw) = unknown_json raw"
| "marshal_payload (OtherFact t j) = j"

text \<open>An entry of the registry: the version this build decodes, and the decoding of the fact's data.\<close>

definition entry :: "fact_id \<Rightarrow> ('a \<Rightarrow> payload) \<Rightarrow> 'a \<Rightarrow> 'a dec \<Rightarrow> payload decoder" where
  "entry i wrap zero d = \<lparr>dc_version = 1, dc_decode = (\<lambda>n. map_option
     (\<lambda>x. \<lparr>fact_id = i, fact_version = 1, opaque_version = None, payload = wrap x\<rparr>) (d zero n))\<rparr>"

definition sshd_decoder :: "payload decoder" where
  "sshd_decoder = entry SSHDConfigID SSHDFact empty_config d_sshd"

definition sysctl_decoder :: "payload decoder" where
  "sysctl_decoder = entry SysctlID SysctlFact empty_sysctl d_sysctl"

definition passwd_decoder :: "payload decoder" where
  "passwd_decoder = entry PasswdID PasswdFact zero_passwd d_passwd"

definition shadow_decoder :: "payload decoder" where
  "shadow_decoder = entry ShadowID ShadowFact zero_shadow d_shadow"

definition group_decoder :: "payload decoder" where
  "group_decoder = entry GroupID GroupFact zero_group d_group"

definition nsswitch_decoder :: "payload decoder" where
  "nsswitch_decoder = entry NSSwitchID NSSwitchFact zero_nsswitch d_nsswitch"

definition login_defs_decoder :: "payload decoder" where
  "login_defs_decoder = entry LoginDefsID LoginDefsFact zero_login_defs d_login_defs"

definition go_registry :: "(fact_id \<times> payload decoder) list" where
  "go_registry = [(SSHDConfigID, sshd_decoder), (SysctlID, sysctl_decoder), (PasswdID, passwd_decoder),
     (ShadowID, shadow_decoder), (GroupID, group_decoder), (NSSwitchID, nsswitch_decoder), (LoginDefsID, login_defs_decoder)]"

definition go_codec :: "(fact_id \<times> payload decoder) list \<Rightarrow> payload decoder \<Rightarrow> payload decoder \<Rightarrow> payload codec" where
  "go_codec others tally matches = \<lparr>cd_marshal = marshal_payload, cd_unknown = UnknownFact,
     cd_registry = go_registry @ others, cd_tally = tally, cd_matches = matches\<rparr>"

lemmas decoder_defs = sshd_decoder_def sysctl_decoder_def passwd_decoder_def shadow_decoder_def
  group_decoder_def nsswitch_decoder_def login_defs_decoder_def
lemmas id_defs = SSHDConfigID_def SysctlID_def PasswdID_def ShadowID_def GroupID_def NSSwitchID_def LoginDefsID_def

section \<open>What the codec keeps\<close>

definition storable_config :: "sshd_config \<Rightarrow> bool" where
  "storable_config c \<longleftrightarrow>
     list_all utf8 (sc_files c) \<and> list_all utf8 (sc_unresolved c)
     \<and> list_all (\<lambda>d. utf8 (d_keyword d) \<and> utf8 (d_value d) \<and> utf8 (d_file d) \<and> int64 (d_line d) \<and> utf8 (d_match d))
         (sc_directives c)
     \<and> list_all (\<lambda>l. utf8 (cl_file l) \<and> int64 (cl_line l) \<and> utf8 (cl_text l)) (sc_syntax c)
     \<and> wf_map (sc_digests c) \<and> list_all (\<lambda>(k, s). utf8 k \<and> utf8 s) (sc_digests c)"

definition storable_setting :: "sysctl_setting \<Rightarrow> bool" where
  "storable_setting x \<longleftrightarrow> utf8 (ss_key x) \<and> utf8 (ss_value x) \<and> utf8 (ss_file x) \<and> int64 (ss_line x)"

definition storable_sysctl :: "sysctl \<Rightarrow> bool" where
  "storable_sysctl s \<longleftrightarrow>
     wf_map (sy_running s) \<and> list_all (\<lambda>(k, r). utf8 k \<and> utf8 (sr_key r) \<and> utf8 (sr_state r) \<and> utf8 (sr_value r)
       \<and> utf8 (sr_path r) \<and> utf8 (sr_msg r)) (sy_running s)
     \<and> wf_map (sy_configured s) \<and> list_all (\<lambda>(k, xs). utf8 k \<and> list_all storable_setting xs) (sy_configured s)
     \<and> list_all utf8 (sy_files s)
     \<and> wf_map (sy_digests s) \<and> list_all (\<lambda>(k, d). utf8 k \<and> utf8 d) (sy_digests s)
     \<and> wf_map (sy_resolved s) \<and> list_all (\<lambda>(k, d). utf8 k \<and> utf8 d) (sy_resolved s)
     \<and> list_all storable_setting (sy_excluded s)
     \<and> list_all (\<lambda>u. utf8 (uf_file u) \<and> utf8 (kind_str (uf_kind u)) \<and> kind_of (kind_str (uf_kind u)) = uf_kind u
         \<and> utf8 (uf_msg u)) (sy_unreadable s)"

text \<open>The fact IDs and payloads the codec keeps, by the type of the payload.\<close>

fun storable_as :: "fact_id \<Rightarrow> payload \<Rightarrow> bool" where
  "storable_as i (SSHDFact c) \<longleftrightarrow> i = SSHDConfigID \<and> storable_config c"
| "storable_as i (SysctlFact s) \<longleftrightarrow> i = SysctlID \<and> storable_sysctl s"
| "storable_as i (PasswdFact x) \<longleftrightarrow> i = PasswdID \<and> storable_passwd x"
| "storable_as i (ShadowFact x) \<longleftrightarrow> i = ShadowID \<and> storable_shadow x"
| "storable_as i (GroupFact x) \<longleftrightarrow> i = GroupID \<and> storable_group x"
| "storable_as i (NSSwitchFact x) \<longleftrightarrow> i = NSSwitchID \<and> storable_nsswitch x"
| "storable_as i (LoginDefsFact x) \<longleftrightarrow> i = LoginDefsID \<and> storable_login_defs x"
| "storable_as i _ \<longleftrightarrow> False"

definition kept :: "payload codec \<Rightarrow> payload fact \<Rightarrow> bool" where
  "kept cd f \<longleftrightarrow>
     (case payload f of
        UnknownFact raw \<Rightarrow> opaque_version f = Some (fact_version f) \<and> raw \<noteq> [] \<and> marshalled raw
          \<and> (case decoderFor cd (fact_id f) of None \<Rightarrow> True | Some d \<Rightarrow> dc_version d \<noteq> fact_version f)
      | p \<Rightarrow> fact_version f = 1 \<and> opaque_version f = None \<and> storable_as (fact_id f) p)"

text \<open>Only the order of the lists that stand for maps can change.\<close>

definition reread_config :: "sshd_config \<Rightarrow> sshd_config" where
  "reread_config c = c\<lparr>sc_digests := rebuild id (sc_digests c)\<rparr>"

definition reread_sysctl :: "sysctl \<Rightarrow> sysctl" where
  "reread_sysctl s = s\<lparr>sy_running := rebuild id (sy_running s), sy_configured := rebuild id (sy_configured s),
     sy_digests := rebuild id (sy_digests s), sy_resolved := rebuild id (sy_resolved s)\<rparr>"

definition reread :: "payload fact \<Rightarrow> payload fact" where
  "reread f =
     (case payload f of
        SSHDFact c \<Rightarrow> f\<lparr>payload := SSHDFact (reread_config c)\<rparr>
      | SysctlFact s \<Rightarrow> f\<lparr>payload := SysctlFact (reread_sysctl s)\<rparr>
      | _ \<Rightarrow> f)"

lemma d_directives_encoded:
  "list_all (\<lambda>d. int64 (d_line d)) ds \<Longrightarrow>
     d_list zero_directive d_directive [] (node_of html (JArr (map enc_directive ds))) = Some ds"
proof -
  assume a: "list_all (\<lambda>d. int64 (d_line d)) ds"
  have "d_directive zero_directive (node_of html (enc_directive d)) = Some d" if "int64 (d_line d)" for d
    using that by (cases d) (simp add: d_directive_def enc_directive_def decoding zero_directive_def)
  then show ?thesis using d_list_encoded[of ds d_directive zero_directive html enc_directive "\<lambda>d. d"] a
    by (simp add: list_all_iff)
qed

lemma d_lines_encoded:
  "list_all (\<lambda>l. int64 (cl_line l)) ls \<Longrightarrow>
     d_list zero_line d_config_line [] (node_of html (JArr (map enc_config_line ls))) = Some ls"
proof -
  assume a: "list_all (\<lambda>l. int64 (cl_line l)) ls"
  have "d_config_line zero_line (node_of html (enc_config_line l)) = Some l" if "int64 (cl_line l)" for l
    using that by (cases l) (simp add: d_config_line_def enc_config_line_def decoding zero_line_def)
  then show ?thesis using d_list_encoded[of ls d_config_line zero_line html enc_config_line "\<lambda>l. l"] a
    by (simp add: list_all_iff)
qed

lemma rebuild_Nil [simp]: "rebuild c [] = []"
  by (simp add: rebuild_def keys_def)

lemma d_sshd_encoded:
  assumes "storable_config c"
  shows "d_sshd empty_config (node_of html (enc_sshd c)) = Some (reread_config c)"
proof -
  have "list_all (\<lambda>d. int64 (d_line d)) (sc_directives c)" "list_all (\<lambda>l. int64 (cl_line l)) (sc_syntax c)"
    using assms by (auto simp: storable_config_def list_all_iff)
  then show ?thesis
    by (cases c) (simp add: d_sshd_def enc_sshd_def decoding empty_config_def enc_slice_def omit_slice_def
        d_directives_encoded d_lines_encoded reread_config_def)
qed

lemma enc_sshd_marshalled:
  assumes "storable_config c"
  shows "rawless (enc_sshd c)" "levels (enc_sshd c) \<le> 100"
proof -
  note defs = enc_sshd_def enc_slice_def omit_slice_def enc_directive_def enc_config_line_def enc_map_def omit_string_def
  have m: "utf8 k \<and> utf8 (the (lookup (sc_digests c) k))" if "k \<in> set (keys (sc_digests c))" for k
  proof -
    obtain s where "lookup (sc_digests c) k = Some s" using \<open>k \<in> set (keys (sc_digests c))\<close> by (auto simp: gm.set_ks)
    moreover from this have "(k, s) \<in> set (sc_digests c)" by (auto simp: lookup_def dest!: map_of_SomeD)
    ultimately show ?thesis using assms by (auto simp: storable_config_def list_all_iff)
  qed
  show "rawless (enc_sshd c)" using assms m by (auto simp: defs storable_config_def list_all_iff)
  show "levels (enc_sshd c) \<le> 100" by (auto simp: defs list_all_iff)
qed

lemma d_setting_encoded: "storable_setting x \<Longrightarrow> d_setting zero_setting (node_of html (enc_setting x)) = Some x"
  by (cases x) (simp add: d_setting_def enc_setting_def decoding zero_setting_def storable_setting_def)

lemma d_settings_encoded:
  assumes "list_all storable_setting xs"
  shows "d_list zero_setting d_setting [] (node_of html (JArr (map enc_setting xs))) = Some xs"
    "d_list zero_setting d_setting [] (node_of html (enc_slice enc_setting xs)) = Some xs"
proof -
  show a: "d_list zero_setting d_setting [] (node_of html (JArr (map enc_setting xs))) = Some xs"
    using d_list_encoded[of xs d_setting zero_setting html enc_setting "\<lambda>x. x"] d_setting_encoded assms
    by (simp add: list_all_iff)
  then show "d_list zero_setting d_setting [] (node_of html (enc_slice enc_setting xs)) = Some xs"
    by (cases xs) (simp_all add: enc_slice_def)
qed

lemma d_running_encoded: "d_running zero_running_parameter (node_of html (enc_running r)) = Some r"
  by (cases r) (simp add: d_running_def enc_running_def decoding zero_running_parameter_def)

lemma d_unreadable_encoded:
  "kind_of (kind_str (uf_kind u)) = uf_kind u \<Longrightarrow> d_unreadable zero_unreadable (node_of html (enc_unreadable u)) = Some u"
  by (cases u) (simp add: d_unreadable_def enc_unreadable_def decoding zero_unreadable_def)

text \<open>What a map of the fact holds under one of its keys.\<close>

lemma entry_of: "k \<in> set (keys m) \<Longrightarrow> \<exists>v. lookup m k = Some v \<and> (k, v) \<in> set m"
  by (auto simp: gm.set_ks lookup_def dest: map_of_SomeD)

lemma map_entries:
  "wf_map m \<Longrightarrow> list_all (\<lambda>(k, v). utf8 k \<and> Q v) m \<Longrightarrow> k \<in> set (keys m) \<Longrightarrow> utf8 k \<and> Q (the (lookup m k))"
  using entry_of[of k m] by (auto simp: list_all_iff)

lemma d_sysctl_encoded:
  assumes "storable_sysctl s"
  shows "d_sysctl empty_sysctl (node_of html (enc_sysctl s)) = Some (reread_sysctl s)"
proof -
  have c: "d_map [] (d_list zero_setting d_setting) [] (node_of html (enc_map (enc_slice enc_setting) (sy_configured s)))
      = Some (rebuild id (sy_configured s))"
  proof (rule d_map_encoded, rule ballI)
    fix k assume "k \<in> set (keys (sy_configured s))"
    then have "list_all storable_setting (the (lookup (sy_configured s) k))"
      using assms map_entries[of "sy_configured s" "list_all storable_setting"] by (auto simp: storable_sysctl_def)
    then show "d_list zero_setting d_setting [] (node_of html (enc_slice enc_setting (the (lookup (sy_configured s) k))))
        = Some (id (the (lookup (sy_configured s) k)))"
      by (simp add: d_settings_encoded)
  qed
  have r: "d_map zero_running_parameter d_running [] (node_of html (enc_map enc_running (sy_running s)))
      = Some (rebuild id (sy_running s))"
    by (rule d_map_encoded) (simp add: d_running_encoded)
  have u: "d_list zero_unreadable d_unreadable [] (node_of html (JArr (map enc_unreadable (sy_unreadable s)))) = Some (sy_unreadable s)"
    using d_list_encoded[of "sy_unreadable s" d_unreadable zero_unreadable html enc_unreadable "\<lambda>x. x"] d_unreadable_encoded assms
    by (simp add: list_all_iff storable_sysctl_def)
  have "list_all storable_setting (sy_excluded s)" using assms by (simp add: storable_sysctl_def)
  note e = d_settings_encoded(1)[OF this]
  show ?thesis
    by (cases s) (use c r u e in \<open>simp add: d_sysctl_def enc_sysctl_def decoding empty_sysctl_def omit_slice_def omit_map_def
      reread_sysctl_def\<close>)
qed

lemma enc_sysctl_marshalled:
  assumes "storable_sysctl s"
  shows "rawless (enc_sysctl s)" "levels (enc_sysctl s) \<le> 100"
proof -
  note defs = enc_sysctl_def enc_slice_def omit_slice_def omit_map_def enc_running_def enc_setting_def enc_unreadable_def
    enc_map_def omit_string_def
  have r: "utf8 k \<and> utf8 (sr_key v) \<and> utf8 (sr_state v) \<and> utf8 (sr_value v) \<and> utf8 (sr_path v) \<and> utf8 (sr_msg v)"
    if "k \<in> set (keys (sy_running s))" "v = the (lookup (sy_running s) k)" for k v
    using assms entry_of[OF that(1)] that(2) by (auto simp: storable_sysctl_def list_all_iff)
  have c: "utf8 k \<and> list_all storable_setting (the (lookup (sy_configured s) k))" if "k \<in> set (keys (sy_configured s))" for k
    using assms entry_of[OF that] by (auto simp: storable_sysctl_def list_all_iff)
  have d: "utf8 k \<and> utf8 (the (lookup (sy_digests s) k))" if "k \<in> set (keys (sy_digests s))" for k
    using assms entry_of[OF that] by (auto simp: storable_sysctl_def list_all_iff)
  have l: "utf8 k \<and> utf8 (the (lookup (sy_resolved s) k))" if "k \<in> set (keys (sy_resolved s))" for k
    using assms entry_of[OF that] by (auto simp: storable_sysctl_def list_all_iff)
  show "rawless (enc_sysctl s)"
    using assms r c d l by (auto simp: defs storable_sysctl_def storable_setting_def list_all_iff)
  show "levels (enc_sysctl s) \<le> 100" by (auto simp: defs list_all_iff)
qed

lemma fact_json_unknown: "raw \<noteq> [] \<Longrightarrow> marshalled raw \<Longrightarrow> print_json True (unknown_json raw) = raw"
  by (simp add: unknown_json_def compact_marshalled)

text \<open>A payload with an entry of its own is encoded to JSON that its entry decodes to the payload, up to \<^const>\<open>reread\<close>.\<close>

fun reread_payload :: "payload \<Rightarrow> payload" where
  "reread_payload (SSHDFact c) = SSHDFact (reread_config c)"
| "reread_payload (SysctlFact s) = SysctlFact (reread_sysctl s)"
| "reread_payload p = p"

lemma reread_payload: "reread f = f\<lparr>payload := reread_payload (payload f)\<rparr>"
  by (cases f) (simp add: reread_def split: payload.split)

lemma storable_marshalled:
  assumes "storable_as i p"
  shows "rawless (marshal_payload p)" "levels (marshal_payload p) \<le> 100"
  using assms enc_sshd_marshalled enc_sysctl_marshalled enc_passwd_marshalled enc_shadow_marshalled enc_group_marshalled
    enc_nsswitch_marshalled enc_login_defs_marshalled
  by (cases "(i, p)" rule: storable_as.cases; auto)+

lemma storable_decoded:
  assumes "storable_as i p"
  shows "\<exists>d. decoderFor (go_codec others tally matches) i = Some d \<and> dc_version d = 1
     \<and> dc_decode d (node_of True (marshal_payload p))
         = Some \<lparr>fact_id = i, fact_version = 1, opaque_version = None, payload = reread_payload p\<rparr>"
  using assms
  by (cases "(i, p)" rule: storable_as.cases)
    (auto simp: decoderFor_def go_codec_def go_registry_def decoder_defs entry_def id_defs d_sshd_encoded d_sysctl_encoded)

interpretation go: fact_codec "go_codec others tally matches" "kept (go_codec others tally matches)" reread
  for others tally matches
proof
  let ?cd = "go_codec others tally matches"
  have m: "cd_marshal ?cd = marshal_payload" by (simp add: go_codec_def)
  fix f assume f: "kept ?cd f"
  have cases: "(\<exists>raw. payload f = UnknownFact raw)
      \<or> (fact_version f = 1 \<and> opaque_version f = None \<and> storable_as (fact_id f) (payload f))"
    using f by (auto simp: kept_def split: payload.splits)
  show "fact_id (reread f) = fact_id f" by (simp add: reread_payload)
  show "marshalled (fact_json ?cd f)"
    using cases
  proof (elim disjE exE)
    fix raw assume "payload f = UnknownFact raw"
    then show ?thesis using f by (auto simp: kept_def m fact_json_unknown)
  next
    assume "fact_version f = 1 \<and> opaque_version f = None \<and> storable_as (fact_id f) (payload f)"
    then have "rawless (marshal_payload (payload f))" "levels (marshal_payload (payload f)) \<le> 100"
      using storable_marshalled by blast+
    then show ?thesis unfolding m marshalled_def
      by (intro exI[of _ "marshal_payload (payload f)"]) (simp add: m maxNestingDepth_def)
  qed
  show "decode_data ?cd (fact_id f) (fact_version f) (fact_json ?cd f) = Some (reread f)"
    using cases
  proof (elim disjE exE)
    fix raw assume u: "payload f = UnknownFact raw"
    then have k: "opaque_version f = Some (fact_version f)" "fact_json ?cd f = raw"
      "case decoderFor ?cd (fact_id f) of None \<Rightarrow> True | Some d \<Rightarrow> dc_version d \<noteq> fact_version f"
      using f by (auto simp: kept_def m fact_json_unknown)
    have "unknown_fact ?cd (fact_id f) (fact_version f) raw = f"
      using k(1) u by (cases f) (simp add: unknown_fact_def go_codec_def)
    then show ?thesis using k(2,3) u by (auto simp: decode_data_def reread_payload split: option.split)
  next
    assume k: "fact_version f = 1 \<and> opaque_version f = None \<and> storable_as (fact_id f) (payload f)"
    then have "whole_value (fact_json ?cd f) = Some (node_of True (marshal_payload (payload f)))"
      using storable_marshalled[of "fact_id f" "payload f"] by (simp add: m whole_value_marshalled maxNestingDepth_def)
    moreover obtain d where "decoderFor ?cd (fact_id f) = Some d" "dc_version d = 1"
      "dc_decode d (node_of True (marshal_payload (payload f)))
         = Some \<lparr>fact_id = fact_id f, fact_version = 1, opaque_version = None, payload = reread_payload (payload f)\<rparr>"
      using storable_decoded k by blast
    ultimately show ?thesis using k by (cases f) (simp add: decode_data_def reread_payload)
  qed
qed

end
