(* ===== verification/Bundle_Props.thy ===== *)
theory Bundle_Props
  imports Fact_Codec
begin

text \<open>
  The promises of the bundle format for the program's own codec: what an accepted archive is, and that a
  collection which was written is the one that is read.
\<close>

section \<open>A bundle to try them on\<close>

definition sample_config :: sshd_config where
  "sample_config = \<lparr>sc_installed = True, sc_files = [''/etc/ssh/sshd_config''],
     sc_directives = [\<lparr>d_keyword = ''Port'', d_value = ''22'', d_file = ''/etc/ssh/sshd_config'', d_line = 2,
       d_in_match = False, d_match = []\<rparr>],
     sc_unresolved = [], sc_syntax = [], sc_digests = [(''/etc/ssh/sshd_config'', ''ab'')]\<rparr>"

definition stored_facts :: "payload fact_set" where
  "stored_facts = PutError \<lparr>fe_fact = ''shadow'', fe_kind = ErrPermission, fe_msg = ''denied'', fe_path = ''/etc/shadow''\<rparr>
     (Put \<lparr>fact_id = SSHDConfigID, fact_version = 1, opaque_version = None, payload = SSHDFact sample_config\<rparr> new_set)"

definition sample_evidence :: evidence_store where
  "sample_evidence = MarkTruncated ''/var/log'' (snd (Add ''Port 22'' NewEvidenceStore))"

definition sample_bundle :: "payload fact_bundle" where
  "sample_bundle = \<lparr>bd_manifest = zero_manifest\<lparr>mf_bundle_id := ''0123456789abcdef0123456789abcdef'', mf_catalog_version := 3\<rparr>,
     bd_meta = \<lparr>mt_hostname = ''web1'', mt_os_release = [], mt_kernel = [], mt_arch = ''amd64''\<rparr>,
     bd_facts = Some stored_facts, bd_evidence = Some sample_evidence\<rparr>"

definition no_decoder :: "payload decoder" where
  "no_decoder = \<lparr>dc_version = 0, dc_decode = (\<lambda>n. None)\<rparr>"

definition sample_codec :: "payload codec" where
  "sample_codec = go_codec [] no_decoder no_decoder"

lemma single_map [simp]: "keys (put k v []) = [k]" "lookup (put k v []) k = Some v"
  by (simp_all add: keys_def put_def lookup_def)

lemma sample_maps:
  "facts stored_facts = put SSHDConfigID \<lparr>fact_id = SSHDConfigID, fact_version = 1, opaque_version = None,
     payload = SSHDFact sample_config\<rparr> []"
  "errors stored_facts = put ''shadow''
     \<lparr>fe_fact = ''shadow'', fe_kind = ErrPermission, fe_msg = ''denied'', fe_path = ''/etc/shadow''\<rparr> []"
  by (simp_all add: stored_facts_def Put_def PutError_def new_set_def remove_def put_def SSHDConfigID_def AList.delete_eq)

lemma stored_facts_simps:
  "keys (facts stored_facts) = [SSHDConfigID]" "keys (errors stored_facts) = [''shadow'']"
  "lookup (facts stored_facts) SSHDConfigID = Some
     \<lparr>fact_id = SSHDConfigID, fact_version = 1, opaque_version = None, payload = SSHDFact sample_config\<rparr>"
  by (simp_all add: sample_maps)

lemma sample_Text: "Text ''/var/log'' = ''/var/log''"
  by (rule Text_id[OF safe_text_ascii]) (simp_all add: byte_def max_text_def)

lemma sample_evidence_simps: "blobs sample_evidence = put (digest ''Port 22'') ''Port 22'' []"
  "truncated sample_evidence = put ''/var/log'' () []"
  by (simp_all add: sample_evidence_def MarkTruncated_def Add_def NewEvidenceStore_def Let_def sample_Text)

lemma sample_index: "store_index sample_evidence = \<lparr>ei_count = 1, ei_total_bytes = 7, ei_truncated = [''/var/log'']\<rparr>"
  by (simp add: store_index_def Len_def TotalBytes_def TruncatedSources_def sample_evidence_simps)

lemma sample_index_entry: "fact_index sample_codec stored_facts SSHDConfigID = \<lparr>fr_id = ''sshd.config'', fr_version = 1,
    fr_member = ''facts/sshd.config.json'', fr_sha256 = digest (snd (fact_member sample_codec stored_facts SSHDConfigID))\<rparr>"
  by (simp add: fact_index_def stored_facts_simps fact_member_name factsPrefix_def factsSuffix_def) (simp add: SSHDConfigID_def)

lemma zero_time_text: "time_text zero_time"
proof -
  have "parse_rfc3339 zero_time \<noteq> None" "quote_body False zero_time = zero_time" by code_simp+
  moreover have "utf8 zero_time" by (simp add: zero_time_def)
  ultimately show ?thesis by (simp add: time_text_def)
qed

lemma evaluated_name: "validMemberName (factsPrefix @ SSHDConfigID @ factsSuffix)"
  by code_simp

lemma sample_storable: "storable sample_codec (kept sample_codec) sample_bundle stored_facts"
proof -
  have "wf_set stored_facts" unfolding stored_facts_def by (intro wf_PutError wf_Put wf_new_set)
  moreover have "storable_manifest (written_manifest sample_codec sample_bundle stored_facts)"
    by (simp add: storable_manifest_def written_manifest_def sample_bundle_def zero_manifest_def zero_tool_def IDs_def
        stored_facts_simps sample_index_entry storable_ref_def sample_index storable_index_def storable_scan_def zero_scan_def
        zero_time_text int64_def toolName_def Schema_def metaMember_def errorsMember_def integrityMember_def hashAlgorithm_def)
  moreover have "storable_meta (bd_meta sample_bundle)" by (simp add: sample_bundle_def storable_meta_def)
  moreover have "storable_config sample_config"
    by (simp add: storable_config_def sample_config_def int64_def wf_map_def)
  then have "list_all (\<lambda>i. kept sample_codec (the (lookup (facts stored_facts) i))
      \<and> validMemberName (factsPrefix @ i @ factsSuffix)) (IDs stored_facts)"
    using evaluated_name by (simp add: IDs_def stored_facts_simps kept_def)
  moreover have "list_all storable_error (Errors stored_facts)"
    by (simp add: Errors_def stored_facts_simps) (simp add: sample_maps storable_error_def kind_of_def)
  moreover have "wf_store sample_evidence" unfolding sample_evidence_def by (intro wf_MarkTruncated wf_Add) simp
  moreover have "TruncatedSources sample_evidence = [''/var/log'']" using sample_index by (simp add: store_index_def)
  ultimately show ?thesis by (simp add: storable_def sample_bundle_def sample_Text)
qed

text \<open>How long a document can be.\<close>

lemma length_quote_body: "length (quote_body html s) \<le> 6 * length s"
proof (induction html s rule: quote_body.induct)
  case (1 html s)
  show ?case
  proof (cases "s = []")
    case False
    have n: "snd (quote_piece html s) \<le> length s"
    proof -
      have "line_separator s = Some c \<Longrightarrow> 3 \<le> length s" for c
        by (auto simp: line_separator_def split: if_splits dest!: arg_cong[where f = length])
      then show ?thesis using False decode_rune_size[OF False]
        by (auto simp: quote_piece_def Suc_le_eq split: option.split)
    qed
    have "length (quote_ascii html c) \<le> 6" for c by (simp add: quote_ascii_def Let_def split: option.split)
    then have "length (fst (quote_piece html s)) \<le> 6 * snd (quote_piece html s)"
      by (auto simp: quote_piece_def split: option.split)
    then have "length (quote_body html s) \<le> 6 * snd (quote_piece html s) + 6 * (length s - snd (quote_piece html s))"
      using 1[OF False] False by (subst quote_body.simps) simp
    then show ?thesis using n by simp
  qed (simp add: quote_body.simps)
qed

fun json_bound :: "json \<Rightarrow> nat" where
  "json_bound (JStr s) = 6 * length s + 2"
| "json_bound (JArr vs) = 2 + sum_list (map (\<lambda>v. json_bound v + 1) vs)"
| "json_bound (JObj ms) = 2 + sum_list (map (\<lambda>(k, v). 6 * length k + json_bound v + 4) ms)"
| "json_bound (JInt i) = length (int_str i)"
| "json_bound (JRaw r) = length r"
| "json_bound _ = 5"

lemma length_join: "length (join [c] xs) \<le> sum_list (map (\<lambda>x. length x + 1) xs)"
  by (induction "[c]" xs rule: join.induct) auto

lemma length_print_json: "plain marshalled v \<Longrightarrow> length (print_json html v) \<le> json_bound v"
proof (induction v rule: json_bound.induct)
  case (2 vs)
  have "length (join [CHR '',''] (map (print_json html) vs)) \<le> sum_list (map (\<lambda>v. length (print_json html v) + 1) vs)"
    using length_join[of "CHR '',''" "map (print_json html) vs"] by (simp add: comp_def)
  also have "\<dots> \<le> sum_list (map (\<lambda>v. json_bound v + 1) vs)"
    using 2 by (intro sum_list_mono) (simp add: list_all_iff)
  finally show ?case by simp
next
  case (3 ms)
  let ?p = "\<lambda>(k, v). quote_json html k @ '':'' @ print_json html v"
  have "length (join [CHR '',''] (map ?p ms)) \<le> sum_list (map (\<lambda>x. length (?p x) + 1) ms)"
    using length_join[of "CHR '',''" "map ?p ms"] by (simp add: comp_def)
  also have "\<dots> \<le> sum_list (map (\<lambda>(k, v). 6 * length k + json_bound v + 4) ms)"
  proof (intro sum_list_mono)
    fix x assume x: "x \<in> set ms"
    obtain k v where kv: "x = (k, v)" by (cases x)
    have "length (print_json html v) \<le> json_bound v" using 3 x kv by (force simp: list_all_iff)
    then show "length (?p x) + 1 \<le> (\<lambda>(k, v). 6 * length k + json_bound v + 4) x"
      using length_quote_body[of html k] kv by (simp add: quote_json_def)
  qed
  finally show ?case by simp
qed (auto simp: quote_json_def length_quote_body compact_marshalled le_trans[OF length_quote_body])

lemma length_marshal: "plain marshalled v \<Longrightarrow> length (marshal v) \<le> json_bound v + 1"
  by (simp add: marshal_def length_print_json)

lemma int_str_lengths: "length (int_str 0) = 1" "length (int_str 1) = 1" "length (int_str 2) = 1" "length (int_str 3) = 1"
  "length (int_str 7) = 1"
  by code_simp+

lemma sample_manifest_size: "length (marshal (enc_manifest (written_manifest sample_codec sample_bundle stored_facts))) \<le> 100000"
proof -
  let ?m = "written_manifest sample_codec sample_bundle stored_facts"
  have "document (enc_manifest ?m)" using sample_storable by (intro document_manifest) (simp add: storable_def)
  then have "length (marshal (enc_manifest ?m)) \<le> json_bound (enc_manifest ?m) + 1" by (intro length_marshal) simp
  also have "json_bound (enc_manifest ?m) + 1 \<le> 100000"
    by (simp add: written_manifest_def sample_bundle_def zero_manifest_def zero_tool_def IDs_def stored_facts_simps
        sample_index_entry sample_index zero_scan_def enc_manifest_def enc_tool_def enc_scan_def enc_ref_def enc_index_def
        enc_integrity_def omit_string_def int_str_lengths toolName_def Schema_def metaMember_def errorsMember_def
        integrityMember_def hashAlgorithm_def zero_time_def)
  finally show ?thesis .
qed

lemma sample_fact_size: "length (snd (fact_member sample_codec stored_facts SSHDConfigID)) \<le> 100000"
proof -
  have s: "storable_config sample_config" by (simp add: storable_config_def sample_config_def int64_def wf_map_def)
  have m: "marshalled (print_json True (enc_sshd sample_config))"
    using enc_sshd_marshalled[OF s] by (auto simp: marshalled_def maxNestingDepth_def)
  let ?d = "\<lparr>fd_id = SSHDConfigID, fd_version = 1, fd_data = print_json True (enc_sshd sample_config)\<rparr>"
  have "plain marshalled (enc_doc ?d)" using document_doc[of ?d] m by (simp add: SSHDConfigID_def)
  then have l: "length (marshal (enc_doc ?d)) \<le> json_bound (enc_doc ?d) + 1" by (rule length_marshal)
  have "plain marshalled (enc_sshd sample_config)"
    by (simp add: sample_config_def enc_sshd_def enc_slice_def enc_directive_def omit_slice_def omit_string_def enc_map_def
        keys_def lookup_def)
  then have "length (print_json True (enc_sshd sample_config)) \<le> json_bound (enc_sshd sample_config)"
    by (rule length_print_json)
  also have "\<dots> \<le> 5000"
    by (simp add: sample_config_def enc_sshd_def enc_slice_def enc_directive_def omit_slice_def omit_string_def enc_map_def
        keys_def lookup_def int_str_lengths)
  finally have "json_bound (enc_doc ?d) + 1 \<le> 100000" by (simp add: enc_doc_def int_str_lengths SSHDConfigID_def)
  then show ?thesis using l by (simp add: fact_member_def Let_def stored_facts_simps sample_codec_def go_codec_def)
qed

lemma sample_small_sizes:
  "length (marshal (enc_meta (bd_meta sample_bundle))) \<le> 100000"
  "length (marshal (JArr (map enc_error (Errors stored_facts)))) \<le> 100000"
  using length_marshal[of "enc_meta (bd_meta sample_bundle)"] length_marshal[of "JArr (map enc_error (Errors stored_facts))"]
  by (simp_all add: Errors_def stored_facts_simps)
    (simp_all add: sample_maps enc_error_def enc_meta_def omit_string_def sample_bundle_def)

lemma digest_map_size:
  assumes d: "distinct (map fst ms)" and k: "\<forall>(n, x) \<in> set ms. utf8 n \<and> length n \<le> 200"
  shows "length (marshal (enc_integrity_doc \<lparr>id_algorithm = hashAlgorithm, id_members = digest_map ms\<rparr>)) \<le> 1000 + 2000 * length ms"
proof -
  let ?m = "digest_map ms"
  have e: "length n \<le> 200 \<and> utf8 n \<and> (\<exists>x. the (lookup ?m n) = digest x)" if n: "n \<in> set (keys ?m)" for n
  proof -
    obtain x where x: "map_of ms n = Some x" using n by (auto simp: gm.set_ks lookup_digest_map[OF d])
    then have "(n, x) \<in> set ms" by (rule map_of_SomeD)
    then show ?thesis using x k by (auto simp: lookup_digest_map[OF d])
  qed
  have "set (keys ?m) \<subseteq> set (map fst ms)"
    by (auto simp: gm.set_ks lookup_digest_map[OF d] dest!: map_of_SomeD intro: rev_image_eqI)
  then have "card (set (keys ?m)) \<le> length (map fst ms)" using card_mono card_length le_trans by (metis List.finite_set)
  then have l: "length (keys ?m) \<le> length ms" using distinct_card[OF gm.distinct_ks[OF digest_map_wf]] by (metis length_map)
  have "sum_list (map (\<lambda>k. 6 * length k + json_bound (JStr (the (lookup ?m k))) + 4) (keys ?m)) \<le> sum_list (map (\<lambda>_. 2000) (keys ?m))"
    using e by (intro sum_list_mono) force
  also have "\<dots> \<le> 2000 * length ms" using l by (simp add: sum_list_triv)
  finally have "json_bound (enc_map JStr ?m) \<le> 2 + 2000 * length ms" by (simp add: enc_map_def comp_def)
  then have b: "json_bound (enc_integrity_doc \<lparr>id_algorithm = hashAlgorithm, id_members = ?m\<rparr>) + 1 \<le> 1000 + 2000 * length ms"
    by (simp add: enc_integrity_doc_def hashAlgorithm_def)
  have "plain marshalled (enc_map JStr ?m)" using e by (intro enc_map_plain) fastforce
  then have "plain marshalled (enc_integrity_doc \<lparr>id_algorithm = hashAlgorithm, id_members = ?m\<rparr>)"
    by (simp add: enc_integrity_doc_def hashAlgorithm_def)
  then show ?thesis using length_marshal b le_trans by blast
qed

lemma sample_written: "\<exists>ms. Write sample_codec sample_bundle = Inr ms \<and> size_of ms \<le> maxDecompressedBytes"
proof -
  let ?cm = "content_members sample_codec sample_bundle stored_facts"
  let ?doc = "enc_integrity_doc \<lparr>id_algorithm = hashAlgorithm, id_members = digest_map ?cm\<rparr>"
  have w: "Write sample_codec sample_bundle = Inr (?cm @ [(integrityMember, marshal ?doc)])"
    by (simp add: Write_def Let_def sample_bundle_def zero_manifest_def hex_id_def is_hex_def byte_def)
  have cm: "?cm = [(manifestMember, marshal (enc_manifest (written_manifest sample_codec sample_bundle stored_facts))),
      (metaMember, marshal (enc_meta (bd_meta sample_bundle))), fact_member sample_codec stored_facts SSHDConfigID,
      (evidencePrefix @ digest ''Port 22'' @ evidenceSuffix, ''Port 22''),
      (errorsMember, marshal (JArr (map enc_error (Errors stored_facts))))]"
    by (simp add: content_members_def IDs_def stored_facts_simps evidenceMembers_def Digests_def Get_def
        sample_evidence_simps) (simp add: sample_bundle_def evidenceMembers_def Digests_def Get_def sample_evidence_simps)
  have n: "fst (fact_member sample_codec stored_facts SSHDConfigID) = ''facts/sshd.config.json''"
    by (simp add: fact_member_name factsPrefix_def factsSuffix_def SSHDConfigID_def)
  have "distinct (map fst ?cm)" using distinct_content[OF sample_storable] by simp
  moreover have "\<forall>(n, x) \<in> set ?cm. utf8 n \<and> length n \<le> 200"
    unfolding cm using n by (cases "fact_member sample_codec stored_facts SSHDConfigID")
      (simp add: member_names evidenceSuffix_def utf8_append)
  ultimately have "length (marshal ?doc) \<le> 1000 + 2000 * length ?cm" by (rule digest_map_size)
  then have "length (marshal ?doc) \<le> 100000" by (simp add: cm)
  then have "size_of (?cm @ [(integrityMember, marshal ?doc)]) \<le> maxDecompressedBytes"
    unfolding cm using sample_manifest_size sample_fact_size sample_small_sizes
    by (cases "fact_member sample_codec stored_facts SSHDConfigID") (simp add: maxDecompressedBytes_def)
  then show ?thesis using w by blast
qed

section \<open>Properties\<close>

text \<open>
  C11: an accepted archive is exactly what its integrity document records. When Read returns a bundle, the
  archive decompressed within the limit, its members were regular files of distinct safe names, every
  member but integrity.json has the digest recorded for it, every recorded member is there, and every
  blob of the evidence store is kept under its own digest.
\<close>

theorem accepted_archive_is_what_was_recorded:
  assumes "Read cd c = Inr b"
  shows "\<exists>doc. (\<exists>t \<in> set (ct_members c). tm_name t = integrityMember
              \<and> unmarshal d_integrity_doc zero_integrity (tm_data t) = Some doc)
     \<and> id_algorithm doc = hashAlgorithm
     \<and> distinct (map tm_name (ct_members c))
     \<and> sum_list (map (int \<circ> length \<circ> tm_data) (ct_members c)) \<le> maxDecompressedBytes
     \<and> (\<forall>t \<in> set (ct_members c). tm_regular t \<and> validMemberName (tm_name t)
          \<and> (tm_name t = integrityMember \<or> lookup (id_members doc) (tm_name t) = Some (digest (tm_data t))))
     \<and> (\<forall>name. lookup (id_members doc) name \<noteq> None \<longrightarrow> name \<in> tm_name ` set (ct_members c))
     \<and> (\<forall>s k d. bd_evidence b = Some s \<longrightarrow> Get s k = Some d \<longrightarrow> k = digest d)"
proof -
  obtain ms where ms: "readArchive c = Inr ms" "verifyIntegrity ms = None" "read_verified cd ms = Inr b"
    using assms by (auto simp: Read_def split: sum.splits option.splits)
  note R = readArchive_Inr[OF ms(1)]
  obtain raw doc where doc: "lookup ms integrityMember = Some raw" "unmarshal d_integrity_doc zero_integrity raw = Some doc"
    "id_algorithm doc = hashAlgorithm" "recorded ms doc" using ms(2) unfolding verifyIntegrity_None by blast
  have "k = digest d" if "bd_evidence b = Some s" "Get s k = Some d" for s k d
    using wf_readEvidence[of "bd_manifest b" ms s] read_verified_Inr[OF ms(3)] that by (auto simp: wf_store_def Get_def)
  moreover have "name \<in> tm_name ` set (ct_members c)" if "lookup (id_members doc) name \<noteq> None" for name
  proof -
    have "lookup ms name \<noteq> None" using doc(4) that unfolding recorded_def by blast
    then obtain d where "lookup ms name = Some d" by blast
    then show ?thesis using R(7) by blast
  qed
  moreover have "tm_name t = integrityMember \<or> lookup (id_members doc) (tm_name t) = Some (digest (tm_data t))"
    if "t \<in> set (ct_members c)" for t using doc(4) R(5) that by (auto simp: recorded_def)
  moreover have "\<exists>t \<in> set (ct_members c). tm_name t = integrityMember
      \<and> unmarshal d_integrity_doc zero_integrity (tm_data t) = Some doc" using R(7)[OF doc(1)] doc(2) by auto
  ultimately show ?thesis using doc(3) R(4-6) by blast
qed

theorem accepted_archive_is_what_was_recorded_witness:
  "\<exists>c b. Read sample_codec c = Inr b \<and> distinct (map tm_name (ct_members c))"
proof -
  obtain ms b where r: "Read sample_codec (archive ms) = Inr b"
    using go.Read_Write[of "[]" no_decoder no_decoder, folded sample_codec_def, OF sample_storable] sample_written by blast
  from accepted_archive_is_what_was_recorded[OF r] r show ?thesis by blast
qed



end
