(* ===== verification/Sshd_Reread.thy ===== *)
theory Sshd_Reread
  imports Bundle_Props Sshd_Catalog
begin

text \<open>
  The checks of the SSHD module over a stored collection: what they read of the configuration is the same over the
  fact set a bundle gives back as over the one that was collected.
\<close>

section \<open>The checks read a configuration through its digests\<close>

lemma digest_of_reread [simp]: "wf_map (sc_digests c) \<Longrightarrow> digest_of (reread_config c) f = digest_of c f"
  by (simp add: digest_of_def reread_config_def comp_def split: option.split)

lemma reread_config_simps [simp]:
  "sc_installed (reread_config c) = sc_installed c" "sc_files (reread_config c) = sc_files c"
  "sc_directives (reread_config c) = sc_directives c" "sc_unresolved (reread_config c) = sc_unresolved c"
  "sc_syntax (reread_config c) = sc_syntax c"
  by (simp_all add: reread_config_def)

lemma lookups_reread [simp]: "Effective (reread_config c) kw = Effective c kw"
  "AllOccurrences (reread_config c) kw = AllOccurrences c kw" "loosenedInMatch (reread_config c) kw p = loosenedInMatch c kw p"
  by (simp_all add: Effective_def AllOccurrences_def loosenedInMatch_def)

lemma evidence_reread [simp]:
  assumes "wf_map (sc_digests c)"
  shows "primaryEvidence (reread_config c) = primaryEvidence c" "directiveEvidence (reread_config c) = directiveEvidence c"
    "matchScopedEvidence (reread_config c) = matchScopedEvidence c" "idle_evidence (reread_config c) = idle_evidence c"
    "unresolvedInclude (reread_config c) = unresolvedInclude c" "syntaxError (reread_config c) = syntaxError c"
  using assms
  by (simp_all add: fun_eq_iff primaryEvidence_def directiveEvidence_def matchScopedEvidence_def idle_evidence_def
      unresolvedInclude_def syntaxError_def split: option.split)

lemma conditionalFail_reread [simp]: "wf_map (sc_digests c) \<Longrightarrow> conditionalFail (reread_config c) = conditionalFail c"
  by (simp add: fun_eq_iff conditionalFail_def)

lemma values_reread [simp]:
  assumes "wf_map (sc_digests c)"
  shows "bool_absent s1 (reread_config c) = bool_absent s1 c" "bool_value s1 (reread_config c) = bool_value s1 c"
    "int_absent s2 (reread_config c) = int_absent s2 c" "int_value s2 (reread_config c) = int_value s2 c"
    "alg_absent s3 (reread_config c) = alg_absent s3 c" "alg_value s3 (reread_config c) = alg_value s3 c"
    "root_login_value (reread_config c) = root_login_value c"
    "forwarding_absent (reread_config c) = forwarding_absent c" "forwarding_value (reread_config c) = forwarding_value c"
    "loglevel_absent (reread_config c) = loglevel_absent c" "loglevel_value (reread_config c) = loglevel_value c"
    "banner_absent (reread_config c) = banner_absent c" "banner_value (reread_config c) = banner_value c"
  using assms
  by (simp_all only: fun_eq_iff bool_absent_def bool_value_def int_absent_def int_value_def alg_absent_def alg_value_def
      root_login_value_def forwarding_absent_def forwarding_value_def forwarding_pass_def loglevel_absent_def
      loglevel_value_def banner_absent_def banner_value_def evidence_reread conditionalFail_reread lookups_reread
      reread_config_simps digest_of_reread simp_thms)

lemma idle_reread [simp]:
  assumes "wf_map (sc_digests c)"
  shows "resolveIdleValue (reread_config c) = resolveIdleValue c" "idle_verdict (reread_config c) = idle_verdict c"
  using assms
  by (simp_all only: fun_eq_iff resolveIdleValue_def idle_verdict_def evidence_reread conditionalFail_reread lookups_reread
      simp_thms)

lemma evals_reread:
  assumes "configFact fs' = reread_config (configFact fs)" "wf_map (sc_digests (configFact fs))"
  shows "bool_eval s1 fs' = bool_eval s1 fs" "int_eval s2 fs' = int_eval s2 fs" "alg_eval s3 fs' = alg_eval s3 fs"
    "root_login_eval fs' = root_login_eval fs" "idle_eval fs' = idle_eval fs" "forwarding_eval fs' = forwarding_eval fs"
    "loglevel_eval fs' = loglevel_eval fs" "banner_eval fs' = banner_eval fs"
  unfolding bool_eval_def int_eval_def alg_eval_def root_login_eval_def idle_eval_def forwarding_eval_def
    loglevel_eval_def banner_eval_def evaluate_def Let_def assms(1) reread_config_simps lookups_reread
    digest_of_reread[OF assms(2)] evidence_reread[OF assms(2)] values_reread[OF assms(2)] idle_reread[OF assms(2)]
  by (rule refl)+

lemma sshd_check_evals: "map ck_eval sshd_checks =
   [Some root_login_eval, Some (\<lambda>fs. Inr (bool_eval spec0003 fs)), Some (\<lambda>fs. Inr (bool_eval
    spec0004 fs)), Some (\<lambda>fs. Inr (bool_eval spec0005 fs)), Some (\<lambda>fs. Inr (int_eval spec0006
    fs)), Some (\<lambda>fs. Inr (idle_eval fs)), Some (\<lambda>fs. Inr (forwarding_eval fs)), Some (\<lambda>fs.
    Inr (loglevel_eval fs)), Some (\<lambda>fs. Inr (alg_eval spec0010 fs)), Some (\<lambda>fs. Inr (alg_eval
    spec0011 fs)), Some (\<lambda>fs. Inr (alg_eval spec0012 fs)), Some (\<lambda>fs. Inr (bool_eval spec0013
    fs)), Some (\<lambda>fs. Inr (bool_eval spec0014 fs)), Some (\<lambda>fs. Inr (bool_eval spec0015 fs)), Some
    (\<lambda>fs. Inr (int_eval spec0016 fs)), Some (\<lambda>fs. Inr (banner_eval fs)), Some (\<lambda>fs. Inr
    (bool_eval spec0018 fs)), Some (\<lambda>fs. Inr (bool_eval spec0019 fs)), Some (\<lambda>fs. Inr (bool_eval
    spec0020 fs))]"
  by (simp only: sshd_checks_def list.map check_defs check.select_convs)

lemma sshd_evals_reread:
  assumes "configFact fs' = reread_config (configFact fs)" "wf_map (sc_digests (configFact fs))" "ck \<in> set sshd_checks"
    "ck_eval ck = Some ev"
  shows "ev fs' = ev fs"
proof -
  have "Some ev \<in> set (map ck_eval sshd_checks)" using assms(3,4) by (metis image_eqI list.set_map)
  then show ?thesis unfolding sshd_check_evals using evals_reread[OF assms(1,2)] by auto
qed

section \<open>The fact set that is read\<close>

text \<open>Two fact sets that differ in the order of the lists that stand for maps.\<close>

definition reread_set :: "payload fact_set \<Rightarrow> payload fact_set \<Rightarrow> bool" where
  "reread_set fs fs' \<longleftrightarrow>
     (\<forall>i. lookup (facts fs') i = map_option reread (lookup (facts fs) i)) \<and> (\<forall>i. Err fs' i = Err fs i)"

lemma gate_reread:
  assumes "reread_set fs fs'"
  shows "gate is fs' f = gate is fs f"
proof -
  have "Opaque fs' i = Opaque fs i" for i
    using assms by (auto simp: reread_set_def Opaque_def reread_def split: option.splits payload.splits)
  moreover have "contains_id (IDs fs') i = contains_id (IDs fs) i" for i
    using assms by (simp add: reread_set_def contains_id_def set_IDs)
  moreover have "Err fs' i = Err fs i" for i using assms by (simp add: reread_set_def)
  ultimately show ?thesis by (induction "is") (simp_all split: option.split)
qed

lemma configFact_reread:
  assumes "reread_set fs fs'"
  shows "configFact fs' = reread_config (configFact fs)"
proof -
  have e: "reread_config empty_config = empty_config" by (simp add: reread_config_def empty_config_def)
  have a: "as_sshd (payload (reread f)) = map_option reread_config (as_sshd (payload f))" for f
    by (simp add: reread_def split: payload.split)
  have l: "lookup (errors fs') SSHDConfigID = lookup (errors fs) SSHDConfigID"
    "lookup (facts fs') SSHDConfigID = map_option reread (lookup (facts fs) SSHDConfigID)"
    using assms by (simp_all add: reread_set_def Err_def)
  show ?thesis by (auto simp: configFact_def get_def l a e split: option.split)
qed

lemma EvaluateOne_reread:
  assumes "reread_set fs fs'" "\<And>ev. ck_eval ck = Some ev \<Longrightarrow> ev fs' = ev fs"
  shows "EvaluateOne ck fs' = EvaluateOne ck fs"
  using gate_reread[OF assms(1)] assms(2) by (auto simp: EvaluateOne_def Let_def split: option.split)

lemma configFact_wf:
  assumes "storable cd (kept cd) b fs"
  shows "wf_map (sc_digests (configFact fs))"
proof -
  have "wf_map (sc_digests c)" if "lookup (facts fs) SSHDConfigID = Some f" "payload f = SSHDFact c" for f c
    using storable_fact[OF assms that(1)] that(2) by (simp add: kept_def storable_config_def)
  moreover have "wf_map (sc_digests empty_config)" by (simp add: empty_config_def)
  ultimately show ?thesis
    by (auto simp: configFact_def get_def split: option.split elim!: as_sshd.elims)
qed

end
