(* ===== verification/Kernel_Checks.thy ===== *)
theory Kernel_Checks
  imports Payload Catalog "HOL-Library.Word"
begin

text \<open>
  internal/catalog/checks/kernel: the evaluation half of the KERNEL module. First the plumbing of kernel.go,
  then the checks, in two families: those that judge a running value, most of them built by \<open>intCheck\<close>, and those
  that judge the configuration files, which begin with \<open>persistenceGate\<close>. The checks' text, remediation and
  mappings are in theory Kernel_Catalog.
\<close>

section \<open>Reading the fact\<close>

definition sysctlFact :: "payload fact_set \<Rightarrow> sysctl" where
  "sysctlFact fs =
     (case get (\<lambda>f. as_sysctl (payload f)) (\<lambda>f. payload_type (payload f)) ''fact.Sysctl'' fs SysctlID of
        Present s \<Rightarrow> s
      | _ \<Rightarrow> empty_sysctl)"

section \<open>Shared plumbing\<close>

definition digest_in :: "sysctl \<Rightarrow> string \<Rightarrow> string" where
  "digest_in sc f = (case lookup (sy_digests sc) f of None \<Rightarrow> [] | Some d \<Rightarrow> d)"

definition unreadable :: "sysctl_running \<Rightarrow> string \<Rightarrow> outcome option" where
  "unreadable r subject =
     (if sr_state r = SysctlObserved then None
      else if sr_state r = SysctlAbsent
      then Some (zero_outcome\<lparr>oc_result := NotApplicable, oc_subject := subject,
        oc_detail := (''This kernel does not expose '' @ sr_key r @ '' ('' @ sr_path r @
          ''); the feature is not built in, its module is not loaded, or the LSM providing it is '' @
          ''disabled.'')\<rparr>)
      else if sr_state r = SysctlDenied
      then Some (zero_outcome\<lparr>oc_result := Unknown, oc_reason := ReasonPermission, oc_subject := subject,
        oc_detail := (sr_key r @ '' could not be read ('' @ sr_path r @ ''): '' @ sr_msg r @
          ''. The parameter exists, so its value may or may not be correct; run as root to determine it.''),
        oc_evidence := [new_evidence (sr_path r) 0 (sr_msg r) []]\<rparr>)
      else Some (zero_outcome\<lparr>oc_result := Unknown, oc_reason := ReasonAmbiguousState, oc_subject := subject,
        oc_detail := (sr_key r @ '' could not be read ('' @ sr_path r @ ''): '' @ sr_msg r @ ''.''),
        oc_evidence := [new_evidence (sr_path r) 0 (sr_msg r) []]\<rparr>))"

definition evidenceFor :: "sysctl_running \<Rightarrow> evidence" where
  "evidenceFor r = new_evidence (sr_path r) 0 ((sr_key r @ '' = '' @ sr_value r)) []"

definition evidenceForSetting :: "sysctl \<Rightarrow> sysctl_setting \<Rightarrow> evidence" where
  "evidenceForSetting sc x =
     new_evidence (ss_file x) (ss_line x) ((ss_key x @ '' = '' @ ss_value x)) (digest_in sc (ss_file x))"

definition unparseable :: "sysctl_running \<Rightarrow> string \<Rightarrow> outcome" where
  "unparseable r subject = zero_outcome\<lparr>oc_result := Unknown, oc_reason := ReasonParse, oc_subject := subject,
     oc_detail := (sr_key r @ '' holds '' @ go_quote (sr_value r) @
       '', which is not the single integer this parameter is documented to contain; its meaning '' @
       ''cannot be determined.''),
     oc_evidence := [evidenceFor r]\<rparr>"

definition not_collected :: "string \<Rightarrow> outcome" where
  "not_collected key = zero_outcome\<lparr>oc_result := Unknown, oc_reason := ReasonInternal, oc_subject := key,
     oc_detail := (key @ '' was not collected; the KERNEL collector does not probe it.'')\<rparr>"

definition driftNote :: "sysctl \<Rightarrow> string \<Rightarrow> string \<Rightarrow> string \<times> evidence list" where
  "driftNote sc key running =
     (case EffectiveConfigured sc key of
        None \<Rightarrow> ([], [])
      | Some x \<Rightarrow>
          (if ConfiguredConflict sc key then ([], [])
           else if trim_space (ss_value x) = trim_space running then ([], [])
           else (('' '' @ key @ '' is configured as '' @ go_quote (ss_value x) @ '' at '' @ ss_file x @ '':'' @
             int_str (ss_line x) @
             '', so the running kernel does not match its own configuration; see KERNEL-0007.''), [evidenceForSetting sc x])))"

text \<open>\<open>None\<close> for \<open>failSeverity\<close> is the nil function.\<close>

definition intCheck ::
  "string \<Rightarrow> (int \<Rightarrow> bool) \<Rightarrow> (int \<Rightarrow> severity) option \<Rightarrow> (int \<Rightarrow> bool \<Rightarrow> string) \<Rightarrow> payload fact_set \<Rightarrow> outcome" where
  "intCheck key pass failSeverity detail fs =
     (let sc = sysctlFact fs in
      case Run sc key of
        None \<Rightarrow> not_collected key
      | Some r \<Rightarrow>
          (case unreadable r key of
             Some out \<Rightarrow> out
           | None \<Rightarrow>
               (case run_int r of
                  None \<Rightarrow> unparseable r key
                | Some n \<Rightarrow>
                    (if pass n
                     then zero_outcome\<lparr>oc_result := Pass, oc_subject := key, oc_detail := detail n True,
                       oc_evidence := [evidenceFor r]\<rparr>
                     else
                       (case driftNote sc key (sr_value r) of (note, ev) \<Rightarrow>
                          zero_outcome\<lparr>oc_result := Fail, oc_subject := key, oc_detail := detail n False @
                            note,
                            oc_severity := (case failSeverity of None \<Rightarrow> NoSeverity | Some g \<Rightarrow> g n),
                            oc_evidence := evidenceFor r # ev\<rparr>)))))"

definition runningFor :: "sysctl \<Rightarrow> string \<Rightarrow> outcome + sysctl_running" where
  "runningFor sc key =
     (case Run sc key of
        None \<Rightarrow> Inl (not_collected key)
      | Some r \<Rightarrow> (case unreadable r key of Some out \<Rightarrow> Inl out | None \<Rightarrow> Inr r))"

definition pronounFor :: "string list \<Rightarrow> string" where
  "pronounFor ks = (if length ks = 1 then ''it'' else ''them'')"

definition joinKeys :: "string list \<Rightarrow> string" where
  "joinKeys ks = join '', '' (sort ks)"

section \<open>The configuration files\<close>

definition searchedEvidence :: "sysctl \<Rightarrow> evidence list \<Rightarrow> evidence list" where
  "searchedEvidence sc ev =
     (if ev \<noteq> [] then ev
      else map (\<lambda>f. new_evidence f 0
          (''read, and does not set the parameter'' @
            (case ResolvedFrom sc f of None \<Rightarrow> [] | Some target \<Rightarrow> ''; a symbolic link to '' @
            target))
          (digest_in sc f)) (sy_files sc))"

definition configuredEvidence :: "sysctl \<Rightarrow> string \<Rightarrow> evidence list" where
  "configuredEvidence sc key =
     (case EffectiveConfigured sc key of Some x \<Rightarrow> [evidenceForSetting sc x] | None \<Rightarrow> searchedEvidence sc [])"

definition configuredAt :: "sysctl \<Rightarrow> string \<Rightarrow> sysctl_setting \<Rightarrow> string" where
  "configuredAt sc key x =
     (case GlobbedBy sc key of
        Some g \<Rightarrow> (''by the pattern '' @ ss_key g @ '' at '' @ ss_file g @ '':'' @ int_str (ss_line g))
      | None \<Rightarrow> (''at '' @ ss_file x @ '':'' @ int_str (ss_line x)))"

definition notConfigured :: "sysctl \<Rightarrow> string \<Rightarrow> string" where
  "notConfigured sc key =
     (case ExcludedFrom sc key of
        Some ex \<Rightarrow> (key @ '' is withheld from glob matching by '' @ ss_file ex @ '':'' @
          int_str (ss_line ex) @ '' and set by nothing else'')
      | None \<Rightarrow> (key @ '' is not set in any sysctl configuration file''))"

definition configUnreadable :: "sysctl \<Rightarrow> string list \<Rightarrow> string \<Rightarrow> outcome option" where
  "configUnreadable sc ks caveat =
     (let names = UnreadableFileNames sc in
      if names = [] then None
      else Some (zero_outcome\<lparr>oc_result := Unknown,
        oc_reason := (case WorstUnreadableKind sc of
            Some ErrPermission \<Rightarrow> ReasonPermission
          | Some ErrTruncated \<Rightarrow> ReasonTruncated
          | Some ErrParse \<Rightarrow> ReasonParse
          | _ \<Rightarrow> ReasonAmbiguousState),
        oc_subject := ''sysctl configuration'',
        oc_detail := (''This verdict would rest on not finding '' @ joinKeys ks @ '' in any configuration file, and '' @
          joinKeys names @ '' could not be read '' @ em_dash @ '' so a setting for '' @ pronounFor ks @
          '' may be in a file this scan never opened.'' @ caveat),
        oc_evidence := map (\<lambda>u. new_evidence (uf_file u) 0 (kind_str (uf_kind u) @ '': '' @
          uf_msg u) []) (sy_unreadable sc)\<rparr>))"

definition set_at :: "sysctl_setting \<Rightarrow> string" where
  "set_at x = (ss_file x @ '':'' @ int_str (ss_line x) @ '' sets '' @ ss_value x)"

definition conflict_outcome :: "sysctl \<Rightarrow> string \<Rightarrow> string \<Rightarrow> outcome" where
  "conflict_outcome sc key caveat = zero_outcome\<lparr>oc_result := Unknown, oc_reason := ReasonAmbiguousState, oc_subject := key,
     oc_detail := (key @ '' is set to different values in more than one configuration file ('' @
       join ''; '' (map set_at (configured sc key)) @
       ''). Which one is in force after a reboot depends on whether systemd-sysctl or procps '' @
       ''applied them and in what order, so what this host does on its next boot cannot be '' @
       ''determined from the files alone.'' @ caveat),
     oc_evidence := map (evidenceForSetting sc) (configured sc key)\<rparr>"

definition unimplemented :: "sysctl \<Rightarrow> string list \<Rightarrow> string list" where
  "unimplemented sc ks = filter (\<lambda>k. case Run sc k of None \<Rightarrow> False | Some r \<Rightarrow> sr_state r = SysctlAbsent) ks"

definition persistenceGate :: "sysctl \<Rightarrow> string list \<Rightarrow> string \<Rightarrow> outcome option" where
  "persistenceGate sc ks caveat =
     (if length (unimplemented sc ks) = length ks
      then Some (zero_outcome\<lparr>oc_result := NotApplicable, oc_subject := ''sysctl configuration'',
        oc_detail := (if length ks = 1 then (''This kernel does not implement '' @
          hd ks) else (''This kernel implements none of '' @ joinKeys ks))
          @ '', so there is nothing for a configuration file to persist.'' @ caveat\<rparr>)
      else if sy_files sc = [] \<and> sy_unreadable sc = []
      then Some (zero_outcome\<lparr>oc_result := NotApplicable, oc_detail := (''No sysctl configuration file exists on this host: neither /etc/sysctl.conf nor any .conf '' @
        ''file in the sysctl.d directories. There is no persistent kernel configuration to report '' @
        ''on, and what the running kernel currently does is the business of the check that reads '' @ ''/proc/sys.'') @
        caveat\<rparr>)
      else
        (case configUnreadable sc ks caveat of
           Some out \<Rightarrow> Some out
         | None \<Rightarrow> map_option (\<lambda>k. conflict_outcome sc k caveat) (find (ConfiguredConflict sc) ks)))"

section \<open>Requirement tables\<close>

record requirement =
  rq_key :: string
  rq_accept :: "int \<Rightarrow> bool"
  rq_absence :: string
  rq_wrong :: string

record requirement_result =
  rr_failed :: "string list"
  rr_evidence :: "evidence list"
  rr_absent :: int
  rr_written :: int

definition check_requirement :: "sysctl \<Rightarrow> requirement_result \<Rightarrow> requirement \<Rightarrow> requirement_result" where
  "check_requirement sc res r =
     (case EffectiveConfigured sc (rq_key r) of
        None \<Rightarrow> res\<lparr>rr_failed := rr_failed res @ [(notConfigured sc (rq_key r) @ '', so '' @
          rq_absence r)],
          rr_absent := rr_absent res + 1\<rparr>
      | Some x \<Rightarrow>
          (let res' = res\<lparr>rr_evidence := rr_evidence res @ [evidenceForSetting sc x]\<rparr> in
           case atoi (trim_space (ss_value x)) of
             None \<Rightarrow> res'\<lparr>rr_failed := rr_failed res @
                 [(rq_key r @ '' is '' @ go_quote (ss_value x) @ '' '' @ configuredAt sc (rq_key r) x @
                   '', which is not a number'')],
               rr_written := rr_written res + 1\<rparr>
           | Some n \<Rightarrow>
               (if rq_accept r n then res'
                else res'\<lparr>rr_failed := rr_failed res @
                    [(rq_key r @ '' is '' @ int_str n @ '' '' @ configuredAt sc (rq_key r) x @ '', so '' @
                      rq_wrong r)],
                  rr_written := rr_written res + 1\<rparr>)))"

definition checkRequirements :: "sysctl \<Rightarrow> requirement list \<Rightarrow> requirement_result" where
  "checkRequirements sc reqs =
     foldl (check_requirement sc) \<lparr>rr_failed = [], rr_evidence = [], rr_absent = 0, rr_written = 0\<rparr> reqs"

definition onlyAbsences :: "requirement_result \<Rightarrow> bool" where
  "onlyAbsences res \<longleftrightarrow> rr_written res = 0 \<and> 0 < rr_absent res"

text \<open>\<open>runtime_loop\<close>: the values that satisfy the table, or \<open>None\<close> as soon as one does not.\<close>

fun runtime_loop :: "sysctl \<Rightarrow> requirement list \<Rightarrow> string list option" where
  "runtime_loop sc [] = Some []"
| "runtime_loop sc (r # reqs) =
     (case Run sc (rq_key r) of
        None \<Rightarrow> None
      | Some got \<Rightarrow>
          (if sr_state got \<noteq> SysctlObserved then None
           else
             (case atoi (trim_space (sr_value got)) of
                None \<Rightarrow> None
              | Some n \<Rightarrow>
                  (if rq_accept r n
                   then map_option ((#) ((rq_key r @ '' is '' @ int_str n))) (runtime_loop sc reqs)
                   else None))))"

definition runtimeTier :: "sysctl \<Rightarrow> requirement list \<Rightarrow> severity \<times> string" where
  "runtimeTier sc reqs =
     (if reqs = [] then (NoSeverity, [])
      else
        (case runtime_loop sc reqs of
           None \<Rightarrow> (NoSeverity, [])
         | Some satisfied \<Rightarrow> (Low, ('' The running kernel already satisfies this ('' @
           join '', '' satisfied @
           ''), so nothing is exposed today and the finding is reported at LOW: what is missing is the '' @
           ''record, not the protection.''))))"

definition tierAbsence :: "outcome \<Rightarrow> sysctl \<Rightarrow> requirement list \<Rightarrow> string \<Rightarrow> outcome" where
  "tierAbsence out sc reqs caveat =
     (case runtimeTier sc reqs of (sev, note) \<Rightarrow>
        (if sev \<noteq> NoSeverity then out\<lparr>oc_severity := sev, oc_detail := oc_detail out @ note @
          caveat\<rparr>
         else out\<lparr>oc_detail := oc_detail out @ caveat\<rparr>))"

definition tierRequirementFailure :: "outcome \<Rightarrow> sysctl \<Rightarrow> requirement list \<Rightarrow> requirement_result \<Rightarrow> string \<Rightarrow> outcome" where
  "tierRequirementFailure out sc reqs res caveat =
     (if \<not> onlyAbsences res then out\<lparr>oc_detail := oc_detail out @
       caveat\<rparr> else tierAbsence out sc reqs caveat)"

definition unparseableConfig :: "sysctl \<Rightarrow> string \<Rightarrow> sysctl_setting \<Rightarrow> string \<Rightarrow> outcome" where
  "unparseableConfig sc key x caveat = zero_outcome\<lparr>oc_result := Unknown, oc_reason := ReasonAmbiguousState, oc_subject := key,
     oc_detail := (key @ '' is '' @ go_quote (ss_value x) @ '' '' @ configuredAt sc key x @
       '', which is not a number. What the kernel does with a value it cannot parse depends on the '' @
       ''build, so what this host does after a reboot cannot be determined from the file.'' @ caveat),
     oc_evidence := configuredEvidence sc key\<rparr>"

definition refused :: "int \<Rightarrow> bool" where
  "refused n \<longleftrightarrow> n = 0"

definition requirementKeys :: "requirement list \<Rightarrow> string list" where
  "requirementKeys reqs = map rq_key reqs"

definition contradicting :: "sysctl \<Rightarrow> requirement \<Rightarrow> string option" where
  "contradicting sc r =
     (case Run sc (rq_key r) of
        None \<Rightarrow> None
      | Some got \<Rightarrow>
          (if sr_state got \<noteq> SysctlObserved then None
           else
             (case atoi (trim_space (sr_value got)) of
                None \<Rightarrow> None
              | Some n \<Rightarrow> if rq_accept r n then None else Some ((rq_key r @ '' is '' @ int_str n)))))"

definition runningContradiction :: "sysctl \<Rightarrow> requirement list \<Rightarrow> string" where
  "runningContradiction sc reqs =
     (let live = List.map_filter (contradicting sc) reqs in
      if live = [] then [] else ('' The running kernel disagrees '' @ em_dash @ '' '' @ join '', '' live @ '' '' @
        em_dash @ '' so the files are right and have not taken effect; see KERNEL-0007.''))"

definition persistCaveatUnpaired :: string where
  "persistCaveatUnpaired = ('' This reads the sysctl configuration files, which describe what the kernel will do after '' @
    ''the next reboot. No check reads this parameter's running value yet, so this finding is '' @
    ''the only place it appears; a disagreement between the file and the running kernel is '' @ ''KERNEL-0007's.'')"

definition persistCaveatFor :: "string \<Rightarrow> string" where
  "persistCaveatFor runtimeCheck = ('' This reads the sysctl configuration files, which describe what the kernel will do after '' @
    ''the next reboot; what it is doing now is '' @ runtimeCheck @ [CHR 0x27] @
    ''s subject, and a disagreement between the two is KERNEL-0007's.'')"

definition runningMismatch :: "sysctl \<Rightarrow> string \<Rightarrow> string \<Rightarrow> string" where
  "runningMismatch sc key wanted =
     (case Run sc key of
        None \<Rightarrow> []
      | Some r \<Rightarrow>
          (if sr_state r \<noteq> SysctlObserved \<or> sr_value r = wanted then []
           else ('' The running kernel has it at '' @ sr_value r @
             '', which does not match the file; see KERNEL-0007.'')))"

section \<open>Link protection\<close>

record link_protection =
  lp_key :: string
  lp_caveat :: string
  lp_unset :: string
  lp_on :: string
  lp_off :: string

definition accepts :: "string \<Rightarrow> (int \<Rightarrow> bool) \<Rightarrow> requirement" where
  "accepts key acc = \<lparr>rq_key = key, rq_accept = acc, rq_absence = [], rq_wrong = []\<rparr>"

definition lp_tiering :: "link_protection \<Rightarrow> requirement list" where
  "lp_tiering l = [accepts (lp_key l) (\<lambda>n. 1 \<le> n)]"

definition lp_running :: "sysctl \<Rightarrow> link_protection \<Rightarrow> string" where
  "lp_running sc l =
     (case Run sc (lp_key l) of
        None \<Rightarrow> []
      | Some r \<Rightarrow>
          (if sr_state r \<noteq> SysctlObserved then []
           else (case run_int r of None \<Rightarrow> [] | Some v \<Rightarrow> if 1 \<le> v then '' The running kernel has it on, so this host is protected now on a default nobody wrote down.'' else ('' The running kernel has it off as well, so the protection is absent right now and not '' @
             ''merely undocumented.''))))"

definition lp_above :: "int \<Rightarrow> string" where
  "lp_above n = (if 1 < n then ('' The value is '' @ int_str n @
    '' rather than 1; only 0 and 1 are documented for this parameter, and anything the kernel '' @
    ''accepts above 0 enables it rather than strengthening it.'') else [])"

definition lp_eval :: "link_protection \<Rightarrow> payload fact_set \<Rightarrow> outcome" where
  "lp_eval l fs =
     (let sc = sysctlFact fs; key = lp_key l in
      case persistenceGate sc [key] (lp_caveat l) of
        Some out \<Rightarrow> out
      | None \<Rightarrow>
          (case EffectiveConfigured sc key of
             None \<Rightarrow> tierAbsence (zero_outcome\<lparr>oc_result := Fail, oc_subject := key,
                 oc_detail := (notConfigured sc key @
                   '', so after the next reboot it is whatever the kernel defaults to. '' @ lp_unset l) @
                   lp_running sc l,
                 oc_evidence := searchedEvidence sc []\<rparr>) sc (lp_tiering l) (lp_caveat l)
           | Some x \<Rightarrow>
               (case atoi (trim_space (ss_value x)) of
                  None \<Rightarrow> unparseableConfig sc key x (lp_caveat l)
                | Some n \<Rightarrow>
                    (if 1 \<le> n
                     then zero_outcome\<lparr>oc_result := Pass, oc_subject := key,
                       oc_detail := (key @ '' is '' @ int_str n @ '' '' @ configuredAt sc key x @ '', so '' @ lp_on l @
                         '' It stays that way across a reboot.'' @ lp_above n @ runningMismatch sc key (ss_value x) @
                         lp_caveat l),
                       oc_evidence := configuredEvidence sc key\<rparr>
                     else zero_outcome\<lparr>oc_result := Fail, oc_subject := key,
                       oc_detail := (key @ '' is 0 '' @ configuredAt sc key x @
                         '', which is the protection turned off in writing rather than merely left undocumented: '' @
                         lp_off l @ runningMismatch sc key ''0'' @ lp_caveat l),
                       oc_evidence := configuredEvidence sc key\<rparr>))))"

section \<open>Checks of the running kernel\<close>

definition eval0001 :: "payload fact_set \<Rightarrow> outcome" where
  "eval0001 = intCheck ''kernel.randomize_va_space'' (\<lambda>n. n = 2) (Some (\<lambda>n. if n = 1 then Medium else High))
     (\<lambda>n ok. if ok then (''kernel.randomize_va_space is 2; the stack, heap, shared libraries and mmap base are all '' @
       ''randomised.'')
        else if n = 1 then (''kernel.randomize_va_space is 1; the stack, shared libraries and mmap base are randomised '' @
          ''but the brk-managed heap is not, which leaves heap layout predictable to an attacker.'')
        else if n = 0 then (''kernel.randomize_va_space is 0; address-space layout randomisation is disabled entirely '' @
          ''and every mapping is at a predictable address.'')
        else (''kernel.randomize_va_space is '' @ int_str n @
          '', which is not one of the documented values 0, 1 or 2; the kernel's behaviour for this '' @
          ''value is not specified.''))"

definition eval0002 :: "payload fact_set \<Rightarrow> outcome" where
  "eval0002 = intCheck ''kernel.kptr_restrict'' (\<lambda>n. 1 \<le> n) None
     (\<lambda>n ok. if ok \<and> n = 1 then ''kernel.kptr_restrict is 1; kernel pointers are hidden from processes without CAP_SYSLOG.''
        else if ok then (''kernel.kptr_restrict is '' @ int_str n @ ''; kernel pointers are hidden from all users.'')
        else (''kernel.kptr_restrict is 0; kernel virtual addresses are printed in full to any user that '' @
          ''can read /proc/kallsyms, which discloses the kernel's memory layout.''))"

definition eval0003 :: "payload fact_set \<Rightarrow> outcome" where
  "eval0003 = intCheck ''kernel.yama.ptrace_scope'' (\<lambda>n. 1 \<le> n) None
     (\<lambda>n ok. if ok \<and> n = 1 then ''kernel.yama.ptrace_scope is 1; a process may only attach to its own descendants.''
        else if ok \<and> n = 2 then ''kernel.yama.ptrace_scope is 2; attaching requires CAP_SYS_PTRACE.''
        else if ok \<and> n = 3 then (''kernel.yama.ptrace_scope is 3; ptrace attachment is disabled entirely and cannot be '' @
          ''re-enabled without a reboot.'')
        else if ok then (''kernel.yama.ptrace_scope is '' @ int_str n @ '', which restricts ptrace attachment.'')
        else (''kernel.yama.ptrace_scope is 0; any process may attach to any other process of the same '' @
          ''user and read its memory, including credentials and keys held by unrelated programs.''))"

definition eval0004 :: "payload fact_set \<Rightarrow> outcome" where
  "eval0004 = intCheck ''kernel.dmesg_restrict'' (\<lambda>n. 1 \<le> n) None
     (\<lambda>n ok. if ok then (''kernel.dmesg_restrict is '' @ int_str n @
       ''; reading the kernel ring buffer requires CAP_SYSLOG.'') else (''kernel.dmesg_restrict is 0; any user may read the kernel ring buffer, which exposes '' @
       ''kernel addresses and hardware detail useful for building an exploit.''))"

definition eval0005 :: "payload fact_set \<Rightarrow> outcome" where
  "eval0005 = intCheck ''fs.suid_dumpable'' (\<lambda>n. n = 0 \<or> n = 2) None
     (\<lambda>n ok. if ok \<and> n = 0 then ''fs.suid_dumpable is 0; setuid and setgid programs do not produce core dumps.''
        else if ok then (''fs.suid_dumpable is 2; setuid programs write core dumps that only root may read, which is '' @
          ''what systemd-coredump needs to capture such a crash at all. It is not equivalent to 0: '' @
          ''the privileged memory still reaches the disk, where it outlives the process and may be '' @
          ''captured by backups.'')
        else if n = 1 then (''fs.suid_dumpable is 1; setuid programs dump core like any other process, so an '' @
          ''unprivileged user can obtain a copy of privileged process memory by crashing one.'')
        else (''fs.suid_dumpable is '' @ int_str n @ '', which is not one of the documented values 0, 1 or 2.''))"

definition eval0006 :: "payload fact_set \<Rightarrow> outcome" where
  "eval0006 = intCheck ''kernel.unprivileged_bpf_disabled'' (\<lambda>n. n = 1 \<or> n = 2) None
     (\<lambda>n ok. if ok \<and> n = 1 then (''kernel.unprivileged_bpf_disabled is 1; unprivileged bpf() is refused and the setting is '' @
       ''locked until reboot.'')
        else if ok then (''kernel.unprivileged_bpf_disabled is 2; unprivileged bpf() is refused, and the setting may '' @
          ''still be raised to 1 to lock it.'')
        else if n = 0 then (''kernel.unprivileged_bpf_disabled is 0; any local user may load BPF programs, exposing the '' @
          ''in-kernel verifier as a privilege-escalation surface.'')
        else (''kernel.unprivileged_bpf_disabled is '' @ int_str n @
          '', which is not one of the documented values 0, 1 or 2.''))"

definition eval0009 :: "payload fact_set \<Rightarrow> outcome" where
  "eval0009 = intCheck ''fs.protected_symlinks'' (\<lambda>n. 1 \<le> n) None
     (\<lambda>n ok. if ok then (''fs.protected_symlinks is '' @ int_str n @
       ''; symlinks in world-writable sticky directories are only followed when the follower or '' @
       ''the directory owner owns the link.'') else (''fs.protected_symlinks is 0; a privileged program that opens a path in /tmp by name will '' @
       ''follow a symlink an unprivileged user planted there, which is the classic local privilege '' @
       ''escalation this setting exists to break.''))"

definition eval0010 :: "payload fact_set \<Rightarrow> outcome" where
  "eval0010 = intCheck ''fs.protected_hardlinks'' (\<lambda>n. 1 \<le> n) None
     (\<lambda>n ok. if ok then (''fs.protected_hardlinks is '' @ int_str n @
       ''; a hardlink may only be created to a file the user owns or can read and write.'') else (''fs.protected_hardlinks is 0; any user may hardlink a file they cannot read into a '' @
       ''directory they control, which preserves the file's contents and permissions somewhere a '' @
       ''privileged process may later act on.''))"

definition eval0011 :: "payload fact_set \<Rightarrow> outcome" where
  "eval0011 = intCheck ''fs.protected_fifos'' (\<lambda>n. 1 \<le> n) None
     (\<lambda>n ok. if ok \<and> n = 1 then (''fs.protected_fifos is 1; an O_CREAT open of another user's FIFO in a world-writable '' @
       ''sticky directory is refused.'')
        else if ok then (''fs.protected_fifos is '' @ int_str n @
          ''; the restriction covers group-writable sticky directories as well as world-writable ones.'')
        else (''fs.protected_fifos is 0; a program creating a file in a shared directory may instead open '' @
          ''a FIFO an attacker planted at that path, which lets the attacker block it indefinitely or '' @
          ''feed it data of their choosing.''))"

definition eval0012 :: "payload fact_set \<Rightarrow> outcome" where
  "eval0012 = intCheck ''fs.protected_regular'' (\<lambda>n. 1 \<le> n) None
     (\<lambda>n ok. if ok \<and> n = 1 then (''fs.protected_regular is 1; an O_CREAT open of another user's file in a world-writable '' @
       ''sticky directory is refused.'')
        else if ok then (''fs.protected_regular is '' @ int_str n @
          ''; the restriction covers group-writable sticky directories as well as world-writable ones.'')
        else (''fs.protected_regular is 0; a program creating a file in a shared directory may instead '' @
          ''open one an attacker planted at that path, writing its output somewhere the attacker can '' @
          ''read it or reading content the attacker supplied.''))"

definition eval0013 :: "payload fact_set \<Rightarrow> outcome" where
  "eval0013 = intCheck ''kernel.perf_event_paranoid'' (\<lambda>n. 2 \<le> n) (Some (\<lambda>n. if n < 0 then High else Medium))
     (\<lambda>n ok. if ok \<and> 3 \<le> n then (''kernel.perf_event_paranoid is '' @ int_str n @
       ''; perf_event_open() is refused entirely without CAP_PERFMON. This value is available only '' @
       ''on kernels carrying the Debian, Ubuntu or Android patch.'')
        else if ok then (''kernel.perf_event_paranoid is 2; unprivileged users may not profile the kernel, take '' @
          ''CPU-wide measurements, or read raw tracepoints.'')
        else if n < 0 then (''kernel.perf_event_paranoid is -1; the performance-monitoring subsystem is entirely '' @
          ''unrestricted, so any local user may profile the kernel and other processes, which is a '' @
          ''precise side channel against cryptographic operations.'')
        else if n = 0 then (''kernel.perf_event_paranoid is 0; unprivileged users may take CPU-wide measurements and '' @
          ''profile the kernel, which leaks the behaviour of other processes.'')
        else (''kernel.perf_event_paranoid is 1; unprivileged users may still profile the kernel, which '' @
          ''leaks kernel behaviour and addresses useful for building an exploit.''))"

definition eval0016 :: "payload fact_set \<Rightarrow> outcome" where
  "eval0016 = intCheck ''net.ipv4.tcp_syncookies'' (\<lambda>n. 1 \<le> n) None
     (\<lambda>n ok. if ok \<and> n = 1 then (''net.ipv4.tcp_syncookies is 1; the kernel falls back to SYN cookies when a listening '' @
       ''socket's backlog overflows.'')
        else if ok then (''net.ipv4.tcp_syncookies is '' @ int_str n @
          ''; SYN cookies are used unconditionally rather than only under overflow, which is stricter '' @
          ''and disables a few TCP options for every connection.'')
        else (''net.ipv4.tcp_syncookies is 0; a SYN flood can fill a listening socket's backlog and deny '' @
          ''service to legitimate clients using very little bandwidth.''))"

subsection \<open>KERNEL-0007: drift\<close>

definition unknownReasonFor :: "error_kind \<Rightarrow> unknown_reason" where
  "unknownReasonFor k =
     (case k of ErrPermission \<Rightarrow> ReasonPermission | ErrTruncated \<Rightarrow> ReasonTruncated | ErrParse \<Rightarrow> ReasonParse
      | _ \<Rightarrow> ReasonAmbiguousState)"

definition unreadableEvidence :: "sysctl \<Rightarrow> evidence list" where
  "unreadableEvidence sc = map (\<lambda>u. new_evidence (uf_file u) 0 (uf_msg u) []) (sort_key uf_file (sy_unreadable sc))"

record drift =
  dr_drifted :: "string list"
  dr_ambiguous :: "string list"
  dr_configured :: int
  dr_not_in_kernel :: "string list"
  dr_evidence :: "evidence list"

definition drift_step :: "sysctl \<Rightarrow> drift \<Rightarrow> string \<Rightarrow> drift" where
  "drift_step sc d key =
     (case EffectiveConfigured sc key of
        None \<Rightarrow> d
      | Some x \<Rightarrow>
          (if ConfiguredConflict sc key
           then d\<lparr>dr_ambiguous := dr_ambiguous d @ [key],
             dr_evidence := dr_evidence d @ map (evidenceForSetting sc) (configured sc key)\<rparr>
           else
             (let r = the (Run sc key) in
              if sr_state r \<noteq> SysctlObserved
              then (if sr_state r = SysctlAbsent then d\<lparr>dr_not_in_kernel := dr_not_in_kernel d @
                [key]\<rparr> else d)
              else
                (let d' = d\<lparr>dr_configured := dr_configured d + 1\<rparr> in
                 if trim_space (ss_value x) = trim_space (sr_value r) then d'
                 else d'\<lparr>dr_drifted := dr_drifted d @ [key],
                   dr_evidence := dr_evidence d @ [evidenceFor r, evidenceForSetting sc x]\<rparr>))))"

definition eval0007 :: "payload fact_set \<Rightarrow> outcome" where
  "eval0007 fs =
     (let sc = sysctlFact fs;
          d = foldl (drift_step sc) \<lparr>dr_drifted = [], dr_ambiguous = [], dr_configured = 0, dr_not_in_kernel = [], dr_evidence = []\<rparr>
            (RunningKeys sc);
          drifted = sort (dr_drifted d); ambiguous = sort (dr_ambiguous d); notInKernel = sort (dr_not_in_kernel d) in
      if drifted = [] \<and> sy_unreadable sc \<noteq> []
      then zero_outcome\<lparr>oc_result := Unknown, oc_reason := unknownReasonFor (the (WorstUnreadableKind sc)),
        oc_detail := (''No drift was found among the parameters that could be compared, but '' @
          nat_str (length (sy_unreadable sc)) @ '' sysctl configuration file(s) could not be read ('' @
          joinKeys (UnreadableFileNames sc) @
          ''), so a parameter set there may disagree with the running kernel without this check '' @ ''seeing it.''),
        oc_evidence := unreadableEvidence sc\<rparr>
      else if drifted = [] \<and> ambiguous \<noteq> []
      then zero_outcome\<lparr>oc_result := Unknown, oc_reason := ReasonAmbiguousState,
        oc_detail := (joinKeys ambiguous @
          '' is set in more than one configuration file with different values; which one applies '' @
          ''depends on the order the host's sysctl implementation walks the drop-in directories, so '' @
          ''the value after the next reboot cannot be determined from the files alone.''),
        oc_evidence := dr_evidence d\<rparr>
      else if drifted \<noteq> []
      then zero_outcome\<lparr>oc_result := Fail,
        oc_detail := (nat_str (length drifted) @
          '' kernel parameter(s) differ between the running kernel and the configuration that will be '' @
          ''applied at the next boot: '' @ joinKeys drifted @ ''. Each is listed in the evidence with both values.'')
          @ (if ambiguous \<noteq> [] then ('' A further '' @ nat_str (length ambiguous) @
            '' parameter(s) are set in more than one file with different values and could not be '' @ ''compared: '' @
            joinKeys ambiguous @ ''.'') else [])
          @ (if notInKernel \<noteq> [] then ('' Separately, the configuration sets '' @ joinKeys notInKernel @
            '', which this kernel does not implement; those settings have no effect.'') else []),
        oc_evidence := dr_evidence d\<rparr>
      else if dr_configured d = 0
      then zero_outcome\<lparr>oc_result := NotApplicable,
        oc_detail := (if notInKernel \<noteq> [] then (''The sysctl configuration sets '' @ joinKeys notInKernel @
          '', which this kernel does not implement, and sets no other parameter this module probes. '' @
          ''Those settings have no effect, so there is nothing to compare the running kernel against.'') else (''No sysctl configuration file sets any of the kernel parameters this module probes, so '' @
          ''there is no configured value to compare the running kernel against.''))\<rparr>
      else zero_outcome\<lparr>oc_result := Pass,
        oc_detail := (''All '' @ int_str (dr_configured d) @
          '' configured kernel parameter(s) match the running kernel; the current settings will '' @
          ''survive a reboot.'')
          @ (if notInKernel \<noteq> [] then ('' The configuration also sets '' @ joinKeys notInKernel @
            '', which this kernel does not implement; those settings have no effect.'') else [])\<rparr>)"

subsection \<open>KERNEL-0008: reverse-path filtering\<close>

definition rpFilterAll :: string where "rpFilterAll = ''net.ipv4.conf.all.rp_filter''"
definition rpFilterPrefix :: string where "rpFilterPrefix = ''net.ipv4.conf.''"
definition rpFilterSuffix :: string where "rpFilterSuffix = ''.rp_filter''"

definition interfaceOf :: "string \<Rightarrow> string \<Rightarrow> string" where
  "interfaceOf key suf = path_clean (trim_suffix (trim_prefix key rpFilterPrefix) suf)"

definition intValue :: "sysctl \<Rightarrow> string \<Rightarrow> int option" where
  "intValue sc key = Option.bind (Run sc key) run_int"

record filtering =
  ft_unfiltered :: "string list"
  ft_loose :: "string list"
  ft_considered :: int
  ft_denied :: "string list"
  ft_evidence :: "evidence list"

definition filtering_step :: "int option \<Rightarrow> filtering \<Rightarrow> sysctl_running \<Rightarrow> filtering" where
  "filtering_step all a r =
     (let iface = interfaceOf (sr_key r) rpFilterSuffix in
      if iface \<in> set [''all'', ''default'', ''lo''] then a
      else if sr_state r \<noteq> SysctlObserved
      then (if sr_state r = SysctlDenied then a\<lparr>ft_denied := ft_denied a @ [iface]\<rparr> else a)
      else
        (case run_int r of
           None \<Rightarrow> a\<lparr>ft_denied := ft_denied a @ [iface]\<rparr>
         | Some n \<Rightarrow>
             (let a' = a\<lparr>ft_considered := ft_considered a + 1\<rparr>;
                  effective = (case all of None \<Rightarrow> n | Some m \<Rightarrow> if n < m then m else n) in
              if effective = 0
              then a'\<lparr>ft_unfiltered := ft_unfiltered a @ [iface], ft_evidence := ft_evidence a @
                [evidenceFor r]\<rparr>
              else if effective = 2 then a'\<lparr>ft_loose := ft_loose a @ [iface]\<rparr>
              else a')))"

definition eval0008 :: "payload fact_set \<Rightarrow> outcome" where
  "eval0008 fs =
     (let sc = sysctlFact fs; probed = RunningMatching sc rpFilterPrefix rpFilterSuffix in
      if probed = []
      then zero_outcome\<lparr>oc_result := Unknown, oc_reason := ReasonFactMissing,
        oc_detail := (''The per-interface reverse-path-filter parameters could not be enumerated, so no statement '' @
          ''can be made about which interfaces filter spoofed source addresses.''),
        oc_evidence := [new_evidence ''/proc/sys/net/ipv4/conf'' 0 ''interface list unavailable'' []]\<rparr>
      else
        (let all = intValue sc rpFilterAll;
             a = foldl (filtering_step all) \<lparr>ft_unfiltered = [], ft_loose = [], ft_considered = 0, ft_denied = [], ft_evidence = []\<rparr>
               probed in
         if ft_unfiltered a \<noteq> []
         then zero_outcome\<lparr>oc_result := Fail,
           oc_detail := (''Reverse-path filtering is off on '' @ nat_str (length (ft_unfiltered a)) @
             '' interface(s): '' @ joinKeys (ft_unfiltered a) @
             ''. The kernel accepts packets on these interfaces regardless of whether it could route a '' @
             ''reply to their claimed source, so source addresses on them cannot be trusted.'')
             @ (case all of None \<Rightarrow> [] | Some m \<Rightarrow> ('' '' @ rpFilterAll @ '' is '' @ int_str m @
               '', so it does not raise them.'')),
           oc_evidence := ft_evidence a
             @
               (case Run sc rpFilterAll of None \<Rightarrow> [] | Some r \<Rightarrow> if sr_state r = SysctlObserved then [evidenceFor r] else [])\<rparr>
         else if ft_considered a = 0
         then
           (if ft_denied a \<noteq> []
            then zero_outcome\<lparr>oc_result := Unknown, oc_reason := ReasonPermission,
              oc_detail := (''The reverse-path-filter setting could not be read for any interface ('' @
                joinKeys (ft_denied a) @
                ''), so whether spoofed source addresses are dropped cannot be determined.''),
              oc_evidence := [new_evidence ''/proc/sys/net/ipv4/conf'' 0 ''per-interface values unreadable'' []]\<rparr>
            else zero_outcome\<lparr>oc_result := NotApplicable, oc_detail := (''This host has no non-loopback network interface, so there is no path on which a spoofed '' @
              ''source address could arrive.'')\<rparr>)
         else zero_outcome\<lparr>oc_result := Pass,
           oc_detail := (''Reverse-path filtering is enabled on all '' @ int_str (ft_considered a) @
             '' non-loopback interface(s); packets with unroutable source addresses are dropped.'')
             @ (if ft_loose a \<noteq> [] then ('' '' @ joinKeys (ft_loose a) @
               '' in loose mode (value 2), which accepts a source routable via any interface '' @ em_dash @
               '' correct for asymmetric routing, weaker than strict mode.'') else [])
             @ (if ft_denied a \<noteq> [] then ('' The value for '' @ joinKeys (ft_denied a) @
               '' could not be read and is not included.'') else [])\<rparr>))"

subsection \<open>KERNEL-0014: core dumps\<close>

definition corePatternKey :: string where "corePatternKey = ''kernel.core_pattern''"
definition sharedDirs :: "string list" where "sharedDirs = [''/tmp/'', ''/var/tmp/'', ''/dev/shm/'']"

definition handlerPath :: "string \<Rightarrow> string" where
  "handlerPath pattern = takeWhile (\<lambda>c. c \<noteq> CHR '' '' \<and> c \<noteq> CHR 0x09) (trim_prefix pattern ''|'')"

definition sharedDirOf :: "string \<Rightarrow> string" where
  "sharedDirOf pattern = (case find (has_prefix pattern) sharedDirs of None \<Rightarrow> [] | Some d \<Rightarrow> d)"

definition eval0014 :: "payload fact_set \<Rightarrow> outcome" where
  "eval0014 fs =
     (let sc = sysctlFact fs in
      case runningFor sc corePatternKey of
        Inl out \<Rightarrow> out
      | Inr r \<Rightarrow>
          (let pattern = trim_space (sr_value r); note = fst (driftNote sc corePatternKey (sr_value r));
               ev = evidenceFor r # snd (driftNote sc corePatternKey (sr_value r));
               verdict = (\<lambda>res d. zero_outcome\<lparr>oc_result := res, oc_subject := corePatternKey, oc_detail := d @
                 note, oc_evidence := ev\<rparr>) in
           if pattern = []
           then zero_outcome\<lparr>oc_result := Unknown, oc_reason := ReasonAmbiguousState, oc_subject := corePatternKey,
             oc_detail := (''kernel.core_pattern is empty. That is not a documented configuration and where the kernel '' @
               ''writes a core dump in this state is not specified, so no statement can be made about it.''), oc_evidence := ev\<rparr>
           else if has_prefix pattern ''|''
           then
             (let handler = handlerPath pattern in
              if \<not> has_prefix handler ''/'' then verdict Pass ((''kernel.core_pattern pipes core dumps to '' @
                go_quote handler @
                '', so no dump is written to the filesystem. The handler path is relative, and the kernel '' @
                ''requires an absolute path for a core-dump handler, so dumps are being discarded rather '' @
                ''than collected.''))
              else verdict Pass ((''kernel.core_pattern pipes core dumps to '' @ handler @
                '', so no dump is written to a path a process could influence.'')))
           else if \<not> has_prefix pattern ''/'' then verdict Fail ((''kernel.core_pattern is '' @ go_quote pattern @
             '', which is a relative path, so a core dump is written into the crashing process's current '' @
             ''working directory. A process that can be induced to run in a writable directory will drop '' @
             ''its memory '' @ em_dash @ '' including credentials and keys '' @ em_dash @
             '' where another user can read it.''))
           else if sharedDirOf pattern \<noteq> []
           then verdict Fail ((''kernel.core_pattern is '' @ go_quote pattern @ '', which writes core dumps into '' @
             trim_suffix (sharedDirOf pattern) ''/'' @ ''. That directory is world-writable, so process memory '' @
             em_dash @ '' including credentials and keys '' @ em_dash @ '' lands where any local user can read it.''))
           else verdict Pass ((''kernel.core_pattern is '' @ go_quote pattern @
             '', an absolute path, so core dumps land in one known location rather than wherever the '' @
             ''crashing process happened to be. Confirm that directory is not readable by unprivileged '' @
             ''users; this check cannot inspect its permissions.''))))"

subsection \<open>KERNEL-0015: source routing\<close>

definition srrAll :: string where "srrAll = ''net.ipv4.conf.all.accept_source_route''"
definition srrSuffix :: string where "srrSuffix = ''.accept_source_route''"

definition nonZeroInterfaces :: "sysctl_running list \<Rightarrow> string list" where
  "nonZeroInterfaces probed =
     sort (map (\<lambda>r. interfaceOf (sr_key r) srrSuffix)
       (filter (\<lambda>r. interfaceOf (sr_key r) srrSuffix \<notin> set [''all'', ''default'', ''lo'']
         \<and> (case run_int r of None \<Rightarrow> False | Some n \<Rightarrow> n \<noteq> 0)) probed))"

record routing =
  rt_accepting :: "string list"
  rt_unreadable :: "string list"
  rt_considered :: int
  rt_evidence :: "evidence list"

definition routing_step :: "bool \<Rightarrow> routing \<Rightarrow> sysctl_running \<Rightarrow> routing" where
  "routing_step known a r =
     (let iface = interfaceOf (sr_key r) srrSuffix in
      if iface \<in> set [''all'', ''default'', ''lo''] then a
      else
        (case run_int r of
           None \<Rightarrow> a\<lparr>rt_unreadable := rt_unreadable a @ [iface]\<rparr>
         | Some n \<Rightarrow>
             (let a' = a\<lparr>rt_considered := rt_considered a + 1\<rparr> in
              if n = 0 then a'
              else if known
              then a'\<lparr>rt_accepting := rt_accepting a @ [iface], rt_evidence := rt_evidence a @
                [evidenceFor r]\<rparr>
              else a'\<lparr>rt_unreadable := rt_unreadable a @ [iface]\<rparr>)))"

text \<open>The running entry of \<open>conf.all\<close>, the zero value when it was not probed.\<close>

definition zero_running :: sysctl_running where
  "zero_running = \<lparr>sr_key = [], sr_state = [], sr_value = [], sr_path = [], sr_msg = []\<rparr>"

definition eval0015 :: "payload fact_set \<Rightarrow> outcome" where
  "eval0015 fs =
     (let sc = sysctlFact fs; probed = RunningMatching sc rpFilterPrefix srrSuffix in
      if probed = []
      then zero_outcome\<lparr>oc_result := Unknown, oc_reason := ReasonFactMissing,
        oc_detail := (''The per-interface source-routing parameters could not be enumerated, so no statement can '' @
          ''be made about whether this host accepts source-routed packets.''),
        oc_evidence := [new_evidence ''/proc/sys/net/ipv4/conf'' 0 ''interface list unavailable'' []]\<rparr>
      else
        (let all = intValue sc srrAll; allRun = (case Run sc srrAll of None \<Rightarrow> zero_running | Some r \<Rightarrow> r);
             note = fst (driftNote sc srrAll (sr_value allRun)); driftEv = snd (driftNote sc srrAll (sr_value allRun)) in
         if all = Some 0
         then
           (let raised = nonZeroInterfaces probed in
            zero_outcome\<lparr>oc_result := Pass,
              oc_detail := (srrAll @
                '' is 0, and an interface accepts source routing only when conf.all and its own setting are '' @
                ''both non-zero, so source-routed packets are refused on every interface.'')
                @
                  (if raised \<noteq> [] then ('' These interfaces still carry a non-zero value of their own, which has no effect while '' @
                  ''conf.all is 0 but would take effect if it were raised: '' @ joinKeys raised @ ''.'') else []) @
                  note,
              oc_evidence := evidenceFor allRun # driftEv\<rparr>)
         else
           (let a = foldl (routing_step (all \<noteq> None)) \<lparr>rt_accepting = [], rt_unreadable = [], rt_considered = 0, rt_evidence = []\<rparr>
                  probed in
            if rt_accepting a \<noteq> []
            then zero_outcome\<lparr>oc_result := Fail,
              oc_detail := (nat_str (length (rt_accepting a)) @ '' interface(s) accept source-routed packets: '' @
                joinKeys (rt_accepting a) @ ''. '' @ srrAll @ '' is '' @ int_str (the all) @
                '', and each of these carries a non-zero value of its own, so the kernel honours a route '' @
                ''the sender attached to the packet '' @ em_dash @
                '' which lets an attacker choose the return path and receive replies to a spoofed source '' @
                ''address.'' @ note),
              oc_evidence := rt_evidence a @ [evidenceFor allRun] @ driftEv\<rparr>
            else if rt_unreadable a \<noteq> []
            then zero_outcome\<lparr>oc_result := Unknown, oc_reason := ReasonPermission,
              oc_detail := (''No interface was observed accepting source-routed packets, but the setting could not be '' @
                ''resolved for '' @ joinKeys (rt_unreadable a) @
                '', so whether this host refuses them cannot be determined.''),
              oc_evidence := [new_evidence ''/proc/sys/net/ipv4/conf'' 0 ''per-interface values unresolved'' []]\<rparr>
            else if rt_considered a = 0
            then zero_outcome\<lparr>oc_result := NotApplicable, oc_detail := (''This host has no non-loopback network interface, so there is no path on which a '' @
              ''source-routed packet could arrive.'')\<rparr>
            else zero_outcome\<lparr>oc_result := Pass,
              oc_detail := (''All '' @ int_str (rt_considered a) @
                '' non-loopback interface(s) refuse source-routed packets.'' @ note),
              oc_evidence := evidenceFor allRun # driftEv\<rparr>)))"

section \<open>Checks of the configuration files\<close>

subsection \<open>KERNEL-0017: BPF\<close>

record bpf_want =
  bw_key :: string
  bw_accept :: "string \<Rightarrow> bool"
  bw_weak :: "string \<Rightarrow> bool"
  bw_weak_note :: string
  bw_want_note :: string

definition bpfPersistent :: "bpf_want list" where
  "bpfPersistent =
     [\<lparr>bw_key = ''kernel.unprivileged_bpf_disabled'', bw_accept = (\<lambda>v. v = ''1'' \<or> v = ''2''), bw_weak = (\<lambda>v. v = ''2''),
        bw_weak_note = (''unprivileged bpf() is refused; 1 additionally locks the setting so nothing can lower it '' @
          ''for the rest of the boot''),
        bw_want_note = (''any local user may load BPF programs after the next reboot '' @ em_dash @
          '' set it to 1, or to 2 if something on this host needs to raise it later'')\<rparr>,
      \<lparr>bw_key = ''net.core.bpf_jit_harden'', bw_accept = (\<lambda>v. v = ''2''), bw_weak = (\<lambda>v. False), bw_weak_note = [],
        bw_want_note = (''the JIT blinds constants for unprivileged programs only at 1, and not at all at 0 '' @
          em_dash @ '' set it to 2 so every loaded program is hardened'')\<rparr>]"

definition bpfKeys :: "string list" where "bpfKeys = map bw_key bpfPersistent"
definition persistBPFCaveat :: string where "persistBPFCaveat = persistCaveatFor ''KERNEL-0006''"

definition bpfTiering :: "requirement list" where
  "bpfTiering = [accepts ''kernel.unprivileged_bpf_disabled'' (\<lambda>n. n = 1 \<or> n = 2), accepts ''net.core.bpf_jit_harden'' (\<lambda>n. 2 \<le> n)]"

definition sysctl_key_char :: "char \<Rightarrow> bool" where
  "sysctl_key_char c \<longleftrightarrow> (CHR ''a'' \<le> c \<and> c \<le> CHR ''z'') \<or> is_digit c \<or> c \<in> set ''._-*?''"

definition startsWithSysctlKey :: "string \<Rightarrow> bool" where
  "startsWithSysctlKey s =
     (let word = takeWhile (\<lambda>c. c \<noteq> CHR '' '') s in CHR ''.'' \<in> set word \<and> list_all sysctl_key_char word)"

definition capitaliseFirst :: "string \<Rightarrow> string" where
  "capitaliseFirst s = (if s = [] \<or> startsWithSysctlKey s then s else to_upper (take 1 s) @ drop 1 s)"

text \<open>The running values a wanted parameter has, when they pass the test.\<close>

definition running_where :: "(string \<Rightarrow> bool) \<Rightarrow> sysctl \<Rightarrow> string \<Rightarrow> string option" where
  "running_where P sc key =
     (case Run sc key of
        None \<Rightarrow> None
      | Some r \<Rightarrow>
          (if sr_state r \<noteq> SysctlObserved then None
           else if P (trim_space (sr_value r)) then Some ((key @ '' is '' @ trim_space (sr_value r))) else None))"

definition bpfFailureDetail :: "sysctl \<Rightarrow> string list \<Rightarrow> string" where
  "bpfFailureDetail sc failed =
     (let running = List.map_filter (\<lambda>w. if EffectiveConfigured sc (bw_key w) \<noteq> None then None
          else running_where (bw_accept w) sc (bw_key w)) bpfPersistent in
      (''BPF hardening is not written to this host's sysctl configuration: '' @ join ''; '' failed @ ''.'')
      @ (if running \<noteq> [] then ('' The running kernel is currently hardened '' @ em_dash @ '' '' @
        join '' and '' running @ '' '' @ em_dash @
        '' so this host is protected now and will not be after the next reboot. That is the case '' @
        ''KERNEL-0006 reports as a pass and KERNEL-0007 does not see at all, because a parameter no '' @
        ''file mentions has nothing to drift from.'') else []))"

definition runningNote :: "sysctl \<Rightarrow> string" where
  "runningNote sc =
     (let pending = List.map_filter (\<lambda>w. running_where (\<lambda>v. \<not> bw_accept w v) sc (bw_key w)) bpfPersistent in
      if pending = [] then [] else ('' The configuration is not yet in force: '' @ join '' and '' pending @
        '' in the running kernel, so the file describes the next boot rather than this one. See '' @
        ''KERNEL-0007.''))"

record bpf_state =
  bs_failed :: "string list"
  bs_weak :: "string list"
  bs_evidence :: "evidence list"
  bs_written :: int

definition bpf_step :: "sysctl \<Rightarrow> bpf_state \<Rightarrow> bpf_want \<Rightarrow> bpf_state" where
  "bpf_step sc a w =
     (case EffectiveConfigured sc (bw_key w) of
        None \<Rightarrow> a\<lparr>bs_failed := bs_failed a @ [(bw_key w @
          '' is not set in any sysctl configuration file'')]\<rparr>
      | Some x \<Rightarrow>
          (let a' = a\<lparr>bs_evidence := bs_evidence a @
            [evidenceForSetting sc x]\<rparr>; value = trim_space (ss_value x) in
           if bw_accept w value
           then (if bw_weak w value
             then a'\<lparr>bs_weak := bs_weak a @ [(bw_key w @ '' is '' @ value @ '' at '' @ ss_file x @ '':'' @
               int_str (ss_line x) @ '', and '' @ bw_weak_note w)]\<rparr>
             else a')
           else a'\<lparr>bs_failed := bs_failed a @ [(bw_key w @ '' is '' @ value @ '' at '' @ ss_file x @ '':'' @
             int_str (ss_line x) @ '', and '' @ bw_want_note w)],
             bs_written := bs_written a + 1\<rparr>))"

definition eval0017 :: "payload fact_set \<Rightarrow> outcome" where
  "eval0017 fs =
     (let sc = sysctlFact fs in
      case persistenceGate sc bpfKeys persistBPFCaveat of
        Some out \<Rightarrow> out
      | None \<Rightarrow>
          (let a = foldl (bpf_step sc) \<lparr>bs_failed = [], bs_weak = [], bs_evidence = [], bs_written = 0\<rparr> bpfPersistent in
           if bs_failed a \<noteq> []
           then
             (let out = zero_outcome\<lparr>oc_result := Fail, oc_subject := ''sysctl configuration'',
                oc_detail := bpfFailureDetail sc (bs_failed a), oc_evidence := searchedEvidence sc (bs_evidence a)\<rparr> in
              if 0 < bs_written a then out\<lparr>oc_detail := oc_detail out @ persistBPFCaveat\<rparr>
              else tierAbsence out sc bpfTiering persistBPFCaveat)
           else zero_outcome\<lparr>oc_result := Pass, oc_subject := ''sysctl configuration'',
             oc_detail := (if bs_weak a \<noteq> [] then (''Both BPF hardening parameters are written to the sysctl configuration, so the hardening '' @
               ''survives a reboot. '' @ capitaliseFirst (join ''; '' (bs_weak a)) @
               ''.'') else (''Both BPF hardening parameters are written to the sysctl configuration, so unprivileged '' @
               ''bpf() stays refused and the JIT keeps blinding constants across a reboot.''))
               @ runningNote sc @ persistBPFCaveat,
             oc_evidence := bs_evidence a\<rparr>))"

text \<open>What the checks of one key share: the gate, the file's value, and the verdict on it.\<close>

definition one_key ::
  "string \<Rightarrow> string \<Rightarrow> (sysctl \<Rightarrow> outcome) \<Rightarrow> (sysctl \<Rightarrow> sysctl_setting \<Rightarrow> outcome) \<Rightarrow> payload fact_set \<Rightarrow> outcome" where
  "one_key key caveat absent verdict fs =
     (let sc = sysctlFact fs in
      case persistenceGate sc [key] caveat of
        Some out \<Rightarrow> out
      | None \<Rightarrow> (case EffectiveConfigured sc key of None \<Rightarrow> absent sc | Some x \<Rightarrow> verdict sc x))"

definition missing :: "string \<Rightarrow> (sysctl \<Rightarrow> string) \<Rightarrow> requirement list \<Rightarrow> string \<Rightarrow> sysctl \<Rightarrow> outcome" where
  "missing key detail reqs caveat sc =
     tierAbsence (zero_outcome\<lparr>oc_result := Fail, oc_subject := key, oc_detail := detail sc,
       oc_evidence := searchedEvidence sc []\<rparr>) sc reqs caveat"

definition file_verdict :: "result \<Rightarrow> sysctl \<Rightarrow> string \<Rightarrow> string \<Rightarrow> outcome" where
  "file_verdict res sc key d = zero_outcome\<lparr>oc_result := res,
     oc_reason := (if res = Unknown then ReasonAmbiguousState else NoReason), oc_subject := key, oc_detail := d,
     oc_evidence := configuredEvidence sc key\<rparr>"

text \<open>The running value of a parameter, as far as it was observed, and as far as it is an integer.\<close>

definition observed :: "sysctl \<Rightarrow> string \<Rightarrow> string option" where
  "observed sc key =
     (case Run sc key of None \<Rightarrow> None | Some r \<Rightarrow> if sr_state r = SysctlObserved then Some (sr_value r) else None)"

subsection \<open>KERNEL-0018 and KERNEL-0019: kernel pointers and the ring buffer\<close>

definition kptrKey :: string where "kptrKey = ''kernel.kptr_restrict''"
definition persistKptrCaveat :: string where "persistKptrCaveat = persistCaveatFor ''KERNEL-0002''"
definition kptrTiering :: "requirement list" where "kptrTiering = [accepts kptrKey (\<lambda>n. 1 \<le> n)]"

definition kptrMissingDetail :: "sysctl \<Rightarrow> string" where
  "kptrMissingDetail sc = (kptrKey @
    '' is not set in any sysctl configuration file, so the value after the next reboot is '' @
    ''whatever the kernel defaults to '' @ em_dash @
    '' which on most builds is 0, printing kernel addresses to every local reader.'')
     @
       (case intValue sc kptrKey of None \<Rightarrow> [] | Some v \<Rightarrow> if 0 < v then ('' The running kernel has it at '' @
       int_str v @ '', so this host is protected now and will not be after the next reboot unless something '' @
       ''sets it again outside these files.'') else [])"

definition kptrRunningNote :: "sysctl \<Rightarrow> string \<Rightarrow> string" where
  "kptrRunningNote sc wanted =
     (case observed sc kptrKey of None \<Rightarrow> [] | Some v \<Rightarrow> if v = wanted then [] else ('' The running kernel has it at '' @
       v @ '', which does not match the file; see KERNEL-0007.''))"

definition eval0018 :: "payload fact_set \<Rightarrow> outcome" where
  "eval0018 = one_key kptrKey persistKptrCaveat (missing kptrKey kptrMissingDetail kptrTiering persistKptrCaveat)
     (\<lambda>sc x. if ss_value x = ''2''
        then file_verdict Pass sc kptrKey ((kptrKey @ '' is 2 at '' @ ss_file x @ '':'' @ int_str (ss_line x) @
          '', so '' @ ''%'' @
          ''pK prints zeros for every reader, privileged or not, and a leaked pointer cannot give '' @
          ''away the kernel's layout after the next reboot.'' @ kptrRunningNote sc ''2'' @ persistKptrCaveat))
        else if ss_value x = ''1''
        then file_verdict Pass sc kptrKey ((kptrKey @ '' is 1 at '' @ ss_file x @ '':'' @ int_str (ss_line x) @
          '', so '' @ ''%'' @ ''pK prints zeros to every reader without CAP_SYSLOG, and it stays that way across a '' @
          ''reboot. That closes the unprivileged leak: an ordinary local account reading '' @
          ''/proc/kallsyms or /proc/modules learns nothing about the layout. It leaves CAP_SYSLOG '' @ ''holders '' @
          em_dash @ '' a container granted it for logging, a monitoring agent '' @ em_dash @
          '' reading pointers in full; 2 removes that distinction, at the cost of showing zeros to '' @
          ''root as well and breaking perf, bpftrace and crash analysis with it.'' @ kptrRunningNote sc ''1'' @
          persistKptrCaveat))
        else if ss_value x = ''0''
        then file_verdict Fail sc kptrKey ((kptrKey @ '' is 0 at '' @ ss_file x @ '':'' @ int_str (ss_line x) @
          '', so '' @ ''%'' @ ''pK prints real kernel addresses to every local reader '' @ em_dash @
          '' /proc/kallsyms, /proc/modules, /proc/timer_list and a dozen other files '' @ em_dash @
          '' and one of them gives away the offset KASLR randomised. It is written down, so it '' @
          ''survives a reboot and a '' @ [CHR 0x60] @ ''sysctl -w'' @ [CHR 0x60] @ '' will not fix it.'' @
          kptrRunningNote sc ''0'' @ persistKptrCaveat))
        else file_verdict Fail sc kptrKey ((kptrKey @ '' is '' @ ss_value x @ '' at '' @ ss_file x @ '':'' @
          int_str (ss_line x) @
          '', which is not one of the documented values 0, 1 or 2. The kernel refuses a write outside '' @
          ''that range, so this line does not apply at boot and the parameter keeps whatever it had '' @ em_dash @
          '' which is the kernel default of 0 on most builds.'' @ kptrRunningNote sc (ss_value x) @
          persistKptrCaveat)))"

definition dmesgKey :: string where "dmesgKey = ''kernel.dmesg_restrict''"
definition persistDmesgCaveat :: string where "persistDmesgCaveat = persistCaveatFor ''KERNEL-0004''"
definition dmesgTiering :: "requirement list" where "dmesgTiering = [accepts dmesgKey (\<lambda>n. n = 1)]"

definition dmesgRunningNote :: "sysctl \<Rightarrow> string \<Rightarrow> string" where
  "dmesgRunningNote sc wanted =
     (case observed sc dmesgKey of None \<Rightarrow> [] | Some v \<Rightarrow> if v = wanted then [] else ('' The running kernel has it at '' @
       v @ '', which does not match the file; see KERNEL-0007.''))"

definition dmesg_reason :: "sysctl_setting \<Rightarrow> string" where
  "dmesg_reason x = (if ss_value x \<noteq> ''0'' then (''which is not one of the documented values 0 or 1, so what the kernel does with it depends '' @
    ''on the build'') else ''so any local user can run dmesg'')"

definition eval0019 :: "payload fact_set \<Rightarrow> outcome" where
  "eval0019 = one_key dmesgKey persistDmesgCaveat
     (missing dmesgKey (\<lambda>sc. (dmesgKey @
       '' is not set in any sysctl configuration file, so after the next reboot the ring buffer is '' @
       ''readable by whatever the kernel defaults to '' @ em_dash @
       '' 0 on most builds, meaning any local user can run dmesg and read stack traces, module '' @
       ''addresses and the hardware inventory.'') @
       (if observed sc dmesgKey = Some ''1'' then ('' The running kernel has it at 1, so this host is protected now and will not be after the '' @
       ''next reboot unless something sets it again outside these files.'') else []))
       dmesgTiering persistDmesgCaveat)
     (\<lambda>sc x. if ss_value x = ''1''
        then file_verdict Pass sc dmesgKey ((dmesgKey @ '' is 1 at '' @ ss_file x @ '':'' @ int_str (ss_line x) @
          '', so the kernel ring buffer requires CAP_SYSLOG to read and stays that way across a reboot.'' @
          dmesgRunningNote sc ''1'' @ persistDmesgCaveat))
        else file_verdict Fail sc dmesgKey ((dmesgKey @ '' is '' @ ss_value x @ '' at '' @ ss_file x @ '':'' @
          int_str (ss_line x) @ '', '' @ dmesg_reason x @
          '' and read the stack traces, module load addresses and hardware inventory the kernel has '' @
          ''printed since boot.'' @ dmesgRunningNote sc (ss_value x) @ persistDmesgCaveat)))"

subsection \<open>KERNEL-0020: ptrace\<close>

definition ptraceKey :: string where "ptraceKey = ''kernel.yama.ptrace_scope''"
definition persistPtraceCaveat :: string where "persistPtraceCaveat = persistCaveatFor ''KERNEL-0003''"
definition ptraceTiering :: "requirement list" where "ptraceTiering = [accepts ptraceKey (\<lambda>n. 1 \<le> n \<and> n \<le> 3)]"

definition ptraceLevels :: "string gomap" where
  "ptraceLevels = [(''1'', ''a process may trace only its own descendants and one that opted in with PR_SET_PTRACER''), (''2'', ''only a process holding CAP_SYS_PTRACE may trace anything''), (''3'', ''no process may trace another at all, and the value cannot be lowered again without a reboot'')]"

definition eval0020 :: "payload fact_set \<Rightarrow> outcome" where
  "eval0020 = one_key ptraceKey persistPtraceCaveat
     (missing ptraceKey (\<lambda>sc. (ptraceKey @
       '' is not set in any sysctl configuration file, so after the next reboot ptrace scope is '' @
       ''whatever the kernel defaults to '' @ em_dash @
       '' 0 on most builds, meaning any process may read and write the memory of any other process '' @
       ''owned by the same user.'')
        @
          (case intValue sc ptraceKey of None \<Rightarrow> [] | Some v \<Rightarrow> if 0 < v then ('' The running kernel has it at '' @
          int_str v @ '', so this host is protected now and will not be after the next reboot unless something '' @
          ''sets it again outside these files.'') else []))
       ptraceTiering persistPtraceCaveat)
     (\<lambda>sc x. case lookup ptraceLevels (ss_value x) of
        Some level \<Rightarrow> file_verdict Pass sc ptraceKey ((ptraceKey @ '' is '' @ ss_value x @ '' at '' @
          ss_file x @ '':'' @ int_str (ss_line x) @ '', so '' @ level @ '', and it stays that way across a reboot.'' @
          runningMismatch sc ptraceKey (ss_value x) @ persistPtraceCaveat))
      | None \<Rightarrow>
          (if ss_value x = ''0''
           then file_verdict Fail sc ptraceKey ((ptraceKey @ '' is 0 at '' @ ss_file x @ '':'' @ int_str (ss_line x) @
             '', which is the classic behaviour: any process may attach to any other owned by the same '' @
             ''user and read or write its memory. An attacker who lands as an ordinary user reads the '' @
             ''secrets out of a browser, an ssh-agent or a running deployment script without escalating '' @
             ''at all, and writes into one without dropping a file on disk. Setting it to 1 stops that '' @
             ''and still allows a debugger to trace its own children.'' @ runningMismatch sc ptraceKey ''0'' @
             persistPtraceCaveat))
           else file_verdict Unknown sc ptraceKey ((ptraceKey @ '' is '' @ go_quote (ss_value x) @ '' at '' @
             ss_file x @ '':'' @ int_str (ss_line x) @
             '', which is not one of the documented values 0, 1, 2 or 3. What Yama does with it depends '' @
             ''on the kernel build, so what this host allows after a reboot cannot be determined from '' @
             ''the file.'' @ persistPtraceCaveat))))"

subsection \<open>KERNEL-0021: the magic SysRq key\<close>

definition sysrqKey :: string where "sysrqKey = ''kernel.sysrq''"
definition persistSysrqCaveat :: string where "persistSysrqCaveat = ('' This reads the sysctl configuration files, which describe what the kernel will do after '' @
  ''the next reboot. No check in this catalog reads the running value, and the kernel command '' @
  ''line can enable SysRq in a way no sysctl file records '' @ em_dash @
  '' sysrq_always_enabled in the bootloader configuration is not visible here.'')"
definition sysrqTiering :: "requirement list" where "sysrqTiering = [accepts sysrqKey (\<lambda>n. n = 0)]"

definition sysrqBits :: "(int \<times> string \<times> string) list" where
  "sysrqBits =
     [(2, ''changing the console log level'', ''log-level control, which can silence kernel logging while something else happens''),
      (4, ''keyboard control, including turning off raw mode'', ''keyboard control, which can be used to disrupt a console session''),
      (8, ''debugging dumps of registers, memory and every task's stack'', (''the debugging dumps, which print kernel memory to the console and defeat address-space '' @
        ''randomisation in one keystroke'')),
      (16, ''syncing all filesystems'', []),
      (32, ''remounting all filesystems read-only'', []),
      (64, ''signalling processes, up to SIGKILL for every task'', ''process signalling, which can kill the audit daemon before anything else happens''),
      (128, ''immediate reboot or power off'', []),
      (256, ''renicing all real-time tasks'', [])]"

text \<open>
  strconv.ParseInt in base 0: a sign, then the base by the prefix, with an underscore allowed between digits
  and after the prefix; out of the 64-bit range is an error like any other.
\<close>

definition lower_char :: "char \<Rightarrow> char" where
  "lower_char c = (if CHR ''A'' \<le> c \<and> c \<le> CHR ''Z'' then char_of (byte c + 32) else c)"

definition char_digit :: "char \<Rightarrow> nat option" where
  "char_digit c =
     (if is_digit c then Some (digit_val c)
      else if CHR ''a'' \<le> lower_char c \<and> lower_char c \<le> CHR ''z'' then Some (byte (lower_char c) - 87)
      else None)"

definition base_prefix :: "string \<Rightarrow> nat \<times> string" where
  "base_prefix s =
     (if s = [] \<or> hd s \<noteq> CHR ''0'' then (10, s)
      else if 3 \<le> length s \<and> lower_char (s ! 1) = CHR ''b'' then (2, drop 2 s)
      else if 3 \<le> length s \<and> lower_char (s ! 1) = CHR ''o'' then (8, drop 2 s)
      else if 3 \<le> length s \<and> lower_char (s ! 1) = CHR ''x'' then (16, drop 2 s)
      else (8, drop 1 s))"

fun digits_value :: "nat \<Rightarrow> nat \<Rightarrow> string \<Rightarrow> nat option" where
  "digits_value b n [] = Some n"
| "digits_value b n (c # s) =
     (if c = CHR ''_'' then digits_value b n s
      else (case char_digit c of None \<Rightarrow> None | Some d \<Rightarrow> if d < b then digits_value b (n * b + d) s else None))"

text \<open>An underscore follows a digit or the prefix, and a digit follows it; \<open>ok\<close>: the character before may precede one.\<close>

fun underscores_ok :: "bool \<Rightarrow> string \<Rightarrow> bool" where
  "underscores_ok ok [] = True"
| "underscores_ok ok (c # s) =
     (if c \<noteq> CHR ''_'' then underscores_ok True s
      else ok \<and> s \<noteq> [] \<and> hd s \<noteq> CHR ''_'' \<and> underscores_ok False s)"

definition parse_uint0 :: "string \<Rightarrow> nat option" where
  "parse_uint0 s =
     (if s = [] then None
      else
        (case base_prefix s of (b, ds) \<Rightarrow>
           (if CHR ''_'' \<in> set ds \<and> \<not> underscores_ok (b \<noteq> 10) ds then None else digits_value b 0 ds)))"

definition parse_int0 :: "string \<Rightarrow> int option" where
  "parse_int0 s =
     (let neg = (s \<noteq> [] \<and> hd s = CHR ''-''); t = (if s \<noteq> [] \<and> hd s \<in> set ''+-'' then tl s else s) in
      case parse_uint0 t of
        None \<Rightarrow> None
      | Some n \<Rightarrow>
          (if neg then (if n \<le> 2 ^ 63 then Some (- int n) else None)
           else if n < 2 ^ 63 then Some (int n) else None))"

definition parseSysrqMask :: "string \<Rightarrow> int option" where
  "parseSysrqMask v = parse_int0 (trim_space v)"

definition has_bit :: "int \<Rightarrow> int \<Rightarrow> bool" where
  "has_bit msk b \<longleftrightarrow> and msk b \<noteq> 0"

definition describeSysrq :: "string \<Rightarrow> string" where
  "describeSysrq value =
     (case parseSysrqMask (trim_space value) of
        None \<Rightarrow> ''an unrecognised value''
      | Some msk \<Rightarrow>
          (if msk = 0 then ''nothing: SysRq is disabled''
           else if msk = 1 then ''every SysRq function''
           else
             (let on = map (\<lambda>(b, what, why). what) (filter (\<lambda>(b, what, why). has_bit msk b) sysrqBits) in
              if on = [] then ''no documented function'' else join '', '' on)))"

definition dangerousSysrq :: "int \<Rightarrow> string list" where
  "dangerousSysrq msk =
     (let m = (if msk = 1 then 511 else msk) in
      map (\<lambda>(b, what, why). why) (filter (\<lambda>(b, what, why). why \<noteq> [] \<and> has_bit m b) sysrqBits))"

definition eval0021 :: "payload fact_set \<Rightarrow> outcome" where
  "eval0021 = one_key sysrqKey persistSysrqCaveat
     (missing sysrqKey (\<lambda>sc. (sysrqKey @
       '' is not set in any sysctl configuration file, so after the next reboot the magic SysRq '' @
       ''key is whatever the kernel was built with '' @ em_dash @
       '' commonly 1, every function enabled, or a distribution's own default.'')
        @
          (case observed sc sysrqKey of None \<Rightarrow> [] | Some v \<Rightarrow> ('' The running kernel has it at '' @
          v @ '' ('' @ describeSysrq v @ '').'')))
       sysrqTiering persistSysrqCaveat)
     (\<lambda>sc x. let value = trim_space (ss_value x) in
        case parseSysrqMask value of
          None \<Rightarrow> file_verdict Unknown sc sysrqKey ((sysrqKey @ '' is '' @ go_quote (ss_value x) @ '' at '' @
            ss_file x @ '':'' @ int_str (ss_line x) @
            '', which is not a number. What the kernel does with a value it cannot parse depends on the '' @
            ''build, so what this host allows at the console after a reboot cannot be determined from '' @
            ''the file.'' @ persistSysrqCaveat))
        | Some msk \<Rightarrow>
            (if msk = 0
             then file_verdict Pass sc sysrqKey ((sysrqKey @ '' is 0 at '' @ ss_file x @ '':'' @ int_str (ss_line x) @
               '', so the magic SysRq key is disabled and stays disabled across a reboot. Nothing at the '' @
               ''console can reach the kernel through it.'' @ runningMismatch sc sysrqKey ''0'' @ persistSysrqCaveat))
             else
               (let dangerous = dangerousSysrq msk in
                if dangerous = []
                then (file_verdict Fail sc sysrqKey ((sysrqKey @ '' is '' @ int_str msk @ '' at '' @ ss_file x @ '':'' @
                  int_str (ss_line x) @ '', which enables '' @ describeSysrq value @
                  ''. None of those hands an attacker at the console anything beyond the disruption itself, '' @
                  ''so this is a deliberate and narrow choice rather than the default '' @ em_dash @
                  '' and 0 is still the value to reach for unless the emergency use is real.'' @
                  runningMismatch sc sysrqKey value @ persistSysrqCaveat)))\<lparr>oc_severity := Low\<rparr>
                else file_verdict Fail sc sysrqKey ((sysrqKey @ '' is '' @ int_str msk @ '' at '' @ ss_file x @ '':'' @
                  int_str (ss_line x) @ '', which enables '' @ describeSysrq value @ ''. The consequential part is '' @
                  join ''; '' dangerous @ '', reachable by anyone at the console '' @ em_dash @
                  '' and console here includes a serial line on a management network, a hypervisor's virtual '' @
                  ''console and a cloud provider's web terminal.'' @ runningMismatch sc sysrqKey value @
                  persistSysrqCaveat)))))"

subsection \<open>KERNEL-0022 and KERNEL-0023: performance events and SYN cookies\<close>

definition perfKey :: string where "perfKey = ''kernel.perf_event_paranoid''"
definition persistPerfCaveat :: string where "persistPerfCaveat = persistCaveatFor ''KERNEL-0013''"
definition perfTiering :: "requirement list" where "perfTiering = [accepts perfKey (\<lambda>n. 2 \<le> n)]"

definition perfExposure :: "int \<Rightarrow> string" where
  "perfExposure level =
     (if level < 0 then (''the kernel's own execution and raw tracepoints, which is a direct read of the layout '' @
       ''KASLR randomises'') else if level = 0 then (''CPU events and the kernel's own execution, which is a direct read of the layout KASLR '' @
       ''randomises'') else ''the kernel's own execution, which is a direct read of the layout KASLR randomises'')"

definition eval0022 :: "payload fact_set \<Rightarrow> outcome" where
  "eval0022 = one_key perfKey persistPerfCaveat
     (missing perfKey (\<lambda>sc. (perfKey @
       '' is not set in any sysctl configuration file, so after the next reboot it is whatever the '' @
       ''kernel defaults to. Upstream has defaulted to 2 since Linux 4.6, which is adequate '' @ em_dash @
       '' but a default is not a decision, and a kernel built with a lower value, or a boot '' @
       ''parameter that lowers it, leaves unprivileged processes able to measure the kernel's own '' @ ''execution.'')
        @ (case intValue sc perfKey of None \<Rightarrow> []
           | Some v \<Rightarrow> if 2 \<le> v then ('' The running kernel has it at '' @ int_str v @
             '', so this host is adequate now on its default and has not written that down.'') else ('' The running kernel has it at '' @
             int_str v @ '', which is below the bar as well: unprivileged perf can measure '' @ perfExposure v @
             '' right now.'')))
       perfTiering persistPerfCaveat)
     (\<lambda>sc x. case atoi (ss_value x) of
          None \<Rightarrow> file_verdict Unknown sc perfKey ((perfKey @ '' is '' @ go_quote (ss_value x) @ '' at '' @
            ss_file x @ '':'' @ int_str (ss_line x) @
            '', which is not a number. What the kernel does with a value it cannot parse depends on the '' @
            ''build, so what this host allows after a reboot cannot be determined from the file.'' @
            persistPerfCaveat))
        | Some level \<Rightarrow>
            (if 3 \<le> level
             then file_verdict Pass sc perfKey ((perfKey @ '' is '' @ int_str level @ '' at '' @ ss_file x @ '':'' @
               int_str (ss_line x) @
               '', so unprivileged processes may not call perf_event_open at all. That is stricter than '' @
               ''upstream's own default of 2 and is available only on a kernel carrying the Debian and '' @
               ''Ubuntu patch, so it is a deliberate choice rather than an inherited one.'' @
               runningMismatch sc perfKey (ss_value x) @ persistPerfCaveat))
             else if level = 2
             then file_verdict Pass sc perfKey ((perfKey @ '' is 2 at '' @ ss_file x @ '':'' @ int_str (ss_line x) @
               '', so unprivileged processes may not profile the kernel '' @ em_dash @
               '' which is what closes the address oracle '' @ em_dash @
               '' and the setting survives a reboot. 3 is stricter and exists only on Debian-family kernels.'' @
               runningMismatch sc perfKey (ss_value x) @ persistPerfCaveat))
             else file_verdict Fail sc perfKey ((perfKey @ '' is '' @ int_str level @ '' at '' @ ss_file x @ '':'' @
               int_str (ss_line x) @
               '', which is written down and below upstream's own default of 2. Unprivileged processes may '' @
               ''measure '' @ perfExposure level @
               '', which is a KASLR oracle and a side-channel primitive rather than a bug to be exploited.'' @
               runningMismatch sc perfKey (ss_value x) @ persistPerfCaveat))))"

definition syncookiesKey :: string where "syncookiesKey = ''net.ipv4.tcp_syncookies''"
definition persistSyncookiesCaveat :: string where "persistSyncookiesCaveat = persistCaveatFor ''KERNEL-0016''"
definition syncookiesTiering :: "requirement list" where "syncookiesTiering = [accepts syncookiesKey (\<lambda>n. 1 \<le> n)]"

definition eval0023 :: "payload fact_set \<Rightarrow> outcome" where
  "eval0023 = one_key syncookiesKey persistSyncookiesCaveat
     (missing syncookiesKey (\<lambda>sc. (syncookiesKey @
       '' is not set in any sysctl configuration file, so after the next reboot it is whatever the '' @
       ''kernel defaults to.'')
        @ (case intValue sc syncookiesKey of None \<Rightarrow> []
           | Some v \<Rightarrow> if 1 \<le> v then ('' The running kernel has it at '' @ int_str v @
             '', so this host is defended now on a default nobody wrote down: a performance-tuning '' @
             ''drop-in, a container runtime or a sysctl -w in a start-up script can set it to 0 and '' @
             ''nothing here records that it was ever meant to be 1.'') else ('' The running kernel has it at '' @
             int_str v @ '' as well, so the backlog is the only thing standing between a listening socket and a SYN '' @
             ''flood right now.'')))
       syncookiesTiering persistSyncookiesCaveat)
     (\<lambda>sc x. case atoi (ss_value x) of
          None \<Rightarrow> unparseableConfig sc syncookiesKey x persistSyncookiesCaveat
        | Some n \<Rightarrow>
            (if n = 1
             then file_verdict Pass sc syncookiesKey ((syncookiesKey @ '' is 1 '' @ configuredAt sc syncookiesKey x @
               '', so a listening socket whose backlog overflows falls back to cookies instead of refusing '' @
               ''connections, and it stays that way across a reboot.'' @ runningMismatch sc syncookiesKey (ss_value x) @
               persistSyncookiesCaveat))
             else if 2 \<le> n
             then file_verdict Pass sc syncookiesKey ((syncookiesKey @ '' is '' @ int_str n @ '' '' @
               configuredAt sc syncookiesKey x @
               '', so cookies are used for every connection rather than only when a backlog overflows, and '' @
               ''it stays that way across a reboot. That is stricter than the 1 this check asks for and it '' @
               ''is not free: window scaling, SACK and timestamps cannot be carried in a cookie, so every '' @
               ''connection loses them rather than only the ones made during a flood.'' @
               runningMismatch sc syncookiesKey (ss_value x) @ persistSyncookiesCaveat))
             else if n = 0
             then file_verdict Fail sc syncookiesKey ((syncookiesKey @ '' is 0 '' @ configuredAt sc syncookiesKey x @
               '', which turns the fallback off: a listening socket's backlog is finite, and once it is '' @
               ''full of half-open connections the service refuses legitimate clients. This is written '' @
               ''down, so it is a decision somebody made rather than a default nobody set '' @ em_dash @
               '' performance-tuning guides recommend it, and the throughput it buys is not worth the socket.'' @
               runningMismatch sc syncookiesKey ''0'' @ persistSyncookiesCaveat))
             else file_verdict Unknown sc syncookiesKey ((syncookiesKey @ '' is '' @ int_str n @ '' at '' @ ss_file x @
               '':'' @ int_str (ss_line x) @
               '', which is not one of the documented values 0, 1 or 2. What the kernel does with it '' @
               ''depends on the build, so what this host does after a reboot cannot be determined from the '' @
               ''file.'' @ persistSyncookiesCaveat))))"

subsection \<open>KERNEL-0024: reverse-path filtering, written down\<close>

definition rpFilterDefault :: string where "rpFilterDefault = ''net.ipv4.conf.default.rp_filter''"
definition rpFilterPersistKeys :: "string list" where "rpFilterPersistKeys = [rpFilterAll, rpFilterDefault]"
definition persistRPFilterCaveat :: string where "persistRPFilterCaveat = persistCaveatFor ''KERNEL-0008''"

definition rpFilterTiering :: "requirement list" where
  "rpFilterTiering = [accepts rpFilterAll (\<lambda>n. 1 \<le> n), accepts rpFilterDefault (\<lambda>n. 1 \<le> n)]"

text \<open>
  The last setting of an empty list is an index out of range; the collector writes no empty list. Which
  pattern the map yields first decides between that panic and a match, and the model takes the keys in order.
\<close>

fun pattern_loop :: "sysctl \<Rightarrow> string list \<Rightarrow> string + bool" where
  "pattern_loop sc [] = Inr False"
| "pattern_loop sc (p # ps) =
     (if \<not> has_suffix p rpFilterSuffix \<or> \<not> contains_any p ''*?['' then pattern_loop sc ps
      else
        (case rev (configured sc p) of
           [] \<Rightarrow> Inl ''runtime error: index out of range [-1]''
         | x # xs \<Rightarrow>
             (case atoi (trim_space (ss_value x)) of
                Some n \<Rightarrow> if 1 \<le> n then Inr True else pattern_loop sc ps
              | None \<Rightarrow> pattern_loop sc ps)))"

definition interface_set :: "sysctl \<Rightarrow> sysctl_running \<Rightarrow> bool" where
  "interface_set sc r =
     (case EffectiveConfigured sc (sr_key r) of
        None \<Rightarrow> False
      | Some x \<Rightarrow> (case atoi (trim_space (ss_value x)) of None \<Rightarrow> False | Some n \<Rightarrow> 1 \<le> n))"

definition rpFilterPatternCovers :: "sysctl \<Rightarrow> string + bool" where
  "rpFilterPatternCovers sc =
     (let ifaces = filter (\<lambda>r. sr_key r \<noteq> rpFilterAll \<and> sr_key r \<noteq> rpFilterDefault)
        (RunningMatching sc rpFilterPrefix rpFilterSuffix) in
      if ifaces \<noteq> [] then Inr (list_all (interface_set sc) ifaces)
      else pattern_loop sc (ConfiguredKeys sc))"

definition rpFilterConfiguredNotes :: "sysctl \<Rightarrow> string list" where
  "rpFilterConfiguredNotes sc = List.map_filter (\<lambda>key. map_option
     (\<lambda>x. (key @ '' is '' @ trim_space (ss_value x) @ '' '' @
       configuredAt sc key x)) (EffectiveConfigured sc key)) rpFilterPersistKeys"

definition rpFilterFailureDetail :: "string list \<Rightarrow> string" where
  "rpFilterFailureDetail failed = (capitaliseFirst (join ''; '' failed) @
    ''. A host that does not filter by reverse path accepts packets claiming any source '' @
    ''address, so a control that trusts one can be walked past and the origin of an attack is '' @
    ''whatever the attacker wrote in the header.'')"

record rp_state =
  rp_failed :: "string list"
  rp_loose :: "string list"
  rp_withheld :: "string list"
  rp_evidence :: "evidence list"
  rp_written :: int

definition rp_step :: "sysctl \<Rightarrow> rp_state \<Rightarrow> string \<Rightarrow> rp_state" where
  "rp_step sc a key =
     (case EffectiveConfigured sc key of
        None \<Rightarrow>
          (if ExcludedFrom sc key \<noteq> None \<and> key = rpFilterAll then a\<lparr>rp_withheld := rp_withheld a @
            [notConfigured sc key]\<rparr>
           else a\<lparr>rp_failed := rp_failed a @ [notConfigured sc key]\<rparr>)
      | Some x \<Rightarrow>
          (let a' = a\<lparr>rp_evidence := rp_evidence a @ [evidenceForSetting sc x]\<rparr> in
           case atoi (trim_space (ss_value x)) of
             None \<Rightarrow> a'\<lparr>rp_failed := rp_failed a @ [(key @ '' is '' @ go_quote (ss_value x) @ '' '' @
               configuredAt sc key x @ '', which is not a number'')],
               rp_written := rp_written a + 1\<rparr>
           | Some n \<Rightarrow>
               (if n = 1 then a'
                else if n = 2 then a'\<lparr>rp_loose := rp_loose a @ [key]\<rparr>
                else a'\<lparr>rp_failed := rp_failed a @ [(key @ '' is '' @ int_str n @ '' '' @ configuredAt sc key x @
                  '', so packets are accepted whatever source address they claim'')],
                  rp_written := rp_written a + 1\<rparr>)))"

text \<open>The verdict, once it is known whether the withheld keys are covered by a pattern.\<close>

definition rp_verdict :: "sysctl \<Rightarrow> rp_state \<Rightarrow> string list \<Rightarrow> string list \<Rightarrow> outcome" where
  "rp_verdict sc a failed withheld =
     (if failed \<noteq> []
      then
        (let out = zero_outcome\<lparr>oc_result := Fail, oc_subject := ''sysctl configuration'',
           oc_detail := rpFilterFailureDetail failed, oc_evidence := searchedEvidence sc (rp_evidence a)\<rparr> in
         if 0 < rp_written a then out\<lparr>oc_detail := oc_detail out @ persistRPFilterCaveat\<rparr>
         else tierAbsence out sc rpFilterTiering persistRPFilterCaveat)
      else zero_outcome\<lparr>oc_result := Pass, oc_subject := ''sysctl configuration'',
        oc_detail := ''Reverse-path filtering is written to the sysctl configuration: '' @
          join ''; '' (rpFilterConfiguredNotes sc) @ ''.''
          @ (if withheld \<noteq> [] then ('' A pattern sets it on the interfaces themselves, and '' @
            join ''; '' withheld @ '', so it keeps the kernel's own default '' @ em_dash @
            '' which is deliberate, because the kernel takes the maximum of that key and the '' @
            ''interface's own, so pinning it would take away the ability to turn filtering down on one '' @
            ''interface that needs it.'') else ('' The floor is set for the interfaces already up and the template for every interface '' @
            ''created after boot, so a spoofed source address is dropped after the next reboot either '' @ ''way.''))
          @ (if rp_loose a \<noteq> []
             then ('' '' @ joinKeys (rp_loose a) @ '' '' @ (if 1 < length (rp_loose a) then ''are'' else ''is'') @
               '' at 2, which is loose mode: the source has to be routable by some interface rather than '' @
               ''by the one the packet arrived on. That is the right choice on a multi-homed host with '' @
               ''asymmetric routing and the wrong one on a host with a single default route, where strict '' @
               ''mode costs nothing.'') else [])
          @ persistRPFilterCaveat,
        oc_evidence := searchedEvidence sc (rp_evidence a)\<rparr>)"

definition eval0024 :: "payload fact_set \<Rightarrow> string + outcome" where
  "eval0024 fs =
     (let sc = sysctlFact fs in
      case persistenceGate sc rpFilterPersistKeys persistRPFilterCaveat of
        Some out \<Rightarrow> Inr out
      | None \<Rightarrow>
          (let a = foldl (rp_step sc) \<lparr>rp_failed = [], rp_loose = [], rp_withheld = [], rp_evidence = [], rp_written = 0\<rparr>
                 rpFilterPersistKeys in
           if rp_withheld a = [] then Inr (rp_verdict sc a (rp_failed a) [])
           else
             (case rpFilterPatternCovers sc of
                Inl m \<Rightarrow> Inl m
              | Inr True \<Rightarrow> Inr (rp_verdict sc a (rp_failed a) (rp_withheld a))
              | Inr False \<Rightarrow> Inr (rp_verdict sc a (rp_failed a @ rp_withheld a) []))))"

subsection \<open>KERNEL-0025, KERNEL-0026 and KERNEL-0027: requirement tables\<close>

definition routingPersistent :: "requirement list" where
  "routingPersistent =
     [\<lparr>rq_key = ''net.ipv4.conf.all.accept_source_route'', rq_accept = refused,
        rq_absence = (''nothing on this host records that source-routed packets should be dropped; the kernel's '' @
          ''own default is 0, which is correct and is not a decision anybody made''),
        rq_wrong = ''a packet may carry its own return path and this host will honour it''\<rparr>,
      \<lparr>rq_key = ''net.ipv4.conf.default.accept_source_route'', rq_accept = refused,
        rq_absence = (''an interface created after boot '' @ em_dash @
          '' a container veth, a VPN tunnel, a hot-plugged NIC '' @ em_dash @
          '' inherits whatever the kernel defaults to rather than a value this host chose''),
        rq_wrong = ''every interface created after boot will accept source-routed packets''\<rparr>,
      \<lparr>rq_key = ''net.ipv4.conf.all.accept_redirects'', rq_accept = refused,
        rq_absence = (''this host will accept ICMP redirects, because unlike source routing the kernel defaults '' @
          ''this one to 1: any party on the segment can rewrite its routing table with an '' @
          ''unauthenticated packet''),
        rq_wrong = (''any party on the segment can rewrite this host's routing table with an unauthenticated '' @
          ''packet'')\<rparr>,
      \<lparr>rq_key = ''net.ipv4.conf.default.accept_redirects'', rq_accept = refused,
        rq_absence = (''every interface created after boot will accept ICMP redirects, since the kernel defaults '' @
          ''this one to 1 and nothing here overrides it''),
        rq_wrong = ''every interface created after boot will accept ICMP redirects''\<rparr>]"

definition persistRoutingCaveat :: string where "persistRoutingCaveat = ('' This reads the sysctl configuration files, which describe what the kernel will do after '' @
  ''the next reboot. What it is doing now is KERNEL-0015's subject for source routing and '' @
  ''nothing's yet for redirect acceptance, and a disagreement between file and kernel is '' @ ''KERNEL-0007's.'')"

text \<open>The evaluation the three tables share.\<close>

definition table_eval ::
  "requirement list \<Rightarrow> string \<Rightarrow> (sysctl \<Rightarrow> string) \<Rightarrow> string \<Rightarrow> payload fact_set \<Rightarrow> outcome" where
  "table_eval reqs caveat tail pass fs =
     (let sc = sysctlFact fs in
      case persistenceGate sc (requirementKeys reqs) caveat of
        Some out \<Rightarrow> out
      | None \<Rightarrow>
          (let res = checkRequirements sc reqs in
           if rr_failed res \<noteq> []
           then tierRequirementFailure (zero_outcome\<lparr>oc_result := Fail, oc_subject := ''sysctl configuration'',
               oc_detail := capitaliseFirst (join ''; '' (rr_failed res)) @ tail sc,
               oc_evidence := searchedEvidence sc (rr_evidence res)\<rparr>) sc reqs res caveat
           else zero_outcome\<lparr>oc_result := Pass, oc_subject := ''sysctl configuration'',
             oc_detail := pass @ runningContradiction sc reqs @ caveat,
             oc_evidence := searchedEvidence sc (rr_evidence res)\<rparr>))"

definition eval0025 :: "payload fact_set \<Rightarrow> outcome" where
  "eval0025 = table_eval routingPersistent persistRoutingCaveat
     (\<lambda>sc. (''. Both parameters let a party on the network decide where this host sends packets, which '' @
       ''is a position to read and rewrite traffic from rather than a weakness in it.''))
     ((''Source routing and ICMP redirect acceptance are both refused in the sysctl configuration, '' @
       ''for the host-wide keys and for the template every interface created later inherits. A '' @
       ''packet carrying its own return path is dropped and an unauthenticated redirect will not '' @
       ''rewrite this host's routing table, after the next reboot and on interfaces that do not '' @ ''exist yet.''))"

definition acceptRAPersistent :: "requirement list" where
  "acceptRAPersistent =
     [\<lparr>rq_key = ''net.ipv6.conf.all.accept_ra'', rq_accept = refused,
        rq_absence = (''this host accepts IPv6 router advertisements, because the kernel defaults this to 1: '' @
          ''anyone on the segment can become its default gateway by announcing that they are''),
        rq_wrong = ''anyone on the segment can become this host's default gateway by announcing that they are''\<rparr>,
      \<lparr>rq_key = ''net.ipv6.conf.default.accept_ra'', rq_accept = refused,
        rq_absence = (''every interface created after boot accepts IPv6 router advertisements, since the kernel '' @
          ''defaults this to 1 and nothing here overrides it''),
        rq_wrong = ''every interface created after boot will accept IPv6 router advertisements''\<rparr>]"

definition persistAcceptRACaveat :: string where "persistAcceptRACaveat = persistCaveatUnpaired"

definition eval0026 :: "payload fact_set \<Rightarrow> outcome" where
  "eval0026 = table_eval acceptRAPersistent persistAcceptRACaveat
     (\<lambda>sc. (''. Anyone able to put a frame on this segment can advertise themselves as the default '' @
       ''gateway and read and rewrite every IPv6 flow leaving this host, without exploiting '' @ ''anything '' @
       em_dash @ '' router advertisements are unauthenticated by design.''))
     ((''IPv6 router advertisements are refused in the sysctl configuration, for the host-wide key '' @
       ''and for the template every interface created later inherits. A rogue advertisement will '' @
       ''not install a default route on this host after the next reboot, and this host is '' @
       ''therefore configured for static or DHCPv6 addressing rather than SLAAC.''))"

definition sendRedirectsPersistent :: "requirement list" where
  "sendRedirectsPersistent =
     [\<lparr>rq_key = ''net.ipv4.conf.all.send_redirects'', rq_accept = refused,
        rq_absence = (''nothing stops this host advertising routes to its neighbours if anything enables IP '' @
          ''forwarding on it, and the kernel defaults this to 1''),
        rq_wrong = ''this host will send ICMP redirects to its neighbours whenever it forwards a packet''\<rparr>,
      \<lparr>rq_key = ''net.ipv4.conf.default.send_redirects'', rq_accept = refused,
        rq_absence = (''every interface created after boot inherits the kernel's default of 1, which on a host '' @
          ''running containers is a new interface every few seconds''),
        rq_wrong = ''every interface created after boot will send ICMP redirects when it forwards''\<rparr>]"

definition persistSendRedirectsCaveat :: string where "persistSendRedirectsCaveat = persistCaveatUnpaired"

definition forwardingNote :: "sysctl \<Rightarrow> string" where
  "forwardingNote sc =
     (case observed sc ''net.ipv4.ip_forward'' of
        None \<Rightarrow> []
      | Some v \<Rightarrow> if trim_space v = ''0'' then [] else ('' IP forwarding is on right now (net.ipv4.ip_forward is '' @
        trim_space v @ ''), so this is not hypothetical: this host is a router today, whether or not anyone '' @
        ''decided it should be.''))"

definition eval0027 :: "payload fact_set \<Rightarrow> outcome" where
  "eval0027 = table_eval sendRedirectsPersistent persistSendRedirectsCaveat
     (\<lambda>sc. (''. Only a router has any business sending a redirect, and a host that emits one describes '' @
       ''a route it was not asked about to whoever elicited it.'') @ forwardingNote sc)
     ((''Sending ICMP redirects is refused in the sysctl configuration, for the host-wide key and '' @
       ''for the template every interface created later inherits. If something enables IP '' @
       ''forwarding on this host '' @ em_dash @ '' a container runtime, a VPN daemon, a virtualisation stack '' @
       em_dash @ '' it still will not start advertising routes to its neighbours.''))"

subsection \<open>KERNEL-0028 to KERNEL-0031\<close>

definition rfc1337Key :: string where "rfc1337Key = ''net.ipv4.tcp_rfc1337''"
definition persistRFC1337Caveat :: string where "persistRFC1337Caveat = persistCaveatUnpaired"
definition rfc1337Tiering :: "requirement list" where "rfc1337Tiering = [accepts rfc1337Key (\<lambda>n. n = 1)]"

definition eval0028 :: "payload fact_set \<Rightarrow> outcome" where
  "eval0028 = one_key rfc1337Key persistRFC1337Caveat
     (missing rfc1337Key (\<lambda>sc. (notConfigured sc rfc1337Key @
       '', so after the next reboot it is the kernel's default of 0: a reset aimed at a socket in '' @
       ''TIME-WAIT tears it down early, and a delayed segment from the finished connection can be '' @
       ''accepted into a new one that has taken the same four-tuple.'')
        @
          (if intValue sc rfc1337Key = Some 1 then ('' The running kernel has it at 1, so this host is protected now and will not be after the '' @
          ''next reboot unless something sets it again outside these files.'') else []))
       rfc1337Tiering persistRFC1337Caveat)
     (\<lambda>sc x. case atoi (ss_value x) of
          None \<Rightarrow> unparseableConfig sc rfc1337Key x persistRFC1337Caveat
        | Some n \<Rightarrow>
            (if n = 1
             then file_verdict Pass sc rfc1337Key ((rfc1337Key @ '' is 1 '' @ configuredAt sc rfc1337Key x @
               '', so a reset aimed at a socket in TIME-WAIT is dropped rather than acted on, and the '' @
               ''socket serves out its wait absorbing anything still in flight from the connection that '' @
               ''ended. It stays that way across a reboot.'' @ runningMismatch sc rfc1337Key (ss_value x) @
               persistRFC1337Caveat))
             else file_verdict Fail sc rfc1337Key ((rfc1337Key @ '' is '' @ int_str n @ '' '' @
               configuredAt sc rfc1337Key x @
               '', which is the unprotected behaviour written down rather than inherited: a reset ends '' @
               ''TIME-WAIT early, freeing the four-tuple while a delayed segment from the finished '' @
               ''connection may still arrive and be accepted into whatever takes it next.'' @
               runningMismatch sc rfc1337Key (ss_value x) @ persistRFC1337Caveat))))"

definition suidDumpableKey :: string where "suidDumpableKey = ''fs.suid_dumpable''"
definition persistSuidDumpableCaveat :: string where "persistSuidDumpableCaveat = persistCaveatFor ''KERNEL-0005''"
definition suidDumpableTiering :: "requirement list" where "suidDumpableTiering = [accepts suidDumpableKey (\<lambda>n. n = 0 \<or> n = 2)]"

definition eval0029 :: "payload fact_set \<Rightarrow> outcome" where
  "eval0029 = one_key suidDumpableKey persistSuidDumpableCaveat
     (missing suidDumpableKey (\<lambda>sc. (notConfigured sc suidDumpableKey @
       '', so after the next reboot it is whatever the kernel defaults to. Upstream defaults to 0, '' @
       ''which is correct '' @ em_dash @
       '' but a default is not a decision, and a debugging drop-in, a crash-reporting package or a '' @
       ''sysctl -w in a start-up script can set it to 1 without anything here recording that 0 was '' @
       ''ever intended.'')
        @ (case intValue sc suidDumpableKey of None \<Rightarrow> []
           | Some v \<Rightarrow> if v = 0 then '' The running kernel has it at 0, so this host is safe now on a default nobody wrote down.'' else if v = 1 then ('' The running kernel has it at 1, which is the dangerous value and is live right now: any '' @
             ''local user can crash a setuid binary and read privileged memory out of the dump.'') else ('' The running kernel has it at '' @
             int_str v @ ''.'')))
       suidDumpableTiering persistSuidDumpableCaveat)
     (\<lambda>sc x. case atoi (ss_value x) of
          None \<Rightarrow> unparseableConfig sc suidDumpableKey x persistSuidDumpableCaveat
        | Some n \<Rightarrow>
            (if n = 0
             then file_verdict Pass sc suidDumpableKey ((suidDumpableKey @ '' is 0 '' @
               configuredAt sc suidDumpableKey x @
               '', so a setuid or setgid program that crashes writes no core dump at all, and nothing it '' @
               ''held while running as somebody else reaches the disk. It stays that way across a reboot.'' @
               runningMismatch sc suidDumpableKey (ss_value x) @ persistSuidDumpableCaveat))
             else if n = 2
             then file_verdict Pass sc suidDumpableKey ((suidDumpableKey @ '' is 2 '' @
               configuredAt sc suidDumpableKey x @
               '', so a setuid program's core dump is written but only root may read it '' @ em_dash @
               '' which is what systemd-coredump needs to capture such a crash at all, and is a deliberate '' @
               ''choice rather than an inherited default. It is not the same as 0: the privileged memory '' @
               ''still reaches the disk, where it outlives the process, is picked up by backups and is '' @
               ''readable by anything that reaches root.'' @ runningMismatch sc suidDumpableKey (ss_value x) @
               persistSuidDumpableCaveat))
             else if n = 1
             then file_verdict Fail sc suidDumpableKey ((suidDumpableKey @ '' is 1 '' @
               configuredAt sc suidDumpableKey x @
               '', which is the one value that must never be set: a setuid program's core dump is owned by '' @
               ''the user who ran it, so any local user can crash one and read privileged memory '' @ em_dash @
               '' credentials, keys and tokens the program held while running as somebody else, along with '' @
               ''the addresses they sat at. This is written down, so it is a decision somebody made rather '' @
               ''than a default nobody set.'' @ runningMismatch sc suidDumpableKey ''1'' @ persistSuidDumpableCaveat))
             else file_verdict Unknown sc suidDumpableKey ((suidDumpableKey @ '' is '' @ int_str n @ '' '' @
               configuredAt sc suidDumpableKey x @
               '', which is not one of the documented values 0, 1 or 2. What the kernel does with it '' @
               ''depends on the build, so what this host does with a setuid program's core dump after a '' @
               ''reboot cannot be determined from the file.'' @ persistSuidDumpableCaveat))))"

definition protectedHardlinks :: link_protection where
  "protectedHardlinks = \<lparr>lp_key = ''fs.protected_hardlinks'', lp_caveat = persistCaveatFor ''KERNEL-0010'',
     lp_unset = (''Any current kernel defaults this to 1, which is correct '' @ em_dash @
       '' but nothing on this host records that, and a drop-in setting 0 would restore a class of '' @
       ''local privilege escalation that needs no exploit: a writable directory and a privileged '' @
       ''process that touches a path by name.''),
     lp_on = (''a hardlink may only be created to a file the user already owns or can read and write, '' @
       ''which is what stops an unprivileged user parking a copy of a file they cannot read '' @
       ''somewhere a privileged process will act on it.''),
     lp_off = (''any user may hardlink a file they cannot read into a directory they control, preserving '' @
       ''its contents and permissions at a path of their choosing, where a privileged job that '' @
       ''cleans up, rotates or chowns will act on it '' @ em_dash @
       '' and where deleting the original no longer deletes anything.'')\<rparr>"

definition protectedSymlinks :: link_protection where
  "protectedSymlinks = \<lparr>lp_key = ''fs.protected_symlinks'', lp_caveat = persistCaveatFor ''KERNEL-0009'',
     lp_unset = (''Any current kernel defaults this to 1, which is correct '' @ em_dash @
       '' but nothing on this host records that, and a drop-in setting 0 would restore the classic '' @
       ''/tmp symlink race against every privileged program that opens a predictable path, '' @
       ''including the ones nobody here wrote or audited.''),
     lp_on = (''a symlink in a world-writable sticky directory such as /tmp is only followed when the '' @
       ''follower owns the link or owns the directory, which makes the classic race unwinnable no '' @
       ''matter how the privileged program was written.''),
     lp_off = (''a privileged program that opens a path in /tmp by name will follow a symlink an '' @
       ''unprivileged user planted there, which is the classic local privilege escalation and '' @
       ''works against every program that has not defended itself individually.'')\<rparr>"

definition eval0030 :: "payload fact_set \<Rightarrow> outcome" where "eval0030 = lp_eval protectedHardlinks"
definition eval0031 :: "payload fact_set \<Rightarrow> outcome" where "eval0031 = lp_eval protectedSymlinks"

end
