(* ===== verification/Kernel_Catalog.thy ===== *)
theory Kernel_Catalog
  imports Kernel_Checks
begin

text \<open>
  The thirty-one entries of internal/catalog/checks/kernel, each a catalog check with its text, its
  remediation and its evaluation.
\<close>

section \<open>The entries\<close>

definition Check0001 :: "payload check" where
  "Check0001 = \<lparr>ck_id = ''KERNEL-0001'',
     ck_module = ''KERNEL'',
     ck_title = ''Address-space layout randomisation is fully enabled'',
     ck_description = ''Address-space layout randomisation places the stack, the heap,'' @ [CHR 0x0A] @
       ''shared libraries and, for position-independent executables, the program image'' @ [CHR 0x0A] @
       ''itself at addresses that differ on every execution. Without it, an attacker who'' @ [CHR 0x0A] @
       ''finds a memory-corruption bug knows in advance where everything is, and a'' @ [CHR 0x0A] @
       ''crash-only bug becomes reliable code execution.'' @ [CHR 0x0A, CHR 0x0A] @
       ''kernel.randomize_va_space takes three values. 0 disables randomisation'' @ [CHR 0x0A] @
       ''entirely. 1 randomises the stack, the shared libraries and the mmap base but'' @ [CHR 0x0A] @
       ''leaves the heap where the linker put it, which leaves heap-grooming attacks'' @ [CHR 0x0A] @
       ''intact. 2 also randomises the brk-managed heap and is the value every'' @ [CHR 0x0A] @
       ''current distribution ships.'',
     ck_base_severity = High,
     ck_tags = [''kernel'', ''memory-protection'', ''exploit-mitigation''],
     ck_requires = [SysctlID],
     ck_eval = Some (\<lambda>fs. Inr (eval0001 fs)),
     ck_remediation = Some \<lparr>rem_summary = ''Set kernel.randomize_va_space to 2 and persist it in /etc/sysctl.d/.'',
       rem_effort = ''LOW'',
       rem_steps = [''Apply immediately: sysctl -w kernel.randomize_va_space=2'',
        ''Persist it: write 'kernel.randomize_va_space = 2' to /etc/sysctl.d/60-hardening.conf'',
        ''Confirm the file is applied at boot: sysctl --system'',
        ''Verify the running value: sysctl kernel.randomize_va_space''],
       rem_commands = [''sysctl -w kernel.randomize_va_space=2'',
        ''sysctl kernel.randomize_va_space''],
       rem_caution = []\<rparr>,
     ck_mappings = [\<lparr>cr_framework = ''nist-800-53-r5'', cr_control = ''SI-16''\<rparr>],
     ck_references = [\<lparr>ref_title = ''proc(5), /proc/sys/kernel/randomize_va_space'', ref_url = ''https://man7.org/linux/man-pages/man5/proc.5.html''\<rparr>],
     ck_since_catalog = 2,
     ck_deprecated = None\<rparr>"

definition Check0002 :: "payload check" where
  "Check0002 = \<lparr>ck_id = ''KERNEL-0002'',
     ck_module = ''KERNEL'',
     ck_title = ''Kernel pointers are not exposed to unprivileged users'',
     ck_description = ''Kernel virtual addresses printed in /proc/kallsyms, /proc/modules'' @ [CHR 0x0A] @
       ''and various other interfaces tell an attacker where the kernel actually is in'' @ [CHR 0x0A] @
       ''memory. That is precisely the information kernel address-space layout'' @ [CHR 0x0A] @
       ''randomisation exists to withhold, and leaking it turns a local privilege'' @ [CHR 0x0A] @
       ''escalation that would have needed an information leak into one that does not.'' @ [CHR 0x0A, CHR 0x0A] @
       ''kernel.kptr_restrict takes three values. 0 prints addresses to everyone. 1'' @ [CHR 0x0A] @
       ''replaces them with zeros for processes without CAP_SYSLOG. 2 replaces them for'' @ [CHR 0x0A] @
       ''everyone, including root, which is stricter and occasionally breaks'' @ [CHR 0x0A] @
       ''profiling tools such as perf.'',
     ck_base_severity = High,
     ck_tags = [''kernel'', ''information-disclosure'', ''exploit-mitigation''],
     ck_requires = [SysctlID],
     ck_eval = Some (\<lambda>fs. Inr (eval0002 fs)),
     ck_remediation = Some \<lparr>rem_summary = ''Set kernel.kptr_restrict to 1 and persist it in /etc/sysctl.d/.'',
       rem_effort = ''LOW'',
       rem_steps = [''Apply immediately: sysctl -w kernel.kptr_restrict=1'',
        ''Persist it: write 'kernel.kptr_restrict = 1' to /etc/sysctl.d/60-hardening.conf'',
        ''Verify the running value: sysctl kernel.kptr_restrict'',
        ''If profiling tools stop resolving symbols, they need CAP_SYSLOG rather than a lower setting.''],
       rem_commands = [''sysctl -w kernel.kptr_restrict=1'',
        ''sysctl kernel.kptr_restrict''],
       rem_caution = []\<rparr>,
     ck_mappings = [\<lparr>cr_framework = ''nist-800-53-r5'', cr_control = ''SC-4''\<rparr>,
        \<lparr>cr_framework = ''nist-800-53-r5'', cr_control = ''SI-16''\<rparr>],
     ck_references = [\<lparr>ref_title = ''Linux kernel documentation, kptr_restrict'', ref_url = ''https://www.kernel.org/doc/html/latest/admin-guide/sysctl/kernel.html#kptr-restrict''\<rparr>],
     ck_since_catalog = 2,
     ck_deprecated = None\<rparr>"

definition Check0003 :: "payload check" where
  "Check0003 = \<lparr>ck_id = ''KERNEL-0003'',
     ck_module = ''KERNEL'',
     ck_title = ''Debugging other processes with ptrace is restricted'',
     ck_description = ''ptrace lets one process read and write another's memory. With'' @ [CHR 0x0A] @
       ''the default permissive policy, any process may attach to any other process'' @ [CHR 0x0A] @
       ''running as the same user, so a single compromised program can read the'' @ [CHR 0x0A] @
       ''credentials, session tokens and private keys held by every other program that'' @ [CHR 0x0A] @
       ''user is running, without needing a privilege escalation at all.'' @ [CHR 0x0A, CHR 0x0A] @
       ''The Yama LSM's kernel.yama.ptrace_scope restricts this. 0 is classic'' @ [CHR 0x0A] @
       ''permissive behaviour. 1 allows attachment only to a process's own descendants,'' @ [CHR 0x0A] @
       ''which is what a debugger launching its target does. 2 requires CAP_SYS_PTRACE.'' @ [CHR 0x0A] @
       ''3 disables ptrace entirely until reboot and cannot be lowered again.'' @ [CHR 0x0A, CHR 0x0A] @
       ''Yama is not compiled into every kernel. Where it is absent this check is'' @ [CHR 0x0A] @
       ''NOT_APPLICABLE rather than a failure: there is no parameter to set, and the'' @ [CHR 0x0A] @
       ''restriction has to come from somewhere else.'',
     ck_base_severity = Medium,
     ck_tags = [''kernel'', ''lsm'', ''credential-theft'', ''lateral-movement''],
     ck_requires = [SysctlID],
     ck_eval = Some (\<lambda>fs. Inr (eval0003 fs)),
     ck_remediation = Some \<lparr>rem_summary = ''Set kernel.yama.ptrace_scope to 1 and persist it in /etc/sysctl.d/.'',
       rem_effort = ''LOW'',
       rem_steps = [''Check what relies on cross-process attachment first: debuggers attaching to '' @
         ''already-running processes, and some crash reporters, need scope 0 or CAP_SYS_PTRACE.'',
        ''Apply immediately: sysctl -w kernel.yama.ptrace_scope=1'',
        ''Persist it: write 'kernel.yama.ptrace_scope = 1' to /etc/sysctl.d/60-hardening.conf'',
        ''Verify the running value: sysctl kernel.yama.ptrace_scope''],
       rem_commands = [''sysctl -w kernel.yama.ptrace_scope=1'',
        ''sysctl kernel.yama.ptrace_scope''],
       rem_caution = ''Value 3 is irreversible until the machine reboots. Do not set 3 unless you are certain '' @
         ''nothing on the host needs ptrace, including the crash handlers of services that are not '' @
         ''currently running.''\<rparr>,
     ck_mappings = [\<lparr>cr_framework = ''nist-800-53-r5'', cr_control = ''AC-6''\<rparr>,
        \<lparr>cr_framework = ''nist-800-53-r5'', cr_control = ''SC-2''\<rparr>],
     ck_references = [\<lparr>ref_title = ''Linux kernel documentation. Yama ptrace_scope'', ref_url = ''https://www.kernel.org/doc/html/latest/admin-guide/LSM/Yama.html''\<rparr>],
     ck_since_catalog = 2,
     ck_deprecated = None\<rparr>"

definition Check0004 :: "payload check" where
  "Check0004 = \<lparr>ck_id = ''KERNEL-0004'',
     ck_module = ''KERNEL'',
     ck_title = ''The kernel ring buffer is not readable by unprivileged users'',
     ck_description = ''dmesg output routinely contains kernel addresses, module load'' @ [CHR 0x0A] @
       ''addresses, hardware identifiers, filesystem paths and the register dumps left'' @ [CHR 0x0A] @
       ''by earlier crashes. An unprivileged process that can read it gets a running'' @ [CHR 0x0A] @
       ''commentary on the kernel's internal state, which is the raw material for'' @ [CHR 0x0A] @
       ''defeating address-space randomisation.'' @ [CHR 0x0A, CHR 0x0A] @
       ''kernel.dmesg_restrict set to 1 requires CAP_SYSLOG to read the ring buffer.'',
     ck_base_severity = High,
     ck_tags = [''kernel'', ''information-disclosure''],
     ck_requires = [SysctlID],
     ck_eval = Some (\<lambda>fs. Inr (eval0004 fs)),
     ck_remediation = Some \<lparr>rem_summary = ''Set kernel.dmesg_restrict to 1 and persist it in /etc/sysctl.d/.'',
       rem_effort = ''LOW'',
       rem_steps = [''Apply immediately: sysctl -w kernel.dmesg_restrict=1'',
        ''Persist it: write 'kernel.dmesg_restrict = 1' to /etc/sysctl.d/60-hardening.conf'',
        ''Verify the running value: sysctl kernel.dmesg_restrict''],
       rem_commands = [''sysctl -w kernel.dmesg_restrict=1'',
        ''sysctl kernel.dmesg_restrict''],
       rem_caution = []\<rparr>,
     ck_mappings = [\<lparr>cr_framework = ''nist-800-53-r5'', cr_control = ''SC-4''\<rparr>],
     ck_references = [\<lparr>ref_title = ''Linux kernel documentation, dmesg_restrict'', ref_url = ''https://www.kernel.org/doc/html/latest/admin-guide/sysctl/kernel.html#dmesg-restrict''\<rparr>],
     ck_since_catalog = 2,
     ck_deprecated = None\<rparr>"

definition Check0005 :: "payload check" where
  "Check0005 = \<lparr>ck_id = ''KERNEL-0005'',
     ck_module = ''KERNEL'',
     ck_title = ''Setuid programs do not write core dumps'',
     ck_description = ''A core dump is a copy of a process's memory written to disk. When'' @ [CHR 0x0A] @
       ''a setuid program dumps core, that memory belongs to the privileged identity the'' @ [CHR 0x0A] @
       ''program assumed, it can hold password hashes, private keys, decrypted secrets'' @ [CHR 0x0A] @
       ''and the contents of files the invoking user cannot read, and the dump lands'' @ [CHR 0x0A] @
       ''somewhere the invoking user often can.'' @ [CHR 0x0A, CHR 0x0A] @
       ''fs.suid_dumpable takes three values. 0 means setuid programs never dump, which'' @ [CHR 0x0A] @
       ''is the safe setting. 1 means they dump like any other program, and is a'' @ [CHR 0x0A] @
       ''straightforward way to read privileged memory. 2, '' @ [CHR 0x22] @ ''suidsafe'' @ [CHR 0x22] @
       '', means they dump'' @ [CHR 0x0A] @ ''but only root may read the result.'' @ [CHR 0x0A, CHR 0x0A] @
       ''0 and 2 both pass. 2 is what systemd-coredump needs to capture a setuid crash at'' @ [CHR 0x0A] @
       ''all, and on a host that collects crash reports it is a deliberate choice rather'' @ [CHR 0x0A] @
       ''than an oversight. It is not equivalent to 0 and the verdict says so: the'' @ [CHR 0x0A] @
       ''privileged memory still reaches the disk, where it outlives the process, is'' @ [CHR 0x0A] @
       ''picked up by backups and is readable by anything that reaches root.'',
     ck_base_severity = High,
     ck_tags = [''kernel'', ''credential-theft'', ''information-disclosure''],
     ck_requires = [SysctlID],
     ck_eval = Some (\<lambda>fs. Inr (eval0005 fs)),
     ck_remediation = Some \<lparr>rem_summary = ''Set fs.suid_dumpable to 0 and persist it in /etc/sysctl.d/.'',
       rem_effort = ''LOW'',
       rem_steps = [''Apply immediately: sysctl -w fs.suid_dumpable=0'',
        ''Persist it: write 'fs.suid_dumpable = 0' to /etc/sysctl.d/60-hardening.conf'',
        ''Verify the running value: sysctl fs.suid_dumpable'',
        ''If a setuid service genuinely needs crash dumps, collect them in a controlled directory '' @
          ''rather than lowering this globally.''],
       rem_commands = [''sysctl -w fs.suid_dumpable=0'',
        ''sysctl fs.suid_dumpable''],
       rem_caution = []\<rparr>,
     ck_mappings = [\<lparr>cr_framework = ''nist-800-53-r5'', cr_control = ''SC-4''\<rparr>,
        \<lparr>cr_framework = ''nist-800-53-r5'', cr_control = ''SI-11''\<rparr>],
     ck_references = [\<lparr>ref_title = ''proc(5), /proc/sys/fs/suid_dumpable'', ref_url = ''https://man7.org/linux/man-pages/man5/proc.5.html''\<rparr>],
     ck_since_catalog = 2,
     ck_deprecated = None\<rparr>"

definition Check0006 :: "payload check" where
  "Check0006 = \<lparr>ck_id = ''KERNEL-0006'',
     ck_module = ''KERNEL'',
     ck_title = ''Unprivileged users cannot load BPF programs'',
     ck_description = ''The bpf() system call compiles user-supplied bytecode and runs it'' @ [CHR 0x0A] @
       ''inside the kernel. The verifier that is supposed to prove such a program safe'' @ [CHR 0x0A] @
       ''is one of the most complex pieces of the kernel and has been a recurring source'' @ [CHR 0x0A] @
       ''of local privilege escalations; leaving it reachable by unprivileged users'' @ [CHR 0x0A] @
       ''gives every local account a large and complicated attack surface for no benefit on a'' @ [CHR 0x0A] @
       ''server.'' @ [CHR 0x0A, CHR 0x0A] @
       ''kernel.unprivileged_bpf_disabled set to 1 refuses unprivileged bpf() and cannot'' @ [CHR 0x0A] @
       ''be re-enabled without a reboot. Set to 2 it refuses them but can still be'' @ [CHR 0x0A] @
       ''raised to 1. Set to 0 unprivileged loading is permitted.'' @ [CHR 0x0A, CHR 0x0A] @
       ''The parameter does not exist on kernels built without BPF, where this check is'' @ [CHR 0x0A] @
       ''NOT_APPLICABLE.'',
     ck_base_severity = High,
     ck_tags = [''kernel'', ''bpf'', ''privilege-escalation'', ''attack-surface''],
     ck_requires = [SysctlID],
     ck_eval = Some (\<lambda>fs. Inr (eval0006 fs)),
     ck_remediation = Some \<lparr>rem_summary = ''Set kernel.unprivileged_bpf_disabled to 1 and persist it in /etc/sysctl.d/.'',
       rem_effort = ''LOW'',
       rem_steps = [''Confirm nothing unprivileged on this host loads BPF: some observability agents and '' @
         ''container runtimes do, though they usually run privileged.'',
        ''Apply immediately: sysctl -w kernel.unprivileged_bpf_disabled=1'',
        ''Persist it: write 'kernel.unprivileged_bpf_disabled = 1' to /etc/sysctl.d/60-hardening.conf'',
        ''Verify the running value: sysctl kernel.unprivileged_bpf_disabled''],
       rem_commands = [''sysctl -w kernel.unprivileged_bpf_disabled=1'',
        ''sysctl kernel.unprivileged_bpf_disabled''],
       rem_caution = ''Value 1 cannot be lowered again without rebooting. On a host where an unprivileged agent '' @
         ''turns out to need bpf(), recovery requires a reboot.''\<rparr>,
     ck_mappings = [\<lparr>cr_framework = ''nist-800-53-r5'', cr_control = ''CM-7''\<rparr>,
        \<lparr>cr_framework = ''nist-800-53-r5'', cr_control = ''AC-6''\<rparr>],
     ck_references = [\<lparr>ref_title = ''Linux kernel documentation, unprivileged_bpf_disabled'', ref_url = ''https://www.kernel.org/doc/html/latest/admin-guide/sysctl/kernel.html#unprivileged-bpf-dis'' @
       ''abled''\<rparr>],
     ck_since_catalog = 2,
     ck_deprecated = None\<rparr>"

definition Check0007 :: "payload check" where
  "Check0007 = \<lparr>ck_id = ''KERNEL-0007'',
     ck_module = ''KERNEL'',
     ck_title = ''The running kernel parameters match the configured ones'',
     ck_description = ''/proc/sys is what the kernel is doing now. /etc/sysctl.conf and'' @ [CHR 0x0A] @
       ''the sysctl.d directories are what it will do after the next reboot. They are'' @ [CHR 0x0A] @
       ''different observations and they disagree more often than operators expect.'' @ [CHR 0x0A, CHR 0x0A] @
       ''The disagreement runs in both directions and both matter. A parameter hardened'' @ [CHR 0x0A] @
       ''in a file but not applied means the host is unprotected today and someone'' @ [CHR 0x0A] @
       ''believes otherwise. A parameter hardened at runtime but absent from any file'' @ [CHR 0x0A] @
       ''means the protection disappears at the next reboot, silently, possibly months'' @ [CHR 0x0A] @
       ''later during an unrelated maintenance window.'' @ [CHR 0x0A, CHR 0x0A] @
       ''This check compares every parameter the module probes against the value its'' @ [CHR 0x0A] @
       ''configuration sets, and reports each one that differs.'',
     ck_base_severity = Medium,
     ck_tags = [''kernel'', ''configuration-drift'', ''persistence''],
     ck_requires = [SysctlID],
     ck_eval = Some (\<lambda>fs. Inr (eval0007 fs)),
     ck_remediation = Some \<lparr>rem_summary = ''Reconcile /proc/sys with the sysctl configuration, then apply the files.'',
       rem_effort = ''LOW'',
       rem_steps = [''For each parameter in the evidence, decide which value is correct, the running one or the '' @
         ''configured one.'',
        ''Where the configuration is correct and the kernel is not, apply it: sysctl --system'',
        ''Where the running value is correct and no file sets it, add it to '' @
          ''/etc/sysctl.d/60-hardening.conf so it survives a reboot.'',
        ''Re-run the audit and confirm the parameters agree.'',
        ''If a parameter reverts after 'sysctl --system', something later in boot is overriding it, '' @
          ''check for a drop-in with a higher-sorting name, a container runtime, or a network manager '' @ ''hook.''],
       rem_commands = [''sysctl --system'',
        ''sysctl --all''],
       rem_caution = [CHR 0x27] @
         ''sysctl --system' applies every setting in every configuration file at once, not only the '' @
         ''drifted ones. On a host whose files have not been applied in a long time this can change '' @
         ''networking behaviour immediately. Review the files before running it.''\<rparr>,
     ck_mappings = [\<lparr>cr_framework = ''nist-800-53-r5'', cr_control = ''CM-6''\<rparr>,
        \<lparr>cr_framework = ''nist-800-53-r5'', cr_control = ''CM-2''\<rparr>],
     ck_references = [\<lparr>ref_title = ''sysctl.d(5)'', ref_url = ''https://man7.org/linux/man-pages/man5/sysctl.d.5.html''\<rparr>,
        \<lparr>ref_title = ''sysctl.conf(5)'', ref_url = ''https://man7.org/linux/man-pages/man5/sysctl.conf.5.html''\<rparr>],
     ck_since_catalog = 2,
     ck_deprecated = None\<rparr>"

definition Check0008 :: "payload check" where
  "Check0008 = \<lparr>ck_id = ''KERNEL-0008'',
     ck_module = ''KERNEL'',
     ck_title = ''Reverse-path filtering is enabled on every network interface'',
     ck_description = ''Reverse-path filtering makes the kernel drop an incoming packet'' @ [CHR 0x0A] @
       ''whose source address it would not route back out of the interface the packet'' @ [CHR 0x0A] @
       ''arrived on. Without it, a host accepts packets claiming to come from anywhere,'' @ [CHR 0x0A] @
       ''which is what makes source-address spoofing useful: an attacker on one network'' @ [CHR 0x0A] @
       ''segment can impersonate an address on another, defeating any control that'' @ [CHR 0x0A] @
       ''trusts a source address and hiding the true origin of an attack.'' @ [CHR 0x0A, CHR 0x0A] @
       ''The parameter is namespaced per interface and the effective value for an'' @ [CHR 0x0A] @
       ''interface is the *maximum* of net.ipv4.conf.all.rp_filter and that interface's'' @ [CHR 0x0A] @
       ''own setting. A check that read conf.all alone would report a host as unfiltered'' @ [CHR 0x0A] @
       ''while every interface on it was in fact filtering, so this check computes the'' @ [CHR 0x0A] @
       ''effective value per interface.'' @ [CHR 0x0A, CHR 0x0A] @
       ''Value 1 is strict mode: the reverse path must be the same interface. Value 2 is'' @ [CHR 0x0A] @
       ''loose mode: the source must be routable via some interface. Loose mode is a'' @ [CHR 0x0A] @
       ''deliberate and correct choice on a multi-homed host with asymmetric routing, so'' @ [CHR 0x0A] @
       ''it passes, and the finding says which interfaces are in it.'',
     ck_base_severity = Medium,
     ck_tags = [''kernel'', ''network'', ''spoofing''],
     ck_requires = [SysctlID],
     ck_eval = Some (\<lambda>fs. Inr (eval0008 fs)),
     ck_remediation = Some \<lparr>rem_summary = ''Set net.ipv4.conf.all.rp_filter to 1 and persist it in /etc/sysctl.d/.'',
       rem_effort = ''LOW'',
       rem_steps = [''Confirm this host does not rely on asymmetric routing: a multi-homed host that receives '' @
         ''replies on a different interface than it sends from needs loose mode (2), not strict (1).'',
        ''Apply immediately: sysctl -w net.ipv4.conf.all.rp_filter=1'',
        ''Set the template for interfaces created later: sysctl -w net.ipv4.conf.default.rp_filter=1'',
        ''Persist both in /etc/sysctl.d/60-hardening.conf.'',
        ''Verify per interface: sysctl -a | grep '' @ [CHR 0x27, CHR 0x5C] @ ''.rp_filter'' @ [CHR 0x27]],
       rem_commands = [''sysctl -w net.ipv4.conf.all.rp_filter=1'',
        ''sysctl -w net.ipv4.conf.default.rp_filter=1''],
       rem_caution = ''Strict mode drops traffic on a host with asymmetric routing, which can remove your own '' @
         ''access if you are connected over the interface that stops accepting replies. On a '' @
         ''multi-homed or policy-routed host, use loose mode (2) and verify connectivity from a '' @
         ''second session before persisting the change.''\<rparr>,
     ck_mappings = [\<lparr>cr_framework = ''nist-800-53-r5'', cr_control = ''SC-7''\<rparr>,
        \<lparr>cr_framework = ''nist-800-53-r5'', cr_control = ''SC-5''\<rparr>],
     ck_references = [\<lparr>ref_title = ''Linux kernel documentation, ip-sysctl rp_filter'', ref_url = ''https://www.kernel.org/doc/html/latest/networking/ip-sysctl.html''\<rparr>,
        \<lparr>ref_title = ''RFC 3704. Ingress Filtering for Multihomed Networks'', ref_url = ''https://www.rfc-editor.org/rfc/rfc3704''\<rparr>],
     ck_since_catalog = 2,
     ck_deprecated = None\<rparr>"

definition Check0009 :: "payload check" where
  "Check0009 = \<lparr>ck_id = ''KERNEL-0009'',
     ck_module = ''KERNEL'',
     ck_title = ''Symlink following is restricted in world-writable directories'',
     ck_description = ''The oldest reliable local privilege escalation on Unix is to'' @ [CHR 0x0A] @
       ''plant a symlink in /tmp pointing at a file you cannot write, and wait for a'' @ [CHR 0x0A] @
       ''privileged program to open it by name. The privileged program follows the link'' @ [CHR 0x0A] @
       ''and writes where the attacker chose.'' @ [CHR 0x0A, CHR 0x0A] @
       ''fs.protected_symlinks set to 1 makes the kernel refuse to follow a symlink in a'' @ [CHR 0x0A] @
       ''world-writable sticky directory unless the follower owns the link, or the'' @ [CHR 0x0A] @
       ''directory owner owns it. That breaks the attack at the point of use, without'' @ [CHR 0x0A] @
       ''requiring every privileged program in the distribution to be audited for the'' @ [CHR 0x0A] @
       ''race it depends on.'',
     ck_base_severity = High,
     ck_tags = [''kernel'', ''filesystem'', ''privilege-escalation'', ''toctou''],
     ck_requires = [SysctlID],
     ck_eval = Some (\<lambda>fs. Inr (eval0009 fs)),
     ck_remediation = Some \<lparr>rem_summary = ''Set fs.protected_symlinks to 1 and persist it in /etc/sysctl.d/.'',
       rem_effort = ''LOW'',
       rem_steps = [''Apply immediately: sysctl -w fs.protected_symlinks=1'',
        ''Persist it: write 'fs.protected_symlinks = 1' to /etc/sysctl.d/60-hardening.conf'',
        ''Verify the running value: sysctl fs.protected_symlinks''],
       rem_commands = [''sysctl -w fs.protected_symlinks=1'',
        ''sysctl fs.protected_symlinks''],
       rem_caution = []\<rparr>,
     ck_mappings = [\<lparr>cr_framework = ''nist-800-53-r5'', cr_control = ''AC-6''\<rparr>,
        \<lparr>cr_framework = ''nist-800-53-r5'', cr_control = ''SI-16''\<rparr>],
     ck_references = [\<lparr>ref_title = ''Linux kernel documentation, fs.protected_symlinks'', ref_url = ''https://www.kernel.org/doc/html/latest/admin-guide/sysctl/fs.html#protected-symlinks''\<rparr>],
     ck_since_catalog = 3,
     ck_deprecated = None\<rparr>"

definition Check0010 :: "payload check" where
  "Check0010 = \<lparr>ck_id = ''KERNEL-0010'',
     ck_module = ''KERNEL'',
     ck_title = ''Hardlink creation is restricted to files the user can already read'',
     ck_description = ''Without this restriction, any user may create a hardlink to any'' @ [CHR 0x0A] @
       ''file whose directory they can write, including files they cannot read. That'' @ [CHR 0x0A] @
       ''turns two harmless-looking permissions into an attack: link a shadow file or a'' @ [CHR 0x0A] @
       ''setuid binary into a directory you control, wait for a privileged process or a'' @ [CHR 0x0A] @
       ''package upgrade to act on it, and inherit the result. It also defeats quota and'' @ [CHR 0x0A] @
       ''retention controls, because the original file cannot be freed while the'' @ [CHR 0x0A] @
       ''attacker's link exists.'' @ [CHR 0x0A, CHR 0x0A] @
       ''fs.protected_hardlinks set to 1 permits a hardlink only when the user owns the'' @ [CHR 0x0A] @
       ''source file, or can both read and write it.'',
     ck_base_severity = High,
     ck_tags = [''kernel'', ''filesystem'', ''privilege-escalation''],
     ck_requires = [SysctlID],
     ck_eval = Some (\<lambda>fs. Inr (eval0010 fs)),
     ck_remediation = Some \<lparr>rem_summary = ''Set fs.protected_hardlinks to 1 and persist it in /etc/sysctl.d/.'',
       rem_effort = ''LOW'',
       rem_steps = [''Apply immediately: sysctl -w fs.protected_hardlinks=1'',
        ''Persist it: write 'fs.protected_hardlinks = 1' to /etc/sysctl.d/60-hardening.conf'',
        ''Verify the running value: sysctl fs.protected_hardlinks'',
        ''If a backup or deduplication tool starts failing, it is hardlinking files it cannot read '' @
          ''and should run with the ownership or capability that entitles it to.''],
       rem_commands = [''sysctl -w fs.protected_hardlinks=1'',
        ''sysctl fs.protected_hardlinks''],
       rem_caution = []\<rparr>,
     ck_mappings = [\<lparr>cr_framework = ''nist-800-53-r5'', cr_control = ''AC-6''\<rparr>,
        \<lparr>cr_framework = ''nist-800-53-r5'', cr_control = ''AC-3''\<rparr>],
     ck_references = [\<lparr>ref_title = ''Linux kernel documentation, fs.protected_hardlinks'', ref_url = ''https://www.kernel.org/doc/html/latest/admin-guide/sysctl/fs.html#protected-hardlinks''\<rparr>],
     ck_since_catalog = 3,
     ck_deprecated = None\<rparr>"

definition Check0011 :: "payload check" where
  "Check0011 = \<lparr>ck_id = ''KERNEL-0011'',
     ck_module = ''KERNEL'',
     ck_title = ''Opening another user's FIFO in a shared directory is restricted'',
     ck_description = ''A program that creates a file in /tmp with O_CREAT gets whatever'' @ [CHR 0x0A] @
       ''is already at that path. If an attacker put a FIFO there first, the program'' @ [CHR 0x0A] @
       ''does not create a file, it opens the attacker's pipe. Writing to it blocks'' @ [CHR 0x0A] @
       ''until the attacker chooses to read, which hangs the program; reading from it'' @ [CHR 0x0A] @
       ''returns whatever the attacker decided to supply, which the program then trusts'' @ [CHR 0x0A] @
       ''as its own data.'' @ [CHR 0x0A, CHR 0x0A] @
       ''fs.protected_fifos set to 1 refuses an O_CREAT open of a FIFO the caller does'' @ [CHR 0x0A] @
       ''not own inside a world-writable sticky directory. Set to 2 the restriction also'' @ [CHR 0x0A] @
       ''covers group-writable sticky directories.'' @ [CHR 0x0A, CHR 0x0A] @
       ''The parameter appeared in Linux 4.19 and does not exist on kernels older than'' @ [CHR 0x0A] @
       ''that, where this check is NOT_APPLICABLE.'',
     ck_base_severity = Medium,
     ck_tags = [''kernel'', ''filesystem'', ''toctou'', ''denial-of-service''],
     ck_requires = [SysctlID],
     ck_eval = Some (\<lambda>fs. Inr (eval0011 fs)),
     ck_remediation = Some \<lparr>rem_summary = ''Set fs.protected_fifos to 1 and persist it in /etc/sysctl.d/.'',
       rem_effort = ''LOW'',
       rem_steps = [''Apply immediately: sysctl -w fs.protected_fifos=1'',
        ''Persist it: write 'fs.protected_fifos = 1' to /etc/sysctl.d/60-hardening.conf'',
        ''Verify the running value: sysctl fs.protected_fifos'',
        ''Consider 2 if nothing on this host relies on group-writable shared directories.''],
       rem_commands = [''sysctl -w fs.protected_fifos=1'',
        ''sysctl fs.protected_fifos''],
       rem_caution = []\<rparr>,
     ck_mappings = [\<lparr>cr_framework = ''nist-800-53-r5'', cr_control = ''AC-6''\<rparr>,
        \<lparr>cr_framework = ''nist-800-53-r5'', cr_control = ''SC-5''\<rparr>],
     ck_references = [\<lparr>ref_title = ''Linux kernel documentation, fs.protected_fifos'', ref_url = ''https://www.kernel.org/doc/html/latest/admin-guide/sysctl/fs.html#protected-fifos''\<rparr>],
     ck_since_catalog = 3,
     ck_deprecated = None\<rparr>"

definition Check0012 :: "payload check" where
  "Check0012 = \<lparr>ck_id = ''KERNEL-0012'',
     ck_module = ''KERNEL'',
     ck_title = ''Opening another user's file in a shared directory is restricted'',
     ck_description = ''This is the same weakness KERNEL-0011 covers, for ordinary files'' @ [CHR 0x0A] @
       ''rather than FIFOs. A privileged program creating a predictably named file in'' @ [CHR 0x0A] @
       ''/tmp with O_CREAT will happily open a file an attacker created there first,'' @ [CHR 0x0A] @
       ''then write its output into a file the attacker owns and can read afterwards,'' @ [CHR 0x0A] @
       ''or read the attacker's content believing it to be its own.'' @ [CHR 0x0A, CHR 0x0A] @
       ''fs.protected_regular set to 1 refuses an O_CREAT open of a regular file the'' @ [CHR 0x0A] @
       ''caller does not own, in a world-writable sticky directory, when the file's owner'' @ [CHR 0x0A] @
       ''differs from the directory's owner. Set to 2 the restriction also covers'' @ [CHR 0x0A] @
       ''group-writable sticky directories.'' @ [CHR 0x0A, CHR 0x0A] @
       ''The parameter appeared in Linux 4.19 and does not exist on kernels older than'' @ [CHR 0x0A] @
       ''that, where this check is NOT_APPLICABLE.'',
     ck_base_severity = Medium,
     ck_tags = [''kernel'', ''filesystem'', ''toctou'', ''information-disclosure''],
     ck_requires = [SysctlID],
     ck_eval = Some (\<lambda>fs. Inr (eval0012 fs)),
     ck_remediation = Some \<lparr>rem_summary = ''Set fs.protected_regular to 1 and persist it in /etc/sysctl.d/.'',
       rem_effort = ''LOW'',
       rem_steps = [''Apply immediately: sysctl -w fs.protected_regular=1'',
        ''Persist it: write 'fs.protected_regular = 1' to /etc/sysctl.d/60-hardening.conf'',
        ''Verify the running value: sysctl fs.protected_regular'',
        ''Consider 2 if nothing on this host relies on group-writable shared directories.''],
       rem_commands = [''sysctl -w fs.protected_regular=1'',
        ''sysctl fs.protected_regular''],
       rem_caution = []\<rparr>,
     ck_mappings = [\<lparr>cr_framework = ''nist-800-53-r5'', cr_control = ''AC-6''\<rparr>,
        \<lparr>cr_framework = ''nist-800-53-r5'', cr_control = ''SC-4''\<rparr>],
     ck_references = [\<lparr>ref_title = ''Linux kernel documentation, fs.protected_regular'', ref_url = ''https://www.kernel.org/doc/html/latest/admin-guide/sysctl/fs.html#protected-regular''\<rparr>],
     ck_since_catalog = 3,
     ck_deprecated = None\<rparr>"

definition Check0013 :: "payload check" where
  "Check0013 = \<lparr>ck_id = ''KERNEL-0013'',
     ck_module = ''KERNEL'',
     ck_title = ''Unprivileged access to performance counters is restricted'',
     ck_description = ''perf_event_open() is the entry point to the kernel's'' @ [CHR 0x0A] @
       ''performance-monitoring subsystem. Left open to unprivileged users it is two'' @ [CHR 0x0A] @
       ''problems at once. It is a side channel: hardware performance counters and'' @ [CHR 0x0A] @
       ''instruction sampling leak the behaviour of other processes precisely enough to'' @ [CHR 0x0A] @
       ''recover cryptographic keys, and every speculative-execution attack of the last'' @ [CHR 0x0A] @
       ''decade has used it as a measurement device. It is also a large and historically'' @ [CHR 0x0A] @
       ''fragile piece of kernel code, and has produced its own local privilege'' @ [CHR 0x0A] @ ''escalations.'' @
       [CHR 0x0A, CHR 0x0A] @ ''kernel.perf_event_paranoid restricts it. -1 imposes no restriction at all.'' @
       [CHR 0x0A] @ ''0 requires CAP_PERFMON for raw tracepoint access, 1 also for CPU-wide events,'' @ [CHR 0x0A] @
       ''and 2 also for kernel profiling. Value 3, refuse'' @ [CHR 0x0A] @
       ''perf_event_open() entirely without CAP_PERFMON, exists only on kernels'' @ [CHR 0x0A] @
       ''carrying the Debian, Ubuntu or Android patch, so this check requires 2 rather'' @ [CHR 0x0A] @
       ''than 3: demanding a value a mainline kernel cannot express would fail hosts'' @ [CHR 0x0A] @
       ''that are configured as strictly as they are able to be.'',
     ck_base_severity = Medium,
     ck_tags = [''kernel'', ''side-channel'', ''information-disclosure'', ''attack-surface''],
     ck_requires = [SysctlID],
     ck_eval = Some (\<lambda>fs. Inr (eval0013 fs)),
     ck_remediation = Some \<lparr>rem_summary = ''Set kernel.perf_event_paranoid to 2 and persist it in /etc/sysctl.d/.'',
       rem_effort = ''LOW'',
       rem_steps = [''Check what profiles on this host: perf, some eBPF front-ends and several APM agents call '' @
         ''perf_event_open(). They should hold CAP_PERFMON rather than rely on a permissive setting.'',
        ''Apply immediately: sysctl -w kernel.perf_event_paranoid=2'',
        ''Persist it: write 'kernel.perf_event_paranoid = 2' to /etc/sysctl.d/60-hardening.conf'',
        ''Verify the running value: sysctl kernel.perf_event_paranoid'',
        ''On a Debian or Ubuntu kernel, 3 is available and stricter; use it only if nothing on the '' @
          ''host profiles at all.''],
       rem_commands = [''sysctl -w kernel.perf_event_paranoid=2'',
        ''sysctl kernel.perf_event_paranoid''],
       rem_caution = []\<rparr>,
     ck_mappings = [\<lparr>cr_framework = ''nist-800-53-r5'', cr_control = ''SC-4''\<rparr>,
        \<lparr>cr_framework = ''nist-800-53-r5'', cr_control = ''AC-6''\<rparr>],
     ck_references = [\<lparr>ref_title = ''perf_event_open(2), perf_event_paranoid'', ref_url = ''https://man7.org/linux/man-pages/man2/perf_event_open.2.html''\<rparr>],
     ck_since_catalog = 3,
     ck_deprecated = None\<rparr>"

definition Check0014 :: "payload check" where
  "Check0014 = \<lparr>ck_id = ''KERNEL-0014'',
     ck_module = ''KERNEL'',
     ck_title = ''Core dumps are not written to an attacker-influenced location'',
     ck_description = ''A core dump is a copy of a process's memory. Where it lands is'' @ [CHR 0x0A] @
       ''decided entirely by kernel.core_pattern, and the kernel's own default is the'' @ [CHR 0x0A] @
         ''bare word '' @
       [CHR 0x22] @ ''core'' @ [CHR 0x22] @ '', a relative path, which means the dump is written into the'' @
       [CHR 0x0A] @ ''crashing process's current working directory.'' @ [CHR 0x0A, CHR 0x0A] @
       ''That is the dangerous case. A daemon's working directory is not always a place'' @ [CHR 0x0A] @
       ''the operator has thought about, and a process that can be induced to chdir'' @ [CHR 0x0A] @
       ''somewhere writable will drop its memory, session tokens, decrypted'' @ [CHR 0x0A] @
       ''configuration, private keys, into a directory an attacker is watching. Writing'' @ [CHR 0x0A] @
       ''cores into /tmp is the same failure stated explicitly.'' @ [CHR 0x0A, CHR 0x0A] @
       ''A pattern beginning with '' @ [CHR 0x22] @ ''|'' @ [CHR 0x22] @
       '' pipes the dump to a program instead of writing it'' @ [CHR 0x0A] @
       ''to a path, which is what systemd-coredump and apport do and what this check'' @ [CHR 0x0A] @
       ''expects. An absolute path is also acceptable: the location is fixed and the'' @ [CHR 0x0A] @
       ''operator can set its permissions.'' @ [CHR 0x0A, CHR 0x0A] @
       ''KERNEL-0005 covers the related and separate question of whether setuid programs'' @ [CHR 0x0A] @
       ''dump at all.'',
     ck_base_severity = Medium,
     ck_tags = [''kernel'', ''credential-theft'', ''information-disclosure''],
     ck_requires = [SysctlID],
     ck_eval = Some (\<lambda>fs. Inr (eval0014 fs)),
     ck_remediation = Some \<lparr>rem_summary = ''Pipe core dumps to an absolute-path handler, or write them to a directory only root can '' @
       ''read.'',
       rem_effort = ''LOW'',
       rem_steps = [''Where the distribution ships a crash handler, use it: systemd hosts set '' @
         '''kernel.core_pattern = |/usr/lib/systemd/systemd-coredump %P %u %g %s %t %c %h'.'',
        ''Where crash dumps are not wanted at all, disable them with a handler that discards: '' @
          '''kernel.core_pattern = |/bin/false'.'',
        ''Where dumps must be written to disk, use an absolute path in a directory owned by root '' @
          ''and mode 0700, and set a retention policy, a core dump is a copy of process memory and is '' @
          ''as sensitive as the process was.'',
        ''Persist the choice in /etc/sysctl.d/, then verify: sysctl kernel.core_pattern''],
       rem_commands = [''sysctl kernel.core_pattern'',
        ''sysctl -w kernel.core_pattern='|/bin/false'' @ [CHR 0x27]],
       rem_caution = ''Changing core_pattern away from a crash handler removes the crash reports an operator may '' @
         ''be relying on to diagnose production failures. Confirm what consumes them before '' @
         ''switching to a discarding handler.''\<rparr>,
     ck_mappings = [\<lparr>cr_framework = ''nist-800-53-r5'', cr_control = ''SC-4''\<rparr>,
        \<lparr>cr_framework = ''nist-800-53-r5'', cr_control = ''SI-11''\<rparr>],
     ck_references = [\<lparr>ref_title = ''core(5), naming of core dump files'', ref_url = ''https://man7.org/linux/man-pages/man5/core.5.html''\<rparr>],
     ck_since_catalog = 3,
     ck_deprecated = None\<rparr>"

definition Check0015 :: "payload check" where
  "Check0015 = \<lparr>ck_id = ''KERNEL-0015'',
     ck_module = ''KERNEL'',
     ck_title = ''Source-routed packets are refused on every network interface'',
     ck_description = ''A source-routed packet carries its own return path. The sender'' @ [CHR 0x0A] @
       ''dictates which hops the reply traverses, which lets an attacker steer traffic'' @ [CHR 0x0A] @
       ''through a machine they control, reach addresses that are not routable from'' @ [CHR 0x0A] @
       ''where they are, and receive replies to a source address they have spoofed,'' @ [CHR 0x0A] @
       ''because the reply follows the attached route rather than the routing table.'' @ [CHR 0x0A, CHR 0x0A] @
       ''There is no legitimate modern use. IP source routing was deprecated for exactly'' @ [CHR 0x0A] @
       ''these reasons and RFC 7126 records that the correct handling on a host is to'' @ [CHR 0x0A] @
       ''drop such packets.'' @ [CHR 0x0A, CHR 0x0A] @
       ''**The combining rule is the opposite of the one KERNEL-0008 uses, and the'' @ [CHR 0x0A] @
       ''difference matters.** An interface accepts source routing only when'' @ [CHR 0x0A] @
       ''net.ipv4.conf.all.accept_source_route *and* that interface's own setting are'' @ [CHR 0x0A] @
       ''both non-zero, the kernel takes the logical AND, where for rp_filter it takes'' @ [CHR 0x0A] @
       ''the maximum. So conf.all at 0 disables source routing everywhere regardless of'' @ [CHR 0x0A] @
       ''per-interface values, and a check that reused the rp_filter logic here would'' @ [CHR 0x0A] @
       ''report a safe host as unsafe.'',
     ck_base_severity = Medium,
     ck_tags = [''kernel'', ''network'', ''spoofing'', ''routing''],
     ck_requires = [SysctlID],
     ck_eval = Some (\<lambda>fs. Inr (eval0015 fs)),
     ck_remediation = Some \<lparr>rem_summary = ''Set net.ipv4.conf.all.accept_source_route to 0 and persist it in /etc/sysctl.d/.'',
       rem_effort = ''LOW'',
       rem_steps = [''Apply immediately: sysctl -w net.ipv4.conf.all.accept_source_route=0'',
        ''Set the template for interfaces created later: sysctl -w '' @
          ''net.ipv4.conf.default.accept_source_route=0'',
        ''Persist both in /etc/sysctl.d/60-hardening.conf.'',
        ''Verify per interface: sysctl -a | grep accept_source_route'',
        ''Setting conf.all to 0 is sufficient on its own, because the kernel requires both it and '' @
          ''the interface value to be non-zero. Setting the per-interface values too means the host '' @
          ''stays safe if conf.all is later raised.''],
       rem_commands = [''sysctl -w net.ipv4.conf.all.accept_source_route=0'',
        ''sysctl -w net.ipv4.conf.default.accept_source_route=0''],
       rem_caution = []\<rparr>,
     ck_mappings = [\<lparr>cr_framework = ''nist-800-53-r5'', cr_control = ''SC-7''\<rparr>,
        \<lparr>cr_framework = ''nist-800-53-r5'', cr_control = ''SC-8''\<rparr>],
     ck_references = [\<lparr>ref_title = ''RFC 7126. Filtering of IP-Optioned Packets'', ref_url = ''https://www.rfc-editor.org/rfc/rfc7126''\<rparr>,
        \<lparr>ref_title = ''Linux kernel documentation, ip-sysctl accept_source_route'', ref_url = ''https://www.kernel.org/doc/html/latest/networking/ip-sysctl.html''\<rparr>],
     ck_since_catalog = 3,
     ck_deprecated = None\<rparr>"

definition Check0016 :: "payload check" where
  "Check0016 = \<lparr>ck_id = ''KERNEL-0016'',
     ck_module = ''KERNEL'',
     ck_title = ''TCP SYN cookies are enabled'',
     ck_description = ''A SYN flood fills a listening socket's backlog with half-open'' @ [CHR 0x0A] @
       ''connections from addresses that never complete the handshake. The queue is'' @ [CHR 0x0A] @
       ''finite, so once it is full the service refuses legitimate connections while'' @ [CHR 0x0A] @
       ''using almost no resources on the attacker's side.'' @ [CHR 0x0A, CHR 0x0A] @
       ''SYN cookies remove the queue from the equation: when the backlog overflows the'' @ [CHR 0x0A] @
       ''kernel stops storing connection state and encodes it in the sequence number it'' @ [CHR 0x0A] @
       ''returns, reconstructing the connection only if the client completes the'' @ [CHR 0x0A] @
       ''handshake. The cost is that a few TCP options cannot be carried in a cookie, so'' @ [CHR 0x0A] @
       ''the kernel enables them only under overflow rather than always.'' @ [CHR 0x0A, CHR 0x0A] @
       ''Severity is LOW deliberately. This is availability hardening, it grants an'' @ [CHR 0x0A] @
       ''attacker nothing, it removes a cheap way to deny service, and treating it as'' @ [CHR 0x0A] @
       ''equivalent to a privilege-escalation finding would mis-rank a triage queue.'',
     ck_base_severity = Low,
     ck_tags = [''kernel'', ''network'', ''denial-of-service'', ''availability''],
     ck_requires = [SysctlID],
     ck_eval = Some (\<lambda>fs. Inr (eval0016 fs)),
     ck_remediation = Some \<lparr>rem_summary = ''Set net.ipv4.tcp_syncookies to 1 and persist it in /etc/sysctl.d/.'',
       rem_effort = ''LOW'',
       rem_steps = [''Apply immediately: sysctl -w net.ipv4.tcp_syncookies=1'',
        ''Persist it: write 'net.ipv4.tcp_syncookies = 1' to /etc/sysctl.d/60-hardening.conf'',
        ''Verify the running value: sysctl net.ipv4.tcp_syncookies'',
        ''Leave the value at 1 rather than 2 unless you have a specific reason: 2 applies cookies '' @
          ''to every connection and disables TCP options that a normal workload benefits from.''],
       rem_commands = [''sysctl -w net.ipv4.tcp_syncookies=1'',
        ''sysctl net.ipv4.tcp_syncookies''],
       rem_caution = []\<rparr>,
     ck_mappings = [\<lparr>cr_framework = ''nist-800-53-r5'', cr_control = ''SC-5''\<rparr>],
     ck_references = [\<lparr>ref_title = ''Linux kernel documentation, ip-sysctl tcp_syncookies'', ref_url = ''https://www.kernel.org/doc/html/latest/networking/ip-sysctl.html''\<rparr>],
     ck_since_catalog = 3,
     ck_deprecated = None\<rparr>"

definition Check0017 :: "payload check" where
  "Check0017 = \<lparr>ck_id = ''KERNEL-0017'',
     ck_module = ''KERNEL'',
     ck_title = ''BPF hardening is written to the sysctl configuration'',
     ck_description = ''This is a check about files, not about the running kernel.'' @ [CHR 0x0A] @
       ''KERNEL-0006 asks whether unprivileged bpf() is refused *now*; this one asks'' @ [CHR 0x0A] @
       ''whether it will still be refused after the next reboot.'' @ [CHR 0x0A, CHR 0x0A] @
       ''The gap between those is real and is not covered by KERNEL-0007. That check'' @ [CHR 0x0A] @
       ''compares each running parameter against its configured value and reports drift'' @ [CHR 0x0A] @
       '', but a parameter that no file mentions at all is skipped, because there is'' @ [CHR 0x0A] @
       ''nothing to compare it to. So a host hardened with'' @ [CHR 0x0A, CHR 0x0A, CHR 0x09] @
       ''sysctl -w kernel.unprivileged_bpf_disabled=1'' @ [CHR 0x0A, CHR 0x0A] @
       ''and nothing written to disk passes KERNEL-0006 and passes KERNEL-0007, and'' @ [CHR 0x0A] @
       ''comes back after a reboot with unprivileged BPF wide open. Runtime hardening'' @ [CHR 0x0A] @
       ''that nobody persisted is the most common way a host silently un-hardens itself,'' @ [CHR 0x0A] @
       ''and it is invisible to every check that reads only /proc/sys.'' @ [CHR 0x0A, CHR 0x0A] @
       ''Two parameters have to be on disk, and they do different jobs:'' @ [CHR 0x0A, CHR 0x0A] @
       ''  - **kernel.unprivileged_bpf_disabled** decides who may call bpf() at all. At'' @ [CHR 0x0A] @
       ''    1 the call is refused for unprivileged users and the setting is locked'' @ [CHR 0x0A] @
       ''    until reboot; at 2 it is refused and the value may still be raised to 1.'' @ [CHR 0x0A] @
       ''    Either persists, and 1 is the stronger of the two.'' @ [CHR 0x0A] @
       ''  - **net.core.bpf_jit_harden** decides what the JIT emits for the programs'' @ [CHR 0x0A] @
       ''    that do get loaded. At 2 it blinds constants for every program, which'' @ [CHR 0x0A] @
       ''    stops an attacker smuggling a chosen instruction sequence into the'' @ [CHR 0x0A] @
       ''    kernel's instruction stream as an immediate operand and jumping into the'' @ [CHR 0x0A] @
       ''    middle of it. At 1 it does that for unprivileged programs only, which'' @ [CHR 0x0A] @
       ''    leaves the case that matters once something has obtained privilege.'' @ [CHR 0x0A, CHR 0x0A] @
       ''They are independent settings and a host commonly has one without the other,'' @ [CHR 0x0A] @
       ''which is why both are named rather than one standing in for the pair.'' @ [CHR 0x0A, CHR 0x0A] @
       ''**A conflict is not a verdict.** Where two files set the same parameter to'' @ [CHR 0x0A] @
       ''different values, which one wins depends on whether systemd-sysctl or procps'' @ [CHR 0x0A] @
       ''applied them, and this check will not guess, it reports UNKNOWN and names both'' @ [CHR 0x0A] @
       ''files. Getting that wrong would be a confident claim about what the host does'' @ [CHR 0x0A] @
       ''after a reboot, which is the one thing this check exists to describe.'',
     ck_base_severity = High,
     ck_tags = [''kernel'', ''bpf'', ''sysctl'', ''persistence'', ''privilege-escalation''],
     ck_requires = [SysctlID],
     ck_eval = Some (\<lambda>fs. Inr (eval0017 fs)),
     ck_remediation = Some \<lparr>rem_summary = ''Write both parameters to a file in /etc/sysctl.d/ and apply them.'',
       rem_effort = ''LOW'',
       rem_steps = [''Create /etc/sysctl.d/60-bpf-hardening.conf containing two lines: '' @
         ''kernel.unprivileged_bpf_disabled = 1 and net.core.bpf_jit_harden = 2.'',
        ''Number the file so it sorts after anything that might set the same keys. Drop-ins are '' @
          ''applied in lexicographic order of filename across the directories, so 60- beats 10- and a '' @
          ''file in /etc/sysctl.d beats one in /usr/lib/sysctl.d only because of the directory order, '' @
          ''not the number.'',
        ''Check nothing else sets them to something weaker first: grep -rn 'unprivileged_bpf_disabled'' @ [CHR 0x5C] @
          ''|bpf_jit_harden' /etc/sysctl.conf /etc/sysctl.d /usr/lib/sysctl.d /run/sysctl.d. Two '' @
          ''files disagreeing is worse than neither setting it, because which wins depends on which '' @
          ''tool applied them.'',
        ''Apply without rebooting: sysctl --system, then confirm with sysctl '' @
          ''kernel.unprivileged_bpf_disabled net.core.bpf_jit_harden.'',
        ''Note that unprivileged_bpf_disabled can be raised but never lowered while the kernel '' @
          ''runs. If it is currently 0, the file makes the next boot correct and sysctl --system will '' @
          ''set it now; if it is already 1, it is locked and the file simply makes that survive.'',
        ''Verify the file is what takes effect rather than something else: systemd-analyze '' @
          ''cat-config sysctl.d shows the merged configuration in application order on a systemd host.''],
       rem_commands = [''sysctl kernel.unprivileged_bpf_disabled net.core.bpf_jit_harden'',
        ''grep -rn 'unprivileged_bpf_disabled'' @ [CHR 0x5C] @
          ''|bpf_jit_harden' /etc/sysctl.conf /etc/sysctl.d /usr/lib/sysctl.d /run/sysctl.d 2>/dev/null'',
        ''systemd-analyze cat-config sysctl.d''],
       rem_caution = ''Disabling unprivileged BPF breaks unprivileged tooling that uses it, some observability '' @
         ''agents, and seccomp-bpf is unaffected but eBPF-based tracing run as a normal user is not. '' @
         ''Check what on this host loads BPF programs before changing it. JIT hardening costs a '' @
         ''little throughput on hot paths for programs that are loaded, which is rarely measurable '' @
         ''outside a packet-processing workload.''\<rparr>,
     ck_mappings = [\<lparr>cr_framework = ''nist-800-53-r5'', cr_control = ''CM-6''\<rparr>,
        \<lparr>cr_framework = ''nist-800-53-r5'', cr_control = ''SI-16''\<rparr>,
        \<lparr>cr_framework = ''nist-800-53-r5'', cr_control = ''AC-6''\<rparr>],
     ck_references = [\<lparr>ref_title = ''Linux kernel, unprivileged_bpf_disabled'', ref_url = ''https://www.kernel.org/doc/html/latest/admin-guide/sysctl/kernel.html#unprivileged-bpf-dis'' @
       ''abled''\<rparr>,
        \<lparr>ref_title = ''Linux kernel, bpf_jit_harden'', ref_url = ''https://www.kernel.org/doc/html/latest/admin-guide/sysctl/net.html#bpf-jit-harden''\<rparr>,
        \<lparr>ref_title = ''sysctl.d(5)'', ref_url = ''https://man7.org/linux/man-pages/man5/sysctl.d.5.html''\<rparr>],
     ck_since_catalog = 25,
     ck_deprecated = None\<rparr>"

definition Check0018 :: "payload check" where
  "Check0018 = \<lparr>ck_id = ''KERNEL-0018'',
     ck_module = ''KERNEL'',
     ck_title = ''Kernel pointer restriction is written to the sysctl configuration'',
     ck_description = ''KASLR moves the kernel's text and data to a different address'' @ [CHR 0x0A] @
       ''on every boot, so an attacker with a memory-corruption bug does not know where'' @ [CHR 0x0A] @
       ''to aim. **Every one of those addresses is useless the moment the kernel prints'' @ [CHR 0x0A] @
       ''a pointer to user space**, because one leaked pointer gives away the offset and'' @ [CHR 0x0A] @
       ''the whole layout with it.'' @ [CHR 0x0A, CHR 0x0A] @
       ''kptr_restrict decides who gets to see them, and it has three settings:'' @ [CHR 0x0A, CHR 0x0A] @
       ''  - 0, %pK prints the real address. Anything that reads /proc/kallsyms,'' @ [CHR 0x0A] @
       ''        /proc/modules, /proc/timer_list or a dozen other files learns the'' @ [CHR 0x0A] @
       ''        layout.'' @ [CHR 0x0A] @
       ''  - 1: the address is printed as zeros unless the reader holds CAP_SYSLOG.'' @ [CHR 0x0A] @
       ''  - 2: the address is printed as zeros for everyone, privileged or not.'' @ [CHR 0x0A, CHR 0x0A] @
       ''**1 is the baseline and 2 is the hardened position.** 1 closes the'' @ [CHR 0x0A] @
       ''unprivileged leak, which is the exposure: an ordinary local account reads zeros.'' @ [CHR 0x0A] @
       ''What it leaves open is CAP_SYSLOG, and that is not a rare thing to hold, a'' @ [CHR 0x0A] @
       ''container given it for logging, a monitoring agent, anything that reads the ring'' @ [CHR 0x0A] @
       ''buffer. 2 removes the distinction, at a cost this check does not get to impose:'' @ [CHR 0x0A] @
       ''perf, bpftrace and crash analysis see zeros as root too.'' @ [CHR 0x0A, CHR 0x0A] @
       ''So 1 and 2 both pass and the verdict says which one is there. **Until catalog 33'' @ [CHR 0x0A] @
       ''a configured 1 failed here**, on the same host where KERNEL-0002 passed the'' @ [CHR 0x0A] @
       ''identical running value, one report carrying a PASS and a FAIL about one'' @ [CHR 0x0A] @
       ''number. The runtime check was the one describing the exposure correctly, and'' @ [CHR 0x0A] @
       ''this one now agrees with it.'' @ [CHR 0x0A, CHR 0x0A] @
       ''This is a check about files. KERNEL-0002 asks what the running kernel does; this'' @ [CHR 0x0A] @
       ''asks whether it will still do it after a reboot, which is a different question'' @ [CHR 0x0A] @
       ''and is not covered by KERNEL-0007 either, that compares running against'' @ [CHR 0x0A] @
       ''configured and skips a parameter no file mentions, because there is nothing to'' @ [CHR 0x0A] @
       ''compare it against.'' @ [CHR 0x0A, CHR 0x0A] @
       ''**Expect a stock distribution to pass or to say nothing.** Ubuntu and Debian'' @ [CHR 0x0A] @
       ''ship kernel.kptr_restrict = 1 in a vendor file and Red Hat ships it in'' @ [CHR 0x0A] @
       ''50-redhat.conf; those pass. Distributions that ship nothing fail, and if their'' @ [CHR 0x0A] @
       ''running kernel is already at 1 or 2 the failure is reported at LOW, because what'' @ [CHR 0x0A] @
       ''is missing there is the record rather than the protection.'',
     ck_base_severity = High,
     ck_tags = [''kernel'', ''sysctl'', ''persistence'', ''information-disclosure'', ''kaslr''],
     ck_requires = [SysctlID],
     ck_eval = Some (\<lambda>fs. Inr (eval0018 fs)),
     ck_remediation = Some \<lparr>rem_summary = ''Write kernel.kptr_restrict = 1 to a file in /etc/sysctl.d/ and apply it; 2 if nothing '' @
       ''here profiles the kernel.'',
       rem_effort = ''LOW'',
       rem_steps = [''Check what already sets it first: grep -rn kptr_restrict /etc/sysctl.conf /etc/sysctl.d '' @
         ''/usr/lib/sysctl.d /run/sysctl.d. On Ubuntu a vendor file sets 1, and a drop-in in '' @
         ''/etc/sysctl.d overrides it only because /etc is walked after /usr/lib, number yours above '' @
         ''whatever you find.'',
        ''Create /etc/sysctl.d/60-kptr.conf containing kernel.kptr_restrict = 1. That is what this '' @
          ''check requires: it hides pointers from every unprivileged reader, which is the exposure.'',
        ''Apply without rebooting: sysctl --system, then confirm with sysctl kernel.kptr_restrict.'',
        ''Consider 2 rather than 1 where nothing on the host profiles the kernel. 1 still prints '' @
          ''pointers in full to anything holding CAP_SYSLOG, and a container granted it for logging '' @
          ''is enough. 2 closes that and is what KSPP recommends.'',
        ''Establish what breaks before going to 2. perf, systemtap, bcc/bpftrace and some '' @
          ''crash-dump tooling read kernel symbols, and at 2 they see zeros even as root. Where a '' @
          ''profiler is genuinely needed, 1 with a tightly held CAP_SYSLOG is the documented position '' @
          ''rather than a compromise.'',
        ''Verify what actually took effect: systemd-analyze cat-config sysctl.d shows the merged '' @
          ''configuration in application order on a systemd host.''],
       rem_commands = [''sysctl kernel.kptr_restrict'',
        ''grep -rn kptr_restrict /etc/sysctl.conf /etc/sysctl.d /usr/lib/sysctl.d /run/sysctl.d '' @ ''2>/dev/null'',
        ''systemd-analyze cat-config sysctl.d''],
       rem_caution = ''At 2 kernel addresses read as zeros for root as well, which breaks perf, bpftrace and '' @
         ''kernel crash analysis. Test the tooling this host depends on before setting it '' @
         ''fleet-wide; the setting is trivial to apply and the breakage appears the next time '' @
         ''somebody profiles something.''\<rparr>,
     ck_mappings = [\<lparr>cr_framework = ''nist-800-53-r5'', cr_control = ''SC-4''\<rparr>,
        \<lparr>cr_framework = ''nist-800-53-r5'', cr_control = ''SI-16''\<rparr>,
        \<lparr>cr_framework = ''nist-800-53-r5'', cr_control = ''CM-6''\<rparr>],
     ck_references = [\<lparr>ref_title = ''Linux kernel, kptr_restrict'', ref_url = ''https://www.kernel.org/doc/html/latest/admin-guide/sysctl/kernel.html#kptr-restrict''\<rparr>,
        \<lparr>ref_title = ''sysctl.d(5)'', ref_url = ''https://man7.org/linux/man-pages/man5/sysctl.d.5.html''\<rparr>],
     ck_since_catalog = 26,
     ck_deprecated = None\<rparr>"

definition Check0019 :: "payload check" where
  "Check0019 = \<lparr>ck_id = ''KERNEL-0019'',
     ck_module = ''KERNEL'',
     ck_title = ''Kernel ring buffer restriction is written to the sysctl configuration'',
     ck_description = ''dmesg is the other end of the same leak KERNEL-0018 describes.'' @ [CHR 0x0A] @
       ''kptr_restrict decides whether a pointer is printed as zeros; dmesg_restrict'' @ [CHR 0x0A] @
       ''decides who may read the buffer those lines are printed into.'' @ [CHR 0x0A, CHR 0x0A] @
       ''At 0 any local user runs dmesg. What they get is not a log so much as a'' @ [CHR 0x0A] @
       ''narrated tour of the kernel's memory: driver initialisation with device'' @ [CHR 0x0A] @
       ''addresses, stack traces from anything that has oopsed since boot, module load'' @ [CHR 0x0A] @
       ''addresses, and, on a host that has not set kptr_restrict, pointers in the'' @ [CHR 0x0A] @
       ''clear. It is also where a great deal of hardware and topology detail lives,'' @ [CHR 0x0A] @
       ''which is reconnaissance rather than exploitation but is reconnaissance an'' @ [CHR 0x0A] @
       ''unprivileged process should not be handed.'' @ [CHR 0x0A, CHR 0x0A] @
       ''At 1 the buffer is readable only with CAP_SYSLOG. There is no third value: this'' @ [CHR 0x0A] @
       ''is a boolean wearing an integer's clothes, so the check is correspondingly'' @ [CHR 0x0A] @ ''simple.'' @
       [CHR 0x0A, CHR 0x0A] @ ''**The two settings are worth doing together and are separate checks on'' @
         [CHR 0x0A] @
       ''purpose.** Restricting dmesg while leaving kptr_restrict at 0 still leaks'' @ [CHR 0x0A] @
       ''pointers through /proc/kallsyms and friends; hiding pointers while leaving'' @ [CHR 0x0A] @
       ''dmesg open still hands over stack traces and the hardware inventory. A host'' @ [CHR 0x0A] @
       ''that has done one and not the other should see one finding, which is what two'' @ [CHR 0x0A] @
       ''checks give it.'' @ [CHR 0x0A, CHR 0x0A] @
       ''This reads the files. KERNEL-0004 asks what the running kernel does.'',
     ck_base_severity = High,
     ck_tags = [''kernel'', ''sysctl'', ''persistence'', ''information-disclosure''],
     ck_requires = [SysctlID],
     ck_eval = Some (\<lambda>fs. Inr (eval0019 fs)),
     ck_remediation = Some \<lparr>rem_summary = ''Write kernel.dmesg_restrict = 1 to a file in /etc/sysctl.d/ and apply it.'',
       rem_effort = ''LOW'',
       rem_steps = [''Check what already sets it: grep -rn dmesg_restrict /etc/sysctl.conf /etc/sysctl.d '' @
         ''/usr/lib/sysctl.d /run/sysctl.d.'',
        ''Create or extend a drop-in, the same file as kernel.kptr_restrict is the natural home, '' @
          ''since the two settings close the same leak from opposite ends, containing '' @
          ''kernel.dmesg_restrict = 1.'',
        ''Apply without rebooting: sysctl --system, then confirm with sysctl kernel.dmesg_restrict.'',
        ''Check what reads dmesg as a non-root user before rolling it out. Some hardware-monitoring '' @
          ''and crash-reporting agents do; the answer for those is usually CAP_SYSLOG on the unit '' @
          ''rather than an open buffer for everyone.'',
        ''Do KERNEL-0018 at the same time if it is also failing. Restricting dmesg while kernel '' @
          ''pointers are still printed in the clear leaves the leak open through /proc/kallsyms, and '' @
          ''hiding pointers while dmesg is world-readable leaves the stack traces.''],
       rem_commands = [''sysctl kernel.dmesg_restrict'',
        ''grep -rn dmesg_restrict /etc/sysctl.conf /etc/sysctl.d /usr/lib/sysctl.d /run/sysctl.d '' @ ''2>/dev/null'',
        ''systemd-analyze cat-config sysctl.d''],
       rem_caution = ''An unprivileged process that legitimately reads dmesg stops working. That is usually a '' @
         ''monitoring agent, and the fix is AmbientCapabilities=CAP_SYSLOG on its unit rather than '' @
         ''reopening the buffer to everyone.''\<rparr>,
     ck_mappings = [\<lparr>cr_framework = ''nist-800-53-r5'', cr_control = ''SC-4''\<rparr>,
        \<lparr>cr_framework = ''nist-800-53-r5'', cr_control = ''AU-9''\<rparr>,
        \<lparr>cr_framework = ''nist-800-53-r5'', cr_control = ''CM-6''\<rparr>],
     ck_references = [\<lparr>ref_title = ''Linux kernel, dmesg_restrict'', ref_url = ''https://www.kernel.org/doc/html/latest/admin-guide/sysctl/kernel.html#dmesg-restrict''\<rparr>,
        \<lparr>ref_title = ''sysctl.d(5)'', ref_url = ''https://man7.org/linux/man-pages/man5/sysctl.d.5.html''\<rparr>],
     ck_since_catalog = 26,
     ck_deprecated = None\<rparr>"

definition Check0020 :: "payload check" where
  "Check0020 = \<lparr>ck_id = ''KERNEL-0020'',
     ck_module = ''KERNEL'',
     ck_title = ''Yama ptrace restriction is written to the sysctl configuration'',
     ck_description = ''ptrace lets one process read and write another's memory. That'' @ [CHR 0x0A] @
       ''is what a debugger is, and it is also what credential theft is: an attacker who'' @ [CHR 0x0A] @
       ''lands as an ordinary user and finds a browser, an ssh-agent, a password manager'' @ [CHR 0x0A] @
       ''or a running deployment script belonging to the same uid can read the secrets'' @ [CHR 0x0A] @
       ''out of it without any privilege escalation at all, and can write instructions'' @ [CHR 0x0A] @
       ''into it without dropping a file on disk.'' @ [CHR 0x0A, CHR 0x0A] @
       ''The Yama LSM gates that, and kernel.yama.ptrace_scope chooses how far:'' @ [CHR 0x0A, CHR 0x0A] @
       ''  - 0, classic behaviour. Any process may trace any other with the same uid.'' @ [CHR 0x0A] @
       ''  - 1, a process may trace only its own descendants, unless the target has'' @ [CHR 0x0A] @
       ''        opted in with PR_SET_PTRACER.'' @ [CHR 0x0A] @
       ''  - 2, only a process with CAP_SYS_PTRACE may trace anything.'' @ [CHR 0x0A] @
       ''  - 3, no process may trace another, ever, and the value cannot be lowered'' @ [CHR 0x0A] @
       ''        without a reboot.'' @ [CHR 0x0A, CHR 0x0A] @
       ''**Anything above 0 passes**, because the right level depends on what the host'' @ [CHR 0x0A] @
       ''runs and a system that chose 1 deliberately is not the problem this exists to'' @ [CHR 0x0A] @
       ''find. 1 is enough to stop the sideways read that matters: a compromised'' @ [CHR 0x0A] @
       ''process cannot reach into an unrelated one belonging to the same user, which'' @ [CHR 0x0A] @
       ''is the whole of the credential-theft path above.'' @ [CHR 0x0A, CHR 0x0A] @
       ''This is a check about files. KERNEL-0003 asks what the running kernel does; a'' @ [CHR 0x0A] @
       ''host hardened with sysctl -w and nothing on disk passes that and reverts at the'' @ [CHR 0x0A] @
       ''next boot, and KERNEL-0007 does not see it because a parameter no file mentions'' @ [CHR 0x0A] @
       ''has nothing to drift from.'' @ [CHR 0x0A, CHR 0x0A] @
       ''**A kernel without Yama is not a failure.** The parameter does not exist unless'' @ [CHR 0x0A] @
       ''the LSM is built in and enabled, and asking a file to set a parameter the'' @ [CHR 0x0A] @
       ''kernel does not implement would be asking for a line that does nothing.'',
     ck_base_severity = Medium,
     ck_tags = [''kernel'', ''sysctl'', ''persistence'', ''credential-access''],
     ck_requires = [SysctlID],
     ck_eval = Some (\<lambda>fs. Inr (eval0020 fs)),
     ck_remediation = Some \<lparr>rem_summary = ''Write kernel.yama.ptrace_scope = 1 to a file in /etc/sysctl.d/ and apply it.'',
       rem_effort = ''LOW'',
       rem_steps = [''Check what already sets it: grep -rn ptrace_scope /etc/sysctl.conf /etc/sysctl.d '' @
         ''/usr/lib/sysctl.d /run/sysctl.d. Ubuntu ships 1 in a vendor file; most others ship '' @ ''nothing.'',
        ''Create or extend a drop-in containing kernel.yama.ptrace_scope = 1. That is the level to '' @
          ''start at: it stops a process reading an unrelated one owned by the same user, and leaves '' @
          ''an ordinary debugger able to trace the children it started.'',
        ''Go to 2 only where no unprivileged debugging happens at all, and to 3 only where nothing '' @
          ''debugs anything, 3 cannot be lowered again without a reboot, which is the point of it and '' @
          ''also the reason to be sure.'',
        ''Apply without rebooting: sysctl --system, then confirm with sysctl kernel.yama.ptrace_scope.'',
        ''Check what debugs what before rolling it out. gdb attaching to a running process, strace '' @
          ''on something already started, and some crash reporters and profilers all use ptrace '' @
          ''across the process tree. Under 1 the answer for a legitimate debugger is usually to start '' @
          ''the target from it rather than attach, or PR_SET_PTRACER on the target.''],
       rem_commands = [''sysctl kernel.yama.ptrace_scope'',
        ''grep -rn ptrace_scope /etc/sysctl.conf /etc/sysctl.d /usr/lib/sysctl.d /run/sysctl.d '' @ ''2>/dev/null'',
        ''systemd-analyze cat-config sysctl.d''],
       rem_caution = ''Attaching a debugger or strace to an already-running process stops working for '' @
         ''unprivileged users at 1 and for everyone without CAP_SYS_PTRACE at 2. Crash reporters and '' @
         ''APM agents are the usual casualties. Level 3 cannot be undone without rebooting.''\<rparr>,
     ck_mappings = [\<lparr>cr_framework = ''nist-800-53-r5'', cr_control = ''AC-6''\<rparr>,
        \<lparr>cr_framework = ''nist-800-53-r5'', cr_control = ''SC-4''\<rparr>,
        \<lparr>cr_framework = ''nist-800-53-r5'', cr_control = ''SI-16''\<rparr>,
        \<lparr>cr_framework = ''nist-800-53-r5'', cr_control = ''CM-6''\<rparr>],
     ck_references = [\<lparr>ref_title = ''Linux kernel. Yama ptrace_scope'', ref_url = ''https://www.kernel.org/doc/html/latest/admin-guide/LSM/Yama.html''\<rparr>,
        \<lparr>ref_title = ''sysctl.d(5)'', ref_url = ''https://man7.org/linux/man-pages/man5/sysctl.d.5.html''\<rparr>],
     ck_since_catalog = 27,
     ck_deprecated = None\<rparr>"

definition Check0021 :: "payload check" where
  "Check0021 = \<lparr>ck_id = ''KERNEL-0021'',
     ck_module = ''KERNEL'',
     ck_title = ''The magic SysRq key is disabled in the sysctl configuration'',
     ck_description = ''Magic SysRq is a direct line into the kernel from the console.'' @ [CHR 0x0A] @
       ''It bypasses everything above it: no login, no permission check, no audit record,'' @ [CHR 0x0A] @
       ''no userspace at all. That is what makes it valuable when a machine is wedged and'' @ [CHR 0x0A] @
       ''what makes it a liability the rest of the time.'' @ [CHR 0x0A, CHR 0x0A] @
       ''kernel.sysrq is a bitmask, and the functions it can enable are not equivalent:'' @ [CHR 0x0A, CHR 0x0A] @
       ''  - 2  , change the console log level, which can silence kernel logging'' @ [CHR 0x0A] @
       ''  - 4  , keyboard control, including turning off raw mode'' @ [CHR 0x0A] @
       ''  - 8  , debugging dumps: registers, memory, every task's stack'' @ [CHR 0x0A] @
       ''  - 16 , sync all filesystems'' @ [CHR 0x0A] @ ''  - 32 , remount everything read-only'' @ [CHR 0x0A] @
       ''  - 64 , signal processes, including SIGKILL to every task'' @ [CHR 0x0A] @
       ''  - 128, reboot or power off immediately'' @ [CHR 0x0A] @ ''  - 256, renice all real-time tasks'' @
       [CHR 0x0A, CHR 0x0A] @ ''0 disables the lot; 1 enables the lot. **The dangerous half is not the reboot.**'' @
       [CHR 0x0A] @ ''It is 8, which dumps kernel memory and task state to the console and defeats'' @ [CHR 0x0A] @
       ''address-space randomisation in one keystroke, and 2, which turns the logging'' @ [CHR 0x0A] @
       ''level down far enough that what happens next is not recorded. 64 lets an'' @ [CHR 0x0A] @
       ''attacker at the console kill the audit daemon before doing anything else.'' @ [CHR 0x0A, CHR 0x0A] @
       ''**This needs console access, which is why it is rated below the leak checks'' @ [CHR 0x0A] @
       ''beside it.** But '' @ [CHR 0x22] @ ''console'' @ [CHR 0x22] @
       '' includes a serial console on a management network, a'' @ [CHR 0x0A] @
       ''hypervisor's virtual console, an IPMI or iDRAC session and a cloud provider's'' @ [CHR 0x0A] @
       ''web terminal, none of which is the locked room the phrase suggests, and'' @ [CHR 0x0A] @
       ''several of which are reachable by anyone who has the management credentials'' @ [CHR 0x0A] @
       ''rather than the host's.'' @ [CHR 0x0A, CHR 0x0A] @
       ''A value that enables only harmless functions is a smaller finding than one that'' @ [CHR 0x0A] @
       ''enables everything, and the verdict says which by decoding the mask rather than'' @ [CHR 0x0A] @
       ''printing the number. A host with kernel.sysrq = 16 has thought about this and'' @ [CHR 0x0A] @
       ''chosen to keep the emergency sync; a host with 1 has not.'',
     ck_base_severity = Medium,
     ck_tags = [''kernel'', ''sysctl'', ''persistence'', ''physical-access''],
     ck_requires = [SysctlID],
     ck_eval = Some (\<lambda>fs. Inr (eval0021 fs)),
     ck_remediation = Some \<lparr>rem_summary = ''Write kernel.sysrq = 0 to a file in /etc/sysctl.d/ and apply it.'',
       rem_effort = ''LOW'',
       rem_steps = [''Check what already sets it: grep -rn 'kernel.sysrq' /etc/sysctl.conf /etc/sysctl.d '' @
         ''/usr/lib/sysctl.d /run/sysctl.d. systemd ships a default in '' @
         ''/usr/lib/sysctl.d/50-default.conf, so a drop-in in /etc/sysctl.d is what overrides it.'',
        ''Create or extend a drop-in containing kernel.sysrq = 0.'',
        ''Decide first whether anyone actually uses it. On a physical machine with an operations '' @
          ''team that recovers wedged hosts from a console, the sync and remount-read-only functions '' @
          ''are genuinely valuable and the honest answer may be 16 or 48 rather than 0, a narrow '' @
          ''mask, chosen and written down, which this check reports at Low rather than as a plain '' @ ''failure.'',
        ''Never leave the debugging dumps enabled. Bit 8 prints registers, memory and every task's '' @
          ''stack to the console, which defeats address-space randomisation for anyone who can read '' @ ''it.'',
        ''Apply without rebooting: sysctl --system, then confirm with sysctl kernel.sysrq.'',
        ''Remember the kernel command line can set it too: sysrq_always_enabled in the bootloader '' @
          ''configuration overrides this and is not visible to a check that reads sysctl files.''],
       rem_commands = [''sysctl kernel.sysrq'',
        ''grep -rn 'kernel.sysrq' /etc/sysctl.conf /etc/sysctl.d /usr/lib/sysctl.d /run/sysctl.d '' @ ''2>/dev/null'',
        ''systemd-analyze cat-config sysctl.d''],
       rem_caution = ''Disabling SysRq removes the last resort for recovering a machine whose userspace is gone. '' @
         ''Where that matters, physical hosts with console access and an operations team who use it, '' @
         ''a narrow mask is a better answer than 0, and better than leaving the default in place.''\<rparr>,
     ck_mappings = [\<lparr>cr_framework = ''nist-800-53-r5'', cr_control = ''PE-3''\<rparr>,
        \<lparr>cr_framework = ''nist-800-53-r5'', cr_control = ''AC-3''\<rparr>,
        \<lparr>cr_framework = ''nist-800-53-r5'', cr_control = ''CM-6''\<rparr>],
     ck_references = [\<lparr>ref_title = ''Linux kernel. Magic SysRq key'', ref_url = ''https://www.kernel.org/doc/html/latest/admin-guide/sysrq.html''\<rparr>,
        \<lparr>ref_title = ''sysctl.d(5)'', ref_url = ''https://man7.org/linux/man-pages/man5/sysctl.d.5.html''\<rparr>],
     ck_since_catalog = 27,
     ck_deprecated = None\<rparr>"

definition Check0022 :: "payload check" where
  "Check0022 = \<lparr>ck_id = ''KERNEL-0022'',
     ck_module = ''KERNEL'',
     ck_title = ''Perf event restriction is written to the sysctl configuration'',
     ck_description = ''perf_event_open is a system call that asks the kernel to'' @ [CHR 0x0A] @
       ''instrument the hardware: cycle counters, cache misses, branch mispredictions,'' @ [CHR 0x0A] @
       ''and the addresses being executed while it counts. It exists for profiling and it'' @ [CHR 0x0A] @
       ''is very good at it, which is the problem, the same measurements that show a'' @ [CHR 0x0A] @
       ''developer where their program spends its time show an attacker what another'' @ [CHR 0x0A] @
       ''process is doing, at instruction granularity.'' @ [CHR 0x0A, CHR 0x0A] @
       ''kernel.perf_event_paranoid decides how much of that an unprivileged process may'' @ [CHR 0x0A] @
         ''ask for:'' @
       [CHR 0x0A, CHR 0x0A] @ ''  - -1, everything, including raw tracepoints and kernel measurements.'' @
         [CHR 0x0A] @
       ''  -  0, no raw tracepoint access; CPU events still allowed.'' @ [CHR 0x0A] @
       ''  -  1, no CPU event access for unprivileged users.'' @ [CHR 0x0A] @
       ''  -  2, no kernel profiling. The upstream default since Linux 4.6.'' @ [CHR 0x0A] @
       ''  -  3, no unprivileged perf at all. A Debian and Ubuntu patch, not upstream.'' @ [CHR 0x0A, CHR 0x0A] @
       ''**Below 2 the call is a side-channel primitive and a KASLR oracle.** Kernel'' @ [CHR 0x0A] @
       ''measurements return addresses from the kernel's own execution, which is a direct'' @ [CHR 0x0A] @
       ''read of the layout randomisation is meant to hide; and the counter resolution is'' @ [CHR 0x0A] @
       ''fine enough to have carried practical cache-timing attacks against'' @ [CHR 0x0A] @
       ''cryptographic code in another process. Neither needs a bug, this is the'' @ [CHR 0x0A] @
       ''interface working as documented.'' @ [CHR 0x0A, CHR 0x0A] @
       ''2 is the bar because it is upstream's own default and because 3 does not exist'' @ [CHR 0x0A] @
       ''on a kernel without the Debian patch, so requiring it would fail every RPM-family'' @ [CHR 0x0A] @
       ''host for shipping a kernel that cannot have it. Where 3 is available it is'' @ [CHR 0x0A] @
       ''better, and a host running it is told so rather than merely passed.'' @ [CHR 0x0A, CHR 0x0A] @
       ''This is a check about files. KERNEL-0013 asks what the running kernel does; a'' @ [CHR 0x0A] @
       ''host set with sysctl -w and nothing on disk passes that and reverts at the next'' @ [CHR 0x0A] @ ''boot.'',
     ck_base_severity = Medium,
     ck_tags = [''kernel'', ''sysctl'', ''persistence'', ''side-channel''],
     ck_requires = [SysctlID],
     ck_eval = Some (\<lambda>fs. Inr (eval0022 fs)),
     ck_remediation = Some \<lparr>rem_summary = ''Write kernel.perf_event_paranoid = 2 to a file in /etc/sysctl.d/, or 3 on a Debian-family '' @
       ''kernel.'',
       rem_effort = ''LOW'',
       rem_steps = [''Check what already sets it: grep -rn perf_event_paranoid /etc/sysctl.conf /etc/sysctl.d '' @
         ''/usr/lib/sysctl.d /run/sysctl.d.'',
        ''Create or extend a drop-in containing kernel.perf_event_paranoid = 2. Write it down even '' @
          ''if the running kernel already reports 2: upstream's default is not a decision, and a '' @
          ''kernel rebuild or a boot parameter can lower it without anything on this host changing.'',
        ''Use 3 on Debian and Ubuntu, where the patch exists, unless something on the host profiles '' @
          ''as a non-root user. On an RPM-family kernel 3 is not available and setting it does '' @
          ''nothing useful.'',
        ''Apply without rebooting: sysctl --system, then confirm with sysctl '' @ ''kernel.perf_event_paranoid.'',
        ''Find out what profiles before restricting it. perf, bpftrace, some APM agents and Java '' @
          ''Flight Recorder all use perf_event_open; at 2 a non-root user can still profile their own '' @
          ''userspace processes, and at 3 they cannot profile at all. The usual answer for a '' @
          ''legitimate profiler is CAP_PERFMON on the unit rather than lowering the value host-wide.''],
       rem_commands = [''sysctl kernel.perf_event_paranoid'',
        ''grep -rn perf_event_paranoid /etc/sysctl.conf /etc/sysctl.d /usr/lib/sysctl.d '' @
          ''/run/sysctl.d 2>/dev/null'',
        ''systemd-analyze cat-config sysctl.d''],
       rem_caution = ''Unprivileged profiling stops working. perf top, bpftrace and Java Flight Recorder are the '' @
         ''usual casualties, and at 3 they stop for everyone without CAP_PERFMON. Grant the '' @
         ''capability to the units that need it rather than lowering the value for the whole host.''\<rparr>,
     ck_mappings = [\<lparr>cr_framework = ''nist-800-53-r5'', cr_control = ''SC-4''\<rparr>,
        \<lparr>cr_framework = ''nist-800-53-r5'', cr_control = ''AC-6''\<rparr>,
        \<lparr>cr_framework = ''nist-800-53-r5'', cr_control = ''CM-6''\<rparr>],
     ck_references = [\<lparr>ref_title = ''Linux kernel, perf_event_paranoid'', ref_url = ''https://www.kernel.org/doc/html/latest/admin-guide/sysctl/kernel.html#perf-event-paranoid''\<rparr>,
        \<lparr>ref_title = ''perf_event_open(2)'', ref_url = ''https://man7.org/linux/man-pages/man2/perf_event_open.2.html''\<rparr>],
     ck_since_catalog = 28,
     ck_deprecated = None\<rparr>"

definition Check0023 :: "payload check" where
  "Check0023 = \<lparr>ck_id = ''KERNEL-0023'',
     ck_module = ''KERNEL'',
     ck_title = ''TCP SYN cookies are written to the sysctl configuration'',
     ck_description = ''A SYN flood fills a listening socket's backlog with half-open'' @ [CHR 0x0A] @
       ''connections from addresses that never complete the handshake. The queue is'' @ [CHR 0x0A] @
       ''finite, so once it is full the service refuses legitimate clients while the'' @ [CHR 0x0A] @
       ''attacker spends almost nothing. SYN cookies remove the queue from the'' @ [CHR 0x0A] @
       ''equation: on overflow the kernel stops storing connection state and encodes it'' @ [CHR 0x0A] @
       ''in the sequence number it returns, reconstructing the connection only if the'' @ [CHR 0x0A] @
       ''client completes the handshake.'' @ [CHR 0x0A, CHR 0x0A] @ ''net.ipv4.tcp_syncookies takes three values:'' @
       [CHR 0x0A, CHR 0x0A] @ ''  - 0, never. The backlog is the only defence.'' @ [CHR 0x0A] @
       ''  - 1, on overflow. The upstream default, and the value to write down.'' @ [CHR 0x0A] @
       ''  - 2, always, rather than only under overflow.'' @ [CHR 0x0A, CHR 0x0A] @
       ''**Every distribution the corpus covers runs 1 already, and almost none of them'' @ [CHR 0x0A] @
       ''say so in a file.** That is the finding. A running value with nothing behind it'' @ [CHR 0x0A] @
       ''is one container runtime, one network-tuning role, or one sysctl -w in a'' @ [CHR 0x0A] @
       ''start-up script away from being 0, and nothing on the host records that anyone'' @ [CHR 0x0A] @
       ''ever chose it. The parameter is also a favourite of performance tuning guides,'' @ [CHR 0x0A] @
       ''which is a specific way it gets turned off by someone who is not thinking about'' @ [CHR 0x0A] @
         ''floods.'' @
       [CHR 0x0A, CHR 0x0A] @ ''2 passes. It uses cookies for every connection rather than only under overflow,'' @
       [CHR 0x0A] @ ''which is stricter and costs a few TCP options, window scaling, SACK and'' @ [CHR 0x0A] @
       ''timestamps cannot be carried in a cookie, on every connection rather than only'' @ [CHR 0x0A] @
       ''during an attack. That is a throughput decision, not a security one, so a host'' @ [CHR 0x0A] @
       ''that has made it is passed and told what it costs.'' @ [CHR 0x0A, CHR 0x0A] @
       ''This is a check about files. KERNEL-0016 asks what the running kernel does.'',
     ck_base_severity = Low,
     ck_tags = [''kernel'', ''sysctl'', ''persistence'', ''denial-of-service''],
     ck_requires = [SysctlID],
     ck_eval = Some (\<lambda>fs. Inr (eval0023 fs)),
     ck_remediation = Some \<lparr>rem_summary = ''Write net.ipv4.tcp_syncookies = 1 to a file in /etc/sysctl.d/.'',
       rem_effort = ''LOW'',
       rem_steps = [''Check what already sets it: grep -rn tcp_syncookies /etc/sysctl.conf /etc/sysctl.d '' @
         ''/usr/lib/sysctl.d /run/sysctl.d. Alpine ships it in a vendor file; most distributions '' @
         ''rely on the kernel default and write nothing.'',
        ''Create or extend a drop-in containing net.ipv4.tcp_syncookies = 1. Write it down even '' @
          ''though the running kernel almost certainly reports 1 already: that is the built-in '' @
          ''default, not a decision, and a tuning drop-in that sets it to 0 will win silently.'',
        ''Leave it at 1 rather than 2 unless something specific calls for it. 1 uses cookies only '' @
          ''when a backlog overflows, so a normal connection keeps window scaling, SACK and '' @
          ''timestamps; 2 gives those up on every connection for no benefit outside a sustained flood.'',
        ''Apply without rebooting: sysctl --system, then confirm with sysctl net.ipv4.tcp_syncookies.'',
        ''Raise the backlog as well if the service is genuinely busy: cookies are the fallback for '' @
          ''an overflowing queue, and net.core.somaxconn together with the application's own listen() '' @
          ''backlog decide how often the fallback is reached.''],
       rem_commands = [''sysctl net.ipv4.tcp_syncookies'',
        ''grep -rn tcp_syncookies /etc/sysctl.conf /etc/sysctl.d /usr/lib/sysctl.d /run/sysctl.d '' @ ''2>/dev/null'',
        ''systemd-analyze cat-config sysctl.d''],
       rem_caution = ''Value 1 costs nothing on a host that is not under attack, because the fallback only '' @
         ''engages when a backlog overflows. Value 2 is the one to be careful with: it drops window '' @
         ''scaling, SACK and timestamps on every connection, which is measurable on a '' @
         ''high-throughput or high-latency link.''\<rparr>,
     ck_mappings = [\<lparr>cr_framework = ''nist-800-53-r5'', cr_control = ''SC-5''\<rparr>,
        \<lparr>cr_framework = ''nist-800-53-r5'', cr_control = ''CM-6''\<rparr>],
     ck_references = [\<lparr>ref_title = ''Linux kernel, ip-sysctl tcp_syncookies'', ref_url = ''https://www.kernel.org/doc/html/latest/networking/ip-sysctl.html''\<rparr>,
        \<lparr>ref_title = ''sysctl.d(5)'', ref_url = ''https://man7.org/linux/man-pages/man5/sysctl.d.5.html''\<rparr>],
     ck_since_catalog = 29,
     ck_deprecated = None\<rparr>"

definition Check0024 :: "payload check" where
  "Check0024 = \<lparr>ck_id = ''KERNEL-0024'',
     ck_module = ''KERNEL'',
     ck_title = ''Reverse-path filtering is written to the sysctl configuration'',
     ck_description = ''Reverse-path filtering makes the kernel drop an incoming packet'' @ [CHR 0x0A] @
       ''whose source address it would not route back out of the interface the packet'' @ [CHR 0x0A] @
       ''arrived on. Without it a host accepts packets claiming to come from anywhere,'' @ [CHR 0x0A] @
       ''which is what makes source-address spoofing useful: an attacker on one segment'' @ [CHR 0x0A] @
       ''impersonates an address on another, defeating any control that trusts a source'' @ [CHR 0x0A] @
       ''address and hiding where the traffic really came from.'' @ [CHR 0x0A, CHR 0x0A] @
       ''Two keys are checked, because they answer different questions:'' @ [CHR 0x0A, CHR 0x0A] @
       ''  - net.ipv4.conf.default.rp_filter is the template every interface created'' @ [CHR 0x0A] @
       ''    after boot inherits, a container's veth, a VPN tunnel, a hot-plugged NIC.'' @ [CHR 0x0A] @
       ''    Nothing else covers those, because they do not exist when the files are'' @ [CHR 0x0A] @
         ''    applied.'' @
       [CHR 0x0A] @ ''  - net.ipv4.conf.all.rp_filter is the floor. The kernel takes the *maximum*'' @ [CHR 0x0A] @
       ''    of it and the interface's own value, so it can raise filtering everywhere'' @ [CHR 0x0A] @
       ''    but never lower it.'' @ [CHR 0x0A, CHR 0x0A] @
       ''Either 1 or 2 passes. 1 is strict, the reverse path must be the same'' @ [CHR 0x0A] @
       ''interface, and 2 is loose, requiring only that the source be routable'' @ [CHR 0x0A] @
       ''somewhere. Loose mode is the correct and deliberate choice on a multi-homed'' @ [CHR 0x0A] @
       ''host with asymmetric routing, so failing it would punish the operators who'' @ [CHR 0x0A] @
       ''thought about it hardest.'' @ [CHR 0x0A, CHR 0x0A] @
       ''**A key set by a glob counts as set.** Red Hat's 50-redhat.conf writes'' @ [CHR 0x0A] @
       ''net.ipv4.conf.*.rp_filter rather than naming interfaces, and systemd's'' @ [CHR 0x0A] @
       ''50-default.conf does the same and then withholds the '' @ [CHR 0x22] @ ''all'' @ [CHR 0x22] @
       '' key with a bare'' @ [CHR 0x0A] @ ''-net.ipv4.conf.all.rp_filter line, so that '' @ [CHR 0x22] @ ''all'' @
       [CHR 0x22] @ '' stays 0 and an operator keeps'' @ [CHR 0x0A] @
       ''the ability to turn filtering down on one interface. Both are configured hosts.'' @ [CHR 0x0A] @
       ''A check that only looked up the literal key name would report them as having no'' @ [CHR 0x0A] @
       ''reverse-path filtering at all, which is the kind of false positive that teaches'' @ [CHR 0x0A] @
       ''an operator to stop reading the report.'' @ [CHR 0x0A, CHR 0x0A] @
       ''This is a check about files. KERNEL-0008 computes the effective value for each'' @ [CHR 0x0A] @
       ''interface that exists right now.'',
     ck_base_severity = Medium,
     ck_tags = [''kernel'', ''sysctl'', ''persistence'', ''spoofing''],
     ck_requires = [SysctlID],
     ck_eval = Some eval0024,
     ck_remediation = Some \<lparr>rem_summary = ''Write net.ipv4.conf.all.rp_filter = 1 and net.ipv4.conf.default.rp_filter = 1 to a file '' @
       ''in /etc/sysctl.d/.'',
       rem_effort = ''LOW'',
       rem_steps = [''Check what already sets them, patterns included: grep -rn rp_filter /etc/sysctl.conf '' @
         ''/etc/sysctl.d /usr/lib/sysctl.d /run/sysctl.d. A line reading net.ipv4.conf.*.rp_filter '' @
         ''sets every interface, and a bare -net.ipv4.conf.all.rp_filter withholds that one key from '' @
         ''it on purpose.'',
        ''Create or extend a drop-in containing net.ipv4.conf.all.rp_filter = 1 and '' @
          ''net.ipv4.conf.default.rp_filter = 1. Set both: default is the template for interfaces '' @
          ''that do not exist yet, and all is the floor for the ones that do.'',
        ''Use 2 rather than 1 on a multi-homed host where traffic legitimately arrives on one '' @
          ''interface and would leave by another. Loose mode still drops a source address that is '' @
          ''routable nowhere, which is most spoofing.'',
        ''Apply without rebooting: sysctl --system, then confirm per interface with sysctl -a | grep '' @
          [CHR 0x27, CHR 0x5C] @ ''.rp_filter'.'',
        ''Check the interfaces that already exist afterwards. Neither key changes an interface that '' @
          ''is up and has its own value; all raises the floor for it, and default does not apply to '' @
          ''it at all.''],
       rem_commands = [''sysctl -a 2>/dev/null | grep '' @ [CHR 0x27, CHR 0x5C] @ ''.rp_filter'' @ [CHR 0x27],
        ''grep -rn rp_filter /etc/sysctl.conf /etc/sysctl.d /usr/lib/sysctl.d /run/sysctl.d '' @ ''2>/dev/null'',
        ''systemd-analyze cat-config sysctl.d''],
       rem_caution = ''Strict mode drops legitimate traffic on a host with asymmetric routing, multiple uplinks, '' @
         ''policy routing, or a router doing anything other than symmetric forwarding. Check the '' @
         ''routing table before setting 1 host-wide; loose mode (2) is the safe answer where routing '' @
         ''is not symmetric, and a per-interface override is the answer where only one interface is '' @
         ''affected.''\<rparr>,
     ck_mappings = [\<lparr>cr_framework = ''nist-800-53-r5'', cr_control = ''SC-7''\<rparr>,
        \<lparr>cr_framework = ''nist-800-53-r5'', cr_control = ''SC-5''\<rparr>,
        \<lparr>cr_framework = ''nist-800-53-r5'', cr_control = ''CM-6''\<rparr>],
     ck_references = [\<lparr>ref_title = ''Linux kernel, ip-sysctl rp_filter'', ref_url = ''https://www.kernel.org/doc/html/latest/networking/ip-sysctl.html''\<rparr>,
        \<lparr>ref_title = ''RFC 3704. Ingress Filtering for Multihomed Networks'', ref_url = ''https://www.rfc-editor.org/rfc/rfc3704''\<rparr>,
        \<lparr>ref_title = ''sysctl.d(5)'', ref_url = ''https://man7.org/linux/man-pages/man5/sysctl.d.5.html''\<rparr>],
     ck_since_catalog = 29,
     ck_deprecated = None\<rparr>"

definition Check0025 :: "payload check" where
  "Check0025 = \<lparr>ck_id = ''KERNEL-0025'',
     ck_module = ''KERNEL'',
     ck_title = ''Source routing and ICMP redirects are refused in the sysctl configuration'',
     ck_description = ''Two ways a remote party can tell this host how to route, both'' @ [CHR 0x0A] @
       ''of them obsolete and both still enabled somewhere:'' @ [CHR 0x0A, CHR 0x0A] @
       ''**Source routing.** A source-routed packet carries its own return path. Accept'' @ [CHR 0x0A] @
       ''one and an attacker chooses the route their reply takes, which lets them reach'' @ [CHR 0x0A] @
       ''a host they have no route to, bypass a firewall that filters on path, and'' @ [CHR 0x0A] @
       ''receive replies to a source address they have spoofed. RFC 7126 records that'' @ [CHR 0x0A] @
       ''the correct handling on a host is to drop these, and there is no modern'' @ [CHR 0x0A] @
         ''legitimate use.'' @
       [CHR 0x0A, CHR 0x0A] @ ''**ICMP redirects.** A redirect is an unauthenticated packet that rewrites this'' @
       [CHR 0x0A] @ ''host's routing table. Accept one from an attacker on the same segment and'' @ [CHR 0x0A] @
       ''traffic to a chosen destination goes through them instead, a'' @ [CHR 0x0A] @
       ''man-in-the-middle that needs no ARP spoofing and leaves nothing on disk. A host'' @ [CHR 0x0A] @
       ''that does not route has no reason to take routing advice from the network.'' @ [CHR 0x0A, CHR 0x0A] @
       ''All four keys must be 0: conf.all and conf.default for each. **default is not'' @ [CHR 0x0A] @
       ''redundant with all**, it is the template copied into interfaces created after'' @ [CHR 0x0A] @
       ''the files are applied, which is every container veth, VPN tunnel and hot-plugged'' @ [CHR 0x0A] @
       ''NIC on a modern host, and nothing else covers them.'' @ [CHR 0x0A, CHR 0x0A] @
       ''The two parameters combine differently, which is why they are worth stating'' @ [CHR 0x0A] @
       ''separately even though the fix is the same line twice:'' @ [CHR 0x0A, CHR 0x0A] @
       ''  - accept_source_route is the logical AND of conf.all and the interface's own,'' @ [CHR 0x0A] @
       ''    so conf.all at 0 refuses it everywhere.'' @ [CHR 0x0A] @
       ''  - accept_redirects on a host that does not forward is the logical OR, so'' @ [CHR 0x0A] @
       ''    conf.all at 0 refuses nothing on its own; the interface's own value has to'' @ [CHR 0x0A] @
       ''    be 0 too. It also **defaults to 1**, unlike accept_source_route, so the'' @ [CHR 0x0A] @
       ''    absence of any configuration is materially worse here.'' @ [CHR 0x0A, CHR 0x0A] @
       ''A key set by a glob counts as set: a file writing net.ipv4.conf.*.accept_source_route'' @ [CHR 0x0A] @
       ''has configured every interface it matched, and a bare'' @ [CHR 0x0A] @
       ''-net.ipv4.conf.all.accept_source_route line withholds that one key from the'' @ [CHR 0x0A] @
       ''pattern deliberately.'' @ [CHR 0x0A, CHR 0x0A] @
       ''This is a check about files. KERNEL-0015 computes the effective source-routing'' @ [CHR 0x0A] @
       ''value for each interface that exists right now; redirect acceptance has no'' @ [CHR 0x0A] @
       ''runtime counterpart yet.'',
     ck_base_severity = Medium,
     ck_tags = [''kernel'', ''sysctl'', ''persistence'', ''routing''],
     ck_requires = [SysctlID],
     ck_eval = Some (\<lambda>fs. Inr (eval0025 fs)),
     ck_remediation = Some \<lparr>rem_summary = ''Write all four keys as 0 to a file in /etc/sysctl.d/.'',
       rem_effort = ''LOW'',
       rem_steps = [''Check what already sets them, patterns included: grep -rn 'accept_source_route'' @ [CHR 0x5C] @
         ''|accept_redirects' /etc/sysctl.conf /etc/sysctl.d /usr/lib/sysctl.d /run/sysctl.d.'',
        ''Create or extend a drop-in with all four lines: net.ipv4.conf.all.accept_source_route = '' @
          ''0, net.ipv4.conf.default.accept_source_route = 0, net.ipv4.conf.all.accept_redirects = 0, '' @
          ''net.ipv4.conf.default.accept_redirects = 0.'',
        ''Set the default keys even though the all keys look sufficient. default is the template '' @
          ''for interfaces created after the files are applied, container veths, VPN tunnels, '' @
          ''hot-plugged NICs, and nothing else reaches them.'',
        ''Add the IPv6 equivalents where IPv6 is in use: net.ipv6.conf.all.accept_ra, '' @
          ''net.ipv6.conf.all.accept_redirects and net.ipv6.conf.default.accept_redirects. IPv6 has '' @
          ''no source-routing key to set, having removed the header, but router advertisements are '' @
          ''the larger equivalent exposure.'',
        ''Apply without rebooting: sysctl --system, then confirm per interface with sysctl -a | '' @
          ''grep -E 'accept_(source_route|redirects)'.'',
        ''Set net.ipv4.conf.all.secure_redirects = 0 as well if nothing needs redirects at all; on '' @
          ''its own it only narrows acceptance to the current default gateways rather than refusing '' @ ''them.''],
       rem_commands = [''sysctl -a 2>/dev/null | grep -E 'accept_(source_route|redirects)'' @ [CHR 0x27],
        ''grep -rn 'accept_source_route'' @ [CHR 0x5C] @
          ''|accept_redirects' /etc/sysctl.conf /etc/sysctl.d /usr/lib/sysctl.d /run/sysctl.d '' @ ''2>/dev/null'',
        ''systemd-analyze cat-config sysctl.d''],
       rem_caution = ''Refusing redirects is safe on a host with a single default gateway and changes routing '' @
         ''behaviour on one that depends on being redirected, an unusual arrangement, but check the '' @
         ''routing table on a router or a multi-homed host first. Refusing source routing breaks '' @
         ''nothing in modern use; the feature has been deprecated for two decades.''\<rparr>,
     ck_mappings = [\<lparr>cr_framework = ''nist-800-53-r5'', cr_control = ''SC-7''\<rparr>,
        \<lparr>cr_framework = ''nist-800-53-r5'', cr_control = ''SC-8''\<rparr>,
        \<lparr>cr_framework = ''nist-800-53-r5'', cr_control = ''CM-6''\<rparr>],
     ck_references = [\<lparr>ref_title = ''Linux kernel, ip-sysctl accept_source_route and accept_redirects'', ref_url = ''https://www.kernel.org/doc/html/latest/networking/ip-sysctl.html''\<rparr>,
        \<lparr>ref_title = ''RFC 7126. Filtering of IP-Optioned Packets'', ref_url = ''https://www.rfc-editor.org/rfc/rfc7126''\<rparr>,
        \<lparr>ref_title = ''sysctl.d(5)'', ref_url = ''https://man7.org/linux/man-pages/man5/sysctl.d.5.html''\<rparr>],
     ck_since_catalog = 29,
     ck_deprecated = None\<rparr>"

definition Check0026 :: "payload check" where
  "Check0026 = \<lparr>ck_id = ''KERNEL-0026'',
     ck_module = ''KERNEL'',
     ck_title = ''IPv6 router advertisements are refused in the sysctl configuration'',
     ck_description = ''A router advertisement is an unauthenticated multicast packet'' @ [CHR 0x0A] @
       ''that tells every listening host on the segment what the prefix is and who the'' @ [CHR 0x0A] @
       ''default gateway is. It is how IPv6 stateless autoconfiguration is designed to'' @ [CHR 0x0A] @
       ''work, and it is the whole attack.'' @ [CHR 0x0A, CHR 0x0A] @
       ''Anyone who can put a frame on the segment can send one. There is no race to win'' @ [CHR 0x0A] @
       ''and no cache to poison, a host that accepts RAs installs the attacker as its'' @ [CHR 0x0A] @
       ''default gateway because that is what the protocol says to do. Two things make'' @ [CHR 0x0A] @
       ''it worse than the IPv4 equivalent:'' @ [CHR 0x0A, CHR 0x0A] @
       ''  - **It works on a network that is not using IPv6.** The stack is enabled by'' @ [CHR 0x0A] @
       ''    default on every modern distribution, so an attacker can introduce IPv6 to'' @ [CHR 0x0A] @
       ''    a v4-only segment and be the only router on it.'' @ [CHR 0x0A] @
       ''  - **The host will prefer the new route.** RFC 6724 puts IPv6 above IPv4 in'' @ [CHR 0x0A] @
       ''    destination address selection, so traffic that was working over IPv4 moves'' @ [CHR 0x0A] @
       ''    to the attacker's path without anything appearing to change.'' @ [CHR 0x0A, CHR 0x0A] @
       ''net.ipv6.conf.*.accept_ra takes three values: 0 refuses, 1 accepts unless this'' @ [CHR 0x0A] @
       ''host forwards, and 2 accepts even when it does. **1 is the default**, so a host'' @ [CHR 0x0A] @
       ''that has never been configured accepts them.'' @ [CHR 0x0A, CHR 0x0A] @
       ''Both keys are checked. conf.default is the template every interface created'' @ [CHR 0x0A] @
       ''after boot inherits, a container veth, a VPN tunnel, a hot-plugged NIC, and'' @ [CHR 0x0A] @
       ''nothing else reaches them.'' @ [CHR 0x0A, CHR 0x0A] @
       ''This check is for a host that gets its addresses statically or by DHCPv6. On a'' @ [CHR 0x0A] @
       ''host that uses SLAAC, refusing RAs removes its IPv6 address, its default route'' @ [CHR 0x0A] @
       ''and its DNS servers, which is the deliberate trade rather than a side effect.'' @ [CHR 0x0A] @
       ''See the remediation.'' @ [CHR 0x0A, CHR 0x0A] @
       ''This is a check about files. Nothing reads the running value yet.'',
     ck_base_severity = High,
     ck_tags = [''kernel'', ''sysctl'', ''persistence'', ''ipv6''],
     ck_requires = [SysctlID],
     ck_eval = Some (\<lambda>fs. Inr (eval0026 fs)),
     ck_remediation = Some \<lparr>rem_summary = ''Write net.ipv6.conf.all.accept_ra = 0 and net.ipv6.conf.default.accept_ra = 0 to a file '' @
       ''in /etc/sysctl.d/, but confirm this host does not use SLAAC first.'',
       rem_effort = ''MEDIUM'',
       rem_steps = [''Find out how this host gets its IPv6 address before changing anything. '' @ [CHR 0x60] @
         ''ip -6 addr show'' @ [CHR 0x60] @ '' marking an address '' @ [CHR 0x60] @ ''dynamic mngtmpaddr'' @
         [CHR 0x60] @ '' means it came from a router advertisement, and refusing RAs will remove it along with '' @
         ''the default route. An address from DHCPv6 or from a static configuration is unaffected.'',
        ''Check what already sets it, patterns included: grep -rn accept_ra /etc/sysctl.conf '' @
          ''/etc/sysctl.d /usr/lib/sysctl.d /run/sysctl.d.'',
        ''Create or extend a drop-in containing net.ipv6.conf.all.accept_ra = 0 and '' @
          ''net.ipv6.conf.default.accept_ra = 0. Set both: default is the template for interfaces '' @
          ''that do not exist yet, and nothing else reaches them.'',
        ''Apply without rebooting: sysctl --system, then confirm with sysctl -a | grep accept_ra, '' @
          ''and confirm the host still has the route it needs with ip -6 route.'',
        ''Where the host genuinely needs SLAAC, this is a network control rather than a host one: '' @
          ''RA Guard on the access switch drops advertisements from ports that are not the router, '' @
          ''which is the only thing that stops the attack while leaving autoconfiguration working.'',
        ''Disabling IPv6 outright is a different and usually worse answer. A stack that is down '' @
          ''cannot be attacked, but applications fall back in ways that are hard to predict, and a '' @
          ''kernel parameter is easier to reverse than an addressing decision.''],
       rem_commands = [''ip -6 addr show'',
        ''ip -6 route show'',
        ''sysctl -a 2>/dev/null | grep accept_ra'',
        ''grep -rn accept_ra /etc/sysctl.conf /etc/sysctl.d /usr/lib/sysctl.d /run/sysctl.d '' @ ''2>/dev/null''],
       rem_caution = ''On a host that autoconfigures over IPv6 this removes its address, its default route and '' @
         ''any DNS server learned from the advertisement. IPv6 connectivity stops. That is the '' @
         ''trade, not a mistake. Verify the addressing method before applying it, and be aware that '' @
         ''a cloud provider's network may hand out IPv6 by RA even where IPv4 comes from DHCP.''\<rparr>,
     ck_mappings = [\<lparr>cr_framework = ''nist-800-53-r5'', cr_control = ''SC-7''\<rparr>,
        \<lparr>cr_framework = ''nist-800-53-r5'', cr_control = ''SC-8''\<rparr>,
        \<lparr>cr_framework = ''nist-800-53-r5'', cr_control = ''CM-6''\<rparr>],
     ck_references = [\<lparr>ref_title = ''Linux kernel, ip-sysctl accept_ra'', ref_url = ''https://www.kernel.org/doc/html/latest/networking/ip-sysctl.html''\<rparr>,
        \<lparr>ref_title = ''RFC 6104. Rogue IPv6 Router Advertisement Problem Statement'', ref_url = ''https://www.rfc-editor.org/rfc/rfc6104''\<rparr>,
        \<lparr>ref_title = ''RFC 6105. IPv6 Router Advertisement Guard'', ref_url = ''https://www.rfc-editor.org/rfc/rfc6105''\<rparr>],
     ck_since_catalog = 30,
     ck_deprecated = None\<rparr>"

definition Check0027 :: "payload check" where
  "Check0027 = \<lparr>ck_id = ''KERNEL-0027'',
     ck_module = ''KERNEL'',
     ck_title = ''Sending ICMP redirects is refused in the sysctl configuration'',
     ck_description = ''An ICMP redirect is a router telling a host on its own segment'' @ [CHR 0x0A] @
       ''that there is a better first hop for some destination. Only a router has any'' @ [CHR 0x0A] @
       ''business sending one, and a host that is not routing has nothing to say.'' @ [CHR 0x0A, CHR 0x0A] @
       ''KERNEL-0025 asks whether this host *accepts* redirects, which is the'' @ [CHR 0x0A] @
       ''man-in-the-middle exposure. This asks whether it *sends* them, which is a'' @ [CHR 0x0A] @
       ''smaller and different problem:'' @ [CHR 0x0A, CHR 0x0A] @
       ''  - **It describes the network to anyone who can reach this host.** A redirect'' @ [CHR 0x0A] @
       ''    names a gateway and a destination, so an attacker who can elicit one learns'' @ [CHR 0x0A] @
       ''    a route they were not told about, internal topology, from the outside of'' @ [CHR 0x0A] @ ''    it.'' @
       [CHR 0x0A] @ ''  - **It is a statement that this host is forwarding at all.** On a machine'' @ [CHR 0x0A] @
       ''    that is not meant to be a router, a redirect leaving it is evidence that'' @ [CHR 0x0A] @
       ''    something turned forwarding on.'' @ [CHR 0x0A, CHR 0x0A] @
       ''**The parameter only has effect while forwarding is enabled, which is exactly'' @ [CHR 0x0A] @
       ''why it is worth writing down.** A host that is not forwarding sends no'' @ [CHR 0x0A] @
       ''redirects whatever this says, so setting it costs nothing today, and container'' @ [CHR 0x0A] @
       ''runtimes, VPN daemons and virtualisation hosts all enable'' @ [CHR 0x0A] @
       ''net.ipv4.ip_forward as a side effect of being installed. Docker turns it on at'' @ [CHR 0x0A] @
       ''start-up. The value of writing 0 down is that the day something enables'' @ [CHR 0x0A] @
       ''forwarding, this host still does not start advertising routes.'' @ [CHR 0x0A, CHR 0x0A] @
       ''Both keys are checked. conf.default is the template every interface created'' @ [CHR 0x0A] @
       ''after boot inherits, which on a host running containers is a new interface'' @ [CHR 0x0A] @
       ''every few seconds.'' @ [CHR 0x0A, CHR 0x0A] @
       ''This is a check about files. Nothing reads the running value yet.'',
     ck_base_severity = Medium,
     ck_tags = [''kernel'', ''sysctl'', ''persistence'', ''routing''],
     ck_requires = [SysctlID],
     ck_eval = Some (\<lambda>fs. Inr (eval0027 fs)),
     ck_remediation = Some \<lparr>rem_summary = ''Write net.ipv4.conf.all.send_redirects = 0 and net.ipv4.conf.default.send_redirects = 0 '' @
       ''to a file in /etc/sysctl.d/.'',
       rem_effort = ''LOW'',
       rem_steps = [''Check whether this host is meant to route: sysctl net.ipv4.ip_forward. If it is a router, '' @
         ''a NAT gateway or a firewall with more than one leg, leave this alone, sending redirects '' @
         ''is part of the job and suppressing them makes traffic take a longer path rather than no '' @ ''path.'',
        ''Check what already sets it, patterns included: grep -rn send_redirects /etc/sysctl.conf '' @
          ''/etc/sysctl.d /usr/lib/sysctl.d /run/sysctl.d.'',
        ''Create or extend a drop-in containing net.ipv4.conf.all.send_redirects = 0 and '' @
          ''net.ipv4.conf.default.send_redirects = 0.'',
        ''Apply without rebooting: sysctl --system, then confirm with sysctl -a | grep send_redirects.'',
        ''Expect the running value to be 1 on a host with Docker or libvirt installed even though '' @
          ''nothing configured it. Those enable net.ipv4.ip_forward, which is what makes '' @
          ''send_redirects reachable at all; this setting is what stops that side effect from turning '' @
          ''into route advertisements.''],
       rem_commands = [''sysctl net.ipv4.ip_forward'',
        ''sysctl -a 2>/dev/null | grep send_redirects'',
        ''grep -rn send_redirects /etc/sysctl.conf /etc/sysctl.d /usr/lib/sysctl.d /run/sysctl.d '' @
          ''2>/dev/null''],
       rem_caution = ''On a genuine router this suppresses a legitimate optimisation: hosts on the segment keep '' @
         ''sending through this machine instead of learning the better first hop, so traffic takes '' @
         ''an extra hop rather than failing. Do not set it on a device whose purpose is to route.''\<rparr>,
     ck_mappings = [\<lparr>cr_framework = ''nist-800-53-r5'', cr_control = ''SC-7''\<rparr>,
        \<lparr>cr_framework = ''nist-800-53-r5'', cr_control = ''CM-6''\<rparr>],
     ck_references = [\<lparr>ref_title = ''Linux kernel, ip-sysctl send_redirects'', ref_url = ''https://www.kernel.org/doc/html/latest/networking/ip-sysctl.html''\<rparr>,
        \<lparr>ref_title = ''RFC 1122. Requirements for Internet Hosts'', ref_url = ''https://www.rfc-editor.org/rfc/rfc1122''\<rparr>],
     ck_since_catalog = 30,
     ck_deprecated = None\<rparr>"

definition Check0028 :: "payload check" where
  "Check0028 = \<lparr>ck_id = ''KERNEL-0028'',
     ck_module = ''KERNEL'',
     ck_title = ''RFC 1337 TIME-WAIT protection is written to the sysctl configuration'',
     ck_description = ''When a TCP connection closes, the side that closed first holds'' @ [CHR 0x0A] @
       ''the socket in TIME-WAIT for twice the maximum segment lifetime. The socket is'' @ [CHR 0x0A] @
       ''doing something during that time: it holds the four-tuple so that a segment'' @ [CHR 0x0A] @
       ''from the old connection, delayed somewhere in the network, cannot arrive after'' @ [CHR 0x0A] @
       ''a new connection has taken the same tuple and be accepted as part of it.'' @ [CHR 0x0A, CHR 0x0A] @
       ''**A reset ends TIME-WAIT early, and that is the hazard RFC 1337 describes.** An'' @ [CHR 0x0A] @
       ''RST for a socket in TIME-WAIT tears it down immediately and frees the tuple for'' @ [CHR 0x0A] @
       ''reuse. A delayed segment from the old connection can then land inside the new'' @ [CHR 0x0A] @
       ''one, the sequence numbers may fall in the new window by chance, or be chosen,'' @ [CHR 0x0A] @
       ''and the receiver accepts data that belongs to a connection that ended.'' @ [CHR 0x0A, CHR 0x0A] @
       ''net.ipv4.tcp_rfc1337 = 1 makes the kernel drop RSTs aimed at TIME-WAIT sockets'' @ [CHR 0x0A] @
       ''instead of acting on them, which is the mitigation the RFC recommends. **The'' @ [CHR 0x0A] @
       ''kernel defaults to 0**, so no host has this unless someone set it.'' @ [CHR 0x0A, CHR 0x0A] @
       ''The realistic reach of this is narrow, and the severity says so. An attacker'' @ [CHR 0x0A] @
       ''needs to be on the path or able to guess a four-tuple and a sequence number,'' @ [CHR 0x0A] @
       ''and what they get is a corrupted or reset connection rather than access to'' @ [CHR 0x0A] @
       ''anything. It belongs in a hardening baseline because it costs nothing, not'' @ [CHR 0x0A] @
       ''because it closes a common door.'' @ [CHR 0x0A, CHR 0x0A] @
       ''This is a check about files. Nothing reads the running value yet.'',
     ck_base_severity = Low,
     ck_tags = [''kernel'', ''sysctl'', ''persistence'', ''tcp''],
     ck_requires = [SysctlID],
     ck_eval = Some (\<lambda>fs. Inr (eval0028 fs)),
     ck_remediation = Some \<lparr>rem_summary = ''Write net.ipv4.tcp_rfc1337 = 1 to a file in /etc/sysctl.d/.'',
       rem_effort = ''LOW'',
       rem_steps = [''Check what already sets it: grep -rn tcp_rfc1337 /etc/sysctl.conf /etc/sysctl.d '' @
         ''/usr/lib/sysctl.d /run/sysctl.d. Expect nothing, the kernel defaults to 0 and no '' @
         ''distribution in this project's corpus ships it.'',
        ''Create or extend a drop-in containing net.ipv4.tcp_rfc1337 = 1.'',
        ''Apply without rebooting: sysctl --system, then confirm with sysctl net.ipv4.tcp_rfc1337.'',
        ''Do not pair this with net.ipv4.tcp_tw_reuse or the long-removed tcp_tw_recycle as a set '' @
          ''of 'TIME-WAIT tuning'. They pull in opposite directions: this one makes TIME-WAIT more '' @
          ''durable on purpose, and those exist to get out of it sooner.''],
       rem_commands = [''sysctl net.ipv4.tcp_rfc1337'',
        ''grep -rn tcp_rfc1337 /etc/sysctl.conf /etc/sysctl.d /usr/lib/sysctl.d /run/sysctl.d '' @ ''2>/dev/null''],
       rem_caution = ''Effectively none. Sockets already in TIME-WAIT stay there for their full wait instead of '' @
         ''being cut short by a reset, which is what the state is for. A host exhausting its '' @
         ''ephemeral ports under very high connection churn is the only place the extra durability '' @
         ''is felt, and the answer there is the port range and keep-alive behaviour rather than '' @
         ''accepting resets from anyone.''\<rparr>,
     ck_mappings = [\<lparr>cr_framework = ''nist-800-53-r5'', cr_control = ''SC-5''\<rparr>,
        \<lparr>cr_framework = ''nist-800-53-r5'', cr_control = ''CM-6''\<rparr>],
     ck_references = [\<lparr>ref_title = ''RFC 1337. TIME-WAIT Assassination Hazards in TCP'', ref_url = ''https://www.rfc-editor.org/rfc/rfc1337''\<rparr>,
        \<lparr>ref_title = ''Linux kernel, ip-sysctl tcp_rfc1337'', ref_url = ''https://www.kernel.org/doc/html/latest/networking/ip-sysctl.html''\<rparr>],
     ck_since_catalog = 30,
     ck_deprecated = None\<rparr>"

definition Check0029 :: "payload check" where
  "Check0029 = \<lparr>ck_id = ''KERNEL-0029'',
     ck_module = ''KERNEL'',
     ck_title = ''The setuid core-dump policy is written to the sysctl configuration'',
     ck_description = ''A core dump is the crashing process's memory written to disk.'' @ [CHR 0x0A] @
       ''For an ordinary program that is a debugging convenience. For a setuid program it'' @ [CHR 0x0A] @
       ''is a copy of whatever the program held while running as somebody else, a'' @ [CHR 0x0A] @
       ''password read from a terminal, a private key, a Kerberos ticket, a session token'' @ [CHR 0x0A] @
       '', plus the addresses everything sat at, which is a defeat of layout'' @ [CHR 0x0A] @
       ''randomisation thrown in.'' @ [CHR 0x0A, CHR 0x0A] @
       ''fs.suid_dumpable decides what happens when a setuid or setgid program crashes:'' @ [CHR 0x0A, CHR 0x0A] @
       ''  - 0, no dump. The upstream default.'' @ [CHR 0x0A] @
       ''  - 1, dump like any other process, owned by the *running* user. An'' @ [CHR 0x0A] @
       ''    unprivileged user crashes a setuid binary and reads privileged memory out'' @ [CHR 0x0A] @
       ''    of the resulting file. This is the value that must never be set.'' @ [CHR 0x0A] @
       ''  - 2, dump, readable only by root. '' @ [CHR 0x22] @ ''suidsafe'' @ [CHR 0x22] @
       '': what systemd-coredump needs to'' @ [CHR 0x0A] @ ''    capture a crash of a setuid binary at all.'' @
       [CHR 0x0A, CHR 0x0A] @ ''**0 and 2 both pass, and they are not equivalent.** At 2 the privileged memory'' @
       [CHR 0x0A] @ ''still reaches the disk, where it outlives the process, is picked up by backups,'' @ [CHR 0x0A] @
       ''and is readable by anything that reaches root. It is a considered trade for a'' @ [CHR 0x0A] @
       ''host that needs crash reports, not a hardened setting, and this check says so'' @ [CHR 0x0A] @
       ''rather than passing it silently.'' @ [CHR 0x0A, CHR 0x0A] @
       ''KERNEL-0005 reads the running value and, since catalog 32, accepts the same two'' @ [CHR 0x0A] @
       ''values this check does. The pair used to disagree about 2, which put a PASS and'' @ [CHR 0x0A] @
       ''a FAIL on the same parameter in one report.'' @ [CHR 0x0A, CHR 0x0A] @
       ''This is a check about files. The kernel already defaults to 0, so most hosts'' @ [CHR 0x0A] @
       ''fail this while being safe today, which is the point: a default is not a'' @ [CHR 0x0A] @
       ''decision, and nothing on the host records that anyone chose it.'',
     ck_base_severity = High,
     ck_tags = [''kernel'', ''sysctl'', ''persistence'', ''information-leak''],
     ck_requires = [SysctlID],
     ck_eval = Some (\<lambda>fs. Inr (eval0029 fs)),
     ck_remediation = Some \<lparr>rem_summary = ''Write fs.suid_dumpable = 0 to a file in /etc/sysctl.d/, or 2 where crash reports for '' @
       ''setuid binaries are needed.'',
       rem_effort = ''LOW'',
       rem_steps = [''Check what already sets it: grep -rn suid_dumpable /etc/sysctl.conf /etc/sysctl.d '' @
         ''/usr/lib/sysctl.d /run/sysctl.d. Expect nothing on most hosts, the kernel defaults to 0 '' @
         ''and no distribution in this project's corpus writes it down.'',
        ''Create or extend a drop-in containing fs.suid_dumpable = 0. Write it down even though the '' @
          ''running kernel almost certainly reports 0 already: that is the built-in default rather '' @
          ''than a decision, and a debugging or crash-reporting package that sets 1 will win silently.'',
        ''Use 2 instead only where crashes of setuid binaries genuinely have to be captured, '' @
          ''systemd-coredump cannot collect them at 0. Understand what that buys the attacker who '' @
          ''reaches root, and make sure the dumps are not swept into a backup or a log shipper.'',
        ''Apply without rebooting: sysctl --system, then confirm with sysctl fs.suid_dumpable.'',
        ''Check where dumps land if you set 2: kernel.core_pattern decides, and a pattern piping to '' @
          ''a program runs that program as root. KERNEL-0014 covers it.''],
       rem_commands = [''sysctl fs.suid_dumpable'',
        ''grep -rn suid_dumpable /etc/sysctl.conf /etc/sysctl.d /usr/lib/sysctl.d /run/sysctl.d '' @ ''2>/dev/null'',
        ''sysctl kernel.core_pattern''],
       rem_caution = ''At 0 a crashing setuid binary produces nothing to debug with, which matters if you are '' @
         ''actually chasing a crash in one. That is the intended trade. Note that 2 is not a middle '' @
         ''setting for safety, it is a middle setting for debuggability, and the memory still '' @
         ''reaches the disk.''\<rparr>,
     ck_mappings = [\<lparr>cr_framework = ''nist-800-53-r5'', cr_control = ''SC-4''\<rparr>,
        \<lparr>cr_framework = ''nist-800-53-r5'', cr_control = ''AC-6''\<rparr>,
        \<lparr>cr_framework = ''nist-800-53-r5'', cr_control = ''CM-6''\<rparr>],
     ck_references = [\<lparr>ref_title = ''Linux kernel, fs.suid_dumpable'', ref_url = ''https://www.kernel.org/doc/html/latest/admin-guide/sysctl/fs.html#suid-dumpable''\<rparr>,
        \<lparr>ref_title = ''core(5)'', ref_url = ''https://man7.org/linux/man-pages/man5/core.5.html''\<rparr>],
     ck_since_catalog = 31,
     ck_deprecated = None\<rparr>"

definition Check0030 :: "payload check" where
  "Check0030 = \<lparr>ck_id = ''KERNEL-0030'',
     ck_module = ''KERNEL'',
     ck_title = ''Hardlink protection is written to the sysctl configuration'',
     ck_description = ''A hardlink is a second name for the same inode, and creating'' @ [CHR 0x0A] @
       ''one traditionally needed no permission on the file at all, only write access to'' @ [CHR 0x0A] @
       ''the directory the new name goes in. That is the whole problem. An unprivileged'' @ [CHR 0x0A] @
       ''user with a writable directory could link a file they cannot read, and the link'' @ [CHR 0x0A] @
       ''kept the original's contents and permissions while sitting somewhere they'' @ [CHR 0x0A] @ ''control.'' @
       [CHR 0x0A, CHR 0x0A] @ ''Two things follow, and both were real vulnerability classes:'' @
         [CHR 0x0A, CHR 0x0A] @
       ''  - **A file that gets processed later gets processed at the attacker's path.**'' @ [CHR 0x0A] @
       ''    Link /etc/shadow into a directory some privileged job cleans up, rotates or'' @ [CHR 0x0A] @
       ''    chowns, and the job acts on the attacker's chosen inode.'' @ [CHR 0x0A] @
       ''  - **Deletion stops being deletion.** A setuid program's temporary file, or a'' @ [CHR 0x0A] @
       ''    file about to be shredded, survives under a name the attacker kept.'' @ [CHR 0x0A, CHR 0x0A] @
       ''fs.protected_hardlinks = 1 requires that the user creating a link either owns'' @ [CHR 0x0A] @
       ''the file or can read and write it. It closed a run of CVEs at a stroke and has'' @ [CHR 0x0A] @
       ''essentially no compatibility cost, which is why every distribution enables it'' @ [CHR 0x0A] @
       ''and why almost none of them write it down.'' @ [CHR 0x0A, CHR 0x0A] @
       ''**The kernel defaults this to 1 on any current build, so most hosts are'' @ [CHR 0x0A] @
       ''protected while failing this check.** That is the subject: a default is not a'' @ [CHR 0x0A] @
       ''decision. Nothing on the host records that anyone chose it, and nothing stops a'' @ [CHR 0x0A] @
       ''drop-in from setting 0.'' @ [CHR 0x0A, CHR 0x0A] @
       ''This is a check about files. KERNEL-0010 asks what the running kernel does.'',
     ck_base_severity = High,
     ck_tags = [''kernel'', ''sysctl'', ''persistence'', ''privilege-escalation''],
     ck_requires = [SysctlID],
     ck_eval = Some (\<lambda>fs. Inr (eval0030 fs)),
     ck_remediation = Some \<lparr>rem_summary = ''Write fs.protected_hardlinks = 1 to a file in /etc/sysctl.d/.'',
       rem_effort = ''LOW'',
       rem_steps = [''Check what already sets it: grep -rn protected_hardlinks /etc/sysctl.conf /etc/sysctl.d '' @
         ''/usr/lib/sysctl.d /run/sysctl.d. systemd ships it in 50-default.conf on most systemd '' @
         ''hosts, and Ubuntu in 99-protect-links.conf; the RPM family commonly relies on the kernel '' @
         ''default and writes nothing.'',
        ''Create or extend a drop-in containing fs.protected_hardlinks = 1. Write it down even '' @
          ''though the running kernel reports 1: that is the kernel's built-in default rather than a '' @
          ''decision on this host, and a drop-in setting 0 would win without anything recording that '' @
          ''1 was intended.'',
        ''Apply without rebooting: sysctl --system, then confirm with sysctl fs.protected_hardlinks.'',
        ''Set fs.protected_symlinks in the same file, the two close halves of the same problem and '' @
          ''are always configured together. KERNEL-0031 covers it.''],
       rem_commands = [''sysctl fs.protected_hardlinks'',
        ''grep -rn protected_hardlinks /etc/sysctl.conf /etc/sysctl.d /usr/lib/sysctl.d '' @
          ''/run/sysctl.d 2>/dev/null'',
        ''systemd-analyze cat-config sysctl.d''],
       rem_caution = ''Effectively none. The restriction only refuses links to files the linking user could not '' @
         ''already read and write, which no ordinary workload does. Very old backup or packaging '' @
         ''tools that hardlink across ownership boundaries as root are unaffected, since root is '' @
         ''exempt.''\<rparr>,
     ck_mappings = [\<lparr>cr_framework = ''nist-800-53-r5'', cr_control = ''AC-6''\<rparr>,
        \<lparr>cr_framework = ''nist-800-53-r5'', cr_control = ''AC-3''\<rparr>,
        \<lparr>cr_framework = ''nist-800-53-r5'', cr_control = ''CM-6''\<rparr>],
     ck_references = [\<lparr>ref_title = ''Linux kernel, fs.protected_hardlinks'', ref_url = ''https://www.kernel.org/doc/html/latest/admin-guide/sysctl/fs.html#protected-hardlinks''\<rparr>,
        \<lparr>ref_title = ''Linux kernel commit 800179c9b8a1, hardlink restrictions'', ref_url = ''https://git.kernel.org/pub/scm/linux/kernel/git/torvalds/linux.git/commit/?id=800179c9b8a1''\<rparr>],
     ck_since_catalog = 31,
     ck_deprecated = None\<rparr>"

definition Check0031 :: "payload check" where
  "Check0031 = \<lparr>ck_id = ''KERNEL-0031'',
     ck_module = ''KERNEL'',
     ck_title = ''Symlink protection is written to the sysctl configuration'',
     ck_description = ''The classic local privilege escalation is four lines long. A'' @ [CHR 0x0A] @
       ''privileged program opens a predictable path in /tmp; an unprivileged user'' @ [CHR 0x0A] @
       ''replaces that path with a symlink to somewhere they should not be able to write;'' @ [CHR 0x0A] @
       ''the privileged program follows it and writes there. It is a race, it is easy to'' @ [CHR 0x0A] @
       ''win because the attacker chooses when to run, and it has been the mechanism'' @ [CHR 0x0A] @
       ''behind a very long run of CVEs.'' @ [CHR 0x0A, CHR 0x0A] @
       ''fs.protected_symlinks = 1 breaks it in the kernel rather than in each program.'' @ [CHR 0x0A] @
       ''In a world-writable sticky directory such as /tmp, /var/tmp or /dev/shm, a'' @ [CHR 0x0A] @
       ''symlink is only followed when the person following it owns the link, or owns the directory.'' @ [CHR 0x0A] @
       ''An attacker's link in /tmp is therefore not followed by root, and the race'' @ [CHR 0x0A] @
       ''becomes unwinnable regardless of how the program was written.'' @ [CHR 0x0A, CHR 0x0A] @
       ''This is defence for code you did not write and cannot audit: every shell script'' @ [CHR 0x0A] @
       ''that redirects into /tmp, every package post-install, every log rotator. The'' @ [CHR 0x0A] @
       ''restriction applies only in sticky world-writable directories, so nothing'' @ [CHR 0x0A] @
       ''outside that pattern is affected.'' @ [CHR 0x0A, CHR 0x0A] @
       ''**The kernel defaults this to 1 on any current build, so most hosts are'' @ [CHR 0x0A] @
       ''protected while failing this check.** That is the subject: a default is not a'' @ [CHR 0x0A] @
       ''decision, and nothing here stops a drop-in from setting 0.'' @ [CHR 0x0A, CHR 0x0A] @
       ''This is a check about files. KERNEL-0009 asks what the running kernel does.'',
     ck_base_severity = High,
     ck_tags = [''kernel'', ''sysctl'', ''persistence'', ''privilege-escalation''],
     ck_requires = [SysctlID],
     ck_eval = Some (\<lambda>fs. Inr (eval0031 fs)),
     ck_remediation = Some \<lparr>rem_summary = ''Write fs.protected_symlinks = 1 to a file in /etc/sysctl.d/.'',
       rem_effort = ''LOW'',
       rem_steps = [''Check what already sets it: grep -rn protected_symlinks /etc/sysctl.conf /etc/sysctl.d '' @
         ''/usr/lib/sysctl.d /run/sysctl.d. systemd ships it in 50-default.conf on most systemd '' @
         ''hosts, and Ubuntu in 99-protect-links.conf; the RPM family commonly relies on the kernel '' @
         ''default and writes nothing.'',
        ''Create or extend a drop-in containing fs.protected_symlinks = 1. Write it down even '' @
          ''though the running kernel reports 1: that is the kernel's built-in default rather than a '' @
          ''decision on this host.'',
        ''Apply without rebooting: sysctl --system, then confirm with sysctl fs.protected_symlinks.'',
        ''Set fs.protected_hardlinks in the same file, the two close halves of the same problem and '' @
          ''are always configured together. KERNEL-0030 covers it.'',
        ''Consider fs.protected_regular = 2 and fs.protected_fifos = 1 alongside them: they extend '' @
          ''the same idea from following a link to opening a file or FIFO another user planted. '' @
          ''KERNEL-0011 and KERNEL-0012 read the running values.''],
       rem_commands = [''sysctl fs.protected_symlinks'',
        ''grep -rn protected_symlinks /etc/sysctl.conf /etc/sysctl.d /usr/lib/sysctl.d '' @
          ''/run/sysctl.d 2>/dev/null'',
        ''systemd-analyze cat-config sysctl.d''],
       rem_caution = ''Effectively none. The restriction applies only inside world-writable sticky directories '' @
         ''and only to links whose owner differs from both the follower and the directory owner, '' @
         ''which is a pattern legitimate software does not rely on. A program that genuinely needs '' @
         ''to follow another user's link in /tmp is describing the vulnerability rather than a '' @
         ''requirement.''\<rparr>,
     ck_mappings = [\<lparr>cr_framework = ''nist-800-53-r5'', cr_control = ''AC-6''\<rparr>,
        \<lparr>cr_framework = ''nist-800-53-r5'', cr_control = ''SI-10''\<rparr>,
        \<lparr>cr_framework = ''nist-800-53-r5'', cr_control = ''CM-6''\<rparr>],
     ck_references = [\<lparr>ref_title = ''Linux kernel, fs.protected_symlinks'', ref_url = ''https://www.kernel.org/doc/html/latest/admin-guide/sysctl/fs.html#protected-symlinks''\<rparr>,
        \<lparr>ref_title = ''Linux kernel commit 800179c9b8a1, symlink restrictions'', ref_url = ''https://git.kernel.org/pub/scm/linux/kernel/git/torvalds/linux.git/commit/?id=800179c9b8a1''\<rparr>],
     ck_since_catalog = 31,
     ck_deprecated = None\<rparr>"

definition kernel_checks :: "payload check list" where
  "kernel_checks = [Check0001, Check0002, Check0003, Check0004, Check0005, Check0006, Check0007, Check0008, Check0009, Check0010, Check0011, Check0012, Check0013, Check0014, Check0015, Check0016, Check0017, Check0018, Check0019, Check0020, Check0021, Check0022, Check0023, Check0024, Check0025, Check0026, Check0027, Check0028, Check0029, Check0030, Check0031]"

lemmas kernel_entries = Check0001_def Check0002_def Check0003_def Check0004_def Check0005_def Check0006_def Check0007_def Check0008_def Check0009_def Check0010_def Check0011_def Check0012_def Check0013_def Check0014_def Check0015_def Check0016_def Check0017_def Check0018_def Check0019_def Check0020_def Check0021_def Check0022_def Check0023_def Check0024_def Check0025_def Check0026_def Check0027_def Check0028_def Check0029_def Check0030_def Check0031_def

text \<open>What the proofs need of an entry: the facts it requires and the function it runs.\<close>

lemma kernel_evals:
  "ck_eval Check0001 = Some (\<lambda>fs. Inr (eval0001 fs))"
  "ck_eval Check0002 = Some (\<lambda>fs. Inr (eval0002 fs))"
  "ck_eval Check0003 = Some (\<lambda>fs. Inr (eval0003 fs))"
  "ck_eval Check0004 = Some (\<lambda>fs. Inr (eval0004 fs))"
  "ck_eval Check0005 = Some (\<lambda>fs. Inr (eval0005 fs))"
  "ck_eval Check0006 = Some (\<lambda>fs. Inr (eval0006 fs))"
  "ck_eval Check0007 = Some (\<lambda>fs. Inr (eval0007 fs))"
  "ck_eval Check0008 = Some (\<lambda>fs. Inr (eval0008 fs))"
  "ck_eval Check0009 = Some (\<lambda>fs. Inr (eval0009 fs))"
  "ck_eval Check0010 = Some (\<lambda>fs. Inr (eval0010 fs))"
  "ck_eval Check0011 = Some (\<lambda>fs. Inr (eval0011 fs))"
  "ck_eval Check0012 = Some (\<lambda>fs. Inr (eval0012 fs))"
  "ck_eval Check0013 = Some (\<lambda>fs. Inr (eval0013 fs))"
  "ck_eval Check0014 = Some (\<lambda>fs. Inr (eval0014 fs))"
  "ck_eval Check0015 = Some (\<lambda>fs. Inr (eval0015 fs))"
  "ck_eval Check0016 = Some (\<lambda>fs. Inr (eval0016 fs))"
  "ck_eval Check0017 = Some (\<lambda>fs. Inr (eval0017 fs))"
  "ck_eval Check0018 = Some (\<lambda>fs. Inr (eval0018 fs))"
  "ck_eval Check0019 = Some (\<lambda>fs. Inr (eval0019 fs))"
  "ck_eval Check0020 = Some (\<lambda>fs. Inr (eval0020 fs))"
  "ck_eval Check0021 = Some (\<lambda>fs. Inr (eval0021 fs))"
  "ck_eval Check0022 = Some (\<lambda>fs. Inr (eval0022 fs))"
  "ck_eval Check0023 = Some (\<lambda>fs. Inr (eval0023 fs))"
  "ck_eval Check0024 = Some eval0024"
  "ck_eval Check0025 = Some (\<lambda>fs. Inr (eval0025 fs))"
  "ck_eval Check0026 = Some (\<lambda>fs. Inr (eval0026 fs))"
  "ck_eval Check0027 = Some (\<lambda>fs. Inr (eval0027 fs))"
  "ck_eval Check0028 = Some (\<lambda>fs. Inr (eval0028 fs))"
  "ck_eval Check0029 = Some (\<lambda>fs. Inr (eval0029 fs))"
  "ck_eval Check0030 = Some (\<lambda>fs. Inr (eval0030 fs))"
  "ck_eval Check0031 = Some (\<lambda>fs. Inr (eval0031 fs))"
    apply (subst Check0001_def, rule check.select_convs)
    apply (subst Check0002_def, rule check.select_convs)
    apply (subst Check0003_def, rule check.select_convs)
    apply (subst Check0004_def, rule check.select_convs)
    apply (subst Check0005_def, rule check.select_convs)
    apply (subst Check0006_def, rule check.select_convs)
    apply (subst Check0007_def, rule check.select_convs)
    apply (subst Check0008_def, rule check.select_convs)
    apply (subst Check0009_def, rule check.select_convs)
    apply (subst Check0010_def, rule check.select_convs)
    apply (subst Check0011_def, rule check.select_convs)
    apply (subst Check0012_def, rule check.select_convs)
    apply (subst Check0013_def, rule check.select_convs)
    apply (subst Check0014_def, rule check.select_convs)
    apply (subst Check0015_def, rule check.select_convs)
    apply (subst Check0016_def, rule check.select_convs)
    apply (subst Check0017_def, rule check.select_convs)
    apply (subst Check0018_def, rule check.select_convs)
    apply (subst Check0019_def, rule check.select_convs)
    apply (subst Check0020_def, rule check.select_convs)
    apply (subst Check0021_def, rule check.select_convs)
    apply (subst Check0022_def, rule check.select_convs)
    apply (subst Check0023_def, rule check.select_convs)
    apply (subst Check0024_def, rule check.select_convs)
    apply (subst Check0025_def, rule check.select_convs)
    apply (subst Check0026_def, rule check.select_convs)
    apply (subst Check0027_def, rule check.select_convs)
    apply (subst Check0028_def, rule check.select_convs)
    apply (subst Check0029_def, rule check.select_convs)
    apply (subst Check0030_def, rule check.select_convs)
    apply (subst Check0031_def, rule check.select_convs)
  done

lemma kernel_requires:
  "ck_requires Check0001 = [SysctlID]"
  "ck_requires Check0002 = [SysctlID]"
  "ck_requires Check0003 = [SysctlID]"
  "ck_requires Check0004 = [SysctlID]"
  "ck_requires Check0005 = [SysctlID]"
  "ck_requires Check0006 = [SysctlID]"
  "ck_requires Check0007 = [SysctlID]"
  "ck_requires Check0008 = [SysctlID]"
  "ck_requires Check0009 = [SysctlID]"
  "ck_requires Check0010 = [SysctlID]"
  "ck_requires Check0011 = [SysctlID]"
  "ck_requires Check0012 = [SysctlID]"
  "ck_requires Check0013 = [SysctlID]"
  "ck_requires Check0014 = [SysctlID]"
  "ck_requires Check0015 = [SysctlID]"
  "ck_requires Check0016 = [SysctlID]"
  "ck_requires Check0017 = [SysctlID]"
  "ck_requires Check0018 = [SysctlID]"
  "ck_requires Check0019 = [SysctlID]"
  "ck_requires Check0020 = [SysctlID]"
  "ck_requires Check0021 = [SysctlID]"
  "ck_requires Check0022 = [SysctlID]"
  "ck_requires Check0023 = [SysctlID]"
  "ck_requires Check0024 = [SysctlID]"
  "ck_requires Check0025 = [SysctlID]"
  "ck_requires Check0026 = [SysctlID]"
  "ck_requires Check0027 = [SysctlID]"
  "ck_requires Check0028 = [SysctlID]"
  "ck_requires Check0029 = [SysctlID]"
  "ck_requires Check0030 = [SysctlID]"
  "ck_requires Check0031 = [SysctlID]"
    apply (subst Check0001_def, rule check.select_convs)
    apply (subst Check0002_def, rule check.select_convs)
    apply (subst Check0003_def, rule check.select_convs)
    apply (subst Check0004_def, rule check.select_convs)
    apply (subst Check0005_def, rule check.select_convs)
    apply (subst Check0006_def, rule check.select_convs)
    apply (subst Check0007_def, rule check.select_convs)
    apply (subst Check0008_def, rule check.select_convs)
    apply (subst Check0009_def, rule check.select_convs)
    apply (subst Check0010_def, rule check.select_convs)
    apply (subst Check0011_def, rule check.select_convs)
    apply (subst Check0012_def, rule check.select_convs)
    apply (subst Check0013_def, rule check.select_convs)
    apply (subst Check0014_def, rule check.select_convs)
    apply (subst Check0015_def, rule check.select_convs)
    apply (subst Check0016_def, rule check.select_convs)
    apply (subst Check0017_def, rule check.select_convs)
    apply (subst Check0018_def, rule check.select_convs)
    apply (subst Check0019_def, rule check.select_convs)
    apply (subst Check0020_def, rule check.select_convs)
    apply (subst Check0021_def, rule check.select_convs)
    apply (subst Check0022_def, rule check.select_convs)
    apply (subst Check0023_def, rule check.select_convs)
    apply (subst Check0024_def, rule check.select_convs)
    apply (subst Check0025_def, rule check.select_convs)
    apply (subst Check0026_def, rule check.select_convs)
    apply (subst Check0027_def, rule check.select_convs)
    apply (subst Check0028_def, rule check.select_convs)
    apply (subst Check0029_def, rule check.select_convs)
    apply (subst Check0030_def, rule check.select_convs)
    apply (subst Check0031_def, rule check.select_convs)
  done

lemma kernel_check_requires: "ck \<in> set kernel_checks \<Longrightarrow> ck_requires ck = [SysctlID]"
  unfolding kernel_checks_def by (auto simp: kernel_requires)

end
