(* ===== verification/Kernel_Reread.thy ===== *)
theory Kernel_Reread
  imports Fact_Codec Kernel_Catalog
begin

text \<open>
  The checks of the KERNEL module reach the same findings over a fact read back from a bundle as over the one that
  was collected: the two differ in the order of the lists that stand for maps, and no check depends on it.
\<close>

section \<open>What the checks read of the fact\<close>

definition wf_sysctl :: "sysctl \<Rightarrow> bool" where
  "wf_sysctl s \<longleftrightarrow> wf_map (sy_running s) \<and> wf_map (sy_configured s) \<and> wf_map (sy_digests s) \<and> wf_map (sy_resolved s)"

named_theorems rereads \<open>functions of a sysctl fact that reading it back leaves alone\<close>

lemma keys_rebuild: "wf_map m \<Longrightarrow> keys (rebuild id m) = keys m"
  by (rule sorted_distinct_set_unique) (simp_all add: gm.sorted_ks gm.distinct_ks gm.set_ks)

lemma reread_fields [rereads]:
  "sy_files (reread_sysctl s) = sy_files s" "sy_excluded (reread_sysctl s) = sy_excluded s"
  "sy_unreadable (reread_sysctl s) = sy_unreadable s"
  by (simp_all add: reread_sysctl_def)

lemma reread_lookups [rereads]:
  assumes "wf_sysctl s"
  shows "Run (reread_sysctl s) = Run s" "configured (reread_sysctl s) = configured s" "ResolvedFrom (reread_sysctl s) = ResolvedFrom s"
    "digest_in (reread_sysctl s) = digest_in s" "RunningMatching (reread_sysctl s) = RunningMatching s"
    "RunningKeys (reread_sysctl s) = RunningKeys s" "ConfiguredKeys (reread_sysctl s) = ConfiguredKeys s"
  using assms
  by (simp_all add: wf_sysctl_def fun_eq_iff Run_def configured_def ResolvedFrom_def digest_in_def RunningMatching_def
      RunningKeys_def ConfiguredKeys_def reread_sysctl_def keys_rebuild option.map_id0)

lemma reread_settings [rereads]:
  assumes "wf_sysctl s"
  shows "SettingsFor (reread_sysctl s) = SettingsFor s"
proof -
  have "keys (sy_configured (reread_sysctl s)) = keys (sy_configured s)" using assms
    by (simp add: reread_sysctl_def wf_sysctl_def keys_rebuild)
  moreover have "file_pos (reread_sysctl s) = file_pos s" by (simp only: fun_eq_iff file_pos_def rereads simp_thms)
  ultimately show ?thesis using assms by (simp add: fun_eq_iff SettingsFor_def Let_def rereads)
qed

lemma reread_effective [rereads]:
  assumes "wf_sysctl s"
  shows "EffectiveConfigured (reread_sysctl s) = EffectiveConfigured s" "ExcludedFrom (reread_sysctl s) = ExcludedFrom s"
    "directoryWinners (reread_sysctl s) = directoryWinners s" "UnreadableFileNames (reread_sysctl s) = UnreadableFileNames s"
    "WorstUnreadableKind (reread_sysctl s) = WorstUnreadableKind s"
  by (simp_all only: fun_eq_iff EffectiveConfigured_def ExcludedFrom_def directoryWinners_def UnreadableFileNames_def
      WorstUnreadableKind_def rereads assms simp_thms)

lemma reread_conflict [rereads]:
  assumes "wf_sysctl s"
  shows "GlobbedBy (reread_sysctl s) = GlobbedBy s" "ConfiguredConflict (reread_sysctl s) = ConfiguredConflict s"
  by (simp_all only: fun_eq_iff GlobbedBy_def ConfiguredConflict_def rereads assms simp_thms)

lemma reread_loops [rereads]:
  assumes "wf_sysctl s"
  shows "runtime_loop (reread_sysctl s) reqs = runtime_loop s reqs" "pattern_loop (reread_sysctl s) ps = pattern_loop s ps"
  subgoal by (induction reqs) (simp_all only: runtime_loop.simps rereads assms simp_thms)
  subgoal by (induction ps) (simp_all only: pattern_loop.simps rereads assms simp_thms)
  done

section \<open>What the checks share\<close>

lemma reread_layer1 [rereads]:
  assumes "wf_sysctl s"
  shows "evidenceForSetting (reread_sysctl s) = evidenceForSetting s"
    "runningFor (reread_sysctl s) = runningFor s"
    "searchedEvidence (reread_sysctl s) = searchedEvidence s"
    "configuredAt (reread_sysctl s) = configuredAt s"
    "notConfigured (reread_sysctl s) = notConfigured s"
    "configUnreadable (reread_sysctl s) = configUnreadable s"
    "unimplemented (reread_sysctl s) = unimplemented s"
    "runtimeTier (reread_sysctl s) = runtimeTier s"
    "contradicting (reread_sysctl s) = contradicting s"
    "runningMismatch (reread_sysctl s) = runningMismatch s"
    "lp_running (reread_sysctl s) = lp_running s"
    "unreadableEvidence (reread_sysctl s) = unreadableEvidence s"
    "intValue (reread_sysctl s) = intValue s"
    "running_where P (reread_sysctl s) = running_where P s"
    "observed (reread_sysctl s) = observed s"
    "interface_set (reread_sysctl s) = interface_set s"
  by (simp_all only: fun_eq_iff evidenceForSetting_def runningFor_def searchedEvidence_def configuredAt_def
      notConfigured_def configUnreadable_def unimplemented_def runtimeTier_def contradicting_def
      runningMismatch_def lp_running_def unreadableEvidence_def intValue_def running_where_def observed_def
      interface_set_def
      rereads assms simp_thms)

lemma reread_layer2 [rereads]:
  assumes "wf_sysctl s"
  shows "driftNote (reread_sysctl s) = driftNote s"
    "configuredEvidence (reread_sysctl s) = configuredEvidence s"
    "conflict_outcome (reread_sysctl s) = conflict_outcome s"
    "check_requirement (reread_sysctl s) = check_requirement s"
    "tierAbsence out (reread_sysctl s) = tierAbsence out s"
    "runningContradiction (reread_sysctl s) = runningContradiction s"
    "drift_step (reread_sysctl s) = drift_step s"
    "bpfFailureDetail (reread_sysctl s) = bpfFailureDetail s"
    "runningNote (reread_sysctl s) = runningNote s"
    "bpf_step (reread_sysctl s) = bpf_step s"
    "kptrMissingDetail (reread_sysctl s) = kptrMissingDetail s"
    "kptrRunningNote (reread_sysctl s) = kptrRunningNote s"
    "dmesgRunningNote (reread_sysctl s) = dmesgRunningNote s"
    "rpFilterPatternCovers (reread_sysctl s) = rpFilterPatternCovers s"
    "rpFilterConfiguredNotes (reread_sysctl s) = rpFilterConfiguredNotes s"
    "rp_step (reread_sysctl s) = rp_step s"
    "forwardingNote (reread_sysctl s) = forwardingNote s"
  by (simp_all only: fun_eq_iff driftNote_def configuredEvidence_def conflict_outcome_def
      check_requirement_def tierAbsence_def runningContradiction_def drift_step_def bpfFailureDetail_def
      runningNote_def bpf_step_def kptrMissingDetail_def kptrRunningNote_def dmesgRunningNote_def
      rpFilterPatternCovers_def rpFilterConfiguredNotes_def rp_step_def forwardingNote_def
      rereads assms simp_thms)

lemma reread_layer3 [rereads]:
  assumes "wf_sysctl s"
  shows "persistenceGate (reread_sysctl s) = persistenceGate s"
    "checkRequirements (reread_sysctl s) = checkRequirements s"
    "tierRequirementFailure out (reread_sysctl s) = tierRequirementFailure out s"
    "unparseableConfig (reread_sysctl s) = unparseableConfig s"
    "file_verdict res (reread_sysctl s) = file_verdict res s"
    "rp_verdict (reread_sysctl s) = rp_verdict s"
  by (simp_all only: fun_eq_iff persistenceGate_def checkRequirements_def tierRequirementFailure_def
      unparseableConfig_def file_verdict_def rp_verdict_def
      rereads assms simp_thms)

section \<open>The evaluations\<close>

lemma reread_families:
  assumes "sysctlFact fs' = reread_sysctl (sysctlFact fs)" and "wf_sysctl (sysctlFact fs)"
  shows "intCheck key ok sev detail fs' = intCheck key ok sev detail fs" "lp_eval l fs' = lp_eval l fs"
    "tail (reread_sysctl (sysctlFact fs)) = tail (sysctlFact fs) \<Longrightarrow> table_eval reqs caveat tail pass fs' = table_eval reqs caveat tail pass fs"
    "absent (reread_sysctl (sysctlFact fs)) = absent (sysctlFact fs) \<Longrightarrow> verdict (reread_sysctl (sysctlFact fs)) = verdict (sysctlFact fs)
      \<Longrightarrow> one_key key caveat absent verdict fs' = one_key key caveat absent verdict fs"
  by (simp_all only: intCheck_def lp_eval_def table_eval_def one_key_def Let_def assms rereads simp_thms)

lemma reread_missing [rereads]:
  assumes "wf_sysctl s" "detail (reread_sysctl s) = detail s"
  shows "missing key detail reqs caveat (reread_sysctl s) = missing key detail reqs caveat s"
  by (simp only: missing_def rereads assms simp_thms)

lemma reread_evals:
  assumes "sysctlFact fs' = reread_sysctl (sysctlFact fs)" and "wf_sysctl (sysctlFact fs)"
  shows "eval0001 fs' = eval0001 fs" "eval0002 fs' = eval0002 fs" "eval0003 fs' = eval0003 fs"
    "eval0004 fs' = eval0004 fs" "eval0005 fs' = eval0005 fs" "eval0006 fs' = eval0006 fs"
    "eval0007 fs' = eval0007 fs" "eval0008 fs' = eval0008 fs" "eval0009 fs' = eval0009 fs"
    "eval0010 fs' = eval0010 fs" "eval0011 fs' = eval0011 fs" "eval0012 fs' = eval0012 fs"
    "eval0013 fs' = eval0013 fs" "eval0014 fs' = eval0014 fs" "eval0015 fs' = eval0015 fs"
    "eval0016 fs' = eval0016 fs" "eval0017 fs' = eval0017 fs" "eval0018 fs' = eval0018 fs"
    "eval0019 fs' = eval0019 fs" "eval0020 fs' = eval0020 fs" "eval0021 fs' = eval0021 fs"
    "eval0022 fs' = eval0022 fs" "eval0023 fs' = eval0023 fs" "eval0024 fs' = eval0024 fs"
    "eval0025 fs' = eval0025 fs" "eval0026 fs' = eval0026 fs" "eval0027 fs' = eval0027 fs"
    "eval0028 fs' = eval0028 fs" "eval0029 fs' = eval0029 fs" "eval0030 fs' = eval0030 fs"
    "eval0031 fs' = eval0031 fs"
  by (simp_all only: eval0001_def eval0002_def eval0003_def eval0004_def eval0005_def eval0006_def eval0007_def eval0008_def
      eval0009_def eval0010_def eval0011_def eval0012_def eval0013_def eval0014_def eval0015_def eval0016_def
      eval0017_def eval0018_def eval0019_def eval0020_def eval0021_def eval0022_def eval0023_def eval0024_def
      eval0025_def eval0026_def eval0027_def eval0028_def eval0029_def eval0030_def eval0031_def
      Let_def reread_families rereads fun_eq_iff assms simp_thms)

lemma kernel_evals_reread:
  assumes "sysctlFact fs' = reread_sysctl (sysctlFact fs)" "wf_sysctl (sysctlFact fs)"
    and "ck \<in> set kernel_checks" "ck_eval ck = Some ev"
  shows "ev fs' = ev fs"
proof -
  have "list_all (\<lambda>ck. map_option (\<lambda>ev. ev fs') (ck_eval ck) = map_option (\<lambda>ev. ev fs) (ck_eval ck)) kernel_checks"
    unfolding kernel_checks_def list.pred_inject kernel_evals option.map reread_evals[OF assms(1,2)] by simp
  then show ?thesis using assms(3,4) by (auto simp: list_all_iff)
qed

end
