(* ===== verification/Users_Checks.thy ===== *)
theory Users_Checks
  imports Payload Catalog
begin

text \<open>
  internal/catalog/checks/users: the evaluation half of the USERS module. First the plumbing of users.go, then the
  checks. A loop that appends to several lists at once is written as one list each, in the order of the entries. The
  checks' text, remediation and mappings are in theory Users_Catalog.
\<close>

section \<open>Reading the facts\<close>

definition empty_passwd :: passwd where
  "empty_passwd = \<lparr>pw_entries = [], pw_compat = [], pw_malformed = [], pw_path = [], pw_digest = []\<rparr>"

definition empty_shadow :: shadow where
  "empty_shadow = \<lparr>sh_entries = [], sh_malformed = [], sh_path = []\<rparr>"

definition empty_group :: group_file where
  "empty_group = \<lparr>gr_entries = [], gr_compat = [], gr_malformed = [], gr_path = [], gr_digest = []\<rparr>"

definition empty_login_defs :: login_defs where
  "empty_login_defs = \<lparr>ld_state = [], ld_path = [], ld_msg = [], ld_digest = [], ld_settings = []\<rparr>"

definition passwdFact :: "payload fact_set \<Rightarrow> passwd" where
  "passwdFact fs =
     (case get (\<lambda>f. as_passwd (payload f)) (\<lambda>f. payload_type (payload f)) ''fact.Passwd'' fs PasswdID of
        Present p \<Rightarrow> p | _ \<Rightarrow> empty_passwd)"

definition shadowFact :: "payload fact_set \<Rightarrow> shadow" where
  "shadowFact fs =
     (case get (\<lambda>f. as_shadow (payload f)) (\<lambda>f. payload_type (payload f)) ''fact.Shadow'' fs ShadowID of
        Present s \<Rightarrow> s | _ \<Rightarrow> empty_shadow)"

definition groupFact :: "payload fact_set \<Rightarrow> group_file" where
  "groupFact fs =
     (case get (\<lambda>f. as_group (payload f)) (\<lambda>f. payload_type (payload f)) ''fact.Group'' fs GroupID of
        Present g \<Rightarrow> g | _ \<Rightarrow> empty_group)"

definition loginDefsFact :: "payload fact_set \<Rightarrow> login_defs" where
  "loginDefsFact fs =
     (case get (\<lambda>f. as_login_defs (payload f)) (\<lambda>f. payload_type (payload f)) ''fact.LoginDefs'' fs LoginDefsID of
        Present l \<Rightarrow> l | _ \<Rightarrow> empty_login_defs)"

section \<open>Shared plumbing\<close>

definition joinInts :: "int list \<Rightarrow> string" where
  "joinInts ns = join '', '' (map int_str (sort ns))"

definition joinNames :: "string list \<Rightarrow> string" where
  "joinNames ns = join '', '' (sort ns)"

record incompleteness =
  inc_compat :: "compat_entry list"
  inc_malformed :: "int list"

definition incomplete_any :: "incompleteness \<Rightarrow> bool" where
  "incomplete_any i \<longleftrightarrow> inc_compat i \<noteq> [] \<or> inc_malformed i \<noteq> []"

definition compat_specs :: "compat_entry list \<Rightarrow> string" where
  "compat_specs cs = join '', '' (map (\<lambda>c. (go_quote (ce_spec c) @ '' at line '' @ int_str (ce_line c))) cs)"

definition incomplete_reason :: "incompleteness \<Rightarrow> passwd \<Rightarrow> string" where
  "incomplete_reason i p = join ''; ''
     ((if inc_compat i = [] then [] else [(pw_path p @ '' imports accounts from a directory service ('' @
       compat_specs (inc_compat i) @ ''), so the accounts it governs are not in this file'')])
      @ (if inc_malformed i = [] then []
         else [(nat_str (length (inc_malformed i)) @ '' line(s) of '' @ pw_path p @ '' could not be parsed (line '' @
           joinInts (inc_malformed i) @
           ''), and a line we could not read could have held the account in question'')]))"

definition incomplete_evidence :: "incompleteness \<Rightarrow> passwd \<Rightarrow> evidence list" where
  "incomplete_evidence i p =
     map (\<lambda>c. new_evidence (pw_path p) (ce_line c) (ce_spec c @
       ''  (directory-service import; the accounts it adds are not in this file)'')
       (pw_digest p)) (inc_compat i)
     @ map (\<lambda>n. new_evidence (pw_path p) n ''unparseable line'' (pw_digest p)) (inc_malformed i)"

definition incompleteView :: "passwd \<Rightarrow> incompleteness" where
  "incompleteView p = \<lparr>inc_compat = pw_compat p, inc_malformed = pw_malformed p\<rparr>"

definition unknownIfIncomplete :: "passwd \<Rightarrow> outcome \<Rightarrow> outcome" where
  "unknownIfIncomplete p pass =
     (if oc_result pass \<noteq> Pass then pass
      else if \<not> incomplete_any (incompleteView p) then pass
      else zero_outcome\<lparr>oc_result := Unknown, oc_reason := ReasonAmbiguousState, oc_subject := oc_subject pass,
        oc_detail := (''No violation was found among the accounts defined locally, but '' @
          incomplete_reason (incompleteView p) p @
          ''. The result therefore cannot be confirmed for every account on this host.''),
        oc_evidence := incomplete_evidence (incompleteView p) p\<rparr>)"

definition shadowIncomplete :: "shadow \<Rightarrow> bool" where
  "shadowIncomplete s \<longleftrightarrow> sh_malformed s \<noteq> []"

definition shadowEvidence :: "shadow \<Rightarrow> int list \<Rightarrow> string \<Rightarrow> evidence list" where
  "shadowEvidence s ns excerpt = map (\<lambda>n. new_evidence (sh_path s) n excerpt []) ns"

definition unknownIfShadowIncomplete :: "passwd \<Rightarrow> shadow \<Rightarrow> outcome \<Rightarrow> outcome" where
  "unknownIfShadowIncomplete p s pass =
     (if oc_result pass \<noteq> Pass then pass
      else if shadowIncomplete s
      then zero_outcome\<lparr>oc_result := Unknown, oc_reason := ReasonParse, oc_subject := oc_subject pass,
        oc_detail := (''No violation was found among the entries that parsed, but '' @
          nat_str (length (sh_malformed s)) @ '' line(s) of '' @ sh_path s @ '' could not be read (line '' @
          joinInts (sh_malformed s) @ ''), and an unreadable line could have held the account in question.''),
        oc_evidence := shadowEvidence s (sh_malformed s) ''unparseable line''\<rparr>
      else unknownIfIncomplete p pass)"

definition group_reason :: "group_file \<Rightarrow> string" where
  "group_reason g = join ''; ''
     ((if gr_compat g = [] then [] else [(gr_path g @ '' imports groups from a directory service ('' @
       compat_specs (gr_compat g) @ ''), so the groups it governs are not in this file'')])
      @ (if gr_malformed g = [] then []
         else [(nat_str (length (gr_malformed g)) @ '' line(s) of '' @ gr_path g @ '' could not be parsed (line '' @
           joinInts (gr_malformed g) @ ''), and a line we could not read could have held the group in question'')]))"

definition unknownIfGroupIncomplete :: "group_file \<Rightarrow> outcome \<Rightarrow> outcome" where
  "unknownIfGroupIncomplete g pass =
     (if oc_result pass \<noteq> Pass then pass
      else if gr_compat g = [] \<and> gr_malformed g = [] then pass
      else zero_outcome\<lparr>oc_result := Unknown,
        oc_reason := (if gr_malformed g = [] then ReasonAmbiguousState else ReasonParse), oc_subject := oc_subject pass,
        oc_detail := (''No violation was found among the groups defined locally, but '' @ group_reason g @
          ''. The result therefore cannot be confirmed for every group on this host.''),
        oc_evidence :=
          map (\<lambda>c. new_evidence (gr_path g) (ce_line c) (ce_spec c @
            ''  (directory-service import; the groups it adds are not in this file)'')
            (gr_digest g)) (gr_compat g)
          @ map (\<lambda>n. new_evidence (gr_path g) n ''unparseable line'' (gr_digest g)) (gr_malformed g)\<rparr>)"

definition groupEvidence :: "group_file \<Rightarrow> group_entry \<Rightarrow> evidence" where
  "groupEvidence g e = new_evidence (gr_path g) (ge_line e)
     ((ge_name e @ '':x:'' @ int_str (ge_gid e) @ '':'' @ join '','' (ge_members e))) (gr_digest g)"

definition passwd_excerpt :: "passwd_entry \<Rightarrow> string \<Rightarrow> string" where
  "passwd_excerpt e shell = (pe_name e @ '':x:'' @ int_str (pe_uid e) @ '':'' @ int_str (pe_gid e) @ '':...:'' @
    pe_home e @ '':'' @ shell)"

definition passwdEvidence :: "passwd \<Rightarrow> passwd_entry \<Rightarrow> evidence" where
  "passwdEvidence p e = new_evidence (pw_path p) (pe_line e) (passwd_excerpt e (pe_shell e)) (pw_digest p)"

definition shadowEntryEvidence :: "shadow \<Rightarrow> shadow_entry \<Rightarrow> string \<Rightarrow> evidence" where
  "shadowEntryEvidence s e what = new_evidence (sh_path s) (se_line e) ((se_name e @ '': '' @ what)) []"

definition nonLoginShells :: "string list" where
  "nonLoginShells = [''/usr/sbin/nologin'', ''/sbin/nologin'', ''/usr/bin/nologin'', ''/bin/nologin'', ''/bin/false'',
     ''/usr/bin/false'', ''/dev/null'', ''/bin/sync'', ''/usr/bin/sync'']"

definition interactiveShell :: "string \<Rightarrow> bool" where
  "interactiveShell shell = (let s = trim_space shell in if s = [] then True else s \<notin> set nonLoginShells)"

definition SystemUIDMax :: int where "SystemUIDMax = 999"

definition isSystemAccount :: "int \<Rightarrow> bool" where
  "isSystemAccount uid \<longleftrightarrow> 0 < uid \<and> uid \<le> SystemUIDMax"

definition MaxPasswordAgeDays :: int where "MaxPasswordAgeDays = 365"

definition authenticating :: "shadow \<Rightarrow> shadow_entry list" where
  "authenticating s = filter Authenticates (sh_entries s)"

definition agingValue :: "int option \<Rightarrow> string" where
  "agingValue v = (case v of None \<Rightarrow> ''unset'' | Some n \<Rightarrow> int_str n)"

section \<open>The account list\<close>

definition eval0001 :: "payload fact_set \<Rightarrow> outcome" where
  "eval0001 fs =
     (let p = passwdFact fs; roots = ByUID p 0; impostors = filter (\<lambda>e. pe_name e \<noteq> ''root'') roots;
        evidence = map (passwdEvidence p) impostors in
      if roots = []
      then zero_outcome\<lparr>oc_result := Unknown, oc_reason := ReasonAmbiguousState,
        oc_detail := (''No account in '' @ pw_path p @
          '' holds uid 0. A working system has one, so either the account database is incomplete or '' @
          ''accounts are supplied by a directory service this check cannot see.''),
        oc_evidence := [new_evidence (pw_path p) 0 ''no uid 0 entry'' (pw_digest p)]\<rparr>
      else if impostors \<noteq> []
      then zero_outcome\<lparr>oc_result := Fail, oc_subject := joinNames (map pe_name impostors),
        oc_detail := (nat_str (length impostors) @ '' account(s) other than root hold uid 0: '' @
          joinNames (map pe_name impostors) @
          ''. The kernel makes no distinction between them and root, so each has complete control of '' @
          ''this host and each is a separate credential an attacker may target.''),
        oc_evidence := evidence\<rparr>
      else if length roots = 1 \<and> pe_name (roots ! 0) = ''root''
      then unknownIfIncomplete p (zero_outcome\<lparr>oc_result := Pass,
        oc_detail := (''uid 0 is held by the root account and by no other account in '' @ pw_path p @ ''.''),
        oc_evidence := [passwdEvidence p (roots ! 0)]\<rparr>)
      else zero_outcome\<lparr>oc_result := Fail, oc_subject := ''root'',
        oc_detail := (''uid 0 appears on '' @ nat_str (length roots) @ '' separate lines of '' @ pw_path p @
          '', all named root. Name resolution returns the first, so the later entries are unreachable '' @
          ''and whatever they were meant to configure '' @ em_dash @ '' shell, home directory '' @ em_dash @
          '' is not in force.''),
        oc_evidence := evidence @ map (passwdEvidence p) roots\<rparr>)"

definition eval0002 :: "payload fact_set \<Rightarrow> outcome" where
  "eval0002 fs =
     (let p = passwdFact fs; considered = filter (\<lambda>e. isSystemAccount (pe_uid e)) (pw_entries p);
        interactive = filter (\<lambda>e. interactiveShell (pe_shell e)) considered in
      if interactive \<noteq> []
      then zero_outcome\<lparr>oc_result := Fail, oc_subject := joinNames (map pe_name interactive),
        oc_detail := (nat_str (length interactive) @ '' system account(s) (uid 1-'' @ int_str SystemUIDMax @
          '') have a shell that can open a session: '' @ joinNames (map pe_name interactive) @
          ''. Anyone who obtains one of these credentials gets a login rather than a refusal.''),
        oc_evidence := map (\<lambda>e. new_evidence (pw_path p) (pe_line e)
          (passwd_excerpt e (if pe_shell e = [] then (''(empty '' @ em_dash @
            '' the system substitutes /bin/sh)'') else pe_shell e))
          (pw_digest p)) interactive\<rparr>
      else if considered = []
      then unknownIfIncomplete p (zero_outcome\<lparr>oc_result := NotApplicable,
        oc_detail := (''No account in '' @ pw_path p @ '' has a uid between 1 and '' @ int_str SystemUIDMax @
          '', so this host has no system accounts for the check to apply to.'')\<rparr>)
      else unknownIfIncomplete p (zero_outcome\<lparr>oc_result := Pass,
        oc_detail := (''All '' @ nat_str (length considered) @ '' system account(s) (uid 1-'' @ int_str SystemUIDMax @
          '') have a shell that cannot open a session.'')\<rparr>))"

definition eval0005 :: "payload fact_set \<Rightarrow> outcome" where
  "eval0005 fs =
     (let p = passwdFact fs; dupUIDs = DuplicateUIDs p; dupNames = DuplicateUserNames p;
        named = (\<lambda>name. filter (\<lambda>e. pe_name e = name) (pw_entries p)) in
      if dupUIDs = [] \<and> dupNames = []
      then unknownIfIncomplete p (zero_outcome\<lparr>oc_result := Pass,
        oc_detail := (''Every one of the '' @ nat_str (length (pw_entries p)) @ '' account(s) in '' @ pw_path p @
          '' has a distinct uid and a distinct name.'')\<rparr>)
      else
        (let parts =
           map (\<lambda>uid. (''uid '' @ int_str uid @ '' is shared by '' @
             joinNames (map pe_name (ByUID p uid)))) dupUIDs
           @ map (\<lambda>name. (''the name '' @ go_quote name @ '' appears on lines '' @
             joinInts (map pe_line (named name)) @ '', and only the first is reachable'')) dupNames;
           subjects = concat (map (\<lambda>uid. map pe_name (ByUID p uid)) dupUIDs) @ dupNames in
         zero_outcome\<lparr>oc_result := Fail, oc_subject := joinNames subjects,
           oc_detail := (pw_path p @ '' contains duplicate identities: '' @ joinNames parts @
             ''. A shared uid makes two names one account and destroys attribution; a shared name makes '' @
             ''the later entry unreachable, so anything configured there is silently not in force.''),
           oc_evidence := concat (map (\<lambda>uid. map (passwdEvidence p) (ByUID p uid)) dupUIDs)
             @ concat (map (\<lambda>name. map (passwdEvidence p) (named name)) dupNames)\<rparr>))"

definition eval0006 :: "payload fact_set \<Rightarrow> outcome" where
  "eval0006 fs =
     (let p = passwdFact fs in
      if pw_compat p = []
      then unknownIfIncomplete p (zero_outcome\<lparr>oc_result := Pass,
        oc_detail := (pw_path p @
          '' contains no NIS compatibility entries; every account it defines is defined locally.'')\<rparr>)
      else
        (let specs = map (\<lambda>c. (go_quote (ce_spec c) @ '' (line '' @ int_str (ce_line c) @
          '')'')) (pw_compat p) in
         zero_outcome\<lparr>oc_result := Fail, oc_subject := pw_path p,
           oc_detail := (pw_path p @ '' contains '' @ nat_str (length (pw_compat p)) @
             '' NIS compatibility entr(ies): '' @ joinNames specs @
             ''. These import accounts from a directory service over an unauthenticated protocol, so the '' @
             ''uid, shell and group of the accounts they add are decided off this host '' @ em_dash @
             '' and every other check over this file is limited to the accounts defined locally.''),
           oc_evidence := map (\<lambda>c. new_evidence (pw_path p) (ce_line c)
             (ce_spec c @ ''  (NIS compatibility entry)'') (pw_digest p)) (pw_compat p)\<rparr>))"

section \<open>Groups\<close>

text \<open>The accounts of group 0 that are neither root by name nor root by uid, and the members it lists beside root.\<close>

definition group0_accounts :: "passwd \<Rightarrow> passwd_entry list" where
  "group0_accounts p = filter (\<lambda>e. \<not> (pe_gid e \<noteq> 0 \<or> pe_name e = ''root'' \<or> pe_uid e = 0)) (pw_entries p)"

definition extra_members :: "group_entry \<Rightarrow> string list" where
  "extra_members grp = filter (\<lambda>m. m \<noteq> ''root'') (ge_members grp)"

definition eval0007 :: "payload fact_set \<Rightarrow> outcome" where
  "eval0007 fs =
     (let p = passwdFact fs; g = groupFact fs; rootGroups = ByGID g 0 in
      if rootGroups = []
      then zero_outcome\<lparr>oc_result := Unknown, oc_reason := ReasonAmbiguousState,
        oc_detail := (''No group in '' @ gr_path g @ '' holds gid 0. Every Unix system has one '' @ em_dash @
          '' it is the group of every file root creates '' @ em_dash @
          '' so either this file is not the whole group database or it is not what it appears to be.''),
        oc_evidence := [new_evidence (gr_path g) 0 ''no gid 0 entry'' (gr_digest g)]\<rparr>
      else
        (case find (\<lambda>e. pe_name e = ''root'') (pw_entries p) of
           None \<Rightarrow> zero_outcome\<lparr>oc_result := Unknown, oc_reason := ReasonAmbiguousState,
             oc_detail := (pw_path p @
               '' defines no account named root, so root's own primary group cannot be read. USERS-0001 '' @
               ''reports which accounts hold uid 0 on this host.''),
             oc_evidence := [new_evidence (pw_path p) 0 ''no root entry'' (pw_digest p)]\<rparr>
         | Some rootAcct \<Rightarrow>
             (let stray = (if pe_gid rootAcct \<noteq> 0 then [rootAcct] else []);
                ordinary = filter (\<lambda>e. \<not> isSystemAccount (pe_uid e)) (group0_accounts p);
                systemGID0 = map (\<lambda>e. (pe_name e @ '' (uid '' @ int_str (pe_uid e) @ '')''))
                  (filter (\<lambda>e. isSystemAccount (pe_uid e)) (group0_accounts p));
                crowded = filter (\<lambda>grp. extra_members grp \<noteq> []) rootGroups;
                violations =
                  map (\<lambda>e. (''root's primary group is '' @ int_str (pe_gid e) @
                    '' rather than 0, so files root creates are owned by that group instead'')) stray
                  @ map (\<lambda>e. (pe_name e @ '' (uid '' @ int_str (pe_uid e) @
                    '') has primary group 0, so every file it creates is group-owned by root and it reads every '' @
                    ''root-owned file the group can read'')) ordinary
                  @ map (\<lambda>grp. (''the '' @ ge_name grp @ '' group (gid '' @ int_str (ge_gid grp) @
                    '') lists supplementary members other than root '' @ em_dash @ '' '' @
                    joinNames (extra_members grp) @ '' '' @ em_dash @
                    '' each of whom holds group 0 at every login'')) crowded;
                subjects = map (\<lambda>e. ''root'') stray @ map pe_name ordinary @
                  concat (map extra_members crowded) in
              if violations \<noteq> []
              then zero_outcome\<lparr>oc_result := Fail, oc_subject := joinNames subjects,
                oc_detail := (''Group 0 is not confined to root: '' @ join ''; '' violations @
                  ''. Group 0 is the group half of root's identity, and membership in it is not visible to '' @
                  ''any check that looks only at uid 0.''),
                oc_evidence := map (passwdEvidence p) stray @ map (passwdEvidence p) ordinary
                  @ map (groupEvidence g) crowded\<rparr>
              else unknownIfIncomplete p (unknownIfGroupIncomplete g (zero_outcome\<lparr>oc_result := Pass,
                oc_detail := (''root holds primary group 0, no ordinary account in '' @ pw_path p @
                  '' does, and the gid 0 group in '' @ gr_path g @ '' lists no supplementary members.'') @
                  (if systemGID0 = [] then []
                   else ('' '' @ nat_str (length systemGID0) @ '' system account(s) also hold primary group 0 '' @
                     em_dash @ '' '' @ joinNames systemGID0 @ '' '' @ em_dash @
                     '' which is the convention several distributions ship and is not reported as a violation; '' @
                     ''accounts at or below uid '' @ int_str SystemUIDMax @ '' are treated as system accounts.'')),
                oc_evidence := [passwdEvidence p rootAcct, groupEvidence g (rootGroups ! 0)]\<rparr>)))))"

definition eval0008 :: "payload fact_set \<Rightarrow> outcome" where
  "eval0008 fs =
     (let g = groupFact fs; dupGIDs = DuplicateGIDs g; dupNames = DuplicateGroupNames g;
        named = (\<lambda>name. filter (\<lambda>e. ge_name e = name) (gr_entries g)) in
      if dupGIDs = [] \<and> dupNames = []
      then unknownIfGroupIncomplete g (zero_outcome\<lparr>oc_result := Pass,
        oc_detail := (''Every one of the '' @ nat_str (length (gr_entries g)) @ '' group(s) in '' @ gr_path g @
          '' has a distinct gid and a distinct name.'')\<rparr>)
      else
        (let parts =
           map (\<lambda>gid. (''gid '' @ int_str gid @ '' is shared by '' @
             joinNames (map ge_name (ByGID g gid)))) dupGIDs
           @ map (\<lambda>name. (''the name '' @ go_quote name @ '' appears on lines '' @
             joinInts (map ge_line (named name)) @ '', and only the first is reachable'')) dupNames;
           subjects = concat (map (\<lambda>gid. map ge_name (ByGID g gid)) dupGIDs) @ dupNames in
         zero_outcome\<lparr>oc_result := Fail, oc_subject := joinNames subjects,
           oc_detail := (gr_path g @ '' contains duplicate group identities: '' @ joinNames parts @
             ''. Permissions are enforced against the gid, so a shared gid silently merges the access of '' @
             ''both groups; a shared name makes the later entry unreachable, so memberships recorded '' @
             ''there are not in force.''),
           oc_evidence := concat (map (\<lambda>gid. map (groupEvidence g) (ByGID g gid)) dupGIDs)
             @ concat (map (\<lambda>name. map (groupEvidence g) (named name)) dupNames)\<rparr>))"

section \<open>Passwords\<close>

definition eval0003 :: "payload fact_set \<Rightarrow> outcome" where
  "eval0003 fs =
     (let s = shadowFact fs; p = passwdFact fs; empty = filter se_empty (sh_entries s) in
      if empty \<noteq> []
      then zero_outcome\<lparr>oc_result := Fail, oc_subject := joinNames (map se_name empty),
        oc_detail := (nat_str (length empty) @ '' account(s) have an empty password field in '' @ sh_path s @
          '' and authenticate with no password: '' @ joinNames (map se_name empty) @
          ''. This is not the same as a locked account '' @ em_dash @
          '' a lock refuses every password, an empty field accepts every password.''),
        oc_evidence := map (\<lambda>e. shadowEntryEvidence s e
          ''password field is empty; authentication succeeds with no password'') empty\<rparr>
      else if sh_entries s = []
      then zero_outcome\<lparr>oc_result := Unknown, oc_reason := ReasonAmbiguousState,
        oc_detail := (sh_path s @
          '' contains no entries. A host with local accounts has some, so either passwords are '' @
          ''supplied by a directory service this check cannot see or the file is not what it appears '' @ ''to be.''),
        oc_evidence := [new_evidence (sh_path s) 0 ''no entries'' []]\<rparr>
      else unknownIfShadowIncomplete p s (zero_outcome\<lparr>oc_result := Pass,
        oc_detail := (''None of the '' @ nat_str (length (sh_entries s)) @ '' account(s) in '' @ sh_path s @
          '' has an empty password field.'')\<rparr>))"

text \<open>The arms of the switch over the algorithm of an entry.\<close>

datatype hash_arm = NoHash | WeakHash | StrongHash | UnrecognisedHash

definition hash_arm :: "shadow_entry \<Rightarrow> hash_arm" where
  "hash_arm e =
     (if se_algorithm e = HashNone then NoHash
      else if Weak (se_algorithm e) then WeakHash
      else if Strong (se_algorithm e) then StrongHash
      else UnrecognisedHash)"

definition hash_evidence :: "shadow \<Rightarrow> evidence list" where
  "hash_evidence s = List.map_filter (\<lambda>e.
     (case hash_arm e of
        WeakHash \<Rightarrow> Some (shadowEntryEvidence s e ((''password hashed with '' @ se_algorithm e)))
      | UnrecognisedHash \<Rightarrow> Some (shadowEntryEvidence s e ''password hash uses an unrecognised scheme'')
      | _ \<Rightarrow> None)) (sh_entries s)"

definition eval0004 :: "payload fact_set \<Rightarrow> outcome" where
  "eval0004 fs =
     (let s = shadowFact fs; p = passwdFact fs;
        weak = map (\<lambda>e. (se_name e @ '' ('' @ se_algorithm e @
          '')'')) (filter (\<lambda>e. hash_arm e = WeakHash) (sh_entries s));
        unknownAlg = map se_name (filter (\<lambda>e. hash_arm e = UnrecognisedHash) (sh_entries s));
        hashed = length (filter (\<lambda>e. hash_arm e \<noteq> NoHash) (sh_entries s)) in
      if weak \<noteq> []
      then zero_outcome\<lparr>oc_result := Fail, oc_subject := joinNames weak,
        oc_detail := (nat_str (length weak) @
          '' account(s) have passwords hashed with an algorithm that no longer provides meaningful '' @
          ''resistance to offline cracking: '' @ joinNames weak @
          ''. Changing the system's hashing scheme does not rewrite an existing hash; each of these '' @
          ''keeps its current scheme until that account's password is next changed.'') @
          (if unknownAlg = [] then []
           else ('' A further '' @ nat_str (length unknownAlg) @
             '' account(s) use a scheme this build does not recognise: '' @ joinNames unknownAlg @ ''.'')),
        oc_evidence := hash_evidence s\<rparr>
      else if unknownAlg \<noteq> []
      then zero_outcome\<lparr>oc_result := Unknown, oc_reason := ReasonAmbiguousState, oc_subject := joinNames unknownAlg,
        oc_detail := (nat_str (length unknownAlg) @
          '' account(s) have a password hash whose scheme identifier this build does not recognise: '' @
          joinNames unknownAlg @
          ''. It may be a scheme newer than this release or a corrupted field; either way its '' @
          ''strength cannot be judged.''),
        oc_evidence := hash_evidence s\<rparr>
      else if hashed = 0
      then zero_outcome\<lparr>oc_result := NotApplicable,
        oc_detail := (''No account in '' @ sh_path s @
          '' stores a password hash; every entry is locked or has no password, so there is no hashing '' @
          ''algorithm in use to assess.'')\<rparr>
      else unknownIfShadowIncomplete p s (zero_outcome\<lparr>oc_result := Pass,
        oc_detail := (''All '' @ nat_str hashed @ '' stored password hash(es) use a modern algorithm.'')\<rparr>))"

definition max_age_what :: "int option \<Rightarrow> string" where
  "max_age_what v =
     (case v of
        None \<Rightarrow> ''the maximum age field is empty, so the password never expires''
      | Some n \<Rightarrow> (''maximum age is '' @ int_str n @ '' days'') @
        (if 99999 \<le> n then '', which is shadow-utils' default and means the password never expires'' else []))"

definition bounded_age :: "shadow_entry \<Rightarrow> bool" where
  "bounded_age e \<longleftrightarrow> (case se_max_days e of None \<Rightarrow> False | Some n \<Rightarrow> n \<le> MaxPasswordAgeDays)"

definition unbounded_name :: "shadow_entry \<Rightarrow> string" where
  "unbounded_name e = (se_name e @ '' ('' @ max_age_what (se_max_days e) @ '')'')"

definition eval0009 :: "payload fact_set \<Rightarrow> outcome" where
  "eval0009 fs =
     (let s = shadowFact fs; p = passwdFact fs; accounts = authenticating s;
        unbounded = filter (\<lambda>e. \<not> bounded_age e) accounts in
      if accounts = []
      then zero_outcome\<lparr>oc_result := NotApplicable,
        oc_detail := (''No account in '' @ sh_path s @ '' can authenticate with a password '' @ em_dash @
          '' every entry is locked, empty or without a stored hash '' @ em_dash @
          '' so there is no password lifetime to bound.'')\<rparr>
      else if unbounded \<noteq> []
      then zero_outcome\<lparr>oc_result := Fail, oc_subject := joinNames (map se_name unbounded),
        oc_detail := (nat_str (length unbounded) @ '' of the '' @ nat_str (length accounts) @ '' account(s) in '' @
          sh_path s @ '' that can authenticate have no bounded password lifetime: '' @
          joinNames (map unbounded_name unbounded) @ ''. The threshold applied is '' @ int_str MaxPasswordAgeDays @
          '' days, which is the CIS Benchmark figure; NIST SP 800-63B takes the opposite position and '' @
          ''advises against forced rotation entirely, so an organisation following NIST should '' @
          ''suppress this check rather than treat the finding as a defect.''),
        oc_evidence := map (\<lambda>e. shadowEntryEvidence s e ((''maximum age '' @ agingValue (se_max_days e) @
          '' (field 5)''))) unbounded\<rparr>
      else unknownIfShadowIncomplete p s (zero_outcome\<lparr>oc_result := Pass,
        oc_detail := (''All '' @ nat_str (length accounts) @ '' account(s) in '' @ sh_path s @
          '' that can authenticate have a maximum password age of '' @ int_str MaxPasswordAgeDays @
          '' days or fewer. Note that NIST SP 800-63B advises against forced rotation, so this PASS '' @
          ''reflects the CIS position rather than a universally agreed control.'')\<rparr>))"

text \<open>The two things the loop over the authenticating accounts may find in one.\<close>

datatype min_age = LockedOut int int | NoMinimum | MinimumSet

definition min_age :: "shadow_entry \<Rightarrow> min_age" where
  "min_age e =
     (case (se_min_days e, se_max_days e) of
        (None, _) \<Rightarrow> NoMinimum
      | (Some lo, None) \<Rightarrow> (if lo < 1 then NoMinimum else MinimumSet)
      | (Some lo, Some hi) \<Rightarrow> (if hi < lo then LockedOut lo hi else if lo < 1 then NoMinimum else MinimumSet))"

definition locked_out_of :: "shadow_entry \<Rightarrow> string list" where
  "locked_out_of e =
     (case min_age e of LockedOut lo hi \<Rightarrow> [(se_name e @ '' (minimum '' @ int_str lo @ '' days, maximum '' @
       int_str hi @ '')'')] | _ \<Rightarrow> [])"

definition no_minimum_of :: "shadow_entry \<Rightarrow> string list" where
  "no_minimum_of e =
     (case min_age e of NoMinimum \<Rightarrow> [(se_name e @ '' ('' @ agingValue (se_min_days e) @
       '')'')] | _ \<Rightarrow> [])"

definition min_age_evidence :: "shadow \<Rightarrow> shadow_entry \<Rightarrow> evidence list" where
  "min_age_evidence s e =
     (case min_age e of
        LockedOut lo hi \<Rightarrow> [shadowEntryEvidence s e ((''minimum age '' @ int_str lo @
          '' exceeds maximum age '' @ int_str hi @ '' (fields 4 and 5)''))]
      | NoMinimum \<Rightarrow> [shadowEntryEvidence s e ((''minimum age '' @ agingValue (se_min_days e) @
        '' (field 4)''))]
      | MinimumSet \<Rightarrow> [])"

definition eval0010 :: "payload fact_set \<Rightarrow> outcome" where
  "eval0010 fs =
     (let s = shadowFact fs; p = passwdFact fs; accounts = authenticating s;
        lockedOut = concat (map locked_out_of accounts); noMinimum = concat (map no_minimum_of accounts);
        subjects = map se_name (filter (\<lambda>e. min_age e \<noteq> MinimumSet) accounts) in
      if accounts = []
      then zero_outcome\<lparr>oc_result := NotApplicable,
        oc_detail := (''No account in '' @ sh_path s @ '' can authenticate with a password '' @ em_dash @
          '' every entry is locked, empty or without a stored hash '' @ em_dash @
          '' so there is no password change interval to govern.'')\<rparr>
      else if lockedOut \<noteq> [] \<or> noMinimum \<noteq> []
      then
        (let parts =
           (if lockedOut = [] then [] else [(nat_str (length lockedOut) @
             '' account(s) have a minimum age greater than their maximum and are locked out by '' @ ''construction '' @
             em_dash @ '' the password expires and passwd refuses to change it: '' @ joinNames lockedOut)])
           @ (if noMinimum = [] then [] else [(nat_str (length noMinimum) @
             '' account(s) have no minimum age, so a user required to change their password can cycle '' @
             ''through the history and return to the original in a single sitting: '' @ joinNames noMinimum)]) in
         zero_outcome\<lparr>oc_result := Fail, oc_severity := (if lockedOut = [] then NoSeverity else Medium),
           oc_subject := joinNames subjects,
           oc_detail := (''Of the '' @ nat_str (length accounts) @ '' account(s) in '' @ sh_path s @
             '' that can authenticate: '' @ join ''; '' parts @ ''.''),
           oc_evidence := concat (map (min_age_evidence s) accounts)\<rparr>)
      else unknownIfShadowIncomplete p s (zero_outcome\<lparr>oc_result := Pass,
        oc_detail := (''All '' @ nat_str (length accounts) @ '' account(s) in '' @ sh_path s @
          '' that can authenticate have a minimum password age of at least one day, and none has a '' @
          ''minimum greater than its maximum.'')\<rparr>))"

section \<open>The default for new accounts\<close>

definition PassMinDaysKey :: string where "PassMinDaysKey = ''PASS_MIN_DAYS''"

definition minAgeCaveat :: string where
  "minAgeCaveat = ('' A minimum age is only worth having where a password history is enforced; without one it '' @
    ''delays a change and prevents nothing.'')"

definition dayCount :: "int \<Rightarrow> string" where
  "dayCount n = (if n = 1 then ''a day'' else (int_str n @ '' days''))"

definition eval0012 :: "payload fact_set \<Rightarrow> outcome" where
  "eval0012 fs =
     (let l = loginDefsFact fs in
      if ld_state l = SourceAbsent
      then zero_outcome\<lparr>oc_result := NotApplicable, oc_subject := ld_path l,
        oc_detail := (''This host has no /etc/login.defs, so the shadow suite has no configured default minimum '' @
          ''password age to report. USERS-0010 covers what the accounts that exist are set to.'')\<rparr>
      else if ld_state l = SourceDenied
      then zero_outcome\<lparr>oc_result := Unknown, oc_reason := ReasonPermission, oc_subject := ld_path l,
        oc_detail := ''/etc/login.defs could not be read ('' @ ld_msg l @
          ''), so the default minimum password age is unknown.'',
        oc_evidence := [new_evidence (ld_path l) 0 (ld_msg l) []]\<rparr>
      else if ld_state l = SourceError
      then zero_outcome\<lparr>oc_result := Unknown, oc_reason := ReasonParse, oc_subject := ld_path l,
        oc_detail := ''/etc/login.defs could not be interpreted: '' @ ld_msg l,
        oc_evidence := [new_evidence (ld_path l) 0 (ld_msg l) []]\<rparr>
      else
        (case IntSetting l PassMinDaysKey of
           None \<Rightarrow>
             (case EffectiveSetting l PassMinDaysKey of
                Some st \<Rightarrow> zero_outcome\<lparr>oc_result := Unknown, oc_reason := ReasonParse, oc_subject := PassMinDaysKey,
                  oc_detail := (PassMinDaysKey @ '' is set to '' @ go_quote (ls_value st) @
                    '' in /etc/login.defs (line '' @ int_str (ls_line st) @
                    ''), which is not a number of days. What the shadow suite does with it is the library's '' @
                    ''business and is not readable from this file, so the effective default could not be '' @
                    ''established.''),
                  oc_evidence := [Evidence l st]\<rparr>
              | None \<Rightarrow> zero_outcome\<lparr>oc_result := Fail, oc_subject := PassMinDaysKey,
                  oc_detail := (''/etc/login.defs sets no '' @ PassMinDaysKey @
                    '', so the shadow suite's own default of 0 applies and every account created from now on '' @
                    ''may have its password changed twice in the same second. A password history is then '' @
                    ''defeated by cycling through it and back, which takes about thirty seconds. This is the '' @
                    ''default for new accounts; USERS-0010 reports what the accounts that already exist are set '' @
                    ''to.'' @ minAgeCaveat),
                  oc_evidence := [new_evidence (ld_path l) 0 (''no '' @ PassMinDaysKey @
                    '' line'') (ld_digest l)]\<rparr>)
         | Some (days, st) \<Rightarrow>
             (if 1 \<le> days
              then zero_outcome\<lparr>oc_result := Pass, oc_subject := PassMinDaysKey,
                oc_detail := (PassMinDaysKey @ '' is '' @ int_str days @ '' in /etc/login.defs (line '' @
                  int_str (ls_line st) @
                  ''), so an account created from now on cannot have its password changed again for '' @ dayCount days @
                  ''. Cycling through a password history to arrive back at the original takes that many days '' @
                  ''per step rather than seconds.'' @ ShadowedNote l PassMinDaysKey @ minAgeCaveat),
                oc_evidence := [Evidence l st]\<rparr>
              else zero_outcome\<lparr>oc_result := Fail, oc_subject := PassMinDaysKey,
                oc_detail := (PassMinDaysKey @ '' is '' @ int_str days @ '' in /etc/login.defs (line '' @
                  int_str (ls_line st) @
                  ''), so an account created from now on may have its password changed twice in the same '' @
                  ''second. A password history '' @ em_dash @ '' pam_pwhistory, or pam_unix's remember= '' @ em_dash @
                  '' is then defeated by changing the password as many times as the history is deep and then '' @
                  ''changing it back, which takes about thirty seconds. This is the default for new accounts; '' @
                  ''USERS-0010 reports what the accounts that already exist are set to.'' @
                  ShadowedNote l PassMinDaysKey @ minAgeCaveat),
                oc_evidence := [Evidence l st]\<rparr>)))"

end
