(* ===== verification/Users_Catalog.thy ===== *)
theory Users_Catalog
  imports Users_Checks
begin

text \<open>
  The eleven entries of internal/catalog/checks/users, each a catalog check with its text, its remediation and its
  evaluation. There is no USERS-0011.
\<close>

section \<open>The entries\<close>

definition Check0001 :: "payload check" where
  "Check0001 = \<lparr>ck_id = ''USERS-0001'',
     ck_module = ''USERS'',
     ck_title = ''Only the root account has uid 0'',
     ck_description = ''The kernel grants privilege by uid, not by name. An account'' @ [CHR 0x0A] @ ''called '' @
       [CHR 0x22] @ ''backup'' @ [CHR 0x22] @ '' with uid 0 is root, it can read every file, load kernel'' @
       [CHR 0x0A] @ ''modules and change any password, and nothing in the shell prompt, the process'' @ [CHR 0x0A] @
       ''list or the audit log distinguishes it from the real thing.'' @ [CHR 0x0A, CHR 0x0A] @
       ''A second uid 0 account is one of the quietest persistence mechanisms available'' @ [CHR 0x0A] @
       ''to an attacker. It survives password changes to root, it is not listed by tools'' @ [CHR 0x0A] @
       ''that enumerate '' @ [CHR 0x22] @ ''the root account'' @ [CHR 0x22] @ '', and on a busy host nobody reads'' @
       [CHR 0x0A] @ ''/etc/passwd. It is also occasionally created deliberately, by an administrator'' @ [CHR 0x0A] @
       ''who wanted a personal root login and did not realise sudo already provided'' @ [CHR 0x0A] @
       ''one with an audit trail.'',
     ck_base_severity = Critical,
     ck_tags = [''users'', ''privilege-escalation'', ''persistence''],
     ck_requires = [PasswdID],
     ck_eval = Some (\<lambda>fs. Inr (eval0001 fs)),
     ck_remediation = Some \<lparr>rem_summary = ''Give every account other than root a unique non-zero uid, or remove it.'',
       rem_effort = ''MEDIUM'',
       rem_steps = [''Identify what the account is for: 'grep -R <name> /etc/cron* /etc/sudoers.d /etc/systemd' '' @
         ''and check for running processes with 'ps -u <name>'.'',
        ''If it exists to give a person root access, remove it and grant that person sudo instead, '' @
          ''which produces an audit trail attributable to them.'',
        ''If it is a service account that was given uid 0 by mistake, allocate a free uid, change '' @
          ''it with 'usermod -u <newuid> <name>', then fix ownership of its files: 'find / -xdev -uid '' @
          ''0 -user <name>' will not work once the uid has changed, so record the file list first.'',
        ''If it is unexplained, treat it as a compromise indicator: check its home directory, its '' @
          ''authorized_keys, its shell history and the last-login record before removing it.''],
       rem_commands = [''awk -F: '$3 == 0 {print $1}' /etc/passwd'',
        ''lastlog -u <name>''],
       rem_caution = ''Changing root's own uid, or removing the account that a running service authenticates as, '' @
         ''will break the host. Confirm what depends on the account before altering it, and keep a '' @
         ''root session open while you do.''\<rparr>,
     ck_mappings = [\<lparr>cr_framework = ''nist-800-53-r5'', cr_control = ''AC-6''\<rparr>,
        \<lparr>cr_framework = ''nist-800-53-r5'', cr_control = ''AC-2''\<rparr>,
        \<lparr>cr_framework = ''nist-800-53-r5'', cr_control = ''IA-2''\<rparr>],
     ck_references = [\<lparr>ref_title = ''passwd(5)'', ref_url = ''https://man7.org/linux/man-pages/man5/passwd.5.html''\<rparr>],
     ck_since_catalog = 4,
     ck_deprecated = None\<rparr>"

definition Check0002 :: "payload check" where
  "Check0002 = \<lparr>ck_id = ''USERS-0002'',
     ck_module = ''USERS'',
     ck_title = ''System accounts have no interactive login shell'',
     ck_description = ''A system account exists to own files and run a daemon, not to be'' @ [CHR 0x0A] @
       ''logged into. Leaving it with a real shell turns every one of them into a'' @ [CHR 0x0A] @
       ''potential entry point: an attacker who obtains its credential, from a'' @ [CHR 0x0A] @
       ''configuration file, a backup, a compromised service, gets a session rather'' @ [CHR 0x0A] @
       ''than an error, and from a session they get an environment, a shell history and'' @ [CHR 0x0A] @
       ''somewhere to run things.'' @ [CHR 0x0A, CHR 0x0A] @
       ''Setting the shell to nologin or false costs nothing, because nothing about'' @ [CHR 0x0A] @
       ''running a daemon requires the ability to log in.'' @ [CHR 0x0A, CHR 0x0A] @
       ''Two details decide whether this check is right or merely plausible. **An empty'' @ [CHR 0x0A] @
       ''shell field is not '' @ [CHR 0x22] @ ''no shell'' @ [CHR 0x22] @
       ''**, the system substitutes /bin/sh, so an empty'' @ [CHR 0x0A] @
       ''field is the most permissive setting in the file, not the most restrictive.'' @ [CHR 0x0A] @
       ''And the path to nologin differs by distribution, /usr/sbin on Debian-family'' @ [CHR 0x0A] @
       ''systems and /sbin on Red Hat-family ones, so a check that knew only one would'' @ [CHR 0x0A] @
       ''report every account on the other as interactive.'',
     ck_base_severity = Medium,
     ck_tags = [''users'', ''attack-surface'', ''lateral-movement''],
     ck_requires = [PasswdID],
     ck_eval = Some (\<lambda>fs. Inr (eval0002 fs)),
     ck_remediation = Some \<lparr>rem_summary = ''Set the shell of every system account to nologin.'',
       rem_effort = ''LOW'',
       rem_steps = [''Confirm the account does not need a shell: a service started by systemd does not, but one '' @
         ''invoked through 'su - <name>' by a cron job or a deployment script does.'',
        ''Set the shell: 'usermod -s /usr/sbin/nologin <name>' on Debian-family systems, '' @
          '''/sbin/nologin' on Red Hat-family ones. Use the path that exists on this host.'',
        ''Verify: 'getent passwd <name>' should show the nologin path.'',
        ''Re-run any job that used the account and confirm it still works.''],
       rem_commands = [''awk -F: '$3 >= 1 && $3 <= 999 {print $1, $7}' /etc/passwd'',
        ''usermod -s /usr/sbin/nologin <name>''],
       rem_caution = ''Some deployment tooling runs commands as a service account through 'su' or 'runuser', '' @
         ''both of which need a working shell. Changing the shell will break those jobs silently, '' @
         ''they will fail at the next run rather than immediately.''\<rparr>,
     ck_mappings = [\<lparr>cr_framework = ''nist-800-53-r5'', cr_control = ''AC-6''\<rparr>,
        \<lparr>cr_framework = ''nist-800-53-r5'', cr_control = ''AC-2''\<rparr>],
     ck_references = [\<lparr>ref_title = ''nologin(8)'', ref_url = ''https://man7.org/linux/man-pages/man8/nologin.8.html''\<rparr>],
     ck_since_catalog = 4,
     ck_deprecated = None\<rparr>"

definition Check0003 :: "payload check" where
  "Check0003 = \<lparr>ck_id = ''USERS-0003'',
     ck_module = ''USERS'',
     ck_title = ''No account has an empty password'',
     ck_description = ''An empty password field in /etc/shadow means the account'' @ [CHR 0x0A] @
       ''authenticates with no password at all. Wherever the PAM stack consults shadow,'' @ [CHR 0x0A] @
       ''console login, su, and any service configured to use it, pressing return is'' @ [CHR 0x0A] @
         ''sufficient.'' @
       [CHR 0x0A, CHR 0x0A] @ ''This is not a theoretical state. It is produced by 'passwd -d', by automated'' @
       [CHR 0x0A] @ ''provisioning that intended to set a password later, and by restoring a partial'' @ [CHR 0x0A] @
       ''backup. It is distinct from a locked account: a lock token means no password'' @ [CHR 0x0A] @
       ''can ever match, which is safe, while an empty field means every password'' @ [CHR 0x0A] @
       ''matches, which is the opposite.'',
     ck_base_severity = Critical,
     ck_tags = [''users'', ''authentication'', ''credentials''],
     ck_requires = [ShadowID, PasswdID],
     ck_eval = Some (\<lambda>fs. Inr (eval0003 fs)),
     ck_remediation = Some \<lparr>rem_summary = ''Set a password on the account, or lock it if it should not authenticate.'',
       rem_effort = ''LOW'',
       rem_steps = [''Decide which the account should be. An account that a person uses needs a password; an '' @
         ''account that only owns files or runs a daemon needs a lock.'',
        ''To lock it so no password can ever match: 'passwd -l <name>'. This is the right answer '' @
          ''for a service account.'',
        ''To set a password: 'passwd <name>'. Do not leave it until later, the state you are fixing '' @
          ''is what 'later' looks like.'',
        ''Verify: 'passwd -S <name>' reports 'L' for locked, 'P' for a usable password, and 'NP' '' @
          ''for no password.'',
        ''Check whether the account was used while it was open: 'lastlog -u <name>' and 'last <name>'.''],
       rem_commands = [''passwd -S <name>'',
        ''passwd -l <name>''],
       rem_caution = ''Locking an account that a service authenticates as will stop that service. Confirm what '' @
         ''uses the account first; locking root in particular can leave a host with no console '' @
         ''recovery path.''\<rparr>,
     ck_mappings = [\<lparr>cr_framework = ''nist-800-53-r5'', cr_control = ''IA-5''\<rparr>,
        \<lparr>cr_framework = ''nist-800-53-r5'', cr_control = ''IA-2''\<rparr>,
        \<lparr>cr_framework = ''nist-800-53-r5'', cr_control = ''AC-2''\<rparr>],
     ck_references = [\<lparr>ref_title = ''shadow(5)'', ref_url = ''https://man7.org/linux/man-pages/man5/shadow.5.html''\<rparr>],
     ck_since_catalog = 4,
     ck_deprecated = None\<rparr>"

definition Check0004 :: "payload check" where
  "Check0004 = \<lparr>ck_id = ''USERS-0004'',
     ck_module = ''USERS'',
     ck_title = ''Password hashes use a modern algorithm'',
     ck_description = ''A password hash is only as good as the work it costs to test a'' @ [CHR 0x0A] @
       ''guess. The old schemes cost almost nothing on modern hardware: DES crypt'' @ [CHR 0x0A] @
       ''considers only the first eight characters of a password and falls to'' @ [CHR 0x0A] @
       ''exhaustive search in minutes, and MD5-crypt runs at billions of guesses per'' @ [CHR 0x0A] @
       ''second on a commodity GPU. A file full of those hashes is a list of passwords'' @ [CHR 0x0A] @
       ''with a short delay attached.'' @ [CHR 0x0A, CHR 0x0A] @
       ''SHA-512 and yescrypt are the schemes current distributions ship. yescrypt is'' @ [CHR 0x0A] @
       ''memory-hard, which is what makes GPU and ASIC attacks expensive rather than'' @ [CHR 0x0A] @
       ''merely slower.'' @ [CHR 0x0A, CHR 0x0A] @
       ''Changing the system's hashing scheme does not rewrite existing hashes. Each'' @ [CHR 0x0A] @
       ''account keeps whatever it was hashed with until its password is next changed,'' @ [CHR 0x0A] @
       ''so a host that switched years ago can still be carrying MD5 hashes for accounts'' @ [CHR 0x0A] @
       ''nobody has touched, which are exactly the accounts nobody is watching.'',
     ck_base_severity = High,
     ck_tags = [''users'', ''authentication'', ''credentials'', ''cryptography''],
     ck_requires = [ShadowID, PasswdID],
     ck_eval = Some (\<lambda>fs. Inr (eval0004 fs)),
     ck_remediation = Some \<lparr>rem_summary = ''Change the affected passwords so they are re-hashed with the system's current scheme.'',
       rem_effort = ''MEDIUM'',
       rem_steps = [''Confirm the system default is modern: ENCRYPT_METHOD in /etc/login.defs should be SHA512 '' @
         ''or YESCRYPT, and the pam_unix line in the PAM stack should not override it.'',
        ''A hash is only rewritten when the password changes, so each affected account must set a '' @
          ''new password: 'passwd <name>', or 'chage -d 0 <name>' to force the change at next login.'',
        ''For an account nobody logs into, the right answer is usually to lock it instead: 'passwd '' @
          ''-l <name>'.'',
        ''Re-run the audit and confirm the scheme has changed.''],
       rem_commands = [''grep ENCRYPT_METHOD /etc/login.defs'',
        ''chage -d 0 <name>''],
       rem_caution = [CHR 0x27] @
         ''chage -d 0' forces a password change at the account's next login. Applied to a service '' @
         ''account that logs in non-interactively, it will lock that service out silently at its '' @
         ''next authentication.''\<rparr>,
     ck_mappings = [\<lparr>cr_framework = ''nist-800-53-r5'', cr_control = ''IA-5(1)''\<rparr>,
        \<lparr>cr_framework = ''nist-800-53-r5'', cr_control = ''SC-13''\<rparr>],
     ck_references = [\<lparr>ref_title = ''crypt(5), password hashing methods'', ref_url = ''https://man7.org/linux/man-pages/man5/crypt.5.html''\<rparr>],
     ck_since_catalog = 4,
     ck_deprecated = None\<rparr>"

definition Check0005 :: "payload check" where
  "Check0005 = \<lparr>ck_id = ''USERS-0005'',
     ck_module = ''USERS'',
     ck_title = ''No uid or account name is used by more than one entry'',
     ck_description = ''Two accounts sharing a uid are the same account as far as the'' @ [CHR 0x0A] @
       ''kernel is concerned. They can read each other's files, signal each other's'' @ [CHR 0x0A] @
       ''processes and inherit each other's group memberships, while appearing in every'' @ [CHR 0x0A] @
       ''listing as two separate identities, which destroys attribution: an audit log'' @ [CHR 0x0A] @
       ''recording a uid cannot say which of the two names was responsible.'' @ [CHR 0x0A, CHR 0x0A] @
       ''Two entries sharing a name are worse in a different way. Name resolution'' @ [CHR 0x0A] @
       ''returns the first match, so the second entry is unreachable: its uid, its'' @ [CHR 0x0A] @
       ''shell, its home directory and its group are all silently ignored. An'' @ [CHR 0x0A] @
       ''administrator who edits the second copy makes no change at all and has no way'' @ [CHR 0x0A] @ ''to tell.'' @
       [CHR 0x0A, CHR 0x0A] @ ''Both states are usually accidental, a provisioning script that allocated a uid'' @
       [CHR 0x0A] @ ''already in use, or a file edited by two tools at once, and both are also a'' @ [CHR 0x0A] @
       ''tidy way to hide an account in plain sight.'',
     ck_base_severity = High,
     ck_tags = [''users'', ''accountability'', ''attribution''],
     ck_requires = [PasswdID],
     ck_eval = Some (\<lambda>fs. Inr (eval0005 fs)),
     ck_remediation = Some \<lparr>rem_summary = ''Give every account a unique uid and a unique name.'',
       rem_effort = ''MEDIUM'',
       rem_steps = [''List the collisions: 'awk -F: '' @ [CHR 0x27, CHR 0x5C, CHR 0x27, CHR 0x27] @ ''{print $3}'' @
         [CHR 0x27, CHR 0x5C, CHR 0x27, CHR 0x27] @
         '' /etc/passwd | sort | uniq -d' for uids, and the same on $1 for names.'',
        ''For a duplicated uid, decide which account should keep it and record which files the '' @
          ''other owns before changing anything: 'find / -xdev -uid <uid> -print > '' @ ''/root/uid-<uid>.list'.'',
        ''Allocate a free uid and apply it: 'usermod -u <newuid> <name>', then re-own the recorded '' @
          ''files with 'chown'.'',
        ''For a duplicated name, remove the unreachable entry, but first confirm it is genuinely '' @
          ''redundant, because it may be the entry somebody believed was in effect.'',
        ''Verify with 'pwck', which reports both conditions.''],
       rem_commands = [''pwck -r'',
        ''awk -F: '{print $3}' /etc/passwd | sort | uniq -d''],
       rem_caution = ''Changing a uid does not change the ownership of files already on disk; those files become '' @
         ''owned by whatever account now holds the old uid. Record the file list before making the '' @
         ''change, after it, the old uid no longer identifies them.''\<rparr>,
     ck_mappings = [\<lparr>cr_framework = ''nist-800-53-r5'', cr_control = ''IA-2''\<rparr>,
        \<lparr>cr_framework = ''nist-800-53-r5'', cr_control = ''IA-4''\<rparr>,
        \<lparr>cr_framework = ''nist-800-53-r5'', cr_control = ''AU-6''\<rparr>],
     ck_references = [\<lparr>ref_title = ''pwck(8)'', ref_url = ''https://man7.org/linux/man-pages/man8/pwck.8.html''\<rparr>],
     ck_since_catalog = 4,
     ck_deprecated = None\<rparr>"

definition Check0006 :: "payload check" where
  "Check0006 = \<lparr>ck_id = ''USERS-0006'',
     ck_module = ''USERS'',
     ck_title = ''The account database contains no legacy NIS import entries'',
     ck_description = ''A line in /etc/passwd whose first field begins with '' @ [CHR 0x22] @ ''+'' @ [CHR 0x22] @
       '' is NIS'' @ [CHR 0x0A] @ ''compatibility syntax: it tells glibc to pull accounts from a directory service'' @
       [CHR 0x0A] @ ''and merge them into the local database. A bare '' @ [CHR 0x22] @ ''+::::::'' @ [CHR 0x22] @
       '' imports every account'' @ [CHR 0x0A] @
       ''NIS offers, with whatever uid, shell and group the directory says, including,'' @ [CHR 0x0A] @
       ''if the directory is compromised or spoofed, uid 0.'' @ [CHR 0x0A, CHR 0x0A] @
       ''NIS transmits its maps without authentication or encryption and its successor,'' @ [CHR 0x0A] @
       ''NIS+, was withdrawn. Where a host genuinely needs directory accounts, that is'' @ [CHR 0x0A] @
       ''what nsswitch.conf and SSSD are for; a '' @ [CHR 0x22] @ ''+'' @ [CHR 0x22] @
       '' line is a mechanism from an era when'' @ [CHR 0x0A] @ ''the network was assumed to be trustworthy.'' @
       [CHR 0x0A, CHR 0x0A] @ ''The entry also changes what every other check in this module can conclude. Once'' @
       [CHR 0x0A] @ ''accounts arrive from somewhere this scan cannot read, '' @ [CHR 0x22] @
         ''no account has uid 0'' @
       [CHR 0x22, CHR 0x0A] @ ''becomes a statement about a list that is explicitly not the whole list, which'' @
       [CHR 0x0A] @ ''is why the other USERS checks resolve to UNKNOWN when one of these is present'' @ [CHR 0x0A] @
       ''rather than reporting a PASS they cannot support.'',
     ck_base_severity = High,
     ck_tags = [''users'', ''authentication'', ''legacy'', ''attack-surface''],
     ck_requires = [PasswdID],
     ck_eval = Some (\<lambda>fs. Inr (eval0006 fs)),
     ck_remediation = Some \<lparr>rem_summary = ''Remove the compatibility entries and configure directory accounts through nsswitch.conf.'',
       rem_effort = ''MEDIUM'',
       rem_steps = [''Determine whether the host actually uses NIS: 'ypwhich' reports the bound server, and '' @
         '''grep compat /etc/nsswitch.conf' shows whether the compat backend is even active.'',
        ''If NIS is not in use, the entries are inert leftovers and can be removed from /etc/passwd '' @
          ''and /etc/group.'',
        ''If directory accounts are genuinely needed, migrate to SSSD or LDAP through '' @
          ''nsswitch.conf, which authenticates the directory and encrypts the transport.'',
        ''Remove the '+' lines only after the replacement resolves accounts correctly: 'getent '' @
          ''passwd <a directory account>' must still return an entry.'',
        ''Re-run the audit; the other USERS checks will produce definite verdicts once the local '' @
          ''file is the whole list.''],
       rem_commands = [''grep -n '^[+-]' /etc/passwd /etc/group'',
        ''getent passwd <name>''],
       rem_caution = ''Removing the entries on a host that really is using NIS will make every directory account '' @
         ''stop resolving, which locks out everyone who is not a local user. Verify the replacement '' @
         ''resolves accounts before removing the old mechanism, and keep a local root session open.''\<rparr>,
     ck_mappings = [\<lparr>cr_framework = ''nist-800-53-r5'', cr_control = ''IA-2''\<rparr>,
        \<lparr>cr_framework = ''nist-800-53-r5'', cr_control = ''IA-5''\<rparr>,
        \<lparr>cr_framework = ''nist-800-53-r5'', cr_control = ''SC-8''\<rparr>],
     ck_references = [\<lparr>ref_title = ''nsswitch.conf(5)'', ref_url = ''https://man7.org/linux/man-pages/man5/nsswitch.conf.5.html''\<rparr>],
     ck_since_catalog = 4,
     ck_deprecated = None\<rparr>"

definition Check0007 :: "payload check" where
  "Check0007 = \<lparr>ck_id = ''USERS-0007'',
     ck_module = ''USERS'',
     ck_title = ''Group 0 is confined to root'',
     ck_description = ''Group 0 is the group half of root's identity. Files created by'' @ [CHR 0x0A] @
       ''root are owned by group 0 unless something says otherwise, and a great many of'' @ [CHR 0x0A] @
       ''them, including, on most distributions, /etc/shadow's directory, the systemd'' @ [CHR 0x0A] @
       ''unit tree and /root itself, grant the group read access that they deny to'' @ [CHR 0x0A] @
       ''everyone else. An ordinary account whose primary group is 0 therefore reads a'' @ [CHR 0x0A] @
       ''substantial part of what root reads, without ever appearing in a listing of'' @ [CHR 0x0A] @
       ''privileged accounts and without triggering any check that looks at uid 0.'' @ [CHR 0x0A, CHR 0x0A] @
       ''Three things have to hold. Root's own primary group must be 0, because the'' @ [CHR 0x0A] @
       ''files root creates are expected to land in it and a root account in some other'' @ [CHR 0x0A] @
       ''group quietly changes the ownership of everything it writes. No ordinary'' @ [CHR 0x0A] @
       ''account may have primary group 0. And the group's supplementary member list,'' @ [CHR 0x0A] @
       ''the fourth field of the '' @ [CHR 0x22] @ ''root:x:0:'' @ [CHR 0x22] @
       '' line in /etc/group, must name nobody,'' @ [CHR 0x0A] @
       ''because every name in it holds group 0 as a secondary group at every login.'' @ [CHR 0x0A, CHR 0x0A] @
       ''System accounts with primary group 0 are reported but not failed. Several'' @ [CHR 0x0A] @
       ''distributions ship them that way, so failing them would produce findings that'' @ [CHR 0x0A] @
       ''are correct about the file and useless to the person reading them.'',
     ck_base_severity = High,
     ck_tags = [''users'', ''groups'', ''privilege''],
     ck_requires = [PasswdID, GroupID],
     ck_eval = Some (\<lambda>fs. Inr (eval0007 fs)),
     ck_remediation = Some \<lparr>rem_summary = ''Give the account a primary group of its own and remove supplementary members from group 0.'',
       rem_effort = ''MEDIUM'',
       rem_steps = [''List what is in group 0: 'awk -F: '' @ [CHR 0x27, CHR 0x5C, CHR 0x27, CHR 0x27] @
         ''$4 == 0 {print $1, $3}'' @ [CHR 0x27, CHR 0x5C, CHR 0x27, CHR 0x27] @
         '' /etc/passwd' for primary members, and 'getent group 0' for supplementary ones.'',
        ''Record what the account owns before changing its group, because the change does not '' @
          ''re-own existing files: 'find / -xdev -user <name> -print > /root/<name>.files'.'',
        ''Create a group for the account and move it: 'groupadd <name>' then 'usermod -g <name> '' @ ''<name>'.'',
        ''Re-own the recorded files: 'xargs -a /root/<name>.files chgrp <name>', check the list '' @
          ''first for anything that genuinely should stay group root.'',
        ''Remove supplementary members: 'gpasswd -d <name> root'.'',
        ''If root's own primary group is not 0, set it back with 'usermod -g 0 root' and check what '' @
          ''root has created since it changed.''],
       rem_commands = [''awk -F: '$4 == 0 {print $1, $3}' /etc/passwd'',
        ''getent group 0''],
       rem_caution = ''Changing an account's primary group does not change the group ownership of files it '' @
         ''already created; those files stay group 0 and stay readable to anything still in that '' @
         ''group. Record the file list before the change, afterwards the account's group no longer '' @
         ''identifies them.''\<rparr>,
     ck_mappings = [\<lparr>cr_framework = ''nist-800-53-r5'', cr_control = ''AC-6''\<rparr>,
        \<lparr>cr_framework = ''nist-800-53-r5'', cr_control = ''AC-3''\<rparr>,
        \<lparr>cr_framework = ''nist-800-53-r5'', cr_control = ''AC-2''\<rparr>],
     ck_references = [\<lparr>ref_title = ''group(5)'', ref_url = ''https://man7.org/linux/man-pages/man5/group.5.html''\<rparr>,
        \<lparr>ref_title = ''usermod(8)'', ref_url = ''https://man7.org/linux/man-pages/man8/usermod.8.html''\<rparr>],
     ck_since_catalog = 5,
     ck_deprecated = None\<rparr>"

definition Check0008 :: "payload check" where
  "Check0008 = \<lparr>ck_id = ''USERS-0008'',
     ck_module = ''USERS'',
     ck_title = ''No gid or group name is used by more than one entry'',
     ck_description = ''Two groups sharing a gid are one group to the kernel. File'' @ [CHR 0x0A] @
       ''permissions are enforced against the numeric gid, never the name, so granting'' @ [CHR 0x0A] @
       ''somebody membership of '' @ [CHR 0x22] @ ''developers'' @ [CHR 0x22] @
       '' also grants them everything the other group'' @ [CHR 0x0A] @
       ''holding that gid can reach, and nothing in either group's definition says so.'' @ [CHR 0x0A] @
       ''The reverse is equally true when reading an audit trail: a gid in a log or a'' @ [CHR 0x0A] @
       ''directory listing no longer identifies which group was meant.'' @ [CHR 0x0A, CHR 0x0A] @
       ''Two entries sharing a name are a different failure. Group resolution returns'' @ [CHR 0x0A] @
       ''the first match, so the second entry is unreachable: its gid and its member'' @ [CHR 0x0A] @
       ''list are silently ignored. An administrator who adds a user to the second copy'' @ [CHR 0x0A] @
       ''has made no change at all, and 'getent group <name>' will confirm the first'' @ [CHR 0x0A] @
       ''entry's contents back to them without any indication that another exists.'' @ [CHR 0x0A, CHR 0x0A] @
       ''Both states are produced by ordinary accidents, a package postinstall that'' @ [CHR 0x0A] @
       ''allocated a gid already taken, a configuration-management run that appended'' @ [CHR 0x0A] @
       ''rather than replaced, and both are also an unremarkable-looking way to widen'' @ [CHR 0x0A] @
       ''access to a set of files.'',
     ck_base_severity = Medium,
     ck_tags = [''users'', ''groups'', ''attribution''],
     ck_requires = [GroupID],
     ck_eval = Some (\<lambda>fs. Inr (eval0008 fs)),
     ck_remediation = Some \<lparr>rem_summary = ''Give every group a unique gid and a unique name.'',
       rem_effort = ''MEDIUM'',
       rem_steps = [''List the collisions: 'awk -F: '' @ [CHR 0x27, CHR 0x5C, CHR 0x27, CHR 0x27] @ ''{print $3}'' @
         [CHR 0x27, CHR 0x5C, CHR 0x27, CHR 0x27] @
         '' /etc/group | sort | uniq -d' for gids, and the same on $1 for names.'',
        ''For a duplicated gid, decide which group should keep it and record what the other one '' @
          ''owns before changing anything: 'find / -xdev -gid <gid> -print > /root/gid-<gid>.list'.'',
        ''Allocate a free gid and apply it: 'groupmod -g <newgid> <name>', then re-own the recorded '' @
          ''files with 'chgrp'.'',
        ''For a duplicated name, confirm which entry is actually in force with 'getent group '' @
          ''<name>', it returns the first, and check whether the memberships in the unreachable entry '' @
          ''were meant to be active before removing it.'',
        ''Verify with 'grpck', which reports both conditions.''],
       rem_commands = [''grpck -r'',
        ''awk -F: '{print $3}' /etc/group | sort | uniq -d''],
       rem_caution = ''Changing a gid does not change the group ownership of files already on disk; those files '' @
         ''become owned by whatever group now holds the old gid, which can silently widen rather '' @
         ''than narrow access. Record the file list before making the change.''\<rparr>,
     ck_mappings = [\<lparr>cr_framework = ''nist-800-53-r5'', cr_control = ''AC-3''\<rparr>,
        \<lparr>cr_framework = ''nist-800-53-r5'', cr_control = ''AC-6''\<rparr>,
        \<lparr>cr_framework = ''nist-800-53-r5'', cr_control = ''AU-6''\<rparr>],
     ck_references = [\<lparr>ref_title = ''grpck(8)'', ref_url = ''https://man7.org/linux/man-pages/man8/grpck.8.html''\<rparr>,
        \<lparr>ref_title = ''group(5)'', ref_url = ''https://man7.org/linux/man-pages/man5/group.5.html''\<rparr>],
     ck_since_catalog = 5,
     ck_deprecated = None\<rparr>"

definition Check0009 :: "payload check" where
  "Check0009 = \<lparr>ck_id = ''USERS-0009'',
     ck_module = ''USERS'',
     ck_title = ''Passwords that can authenticate have a bounded maximum age'',
     ck_description = ''The fifth field of /etc/shadow is the number of days a'' @ [CHR 0x0A] @
       ''password may be kept before the system requires a new one. shadow-utils writes'' @ [CHR 0x0A] @
       ''99999 into it by default, which is a little over 273 years and means the'' @ [CHR 0x0A] @
       ''password never expires; an empty field means the same thing more explicitly.'' @ [CHR 0x0A, CHR 0x0A] @
       ''**The frameworks disagree about whether this control should exist.** NIST SP'' @ [CHR 0x0A] @ ''800-63B '' @
       [CHR 0xC2, CHR 0xA7] @ ''5.1.1.2 states that verifiers SHOULD NOT require periodic password'' @ [CHR 0x0A] @
       ''changes, on the evidence that forced rotation produces predictable'' @ [CHR 0x0A] @
       ''transformations of one password rather than genuinely new ones, and should'' @ [CHR 0x0A] @
       ''instead force a change only on evidence of compromise. CIS Benchmarks require a'' @ [CHR 0x0A] @
       ''maximum of 365 days, and the DISA STIGs require 60. All three positions are'' @ [CHR 0x0A] @
       ''current and none of them is a misreading of the others.'' @ [CHR 0x0A, CHR 0x0A] @
       ''Plumbline reports the setting at LOW severity against the CIS threshold,'' @ [CHR 0x0A] @
       ''because that is the number most audits are run against, and states the conflict'' @ [CHR 0x0A] @
       ''in the finding rather than resolving it. An organisation following NIST's'' @ [CHR 0x0A] @
       ''position should suppress this check deliberately, which is a decision with a'' @ [CHR 0x0A] @
       ''record, rather than have the tool make it for them silently.'' @ [CHR 0x0A, CHR 0x0A] @
       ''Only accounts that can actually authenticate are considered. A locked or'' @ [CHR 0x0A] @
       ''password-less account has no lifetime to bound, and the dozen such accounts'' @ [CHR 0x0A] @
       ''every distribution ships would otherwise dominate the result.'',
     ck_base_severity = Low,
     ck_tags = [''users'', ''credentials'', ''password-policy''],
     ck_requires = [ShadowID, PasswdID],
     ck_eval = Some (\<lambda>fs. Inr (eval0009 fs)),
     ck_remediation = Some \<lparr>rem_summary = ''Decide which framework applies, then set a maximum age or suppress this check deliberately.'',
       rem_effort = ''LOW'',
       rem_steps = [''Decide first whether you intend to enforce rotation at all. If the organisation follows '' @
         ''NIST SP 800-63B, the correct action is to suppress USERS-0009 in the suppression file '' @
         ''with a reason, not to change the setting.'',
        ''To see the current state of an account: 'chage -l <name>'.'',
        ''To set a maximum on one account: 'chage -M 365 <name>'.'',
        ''To change the default applied to accounts created from now on, set PASS_MAX_DAYS in '' @
          ''/etc/login.defs. That does not alter existing accounts.'',
        ''Confirm the change: 'chage -l <name>' reports the new maximum and the resulting expiry date.''],
       rem_commands = [''chage -l <name>'',
        ''awk -F: '$2 !~ /^[!*]/ && $2 != '' @ [CHR 0x22, CHR 0x22] @ '' {print $1, $5}' /etc/shadow''],
       rem_caution = ''Setting a maximum age shorter than the time already elapsed since the password was last '' @
         ''changed expires it immediately, and the account will be forced to change its password at '' @
         ''its next login. On a service account that authenticates non-interactively, that means it '' @
         ''stops working with no interactive prompt to reveal why.''\<rparr>,
     ck_mappings = [\<lparr>cr_framework = ''nist-800-53-r5'', cr_control = ''IA-5''\<rparr>,
        \<lparr>cr_framework = ''nist-800-53-r5'', cr_control = ''IA-5(1)''\<rparr>],
     ck_references = [\<lparr>ref_title = ''chage(1)'', ref_url = ''https://man7.org/linux/man-pages/man1/chage.1.html''\<rparr>,
        \<lparr>ref_title = ''shadow(5)'', ref_url = ''https://man7.org/linux/man-pages/man5/shadow.5.html''\<rparr>,
        \<lparr>ref_title = ''NIST SP 800-63B, Authentication and Lifecycle Management'', ref_url = ''https://pages.nist.gov/800-63-3/sp800-63b.html''\<rparr>],
     ck_since_catalog = 5,
     ck_deprecated = None\<rparr>"

definition Check0010 :: "payload check" where
  "Check0010 = \<lparr>ck_id = ''USERS-0010'',
     ck_module = ''USERS'',
     ck_title = ''Passwords that can authenticate have a minimum age set'',
     ck_description = ''The fourth field of /etc/shadow is the number of days that'' @ [CHR 0x0A] @
       ''must pass before a password may be changed again. Its purpose is narrow and'' @ [CHR 0x0A] @
       ''frequently misunderstood: it is what makes password history mean anything. With'' @ [CHR 0x0A] @
       ''a minimum of zero, a user told to choose a new password can run 'passwd' as'' @ [CHR 0x0A] @
       ''many times as the history depth and arrive back at the password they started'' @ [CHR 0x0A] @
       ''with, in one sitting, without any policy having been violated. A minimum of one'' @ [CHR 0x0A] @
       ''day makes that cost a day per cycle, which is enough to make it pointless.'' @ [CHR 0x0A, CHR 0x0A] @
       ''This matters only where password history is actually enforced, pam_pwhistory'' @ [CHR 0x0A] @
       ''or pam_unix's '' @ [CHR 0x22] @ ''remember'' @ [CHR 0x22] @
       '' option. Where no history is configured there is'' @ [CHR 0x0A] @
       ''nothing to cycle through and the minimum protects nothing, which is why this'' @ [CHR 0x0A] @
       ''ships at LOW severity. Plumbline does not yet collect the PAM stack, so it'' @ [CHR 0x0A] @
       ''cannot tell which case this host is in; that fact belongs to the AUTH module.'' @ [CHR 0x0A, CHR 0x0A] @
       ''A separate and more serious condition is a minimum greater than the maximum.'' @ [CHR 0x0A] @
       ''Such an account is locked out by construction: the password expires and demands'' @ [CHR 0x0A] @
       ''a change, and passwd refuses the change because the minimum has not elapsed.'' @ [CHR 0x0A] @
       ''The user cannot recover without an administrator, and nothing in the login'' @ [CHR 0x0A] @
       ''message explains why. That is reported at MEDIUM.'',
     ck_base_severity = Low,
     ck_tags = [''users'', ''credentials'', ''password-policy''],
     ck_requires = [ShadowID, PasswdID],
     ck_eval = Some (\<lambda>fs. Inr (eval0010 fs)),
     ck_remediation = Some \<lparr>rem_summary = ''Set a minimum age of at least one day, and never above the maximum.'',
       rem_effort = ''LOW'',
       rem_steps = [''Inspect the account: 'chage -l <name>' reports both the minimum and the maximum together, '' @
         ''which is the pair that matters.'',
        ''Set a minimum: 'chage -m 1 <name>'.'',
        ''Where the minimum exceeds the maximum, fix that first, the account cannot change its own '' @
          ''password until you do. 'chage -m 1 -M 365 <name>' sets both in one command.'',
        ''To change the default for accounts created from now on, set PASS_MIN_DAYS in '' @
          ''/etc/login.defs. Existing accounts are unaffected.'',
        ''The minimum only has an effect where password history is enforced. Confirm that '' @
          ''pam_pwhistory or pam_unix's 'remember' option is configured, or the setting protects '' @ ''nothing.''],
       rem_commands = [''chage -l <name>'',
        ''awk -F: '$2 !~ /^[!*]/ && $2 != '' @ [CHR 0x22, CHR 0x22] @ '' {print $1, $4, $5}' /etc/shadow''],
       rem_caution = ''Do not set a minimum age on an account whose password may need to be rotated urgently, an '' @
         ''incident response that has to change a credential twice in one day will be refused by '' @
         ''passwd, and the account will have to be edited by an administrator instead.''\<rparr>,
     ck_mappings = [\<lparr>cr_framework = ''nist-800-53-r5'', cr_control = ''IA-5''\<rparr>,
        \<lparr>cr_framework = ''nist-800-53-r5'', cr_control = ''IA-5(1)''\<rparr>],
     ck_references = [\<lparr>ref_title = ''chage(1)'', ref_url = ''https://man7.org/linux/man-pages/man1/chage.1.html''\<rparr>,
        \<lparr>ref_title = ''pam_pwhistory(8)'', ref_url = ''https://man7.org/linux/man-pages/man8/pam_pwhistory.8.html''\<rparr>],
     ck_since_catalog = 5,
     ck_deprecated = None\<rparr>"

definition Check0012 :: "payload check" where
  "Check0012 = \<lparr>ck_id = ''USERS-0012'',
     ck_module = ''USERS'',
     ck_title = ''The default minimum password age is at least one day'',
     ck_description = ''A minimum password age is the setting that makes a password'' @ [CHR 0x0A] @
       ''history mean anything.'' @ [CHR 0x0A, CHR 0x0A] @ ''Password history, '' @ [CHR 0x22] @
       ''you may not reuse your last five passwords'' @ [CHR 0x22] @ '', is enforced'' @ [CHR 0x0A] @
       ''by pam_pwhistory or pam_unix's remember=. Without a minimum age it costs an'' @ [CHR 0x0A] @
       ''determined user about thirty seconds to defeat: change the password five times'' @ [CHR 0x0A] @
       ''in a row, then change it back to the one they started with. The history is'' @ [CHR 0x0A] @
       ''full, every rule was satisfied at every step, and the password is the one the'' @ [CHR 0x0A] @
       ''policy was trying to retire.'' @ [CHR 0x0A, CHR 0x0A] @
       ''PASS_MIN_DAYS is what stops that. At 1 the same manoeuvre takes five days and'' @ [CHR 0x0A] @
       ''stops being something somebody does while their coffee is brewing.'' @ [CHR 0x0A, CHR 0x0A] @
       ''**It is a default for accounts created from now on, not a policy over the ones'' @ [CHR 0x0A] @
       ''that exist.** useradd reads it when it makes an account; chage writes the value'' @ [CHR 0x0A] @
       ''into /etc/shadow's fifth field, which is what actually governs an existing'' @ [CHR 0x0A] @
       ''account and what USERS-0010 reads. Setting this fixes the next user and none of'' @ [CHR 0x0A] @
       ''the current ones.'' @ [CHR 0x0A, CHR 0x0A] @ ''**Zero is not '' @ [CHR 0x22] @ ''unset'' @ [CHR 0x22] @
       ''.** A host with no PASS_MIN_DAYS line and a host with'' @ [CHR 0x0A] @
       ''PASS_MIN_DAYS 0 behave identically, the shadow suite's own default is zero,'' @ [CHR 0x0A] @
       ''but they are different findings to an operator, because one is a decision and'' @ [CHR 0x0A] @
       ''the other is an omission. The check reports both and names which it saw.'',
     ck_base_severity = Low,
     ck_tags = [''users'', ''password-policy'', ''login.defs'', ''persistence''],
     ck_requires = [LoginDefsID],
     ck_eval = Some (\<lambda>fs. Inr (eval0012 fs)),
     ck_remediation = Some \<lparr>rem_summary = ''Set PASS_MIN_DAYS to 1 in /etc/login.defs, and apply it to the accounts that already exist.'',
       rem_effort = ''LOW'',
       rem_steps = [''Set 'PASS_MIN_DAYS 1' in /etc/login.defs. Edit the first occurrence rather than '' @
         ''appending: the shadow suite reads the first match and ignores every later one, so a line '' @
         ''added at the end of a file that already sets the key has no effect at all.'',
        ''That is the default for accounts created afterwards. Existing accounts keep whatever is '' @
          ''in /etc/shadow's fifth field: 'chage --mindays 1 <user>' sets one, and USERS-0010 is the '' @
          ''check that reports them.'',
        ''A minimum age is only worth setting if a password history is enforced, otherwise it '' @
          ''inconveniences users and stops nothing. Check for pam_pwhistory or remember= on the '' @
          ''pam_unix.so password line.'',
        ''Consider who is affected. A minimum age applies to the user changing their own password, '' @
          ''not to root using 'passwd <user>', so a helpdesk reset still works. A user who mistypes a '' @
          ''new password into a system that accepted it, though, cannot change it again until the '' @
          ''minimum has passed.''],
       rem_commands = [''grep -n PASS_MIN_DAYS /etc/login.defs'',
        ''chage --list <user>''],
       rem_caution = ''A minimum password age stops a user changing their password again for that many days, '' @
         ''including immediately after a change they regret, a mistyped passphrase they did not '' @
         ''notice, or one they have already written down somewhere they should not have. Root can '' @
         ''still reset it with 'passwd <user>', which is the escape hatch, and an operator setting '' @
         ''this should know that is the only one.''\<rparr>,
     ck_mappings = [\<lparr>cr_framework = ''nist-800-53-r5'', cr_control = ''IA-5''\<rparr>],
     ck_references = [\<lparr>ref_title = ''login.defs(5)'', ref_url = ''https://man7.org/linux/man-pages/man5/login.defs.5.html''\<rparr>,
        \<lparr>ref_title = ''chage(1)'', ref_url = ''https://man7.org/linux/man-pages/man1/chage.1.html''\<rparr>],
     ck_since_catalog = 34,
     ck_deprecated = None\<rparr>"

definition users_checks :: "payload check list" where
  "users_checks = [Check0001, Check0002, Check0003, Check0004, Check0005, Check0006, Check0007, Check0008, Check0009, Check0010, Check0012]"

lemmas users_entries = Check0001_def Check0002_def Check0003_def Check0004_def Check0005_def Check0006_def Check0007_def Check0008_def Check0009_def Check0010_def Check0012_def

text \<open>What the proofs need of an entry: the facts it requires and the function it runs.\<close>

lemma users_evals:
  "ck_eval Check0001 = Some (\<lambda>fs. Inr (eval0001 fs))"
  "ck_eval Check0002 = Some (\<lambda>fs. Inr (eval0002 fs))"
  "ck_eval Check0003 = Some (\<lambda>fs. Inr (eval0003 fs))"
  "ck_eval Check0004 = Some (\<lambda>fs. Inr (eval0004 fs))"
  "ck_eval Check0005 = Some (\<lambda>fs. Inr (eval0005 fs))"
  "ck_eval Check0006 = Some (\<lambda>fs. Inr (eval0006 fs))"
  "ck_eval Check0007 = Some (\<lambda>fs. Inr (eval0007 fs))"
  "ck_eval Check0008 = Some (\<lambda>fs. Inr (eval0008 fs))"
  "ck_eval Check0009 = Some (\<lambda>fs. Inr (eval0009 fs))"
  "ck_eval Check0010 = Some (\<lambda>fs. Inr (eval0010 fs))"
  "ck_eval Check0012 = Some (\<lambda>fs. Inr (eval0012 fs))"
    apply (subst Check0001_def, rule check.select_convs)
    apply (subst Check0002_def, rule check.select_convs)
    apply (subst Check0003_def, rule check.select_convs)
    apply (subst Check0004_def, rule check.select_convs)
    apply (subst Check0005_def, rule check.select_convs)
    apply (subst Check0006_def, rule check.select_convs)
    apply (subst Check0007_def, rule check.select_convs)
    apply (subst Check0008_def, rule check.select_convs)
    apply (subst Check0009_def, rule check.select_convs)
    apply (subst Check0010_def, rule check.select_convs)
    apply (subst Check0012_def, rule check.select_convs)
  done

lemma users_requires:
  "ck_requires Check0001 = [PasswdID]"
  "ck_requires Check0002 = [PasswdID]"
  "ck_requires Check0003 = [ShadowID, PasswdID]"
  "ck_requires Check0004 = [ShadowID, PasswdID]"
  "ck_requires Check0005 = [PasswdID]"
  "ck_requires Check0006 = [PasswdID]"
  "ck_requires Check0007 = [PasswdID, GroupID]"
  "ck_requires Check0008 = [GroupID]"
  "ck_requires Check0009 = [ShadowID, PasswdID]"
  "ck_requires Check0010 = [ShadowID, PasswdID]"
  "ck_requires Check0012 = [LoginDefsID]"
    apply (subst Check0001_def, rule check.select_convs)
    apply (subst Check0002_def, rule check.select_convs)
    apply (subst Check0003_def, rule check.select_convs)
    apply (subst Check0004_def, rule check.select_convs)
    apply (subst Check0005_def, rule check.select_convs)
    apply (subst Check0006_def, rule check.select_convs)
    apply (subst Check0007_def, rule check.select_convs)
    apply (subst Check0008_def, rule check.select_convs)
    apply (subst Check0009_def, rule check.select_convs)
    apply (subst Check0010_def, rule check.select_convs)
    apply (subst Check0012_def, rule check.select_convs)
  done

end
