(* ===== verification/Module_Reread.thy ===== *)
theory Module_Reread
  imports Sshd_Reread Kernel_Reread Users_Catalog
begin

text \<open>
  Evaluating a stored collection: the checks of the modelled modules reach the same findings over the fact set a
  bundle gives back as over the one that was collected.
\<close>

section \<open>The facts the modules read\<close>

lemma reread_accessors:
  "as_sysctl (payload (reread f)) = map_option reread_sysctl (as_sysctl (payload f))"
  "as_passwd (payload (reread f)) = as_passwd (payload f)" "as_shadow (payload (reread f)) = as_shadow (payload f)"
  "as_group (payload (reread f)) = as_group (payload f)" "as_login_defs (payload (reread f)) = as_login_defs (payload f)"
  by (simp_all add: reread_def split: payload.split)

lemma reread_set_lookups:
  assumes "reread_set fs fs'"
  shows "lookup (errors fs') i = lookup (errors fs) i" "lookup (facts fs') i = map_option reread (lookup (facts fs) i)"
  using assms by (simp_all add: reread_set_def Err_def)

lemma account_facts_reread:
  assumes "reread_set fs fs'"
  shows "passwdFact fs' = passwdFact fs" "shadowFact fs' = shadowFact fs" "groupFact fs' = groupFact fs"
    "loginDefsFact fs' = loginDefsFact fs"
  by (simp_all add: passwdFact_def shadowFact_def groupFact_def loginDefsFact_def get_def reread_set_lookups[OF assms]
      reread_accessors split: option.split)

lemma sysctlFact_reread:
  assumes "reread_set fs fs'"
  shows "sysctlFact fs' = reread_sysctl (sysctlFact fs)"
proof -
  have "reread_sysctl empty_sysctl = empty_sysctl" by (simp add: reread_sysctl_def empty_sysctl_def)
  then show ?thesis
    by (simp add: sysctlFact_def get_def reread_set_lookups[OF assms] reread_accessors split: option.split)
qed

lemma sysctlFact_wf:
  assumes "storable cd (kept cd) b fs"
  shows "wf_sysctl (sysctlFact fs)"
proof -
  have "wf_sysctl s" if "lookup (facts fs) SysctlID = Some f" "payload f = SysctlFact s" for f s
    using storable_fact[OF assms that(1)] that(2) by (simp add: kept_def storable_sysctl_def wf_sysctl_def)
  moreover have "wf_sysctl empty_sysctl" by (simp add: empty_sysctl_def wf_sysctl_def)
  ultimately show ?thesis by (auto simp: sysctlFact_def get_def split: option.split elim!: as_sysctl.elims)
qed

lemma users_evals_reread:
  assumes "reread_set fs fs'" "ck \<in> set users_checks" "ck_eval ck = Some ev"
  shows "ev fs' = ev fs"
proof -
  have "list_all (\<lambda>ck. map_option (\<lambda>ev. ev fs') (ck_eval ck) = map_option (\<lambda>ev. ev fs) (ck_eval ck)) users_checks"
    unfolding users_checks_def list.pred_inject users_evals option.map
    by (simp only: Users_Checks.eval0001_def Users_Checks.eval0002_def Users_Checks.eval0003_def Users_Checks.eval0004_def
        Users_Checks.eval0005_def Users_Checks.eval0006_def Users_Checks.eval0007_def Users_Checks.eval0008_def
        Users_Checks.eval0009_def Users_Checks.eval0010_def Users_Checks.eval0012_def account_facts_reread[OF assms(1)]
        list.pred_inject simp_thms)
  then show ?thesis using assms(2,3) by (auto simp: list_all_iff)
qed

definition module_checks :: "payload check list" where
  "module_checks = sshd_checks @ kernel_checks @ users_checks"

lemma module_reread:
  assumes "reread_set fs fs'" "storable cd (kept cd) b fs" "ck \<in> set module_checks"
  shows "EvaluateOne ck fs' = EvaluateOne ck fs"
proof (rule EvaluateOne_reread[OF assms(1)])
  fix ev assume "ck_eval ck = Some ev"
  then show "ev fs' = ev fs"
    using assms(3) sshd_evals_reread[OF configFact_reread[OF assms(1)] configFact_wf[OF assms(2)]]
      kernel_evals_reread[OF sysctlFact_reread[OF assms(1)] sysctlFact_wf[OF assms(2)]] users_evals_reread[OF assms(1)]
    unfolding module_checks_def set_append by blast
qed

section \<open>Properties\<close>



end
