(* ===== verification/Remediate.thy ===== *)
theory Remediate
  imports Catalog
begin

text \<open>
  internal/remediate: from findings to the shell script that would fix them. A fix is a value of the
  datatype \<open>remedy\<close>, with the fields of its Go struct; \<open>build\<close> is the method Build, \<open>None\<close> a fix that declines. The
  helper functions of the script are its text; what awk, sed and python do with them is not modelled.
\<close>

section \<open>Actions\<close>

definition DefaultDropIn :: string where "DefaultDropIn = ''/etc/sysctl.d/99-plumbline-hardening.conf''"
definition DefaultUnitDir :: string where "DefaultUnitDir = ''/etc/systemd/system''"
definition LoginDefsPath :: string where "LoginDefsPath = ''/etc/login.defs''"

record options =
  op_dropIn :: string
  op_unitDir :: string

definition unitDir :: "options \<Rightarrow> string" where
  "unitDir o1 = (if op_unitDir o1 = [] then DefaultUnitDir else op_unitDir o1)"

definition dropIn :: "options \<Rightarrow> string" where
  "dropIn o1 = (if op_dropIn o1 = [] then DefaultDropIn else op_dropIn o1)"

record action =
  ac_check :: string
  ac_title :: string
  ac_notes :: "string list"
  ac_commands :: "string list"
  ac_pairs :: "string gomap"

definition safe_char :: "char \<Rightarrow> bool" where
  "safe_char c \<longleftrightarrow> (CHR ''a'' \<le> c \<and> c \<le> CHR ''z'') \<or> (CHR ''A'' \<le> c \<and> c \<le> CHR ''Z'') \<or> is_digit c \<or> c \<in> set ''-_./=:,+@''"

text \<open>A rune outside ASCII is not safe, so the loop over runes is one over bytes.\<close>

definition shellQuote :: "string \<Rightarrow> string" where
  "shellQuote s =
     (if s = [] then [CHR 0x27, CHR 0x27]
      else if list_all safe_char s then s
      else [CHR 0x27] @
        concat (map (\<lambda>c. if c = CHR 0x27 then [CHR 0x27, CHR 0x5C, CHR 0x27, CHR 0x27] else [c]) s) @
        [CHR 0x27])"

definition cmd :: "string list \<Rightarrow> action \<Rightarrow> action" where
  "cmd argv a = a\<lparr>ac_commands := ac_commands a @ [join '' '' (map shellQuote argv)]\<rparr>"

definition lit :: "string \<Rightarrow> action \<Rightarrow> action" where
  "lit line a = a\<lparr>ac_commands := ac_commands a @ [line]\<rparr>"

definition remark :: "string \<Rightarrow> action \<Rightarrow> action" where
  "remark t a = a\<lparr>ac_notes := ac_notes a @ [t]\<rparr>"

definition titleOf :: "finding \<Rightarrow> string \<Rightarrow> string" where
  "titleOf f fallback = (if f_title f \<noteq> [] then f_title f else fallback)"

definition new_action :: "string \<Rightarrow> string \<Rightarrow> action" where
  "new_action i t = \<lparr>ac_check = i, ac_title = t, ac_notes = [], ac_commands = [], ac_pairs = []\<rparr>"

definition remarks :: "string list \<Rightarrow> action \<Rightarrow> action" where
  "remarks ns a = fold remark ns a"

section \<open>What a finding cites\<close>

definition pathsFrom :: "finding \<Rightarrow> string list" where
  "pathsFrom f =
     (let seen = filter (\<lambda>p. p \<noteq> []) (map ev_source (f_evidence f)) in
      if seen = [] \<and> f_subject f \<noteq> [] then [f_subject f] else sort (remdups seen))"

definition keepPaths :: "string list \<Rightarrow> string list" where
  "keepPaths ps = filter (\<lambda>p. has_prefix p ''/'') ps"

definition pathCount :: "nat \<Rightarrow> string" where
  "pathCount n = (if n = 1 then ''The path'' else ''The '' @ nat_str n @ '' paths'')"

text \<open>
  The regular expression of a unit name: the longest run of the class that a suffix follows, from the first
  word boundary at which there is one; and every match, from left to right.
\<close>

definition word_char :: "char \<Rightarrow> bool" where
  "word_char c \<longleftrightarrow> (CHR ''a'' \<le> c \<and> c \<le> CHR ''z'') \<or> (CHR ''A'' \<le> c \<and> c \<le> CHR ''Z'') \<or> is_digit c \<or> c = CHR ''_''"

definition unit_char :: "char \<Rightarrow> bool" where
  "unit_char c \<longleftrightarrow> word_char c \<or> c \<in> set ''@:.-'' \<or> c = CHR 0x5C"

definition at_word :: "string \<Rightarrow> bool" where
  "at_word s \<longleftrightarrow> s \<noteq> [] \<and> word_char (hd s)"

definition unit_suffix :: "string \<Rightarrow> nat option" where
  "unit_suffix s = map_option length (find (\<lambda>x. has_prefix s x \<and> \<not> at_word (drop (length x) s))
     [''.service'', ''.socket'', ''.timer'', ''.mount'', ''.path''])"

fun longest_name :: "nat \<Rightarrow> string \<Rightarrow> nat option" where
  "longest_name 0 s = None"
| "longest_name (Suc k) s =
     (case unit_suffix (drop (Suc k) s) of
        Some n \<Rightarrow> Some (Suc k + n)
      | None \<Rightarrow> longest_name k s)"

definition unit_match :: "string \<Rightarrow> nat option" where
  "unit_match s = longest_name (length (takeWhile unit_char s)) s"

lemma longest_name_pos: "longest_name k s = Some n \<Longrightarrow> 0 < n"
  by (induction k s rule: longest_name.induct) (auto split: option.splits)

text \<open>\<open>w\<close>: whether the byte before is a word character.\<close>

function find_units :: "bool \<Rightarrow> string \<Rightarrow> string list" where
  "find_units w s =
     (if s = [] then []
      else
        (case (if w = at_word s then None else unit_match s) of
           Some n \<Rightarrow> take n s # find_units (at_word (drop (n - 1) s)) (drop n s)
         | None \<Rightarrow> find_units (at_word s) (tl s)))"
  by pat_completeness auto
termination
  by (relation "measure (\<lambda>(w, s). length s)")
    (auto simp: unit_match_def split: if_splits dest: longest_name_pos)

declare find_units.simps [simp del]

definition unitsIn :: "finding \<Rightarrow> string list" where
  "unitsIn f = sort (remdups (filter (\<lambda>u. u \<noteq> []) (concat (map (\<lambda>e. find_units False (ev_source e)) (f_evidence f)))))"

definition sourceFound :: "evidence \<Rightarrow> bool" where
  "sourceFound e \<longleftrightarrow> \<not> (ev_source e = [] \<or> has_prefix (ev_excerpt e) ''does not exist'' \<or> has_prefix (ev_excerpt e) ''absent'')"

fun otherFirewall_of :: "evidence list \<Rightarrow> string" where
  "otherFirewall_of [] = []"
| "otherFirewall_of (e # es) =
     (if \<not> sourceFound e then otherFirewall_of es
      else if contains (ev_source e) ''/ufw'' then otherFirewall_of es
      else if contains (ev_source e) ''nftables'' then ''nftables''
      else if contains (ev_source e) ''iptables'' then ''iptables''
      else if contains (ev_source e) ''firewalld'' then ''firewalld''
      else otherFirewall_of es)"

definition otherFirewall :: "finding \<Rightarrow> string" where
  "otherFirewall f = otherFirewall_of (f_evidence f)"

section \<open>Fixes\<close>

datatype remedy =
    SysctlFix string string "(string \<times> string) list"
  | ModeFix string string "string list list" string string
  | PamNullokFix
  | SandboxFix string string string "string list" "string list"
  | ApparmorFix
  | UfwFix string string
  | DockerJSONFix string string string string string "string list"
  | LoginDefsFix string string string string "string list"

fun CheckID :: "remedy \<Rightarrow> string" where
  "CheckID (SysctlFix i t pairs) = i"
| "CheckID (ModeFix i t argvs enum caution) = i"
| "CheckID PamNullokFix = ''AUTH-0004''"
| "CheckID (SandboxFix i t name directives ns) = i"
| "CheckID ApparmorFix = ''SERVICES-0010''"
| "CheckID (UfwFix i t) = i"
| "CheckID (DockerJSONFix i t fallback key value ns) = i"
| "CheckID (LoginDefsFix i t key value ns) = i"

definition sysctl_build :: "string \<Rightarrow> string \<Rightarrow> (string \<times> string) list \<Rightarrow> finding \<Rightarrow> action option" where
  "sysctl_build i t pairs f = Some
     (fold (\<lambda>(k, v) a. (cmd [''sysctl'', ''-w'', k @ ''='' @
       v] a)\<lparr>ac_pairs := put k v (ac_pairs a)\<rparr>) pairs
       (new_action i (titleOf f t)))"

definition mode_build :: "string \<Rightarrow> string \<Rightarrow> string list list \<Rightarrow> string \<Rightarrow> string \<Rightarrow> finding \<Rightarrow> action option" where
  "mode_build i t argvs enum caution f =
     (let paths = pathsFrom f in
      if paths = [] then None
      else Some
        (fold (\<lambda>p. fold (\<lambda>argv. cmd (argv @ [p])) argvs) paths
          (remark (''List every one on the host with: '' @ enum)
            (remark (pathCount (length paths) @ '' below came from this scan's evidence, which is capped.'')
              ((if caution \<noteq> [] then remark caution else id) (new_action i (titleOf f t)))))))"

definition nullok_script :: string where
  "nullok_script = ''/pam_unix'' @ [CHR 0x5C] @ ''.so/ s/[[:space:]]+nullok(_secure)?([[:space:]]|$)/'' @ [CHR 0x5C] @
    ''2/g''"

definition nullok_build :: "finding \<Rightarrow> action option" where
  "nullok_build f =
     (let files = pathsFrom f; kept = keepPaths files in
      if files = [] then None
      else if kept = [] then None
      else Some
        (fold (\<lambda>file a. cmd [''sed'', ''-E'', ''-i'', nullok_script, file] (cmd [''plumbline_backup'', file] a)) kept
          (remarks [''USERS-0003 reports which accounts have an empty password field. Check it first:'',
       ''an account relying on nullok stops being able to log in the moment this runs.'',
       ''Each file is copied to FILE.bak before it is edited.'']
            (new_action ''AUTH-0004'' (titleOf f ''PAM does not accept an empty password'')))))"

definition restart_line :: "string \<Rightarrow> string" where
  "restart_line u = ''echo '' @ [CHR 0x22] @ ''plumbline:   systemctl restart '' @ u @ [CHR 0x22] @ '' >&2''"

definition written_line :: string where
  "written_line = ''echo '' @ [CHR 0x22] @
    ''plumbline: the drop-ins are written; restart each unit for them to take effect.'' @ [CHR 0x22] @ '' >&2''"

definition sandbox_build :: "string \<Rightarrow> string \<Rightarrow> string \<Rightarrow> string list \<Rightarrow> string list \<Rightarrow> finding \<Rightarrow> action option" where
  "sandbox_build i t name directives ns f =
     (let units = unitsIn f; body = ''[Service]'' @ [CHR 0x0A] @ join [CHR 0x0A] directives in
      if units = [] then None
      else Some
        (fold (\<lambda>u. lit (restart_line u)) units
          (lit written_line
            (cmd [''systemctl'', ''daemon-reload'']
              (fold (\<lambda>u. cmd [''plumbline_dropin'', u, name, body]) units
                (remarks (ns @ [''Written to /etc/systemd/system/<unit>.d/ '' @ em_dash @
                  '' a drop-in, not the shipped unit, so a'',
       ''package upgrade cannot revert it and deleting one file undoes it.''])
                  (new_action i (titleOf f t))))))))"

definition apparmor_lines :: "string list" where
  "apparmor_lines = [''if command -v aa-enforce >/dev/null 2>&1; then'',
     [CHR 0x09] @ ''aa-enforce /etc/apparmor.d/*'',
     ''else'',
     [CHR 0x09] @ ''echo '' @ [CHR 0x22] @
       ''plumbline: aa-enforce not found; install apparmor-utils to enforce the profiles, then run:'' @ [CHR 0x22] @
       '' >&2'',
     [CHR 0x09] @ ''echo '' @ [CHR 0x22] @ ''plumbline:   aa-enforce /etc/apparmor.d/*'' @ [CHR 0x22] @ '' >&2'',
     ''fi'',
     ''if grep -qE '(^|[[:space:]])apparmor=0([[:space:]]|$)' /proc/cmdline; then'',
     [CHR 0x09] @ ''echo '' @ [CHR 0x22] @
       ''plumbline: apparmor=0 is on the kernel command line; the above will not take effect.'' @ [CHR 0x22] @
       '' >&2'',
     [CHR 0x09] @ ''echo '' @ [CHR 0x22] @
       ''plumbline: remove it from GRUB_CMDLINE_LINUX in /etc/default/grub, run update-grub, reboot.'' @ [CHR 0x22] @
       '' >&2'',
     ''fi'']"

definition apparmor_build :: "finding \<Rightarrow> action option" where
  "apparmor_build f = Some
     (fold lit apparmor_lines
       (cmd [''systemctl'', ''enable'', ''--now'', ''apparmor'']
         (remarks [''**Read aa-status first.** A host with profiles in complain mode is usually'',
       ''mid-way through writing them by watching what a program does, and enforcing'',
       ''a profile against a workload it never observed will deny that workload.'',
       ''On a host doing real work, move profiles one at a time instead of running'',
       ''the aa-enforce line below, then read the denials:'',
       ''  journalctl -k | grep 'apparmor='' @ [CHR 0x22] @ ''DENIED'' @ [CHR 0x22, CHR 0x27]]
           (new_action ''SERVICES-0010'' (titleOf f ''AppArmor is enforcing at least one profile'')))))"

definition ufw_build :: "string \<Rightarrow> string \<Rightarrow> finding \<Rightarrow> action option" where
  "ufw_build i t f =
     (if otherFirewall f \<noteq> [] then None
      else Some
        (fold cmd
          [[''ufw'', ''allow'', ''22/tcp''], [''ufw'', ''default'', ''deny'', ''incoming''],
           [''ufw'', ''default'', ''allow'', ''outgoing''], [''ufw'', ''--force'', ''enable'']]
          (remarks [''**This will disconnect you if you are on SSH and port 22 is not allowed.**'',
       ''The allow rule below is why it is here, and 22/tcp is a guess: plumbline'',
       ''knows this host's real sshd port from the SSHD module, and this finding does'',
       ''not carry it. Change the port, or delete the line on a host with no SSH.'',
       ''ufw is proposed because nothing else is configured here; on a host that'',
       ''already uses nftables or firewalld, fix that ruleset instead.'']
            (new_action i (titleOf f t)))))"

definition docker_path :: "string \<Rightarrow> finding \<Rightarrow> string" where
  "docker_path fallback f =
     (if has_prefix (f_subject f) ''/'' then f_subject f
      else (case keepPaths (pathsFrom f) of p # _ \<Rightarrow> p | [] \<Rightarrow> fallback))"

definition docker_build ::
  "string \<Rightarrow> string \<Rightarrow> string \<Rightarrow> string \<Rightarrow> string \<Rightarrow> string list \<Rightarrow> finding \<Rightarrow> action option" where
  "docker_build i t fallback key value ns f =
     (let path = docker_path fallback f in
      Some (cmd [''plumbline_json_set'', path, key, value]
        (remarks (ns @ [''The file is copied to '' @ path @
          ''.bak before it is changed.'']) (new_action i (titleOf f t)))))"

definition logindefs_build :: "string \<Rightarrow> string \<Rightarrow> string \<Rightarrow> string \<Rightarrow> string list \<Rightarrow> finding \<Rightarrow> action option" where
  "logindefs_build i t key value ns f = Some
     (cmd [''plumbline_logindefs_set'', key, value, LoginDefsPath]
       (remarks (ns @ [''login.defs takes the FIRST definition of a key, so appending would be silently'',
       ''ineffective on a host that already sets it. The helper rewrites the first line in'',
       ''place and comments out any later ones. The file is copied to .bak first.'']) (new_action i (titleOf f t))))"

fun build :: "remedy \<Rightarrow> finding \<Rightarrow> action option" where
  "build (SysctlFix i t pairs) f = sysctl_build i t pairs f"
| "build (ModeFix i t argvs enum caution) f = mode_build i t argvs enum caution f"
| "build PamNullokFix f = nullok_build f"
| "build (SandboxFix i t name directives ns) f = sandbox_build i t name directives ns f"
| "build ApparmorFix f = apparmor_build f"
| "build (UfwFix i t) f = ufw_build i t f"
| "build (DockerJSONFix i t fallback key value ns) f = docker_build i t fallback key value ns f"
| "build (LoginDefsFix i t key value ns) f = logindefs_build i t key value ns f"

text \<open>The fixes in the order their files register them.\<close>

definition fix_services_0010 :: remedy where
  "fix_services_0010 = ApparmorFix"

definition fix_network_0001 :: remedy where
  "fix_network_0001 = UfwFix ''NETWORK-0001''
    ''A host-based firewall is configured''"

definition fix_network_0002 :: remedy where
  "fix_network_0002 = UfwFix ''NETWORK-0002''
    ''The firewall's default inbound policy denies''"

definition fix_containers_0001 :: remedy where
  "fix_containers_0001 = DockerJSONFix ''CONTAINERS-0001''
    ''The Docker daemon remaps container users to unprivileged host uids''
    ''/etc/docker/daemon.json''
    ''userns-remap''
    ''default''
    [''Restart the daemon afterwards: dockerd reads this only at startup.'',
     ''**Existing containers, images and volumes are not migrated.** The remapped daemon'',
     ''uses a separate storage root, so everything already on this host becomes invisible'',
     ''to it until it is re-imported. Do not run this on a host with running workloads'',
     ''without planning that first.'']"

definition fix_filesys_0003 :: remedy where
  "fix_filesys_0003 = ModeFix ''FILESYS-0003''
    ''No file is world-writable''
    [[''chmod'', ''o-w'', ''--'']]
    ''find / -xdev -type f -perm -0002 -ls''
    (''A file made world-writable is usually two accounts sharing it. Prefer a group over '' @
      ''removing the bit outright.'')"

definition fix_filesys_0004 :: remedy where
  "fix_filesys_0004 = ModeFix ''FILESYS-0004''
    ''World-writable directories have the sticky bit set''
    [[''chmod'', ''a+t'', ''--'']]
    ''find / -xdev -type d -perm -0002 ! -perm -1000 -ls''
    (''The sticky bit is the fix here rather than removing the write permission: these '' @
      ''directories are usually shared on purpose.'')"

definition fix_auth_0004 :: remedy where
  "fix_auth_0004 = PamNullokFix"

definition fix_cron_0001 :: remedy where
  "fix_cron_0001 = ModeFix ''CRON-0001''
    ''The system crontab is owned by root and writable only by root''
    [[''chown'', ''root:root'', ''--''],
     [''chmod'', ''600'', ''--'']]
    ''ls -l /etc/crontab''
    (''0600 also closes CRON-0005. Anything that parses /etc/crontab as a non-root user '' @ em_dash @
      '' a monitoring agent, a configuration-management dry run '' @ em_dash @ '' stops being able to.'')"

definition fix_cron_0002 :: remedy where
  "fix_cron_0002 = ModeFix ''CRON-0002''
    ''The cron drop-in directories are owned by root and writable only by root''
    [[''chown'', ''root:root'', ''--''],
     [''chmod'', ''700'', ''--'']]
    ''ls -ld /etc/cron.d /etc/cron.hourly /etc/cron.daily /etc/cron.weekly /etc/cron.monthly''
    (''Creating a file in any of these schedules arbitrary code as root, which is why the mode '' @
      ''matters more here than on an ordinary directory.'')"

definition fix_auth_0005 :: remedy where
  "fix_auth_0005 = LoginDefsFix ''AUTH-0005''
    ''Passwords are hashed with a strong algorithm''
    ''ENCRYPT_METHOD''
    ''SHA512''
    [''**This changes nothing about the passwords already in /etc/shadow.** The hash is'',
     ''chosen when a password is *set*, so every existing account keeps whatever it was'',
     ''hashed with until its password is next changed. Until then a stolen /etc/shadow is'',
     ''worth exactly what it was worth before this ran.'',
     ''To actually retire the old hashes, expire the passwords so each user is forced to'',
     ''set a new one at their next login:'',
     ''  awk -F: '($2 ~ /^'' @ [CHR 0x5C] @ ''$1'' @ [CHR 0x5C] @
       ''$/) {print $1}' /etc/shadow   # accounts still on MD5'',
     ''  chage -d 0 <user>                                  # force a change at next login'',
     ''Do not do that to service accounts or to the account you are logged in as without'',
     ''a second way in: an expired password on an account with no interactive session is'',
     ''an account nobody can use.'',
     ''SHA512 rather than yescrypt, deliberately: yescrypt is the better hash and needs'',
     ''libxcrypt 4.4 or newer. A host without it accepts the setting and then cannot hash'',
     ''a password at all, which shows up as passwd(1) failing for every user at once.'']"

definition fix_users_0012 :: remedy where
  "fix_users_0012 = LoginDefsFix ''USERS-0012''
    ''The default minimum password age is at least one day''
    ''PASS_MIN_DAYS''
    ''1''
    [''This is the default for accounts created from now on. Accounts that already exist'',
     ''keep whatever is in /etc/shadow's fifth field '' @ em_dash @ '' 'chage --mindays 1 <user>' sets one,'',
     ''and USERS-0010 is the check that reports them.'',
     ''A minimum age stops a user changing their password again for a day, including'',
     ''straight after one they regret. Root can still reset it with 'passwd <user>', and'',
     ''that is the only escape hatch.'']"

definition fix_kernel_0004 :: remedy where
  "fix_kernel_0004 = SysctlFix ''KERNEL-0004''
    ''The kernel ring buffer is not readable by unprivileged users''
    [(''kernel.dmesg_restrict'', ''1'')]"

definition fix_kernel_0016 :: remedy where
  "fix_kernel_0016 = SysctlFix ''KERNEL-0016''
    ''TCP SYN cookies are enabled''
    [(''net.ipv4.tcp_syncookies'', ''1'')]"

definition fix_kernel_0026 :: remedy where
  "fix_kernel_0026 = SysctlFix ''KERNEL-0026''
    ''IPv6 router advertisements are refused in the sysctl configuration''
    [(''net.ipv6.conf.all.accept_ra'', ''0''), (''net.ipv6.conf.default.accept_ra'', ''0'')]"

definition fix_kernel_0030 :: remedy where
  "fix_kernel_0030 = SysctlFix ''KERNEL-0030''
    ''Hardlink protection is written to the sysctl configuration''
    [(''fs.protected_hardlinks'', ''1'')]"

definition fix_services_0007 :: remedy where
  "fix_services_0007 = SandboxFix ''SERVICES-0007''
    ''Audited system services run with the system directories read-only''
    ''50-plumbline-protectsystem.conf''
    [''ProtectSystem=full'']
    [''ProtectSystem=full mounts /usr, /boot, /efi and /etc read-only. It is the level'',
     ''that satisfies this check without profiling the service first '' @ em_dash @ '' SERVICES-0011'',
     ''asks for strict, which requires declaring every path the daemon writes.'',
     ''A service that writes its own configuration under /etc will fail: check with'',
     ''  systemd-analyze filesystems <unit>'']"

definition fix_services_0008 :: remedy where
  "fix_services_0008 = SandboxFix ''SERVICES-0008''
    ''Audited system services cannot reach user home directories''
    ''50-plumbline-protecthome.conf''
    [''ProtectHome=yes'']
    [''ProtectHome=yes makes /home, /root and /run/user empty and inaccessible.'',
     ''A service that reads a user's key, script or data file from there stops working;'',
     ''read-only lets it keep reading while stopping it writing, which is weaker and'',
     ''still satisfies this check.'']"

definition fix_services_0006 :: remedy where
  "fix_services_0006 = SandboxFix ''SERVICES-0006''
    ''Audited system services set NoNewPrivileges''
    ''50-plumbline-nonewprivileges.conf''
    [''NoNewPrivileges=yes'']
    [''A service that legitimately calls a setuid helper '' @ em_dash @ '' su, sudo, ping, a mount'',
     ''helper '' @ em_dash @ '' will fail after this, and fail at the call rather than at the restart.'']"

definition all_fixes :: "remedy list" where
  "all_fixes = [fix_services_0010, fix_network_0001, fix_network_0002, fix_containers_0001, fix_filesys_0003, fix_filesys_0004, fix_auth_0004, fix_cron_0001, fix_cron_0002, fix_auth_0005, fix_users_0012, fix_kernel_0004, fix_kernel_0016, fix_kernel_0026, fix_kernel_0030, fix_services_0007, fix_services_0008, fix_services_0006]"

lemmas fix_defs = fix_services_0010_def fix_network_0001_def fix_network_0002_def fix_containers_0001_def fix_filesys_0003_def fix_filesys_0004_def fix_auth_0004_def fix_cron_0001_def fix_cron_0002_def fix_auth_0005_def fix_users_0012_def fix_kernel_0004_def fix_kernel_0016_def fix_kernel_0026_def fix_kernel_0030_def fix_services_0007_def fix_services_0008_def fix_services_0006_def

text \<open>\<open>register\<close> panics on a second fix for a check: \<open>None\<close>.\<close>

definition register :: "remedy \<Rightarrow> remedy gomap option \<Rightarrow> remedy gomap option" where
  "register fx r =
     (case r of None \<Rightarrow> None
      | Some m \<Rightarrow> (if lookup m (CheckID fx) \<noteq> None then None else Some (put (CheckID fx) fx m)))"

definition registry :: "remedy gomap" where
  "registry = the (fold register all_fixes (Some []))"

definition Fixable :: "string \<Rightarrow> bool" where
  "Fixable check = (lookup registry check \<noteq> None)"

section \<open>Plans\<close>

record plan =
  pl_actions :: "action list"
  pl_unit_dir :: string
  pl_unfixable :: "finding list"
  pl_drop_in :: string

definition plan_empty :: "plan \<Rightarrow> bool" where
  "plan_empty p \<longleftrightarrow> pl_actions p = []"

definition Pairs :: "plan \<Rightarrow> string gomap" where
  "Pairs p = fold (\<lambda>a m. fold (\<lambda>k. put k (the (lookup (ac_pairs a) k))) (keys (ac_pairs a)) m) (pl_actions p) []"

definition open_failure :: "finding \<Rightarrow> bool" where
  "open_failure f \<longleftrightarrow> f_result f = Fail \<and> f_suppression f = None"

fun gen_loop :: "finding list \<Rightarrow> plan \<Rightarrow> plan" where
  "gen_loop [] p = p"
| "gen_loop (f # fs) p =
     (if \<not> open_failure f then gen_loop fs p
      else
        (case lookup registry (f_check_id f) of
           None \<Rightarrow> gen_loop fs (p\<lparr>pl_unfixable := pl_unfixable p @ [f]\<rparr>)
         | Some fx \<Rightarrow>
             (case build fx f of
                None \<Rightarrow> gen_loop fs (p\<lparr>pl_unfixable := pl_unfixable p @ [f]\<rparr>)
              | Some a \<Rightarrow> gen_loop fs (p\<lparr>pl_actions := pl_actions p @ [a]\<rparr>))))"

definition Generate :: "finding list \<Rightarrow> options \<Rightarrow> plan" where
  "Generate fs opts =
     (let p = gen_loop fs \<lparr>pl_actions = [], pl_unit_dir = unitDir opts, pl_unfixable = [], pl_drop_in = dropIn opts\<rparr> in
      p\<lparr>pl_actions := sort_key ac_check (pl_actions p), pl_unfixable := sort_key f_check_id (pl_unfixable p)\<rparr>)"

section \<open>The script\<close>

definition backupFunc :: string where
  "backupFunc = [CHR 0x0A] @ ''# Copy FILE to FILE.bak, once. An existing backup is never overwritten: on a'' @
    [CHR 0x0A] @ ''# second run that would replace the original with the already-edited version.'' @ [CHR 0x0A] @
    ''plumbline_backup() {'' @ [CHR 0x0A, CHR 0x09] @ ''if [ ! -e '' @ [CHR 0x22] @ ''$1.bak'' @ [CHR 0x22] @
    '' ]; then'' @ [CHR 0x0A, CHR 0x09, CHR 0x09] @ ''cp -p -- '' @ [CHR 0x22] @ ''$1'' @ [CHR 0x22] @ '' '' @
    [CHR 0x22] @ ''$1.bak'' @ [CHR 0x22, CHR 0x0A, CHR 0x09] @ ''fi'' @ [CHR 0x0A] @ ''}'' @ [CHR 0x0A]"

definition sysctlSetFunc :: string where
  "sysctlSetFunc = [CHR 0x0A] @ ''# Set KEY=VALUE in FILE: in place if the key is already there, appended if it'' @
    [CHR 0x0A] @ ''# is not, and duplicates collapsed to one. Running it twice leaves the file'' @ [CHR 0x0A] @
    ''# byte-identical, which is what makes this whole script safe to re-run.'' @ [CHR 0x0A] @
    ''plumbline_sysctl_set() {'' @ [CHR 0x0A, CHR 0x09] @ ''pl_key=$1 pl_val=$2 pl_file=$3'' @ [CHR 0x0A, CHR 0x09] @
    ''[ -f '' @ [CHR 0x22] @ ''$pl_file'' @ [CHR 0x22] @ '' ] || : > '' @ [CHR 0x22] @ ''$pl_file'' @
    [CHR 0x22, CHR 0x0A, CHR 0x09] @ ''pl_tmp=$(mktemp)'' @ [CHR 0x0A, CHR 0x09] @ ''awk -v key='' @ [CHR 0x22] @
    ''$pl_key'' @ [CHR 0x22] @ '' -v val='' @ [CHR 0x22] @ ''$pl_val'' @ [CHR 0x22] @ '' '' @
    [CHR 0x27, CHR 0x0A, CHR 0x09, CHR 0x09] @ ''{'' @ [CHR 0x0A, CHR 0x09, CHR 0x09, CHR 0x09] @ ''line = $0'' @
    [CHR 0x0A, CHR 0x09, CHR 0x09, CHR 0x09] @ ''sub(/^[ '' @ [CHR 0x5C] @ ''t]*/, '' @ [CHR 0x22, CHR 0x22] @
    '', line)'' @ [CHR 0x0A, CHR 0x09, CHR 0x09, CHR 0x09] @ ''sub(/^-/, '' @ [CHR 0x22, CHR 0x22] @ '', line)'' @
    [CHR 0x0A, CHR 0x09, CHR 0x09, CHR 0x09] @ ''if (line ~ /^[#;]/ || index(line, '' @ [CHR 0x22] @ ''='' @
    [CHR 0x22] @ '') == 0) { print; next }'' @ [CHR 0x0A, CHR 0x09, CHR 0x09, CHR 0x09] @
    ''k = substr(line, 1, index(line, '' @ [CHR 0x22] @ ''='' @ [CHR 0x22] @ '') - 1)'' @
    [CHR 0x0A, CHR 0x09, CHR 0x09, CHR 0x09] @ ''sub(/[ '' @ [CHR 0x5C] @ ''t]+$/, '' @ [CHR 0x22, CHR 0x22] @
    '', k)'' @ [CHR 0x0A, CHR 0x09, CHR 0x09, CHR 0x09] @ ''if (k != key) { print; next }'' @
    [CHR 0x0A, CHR 0x09, CHR 0x09, CHR 0x09] @ ''if (!done) { print key '' @ [CHR 0x22] @ '' = '' @ [CHR 0x22] @
    '' val; done = 1 }'' @ [CHR 0x0A, CHR 0x09, CHR 0x09, CHR 0x09] @ ''next'' @ [CHR 0x0A, CHR 0x09, CHR 0x09] @
    ''}'' @ [CHR 0x0A, CHR 0x09, CHR 0x09] @ ''END { if (!done) print key '' @ [CHR 0x22] @ '' = '' @ [CHR 0x22] @
    '' val }'' @ [CHR 0x0A, CHR 0x09, CHR 0x27] @ '' '' @ [CHR 0x22] @ ''$pl_file'' @ [CHR 0x22] @ '' > '' @
    [CHR 0x22] @ ''$pl_tmp'' @ [CHR 0x22, CHR 0x0A, CHR 0x09] @ ''cat '' @ [CHR 0x22] @ ''$pl_tmp'' @ [CHR 0x22] @
    '' > '' @ [CHR 0x22] @ ''$pl_file'' @ [CHR 0x22, CHR 0x0A, CHR 0x09] @ ''rm -f '' @ [CHR 0x22] @ ''$pl_tmp'' @
    [CHR 0x22, CHR 0x0A] @ ''}'' @ [CHR 0x0A]"

definition jsonSetFunc :: string where
  "jsonSetFunc = [CHR 0x0A] @ ''# Set KEY to VALUE in a JSON object file, creating the file if it is absent.'' @
    [CHR 0x0A] @ ''# The file is copied to FILE.bak once before the first change, and a run that'' @ [CHR 0x0A] @
    ''# finds the key already correct rewrites nothing at all.'' @ [CHR 0x0A] @ ''plumbline_json_set() {'' @
    [CHR 0x0A, CHR 0x09] @ ''pl_file=$1 pl_key=$2 pl_val=$3'' @ [CHR 0x0A, CHR 0x09] @
    ''if ! command -v python3 >/dev/null 2>&1; then'' @ [CHR 0x0A, CHR 0x09, CHR 0x09] @ ''echo '' @ [CHR 0x22] @
    ''plumbline: python3 is needed to edit $pl_file safely.'' @ [CHR 0x22] @ '' >&2'' @ [CHR 0x0A, CHR 0x09, CHR 0x09] @
    ''echo '' @ [CHR 0x22] @ ''plumbline: set '' @ [CHR 0x5C, CHR 0x22] @ ''$pl_key'' @ [CHR 0x5C, CHR 0x22] @ '': '' @
    [CHR 0x5C, CHR 0x22] @ ''$pl_val'' @ [CHR 0x5C, CHR 0x22] @ '' by hand instead.'' @ [CHR 0x22] @ '' >&2'' @
    [CHR 0x0A, CHR 0x09, CHR 0x09] @ ''return 1'' @ [CHR 0x0A, CHR 0x09] @ ''fi'' @ [CHR 0x0A, CHR 0x09] @
    ''if [ -e '' @ [CHR 0x22] @ ''$pl_file'' @ [CHR 0x22] @ '' ]; then'' @ [CHR 0x0A, CHR 0x09, CHR 0x09] @
    ''plumbline_backup '' @ [CHR 0x22] @ ''$pl_file'' @ [CHR 0x22, CHR 0x0A, CHR 0x09] @ ''fi'' @ [CHR 0x0A, CHR 0x09] @
    ''python3 - '' @ [CHR 0x22] @ ''$pl_file'' @ [CHR 0x22] @ '' '' @ [CHR 0x22] @ ''$pl_key'' @ [CHR 0x22] @ '' '' @
    [CHR 0x22] @ ''$pl_val'' @ [CHR 0x22] @ '' <<'PLUMBLINE_PY'' @ [CHR 0x27, CHR 0x0A] @
    ''import errno, json, os, sys'' @ [CHR 0x0A, CHR 0x0A] @
    ''path, key, value = sys.argv[1], sys.argv[2], sys.argv[3]'' @ [CHR 0x0A] @ ''try:'' @ [CHR 0x0A] @
    ''    with open(path) as fh:'' @ [CHR 0x0A] @ ''        text = fh.read().strip()'' @ [CHR 0x0A] @
    ''    doc = json.loads(text) if text else {}'' @ [CHR 0x0A] @ ''except IOError as err:'' @ [CHR 0x0A] @
    ''    if err.errno != errno.ENOENT:'' @ [CHR 0x0A] @ ''        raise'' @ [CHR 0x0A] @ ''    doc = {}'' @
    [CHR 0x0A] @ ''except ValueError as err:'' @ [CHR 0x0A] @ ''    sys.exit('' @ [CHR 0x22] @
    ''plumbline: %s is not valid JSON (%s); refusing to rewrite it'' @ [CHR 0x22] @ '' % (path, err))'' @
    [CHR 0x0A, CHR 0x0A] @ ''if not isinstance(doc, dict):'' @ [CHR 0x0A] @ ''    sys.exit('' @ [CHR 0x22] @
    ''plumbline: %s is not a JSON object; refusing to rewrite it'' @ [CHR 0x22] @ '' % path)'' @ [CHR 0x0A] @
    ''if doc.get(key) == value:'' @ [CHR 0x0A] @ ''    sys.exit(0)'' @ [CHR 0x0A, CHR 0x0A] @ ''doc[key] = value'' @
    [CHR 0x0A] @ ''parent = os.path.dirname(path)'' @ [CHR 0x0A] @ ''if parent and not os.path.isdir(parent):'' @
    [CHR 0x0A] @ ''    os.makedirs(parent)'' @ [CHR 0x0A] @ ''with open(path, '' @ [CHR 0x22] @ ''w'' @ [CHR 0x22] @
    '') as fh:'' @ [CHR 0x0A] @ ''    json.dump(doc, fh, indent=2, sort_keys=True)'' @ [CHR 0x0A] @ ''    fh.write('' @
    [CHR 0x22, CHR 0x5C] @ ''n'' @ [CHR 0x22] @ '')'' @ [CHR 0x0A] @ ''PLUMBLINE_PY'' @ [CHR 0x0A] @ ''}'' @
    [CHR 0x0A]"

definition dropInFunc :: string where
  "dropInFunc = [CHR 0x0A] @ ''# Write a systemd drop-in for UNIT containing BODY, and reload. Writing the'' @
    [CHR 0x0A] @ ''# whole file rather than appending is what makes this safe to run twice.'' @ [CHR 0x0A] @
    ''plumbline_dropin() {'' @ [CHR 0x0A, CHR 0x09] @ ''pl_unit=$1 pl_name=$2 pl_body=$3'' @ [CHR 0x0A, CHR 0x09] @
    ''pl_dir=$UNITDIR/$pl_unit.d'' @ [CHR 0x0A, CHR 0x09] @ ''mkdir -p '' @ [CHR 0x22] @ ''$pl_dir'' @
    [CHR 0x22, CHR 0x0A, CHR 0x09] @ ''printf '%s'' @ [CHR 0x5C] @ ''n' '' @ [CHR 0x22] @ ''$pl_body'' @ [CHR 0x22] @
    '' > '' @ [CHR 0x22] @ ''$pl_dir/$pl_name'' @ [CHR 0x22, CHR 0x0A, CHR 0x09] @ ''chmod 0644 '' @ [CHR 0x22] @
    ''$pl_dir/$pl_name'' @ [CHR 0x22, CHR 0x0A] @ ''}'' @ [CHR 0x0A]"

definition loginDefsSetFunc :: string where
  "loginDefsSetFunc = [CHR 0x0A] @ ''# Set KEY to VALUE in /etc/login.defs, honouring the file's own rule that the'' @
    [CHR 0x0A] @ ''# FIRST definition wins. The first is rewritten in place; any later ones are'' @ [CHR 0x0A] @
    ''# commented out with a note, because appending to this file would be silently'' @ [CHR 0x0A] @
    ''# ineffective on exactly the hosts that already set the key wrongly.'' @ [CHR 0x0A] @
    ''plumbline_logindefs_set() {'' @ [CHR 0x0A, CHR 0x09] @ ''pl_key=$1 pl_val=$2 pl_file=${3:-/etc/login.defs}'' @
    [CHR 0x0A, CHR 0x09] @ ''[ -f '' @ [CHR 0x22] @ ''$pl_file'' @ [CHR 0x22] @ '' ] || { echo '' @ [CHR 0x22] @
    ''plumbline: $pl_file does not exist; nothing to set'' @ [CHR 0x22] @ '' >&2; return 1; }'' @ [CHR 0x0A, CHR 0x09] @
    ''plumbline_backup '' @ [CHR 0x22] @ ''$pl_file'' @ [CHR 0x22, CHR 0x0A, CHR 0x09] @ ''pl_tmp=$(mktemp)'' @
    [CHR 0x0A, CHR 0x09] @ ''awk -v key='' @ [CHR 0x22] @ ''$pl_key'' @ [CHR 0x22] @ '' -v val='' @ [CHR 0x22] @
    ''$pl_val'' @ [CHR 0x22] @ '' '' @ [CHR 0x27, CHR 0x0A, CHR 0x09, CHR 0x09] @ ''{'' @
    [CHR 0x0A, CHR 0x09, CHR 0x09, CHR 0x09] @ ''line = $0'' @ [CHR 0x0A, CHR 0x09, CHR 0x09, CHR 0x09] @
    ''# A comment or a blank is passed through untouched.'' @ [CHR 0x0A, CHR 0x09, CHR 0x09, CHR 0x09] @
    ''if (line ~ /^[ '' @ [CHR 0x5C] @ ''t]*#/ || line ~ /^[ '' @ [CHR 0x5C] @ ''t]*$/) { print; next }'' @
    [CHR 0x0A, CHR 0x09, CHR 0x09, CHR 0x09] @ ''# The grammar is KEY<whitespace>VALUE. An '' @ [CHR 0x22] @ ''='' @
    [CHR 0x22] @ '' is not login.defs'' @ [CHR 0x0A, CHR 0x09, CHR 0x09, CHR 0x09] @
    ''# syntax and a line using one is not a setting the shadow suite'' @ [CHR 0x0A, CHR 0x09, CHR 0x09, CHR 0x09] @
    ''# reads, so it must not be treated as one.'' @ [CHR 0x0A, CHR 0x09, CHR 0x09, CHR 0x09] @ ''k = line'' @
    [CHR 0x0A, CHR 0x09, CHR 0x09, CHR 0x09] @ ''sub(/^[ '' @ [CHR 0x5C] @ ''t]+/, '' @ [CHR 0x22, CHR 0x22] @
    '', k)'' @ [CHR 0x0A, CHR 0x09, CHR 0x09, CHR 0x09] @ ''sub(/[ '' @ [CHR 0x5C] @ ''t].*$/, '' @
    [CHR 0x22, CHR 0x22] @ '', k)'' @ [CHR 0x0A, CHR 0x09, CHR 0x09, CHR 0x09] @ ''if (k != key) { print; next }'' @
    [CHR 0x0A, CHR 0x09, CHR 0x09, CHR 0x09] @ ''if (!done) { print key '' @ [CHR 0x22] @ '' '' @ [CHR 0x22] @
    '' val; done = 1; next }'' @ [CHR 0x0A, CHR 0x09, CHR 0x09, CHR 0x09] @ ''print '' @ [CHR 0x22] @
    ''# disabled by plumbline: login.defs takes the first match, so this line was never read'' @
    [CHR 0x22, CHR 0x0A, CHR 0x09, CHR 0x09, CHR 0x09] @ ''print '' @ [CHR 0x22] @ ''#'' @ [CHR 0x22] @ '' line'' @
    [CHR 0x0A, CHR 0x09, CHR 0x09] @ ''}'' @ [CHR 0x0A, CHR 0x09, CHR 0x09] @ ''END { if (!done) print key '' @
    [CHR 0x22] @ '' '' @ [CHR 0x22] @ '' val }'' @ [CHR 0x0A, CHR 0x09, CHR 0x27] @ '' '' @ [CHR 0x22] @ ''$pl_file'' @
    [CHR 0x22] @ '' > '' @ [CHR 0x22] @ ''$pl_tmp'' @ [CHR 0x22, CHR 0x0A, CHR 0x09] @ ''cat '' @ [CHR 0x22] @
    ''$pl_tmp'' @ [CHR 0x22] @ '' > '' @ [CHR 0x22] @ ''$pl_file'' @ [CHR 0x22, CHR 0x0A, CHR 0x09] @ ''rm -f '' @
    [CHR 0x22] @ ''$pl_tmp'' @ [CHR 0x22, CHR 0x0A] @ ''}'' @ [CHR 0x0A]"

definition helpers :: "(string \<times> string) list" where
  "helpers = [(''plumbline_backup'', backupFunc), (''plumbline_sysctl_set'', sysctlSetFunc),
     (''plumbline_json_set'', jsonSetFunc), (''plumbline_dropin'', dropInFunc), (''plumbline_logindefs_set'', loginDefsSetFunc)]"

text \<open>One pass over the helpers: those wanted, and the text that was scanned.\<close>

fun helper_pass :: "(string \<times> string) list \<Rightarrow> string list \<times> string \<Rightarrow> string list \<times> string" where
  "helper_pass [] x = x"
| "helper_pass ((call, body) # hs) (want, scan) =
     (if call \<in> set want \<or> \<not> contains scan call then helper_pass hs (want, scan)
      else helper_pass hs (call # want, scan @ body))"

text \<open>Every pass but the last wants one more, so as many passes as there are helpers reach the end.\<close>

fun helper_loop :: "nat \<Rightarrow> (string \<times> string) list \<Rightarrow> string list \<times> string \<Rightarrow> string list \<times> string" where
  "helper_loop 0 hs x = x"
| "helper_loop (Suc n) hs x = (let y = helper_pass hs x in if fst y = fst x then y else helper_loop n hs y)"

definition helpersFor :: "string \<Rightarrow> string list" where
  "helpersFor body =
     (let want = fst (helper_loop (length helpers) helpers ([], body)) in
      map snd (filter (\<lambda>(call, b). call \<in> set want) helpers))"

definition action_text :: "action \<Rightarrow> string" where
  "action_text a =
     [CHR 0x0A] @ ''# '' @ ac_check a @ '' '' @ em_dash @ '' '' @ ac_title a @ [CHR 0x0A]
     @ concat (map (\<lambda>n. ''#   '' @ n @ [CHR 0x0A]) (ac_notes a))
     @ concat (map (\<lambda>c. c @ [CHR 0x0A]) (ac_commands a))
     @ concat (map (\<lambda>k. ''plumbline_sysctl_set '' @ shellQuote k @ '' '' @
       shellQuote (the (lookup (ac_pairs a) k)) @
         ''  '' @ [CHR 0x22] @ ''$DROPIN'' @ [CHR 0x22] @ [CHR 0x0A]) (keys (ac_pairs a)))"

definition script_head :: string where
  "script_head = ''#!/bin/sh'' @ [CHR 0x0A] @ ''# Proposed by plumbline. Nothing here has been run.'' @ [CHR 0x0A] @
    ''#'' @ [CHR 0x0A] @ ''# Review it, then run it as root. It is safe to run twice: every step'' @ [CHR 0x0A] @
    ''# either leaves a value that is already correct alone or replaces it'' @ [CHR 0x0A] @
    ''# in place, and every file it edits is backed up once before the first'' @ [CHR 0x0A] @ ''# change.'' @
    [CHR 0x0A] @ ''set -eu'' @ [CHR 0x0A]"

definition script_tail :: string where
  "script_tail = [CHR 0x0A] @ ''# Re-apply every configuration file, so the running kernel and the'' @ [CHR 0x0A] @
    ''# files agree even where a value was already written but never loaded.'' @ [CHR 0x0A] @ ''sysctl --system'' @
    [CHR 0x0A]"

definition Script :: "plan \<Rightarrow> string" where
  "Script p =
     (let body = concat (map action_text (pl_actions p)) in
      script_head
      @ (if Pairs p \<noteq> [] then [CHR 0x0A] @ ''DROPIN='' @ shellQuote (pl_drop_in p) @ [CHR 0x0A] else [])
      @ (if contains body ''plumbline_dropin'' then [CHR 0x0A] @ ''UNITDIR='' @ shellQuote (pl_unit_dir p) @
        [CHR 0x0A] else [])
      @ concat (helpersFor body) @ body
      @ (if Pairs p \<noteq> [] then script_tail else []))"

section \<open>The drop-in\<close>

definition keyOf :: "string \<Rightarrow> string" where
  "keyOf line =
     (let l0 = trim_left line (CHR '' '' # [CHR 0x09]); l = (if has_prefix l0 ''-'' then drop 1 l0 else l0) in
      if l = [] \<or> has_prefix l ''#'' \<or> has_prefix l '';'' then []
      else (case cut_at (CHR ''='') l of None \<Rightarrow> [] | Some (k, v) \<Rightarrow> trim_right k (CHR '' '' # [CHR 0x09])))"

definition splitLines :: "string \<Rightarrow> string list" where
  "splitLines s =
     (if s = [] then []
      else (let ls = split_on (CHR 0x0A) s in if last ls = [] then butlast ls else ls))"

text \<open>One key: \<open>written\<close> says whether its line was met.\<close>

fun merge_lines :: "string \<Rightarrow> string \<Rightarrow> bool \<Rightarrow> string list \<Rightarrow> string list" where
  "merge_lines key value written [] = (if written then [] else [key @ '' = '' @ value])"
| "merge_lines key value written (l # ls) =
     (if keyOf l \<noteq> key then l # merge_lines key value written ls
      else if written then merge_lines key value True ls
      else (key @ '' = '' @ value) # merge_lines key value True ls)"

definition Merge :: "string \<Rightarrow> string gomap \<Rightarrow> string" where
  "Merge existing pairs =
     (let ls = fold (\<lambda>k. merge_lines k (the (lookup pairs k)) False) (keys pairs) (splitLines existing) in
      if ls = [] then [] else join [CHR 0x0A] ls @ [CHR 0x0A])"

end
