(* ===== verification/Remediate_Laws.thy ===== *)
theory Remediate_Laws
  imports Remediate Json_Laws
begin

text \<open>
  What makes the proposed script safe to hand to an administrator: only open failures are acted on, text from
  the host reaches the shell as single words, and the drop-in can be written twice.
\<close>

section \<open>Which findings are acted on\<close>

lemma check_cmd [simp]: "ac_check (cmd argv a) = ac_check a" "ac_check (lit l a) = ac_check a" "ac_check (remark t a) = ac_check a"
  by (simp_all add: cmd_def lit_def remark_def)

lemma check_fold: "(\<And>x a. ac_check (g x a) = ac_check a) \<Longrightarrow> ac_check (fold g xs a) = ac_check a"
  by (induction xs arbitrary: a) auto

lemma check_remarks [simp]: "ac_check (remarks ns a) = ac_check a"
  by (simp add: remarks_def check_fold)

lemma build_check: "build fx f = Some a \<Longrightarrow> ac_check a = CheckID fx"
  by (cases fx)
    (auto simp: sysctl_build_def mode_build_def nullok_build_def sandbox_build_def apparmor_build_def ufw_build_def
      docker_build_def logindefs_build_def new_action_def check_fold Let_def split: if_splits prod.split)

lemma register_simps [simp]: "register fx None = None"
  "register fx (Some m) = (if lookup m (CheckID fx) \<noteq> None then None else Some (put (CheckID fx) fx m))"
  by (simp_all add: register_def)

lemma fold_register:
  "fold register fxs (Some m) \<noteq> None \<Longrightarrow> wf_map m \<Longrightarrow> (\<forall>i fx. lookup m i = Some fx \<longrightarrow> CheckID fx = i) \<Longrightarrow>
     (\<forall>i fx. lookup (the (fold register fxs (Some m))) i = Some fx \<longrightarrow> CheckID fx = i \<and> (lookup m i = Some fx \<or> fx \<in> set fxs))"
proof (induction fxs arbitrary: m)
  case (Cons fx fxs)
  have "fold register xs None = None" for xs by (induction xs) auto
  then have n: "lookup m (CheckID fx) = None" using Cons.prems(1) by (cases "lookup m (CheckID fx)") auto
  then have e: "fold register (fx # fxs) (Some m) = fold register fxs (Some (put (CheckID fx) fx m))" by simp
  have ne: "fold register fxs (Some (put (CheckID fx) fx m)) \<noteq> None" using Cons.prems(1) unfolding e .
  have "\<forall>i y. lookup (put (CheckID fx) fx m) i = Some y \<longrightarrow> CheckID y = i" using Cons.prems(3) by simp
  note IH = Cons.IH[OF ne gm.wf_ins[OF Cons.prems(2)] this]
  show ?case unfolding e
  proof (intro allI impI)
    fix i y assume "lookup (the (fold register fxs (Some (put (CheckID fx) fx m)))) i = Some y"
    with IH have "CheckID y = i \<and> (lookup (put (CheckID fx) fx m) i = Some y \<or> y \<in> set fxs)" by blast
    then show "CheckID y = i \<and> (lookup m i = Some y \<or> y \<in> set (fx # fxs))" by (auto split: if_splits)
  qed
qed auto

lemma all_fixes_ids: "map CheckID all_fixes = [''SERVICES-0010'', ''NETWORK-0001'', ''NETWORK-0002'', ''CONTAINERS-0001'',
    ''FILESYS-0003'', ''FILESYS-0004'', ''AUTH-0004'', ''CRON-0001'', ''CRON-0002'', ''AUTH-0005'', ''USERS-0012'',
    ''KERNEL-0004'', ''KERNEL-0016'', ''KERNEL-0026'', ''KERNEL-0030'', ''SERVICES-0007'', ''SERVICES-0008'', ''SERVICES-0006'']"
  by (simp add: all_fixes_def fix_defs)

lemma register_distinct:
  "distinct (map CheckID fxs) \<Longrightarrow> \<forall>fx \<in> set fxs. lookup m (CheckID fx) = None \<Longrightarrow> fold register fxs (Some m) \<noteq> None"
proof (induction fxs arbitrary: m)
  case (Cons fx fxs)
  have "\<forall>g \<in> set fxs. lookup (put (CheckID fx) fx m) (CheckID g) = None" using Cons.prems by (auto simp: image_iff)
  then show ?case using Cons.IH Cons.prems by simp
qed simp

lemma registered: "fold register all_fixes (Some []) \<noteq> None"
proof (rule register_distinct)
  show "distinct (map CheckID all_fixes)" unfolding all_fixes_ids by simp
qed simp

lemma registry_id: "lookup registry i = Some fx \<Longrightarrow> CheckID fx = i \<and> fx \<in> set all_fixes"
  using fold_register[OF registered] by (auto simp: registry_def)

lemma fold_register_lookup:
  "fold register fxs (Some m) \<noteq> None \<Longrightarrow>
     (\<forall>fx \<in> set fxs. lookup (the (fold register fxs (Some m))) (CheckID fx) = Some fx)
     \<and> (\<forall>i y. lookup m i = Some y \<longrightarrow> lookup (the (fold register fxs (Some m))) i = Some y)"
proof (induction fxs arbitrary: m)
  case (Cons fx fxs)
  have "fold register xs None = None" for xs by (induction xs) auto
  then have n: "lookup m (CheckID fx) = None" using Cons.prems(1) by (cases "lookup m (CheckID fx)") auto
  have e: "fold register (fx # fxs) (Some m) = fold register fxs (Some (put (CheckID fx) fx m))" using n by simp
  have "fold register fxs (Some (put (CheckID fx) fx m)) \<noteq> None" using Cons.prems(1) unfolding e .
  note IH = Cons.IH[OF this]
  have kept: "lookup (put (CheckID fx) fx m) i = Some y" if "lookup m i = Some y" for i y using that n by auto
  have "lookup (put (CheckID fx) fx m) (CheckID fx) = Some fx" by simp
  then show ?case unfolding e using IH kept by auto
qed simp

lemma registry_complete: "fx \<in> set all_fixes \<Longrightarrow> lookup registry (CheckID fx) = Some fx"
  using fold_register_lookup[OF registered] by (simp add: registry_def)

lemma gen_loop_split:
  "\<exists>as us. gen_loop fs p = p\<lparr>pl_actions := pl_actions p @ as, pl_unfixable := pl_unfixable p @ us\<rparr>
     \<and> mset (map ac_check as @ map f_check_id us) = mset (map f_check_id (filter open_failure fs))
     \<and> (\<forall>a \<in> set as. \<exists>f \<in> set fs. \<exists>fx. open_failure f \<and> lookup registry (f_check_id f) = Some fx \<and> build fx f = Some a)
     \<and> (\<forall>u \<in> set us. u \<in> set fs \<and> open_failure u)"
proof (induction fs arbitrary: p)
  case (Cons f fs)
  have act: ?case if b: "open_failure f" "lookup registry (f_check_id f) = Some fx" "build fx f = Some a" for fx a
  proof -
    obtain as us where IH: "gen_loop fs (p\<lparr>pl_actions := pl_actions p @ [a]\<rparr>)
        = p\<lparr>pl_actions := pl_actions p @ [a] @ as, pl_unfixable := pl_unfixable p @ us\<rparr>"
      "mset (map ac_check as @ map f_check_id us) = mset (map f_check_id (filter open_failure fs))"
      "\<forall>a \<in> set as. \<exists>f \<in> set fs. \<exists>fx. open_failure f \<and> lookup registry (f_check_id f) = Some fx \<and> build fx f = Some a"
      "\<forall>u \<in> set us. u \<in> set fs \<and> open_failure u"
      using Cons.IH[of "p\<lparr>pl_actions := pl_actions p @ [a]\<rparr>"] by auto
    have "ac_check a = f_check_id f" using b build_check registry_id by fastforce
    then show ?thesis using IH b by (intro exI[of _ "a # as"] exI[of _ us]) auto
  qed
  have skip: ?case if b: "open_failure f" "gen_loop (f # fs) p = gen_loop fs (p\<lparr>pl_unfixable := pl_unfixable p @ [f]\<rparr>)"
  proof -
    obtain as us where IH: "gen_loop fs (p\<lparr>pl_unfixable := pl_unfixable p @ [f]\<rparr>)
        = p\<lparr>pl_actions := pl_actions p @ as, pl_unfixable := pl_unfixable p @ [f] @ us\<rparr>"
      "mset (map ac_check as @ map f_check_id us) = mset (map f_check_id (filter open_failure fs))"
      "\<forall>a \<in> set as. \<exists>f \<in> set fs. \<exists>fx. open_failure f \<and> lookup registry (f_check_id f) = Some fx \<and> build fx f = Some a"
      "\<forall>u \<in> set us. u \<in> set fs \<and> open_failure u"
      using Cons.IH[of "p\<lparr>pl_unfixable := pl_unfixable p @ [f]\<rparr>"] by auto
    then show ?thesis using b by (intro exI[of _ as] exI[of _ "f # us"]) auto
  qed
  show ?case
  proof (cases "open_failure f")
    case False
    then show ?thesis using Cons.IH[of p] by auto
  next
    case o: True
    show ?thesis
    proof (cases "\<exists>fx a. lookup registry (f_check_id f) = Some fx \<and> build fx f = Some a")
      case True
      then show ?thesis using act o by blast
    next
      case False
      then show ?thesis using o by (intro skip) (auto split: option.split)
    qed
  qed
qed auto

section \<open>How the shell reads a command\<close>

text \<open>
  A simple command line that stands for exactly the words it spells: blanks separate them, single quotes take
  everything up to the next one literally, a backslash the next character, and of the other characters only
  those without a meaning to the shell may stand alone. \<open>None\<close> is a line the shell would do more with.
\<close>

fun sh_lex :: "bool \<Rightarrow> string option \<Rightarrow> string \<Rightarrow> string list option" where
  "sh_lex True cur [] = None"
| "sh_lex False cur [] = Some (case cur of None \<Rightarrow> [] | Some w \<Rightarrow> [w])"
| "sh_lex True cur (c # s) =
     (if c = CHR 0x27 then sh_lex False cur s
      else sh_lex True (Some ((case cur of None \<Rightarrow> [] | Some w \<Rightarrow> w) @ [c])) s)"
| "sh_lex False cur (c # s) =
     (if c = CHR 0x27 then sh_lex True (Some (case cur of None \<Rightarrow> [] | Some w \<Rightarrow> w)) s
      else if c = CHR '' '' then map_option (\<lambda>ws. (case cur of None \<Rightarrow> ws | Some w \<Rightarrow> w # ws)) (sh_lex False None s)
      else if c = CHR 0x5C then
        (case s of
           [] \<Rightarrow> None
         | d # t \<Rightarrow> if d = CHR 0x0A then None
             else sh_lex False (Some ((case cur of None \<Rightarrow> [] | Some w \<Rightarrow> w) @ [d])) t)
      else if safe_char c then sh_lex False (Some ((case cur of None \<Rightarrow> [] | Some w \<Rightarrow> w) @ [c])) s
      else None)"

definition sh_words :: "string \<Rightarrow> string list option" where
  "sh_words s = sh_lex False None s"

lemma safe_char_plain: "safe_char c \<Longrightarrow> c \<noteq> CHR 0x27 \<and> c \<noteq> CHR '' '' \<and> c \<noteq> CHR 0x5C"
  by (auto simp: safe_char_def is_digit_def byte_def less_eq_char_def)

lemma lex_safe: "list_all safe_char s \<Longrightarrow> s \<noteq> [] \<Longrightarrow>
    sh_lex False cur (s @ r) = sh_lex False (Some ((case cur of None \<Rightarrow> [] | Some w \<Rightarrow> w) @ s)) r"
proof (induction s arbitrary: cur)
  case (Cons c s)
  then show ?case using safe_char_plain[of c] by (cases s) (auto split: option.split)
qed simp

lemma lex_quoted: "sh_lex True (Some w) (concat (map (\<lambda>c. if c = CHR 0x27 then [CHR 0x27, CHR 0x5C, CHR 0x27, CHR 0x27] else [c]) s)
      @ CHR 0x27 # r) = sh_lex False (Some (w @ s)) r"
  by (induction s arbitrary: w) auto

lemma lex_shellQuote: "sh_lex False None (shellQuote s @ r) = sh_lex False (Some s) r"
proof (cases "s = [] \<or> list_all safe_char s")
  case True
  then show ?thesis using lex_safe[of s None r] by (cases "s = []") (auto simp: shellQuote_def)
next
  case False
  then show ?thesis using lex_quoted[of "[]" s r] by (auto simp: shellQuote_def)
qed

lemma sh_words_join: "sh_words (join '' '' (map shellQuote argv)) = Some argv"
proof (induction argv)
  case (Cons s argv)
  show ?case
  proof (cases argv)
    case Nil
    then show ?thesis using lex_shellQuote[of s "[]"] by (simp add: sh_words_def)
  next
    case (Cons t ts)
    then have "sh_words (join '' '' (map shellQuote (s # argv))) = sh_lex False (Some s) (CHR '' '' # join '' '' (map shellQuote argv))"
      using lex_shellQuote[of s] by (simp add: sh_words_def)
    then show ?thesis using \<open>sh_words (join '' '' (map shellQuote argv)) = Some argv\<close> by (simp add: sh_words_def)
  qed
qed (simp add: sh_words_def)

section \<open>What the script carries\<close>

definition one_line :: "string \<Rightarrow> bool" where
  "one_line s \<longleftrightarrow> CHR 0x0A \<notin> set s"

lemma one_line_append [simp]: "one_line (s @ t) \<longleftrightarrow> one_line s \<and> one_line t"
  by (auto simp: one_line_def)

lemma one_line_Cons [simp]: "one_line (c # s) \<longleftrightarrow> c \<noteq> CHR 0x0A \<and> one_line s" "one_line []"
  by (auto simp: one_line_def)

text \<open>Sanitised text is one line.\<close>

lemma safe_one_line: "safe_text s \<Longrightarrow> one_line s"
proof (induction s rule: runes.induct)
  case (1 s)
  show ?case
  proof (cases "s = []")
    case False
    let ?n = "snd (decode_rune s)"
    have sf: "safe_rune (decode_rune s)" "safe_text (drop ?n s)" using "1.prems" safe_text_step[OF False] by auto
    have "one_line (take ?n s)"
    proof (cases "byte (hd s) < 0x80")
      case True
      then have d: "decode_rune s = (byte (hd s), 1)" using False decode_rune_ascii by (cases s) (auto simp del: decode_rune.simps)
      have "hd s \<noteq> CHR 0x0A"
      proof
        assume "hd s = CHR 0x0A"
        then have "byte (hd s) = 10" by (simp add: byte_def)
        then show False using sf(1) d by (simp add: safe_rune_def control_rune_def)
      qed
      then show ?thesis using d False by (cases s) (auto simp: one_line_def)
    next
      case m: False
      then have "list_all ordinary (take ?n s)" using multi_ordinary[OF False] sf(1) by (simp add: safe_rune_def)
      moreover have "\<not> ordinary CHR 0x0A" by (simp add: ordinary_def byte_def)
      ultimately show ?thesis unfolding one_line_def list_all_iff by blast
    qed
    moreover have "one_line (drop ?n s)" using 1(1)[OF False sf(2)] .
    ultimately have "one_line (take ?n s @ drop ?n s)" by (simp only: one_line_append simp_thms)
    then show ?thesis by simp
  qed simp
qed

text \<open>
  A line of the script that does what it spells: one of the program's own lines, the reminder to restart a
  unit whose name cannot end or expand the double-quoted word it is in, or a program with the words it is
  called with.
\<close>

definition programs :: "string list" where
  "programs = [''sysctl'', ''chmod'', ''chown'', ''sed'', ''systemctl'', ''ufw'', ''plumbline_backup'', ''plumbline_dropin'',
     ''plumbline_json_set'', ''plumbline_logindefs_set'']"

definition harmless :: "string \<Rightarrow> bool" where
  "harmless c \<longleftrightarrow>
     c \<in> set (written_line # apparmor_lines)
     \<or> (\<exists>u. list_all unit_char u \<and> c = restart_line u)
     \<or> (\<exists>p args. p \<in> set programs \<and> sh_words c = Some (p # args))"

definition quiet :: "action \<Rightarrow> bool" where
  "quiet a \<longleftrightarrow> one_line (ac_check a) \<and> one_line (ac_title a) \<and> list_all one_line (ac_notes a) \<and> list_all harmless (ac_commands a)"

lemma quiet_cmd: "quiet a \<Longrightarrow> argv \<noteq> [] \<Longrightarrow> hd argv \<in> set programs \<Longrightarrow> quiet (cmd argv a)"
  using sh_words_join[of argv] by (cases argv) (auto simp: quiet_def cmd_def harmless_def)

lemma quiet_lit: "quiet a \<Longrightarrow> harmless l \<Longrightarrow> quiet (lit l a)"
  by (simp add: quiet_def lit_def)

lemma quiet_remark: "quiet a \<Longrightarrow> one_line t \<Longrightarrow> quiet (remark t a)"
  by (simp add: quiet_def remark_def)

lemma quiet_fold: "quiet a \<Longrightarrow> (\<And>x b. x \<in> set xs \<Longrightarrow> quiet b \<Longrightarrow> quiet (g x b)) \<Longrightarrow> quiet (fold g xs a)"
  by (induction xs arbitrary: a) auto

lemma quiet_remarks: "quiet a \<Longrightarrow> list_all one_line ns \<Longrightarrow> quiet (remarks ns a)"
  unfolding remarks_def by (intro quiet_fold quiet_remark) (auto simp: list_all_iff)

lemma quiet_new: "one_line i \<Longrightarrow> one_line t \<Longrightarrow> quiet (new_action i t)"
  by (simp add: quiet_def new_action_def)

lemma quiet_pairs: "quiet a \<Longrightarrow> quiet (a\<lparr>ac_pairs := m\<rparr>)"
  by (simp add: quiet_def)

text \<open>What each registered fix is made of.\<close>

fun plain_fix :: "remedy \<Rightarrow> bool" where
  "plain_fix (SysctlFix i t pairs) \<longleftrightarrow> one_line i \<and> one_line t"
| "plain_fix (ModeFix i t argvs enum caution) \<longleftrightarrow> one_line i \<and> one_line t \<and> one_line enum \<and> one_line caution
     \<and> list_all (\<lambda>argv. argv \<noteq> [] \<and> hd argv \<in> set programs) argvs"
| "plain_fix (SandboxFix i t name directives ns) \<longleftrightarrow> one_line i \<and> one_line t \<and> list_all one_line ns"
| "plain_fix (UfwFix i t) \<longleftrightarrow> one_line i \<and> one_line t"
| "plain_fix (DockerJSONFix i t fallback key value ns) \<longleftrightarrow> one_line i \<and> one_line t \<and> one_line fallback \<and> list_all one_line ns"
| "plain_fix (LoginDefsFix i t key value ns) \<longleftrightarrow> one_line i \<and> one_line t \<and> list_all one_line ns"
| "plain_fix _ \<longleftrightarrow> True"

lemma registered_fixes_plain: "fx \<in> set all_fixes \<Longrightarrow> plain_fix fx"
proof -
  have "list_all plain_fix all_fixes" by (simp add: all_fixes_def fix_defs programs_def em_dash_def)
  then show "fx \<in> set all_fixes \<Longrightarrow> ?thesis" by (simp add: list_all_iff)
qed

text \<open>A unit name is made of the characters of its pattern.\<close>

lemma unit_suffix_chars: "unit_suffix s = Some n \<Longrightarrow> list_all unit_char (take n s)"
  by (auto simp: unit_suffix_def has_prefix_iff unit_char_def word_char_def is_digit_def byte_def less_eq_char_def
      split: if_splits)

lemma longest_name_chars:
  "longest_name k s = Some n \<Longrightarrow> list_all unit_char (take k s) \<Longrightarrow> list_all unit_char (take n s)"
proof (induction k s rule: longest_name.induct)
  case (2 k s)
  have k: "list_all unit_char (take k s)" using 2(3) set_take_subset_set_take[of k "Suc k" s] by (auto simp: list_all_iff)
  show ?case
  proof (cases "unit_suffix (drop (Suc k) s)")
    case None
    then show ?thesis using 2 k by simp
  next
    case (Some m)
    then have "n = Suc k + m" using 2(2) by simp
    then have "take n s = take (Suc k) s @ take m (drop (Suc k) s)" by (simp only: take_add)
    then show ?thesis using unit_suffix_chars[OF Some] 2(3) by simp
  qed
qed simp

lemma find_units_chars: "u \<in> set (find_units w s) \<Longrightarrow> list_all unit_char u"
proof (induction w s rule: find_units.induct)
  case (1 w s)
  have um: "list_all unit_char (take n s)" if "unit_match s = Some n" for n
  proof -
    have "take (length (takeWhile unit_char s)) s = takeWhile unit_char s" by (metis takeWhile_eq_take)
    then show ?thesis using that longest_name_chars unfolding unit_match_def by (metis list_all_iff set_takeWhileD)
  qed
  show ?case
  proof (cases "s = [] \<or> w = at_word s \<or> unit_match s = None")
    case True
    then have "find_units w s = (if s = [] then [] else find_units (at_word s) (tl s))"
      by (subst find_units.simps) auto
    then show ?thesis using 1 True by (auto split: if_splits)
  next
    case False
    then obtain n where n: "s \<noteq> []" "w \<noteq> at_word s" "unit_match s = Some n" by auto
    then have "find_units w s = take n s # find_units (at_word (drop (n - 1) s)) (drop n s)"
      by (subst find_units.simps) auto
    then show ?thesis using 1(2)[of n] 1(3) um n by auto
  qed
qed

section \<open>Every fix builds a quiet action\<close>

text \<open>What a finding cites, one line each.\<close>

definition cites_lines :: "finding \<Rightarrow> bool" where
  "cites_lines f \<longleftrightarrow> one_line (f_title f) \<and> one_line (f_subject f) \<and> list_all (\<lambda>e. one_line (ev_source e)) (f_evidence f)"

lemma one_line_title: "cites_lines f \<Longrightarrow> one_line t \<Longrightarrow> one_line (titleOf f t)"
  by (simp add: cites_lines_def titleOf_def)

lemma one_line_paths: "cites_lines f \<Longrightarrow> p \<in> set (pathsFrom f) \<Longrightarrow> one_line p"
  by (auto simp: cites_lines_def pathsFrom_def Let_def list_all_iff split: if_splits)

lemma one_line_nat_str: "one_line (nat_str n)"
  using nat_str_digits[of n] by (auto simp: one_line_def is_digit_def byte_def)

lemmas quiet_intros = quiet_remarks quiet_remark quiet_new one_line_title

lemma quiet_cmds: "quiet a \<Longrightarrow> list_all (\<lambda>argv. argv \<noteq> [] \<and> hd argv \<in> set programs) argvs \<Longrightarrow> quiet (fold cmd argvs a)"
  by (intro quiet_fold) (auto simp: list_all_iff intro: quiet_cmd)

lemma quiet_sysctl:
  assumes "sysctl_build i t pairs f = Some a" "plain_fix (SysctlFix i t pairs)" "cites_lines f"
  shows "quiet a"
proof -
  have "quiet (fold (\<lambda>(k, v) a. (cmd [''sysctl'', ''-w'', k @ ''='' @ v] a)\<lparr>ac_pairs := put k v (ac_pairs a)\<rparr>) pairs
       (new_action i (titleOf f t)))"
    using assms(2,3) by (intro quiet_fold quiet_intros) (auto split: prod.split simp: programs_def intro!: quiet_pairs quiet_cmd)
  then show ?thesis using assms(1) by (simp add: sysctl_build_def)
qed

lemma quiet_mode:
  assumes "mode_build i t argvs enum caution f = Some a" "plain_fix (ModeFix i t argvs enum caution)" "cites_lines f"
  shows "quiet a"
proof -
  have p: "one_line (pathCount (length (pathsFrom f)) @ '' below came from this scan's evidence, which is capped.'')"
    using one_line_nat_str by (simp add: pathCount_def)
  have "quiet (remark (''List every one on the host with: '' @ enum)
            (remark (pathCount (length (pathsFrom f)) @ '' below came from this scan's evidence, which is capped.'')
              ((if caution \<noteq> [] then remark caution else id) (new_action i (titleOf f t)))))"
    using assms(2,3) by (intro quiet_remark p) (auto intro!: quiet_intros)
  then have "quiet (fold (\<lambda>p. fold (\<lambda>argv. cmd (argv @ [p])) argvs) (pathsFrom f)
          (remark (''List every one on the host with: '' @ enum)
            (remark (pathCount (length (pathsFrom f)) @ '' below came from this scan's evidence, which is capped.'')
              ((if caution \<noteq> [] then remark caution else id) (new_action i (titleOf f t))))))"
    using assms(2) by (intro quiet_fold quiet_cmd) (auto simp: list_all_iff)
  then show ?thesis using assms(1) by (auto simp: mode_build_def Let_def split: if_splits)
qed

lemma quiet_nullok: "nullok_build f = Some a \<Longrightarrow> cites_lines f \<Longrightarrow> quiet a"
  by (auto simp: nullok_build_def Let_def programs_def split: if_splits intro!: quiet_fold quiet_cmd quiet_intros)

lemma quiet_sandbox:
  assumes "sandbox_build i t name directives ns f = Some a" "plain_fix (SandboxFix i t name directives ns)" "cites_lines f"
  shows "quiet a"
proof -
  have u: "harmless (restart_line u)" if "u \<in> set (unitsIn f)" for u
  proof -
    have "list_all unit_char u" using that find_units_chars by (auto simp: unitsIn_def)
    then show ?thesis by (auto simp: harmless_def)
  qed
  have w: "harmless written_line" by (simp add: harmless_def)
  show ?thesis using assms u w
    by (auto simp: sandbox_build_def Let_def programs_def em_dash_def split: if_splits
        intro!: quiet_fold quiet_lit quiet_cmd quiet_intros)
qed

lemma quiet_apparmor: "apparmor_build f = Some a \<Longrightarrow> cites_lines f \<Longrightarrow> quiet a"
  by (auto simp: apparmor_build_def programs_def harmless_def intro!: quiet_fold quiet_lit quiet_cmd quiet_intros)

lemma quiet_ufw: "ufw_build i t f = Some a \<Longrightarrow> plain_fix (UfwFix i t) \<Longrightarrow> cites_lines f \<Longrightarrow> quiet a"
  by (auto simp: ufw_build_def programs_def simp del: fold.simps split: if_splits intro!: quiet_cmds quiet_intros)

lemma quiet_docker:
  assumes "docker_build i t fallback key value ns f = Some a" "plain_fix (DockerJSONFix i t fallback key value ns)" "cites_lines f"
  shows "quiet a"
proof -
  have "one_line (docker_path fallback f)"
    using assms(2,3) one_line_paths[OF assms(3)]
    by (auto simp: docker_path_def keepPaths_def cites_lines_def filter_eq_Cons_iff split: list.split)
  then show ?thesis using assms
    by (auto simp: docker_build_def Let_def programs_def em_dash_def intro!: quiet_cmd quiet_intros)
qed

lemma quiet_logindefs:
  "logindefs_build i t key value ns f = Some a \<Longrightarrow> plain_fix (LoginDefsFix i t key value ns) \<Longrightarrow> cites_lines f \<Longrightarrow> quiet a"
  by (auto simp: logindefs_build_def programs_def em_dash_def intro!: quiet_cmd quiet_intros)

lemma quiet_build: "build fx f = Some a \<Longrightarrow> plain_fix fx \<Longrightarrow> cites_lines f \<Longrightarrow> quiet a"
  by (cases fx)
    (auto simp del: plain_fix.simps
      dest: quiet_sysctl quiet_mode quiet_nullok quiet_sandbox quiet_apparmor quiet_ufw quiet_docker quiet_logindefs)

section \<open>Merging a drop-in\<close>

abbreviation setting :: "string \<Rightarrow> string \<Rightarrow> string" where
  "setting k v \<equiv> k @ '' = '' @ v"

text \<open>A pair whose line is read back as a setting of its key, as sysctl names are.\<close>

definition proper_pair :: "string \<Rightarrow> string \<Rightarrow> bool" where
  "proper_pair k v \<longleftrightarrow> keyOf (setting k v) = k \<and> one_line k \<and> one_line v"

lemma split_on_join:
  "ls \<noteq> [] \<Longrightarrow> list_all (\<lambda>l. sep \<notin> set l) ls \<Longrightarrow> split_on sep (join [sep] ls) = ls"
proof (induction ls rule: induct_list012)
  case (2 w)
  then show ?case by (induction w) auto
next
  case (3 w v ws)
  then have "split_on sep (join [sep] (v # ws)) = v # ws" by simp
  then have "sep \<notin> set w \<Longrightarrow> split_on sep (w @ sep # join [sep] (v # ws)) = w # v # ws" by (induction w) auto
  then show ?case using 3 by simp
qed simp

lemma splitLines_join:
  assumes "ls \<noteq> []" "list_all one_line ls"
  shows "splitLines (join [CHR 0x0A] ls @ [CHR 0x0A]) = ls"
proof -
  have "join [CHR 0x0A] ls @ [CHR 0x0A] = join [CHR 0x0A] (ls @ [[]])"
    using assms(1) by (induction ls rule: induct_list012) (auto simp: join_Cons)
  moreover have "split_on (CHR 0x0A) (join [CHR 0x0A] (ls @ [[]])) = ls @ [[]]"
    using assms(2) by (intro split_on_join) (auto simp: one_line_def list_all_iff)
  moreover have "join [CHR 0x0A] (ls @ [[]]) \<noteq> []"
    using assms(1) by (induction ls rule: induct_list012) (auto simp: join_Cons)
  ultimately show ?thesis by (simp add: splitLines_def Let_def)
qed

lemma splitLines_one_line: "list_all one_line (splitLines s)"
  by (auto simp: splitLines_def Let_def list_all_iff one_line_def dest: in_set_butlastD split_on_no_sep)

lemma merge_filter_other:
  "(\<And>l. P l \<Longrightarrow> keyOf l \<noteq> k) \<Longrightarrow> keyOf (setting k v) = k \<Longrightarrow> filter P (merge_lines k v w ls) = filter P ls"
  by (induction k v w ls rule: merge_lines.induct) auto

lemma merge_filter_key:
  "keyOf (setting k v) = k \<Longrightarrow>
     filter (\<lambda>l. keyOf l = k) (merge_lines k v w ls) = (if w then [] else [setting k v])"
  by (induction k v w ls rule: merge_lines.induct) auto

lemma merge_settled:
  "filter (\<lambda>l. keyOf l = k) ls = (if w then [] else [setting k v]) \<Longrightarrow> merge_lines k v w ls = ls"
  by (induction k v w ls rule: merge_lines.induct) (auto split: if_splits)

lemma merge_one_line: "list_all one_line ls \<Longrightarrow> one_line k \<Longrightarrow> one_line v \<Longrightarrow> list_all one_line (merge_lines k v w ls)"
  by (induction k v w ls rule: merge_lines.induct) auto

definition merged :: "string gomap \<Rightarrow> string list \<Rightarrow> string list \<Rightarrow> string list" where
  "merged pairs ks ls = fold (\<lambda>k. merge_lines k (the (lookup pairs k)) False) ks ls"

lemma merged_simps [simp]: "merged pairs [] ls = ls"
  "merged pairs (k # ks) ls = merged pairs ks (merge_lines k (the (lookup pairs k)) False ls)"
  by (simp_all add: merged_def)

abbreviation proper_keys :: "string gomap \<Rightarrow> string list \<Rightarrow> bool" where
  "proper_keys pairs ks \<equiv> list_all (\<lambda>k. proper_pair k (the (lookup pairs k))) ks"

lemma merged_other:
  "proper_keys pairs ks \<Longrightarrow> (\<And>l. P l \<Longrightarrow> keyOf l \<notin> set ks) \<Longrightarrow> filter P (merged pairs ks ls) = filter P ls"
proof (induction ks arbitrary: ls)
  case (Cons k ks)
  have "filter P (merge_lines k (the (lookup pairs k)) False ls) = filter P ls"
    using Cons.prems by (intro merge_filter_other) (auto simp: proper_pair_def)
  then show ?case using Cons by simp
qed simp

lemma merged_key:
  "proper_keys pairs ks \<Longrightarrow> distinct ks \<Longrightarrow> k \<in> set ks \<Longrightarrow>
     filter (\<lambda>l. keyOf l = k) (merged pairs ks ls) = [setting k (the (lookup pairs k))]"
proof (induction ks arbitrary: ls)
  case (Cons j ks)
  show ?case
  proof (cases "k = j")
    case True
    then have "filter (\<lambda>l. keyOf l = k) (merged pairs (j # ks) ls) = filter (\<lambda>l. keyOf l = k) (merge_lines j (the (lookup pairs j)) False ls)"
      using Cons.prems by (simp, intro merged_other) auto
    then show ?thesis using True Cons.prems merge_filter_key[of j "the (lookup pairs j)" False ls] by (simp add: proper_pair_def)
  next
    case False
    then show ?thesis using Cons by simp
  qed
qed simp

lemma merged_settled:
  "(\<And>k. k \<in> set ks \<Longrightarrow> filter (\<lambda>l. keyOf l = k) ls = [setting k (the (lookup pairs k))]) \<Longrightarrow> merged pairs ks ls = ls"
  by (induction ks) (auto simp: merge_settled)

lemma merged_one_line: "proper_keys pairs ks \<Longrightarrow> list_all one_line ls \<Longrightarrow> list_all one_line (merged pairs ks ls)"
  by (induction ks arbitrary: ls) (auto simp: proper_pair_def merge_one_line)

lemma Merge_eq: "Merge x pairs = (let ls = merged pairs (keys pairs) (splitLines x) in if ls = [] then [] else join [CHR 0x0A] ls @ [CHR 0x0A])"
  by (simp add: Merge_def merged_def)

lemma splitLines_Merge:
  assumes "proper_keys pairs (keys pairs)"
  shows "splitLines (Merge x pairs) = merged pairs (keys pairs) (splitLines x)"
proof (cases "merged pairs (keys pairs) (splitLines x) = []")
  case True
  then show ?thesis by (simp add: Merge_eq splitLines_def)
next
  case False
  then show ?thesis
    using splitLines_join[OF False merged_one_line[OF assms splitLines_one_line]] by (simp add: Merge_eq)
qed

text \<open>A key with an equals sign, or a dash, is not the key of its own line: each run adds one more.\<close>

lemma Merge_grows: "Merge (Merge [] [(''a=b'', ''1'')]) [(''a=b'', ''1'')] \<noteq> Merge [] [(''a=b'', ''1'')]"
  by (simp add: Merge_def keys_def lookup_def splitLines_def keyOf_def trim_left_def trim_right_def has_prefix_def)

lemma Generate_split:
  "\<exists>as us. pl_actions (Generate fs opts) = sort_key ac_check as \<and> pl_unfixable (Generate fs opts) = sort_key f_check_id us
     \<and> mset (map ac_check as @ map f_check_id us) = mset (map f_check_id (filter open_failure fs))
     \<and> (\<forall>a \<in> set as. \<exists>f \<in> set fs. \<exists>fx. open_failure f \<and> lookup registry (f_check_id f) = Some fx \<and> build fx f = Some a)
     \<and> (\<forall>u \<in> set us. u \<in> set fs \<and> open_failure u)"
proof -
  obtain as us where g: "gen_loop fs \<lparr>pl_actions = [], pl_unit_dir = unitDir opts, pl_unfixable = [], pl_drop_in = dropIn opts\<rparr>
      = \<lparr>pl_actions = as, pl_unit_dir = unitDir opts, pl_unfixable = us, pl_drop_in = dropIn opts\<rparr>"
    "mset (map ac_check as @ map f_check_id us) = mset (map f_check_id (filter open_failure fs))"
    "\<forall>a \<in> set as. \<exists>f \<in> set fs. \<exists>fx. open_failure f \<and> lookup registry (f_check_id f) = Some fx \<and> build fx f = Some a"
    "\<forall>u \<in> set us. u \<in> set fs \<and> open_failure u"
    using gen_loop_split[of fs "\<lparr>pl_actions = [], pl_unit_dir = unitDir opts, pl_unfixable = [], pl_drop_in = dropIn opts\<rparr>"] by auto
  then show ?thesis by (intro exI[of _ as] exI[of _ us]) (simp add: Generate_def Let_def)
qed

lemma Generate_actions:
  assumes "a \<in> set (pl_actions (Generate fs opts))"
  shows "\<exists>f fx. f \<in> set fs \<and> open_failure f \<and> lookup registry (f_check_id f) = Some fx \<and> build fx f = Some a"
proof -
  obtain as us where s: "pl_actions (Generate fs opts) = sort_key ac_check as"
    "\<forall>a \<in> set as. \<exists>f \<in> set fs. \<exists>fx. open_failure f \<and> lookup registry (f_check_id f) = Some fx \<and> build fx f = Some a"
    using Generate_split[of fs opts] by blast
  then have "a \<in> set as" using assms by simp
  then show ?thesis using s(2) by blast
qed

section \<open>Properties\<close>

text \<open>
  C29: the plan acts on the open failures and on nothing else. Every action comes from the fix of a failing,
  unsuppressed finding of the run; a failure without a fix, or whose fix declines, is listed as unfixable; and
  each open failure is in exactly one of the two lists, both in the order of the check IDs. A pass, an unknown
  and an accepted risk are never acted on.
\<close>

theorem plan_acts_on_open_failures:
  "mset (map ac_check (pl_actions (Generate fs opts)) @ map f_check_id (pl_unfixable (Generate fs opts)))
     = mset (map f_check_id (filter open_failure fs))
   \<and> sorted (map ac_check (pl_actions (Generate fs opts))) \<and> sorted (map f_check_id (pl_unfixable (Generate fs opts)))
   \<and> set (pl_unfixable (Generate fs opts)) \<subseteq> {f \<in> set fs. f_result f = Fail \<and> f_suppression f = None}
   \<and> set (pl_actions (Generate fs opts)) \<subseteq> {a. \<exists>f fx. f \<in> set fs \<and> f_result f = Fail \<and> f_suppression f = None
        \<and> lookup registry (f_check_id f) = Some fx \<and> build fx f = Some a}"
proof -
  obtain as us where g: "pl_actions (Generate fs opts) = sort_key ac_check as" "pl_unfixable (Generate fs opts) = sort_key f_check_id us"
    "mset (map ac_check as @ map f_check_id us) = mset (map f_check_id (filter open_failure fs))"
    "\<forall>u \<in> set us. u \<in> set fs \<and> open_failure u"
    using Generate_split[of fs opts] by blast
  have "set (pl_actions (Generate fs opts)) \<subseteq> {a. \<exists>f fx. f \<in> set fs \<and> f_result f = Fail \<and> f_suppression f = None
        \<and> lookup registry (f_check_id f) = Some fx \<and> build fx f = Some a}"
    using Generate_actions unfolding open_failure_def by blast
  then show ?thesis using g by (auto simp: open_failure_def)
qed


text \<open>A host on which a directory has been given the name of a command.\<close>

definition hostile_check :: "bool check" where
  "hostile_check =
     \<lparr>ck_id = ''FILESYS-0004'', ck_module = ''FILESYS'', ck_title = ''t'', ck_description = [], ck_base_severity = High,
      ck_tags = [], ck_requires = [''x.fact''],
      ck_eval = Some (\<lambda>fs. Inr \<lparr>oc_result = Fail, oc_reason = NoReason, oc_subject = [], oc_detail = [],
        oc_severity = NoSeverity, oc_evidence = [new_evidence ''/srv/a;$(id)'' 0 [] []]\<rparr>),
      ck_remediation = None, ck_mappings = [], ck_references = [], ck_since_catalog = 1, ck_deprecated = None\<rparr>"

definition no_options :: options where
  "no_options = \<lparr>op_dropIn = [], op_unitDir = []\<rparr>"

lemma hostile_catalog: "New [hostile_check] = Inr \<lparr>cat_checks = [(''FILESYS-0004'', hostile_check)], cat_order = [''FILESYS-0004'']\<rparr>"
  by (simp add: New_def validate_def hostile_check_def has_prefix_def lookup_def put_def)

lemma hostile_action:
  "\<exists>a. a \<in> set (pl_actions (Generate (Evaluate \<lparr>cat_checks = [(''FILESYS-0004'', hostile_check)], cat_order = [''FILESYS-0004'']\<rparr>
     sample_facts) no_options))"
proof -
  let ?f = "EvaluateOne hostile_check sample_facts"
  have "Text ''/srv/a;$(id)'' = ''/srv/a;$(id)''"
    by (rule Text_id[OF safe_text_ascii]) (simp_all add: byte_def max_text_def)
  then have "map ev_source (sanitize_evidence [new_evidence ''/srv/a;$(id)'' 0 [] []]) = [''/srv/a;$(id)'']"
    by (simp add: sanitize_evidence_def new_evidence_def)
  then have f: "f_check_id ?f = ''FILESYS-0004''" "open_failure ?f" "pathsFrom ?f \<noteq> []"
    by (simp_all add: open_failure_def pathsFrom_def EvaluateOne_def hostile_check_def contains_id_def outcome_finding_def
        base_finding_def Let_def)
  have "lookup registry ''FILESYS-0004'' = Some fix_filesys_0004"
    using registry_complete[of fix_filesys_0004] by (simp add: all_fixes_def) (simp add: fix_filesys_0004_def)
  moreover obtain a where "build fix_filesys_0004 ?f = Some a"
    using f(3) by (auto simp: fix_filesys_0004_def mode_build_def Let_def)
  ultimately show ?thesis using f by (simp add: Evaluate_eq lookup_def Generate_def)
qed


text \<open>
  Quoting is exact. Whatever the words of a command are, the line the plan carries for it is read by the
  shell as exactly those words, spaces, quotes, newlines and control characters included, and nothing else.
\<close>

theorem quoted_command_is_its_words:
  "ac_commands (cmd argv a) = ac_commands a @ [line] \<Longrightarrow> sh_words line = Some argv"
  using sh_words_join[of argv] by (simp add: cmd_def)

theorem quoted_command_is_its_words_witness:
  "sh_words ([CHR 0x27] @ ''a b'' @ [CHR 0x27, CHR 0x5C, CHR 0x27, CHR 0x27] @ ''$(id)'' @ [CHR 0x27]) = Some [''a b'' @ [CHR 0x27] @ ''$(id)'']"
  by (rule quoted_command_is_its_words[where a = "new_action [] []"])
    (simp add: cmd_def new_action_def shellQuote_def safe_char_def is_digit_def byte_def less_eq_char_def)



end
