(* ===== verification/Sysctl_Laws.thy ===== *)
theory Sysctl_Laws
  imports Sysctl
begin

text \<open>
  What the collected parameters say: when the value after the next boot does not depend on the tool that
  applies the files, and that every line of every file that was read is in the fact and nothing else is.
\<close>

section \<open>The value after the next boot\<close>

text \<open>
  systemd-sysctl and procps apply the same settings in different orders, and agree about the order within one
  directory. \<open>applied\<close> is any order of application that keeps the settings of each directory in theirs.
\<close>

abbreviation dir_of :: "sysctl_setting \<Rightarrow> string" where
  "dir_of x \<equiv> configDir (ss_file x)"

definition applied :: "sysctl_setting list \<Rightarrow> sysctl_setting list \<Rightarrow> bool" where
  "applied settings order \<longleftrightarrow> (\<forall>d. filter (\<lambda>x. dir_of x = d) order = filter (\<lambda>x. dir_of x = d) settings)"

definition value_after :: "sysctl_setting list \<Rightarrow> string" where
  "value_after order = trim_space (ss_value (last order))"

lemma applied_refl: "applied xs xs"
  by (simp add: applied_def)

lemma applied_set: "applied xs ys \<Longrightarrow> set ys = set xs"
proof -
  assume a: "applied xs ys"
  have "x \<in> set ys \<longleftrightarrow> x \<in> set xs" for x
  proof -
    have "x \<in> set (filter (\<lambda>y. dir_of y = dir_of x) ys) \<longleftrightarrow> x \<in> set (filter (\<lambda>y. dir_of y = dir_of x) xs)"
      using a by (simp add: applied_def)
    then show ?thesis by simp
  qed
  then show ?thesis by blast
qed

text \<open>The directories' winners are their last settings.\<close>

definition dir_winner :: "sysctl_setting list \<Rightarrow> string \<Rightarrow> sysctl_setting" where
  "dir_winner xs d = last (filter (\<lambda>x. dir_of x = d) xs)"

lemma winners_lookup:
  "wf_map m \<Longrightarrow> lookup (fold (\<lambda>x m. put (dir_of x) x m) xs m) d =
     (if d \<in> dir_of ` set xs then Some (dir_winner xs d) else lookup m d)
   \<and> wf_map (fold (\<lambda>x m. put (dir_of x) x m) xs m)"
proof (induction xs arbitrary: m)
  case (Cons x xs)
  have "wf_map (put (dir_of x) x m)" using Cons.prems by simp
  note IH = Cons.IH[OF this]
  have "filter (\<lambda>x. dir_of x = d) xs \<noteq> []" if "d \<in> dir_of ` set xs" using that by (auto simp: filter_empty_conv)
  moreover have "filter (\<lambda>x. dir_of x = d) xs = []" if "d \<notin> dir_of ` set xs" using that by (auto simp: filter_empty_conv)
  ultimately show ?case using IH by (auto simp: dir_winner_def)
qed simp

lemma set_directoryWinners: "set (directoryWinners s key) = dir_winner (SettingsFor s key) ` (dir_of ` set (SettingsFor s key))"
proof -
  let ?xs = "SettingsFor s key" and ?m = "fold (\<lambda>x m. put (dir_of x) x m) (SettingsFor s key) []"
  have wf: "wf_map ?m" using winners_lookup[of "[]" ?xs] by simp
  have l: "lookup ?m d = (if d \<in> dir_of ` set ?xs then Some (dir_winner ?xs d) else None)" for d
    using winners_lookup[of "[]" ?xs d] by simp
  have "v \<in> snd ` set ?m \<longleftrightarrow> (\<exists>d. lookup ?m d = Some v)" for v
    using wf by (force simp: lookup_def wf_map_def)
  moreover have "(\<exists>d. lookup ?m d = Some v) \<longleftrightarrow> v \<in> dir_winner ?xs ` (dir_of ` set ?xs)" for v
    unfolding l by (auto split: if_splits)
  ultimately show ?thesis unfolding directoryWinners_def set_map by blast
qed

lemma conflict_iff:
  "ConfiguredConflict s key \<longleftrightarrow>
     (\<exists>v \<in> set (directoryWinners s key). \<exists>w \<in> set (directoryWinners s key). trim_space (ss_value v) \<noteq> trim_space (ss_value w))"
proof (cases "directoryWinners s key")
  case (Cons w ws)
  then show ?thesis unfolding ConfiguredConflict_def by simp metis
qed (simp add: ConfiguredConflict_def)

lemma last_is_winner: "xs \<noteq> [] \<Longrightarrow> dir_winner xs (dir_of (last xs)) = last xs"
  by (cases xs rule: rev_cases) (auto simp: dir_winner_def)

lemma applied_winner: "applied xs ys \<Longrightarrow> dir_winner ys d = dir_winner xs d"
  by (simp add: applied_def dir_winner_def)

text \<open>
  C39: the test for a conflict is exact. A key set by some file is reported as conflicting precisely when two
  orders of application, each keeping every directory's settings in their order, leave different values; and
  when it is not, every such order leaves the value that EffectiveConfigured gives.
\<close>

theorem conflict_test_is_exact:
  assumes "EffectiveConfigured s key = Some x"
  shows "ConfiguredConflict s key \<longleftrightarrow>
      (\<exists>order. applied (SettingsFor s key) order \<and> value_after order \<noteq> trim_space (ss_value x))"
proof
  let ?xs = "SettingsFor s key"
  have ne: "?xs \<noteq> []" and x: "x = last ?xs" using assms by (auto simp: EffectiveConfigured_def Let_def split: if_splits)
  {
    assume "ConfiguredConflict s key"
    then obtain d e where d: "d \<in> dir_of ` set ?xs" "e \<in> dir_of ` set ?xs"
      "trim_space (ss_value (dir_winner ?xs d)) \<noteq> trim_space (ss_value (dir_winner ?xs e))"
      unfolding conflict_iff set_directoryWinners by blast
    then obtain c where c: "c \<in> dir_of ` set ?xs" "trim_space (ss_value (dir_winner ?xs c)) \<noteq> trim_space (ss_value x)" by metis
    let ?o = "filter (\<lambda>y. dir_of y \<noteq> c) ?xs @ filter (\<lambda>y. dir_of y = c) ?xs"
    have "filter (\<lambda>y. dir_of y = b) (filter (\<lambda>y. dir_of y \<noteq> c) ?xs) @ filter (\<lambda>y. dir_of y = b) (filter (\<lambda>y. dir_of y = c) ?xs)
        = filter (\<lambda>y. dir_of y = b) ?xs" for b
      by (cases "b = c") (auto simp: filter_empty_conv intro!: filter_cong)
    then have "applied ?xs ?o" by (simp add: applied_def)
    moreover have "filter (\<lambda>y. dir_of y = c) ?xs \<noteq> []" using c(1) by (auto simp: filter_empty_conv)
    then have "last ?o = dir_winner ?xs c" by (simp add: dir_winner_def)
    ultimately show "\<exists>order. applied ?xs order \<and> value_after order \<noteq> trim_space (ss_value x)"
      using c(2) unfolding value_after_def by metis
  next
    assume "\<exists>order. applied ?xs order \<and> value_after order \<noteq> trim_space (ss_value x)"
    then obtain ys where ys: "applied ?xs ys" "trim_space (ss_value (last ys)) \<noteq> trim_space (ss_value x)"
      by (auto simp: value_after_def)
    have ys_ne: "ys \<noteq> []" using applied_set[OF ys(1)] ne by (metis set_empty)
    have "last ys = dir_winner ?xs (dir_of (last ys))" "dir_of (last ys) \<in> dir_of ` set ?xs"
      using last_is_winner[OF ys_ne] applied_winner[OF ys(1)] applied_set[OF ys(1)] last_in_set[OF ys_ne] by auto
    moreover have "x = dir_winner ?xs (dir_of x)" "dir_of x \<in> dir_of ` set ?xs"
      using last_is_winner[OF ne] last_in_set[OF ne] x by auto
    ultimately have "last ys \<in> set (directoryWinners s key)" "x \<in> set (directoryWinners s key)"
      unfolding set_directoryWinners by (metis imageI)+
    then show "ConfiguredConflict s key" using ys(2) conflict_iff by blast
  }
qed

text \<open>Two directories, one value each.\<close>

definition two_directories :: "string \<Rightarrow> string \<Rightarrow> sysctl" where
  "two_directories v w = empty_sysctl\<lparr>sy_configured :=
     [(''k'', [\<lparr>ss_key = ''k'', ss_value = v, ss_file = ''/usr/lib/sysctl.d/50-a.conf'', ss_line = 1\<rparr>,
               \<lparr>ss_key = ''k'', ss_value = w, ss_file = ''/etc/sysctl.d/10-b.conf'', ss_line = 1\<rparr>])]\<rparr>"

theorem conflict_test_is_exact_witness:
  "ConfiguredConflict (two_directories ''0'' ''1'') ''k'' \<longleftrightarrow>
     (\<exists>order. applied (SettingsFor (two_directories ''0'' ''1'') ''k'') order \<and> value_after order \<noteq> trim_space ''1'')"
proof -
  have "EffectiveConfigured (two_directories ''0'' ''1'') ''k'' =
      Some \<lparr>ss_key = ''k'', ss_value = ''1'', ss_file = ''/etc/sysctl.d/10-b.conf'', ss_line = 1\<rparr>"
    by (simp add: EffectiveConfigured_def SettingsFor_def configured_def two_directories_def lookup_def)
  from conflict_test_is_exact[OF this] show ?thesis by simp
qed

text \<open>
  The exactness is about one order of the files within a directory. systemd-sysctl also ignores a file when a
  later directory has one of the same name, which the test does not look at.
\<close>

definition base_name :: "string \<Rightarrow> string" where
  "base_name f = rev (takeWhile (\<lambda>c. c \<noteq> CHR ''/'') (rev f))"

definition shadowed :: "sysctl \<Rightarrow> string \<Rightarrow> bool" where
  "shadowed s f \<longleftrightarrow> (\<exists>g \<in> set (sy_files s). base_name g = base_name f \<and> file_pos s f < file_pos s g)"

definition masked_dropin :: sysctl where
  "masked_dropin = empty_sysctl\<lparr>
     sy_files := [''/usr/lib/sysctl.d/10-a.conf'', ''/usr/lib/sysctl.d/50-b.conf'', ''/etc/sysctl.d/50-b.conf''],
     sy_configured :=
       [(''k'', [\<lparr>ss_key = ''k'', ss_value = ''0'', ss_file = ''/usr/lib/sysctl.d/10-a.conf'', ss_line = 1\<rparr>,
                 \<lparr>ss_key = ''k'', ss_value = ''1'', ss_file = ''/usr/lib/sysctl.d/50-b.conf'', ss_line = 1\<rparr>])]\<rparr>"

lemma shadowing_is_not_seen:
  "\<not> ConfiguredConflict masked_dropin ''k'' \<and> map_option ss_value (EffectiveConfigured masked_dropin ''k'') = Some ''1''
   \<and> value_after (filter (\<lambda>x. \<not> shadowed masked_dropin (ss_file x)) (SettingsFor masked_dropin ''k'')) = ''0''"
proof -
  have f: "SettingsFor masked_dropin ''k'' = [\<lparr>ss_key = ''k'', ss_value = ''0'', ss_file = ''/usr/lib/sysctl.d/10-a.conf'', ss_line = 1\<rparr>,
      \<lparr>ss_key = ''k'', ss_value = ''1'', ss_file = ''/usr/lib/sysctl.d/50-b.conf'', ss_line = 1\<rparr>]"
    by (simp add: SettingsFor_def configured_def masked_dropin_def lookup_def)
  have t: "trim_space ''0'' = ''0''" by code_simp
  have "\<not> shadowed masked_dropin ''/usr/lib/sysctl.d/10-a.conf''" "shadowed masked_dropin ''/usr/lib/sysctl.d/50-b.conf''"
    by (simp_all add: shadowed_def masked_dropin_def base_name_def file_pos_def)
  then show ?thesis
    by (simp add: ConfiguredConflict_def directoryWinners_def EffectiveConfigured_def f configDir_def put_def value_after_def t)
qed

section \<open>What the files say\<close>

text \<open>The assignments to a key, and the exclusions, in one file's text.\<close>

definition assignments :: "string \<Rightarrow> string \<Rightarrow> string \<Rightarrow> sysctl_setting list" where
  "assignments key file data = List.map_filter (\<lambda>(n, raw).
     (case parseSysctlLine raw of
        LineAssignment k v \<Rightarrow> if k = key then Some \<lparr>ss_key = k, ss_value = v, ss_file = file, ss_line = int n\<rparr> else None
      | _ \<Rightarrow> None)) (numbered_lines data)"

definition exclusions :: "string \<Rightarrow> string \<Rightarrow> sysctl_setting list" where
  "exclusions file data = List.map_filter (\<lambda>(n, raw).
     (case parseSysctlLine raw of
        LineExclusion k \<Rightarrow> Some \<lparr>ss_key = k, ss_value = [], ss_file = file, ss_line = int n\<rparr>
      | _ \<Rightarrow> None)) (numbered_lines data)"

text \<open>Text that a read within the limit returned for a file, or for the target of a link.\<close>

definition is_link :: "host \<Rightarrow> string \<Rightarrow> bool" where
  "is_link h f \<longleftrightarrow> (case h_stat h f of Inr fi \<Rightarrow> fi_is_symlink fi | Inl e \<Rightarrow> False)"

definition config_text :: "host \<Rightarrow> string \<Rightarrow> string \<Rightarrow> bool" where
  "config_text h file data \<longleftrightarrow>
     (\<exists>res. (if is_link h file
           then (\<exists>target. fst (resolveConfigLink h file empty_sysctl) = Some target
                   \<and> h_read_opaque h target maxConfigRead = Inr res)
           else h_read_file h file maxConfigRead = Inr res)
        \<and> \<not> rr_truncated res \<and> NotText data = None \<and> rr_data res = data)"

text \<open>A file that is not there, or a link to nothing.\<close>

definition config_missing :: "host \<Rightarrow> string \<Rightarrow> bool" where
  "config_missing h file \<longleftrightarrow>
     (if is_link h file then resolveConfigLink h file empty_sysctl = (None, empty_sysctl)
      else h_read_file h file maxConfigRead = Inl SysNotExist)"

definition logged :: "host \<Rightarrow> sysctl \<Rightarrow> bool" where
  "logged h s \<longleftrightarrow>
     (\<exists>texts. length texts = length (sy_files s)
       \<and> list_all2 (config_text h) (sy_files s) texts
       \<and> (\<forall>key. configured s key = concat (map2 (assignments key) (sy_files s) texts))
       \<and> sy_excluded s = concat (map2 exclusions (sy_files s) texts))"

lemma record_lines:
  "configured (foldl (record_line file) s ls) key = configured s key @ List.map_filter (\<lambda>(n, raw).
     (case parseSysctlLine raw of
        LineAssignment k v \<Rightarrow> if k = key then Some \<lparr>ss_key = k, ss_value = v, ss_file = file, ss_line = int n\<rparr> else None
      | _ \<Rightarrow> None)) ls
   \<and> sy_excluded (foldl (record_line file) s ls) = sy_excluded s @ List.map_filter (\<lambda>(n, raw).
     (case parseSysctlLine raw of
        LineExclusion k \<Rightarrow> Some \<lparr>ss_key = k, ss_value = [], ss_file = file, ss_line = int n\<rparr>
      | _ \<Rightarrow> None)) ls
   \<and> sy_files (foldl (record_line file) s ls) = sy_files s \<and> sy_resolved (foldl (record_line file) s ls) = sy_resolved s
   \<and> sy_unreadable (foldl (record_line file) s ls) = sy_unreadable s \<and> sy_running (foldl (record_line file) s ls) = sy_running s"
proof (induction ls arbitrary: s)
  case (Cons l ls)
  obtain n raw where l: "l = (n, raw)" by (cases l)
  show ?case
  proof (cases "parseSysctlLine raw")
    case (LineAssignment k v)
    then show ?thesis using Cons[of "record_line file s l"]
      by (cases "k = key") (simp_all add: l record_line_def map_filter_simps configured_def)
  qed (use Cons[of "record_line file s l"] in \<open>simp_all add: l record_line_def map_filter_simps configured_def\<close>)
qed (simp add: map_filter_simps)

lemma recorded:
  "configured (recordConfig file dg data s) key = configured s key @ assignments key file data"
  "sy_excluded (recordConfig file dg data s) = sy_excluded s @ exclusions file data"
  "sy_files (recordConfig file dg data s) = sy_files s @ [file]"
  "sy_resolved (recordConfig file dg data s) = sy_resolved s"
  "sy_unreadable (recordConfig file dg data s) = sy_unreadable s"
  "sy_running (recordConfig file dg data s) = sy_running s"
  by (simp_all add: recordConfig_def record_lines assignments_def exclusions_def) (simp add: configured_def)

lemma logged_record:
  assumes "logged h s" "sy_files s' = sy_files s" "\<And>key. configured s' key = configured s key" "sy_excluded s' = sy_excluded s"
    and "config_text h file data"
  shows "logged h (recordConfig file dg data s')"
proof -
  obtain texts where x: "length texts = length (sy_files s)" "list_all2 (config_text h) (sy_files s) texts"
    "\<And>key. configured s key = concat (map2 (assignments key) (sy_files s) texts)"
    "sy_excluded s = concat (map2 exclusions (sy_files s) texts)"
    using assms(1) by (auto simp: logged_def)
  then have "list_all2 (config_text h) (sy_files s @ [file]) (texts @ [data])" using assms(5) by (simp add: list_all2_appendI)
  then show ?thesis unfolding logged_def
    using x by (intro exI[of _ "texts @ [data]"]) (simp add: recorded assms(2-4))
qed

text \<open>The two ways of recording something leave the log as it is, but for what they add.\<close>

lemma unreadable_simps [simp]:
  "sy_files (unreadable_config f k m s) = sy_files s" "sy_excluded (unreadable_config f k m s) = sy_excluded s"
  "configured (unreadable_config f k m s) key = configured s key" "sy_running (unreadable_config f k m s) = sy_running s"
  "map uf_file (sy_unreadable (unreadable_config f k m s)) = map uf_file (sy_unreadable s) @ [f]"
  by (simp_all add: unreadable_config_def configured_def)

lemma logged_unreadable: "logged h s \<Longrightarrow> logged h (unreadable_config f k m s)"
  by (simp add: logged_def)

lemma resolve_cases:
  "(\<forall>s. resolve_hops h f n t s = (None, s)) \<or> (\<exists>k m. \<forall>s. resolve_hops h f n t s = (None, unreadable_config f k m s))
   \<or> (\<exists>u. \<forall>s. resolve_hops h f n t s = (Some u, s))"
proof (induction n arbitrary: t)
  case (Suc n)
  show ?case
  proof (cases "h_readlink h t")
    case (Inl e)
    then show ?thesis by (cases e) auto
  next
    case r: (Inr dest)
    show ?thesis
    proof (cases "h_stat h (resolveLinkPath t dest)")
      case (Inl e)
      then show ?thesis using r by (cases e) auto
    next
      case (Inr fi)
      then show ?thesis using r Suc.IH[of "resolveLinkPath t dest"] by (cases "fi_is_symlink fi") auto
    qed
  qed
qed auto

text \<open>Reading one file: the log stays a log, nothing recorded is lost, and the file is accounted for.\<close>

definition accounted :: "host \<Rightarrow> sysctl \<Rightarrow> string \<Rightarrow> bool" where
  "accounted h s f \<longleftrightarrow> f \<in> set (sy_files s) \<or> f \<in> set (map uf_file (sy_unreadable s)) \<or> config_missing h f"

definition grew :: "sysctl \<Rightarrow> sysctl \<Rightarrow> bool" where
  "grew s s' \<longleftrightarrow> set (sy_files s) \<subseteq> set (sy_files s')
     \<and> set (map uf_file (sy_unreadable s)) \<subseteq> set (map uf_file (sy_unreadable s')) \<and> sy_running s' = sy_running s"

lemma grew_refl [simp]: "grew s s"
  by (simp add: grew_def)

lemma grew_trans: "grew s t \<Longrightarrow> grew t u \<Longrightarrow> grew s u"
  unfolding grew_def by (auto simp del: set_map)

lemma accounted_grew: "accounted h s f \<Longrightarrow> grew s t \<Longrightarrow> accounted h t f"
  unfolding accounted_def grew_def by blast

lemma grew_unreadable [simp]: "grew s (unreadable_config f k m s)"
  by (auto simp: grew_def simp del: set_map)

lemma accounted_unreadable [simp]: "accounted h (unreadable_config f k m s) f"
  by (auto simp: accounted_def simp del: set_map)

text \<open>What both readers do with the answer of a read.\<close>

lemma read_answer:
  assumes "logged h s" "sy_files s' = sy_files s" "\<And>key. configured s' key = configured s key" "sy_excluded s' = sy_excluded s"
    "sy_unreadable s' = sy_unreadable s" "sy_running s' = sy_running s"
    and "\<not> rr_truncated res \<Longrightarrow> NotText (rr_data res) = None \<Longrightarrow> config_text h f (rr_data res)"
  defines "q \<equiv> (if rr_truncated res then unreadable_config f ErrTruncated ''file exceeded the read cap'' s
              else (case NotText (rr_data res) of
                Some why \<Rightarrow> unreadable_config f ErrParse why s
              | None \<Rightarrow> recordConfig f (rr_sha256 res) (rr_data res) s'))"
  shows "logged h q \<and> grew s q \<and> accounted h q f"
proof -
  have "logged h (recordConfig f (rr_sha256 res) (rr_data res) s')" if "\<not> rr_truncated res" "NotText (rr_data res) = None"
    using logged_record[OF assms(1-4)] assms(7) that by blast
  moreover have "grew s (recordConfig f (rr_sha256 res) (rr_data res) s')"
    using assms(2,5,6) by (auto simp: grew_def recorded)
  moreover have "accounted h (recordConfig f (rr_sha256 res) (rr_data res) s') f" by (simp add: accounted_def recorded)
  ultimately show ?thesis unfolding q_def
    using logged_unreadable[OF assms(1)] by (auto split: option.split)
qed

lemma plain_file_logged:
  assumes "logged h s" "\<not> is_link h f"
  shows "logged h (readConfigFile h f s) \<and> grew s (readConfigFile h f s) \<and> accounted h (readConfigFile h f s) f"
proof (cases "h_read_file h f maxConfigRead")
  case (Inl x)
  have "readConfigFile h f s = (case x of SysNotExist \<Rightarrow> s
      | SysPermission \<Rightarrow> unreadable_config f ErrPermission ''permission denied'' s
      | e \<Rightarrow> unreadable_config f ErrInternal (sys_error_str e) s)"
    using Inl assms(2) by (cases x) (simp_all add: readConfigFile_def is_link_def)
  moreover have "accounted h s f" if "x = SysNotExist" using that Inl assms(2) by (simp add: accounted_def config_missing_def)
  ultimately show ?thesis using assms(1) logged_unreadable[OF assms(1)] by (cases x) (simp_all del: sys_error_str.simps)
next
  case (Inr res)
  have "\<not> rr_truncated res \<Longrightarrow> NotText (rr_data res) = None \<Longrightarrow> config_text h f (rr_data res)"
    using assms(2) Inr by (simp add: config_text_def)
  from read_answer[OF assms(1) refl refl refl refl refl this] show ?thesis
    using assms(2) Inr by (simp add: readConfigFile_def is_link_def)
qed

lemma linked_text_logged:
  assumes "logged h s" "is_link h f" "\<forall>s. resolveConfigLink h f s = (Some u, s)"
  shows "logged h (readResolvedConfig h f u s) \<and> grew s (readResolvedConfig h f u s) \<and> accounted h (readResolvedConfig h f u s) f"
proof (cases "h_read_opaque h u maxConfigRead")
  case (Inl x)
  then show ?thesis using assms(1) logged_unreadable[OF assms(1)]
    by (cases x) (simp_all add: readResolvedConfig_def del: sys_error_str.simps)
next
  case (Inr res)
  have t: "\<not> rr_truncated res \<Longrightarrow> NotText (rr_data res) = None \<Longrightarrow> config_text h f (rr_data res)"
    using assms(2,3) Inr by (simp add: config_text_def)
  let ?t = "s\<lparr>sy_resolved := put f u (sy_resolved s)\<rparr>"
  have "sy_files ?t = sy_files s" "\<And>key. configured ?t key = configured s key" "sy_excluded ?t = sy_excluded s"
    "sy_unreadable ?t = sy_unreadable s" "sy_running ?t = sy_running s" by (simp_all add: configured_def)
  from read_answer[OF assms(1) this t] show ?thesis using Inr by (simp add: readResolvedConfig_def)
qed

lemma readConfigFile_logged:
  assumes "logged h s"
  shows "logged h (readConfigFile h f s) \<and> grew s (readConfigFile h f s) \<and> accounted h (readConfigFile h f s) f"
proof (cases "is_link h f")
  case True
  then have e: "readConfigFile h f s = (case resolveConfigLink h f s of
           (Some target, s') \<Rightarrow> readResolvedConfig h f target s' | (None, s') \<Rightarrow> s')"
    by (simp add: readConfigFile_def is_link_def)
  consider (none) "\<forall>s. resolveConfigLink h f s = (None, s)"
    | (bad) k m where "\<forall>s. resolveConfigLink h f s = (None, unreadable_config f k m s)"
    | (ok) u where "\<forall>s. resolveConfigLink h f s = (Some u, s)"
    using resolve_cases[of h f maxConfigLinkHops f] unfolding resolveConfigLink_def by blast
  then show ?thesis
  proof cases
    case none
    then have "config_missing h f" using True by (simp add: config_missing_def)
    then show ?thesis using e none assms by (simp add: accounted_def)
  next
    case bad
    then show ?thesis using e logged_unreadable[OF assms] by simp
  next
    case ok
    then show ?thesis using e linked_text_logged[OF assms True ok] by simp
  qed
qed (rule plain_file_logged[OF assms])

lemma read_files_logged:
  "logged h s \<Longrightarrow> logged h (read_files h ended fs n s) \<and> grew s (read_files h ended fs n s)
     \<and> ((\<forall>m. \<not> ended m) \<longrightarrow> (\<forall>f \<in> set (fs @ [mainConfigFile]). accounted h (read_files h ended fs n s) f))"
proof (induction fs arbitrary: n s)
  case Nil
  then show ?case using readConfigFile_logged by simp
next
  case (Cons f fs)
  show ?case
  proof (cases "ended n")
    case False
    let ?s = "readConfigFile h f s" and ?r = "read_files h ended fs (Suc n) (readConfigFile h f s)"
    have r: "logged h ?s" "grew s ?s" "accounted h ?s f" using readConfigFile_logged[OF Cons.prems] by auto
    have IH: "logged h ?r" "grew ?s ?r" "(\<forall>m. \<not> ended m) \<longrightarrow> (\<forall>f \<in> set (fs @ [mainConfigFile]). accounted h ?r f)"
      using Cons.IH[OF r(1)] by blast+
    have "accounted h ?r f" by (rule accounted_grew[OF r(3) IH(2)])
    moreover have "grew s ?r" by (rule grew_trans[OF r(2) IH(2)])
    moreover have "read_files h ended (f # fs) n s = ?r" using False by simp
    moreover have "(\<forall>m. \<not> ended m) \<longrightarrow> (\<forall>x \<in> set ((f # fs) @ [mainConfigFile]). accounted h ?r x)"
      using IH(3) calculation(1) unfolding append_Cons list.set(2) by blast
    ultimately show ?thesis using IH(1) by (simp only: simp_thms)
  qed (use Cons.prems in auto)
qed

lemma read_keys_running: "\<exists>m. snd (read_keys h ended ks n s) = s\<lparr>sy_running := m\<rparr>"
proof (induction ks arbitrary: n s)
  case Nil
  show ?case by (rule exI[of _ "sy_running s"]) simp
next
  case (Cons k ks)
  show ?case
  proof (cases "ended n")
    case True
    then show ?thesis by (intro exI[of _ "sy_running s"]) simp
  next
    case False
    obtain m where "snd (read_keys h ended ks (Suc n) (s\<lparr>sy_running := put k (readRunning h k (procPathFor k)) (sy_running s)\<rparr>))
        = s\<lparr>sy_running := put k (readRunning h k (procPathFor k)) (sy_running s)\<rparr>\<lparr>sy_running := m\<rparr>" using Cons by blast
    then show ?thesis using False by auto
  qed
qed

lemma read_keys_logged: "logged h (snd (read_keys h ended ks n empty_sysctl))"
  using read_keys_running[of h ended ks n empty_sysctl] by (auto simp: logged_def empty_sysctl_def configured_def)

lemma collect_sysctl_unfold:
  "collect_sysctl h ended =
     (let r = read_keys h ended (sort (probedKeys @ enumerateInterfaces h)) 0 empty_sysctl
      in read_files h ended (configFileList h) (fst r) (snd r))"
  by (simp add: collect_sysctl_def readConfiguration_def Let_def split: prod.split)


definition bare_host :: host where
  "bare_host = \<lparr>h_stat = (\<lambda>p. Inl SysNotExist), h_read_file = (\<lambda>p n. Inl SysPermission), h_read_opaque = (\<lambda>p n. Inl SysNotExist),
     h_read_dir = (\<lambda>p n. Inl SysNotExist), h_readlink = (\<lambda>p. Inl SysNotExist), h_glob = (\<lambda>p. Inr []), h_euid = 1000\<rparr>"


end
