(* ===== verification/Kernel_Verdicts.thy ===== *)
theory Kernel_Verdicts
  imports Kernel_Catalog Sysctl_Laws
begin

text \<open>
  What the verdicts of the KERNEL checks rest on. A check of the running kernel decides on the integer that was
  read from its file under /proc/sys and on nothing else; a check of the configuration files decides only when
  the gate is open, and then on the value in force of each of its keys.
\<close>

section \<open>The running kernel\<close>

lemma read_keys_lookup:
  "lookup (sy_running (snd (read_keys h (\<lambda>n. False) ks n s))) key
     = (if key \<in> set ks then Some (readRunning h key (procPathFor key)) else lookup (sy_running s) key)"
  by (induction ks arbitrary: n s) auto

lemma collected_run:
  assumes "key \<in> set probedKeys"
  shows "Run (collect_sysctl h (\<lambda>n. False)) key = Some (readRunning h key (procPathFor key))"
proof -
  define r where "r = read_keys h (\<lambda>n. False) (sort (probedKeys @ enumerateInterfaces h)) 0 empty_sysctl"
  have "grew (snd r) (read_files h (\<lambda>n. False) (configFileList h) (fst r) (snd r))"
    using read_files_logged[OF read_keys_logged] unfolding r_def by blast
  then show ?thesis
    using assms read_keys_lookup[of h "sort (probedKeys @ enumerateInterfaces h)" 0 empty_sysctl key]
    by (simp add: Run_def collect_sysctl_unfold r_def grew_def Let_def)
qed

lemma sysctlFact_Collect [simp]:
  "wf_set fs \<Longrightarrow> sysctlFact (Sysctl.Collect SysctlFact h ended fs) = collect_sysctl h ended"
  by (simp add: sysctlFact_def Sysctl.Collect_def get_def Err_def[symmetric])

text \<open>What a check reads of a host for one key: the integer its file under /proc/sys holds.\<close>

definition observed_int :: "host \<Rightarrow> string \<Rightarrow> int option" where
  "observed_int h key =
     (case h_read_file h (procPathFor key) maxSysctlRead of
        Inl e \<Rightarrow> None
      | Inr res \<Rightarrow> if rr_truncated res then None else atoi (trim_space (rr_data res)))"

lemma run_int_readRunning: "run_int (readRunning h key (procPathFor key)) = observed_int h key"
  by (simp add: run_int_def readRunning_def observed_int_def sysctl_states Let_def
      split: sum.splits sys_error.splits)

lemma unreadable_result: "unreadable r k = Some out \<Longrightarrow> oc_result out \<noteq> Pass \<and> oc_result out \<noteq> Fail"
  by (auto simp: unreadable_def split: if_splits)

lemma unreadable_None: "unreadable r k = None \<longleftrightarrow> sr_state r = SysctlObserved"
  by (simp add: unreadable_def)

lemma intCheck_result:
  "(oc_result (intCheck key ok sev d fs) = Pass \<longleftrightarrow> (\<exists>n. Option.bind (Run (sysctlFact fs) key) run_int = Some n \<and> ok n))
   \<and> (oc_result (intCheck key ok sev d fs) = Fail \<longleftrightarrow> (\<exists>n. Option.bind (Run (sysctlFact fs) key) run_int = Some n \<and> \<not> ok n))"
proof (cases "Run (sysctlFact fs) key")
  case (Some r)
  show ?thesis
  proof (cases "unreadable r key")
    case None
    then show ?thesis using Some
      by (auto simp: intCheck_def unparseable_def split: option.split prod.split)
  next
    case (Some out)
    then have "sr_state r \<noteq> SysctlObserved" by (metis option.discI unreadable_None)
    then show ?thesis using Some unreadable_result[OF Some] \<open>Run _ _ = _\<close>
      by (simp add: intCheck_def run_int_def)
  qed
qed (simp add: intCheck_def not_collected_def)

definition running_checks :: "(payload check \<times> string \<times> (int \<Rightarrow> bool)) list" where
  "running_checks =
     [(Check0001, ''kernel.randomize_va_space'', \<lambda>n. n = 2), (Check0002, ''kernel.kptr_restrict'', \<lambda>n. 1 \<le> n),
      (Check0003, ''kernel.yama.ptrace_scope'', \<lambda>n. 1 \<le> n), (Check0004, ''kernel.dmesg_restrict'', \<lambda>n. 1 \<le> n),
      (Check0005, ''fs.suid_dumpable'', \<lambda>n. n = 0 \<or> n = 2),
      (Check0006, ''kernel.unprivileged_bpf_disabled'', \<lambda>n. n = 1 \<or> n = 2),
      (Check0009, ''fs.protected_symlinks'', \<lambda>n. 1 \<le> n), (Check0010, ''fs.protected_hardlinks'', \<lambda>n. 1 \<le> n),
      (Check0011, ''fs.protected_fifos'', \<lambda>n. 1 \<le> n), (Check0012, ''fs.protected_regular'', \<lambda>n. 1 \<le> n),
      (Check0013, ''kernel.perf_event_paranoid'', \<lambda>n. 2 \<le> n), (Check0016, ''net.ipv4.tcp_syncookies'', \<lambda>n. 1 \<le> n)]"

definition decided_by :: "payload check \<Rightarrow> string \<Rightarrow> (int \<Rightarrow> bool) \<Rightarrow> bool" where
  "decided_by ck key ok \<longleftrightarrow> (\<exists>sev d. ck_eval ck = Some (\<lambda>fs. Inr (intCheck key ok sev d fs)))"

lemma decided_by_intro: "ck_eval ck = Some (\<lambda>fs. Inr (e fs)) \<Longrightarrow> e = intCheck key ok sev d \<Longrightarrow> decided_by ck key ok"
  unfolding decided_by_def by blast

lemmas running_decided =
  decided_by_intro[OF kernel_evals(1) eval0001_def]
  decided_by_intro[OF kernel_evals(2) eval0002_def]
  decided_by_intro[OF kernel_evals(3) eval0003_def]
  decided_by_intro[OF kernel_evals(4) eval0004_def]
  decided_by_intro[OF kernel_evals(5) eval0005_def]
  decided_by_intro[OF kernel_evals(6) eval0006_def]
  decided_by_intro[OF kernel_evals(9) eval0009_def]
  decided_by_intro[OF kernel_evals(10) eval0010_def]
  decided_by_intro[OF kernel_evals(11) eval0011_def]
  decided_by_intro[OF kernel_evals(12) eval0012_def]
  decided_by_intro[OF kernel_evals(13) eval0013_def]
  decided_by_intro[OF kernel_evals(16) eval0016_def]

lemma running_checks_eval:
  assumes "(ck, key, ok) \<in> set running_checks"
  shows "key \<in> set probedKeys" "ck_requires ck = [SysctlID]" "decided_by ck key ok"
proof -
  show "key \<in> set probedKeys" using assms by (auto simp: running_checks_def probedKeys_def)
  show "ck_requires ck = [SysctlID]"
    by (rule kernel_check_requires) (use assms in \<open>auto simp: running_checks_def kernel_checks_def\<close>)
  show "decided_by ck key ok" using assms unfolding running_checks_def by (auto simp: running_decided)
qed

lemma kernel_outcome:
  assumes "wf_set fs" "ck_requires ck = [SysctlID]" "ck_eval ck = Some ev" "ev (Sysctl.Collect SysctlFact h ended fs) = Inr oc"
  shows "f_result (EvaluateOne ck (Sysctl.Collect SysctlFact h ended fs)) = oc_result oc"
proof -
  have "\<forall>i \<in> set (ck_requires ck). usable (Sysctl.Collect SysctlFact h ended fs) i"
    using assms(1,2) by (simp add: Sysctl.Collect_def)
  then show ?thesis using EvaluateOne_outcome assms(3,4) by blast
qed

text \<open>
  C37: a check of the running kernel decides on the integer the host has in its file under /proc/sys. It is
  a PASS exactly when that file was read whole and holds an integer the check accepts, and a FAIL exactly
  when it holds one the check does not: a missing, refused, oversized or unparseable value is neither.
\<close>

theorem running_verdict_is_the_observed_value:
  assumes "(ck, key, ok) \<in> set running_checks" and "wf_set fs"
    and f: "f = EvaluateOne ck (Sysctl.Collect SysctlFact h (\<lambda>n. False) fs)"
  shows "(f_result f = Pass \<longleftrightarrow> (\<exists>n. observed_int h key = Some n \<and> ok n))
       \<and> (f_result f = Fail \<longleftrightarrow> (\<exists>n. observed_int h key = Some n \<and> \<not> ok n))"
proof -
  note k = running_checks_eval(1)[OF assms(1)] and r = running_checks_eval(2)[OF assms(1)]
  obtain sev d where e: "ck_eval ck = Some (\<lambda>fs. Inr (intCheck key ok sev d fs))" using running_checks_eval(3)[OF assms(1)] unfolding decided_by_def by blast
  have "f_result f = oc_result (intCheck key ok sev d (Sysctl.Collect SysctlFact h (\<lambda>n. False) fs))"
    unfolding f by (rule kernel_outcome[OF assms(2) r e refl])
  then show ?thesis
    using intCheck_result[of key ok sev d "Sysctl.Collect SysctlFact h (\<lambda>n. False) fs"] assms(2)
    by (simp add: collected_run[OF k] run_int_readRunning)
qed

definition proc_host :: "(string \<times> string) list \<Rightarrow> host" where
  "proc_host files = bare_host\<lparr>h_read_file := (\<lambda>p n. case map_of files p of None \<Rightarrow> Inl SysNotExist
     | Some d \<Rightarrow> Inr \<lparr>rr_path = p, rr_data = d, rr_size = int (length d), rr_truncated = False, rr_sha256 = []\<rparr>)\<rparr>"

theorem running_verdict_is_the_observed_value_witness:
  "f_result (EvaluateOne Check0001 (Sysctl.Collect SysctlFact
     (proc_host [(''/proc/sys/kernel/randomize_va_space'', ''2'' @ [CHR 0x0A])]) (\<lambda>n. False) new_set)) = Pass"
proof -
  have p: "procPathFor ''kernel.randomize_va_space'' = ''/proc/sys/kernel/randomize_va_space''"
    "atoi (trim_space (''2'' @ [CHR 0x0A])) = Some 2" by code_simp+
  show ?thesis
    using running_verdict_is_the_observed_value[of Check0001 "''kernel.randomize_va_space''" "\<lambda>n. n = 2" new_set _
        "proc_host [(''/proc/sys/kernel/randomize_va_space'', ''2'' @ [CHR 0x0A])]"] p
    by (simp add: running_checks_def observed_int_def proc_host_def)
qed

section \<open>The configuration files\<close>

text \<open>When a check of the files decides at all: the files were found and read, the kernel has one of the parameters, no key is disputed.\<close>

definition gate_open :: "sysctl \<Rightarrow> string list \<Rightarrow> bool" where
  "gate_open sc ks \<longleftrightarrow> sy_files sc \<noteq> [] \<and> sy_unreadable sc = []
     \<and> list_ex (\<lambda>k. case Run sc k of None \<Rightarrow> True | Some r \<Rightarrow> sr_state r \<noteq> SysctlAbsent) ks
     \<and> list_all (\<lambda>k. \<not> ConfiguredConflict sc k) ks"

lemma unimplemented_all:
  "length (unimplemented sc ks) = length ks
     \<longleftrightarrow> \<not> list_ex (\<lambda>k. case Run sc k of None \<Rightarrow> True | Some r \<Rightarrow> sr_state r \<noteq> SysctlAbsent) ks"
proof -
  have "length (filter P ks) = length ks \<longleftrightarrow> (\<forall>k \<in> set ks. P k)" for P :: "string \<Rightarrow> bool"
    by (metis filter_True filter_id_conv length_filter_le length_filter_less nless_le)
  then show ?thesis by (auto simp: unimplemented_def list_ex_iff split: option.splits)
qed

lemma gate_open_iff: "persistenceGate sc ks c = None \<longleftrightarrow> gate_open sc ks"
proof -
  have "UnreadableFileNames sc = [] \<longleftrightarrow> sy_unreadable sc = []"
    by (metis UnreadableFileNames_def list.map_disc_iff set_empty set_sort)
  then show ?thesis
    by (auto simp: persistenceGate_def gate_open_def unimplemented_all configUnreadable_def Let_def find_None_iff
        list_all_iff split: option.split)
qed

lemma gate_result: "persistenceGate sc ks c = Some out \<Longrightarrow> oc_result out \<noteq> Pass \<and> oc_result out \<noteq> Fail"
  by (auto simp: persistenceGate_def configUnreadable_def conflict_outcome_def Let_def split: if_splits option.splits)

lemma tierAbsence_result [simp]: "oc_result (tierAbsence out sc reqs c) = oc_result out"
  by (simp add: tierAbsence_def split: prod.split)

text \<open>
  What a check of the files says of one value: acceptable, not acceptable, or (\<open>None\<close>) not to be told from
  the file.
\<close>

definition one_verdict :: "sysctl \<Rightarrow> string \<Rightarrow> (string \<Rightarrow> bool option) \<Rightarrow> result" where
  "one_verdict sc k judge =
     (case EffectiveConfigured sc k of
        None \<Rightarrow> Fail
      | Some x \<Rightarrow> (case judge (ss_value x) of Some True \<Rightarrow> Pass | Some False \<Rightarrow> Fail | None \<Rightarrow> Unknown))"

text \<open>The gate, then the keys: unknown as soon as one is, a failure as soon as one is.\<close>

definition judges :: "payload check \<Rightarrow> (string \<times> (string \<Rightarrow> bool option)) list \<Rightarrow> bool" where
  "judges ck js \<longleftrightarrow> (\<exists>ev. ck_eval ck = Some (\<lambda>fs. Inr (ev fs)) \<and> (\<forall>fs. let sc = sysctlFact fs in
     (oc_result (ev fs) = Pass \<longleftrightarrow> gate_open sc (map fst js) \<and> list_all (\<lambda>(k, j). one_verdict sc k j = Pass) js)
     \<and> (oc_result (ev fs) = Fail \<longleftrightarrow> gate_open sc (map fst js) \<and> list_ex (\<lambda>(k, j). one_verdict sc k j = Fail) js)))"

text \<open>The judgements, by how a value is read: as it is written, as a decimal integer, as a SysRq mask.\<close>

definition written_as :: "string list \<Rightarrow> string list \<Rightarrow> string \<Rightarrow> bool option" where
  "written_as good bad v = (if v \<in> set good then Some True else if v \<in> set bad then Some False else None)"

definition one_of :: "string list \<Rightarrow> string \<Rightarrow> bool option" where
  "one_of good v = Some (v \<in> set good)"

definition number :: "(int \<Rightarrow> bool option) \<Rightarrow> string \<Rightarrow> bool option" where
  "number j v = Option.bind (atoi v) j"

lemma file_verdict_result [simp]: "oc_result (file_verdict res sc k d) = res"
  by (simp add: file_verdict_def)

lemma unparseableConfig_result [simp]: "oc_result (unparseableConfig sc k x c) = Unknown"
  by (simp add: unparseableConfig_def)

text \<open>The judgement of an evaluation that is closed to everything until the gate opens.\<close>

lemma judges_intro:
  assumes "ck_eval ck = Some (\<lambda>fs. Inr (e fs))"
    and closed: "\<And>fs out. persistenceGate (sysctlFact fs) (map fst js) c = Some out \<Longrightarrow> e fs = out"
    and "\<And>fs. persistenceGate (sysctlFact fs) (map fst js) c = None \<Longrightarrow>
        (oc_result (e fs) = Pass \<longleftrightarrow> list_all (\<lambda>(k, j). one_verdict (sysctlFact fs) k j = Pass) js)
        \<and> (oc_result (e fs) = Fail \<longleftrightarrow> list_ex (\<lambda>(k, j). one_verdict (sysctlFact fs) k j = Fail) js)"
  shows "judges ck js"
proof -
  have "let sc = sysctlFact fs in
     (oc_result (e fs) = Pass \<longleftrightarrow> gate_open sc (map fst js) \<and> list_all (\<lambda>(k, j). one_verdict sc k j = Pass) js)
     \<and> (oc_result (e fs) = Fail \<longleftrightarrow> gate_open sc (map fst js) \<and> list_ex (\<lambda>(k, j). one_verdict sc k j = Fail) js)" for fs
  proof (cases "persistenceGate (sysctlFact fs) (map fst js) c")
    case None
    then show ?thesis using assms(3)[OF None] by (simp add: gate_open_iff Let_def)
  next
    case (Some out)
    then have "\<not> gate_open (sysctlFact fs) (map fst js)" by (metis gate_open_iff option.discI)
    then show ?thesis using closed[OF Some] gate_result[OF Some] by (simp add: Let_def)
  qed
  then show ?thesis unfolding judges_def using assms(1) by auto
qed

lemma one_key_judges:
  assumes "ck_eval ck = Some (\<lambda>fs. Inr (e fs))" "e = one_key k c (missing k d reqs c) v"
    and "\<And>sc x. oc_result (v sc x) = (case j (ss_value x) of Some True \<Rightarrow> Pass | Some False \<Rightarrow> Fail | None \<Rightarrow> Unknown)"
  shows "judges ck [(k, j)]"
  by (rule judges_intro[OF assms(1), where c = c])
    (simp_all add: assms(2,3) one_key_def missing_def one_verdict_def Let_def split: option.split)

lemma lp_judges:
  assumes "ck_eval ck = Some (\<lambda>fs. Inr (e fs))" "e = lp_eval l"
  shows "judges ck [(lp_key l, \<lambda>v. number (\<lambda>n. Some (1 \<le> n)) (trim_space v))]"
  by (rule judges_intro[OF assms(1), where c = "lp_caveat l"])
    (simp_all add: assms(2) lp_eval_def one_verdict_def number_def Let_def split: option.split)

text \<open>The requirement tables: the failures are kept, so there is none exactly when every row passes.\<close>

definition required :: "requirement \<Rightarrow> string \<Rightarrow> bool option" where
  "required r v = Some (case atoi (trim_space v) of None \<Rightarrow> False | Some n \<Rightarrow> rq_accept r n)"

lemma one_verdict_decided: "one_verdict sc k (\<lambda>v. Some (P v)) = Fail \<longleftrightarrow> one_verdict sc k (\<lambda>v. Some (P v)) \<noteq> Pass"
  by (simp add: one_verdict_def split: option.split bool.split)

lemma checkRequirements_failed:
  "rr_failed (foldl (check_requirement sc) res reqs) = []
     \<longleftrightarrow> rr_failed res = [] \<and> list_all (\<lambda>r. one_verdict sc (rq_key r) (required r) = Pass) reqs"
proof (induction reqs arbitrary: res)
  case (Cons r reqs)
  have "rr_failed (check_requirement sc res r) = []
      \<longleftrightarrow> rr_failed res = [] \<and> one_verdict sc (rq_key r) (required r) = Pass"
    by (simp add: check_requirement_def one_verdict_def required_def Let_def split: option.split)
  then show ?case using Cons.IH by simp
qed simp

lemma list_all_ex_Fail:
  "\<not> list_all (\<lambda>(k, j). one_verdict sc k (\<lambda>v. Some (j v)) = Pass) js
     \<longleftrightarrow> list_ex (\<lambda>(k, j). one_verdict sc k (\<lambda>v. Some (j v)) = Fail) js"
  by (induction js) (auto simp: one_verdict_decided)

lemma list_ex_map: "list_ex P (map f xs) = list_ex (P \<circ> f) xs"
  by (induction xs) auto

lemma table_judges:
  assumes "ck_eval ck = Some (\<lambda>fs. Inr (e fs))" "e = table_eval reqs c tail ok"
  shows "judges ck (map (\<lambda>r. (rq_key r, required r)) reqs)"
proof (rule judges_intro[OF assms(1), where c = c])
  have k: "map fst (map (\<lambda>r. (rq_key r, required r)) reqs) = requirementKeys reqs"
    by (simp add: requirementKeys_def comp_def)
  have t: "oc_result (tierRequirementFailure out sc rs res c) = oc_result out" for out sc rs res
    by (simp add: tierRequirementFailure_def)
  have l: "(\<not> list_all (\<lambda>r. one_verdict sc (rq_key r) (required r) = Pass) reqs)
      \<longleftrightarrow> list_ex (\<lambda>r. one_verdict sc (rq_key r) (required r) = Fail) reqs" for sc
    by (induction reqs) (auto simp: required_def one_verdict_decided)
  show "persistenceGate (sysctlFact fs) (map fst (map (\<lambda>r. (rq_key r, required r)) reqs)) c = Some out \<Longrightarrow> e fs = out"
    for fs out unfolding k by (simp add: assms(2) table_eval_def Let_def)
  show "(oc_result (e fs) = Pass
        \<longleftrightarrow> list_all (\<lambda>(k, j). one_verdict (sysctlFact fs) k j = Pass) (map (\<lambda>r. (rq_key r, required r)) reqs))
      \<and> (oc_result (e fs) = Fail
        \<longleftrightarrow> list_ex (\<lambda>(k, j). one_verdict (sysctlFact fs) k j = Fail) (map (\<lambda>r. (rq_key r, required r)) reqs))"
    if "persistenceGate (sysctlFact fs) (map fst (map (\<lambda>r. (rq_key r, required r)) reqs)) c = None" for fs
    using that l[of "sysctlFact fs"] unfolding k
    by (auto simp add: assms(2) table_eval_def Let_def t checkRequirements_def checkRequirements_failed
        list.pred_map list_ex_map comp_def)
qed

lemma bpf_failed:
  "bs_failed (foldl (bpf_step sc) a ws) = []
     \<longleftrightarrow> bs_failed a = [] \<and> list_all (\<lambda>w. one_verdict sc (bw_key w) (\<lambda>v. Some (bw_accept w (trim_space v))) = Pass) ws"
proof (induction ws arbitrary: a)
  case (Cons w ws)
  have "bs_failed (bpf_step sc a w) = []
      \<longleftrightarrow> bs_failed a = [] \<and> one_verdict sc (bw_key w) (\<lambda>v. Some (bw_accept w (trim_space v))) = Pass"
    by (simp add: bpf_step_def one_verdict_def Let_def split: option.split)
  then show ?case using Cons.IH by simp
qed simp

lemma parseSysrqMask_trim [simp]: "parseSysrqMask (trim_space v) = parseSysrqMask v"
  by (simp add: parseSysrqMask_def)

lemma ptraceLevels_None: "lookup ptraceLevels v = None \<longleftrightarrow> v \<notin> set [''1'', ''2'', ''3'']"
  by (auto simp: ptraceLevels_def lookup_def)

lemma one_key_checks:
  "judges Check0018 [(kptrKey, one_of [''2'', ''1''])]" "judges Check0019 [(dmesgKey, one_of [''1''])]"
  "judges Check0020 [(ptraceKey, written_as [''1'', ''2'', ''3''] [''0''])]"
  "judges Check0021 [(sysrqKey, \<lambda>v. map_option (\<lambda>n. n = 0) (parseSysrqMask v))]"
  "judges Check0022 [(perfKey, number (\<lambda>n. Some (2 \<le> n)))]"
  "judges Check0023 [(syncookiesKey, number (\<lambda>n. if n < 0 then None else Some (1 \<le> n)))]"
  "judges Check0028 [(rfc1337Key, number (\<lambda>n. Some (n = 1)))]"
  "judges Check0029 [(suidDumpableKey, number (\<lambda>n. if n = 0 \<or> n = 2 then Some True else if n = 1 then Some False else None))]"
proof -
  show "judges Check0018 [(kptrKey, one_of [''2'', ''1''])]"
    by (rule one_key_judges[OF kernel_evals(18) eval0018_def]) (simp add: one_of_def)
  show "judges Check0019 [(dmesgKey, one_of [''1''])]"
    by (rule one_key_judges[OF kernel_evals(19) eval0019_def]) (simp add: one_of_def)
  show "judges Check0020 [(ptraceKey, written_as [''1'', ''2'', ''3''] [''0''])]"
  proof (rule one_key_judges[OF kernel_evals(20) eval0020_def], goal_cases)
    case (1 sc x)
    show ?case
    proof (cases "ss_value x \<in> set [''1'', ''2'', ''3'']")
      case True
      then obtain l where l: "lookup ptraceLevels (ss_value x) = Some l" using ptraceLevels_None by blast
      show ?thesis unfolding l option.case written_as_def if_P[OF True] by simp
    next
      case False
      then have l: "lookup ptraceLevels (ss_value x) = None" using ptraceLevels_None by blast
      show ?thesis unfolding l option.case written_as_def if_not_P[OF False] by simp
    qed
  qed
  show "judges Check0021 [(sysrqKey, \<lambda>v. map_option (\<lambda>n. n = 0) (parseSysrqMask v))]"
    by (rule one_key_judges[OF kernel_evals(21) eval0021_def]) (simp add: Let_def split: option.split)
  show "judges Check0022 [(perfKey, number (\<lambda>n. Some (2 \<le> n)))]"
    by (rule one_key_judges[OF kernel_evals(22) eval0022_def]) (auto simp: number_def split: option.split)
  show "judges Check0023 [(syncookiesKey, number (\<lambda>n. if n < 0 then None else Some (1 \<le> n)))]"
    by (rule one_key_judges[OF kernel_evals(23) eval0023_def]) (auto simp: number_def split: option.split)
  show "judges Check0028 [(rfc1337Key, number (\<lambda>n. Some (n = 1)))]"
    by (rule one_key_judges[OF kernel_evals(28) eval0028_def]) (auto simp: number_def split: option.split)
  show "judges Check0029 [(suidDumpableKey, number (\<lambda>n. if n = 0 \<or> n = 2 then Some True else if n = 1 then Some False else None))]"
    by (rule one_key_judges[OF kernel_evals(29) eval0029_def]) (auto simp: number_def split: option.split)
qed

lemma bpf_judges:
  "judges Check0017 (map (\<lambda>w. (bw_key w, \<lambda>v. Some (bw_accept w (trim_space v)))) bpfPersistent)"
proof (rule judges_intro[OF kernel_evals(17), where c = persistBPFCaveat])
  let ?js = "map (\<lambda>w. (bw_key w, \<lambda>v. Some (bw_accept w (trim_space v)))) bpfPersistent"
  have k: "map fst ?js = bpfKeys" by (simp add: bpfKeys_def comp_def)
  show "persistenceGate (sysctlFact fs) (map fst ?js) persistBPFCaveat = Some out \<Longrightarrow> eval0017 fs = out" for fs out
    unfolding k by (simp add: eval0017_def Let_def)
  have l: "(\<not> list_all (\<lambda>w. one_verdict sc (bw_key w) (\<lambda>v. Some (bw_accept w (trim_space v))) = Pass) bpfPersistent)
      \<longleftrightarrow> list_ex (\<lambda>w. one_verdict sc (bw_key w) (\<lambda>v. Some (bw_accept w (trim_space v))) = Fail) bpfPersistent" for sc
    unfolding list_all_iff list_ex_iff by (auto simp: one_verdict_decided)
  show "(oc_result (eval0017 fs) = Pass \<longleftrightarrow> list_all (\<lambda>(k, j). one_verdict (sysctlFact fs) k j = Pass) ?js)
      \<and> (oc_result (eval0017 fs) = Fail \<longleftrightarrow> list_ex (\<lambda>(k, j). one_verdict (sysctlFact fs) k j = Fail) ?js)"
    if g: "persistenceGate (sysctlFact fs) (map fst ?js) persistBPFCaveat = None" for fs
  proof (cases "bs_failed (foldl (bpf_step (sysctlFact fs)) \<lparr>bs_failed = [], bs_weak = [], bs_evidence = [], bs_written = 0\<rparr>
      bpfPersistent) = []")
    case True
    then have "oc_result (eval0017 fs) = Pass" using g unfolding k by (simp add: eval0017_def Let_def)
    then show ?thesis using True l[of "sysctlFact fs"] by (simp add: bpf_failed list.pred_map list_ex_map comp_def)
  next
    case False
    then have "oc_result (eval0017 fs) = Fail" using g unfolding k by (simp add: eval0017_def Let_def)
    then show ?thesis using False l[of "sysctlFact fs"] by (simp add: bpf_failed list.pred_map list_ex_map comp_def)
  qed
qed

definition persistence_checks :: "(payload check \<times> (string \<times> (string \<Rightarrow> bool option)) list) list" where
  "persistence_checks =
     [(Check0017, map (\<lambda>w. (bw_key w, \<lambda>v. Some (bw_accept w (trim_space v)))) bpfPersistent),
      (Check0018, [(kptrKey, one_of [''2'', ''1''])]),
      (Check0019, [(dmesgKey, one_of [''1''])]),
      (Check0020, [(ptraceKey, written_as [''1'', ''2'', ''3''] [''0''])]),
      (Check0021, [(sysrqKey, \<lambda>v. map_option (\<lambda>n. n = 0) (parseSysrqMask v))]),
      (Check0022, [(perfKey, number (\<lambda>n. Some (2 \<le> n)))]),
      (Check0023, [(syncookiesKey, number (\<lambda>n. if n < 0 then None else Some (1 \<le> n)))]),
      (Check0025, map (\<lambda>r. (rq_key r, required r)) routingPersistent),
      (Check0026, map (\<lambda>r. (rq_key r, required r)) acceptRAPersistent),
      (Check0027, map (\<lambda>r. (rq_key r, required r)) sendRedirectsPersistent),
      (Check0028, [(rfc1337Key, number (\<lambda>n. Some (n = 1)))]),
      (Check0029, [(suidDumpableKey, number (\<lambda>n. if n = 0 \<or> n = 2 then Some True else if n = 1 then Some False else None))]),
      (Check0030, [(''fs.protected_hardlinks'', \<lambda>v. number (\<lambda>n. Some (1 \<le> n)) (trim_space v))]),
      (Check0031, [(''fs.protected_symlinks'', \<lambda>v. number (\<lambda>n. Some (1 \<le> n)) (trim_space v))])]"

lemma table_checks:
  "judges Check0025 (map (\<lambda>r. (rq_key r, required r)) routingPersistent)"
  "judges Check0026 (map (\<lambda>r. (rq_key r, required r)) acceptRAPersistent)"
  "judges Check0027 (map (\<lambda>r. (rq_key r, required r)) sendRedirectsPersistent)"
  by (rule table_judges[OF kernel_evals(25) eval0025_def] table_judges[OF kernel_evals(26) eval0026_def]
      table_judges[OF kernel_evals(27) eval0027_def])+

lemma link_checks:
  "judges Check0030 [(''fs.protected_hardlinks'', \<lambda>v. number (\<lambda>n. Some (1 \<le> n)) (trim_space v))]"
  "judges Check0031 [(''fs.protected_symlinks'', \<lambda>v. number (\<lambda>n. Some (1 \<le> n)) (trim_space v))]"
  using lp_judges[OF kernel_evals(30) eval0030_def] lp_judges[OF kernel_evals(31) eval0031_def]
  unfolding protectedHardlinks_def protectedSymlinks_def link_protection.select_convs .

lemma persistence_checks_judge:
  assumes "(ck, js) \<in> set persistence_checks"
  shows "ck_requires ck = [SysctlID]" "judges ck js"
proof -
  show "ck_requires ck = [SysctlID]"
    by (rule kernel_check_requires) (use assms in \<open>auto simp: persistence_checks_def kernel_checks_def\<close>)
  show "judges ck js"
    using assms unfolding persistence_checks_def list.set insert_iff prod.inject empty_iff
    by (elim disjE conjE FalseE) (simp_all only: bpf_judges one_key_checks table_checks link_checks)
qed


definition dmesg_host :: host where
  "dmesg_host = proc_host [(''/proc/sys/kernel/dmesg_restrict'', ''1''), (''/etc/sysctl.conf'', ''kernel.dmesg_restrict = 1'')]"

lemma dmesg_host_collected:
  "gate_open (collect_sysctl dmesg_host (\<lambda>n. False)) [''kernel.dmesg_restrict'']"
  "one_verdict (collect_sysctl dmesg_host (\<lambda>n. False)) ''kernel.dmesg_restrict'' (one_of [''1'']) = Pass"
  by code_simp+


end
