(* ===== verification/Kernel_Gaps.thy ===== *)
theory Kernel_Gaps
  imports Kernel_Verdicts
begin

text \<open>
  Where the KERNEL module claims more than it has seen: a drop-in directory that cannot be listed, and an
  interface whose name has a dot in it.
\<close>

section \<open>Directories that cannot be listed\<close>

definition emptied :: "string \<Rightarrow> host \<Rightarrow> host" where
  "emptied d h = h\<lparr>h_read_dir := (\<lambda>p n. if p = d then Inr \<lparr>dr_path = d, dr_entries = [], dr_truncated = False\<rparr>
     else h_read_dir h p n)\<rparr>"

lemma emptied_fields [simp]:
  "h_stat (emptied d h) = h_stat h" "h_read_file (emptied d h) = h_read_file h"
  "h_read_opaque (emptied d h) = h_read_opaque h" "h_readlink (emptied d h) = h_readlink h"
  by (simp_all add: emptied_def)

lemma readRunning_emptied [simp]: "readRunning (emptied d h) = readRunning h"
  by (intro ext) (simp add: readRunning_def)

lemma resolve_hops_emptied: "resolve_hops (emptied d h) f n t s = resolve_hops h f n t s"
  by (induction n arbitrary: t) (simp_all add: Let_def split: sum.split sys_error.split)

lemma readResolvedConfig_emptied [simp]: "readResolvedConfig (emptied d h) = readResolvedConfig h"
  by (intro ext) (simp add: readResolvedConfig_def)

lemma readConfigFile_emptied [simp]: "readConfigFile (emptied d h) = readConfigFile h"
  by (intro ext) (simp add: readConfigFile_def resolveConfigLink_def resolve_hops_emptied split: prod.split option.split)

lemma read_keys_emptied [simp]: "read_keys (emptied d h) ended ks n s = read_keys h ended ks n s"
  by (induction ks arbitrary: n s) simp_all

lemma read_files_emptied [simp]: "read_files (emptied d h) ended fs n s = read_files h ended fs n s"
  by (induction fs arbitrary: n s) simp_all

lemma add_dir_emptied: "h_read_dir h d 0 = Inl e \<Longrightarrow> add_dir (emptied d h) = add_dir h"
  by (intro ext) (auto simp: add_dir_def emptied_def Let_def split: prod.split)

text \<open>
  C40: a drop-in directory that cannot be listed counts as an empty one. If listing one of the five sysctl.d
  directories fails, for whatever reason, the collected fact is the one of a host where that directory is
  empty: nothing in it says that files were not looked at, and every verdict follows as if there were none.
\<close>

theorem unlisted_directory_counts_as_empty:
  assumes "d \<in> set configDirs" and "h_read_dir h d 0 = Inl e"
  shows "collect_sysctl h ended = collect_sysctl (emptied d h) ended"
proof -
  have "d \<noteq> interfaceConfDir" using assms(1) by (auto simp: configDirs_def interfaceConfDir_def)
  then have "enumerateInterfaces (emptied d h) = enumerateInterfaces h"
    by (simp add: enumerateInterfaces_def emptied_def)
  moreover have "configFileList (emptied d h) = configFileList h"
    by (simp add: configFileList_def add_dir_emptied[OF assms(2)])
  ultimately show ?thesis by (simp add: collect_sysctl_unfold)
qed

definition locked_host :: host where
  "locked_host = dmesg_host\<lparr>h_read_dir := (\<lambda>p n. Inl SysPermission)\<rparr>"

theorem unlisted_directory_counts_as_empty_witness:
  "collect_sysctl locked_host (\<lambda>n. False) = collect_sysctl (emptied ''/etc/sysctl.d'' locked_host) (\<lambda>n. False)"
  by (rule unlisted_directory_counts_as_empty) (simp_all add: configDirs_def locked_host_def)

section \<open>Interfaces with a dot in their name\<close>

text \<open>A host with two interfaces, of which the one with the dot does not filter, and what its files hold.\<close>

definition iface_entry :: "string \<Rightarrow> file_info" where
  "iface_entry nm = \<lparr>fi_path = interfaceConfDir @ ''/'' @ nm, fi_mode = 0, fi_uid = 0, fi_gid = 0, fi_size = 0,
     fi_mod_time = 0, fi_is_dir = True, fi_is_regular = False, fi_is_symlink = False, fi_dev = 0, fi_ino = 0\<rparr>"

definition vlan_host :: host where
  "vlan_host = (proc_host
       [(''/proc/sys/net/ipv4/conf/all/rp_filter'', ''0''), (''/proc/sys/net/ipv4/conf/eth0/rp_filter'', ''1''),
        (''/proc/sys/net/ipv4/conf/eth0.1/rp_filter'', ''0'')])
     \<lparr>h_read_dir := (\<lambda>p n. if p = interfaceConfDir
        then Inr \<lparr>dr_path = p, dr_entries = map iface_entry [''all'', ''eth0'', ''eth0.1''], dr_truncated = False\<rparr>
        else Inl SysNotExist)\<rparr>"

lemma vlan_host_probed:
  "(let sc = collect_sysctl vlan_host (\<lambda>n. False) in
      (map (\<lambda>r. (sr_key r, sr_state r, run_int r)) (RunningMatching sc rpFilterPrefix rpFilterSuffix), intValue sc rpFilterAll))
     = ([(''net.ipv4.conf.all.rp_filter'', SysctlObserved, Some 0), (''net.ipv4.conf.eth0.1.rp_filter'', SysctlAbsent, None),
        (''net.ipv4.conf.eth0.rp_filter'', SysctlObserved, Some 1)], Some 0)"
  by code_simp

lemma interface_names:
  "interfaceOf ''net.ipv4.conf.all.rp_filter'' rpFilterSuffix = ''all''"
  "interfaceOf ''net.ipv4.conf.eth0.1.rp_filter'' rpFilterSuffix = ''eth0.1''"
  "interfaceOf ''net.ipv4.conf.eth0.rp_filter'' rpFilterSuffix = ''eth0''"
  by code_simp+

text \<open>
  An interface with a dot in its name is not judged. The key of its parameter is built by turning every
  separator into a dot, and its path by turning every dot into a separator, so the file that is read is not
  the one that was listed: on a host whose interface eth0.1 and whose conf.all do not filter, the parameter of
  eth0.1 is recorded as absent and KERNEL-0008 is a PASS.
\<close>

theorem dotted_interface_is_not_judged:
  "map_sum id rr_data (h_read_file vlan_host ''/proc/sys/net/ipv4/conf/all/rp_filter'' maxSysctlRead) = Inr ''0''
   \<and> map_sum id rr_data (h_read_file vlan_host ''/proc/sys/net/ipv4/conf/eth0.1/rp_filter'' maxSysctlRead) = Inr ''0''
   \<and> f_result (EvaluateOne Check0008 (Sysctl.Collect SysctlFact vlan_host (\<lambda>n. False) new_set)) = Pass"
proof -
  let ?fs = "Sysctl.Collect SysctlFact vlan_host (\<lambda>n. False) new_set"
  have sc: "sysctlFact ?fs = collect_sysctl vlan_host (\<lambda>n. False)" by simp
  obtain r1 r2 r3 where p: "RunningMatching (sysctlFact ?fs) rpFilterPrefix rpFilterSuffix = [r1, r2, r3]"
    and k: "sr_key r1 = ''net.ipv4.conf.all.rp_filter''" "sr_key r2 = ''net.ipv4.conf.eth0.1.rp_filter''"
      "sr_key r3 = ''net.ipv4.conf.eth0.rp_filter''" "sr_state r2 = SysctlAbsent" "sr_state r3 = SysctlObserved" "run_int r3 = Some 1"
    and a: "intValue (sysctlFact ?fs) rpFilterAll = Some 0"
    using vlan_host_probed unfolding sc Let_def by (auto simp: map_eq_Cons_conv)
  have "oc_result (eval0008 ?fs) = Pass"
    by (simp add: eval0008_def Let_def p a k filtering_step_def interface_names sysctl_states del: sysctlFact_Collect)
  then have "f_result (EvaluateOne Check0008 ?fs) = Pass"
    using kernel_outcome[OF wf_new_set kernel_requires(8) kernel_evals(8) refl] by simp
  moreover have "h_read_file vlan_host ''/proc/sys/net/ipv4/conf/all/rp_filter'' maxSysctlRead
      = Inr \<lparr>rr_path = ''/proc/sys/net/ipv4/conf/all/rp_filter'', rr_data = ''0'', rr_size = 1, rr_truncated = False, rr_sha256 = []\<rparr>"
    "h_read_file vlan_host ''/proc/sys/net/ipv4/conf/eth0.1/rp_filter'' maxSysctlRead
      = Inr \<lparr>rr_path = ''/proc/sys/net/ipv4/conf/eth0.1/rp_filter'', rr_data = ''0'', rr_size = 1, rr_truncated = False, rr_sha256 = []\<rparr>"
    by (simp_all add: vlan_host_def proc_host_def bare_host_def)
  ultimately show ?thesis by simp
qed

end
