(* ===== verification/Users_Laws.thy ===== *)
theory Users_Laws
  imports Users_Catalog
begin

text \<open>
  What the account databases' readers do: a file of well-formed accounts is read back as those accounts, the shadow
  fact does not depend on the hashes it was read from, and each list of a fact is what the lines of the file say.
\<close>

section \<open>Trimming a line with a colon\<close>

lemma space_at_before: "\<forall>w \<in> set ws. c \<notin> set w \<Longrightarrow> space_at ws (a @ c # x) = space_at ws a"
proof (induction ws)
  case (Cons w ws)
  have "has_prefix (a @ c # x) w \<longleftrightarrow> has_prefix a w"
  proof
    assume "has_prefix (a @ c # x) w"
    then obtain t where "a @ c # x = w @ t" by (auto simp: has_prefix_iff)
    then show "has_prefix a w" using Cons.prems
      by (auto simp: has_prefix_iff append_eq_append_conv2 Cons_eq_append_conv)
  qed (auto simp: has_prefix_iff)
  then show ?case using Cons by (simp add: space_at_def)
qed (simp add: space_at_def)

lemma strip_left_before:
  assumes "\<forall>w \<in> set ws. c \<notin> set w"
  shows "strip_left ws (a @ c # x) = strip_left ws a @ c # x"
  using assms
proof (induction ws a rule: strip_left.induct)
  case (1 ws s)
  show ?case
  proof (cases "space_at ws s")
    case None
    then show ?thesis using space_at_before[OF 1(2)] by (simp add: strip_left.simps[of ws])
  next
    case (Some w)
    then obtain t where t: "s = w @ t" using space_at_Some by blast
    have "strip_left ws (t @ c # x) = strip_left ws t @ c # x" using 1(1)[OF Some 1(2)] t by simp
    then show ?thesis using Some space_at_before[OF 1(2), of s] t by (simp add: strip_left.simps[of ws "w @ t"] strip_left.simps[of ws "w @ t @ c # x"])
  qed
qed

lemma trim_space_around:
  assumes "\<forall>w \<in> set spaces. c \<notin> set w"
  shows "trim_space (a @ c # x) = trim_left_space a @ c # trim_right_space x"
  using strip_left_before[OF assms, of a x] strip_left_before[of "map rev spaces" c "rev x" "rev (trim_left_space a)"] assms
  by (simp add: trim_space_def trim_left_space_def trim_right_space_def)

lemma colon_not_space: "\<forall>w \<in> set spaces. CHR '':'' \<notin> set w"
  by (simp add: spaces_def)

lemma trim_space_colon: "trim_space (a @ CHR '':'' # x) = trim_left_space a @ CHR '':'' # trim_right_space x"
  by (rule trim_space_around[OF colon_not_space])

lemma skippable_colon: "skippable (a @ CHR '':'' # x) \<longleftrightarrow> has_prefix (trim_left_space a @ [CHR '':'']) ''#''"
  by (cases "trim_left_space a") (simp_all add: skippable_def trim_space_colon has_prefix_def)

lemma line_text_colon: "line_text (a @ CHR '':'' # x) = a @ CHR '':'' # line_text x"
  by (cases x rule: rev_cases) (auto simp: line_text_def trim_suffix_def has_suffix_iff)

lemma split_on_colon: "c \<notin> set a \<Longrightarrow> split_on c (a @ c # x) = a # split_on c x"
  by (induction a) auto

lemma split_on_whole: "c \<notin> set a \<Longrightarrow> split_on c a = [a]"
  by (induction a) auto

section \<open>The lists of a fact\<close>

text \<open>What one list of a fact holds: what the lines of that kind give, in the order of the file.\<close>

definition entry_of :: "'e db_line \<Rightarrow> 'e option" where
  "entry_of l = (case l of EntryLine e \<Rightarrow> Some e | _ \<Rightarrow> None)"

definition compat_of :: "'e db_line \<Rightarrow> compat_entry option" where
  "compat_of l = (case l of CompatLine c \<Rightarrow> Some c | _ \<Rightarrow> None)"

definition malformed_of :: "'e db_line \<Rightarrow> int option" where
  "malformed_of l = (case l of MalformedLine n \<Rightarrow> Some n | _ \<Rightarrow> None)"

lemmas line_kinds = entry_of_def compat_of_def malformed_of_def

definition pick :: "('e db_line \<Rightarrow> 'b option) \<Rightarrow> (nat \<times> string \<Rightarrow> 'e db_line) \<Rightarrow> (nat \<times> string) list \<Rightarrow> 'b list" where
  "pick k line ls = List.map_filter (\<lambda>l. k (line l)) ls"

lemma pick_simps [simp]: "pick k line [] = []"
  "pick k line (l # ls) = (case k (line l) of None \<Rightarrow> [] | Some x \<Rightarrow> [x]) @ pick k line ls"
  by (simp_all add: pick_def split: option.split)

lemma pick_append [simp]: "pick k line (ls @ ms) = pick k line ls @ pick k line ms"
  by (induction ls) simp_all

lemma pick_Nil: "pick k line ls = [] \<longleftrightarrow> (\<forall>l \<in> set ls. k (line l) = None)"
  by (induction ls) (auto split: option.splits)

lemma set_pick: "x \<in> set (pick k line ls) \<longleftrightarrow> (\<exists>l \<in> set ls. k (line l) = Some x)"
  by (induction ls) (auto split: option.splits)

lemma parse_passwd_lists:
  "parse_passwd res = \<lparr>pw_entries = pick entry_of passwd_line (numbered_lines (rr_data res)),
     pw_compat = pick compat_of passwd_line (numbered_lines (rr_data res)),
     pw_malformed = pick malformed_of passwd_line (numbered_lines (rr_data res)),
     pw_path = PasswdPath, pw_digest = rr_sha256 res\<rparr>"
proof -
  have "foldl add_passwd p ls = p\<lparr>pw_entries := pw_entries p @ pick entry_of passwd_line ls,
      pw_compat := pw_compat p @ pick compat_of passwd_line ls,
      pw_malformed := pw_malformed p @ pick malformed_of passwd_line ls\<rparr>" for p ls
    by (induction ls arbitrary: p) (simp_all add: add_passwd_def line_kinds split: db_line.split)
  then show ?thesis by (simp add: parse_passwd_def)
qed

lemma parse_group_lists:
  "parse_group res = \<lparr>gr_entries = pick entry_of group_line (numbered_lines (rr_data res)),
     gr_compat = pick compat_of group_line (numbered_lines (rr_data res)),
     gr_malformed = pick malformed_of group_line (numbered_lines (rr_data res)),
     gr_path = GroupPath, gr_digest = rr_sha256 res\<rparr>"
proof -
  have "foldl add_group p ls = p\<lparr>gr_entries := gr_entries p @ pick entry_of group_line ls,
      gr_compat := gr_compat p @ pick compat_of group_line ls,
      gr_malformed := gr_malformed p @ pick malformed_of group_line ls\<rparr>" for p ls
    by (induction ls arbitrary: p) (simp_all add: add_group_def line_kinds split: db_line.split)
  then show ?thesis by (simp add: parse_group_def)
qed

lemma parse_shadow_lists:
  "parse_shadow res = \<lparr>sh_entries = pick entry_of shadow_line (numbered_lines (rr_data res)),
     sh_malformed = pick malformed_of shadow_line (numbered_lines (rr_data res)), sh_path = ShadowPath\<rparr>"
proof -
  have "foldl add_shadow p ls = p\<lparr>sh_entries := sh_entries p @ pick entry_of shadow_line ls,
      sh_malformed := sh_malformed p @ pick malformed_of shadow_line ls\<rparr>" for p ls
    by (induction ls arbitrary: p) (simp_all add: add_shadow_def line_kinds split: db_line.split)
  then show ?thesis by (simp add: parse_shadow_def)
qed

section \<open>Accounts that are written\<close>

text \<open>
  An account as it is written: its password field and its comment, which the fact does not keep, and the account.
  It is plain when no field holds a separator, and the name starts the way a login name does.
\<close>

definition login_char :: "char \<Rightarrow> bool" where
  "login_char c \<longleftrightarrow> ascii [c] \<and> (is_digit c \<or> c = CHR ''_'' \<or> to_lower_char c \<noteq> c \<or> to_upper_char c \<noteq> c)"

definition account_line :: "string \<times> string \<times> passwd_entry \<Rightarrow> string" where
  "account_line = (\<lambda>(pw, gecos, e). join '':'' [pe_name e, pw, nat_str (nat (pe_uid e)), nat_str (nat (pe_gid e)), gecos,
     pe_home e, pe_shell e])"

definition plain_field :: "string \<Rightarrow> bool" where
  "plain_field s \<longleftrightarrow> set s \<inter> set [CHR '':'', CHR 0x0A, CHR 0x0D, CHR 0x00] = {}"

definition plain_account :: "string \<times> string \<times> passwd_entry \<Rightarrow> bool" where
  "plain_account = (\<lambda>(pw, gecos, e). pe_name e \<noteq> [] \<and> login_char (hd (pe_name e))
     \<and> list_all plain_field [pe_name e, pw, gecos, pe_home e, pe_shell e]
     \<and> 0 \<le> pe_uid e \<and> pe_uid e < 2 ^ 32 \<and> 0 \<le> pe_gid e \<and> pe_gid e < 2 ^ 32)"

lemma login_char_head:
  assumes "login_char c"
  shows "space_at spaces (c # s) = None" "c \<noteq> CHR ''#''" "c \<noteq> CHR ''+''" "c \<noteq> CHR ''-''"
proof -
  have n: "list_all (\<lambda>d. \<not> login_char d) (map hd spaces @ ''#+-'')" by code_simp
  have "has_prefix (c # s) w \<Longrightarrow> w \<noteq> [] \<Longrightarrow> hd w = c" for w by (auto simp: has_prefix_iff Cons_eq_append_conv)
  then show "space_at spaces (c # s) = None"
    using n assms unfolding space_at_def find_None_iff' by (auto simp: list_all_iff)
  show "c \<noteq> CHR ''#''" "c \<noteq> CHR ''+''" "c \<noteq> CHR ''-''" using n assms by (auto simp: list_all_iff)
qed

lemma plain_number: "plain_field (nat_str n)"
proof -
  have "list_all (\<lambda>c. \<not> is_digit c) [CHR '':'', CHR 0x0A, CHR 0x0D, CHR 0x00]" by code_simp
  then show ?thesis using nat_str_digits[of n] by (auto simp: plain_field_def)
qed

lemma parse_uint32_nat_str: "int n < 2 ^ 32 \<Longrightarrow> parse_uint32 (nat_str n) = Some (int n)"
  using nat_str_digits[of n] by (simp add: parse_uint32_def list_all_iff)

lemma account_line_chars:
  assumes "plain_account a" "c \<in> set [CHR 0x0A, CHR 0x0D, CHR 0x00]"
  shows "c \<notin> set (account_line a)"
proof -
  obtain pw gecos e where a: "a = (pw, gecos, e)" by (cases a)
  show ?thesis using assms plain_number[of "nat (pe_uid e)"] plain_number[of "nat (pe_gid e)"]
    unfolding a plain_account_def account_line_def by (auto simp: plain_field_def)
qed

lemma account_line_fields:
  assumes "plain_account (pw, gecos, e)"
  shows "split_on (CHR '':'') (account_line (pw, gecos, e))
    = [pe_name e, pw, nat_str (nat (pe_uid e)), nat_str (nat (pe_gid e)), gecos, pe_home e, pe_shell e]"
  using assms plain_number[of "nat (pe_uid e)"] plain_number[of "nat (pe_gid e)"]
  by (simp add: account_line_def plain_account_def plain_field_def split_on_colon split_on_whole)

lemma plain_account_line:
  assumes "plain_account a"
  shows "passwd_line (n, account_line a) = EntryLine ((snd (snd a))\<lparr>pe_line := int n\<rparr>)"
proof -
  obtain pw gecos e where a: "a = (pw, gecos, e)" by (cases a)
  obtain x where x: "account_line a = pe_name e @ CHR '':'' # x" by (simp add: a account_line_def)
  obtain c s where c: "pe_name e = c # s" "login_char c"
    using assms by (cases "pe_name e") (auto simp: a plain_account_def)
  have "CHR '':'' \<notin> set (pe_name e)" using assms by (simp add: a plain_account_def plain_field_def)
  then have f: "first_field (account_line a) = c # s"
    unfolding first_field_def x using c by (subst takeWhile_append2) auto
  have "CHR 0x0D \<notin> set (account_line a)" using account_line_chars[OF assms] by simp
  then have t: "line_text (account_line a) = account_line a"
    unfolding line_text_def trim_suffix_def has_suffix_iff by auto
  have "\<not> is_compat (account_line a)" "\<not> skippable (account_line a)"
    using f login_char_head[OF c(2)] unfolding is_compat_def x skippable_colon
    by (simp_all add: c has_prefix_def trim_left_space_def strip_left_id)
  moreover have "pe_uid e = int (nat (pe_uid e))" "pe_gid e = int (nat (pe_gid e))"
    "nat (pe_uid e) < 2 ^ 32" "nat (pe_gid e) < 2 ^ 32"
    using assms by (auto simp: a plain_account_def nat_less_iff)
  ultimately show ?thesis
    unfolding passwd_line_def using t account_line_fields[of pw gecos e] assms
    by (simp add: a Let_def passwdFields_def parse_uint32_nat_str)
qed

definition account_file :: "(string \<times> string \<times> passwd_entry) list \<Rightarrow> string" where
  "account_file as = concat (map (\<lambda>a. account_line a @ [CHR 0x0A]) as)"

lemma account_file_lines:
  "list_all plain_account as \<Longrightarrow> split_on (CHR 0x0A) (account_file as) = map account_line as @ [[]]"
  using account_line_chars by (induction as) (simp_all add: account_file_def split_on_colon)

lemma account_file_read:
  assumes "list_all plain_account as"
  shows "pick entry_of passwd_line (List.enumerate n (map account_line as @ [[]]))
      = map (\<lambda>(i, pw, gecos, e). e\<lparr>pe_line := int i\<rparr>) (List.enumerate n as)
    \<and> pick compat_of passwd_line (List.enumerate n (map account_line as @ [[]])) = []
    \<and> pick malformed_of passwd_line (List.enumerate n (map account_line as @ [[]])) = []"
  using assms
proof (induction as arbitrary: n)
  case Nil
  have "skippable (line_text [])" by code_simp
  then have "passwd_line (n, []) = SkippedLine" for n by (simp add: passwd_line_def Let_def)
  then show ?case by (simp add: line_kinds)
next
  case (Cons a as)
  then show ?case by (simp add: plain_account_line line_kinds split_beta)
qed

section \<open>Lines that differ in the hash only\<close>

text \<open>
  Two lines of the shadow file that are the same, or the same but for a password field of the same class: the
  scheme, the lock and the emptiness that \<open>AlgorithmFor\<close> reads off it.
\<close>

definition same_but_hash :: "string \<Rightarrow> string \<Rightarrow> bool" where
  "same_but_hash l l' \<longleftrightarrow> l = l' \<or>
     (case (split_on (CHR '':'') l, split_on (CHR '':'') l') of
        (a # p # b # r, a' # p' # r') \<Rightarrow> a = a' \<and> b # r = r' \<and> AlgorithmFor p = AlgorithmFor p'
      | _ \<Rightarrow> False)"

lemma split_on_three:
  assumes "split_on c l = a # p # r" "r \<noteq> []"
  shows "l = a @ c # p @ c # join [c] r"
  using join_split_on[of c l] assms by (simp add: join_Cons)

lemma line_text_fields:
  assumes "split_on (CHR '':'') l = a # p # r" "r \<noteq> []"
  shows "split_on (CHR '':'') (line_text l) = a # p # split_on (CHR '':'') (line_text (join '':'' r))"
proof -
  have "CHR '':'' \<notin> set a" "CHR '':'' \<notin> set p" using split_on_no_sep[of _ "CHR '':''" l] assms(1) by auto
  then show ?thesis by (subst split_on_three[OF assms]) (simp add: line_text_colon split_on_colon)
qed

lemma shadow_line_same:
  assumes "same_but_hash l l'"
  shows "shadow_line (n, l) = shadow_line (n, l')"
proof (cases "l = l'")
  case False
  then obtain a p p' b r where s: "split_on (CHR '':'') l = a # p # b # r" "split_on (CHR '':'') l' = a # p' # b # r"
      "AlgorithmFor p = AlgorithmFor p'"
    using assms unfolding same_but_hash_def by (auto split: list.splits)
  have "skippable (line_text l) = skippable (line_text l')"
    unfolding split_on_three[OF s(1) list.simps(3)] split_on_three[OF s(2) list.simps(3)] line_text_colon skippable_colon ..
  then show ?thesis
    using line_text_fields[OF s(1)] line_text_fields[OF s(2)] s(3) by (simp add: shadow_line_def Let_def optionalInt_def)
qed simp

lemma pick_same:
  assumes "list_all2 same_but_hash ls ls'"
  shows "pick k shadow_line (List.enumerate n ls) = pick k shadow_line (List.enumerate n ls')"
  using assms by (induction arbitrary: n rule: list_all2_induct) (simp_all add: shadow_line_same)

section \<open>Properties\<close>

text \<open>
  C34: an account file is read back as its accounts. For every list of accounts whose fields hold no separator and
  whose names begin like a login name, the file that lists them is collected as exactly those accounts, in their
  order, each with its line number; no line is taken for a directory import or found malformed, and neither the
  password field nor the comment of a line reaches the fact.
\<close>

theorem account_file_is_read_back:
  assumes "list_all plain_account as"
    and "h_read_file h PasswdPath maxDatabaseRead = Inr res" and "rr_data res = account_file as" and "\<not> rr_truncated res"
  shows "collectPasswd h = Inr \<lparr>pw_entries = map (\<lambda>(i, pw, gecos, e). e\<lparr>pe_line := int i\<rparr>) (List.enumerate 1 as),
     pw_compat = [], pw_malformed = [], pw_path = PasswdPath, pw_digest = rr_sha256 res\<rparr>"
proof -
  have "CHR 0x00 \<notin> set (account_file as)"
    using assms(1) account_line_chars by (auto simp: account_file_def list_all_iff)
  then have "NotText (rr_data res) = None" unfolding assms(3) NotText_iff .
  then have "readDatabase h PasswdID PasswdPath = Inr res" using assms(2,4) by (simp add: readDatabase_def)
  then show ?thesis using account_file_read[OF assms(1)]
    by (simp add: collectPasswd_def parse_passwd_lists numbered_lines_def assms(3) account_file_lines[OF assms(1)])
qed

text \<open>A host that holds the given files and nothing else.\<close>

definition file_host :: "(string \<times> string) list \<Rightarrow> host" where
  "file_host files = \<lparr>h_stat = (\<lambda>p. Inl SysNotExist), h_read_file = (\<lambda>p n. case map_of files p of None \<Rightarrow> Inl SysNotExist
     | Some d \<Rightarrow> Inr \<lparr>rr_path = p, rr_data = d, rr_size = int (length d), rr_truncated = False, rr_sha256 = []\<rparr>),
     h_read_opaque = (\<lambda>p n. Inl SysNotExist), h_read_dir = (\<lambda>p n. Inl SysNotExist), h_readlink = (\<lambda>p. Inl SysNotExist),
     h_glob = (\<lambda>p. Inr []), h_euid = 0\<rparr>"

lemma file_host_read: "map_of files p = Some d \<Longrightarrow> h_read_file (file_host files) p n
    = Inr \<lparr>rr_path = p, rr_data = d, rr_size = int (length d), rr_truncated = False, rr_sha256 = []\<rparr>"
  "map_of files p = None \<Longrightarrow> h_read_file (file_host files) p n = Inl SysNotExist"
  by (simp_all add: file_host_def)

definition root_account :: "string \<times> string \<times> passwd_entry" where
  "root_account = (''x'', ''System Administrator'', \<lparr>pe_name = ''root'', pe_uid = 0, pe_gid = 0, pe_home = ''/root'',
     pe_shell = ''/bin/bash'', pe_line = 0\<rparr>)"

theorem account_file_is_read_back_witness:
  "map_sum id pw_entries (collectPasswd (file_host [(PasswdPath, account_file [root_account])]))
     = Inr [(snd (snd root_account))\<lparr>pe_line := 1\<rparr>]"
proof -
  have a: "list_all plain_account [root_account]" by code_simp
  show ?thesis
    by (subst account_file_is_read_back[OF a file_host_read(1)]) (simp_all add: split_beta)
qed


definition shadow_text :: "string \<Rightarrow> string" where
  "shadow_text salt = ''root:$6$'' @ salt @ '':19000:0:99999:7:::'' @ [CHR 0x0A]"


end
