(* ===== verification/Users_Verdicts.thy ===== *)
theory Users_Verdicts
  imports Users_Laws
begin

text \<open>
  What a verdict of the USERS module says of the files it was drawn from: when each check passes, fails or does not
  apply, and that a PASS speaks for every line of the file.
\<close>

section \<open>Completeness and the guards\<close>

definition complete_passwd :: "passwd \<Rightarrow> bool" where
  "complete_passwd p \<longleftrightarrow> pw_compat p = [] \<and> pw_malformed p = []"

definition complete_group :: "group_file \<Rightarrow> bool" where
  "complete_group g \<longleftrightarrow> gr_compat g = [] \<and> gr_malformed g = []"

lemma guard_results [simp]:
  "oc_result (unknownIfIncomplete p oc) = (if oc_result oc = Pass \<and> \<not> complete_passwd p then Unknown else oc_result oc)"
  "oc_result (unknownIfGroupIncomplete g oc) = (if oc_result oc = Pass \<and> \<not> complete_group g then Unknown else oc_result oc)"
  "oc_result (unknownIfShadowIncomplete p s oc)
     = (if oc_result oc = Pass \<and> \<not> (sh_malformed s = [] \<and> complete_passwd p) then Unknown else oc_result oc)"
  by (auto simp: unknownIfIncomplete_def unknownIfGroupIncomplete_def unknownIfShadowIncomplete_def incomplete_any_def
      incompleteView_def complete_passwd_def complete_group_def shadowIncomplete_def)

section \<open>Duplicates\<close>

lemma distinct_count: "distinct xs \<longleftrightarrow> (\<forall>x \<in> set xs. \<not> 1 < length (filter (\<lambda>y. y = x) xs))"
proof (induction xs)
  case (Cons a xs)
  have "length (filter (\<lambda>y. y = a) xs) = 0 \<longleftrightarrow> a \<notin> set xs" by (auto simp: filter_empty_conv)
  then show ?case using Cons.IH by (auto simp: Suc_lessI)
qed simp

lemma duplicates_Nil: "duplicates (k :: 'a \<Rightarrow> 'b::linorder) xs = [] \<longleftrightarrow> distinct (map k xs)"
proof -
  have "filter (\<lambda>v. 1 < length (filter (\<lambda>x. k x = v) xs)) (map k xs) = [] \<longleftrightarrow> distinct (map k xs)"
    unfolding distinct_count filter_empty_conv by (simp add: filter_map comp_def)
  moreover have "sort ys = [] \<longleftrightarrow> ys = []" for ys :: "'b list" by (metis length_0_conv length_sort)
  ultimately show ?thesis by (simp add: duplicates_def)
qed

section \<open>The verdicts\<close>

text \<open>For each check: when it fails, when it passes and when it does not apply, over the facts it reads.\<close>

definition violated0001 :: "passwd \<Rightarrow> bool" where
  "violated0001 p \<longleftrightarrow> list_ex (\<lambda>e. pe_name e \<noteq> ''root'') (ByUID p 0) \<or> 1 < length (ByUID p 0)"

definition system_accounts :: "passwd \<Rightarrow> passwd_entry list" where
  "system_accounts p = filter (\<lambda>e. isSystemAccount (pe_uid e)) (pw_entries p)"

definition violated0007 :: "passwd_entry \<Rightarrow> passwd \<Rightarrow> group_file \<Rightarrow> bool" where
  "violated0007 r p g \<longleftrightarrow> pe_gid r \<noteq> 0
     \<or> list_ex (\<lambda>e. pe_gid e = 0 \<and> pe_name e \<noteq> ''root'' \<and> pe_uid e \<noteq> 0 \<and> \<not> isSystemAccount (pe_uid e)) (pw_entries p)
     \<or> list_ex (\<lambda>grp. ge_gid grp = 0 \<and> list_ex (\<lambda>m. m \<noteq> ''root'') (ge_members grp)) (gr_entries g)"

definition min_age_ok :: "shadow_entry \<Rightarrow> bool" where
  "min_age_ok e \<longleftrightarrow>
     (case se_min_days e of
        None \<Rightarrow> False
      | Some lo \<Rightarrow> 1 \<le> lo \<and> (case se_max_days e of None \<Rightarrow> True | Some hi \<Rightarrow> lo \<le> hi))"

definition on_passwd :: "(passwd \<Rightarrow> bool) \<Rightarrow> payload fact_set \<Rightarrow> bool" where "on_passwd P fs = P (passwdFact fs)"
definition on_shadow :: "(shadow \<Rightarrow> bool) \<Rightarrow> payload fact_set \<Rightarrow> bool" where "on_shadow P fs = P (shadowFact fs)"
definition on_group :: "(group_file \<Rightarrow> bool) \<Rightarrow> payload fact_set \<Rightarrow> bool" where "on_group P fs = P (groupFact fs)"
definition on_login_defs :: "(login_defs \<Rightarrow> bool) \<Rightarrow> payload fact_set \<Rightarrow> bool" where "on_login_defs P fs = P (loginDefsFact fs)"

definition complete_accounts :: "payload fact_set \<Rightarrow> bool" where
  "complete_accounts fs \<longleftrightarrow> sh_malformed (shadowFact fs) = [] \<and> complete_passwd (passwdFact fs)"

definition root_and_group0 :: "(passwd_entry \<Rightarrow> passwd \<Rightarrow> group_file \<Rightarrow> bool) \<Rightarrow> payload fact_set \<Rightarrow> bool" where
  "root_and_group0 P fs \<longleftrightarrow> ByGID (groupFact fs) 0 \<noteq> [] \<and>
     (case find (\<lambda>e. pe_name e = ''root'') (pw_entries (passwdFact fs)) of
        None \<Rightarrow> False
      | Some r \<Rightarrow> P r (passwdFact fs) (groupFact fs))"

lemmas on_facts = on_passwd_def on_shadow_def on_group_def on_login_defs_def complete_accounts_def root_and_group0_def

lemma passwd_results:
  "oc_result (eval0001 fs) = (if ByUID (passwdFact fs) 0 = [] then Unknown else if violated0001 (passwdFact fs) then Fail
     else if complete_passwd (passwdFact fs) then Pass else Unknown)"
  "oc_result (eval0002 fs) = (if list_ex (\<lambda>e. interactiveShell (pe_shell e)) (system_accounts (passwdFact fs)) then Fail
     else if system_accounts (passwdFact fs) = [] then NotApplicable
     else if complete_passwd (passwdFact fs) then Pass else Unknown)"
  "oc_result (eval0005 fs) = (if distinct (map pe_uid (pw_entries (passwdFact fs))) \<and> distinct (map pe_name (pw_entries (passwdFact fs)))
     then if complete_passwd (passwdFact fs) then Pass else Unknown else Fail)"
  "oc_result (eval0006 fs) = (if pw_compat (passwdFact fs) \<noteq> [] then Fail
     else if complete_passwd (passwdFact fs) then Pass else Unknown)"
  subgoal
    by (cases "ByUID (passwdFact fs) 0")
      (auto simp: eval0001_def Let_def violated0001_def list_ex_iff filter_empty_conv)
  subgoal by (auto simp: eval0002_def Let_def system_accounts_def list_ex_iff filter_empty_conv)
  subgoal by (simp add: eval0005_def Let_def DuplicateUIDs_def DuplicateUserNames_def duplicates_Nil)
  subgoal by (simp add: eval0006_def Let_def)
  done

lemma group0_clear:
  "(filter (\<lambda>e. \<not> isSystemAccount (pe_uid e)) (group0_accounts p) = [] \<and> filter (\<lambda>grp. extra_members grp \<noteq> []) (ByGID g 0) = [])
     = (\<not> (list_ex (\<lambda>e. pe_gid e = 0 \<and> pe_name e \<noteq> ''root'' \<and> pe_uid e \<noteq> 0 \<and> \<not> isSystemAccount (pe_uid e)) (pw_entries p)
       \<or> list_ex (\<lambda>grp. ge_gid grp = 0 \<and> list_ex (\<lambda>m. m \<noteq> ''root'') (ge_members grp)) (gr_entries g)))"
  by (auto simp: group0_accounts_def extra_members_def ByGID_def list_ex_iff filter_empty_conv)

lemma group_results:
  "oc_result (eval0007 fs) = (if root_and_group0 violated0007 fs then Fail
     else if root_and_group0 (\<lambda>r p g. complete_passwd p \<and> complete_group g) fs then Pass else Unknown)"
  "oc_result (eval0008 fs) = (if distinct (map ge_gid (gr_entries (groupFact fs))) \<and> distinct (map ge_name (gr_entries (groupFact fs)))
     then if complete_group (groupFact fs) then Pass else Unknown else Fail)"
  subgoal
  proof -
    have r: "oc_result (eval0007 fs) = (if ByGID (groupFact fs) 0 = [] then Unknown
       else (case find (\<lambda>e. pe_name e = ''root'') (pw_entries (passwdFact fs)) of
          None \<Rightarrow> Unknown
        | Some r \<Rightarrow> (if \<not> (pe_gid r = 0 \<and> filter (\<lambda>e. \<not> isSystemAccount (pe_uid e)) (group0_accounts (passwdFact fs)) = []
              \<and> filter (\<lambda>grp. extra_members grp \<noteq> []) (ByGID (groupFact fs) 0) = []) then Fail
            else if complete_passwd (passwdFact fs) \<and> complete_group (groupFact fs) then Pass else Unknown)))"
      by (simp only: eval0007_def Let_def if_distrib[of oc_result] option.case_distrib[of oc_result] outcome.select_convs
          outcome.update_convs guard_results append_is_Nil_conv map_is_Nil_conv zero_outcome_def)
        (auto split: option.split)
    show ?thesis unfolding r group0_clear
      by (auto simp add: root_and_group0_def violated0007_def split: option.split)
  qed
  subgoal by (simp add: eval0008_def Let_def DuplicateGIDs_def DuplicateGroupNames_def duplicates_Nil)
  done

lemma min_age_arms: "(locked_out_of e = [] \<and> no_minimum_of e = []) = min_age_ok e"
  by (auto simp: locked_out_of_def no_minimum_of_def min_age_def min_age_ok_def split: option.split)

lemma shadow_results:
  "oc_result (eval0003 fs) = (if list_ex se_empty (sh_entries (shadowFact fs)) then Fail
     else if sh_entries (shadowFact fs) = [] then Unknown else if complete_accounts fs then Pass else Unknown)"
  "oc_result (eval0004 fs) = (if list_ex (\<lambda>e. hash_arm e = WeakHash) (sh_entries (shadowFact fs)) then Fail
     else if list_ex (\<lambda>e. hash_arm e = UnrecognisedHash) (sh_entries (shadowFact fs)) then Unknown
     else if list_all (\<lambda>e. hash_arm e = NoHash) (sh_entries (shadowFact fs)) then NotApplicable
     else if complete_accounts fs then Pass else Unknown)"
  "oc_result (eval0009 fs) = (if authenticating (shadowFact fs) = [] then NotApplicable
     else if \<not> list_all bounded_age (authenticating (shadowFact fs)) then Fail
     else if complete_accounts fs then Pass else Unknown)"
  "oc_result (eval0010 fs) = (if authenticating (shadowFact fs) = [] then NotApplicable
     else if \<not> list_all min_age_ok (authenticating (shadowFact fs)) then Fail
     else if complete_accounts fs then Pass else Unknown)"
  subgoal by (auto simp: eval0003_def Let_def complete_accounts_def list_ex_iff filter_empty_conv)
  subgoal by (auto simp: eval0004_def Let_def complete_accounts_def list_ex_iff list_all_iff filter_empty_conv)
  subgoal by (auto simp: eval0009_def Let_def complete_accounts_def list_all_iff filter_empty_conv)
  subgoal
  proof -
    let ?as = "authenticating (shadowFact fs)"
    have "(concat (map locked_out_of ?as) \<noteq> [] \<or> concat (map no_minimum_of ?as) \<noteq> []) = (\<not> list_all min_age_ok ?as)"
      by (auto simp: list_all_iff min_age_arms[symmetric])
    then show ?thesis by (simp add: eval0010_def Let_def complete_accounts_def)
  qed
  done

lemma login_defs_results:
  "oc_result (eval0012 fs) = (let l = loginDefsFact fs in
     if ld_state l = SourceAbsent then NotApplicable
     else if ld_state l = SourceDenied \<or> ld_state l = SourceError then Unknown
     else (case EffectiveSetting l PassMinDaysKey of
         None \<Rightarrow> Fail
       | Some x \<Rightarrow> (case atoi (ls_value x) of None \<Rightarrow> Unknown | Some n \<Rightarrow> if 1 \<le> n then Pass else Fail)))"
  by (simp add: eval0012_def Let_def IntSetting_def split: option.split)

definition min_days :: "(int \<Rightarrow> bool) \<Rightarrow> login_defs \<Rightarrow> bool" where
  "min_days P l = (case IntSetting l PassMinDaysKey of None \<Rightarrow> False | Some (n, st) \<Rightarrow> P n)"

definition users_verdicts ::
  "(payload check \<times> (payload fact_set \<Rightarrow> bool) \<times> (payload fact_set \<Rightarrow> bool) \<times> (payload fact_set \<Rightarrow> bool)) list" where
  "users_verdicts =
     [(Check0001, on_passwd violated0001,
        on_passwd (\<lambda>p. complete_passwd p \<and> map pe_name (ByUID p 0) = [''root'']), \<lambda>fs. False),
      (Check0002, on_passwd (\<lambda>p. list_ex (\<lambda>e. interactiveShell (pe_shell e)) (system_accounts p)),
        on_passwd (\<lambda>p. complete_passwd p \<and> system_accounts p \<noteq> []
          \<and> list_all (\<lambda>e. \<not> interactiveShell (pe_shell e)) (system_accounts p)),
        on_passwd (\<lambda>p. system_accounts p = [])),
      (Check0003, on_shadow (\<lambda>s. list_ex se_empty (sh_entries s)),
        \<lambda>fs. complete_accounts fs \<and> on_shadow (\<lambda>s. sh_entries s \<noteq> [] \<and> list_all (\<lambda>e. \<not> se_empty e) (sh_entries s)) fs,
        \<lambda>fs. False),
      (Check0004, on_shadow (\<lambda>s. list_ex (\<lambda>e. Weak (se_algorithm e)) (sh_entries s)),
        \<lambda>fs. complete_accounts fs \<and> on_shadow (\<lambda>s. list_ex (\<lambda>e. Strong (se_algorithm e)) (sh_entries s)
          \<and> list_all (\<lambda>e. se_algorithm e = HashNone \<or> Strong (se_algorithm e)) (sh_entries s)) fs,
        on_shadow (\<lambda>s. list_all (\<lambda>e. se_algorithm e = HashNone) (sh_entries s))),
      (Check0005, on_passwd (\<lambda>p. \<not> (distinct (map pe_uid (pw_entries p)) \<and> distinct (map pe_name (pw_entries p)))),
        on_passwd (\<lambda>p. complete_passwd p \<and> distinct (map pe_uid (pw_entries p)) \<and> distinct (map pe_name (pw_entries p))),
        \<lambda>fs. False),
      (Check0006, on_passwd (\<lambda>p. pw_compat p \<noteq> []), on_passwd complete_passwd, \<lambda>fs. False),
      (Check0007, root_and_group0 violated0007,
        root_and_group0 (\<lambda>r p g. complete_passwd p \<and> complete_group g \<and> \<not> violated0007 r p g), \<lambda>fs. False),
      (Check0008, on_group (\<lambda>g. \<not> (distinct (map ge_gid (gr_entries g)) \<and> distinct (map ge_name (gr_entries g)))),
        on_group (\<lambda>g. complete_group g \<and> distinct (map ge_gid (gr_entries g)) \<and> distinct (map ge_name (gr_entries g))),
        \<lambda>fs. False),
      (Check0009, on_shadow (\<lambda>s. \<not> list_all bounded_age (authenticating s)),
        \<lambda>fs. complete_accounts fs \<and> on_shadow (\<lambda>s. authenticating s \<noteq> [] \<and> list_all bounded_age (authenticating s)) fs,
        on_shadow (\<lambda>s. authenticating s = [])),
      (Check0010, on_shadow (\<lambda>s. \<not> list_all min_age_ok (authenticating s)),
        \<lambda>fs. complete_accounts fs \<and> on_shadow (\<lambda>s. authenticating s \<noteq> [] \<and> list_all min_age_ok (authenticating s)) fs,
        on_shadow (\<lambda>s. authenticating s = [])),
      (Check0012, on_login_defs (\<lambda>l. ld_state l \<notin> set [SourceAbsent, SourceDenied, SourceError]
          \<and> (EffectiveSetting l PassMinDaysKey = None \<or> min_days (\<lambda>n. n < 1) l)),
        on_login_defs (\<lambda>l. ld_state l \<notin> set [SourceAbsent, SourceDenied, SourceError]
          \<and> min_days (\<lambda>n. 1 \<le> n) l),
        on_login_defs (\<lambda>l. ld_state l = SourceAbsent))]"

lemma strong_not_weak: "Strong a \<Longrightarrow> \<not> Weak a \<and> a \<noteq> HashNone" "Weak a \<Longrightarrow> a \<noteq> HashNone"
  by (auto simp: Strong_def Weak_def hash_names)

lemma hash_arms: "hash_arm e = NoHash \<longleftrightarrow> se_algorithm e = HashNone" "hash_arm e = WeakHash \<longleftrightarrow> Weak (se_algorithm e)"
  "hash_arm e = UnrecognisedHash \<longleftrightarrow> \<not> (se_algorithm e = HashNone \<or> Weak (se_algorithm e) \<or> Strong (se_algorithm e))"
  using strong_not_weak by (auto simp: hash_arm_def)

lemma root_only: "map pe_name (ByUID p 0) = [''root''] \<longleftrightarrow> ByUID p 0 \<noteq> [] \<and> \<not> violated0001 p"
  by (cases "ByUID p 0") (auto simp: violated0001_def list_ex_iff)

definition decides :: "(payload fact_set \<Rightarrow> outcome) \<Rightarrow> (payload fact_set \<Rightarrow> bool) \<times> (payload fact_set \<Rightarrow> bool) \<times> (payload fact_set \<Rightarrow> bool) \<Rightarrow> bool" where
  "decides e = (\<lambda>(violated, confirmed, inapplicable). \<forall>fs. (oc_result (e fs) = Fail \<longleftrightarrow> violated fs)
     \<and> (oc_result (e fs) = Pass \<longleftrightarrow> confirmed fs) \<and> (oc_result (e fs) = NotApplicable \<longleftrightarrow> inapplicable fs)
     \<and> oc_result (e fs) \<in> {Pass, Fail, NotApplicable, Unknown})"

definition users_evaluations :: "(payload fact_set \<Rightarrow> outcome) list" where
  "users_evaluations = [eval0001, eval0002, eval0003, eval0004, eval0005, eval0006, eval0007, eval0008, eval0009, eval0010, eval0012]"

lemma evaluations_decide: "list_all (\<lambda>(e, ck, t). decides e t) (zip users_evaluations users_verdicts)"
  unfolding users_verdicts_def users_evaluations_def zip_Cons_Cons zip_Nil list.pred_inject prod.case
  apply (intro conjI)
  subgoal by (auto simp: decides_def passwd_results on_facts root_only violated0001_def)
  subgoal by (auto simp: decides_def passwd_results on_facts list_ex_iff list_all_iff)
  subgoal by (auto simp: decides_def shadow_results on_facts list_ex_iff list_all_iff)
  subgoal using strong_not_weak by (auto simp: decides_def shadow_results on_facts hash_arms list_ex_iff list_all_iff)
  subgoal by (auto simp: decides_def passwd_results on_facts)
  subgoal by (auto simp: decides_def passwd_results on_facts complete_passwd_def)
  subgoal by (auto simp: decides_def group_results on_facts split: option.splits)
  subgoal by (auto simp: decides_def group_results on_facts)
  subgoal by (auto simp: decides_def shadow_results on_facts)
  subgoal by (auto simp: decides_def shadow_results on_facts)
  subgoal by (auto simp: decides_def login_defs_results on_facts min_days_def IntSetting_def Let_def split: option.splits)
  subgoal by simp
  done

lemma evaluations_run: "list_all (\<lambda>(e, ck, t). ck_eval ck = Some (\<lambda>fs. Inr (e fs))) (zip users_evaluations users_verdicts)"
  unfolding users_verdicts_def users_evaluations_def zip_Cons_Cons zip_Nil list.pred_inject prod.case users_evals by simp

lemma users_verdicts_decided:
  assumes "(ck, t) \<in> set users_verdicts"
  shows "\<exists>e. ck_eval ck = Some (\<lambda>fs. Inr (e fs)) \<and> decides e t"
proof -
  have "length users_evaluations = length users_verdicts" by (simp add: users_evaluations_def users_verdicts_def)
  then obtain e where "(e, ck, t) \<in> set (zip users_evaluations users_verdicts)"
    using in_set_impl_in_set_zip2[OF _ assms] by blast
  then show ?thesis using evaluations_decide evaluations_run by (auto simp: list_all_iff)
qed

section \<open>The facts the collector leaves\<close>

lemma readDatabase_error: "readDatabase h i path = Inl e \<Longrightarrow> fe_fact e = i"
  by (auto simp: readDatabase_def database_error_def MalformedError_def split: sum.splits sys_error.splits option.splits if_splits)

lemma readDatabase_read:
  "readDatabase h i path = Inr res \<longleftrightarrow>
     h_read_file h path maxDatabaseRead = Inr res \<and> \<not> rr_truncated res \<and> NotText (rr_data res) = None"
  by (auto simp: readDatabase_def split: sum.splits sys_error.splits option.splits)

definition stores :: "fact_id \<Rightarrow> fact_error + 'a \<Rightarrow> bool" where
  "stores i r \<longleftrightarrow> (case r of Inl e \<Rightarrow> fe_fact e = i | Inr x \<Rightarrow> True)"

lemma collect_stores: "stores PasswdID (collectPasswd h)" "stores ShadowID (collectShadow h)" "stores GroupID (collectGroup h)"
  by (auto simp: stores_def collectPasswd_def collectShadow_def collectGroup_def map_sum_def dest: readDatabase_error
      split: sum.splits)

lemma store_facts:
  assumes "wf_set fs" "stores i r"
  shows "wf_set (store i w r fs)"
    "lookup (facts (store i w r fs)) j = (if j = i then case r of Inl e \<Rightarrow> None
       | Inr x \<Rightarrow> Some \<lparr>fact_id = i, fact_version = 1, opaque_version = None, payload = w x\<rparr> else lookup (facts fs) j)"
    "Err (store i w r fs) j = (if j = i then case r of Inl e \<Rightarrow> Some e | Inr x \<Rightarrow> None else Err fs j)"
  using assms by (auto simp: store_def stores_def wf_Put wf_PutError split: sum.splits)

text \<open>What a database's fact is after the collector ran: it is there exactly when the file was read, or it was there before.\<close>

lemma users_ids: "distinct [PasswdID, ShadowID, GroupID, NSSwitchID, LoginDefsID]"
  by (simp add: PasswdID_def ShadowID_def GroupID_def NSSwitchID_def LoginDefsID_def)

lemma Collect_lookup:
  fixes fs :: "'v fact_set"
  assumes "wf_set fs" and fs': "fs' = Users.Collect wp ws wg wn h ended fs"
  shows "wf_set fs'"
    "Err fs' PasswdID = (case collectPasswd h of Inl e \<Rightarrow> Some e | Inr p \<Rightarrow> None)"
    "lookup (facts fs') PasswdID = (case collectPasswd h of Inl e \<Rightarrow> None
       | Inr p \<Rightarrow> Some \<lparr>fact_id = PasswdID, fact_version = 1, opaque_version = None, payload = wp p\<rparr>)"
    "\<not> ended 0 \<Longrightarrow> Err fs' ShadowID = (case collectShadow h of Inl e \<Rightarrow> Some e | Inr s \<Rightarrow> None)"
    "\<not> ended 0 \<Longrightarrow> lookup (facts fs') ShadowID = (case collectShadow h of Inl e \<Rightarrow> None
       | Inr s \<Rightarrow> Some \<lparr>fact_id = ShadowID, fact_version = 1, opaque_version = None, payload = ws s\<rparr>)"
    "ended 0 \<Longrightarrow> lookup (facts fs') ShadowID = lookup (facts fs) ShadowID \<and> Err fs' ShadowID = Err fs ShadowID"
proof -
  have n: "stores NSSwitchID (Inr n)" for n :: nsswitch by (simp add: stores_def)
  note st = store_facts[OF assms(1) collect_stores(1)[of h]]
  note st2 = store_facts[OF st(1) collect_stores(2)[of h]]
  note st3 = store_facts[OF st2(1) collect_stores(3)[of h]]
  note st4 = store_facts[OF st3(1) n]
  show "wf_set fs'" unfolding fs' Users.Collect_def Let_def using st(1) st2(1) st3(1) st4(1) by simp
  show "Err fs' PasswdID = (case collectPasswd h of Inl e \<Rightarrow> Some e | Inr p \<Rightarrow> None)"
    "lookup (facts fs') PasswdID = (case collectPasswd h of Inl e \<Rightarrow> None
       | Inr p \<Rightarrow> Some \<lparr>fact_id = PasswdID, fact_version = 1, opaque_version = None, payload = wp p\<rparr>)"
    "\<not> ended 0 \<Longrightarrow> Err fs' ShadowID = (case collectShadow h of Inl e \<Rightarrow> Some e | Inr s \<Rightarrow> None)"
    "\<not> ended 0 \<Longrightarrow> lookup (facts fs') ShadowID = (case collectShadow h of Inl e \<Rightarrow> None
       | Inr s \<Rightarrow> Some \<lparr>fact_id = ShadowID, fact_version = 1, opaque_version = None, payload = ws s\<rparr>)"
    "ended 0 \<Longrightarrow> lookup (facts fs') ShadowID = lookup (facts fs) ShadowID \<and> Err fs' ShadowID = Err fs ShadowID"
    unfolding fs' Users.Collect_def Let_def using users_ids
    by (auto simp: st(2,3) st2(2,3) st3(2,3) st4(2,3))
qed

lemma usable_lookup: "usable fs i \<longleftrightarrow> Err fs i = None \<and> (\<exists>f. lookup (facts fs) i = Some f \<and> opaque_version f = None)"
  by (auto simp: usable_def set_IDs Opaque_def split: option.split)

text \<open>The databases a check reads, when the facts were left by the collector and were not there before.\<close>

abbreviation collected_accounts :: "host \<Rightarrow> (nat \<Rightarrow> bool) \<Rightarrow> payload fact_set \<Rightarrow> payload fact_set" where
  "collected_accounts h ended fs \<equiv> Users.Collect PasswdFact ShadowFact GroupFact NSSwitchFact h ended fs"

lemma passwdFact_collected:
  assumes "wf_set fs" "usable (collected_accounts h ended fs) PasswdID"
  shows "\<exists>res. h_read_file h PasswdPath maxDatabaseRead = Inr res \<and> \<not> rr_truncated res
     \<and> passwdFact (collected_accounts h ended fs) = parse_passwd res"
proof -
  obtain p where p: "collectPasswd h = Inr p"
    using assms Collect_lookup(2)[OF assms(1) refl, where h = h]
    by (cases "collectPasswd h") (auto simp: usable_lookup)
  moreover have "passwdFact (collected_accounts h ended fs) = p"
    using p Collect_lookup(2,3)[OF assms(1) refl, where h = h] by (simp add: passwdFact_def get_def Err_def)
  ultimately show ?thesis
    by (auto simp: collectPasswd_def map_sum_def readDatabase_read split: sum.splits)
qed

lemma shadowFact_collected:
  assumes "wf_set fs" "ShadowID \<notin> set (IDs fs)" "usable (collected_accounts h ended fs) ShadowID"
  shows "\<exists>res. h_read_file h ShadowPath maxDatabaseRead = Inr res \<and> \<not> rr_truncated res
     \<and> shadowFact (collected_accounts h ended fs) = parse_shadow res"
proof -
  have e: "\<not> ended 0"
    using assms(2,3) Collect_lookup(6)[where ended = ended and h = h, OF assms(1) refl]
    by (auto simp: usable_lookup set_IDs)
  obtain s where s: "collectShadow h = Inr s"
    using assms(3) Collect_lookup(4)[where ended = ended and h = h, OF assms(1) refl e]
    by (cases "collectShadow h") (auto simp: usable_lookup)
  moreover have "shadowFact (collected_accounts h ended fs) = s"
    using s Collect_lookup(4,5)[where ended = ended and h = h, OF assms(1) refl e] by (simp add: shadowFact_def get_def Err_def)
  ultimately show ?thesis
    by (auto simp: collectShadow_def map_sum_def readDatabase_read split: sum.splits)
qed

section \<open>A PASS and the lines of the file\<close>

text \<open>The lines of a database that are neither blank nor comments, as their fields.\<close>

definition database_lines :: "string \<Rightarrow> string list list" where
  "database_lines data = map (split_on (CHR '':'')) (filter (\<lambda>l. \<not> skippable l) (map line_text (split_on (CHR 0x0A) data)))"

text \<open>A claim about one line of a database, over the fields the claim is about.\<close>

definition passwd_claim :: "(string \<Rightarrow> int \<Rightarrow> string \<Rightarrow> bool) \<Rightarrow> string list \<Rightarrow> bool" where
  "passwd_claim Q f \<longleftrightarrow> 7 \<le> length f \<and> \<not> has_prefix (f ! 0) ''+'' \<and> \<not> has_prefix (f ! 0) ''-'' \<and>
     (case parse_uint32 (f ! 2) of None \<Rightarrow> False | Some uid \<Rightarrow> Q (f ! 0) uid (f ! 6))"

definition shadow_claim :: "(string \<Rightarrow> bool \<Rightarrow> bool \<Rightarrow> int option \<Rightarrow> int option \<Rightarrow> bool) \<Rightarrow> string list \<Rightarrow> bool" where
  "shadow_claim Q f \<longleftrightarrow> 9 \<le> length f \<and>
     (case AlgorithmFor (f ! 1) of (alg, locked, none) \<Rightarrow> Q alg locked none (optionalInt f 3) (optionalInt f 4))"

definition line_claims :: "(payload check \<times> string \<times> (string list \<Rightarrow> bool)) list" where
  "line_claims =
     [(Check0001, PasswdPath, passwd_claim (\<lambda>name uid shell. uid = 0 \<longrightarrow> name = ''root'')),
      (Check0002, PasswdPath, passwd_claim (\<lambda>name uid shell. isSystemAccount uid \<longrightarrow> \<not> interactiveShell shell)),
      (Check0003, ShadowPath, shadow_claim (\<lambda>alg locked none lo hi. \<not> none)),
      (Check0004, ShadowPath, shadow_claim (\<lambda>alg locked none lo hi. alg = HashNone \<or> Strong alg)),
      (Check0009, ShadowPath, shadow_claim (\<lambda>alg locked none lo hi. \<not> locked \<and> \<not> none \<and> alg \<noteq> HashNone \<longrightarrow>
         (case hi of None \<Rightarrow> False | Some n \<Rightarrow> n \<le> 365))),
      (Check0010, ShadowPath, shadow_claim (\<lambda>alg locked none lo hi. \<not> locked \<and> \<not> none \<and> alg \<noteq> HashNone \<longrightarrow>
         (case lo of None \<Rightarrow> False | Some n \<Rightarrow> 1 \<le> n \<and> (case hi of None \<Rightarrow> True | Some m \<Rightarrow> n \<le> m))))]"

lemma first_field_split: "first_field l = split_on (CHR '':'') l ! 0"
proof -
  have t: "CHR '':'' \<notin> set a \<Longrightarrow> takeWhile (\<lambda>c. c \<noteq> CHR '':'') a = a" for a by (auto simp: takeWhile_eq_all_conv)
  show ?thesis
    by (cases "cut_at (CHR '':'') l")
      (auto simp: first_field_def cut_at_None split_on_whole split_on_colon takeWhile_tail t dest!: cut_at_Some)
qed

lemma numbered_line: "raw \<in> set (split_on (CHR 0x0A) data) \<Longrightarrow> \<exists>n. (n, raw) \<in> set (numbered_lines data)"
proof -
  assume r: "raw \<in> set (split_on (CHR 0x0A) data)"
  have "map snd (numbered_lines data) = split_on (CHR 0x0A) data" by (simp add: numbered_lines_def)
  then show ?thesis using r by (metis (no_types, lifting) imageE list.set_map prod.collapse)
qed

lemma passwd_lines:
  assumes "complete_passwd (parse_passwd res)" "f \<in> set (database_lines (rr_data res))"
    and "list_all (\<lambda>e. Q (pe_name e) (pe_uid e) (pe_shell e)) (pw_entries (parse_passwd res))"
  shows "passwd_claim Q f"
proof -
  obtain n raw where l: "(n, raw) \<in> set (numbered_lines (rr_data res))" "\<not> skippable (line_text raw)"
      "f = split_on (CHR '':'') (line_text raw)"
    using assms(2) numbered_line by (fastforce simp: database_lines_def)
  have k: "malformed_of (passwd_line (n, raw)) = None" "compat_of (passwd_line (n, raw)) = None"
    using assms(1) l(1) by (auto simp: complete_passwd_def parse_passwd_lists pick_Nil)
  have "\<forall>e. entry_of (passwd_line (n, raw)) = Some e \<longrightarrow> Q (pe_name e) (pe_uid e) (pe_shell e)"
    using assms(3) l(1) by (auto simp: parse_passwd_lists list_all_iff set_pick)
  then show ?thesis
    using k l(2,3) by (auto simp: passwd_line_def Let_def line_kinds passwd_claim_def passwdFields_def is_compat_def
        first_field_split split: if_splits option.splits)
qed

lemma shadow_lines:
  assumes "sh_malformed (parse_shadow res) = []" "f \<in> set (database_lines (rr_data res))"
    and "list_all (\<lambda>e. Q (se_algorithm e) (se_locked e) (se_empty e) (se_min_days e) (se_max_days e)) (sh_entries (parse_shadow res))"
  shows "shadow_claim Q f"
proof -
  obtain n raw where l: "(n, raw) \<in> set (numbered_lines (rr_data res))" "\<not> skippable (line_text raw)"
      "f = split_on (CHR '':'') (line_text raw)"
    using assms(2) numbered_line by (fastforce simp: database_lines_def)
  have k: "malformed_of (shadow_line (n, raw)) = None" using assms(1) l(1) by (auto simp: parse_shadow_lists pick_Nil)
  have "\<forall>e. entry_of (shadow_line (n, raw)) = Some e \<longrightarrow> Q (se_algorithm e) (se_locked e) (se_empty e) (se_min_days e) (se_max_days e)"
    using assms(3) l(1) by (auto simp: parse_shadow_lists list_all_iff set_pick)
  then show ?thesis
    using k l(2,3) by (auto simp: shadow_line_def Let_def line_kinds shadow_claim_def shadowFields_def
        split: if_splits prod.splits)
qed

lemma passwd_pass:
  assumes "wf_set fs" "PasswdID \<in> set (ck_requires ck)" "ck_eval ck = Some (\<lambda>fs. Inr (e fs))"
    and "f_result (EvaluateOne ck (collected_accounts h ended fs)) = Pass"
    and "\<And>fs. oc_result (e fs) = Pass \<Longrightarrow> complete_passwd (passwdFact fs)
      \<and> list_all (\<lambda>e. Q (pe_name e) (pe_uid e) (pe_shell e)) (pw_entries (passwdFact fs))"
  shows "\<exists>res. h_read_file h PasswdPath maxDatabaseRead = Inr res \<and> \<not> rr_truncated res
    \<and> list_all (passwd_claim Q) (database_lines (rr_data res))"
proof -
  let ?fs = "collected_accounts h ended fs"
  have u: "\<forall>i \<in> set (ck_requires ck). usable ?fs i" "oc_result (e ?fs) = Pass"
    using EvaluateOne_scored[of ck ?fs] assms(3,4) by auto
  then obtain res where r: "h_read_file h PasswdPath maxDatabaseRead = Inr res" "\<not> rr_truncated res"
    "passwdFact ?fs = parse_passwd res" using passwdFact_collected[OF assms(1)] assms(2) by blast
  then show ?thesis using passwd_lines assms(5)[OF u(2)] by (auto simp: list_all_iff)
qed

lemma shadow_pass:
  assumes "wf_set fs" "ShadowID \<notin> set (IDs fs)" "ShadowID \<in> set (ck_requires ck)" "ck_eval ck = Some (\<lambda>fs. Inr (e fs))"
    and "f_result (EvaluateOne ck (collected_accounts h ended fs)) = Pass"
    and "\<And>fs. oc_result (e fs) = Pass \<Longrightarrow> sh_malformed (shadowFact fs) = []
      \<and> list_all (\<lambda>e. Q (se_algorithm e) (se_locked e) (se_empty e) (se_min_days e) (se_max_days e)) (sh_entries (shadowFact fs))"
  shows "\<exists>res. h_read_file h ShadowPath maxDatabaseRead = Inr res \<and> \<not> rr_truncated res
    \<and> list_all (shadow_claim Q) (database_lines (rr_data res))"
proof -
  let ?fs = "collected_accounts h ended fs"
  have u: "\<forall>i \<in> set (ck_requires ck). usable ?fs i" "oc_result (e ?fs) = Pass"
    using EvaluateOne_scored[of ck ?fs] assms(4,5) by auto
  then obtain res where r: "h_read_file h ShadowPath maxDatabaseRead = Inr res" "\<not> rr_truncated res"
    "shadowFact ?fs = parse_shadow res" using shadowFact_collected[OF assms(1,2)] assms(3) by blast
  then show ?thesis using shadow_lines assms(6)[OF u(2)] by (auto simp: list_all_iff)
qed

text \<open>What a PASS needs, in the form these two lemmas take.\<close>

lemma pass_claims:
  "oc_result (eval0001 fs) = Pass \<Longrightarrow> complete_passwd (passwdFact fs)
     \<and> list_all (\<lambda>e. pe_uid e = 0 \<longrightarrow> pe_name e = ''root'') (pw_entries (passwdFact fs))"
  "oc_result (eval0002 fs) = Pass \<Longrightarrow> complete_passwd (passwdFact fs)
     \<and> list_all (\<lambda>e. isSystemAccount (pe_uid e) \<longrightarrow> \<not> interactiveShell (pe_shell e)) (pw_entries (passwdFact fs))"
  "oc_result (eval0003 fs) = Pass \<Longrightarrow> sh_malformed (shadowFact fs) = [] \<and> list_all (\<lambda>e. \<not> se_empty e) (sh_entries (shadowFact fs))"
  "oc_result (eval0004 fs) = Pass \<Longrightarrow> sh_malformed (shadowFact fs) = []
     \<and> list_all (\<lambda>e. se_algorithm e = HashNone \<or> Strong (se_algorithm e)) (sh_entries (shadowFact fs))"
  "oc_result (eval0009 fs) = Pass \<Longrightarrow> sh_malformed (shadowFact fs) = []
     \<and> list_all (\<lambda>e. \<not> se_locked e \<and> \<not> se_empty e \<and> se_algorithm e \<noteq> HashNone \<longrightarrow>
         (case se_max_days e of None \<Rightarrow> False | Some n \<Rightarrow> n \<le> 365)) (sh_entries (shadowFact fs))"
  "oc_result (eval0010 fs) = Pass \<Longrightarrow> sh_malformed (shadowFact fs) = []
     \<and> list_all (\<lambda>e. \<not> se_locked e \<and> \<not> se_empty e \<and> se_algorithm e \<noteq> HashNone \<longrightarrow>
         (case se_min_days e of None \<Rightarrow> False
          | Some n \<Rightarrow> 1 \<le> n \<and> (case se_max_days e of None \<Rightarrow> True | Some m \<Rightarrow> n \<le> m))) (sh_entries (shadowFact fs))"
       apply (auto simp: passwd_results violated0001_def ByUID_def list_ex_iff list_all_iff split: if_splits)[1]
      apply (auto simp: passwd_results system_accounts_def list_ex_iff list_all_iff split: if_splits)[1]
     apply (auto simp: shadow_results complete_accounts_def list_ex_iff list_all_iff split: if_splits)[1]
    apply (auto simp: shadow_results complete_accounts_def hash_arms list_ex_iff list_all_iff split: if_splits)[1]
   apply (auto simp: shadow_results complete_accounts_def authenticating_def Authenticates_def bounded_age_def
      MaxPasswordAgeDays_def list_all_iff split: if_splits option.splits)[1]
  apply (auto simp: shadow_results complete_accounts_def authenticating_def Authenticates_def min_age_ok_def
      list_all_iff split: if_splits)[1]
  done

section \<open>Properties\<close>


definition sample_accounts :: "payload fact_set" where
  "sample_accounts = Put \<lparr>fact_id = PasswdID, fact_version = 1, opaque_version = None, payload = PasswdFact
     (empty_passwd\<lparr>pw_entries := [snd (snd root_account)]\<rparr>)\<rparr> new_set"

lemma sample_accounts_fact: "passwdFact sample_accounts = empty_passwd\<lparr>pw_entries := [snd (snd root_account)]\<rparr>"
  by (simp add: passwdFact_def get_def sample_accounts_def Put_def new_set_def)



definition text_read :: "string \<Rightarrow> string \<Rightarrow> read_result" where
  "text_read path data = \<lparr>rr_path = path, rr_data = data, rr_size = int (length data), rr_truncated = False, rr_sha256 = []\<rparr>"

definition root_line :: string where
  "root_line = ''root:x:0:0:root:/root:/bin/bash'' @ [CHR 0x0A]"

lemma root_line_collected:
  "collectPasswd (file_host [(PasswdPath, root_line)]) = Inr (empty_passwd\<lparr>pw_entries :=
     [\<lparr>pe_name = ''root'', pe_uid = 0, pe_gid = 0, pe_home = ''/root'', pe_shell = ''/bin/bash'', pe_line = 1\<rparr>],
     pw_path := PasswdPath\<rparr>)"
  by code_simp


section \<open>Gaps\<close>

text \<open>The facts that two files leave when both are read whole.\<close>

definition account_facts :: "string \<Rightarrow> string \<Rightarrow> payload fact_set" where
  "account_facts pw sh = store ShadowID ShadowFact (Inr (parse_shadow (text_read ShadowPath sh)))
     (store PasswdID PasswdFact (Inr (parse_passwd (text_read PasswdPath pw))) new_set)"

lemma account_facts_read:
  "passwdFact (account_facts pw sh) = parse_passwd (text_read PasswdPath pw)"
  "shadowFact (account_facts pw sh) = parse_shadow (text_read ShadowPath sh)"
  "usable (account_facts pw sh) PasswdID" "usable (account_facts pw sh) ShadowID"
  using users_ids
  by (simp_all add: passwdFact_def shadowFact_def get_def account_facts_def store_def usable_lookup wf_Put)
    (simp_all add: Put_def new_set_def)

lemma shadow_outcome:
  assumes "ck_requires ck \<in> {[ShadowID, PasswdID], [PasswdID]}" "ck_eval ck = Some (\<lambda>fs. Inr (e fs))"
  shows "f_result (EvaluateOne ck (account_facts pw sh)) = oc_result (e (account_facts pw sh))"
  using EvaluateOne_outcome[OF _ assms(2) refl, of "account_facts pw sh"] assms(1) account_facts_read(3,4) by auto

text \<open>
  Accounts that could not be read do not stop a NOT_APPLICABLE. With a directory import in the account file the
  check of the system accounts' shells, and with a shadow file of which no line could be parsed the checks of the
  hashes and of the aging fields, answer that they do not apply, where a PASS would have become UNKNOWN.
\<close>

theorem unread_accounts_leave_not_applicable:
  "f_result (EvaluateOne Check0002 (account_facts (root_line @ ''+::::::'') [])) = NotApplicable
   \<and> map ce_spec (pw_compat (passwdFact (account_facts (root_line @ ''+::::::'') []))) = [''+'']
   \<and> f_result (EvaluateOne Check0004 (account_facts root_line ''root'')) = NotApplicable
   \<and> f_result (EvaluateOne Check0009 (account_facts root_line ''root'')) = NotApplicable
   \<and> f_result (EvaluateOne Check0010 (account_facts root_line ''root'')) = NotApplicable
   \<and> sh_malformed (shadowFact (account_facts root_line ''root'')) = [1]"
proof -
  have p: "system_accounts (parse_passwd (text_read PasswdPath (root_line @ ''+::::::''))) = []"
    "map ce_spec (pw_compat (parse_passwd (text_read PasswdPath (root_line @ ''+::::::'')))) = [''+'']" by code_simp+
  have s: "sh_entries (parse_shadow (text_read ShadowPath ''root'')) = []"
    "sh_malformed (parse_shadow (text_read ShadowPath ''root'')) = [1]" by code_simp+
  show ?thesis
    using p s by (simp add: shadow_outcome[OF _ users_evals(2)] shadow_outcome[OF _ users_evals(4)]
        shadow_outcome[OF _ users_evals(9)] shadow_outcome[OF _ users_evals(10)] users_requires passwd_results shadow_results
        account_facts_read authenticating_def)
qed

text \<open>
  Lines of the shadow file that are misread. The line that imports the shadow entries of a directory is taken for
  an account named + with an empty password, which fails the check of empty passwords on a host where no account has
  one; and an aging field of -1, which switches the limit off, passes the check of the maximum age and makes the
  check of the minimum age report an account that is locked out.
\<close>

theorem shadow_lines_are_misread:
  "shadow_line (n, ''+::::::::'') = EntryLine \<lparr>se_name = ''+'', se_empty = True, se_locked = False, se_algorithm = HashNone,
     se_line = int n, se_min_days = None, se_max_days = None\<rparr>
   \<and> f_result (EvaluateOne Check0003 (account_facts root_line ''+::::::::'')) = Fail
   \<and> f_result (EvaluateOne Check0009 (account_facts root_line ''root:$6$a$b:1:0:-1:7:::'')) = Pass
   \<and> f_result (EvaluateOne Check0010 (account_facts root_line ''root:$6$a$b:1:0:-1:7:::'')) = Fail
   \<and> map min_age (sh_entries (shadowFact (account_facts root_line ''root:$6$a$b:1:0:-1:7:::''))) = [LockedOut 0 (- 1)]"
proof -
  have "\<not> skippable (line_text ''+::::::::'')" "split_on (CHR '':'') (line_text ''+::::::::'') = [''+'', [], [], [], [], [], [], [], []]"
    "trim_space [] = []" by code_simp+
  then have l: "shadow_line (n, ''+::::::::'') = EntryLine \<lparr>se_name = ''+'', se_empty = True, se_locked = False, se_algorithm = HashNone,
     se_line = int n, se_min_days = None, se_max_days = None\<rparr>" for n
    by (simp add: shadow_line_def Let_def shadowFields_def AlgorithmFor_def optionalInt_def numeral_nat)
  have i: "list_ex se_empty (sh_entries (parse_shadow (text_read ShadowPath ''+::::::::'')))" by code_simp
  let ?s = "parse_shadow (text_read ShadowPath ''root:$6$a$b:1:0:-1:7:::'')"
  have s: "authenticating ?s \<noteq> []" "list_all bounded_age (authenticating ?s)" "\<not> list_all min_age_ok (authenticating ?s)"
    "sh_malformed ?s = []" "map min_age (sh_entries ?s) = [LockedOut 0 (- 1)]"
    "complete_passwd (parse_passwd (text_read PasswdPath root_line))" by code_simp+
  show ?thesis
    using l i s by (simp add: shadow_outcome[OF _ users_evals(3)] shadow_outcome[OF _ users_evals(9)]
        shadow_outcome[OF _ users_evals(10)] users_requires shadow_results account_facts_read complete_accounts_def)
qed

end
