(* ===== verification/Spec2Isabelle.thy ===== *)
theory Spec2Isabelle
  imports Gate Runner Sshd_Verdicts Module_Reread Remediate_Laws Kernel_Gaps Users_Verdicts
begin

text \<open>
  Plumbline is a scanner that collects facts about a Linux host, evaluates checks over them, and generates a
  script that repairs what failed. This development models its Go code under src/internal; a path below is
  relative to that directory.

  \<^bold>\<open>The parts and how they interact.\<close> A scan asks the registry for an order of the collectors (collect/collect.go),
  runs them under a budget (collect/runner.go), and each reads the host through the interface system.System and
  leaves facts, or errors in their place, in a fact set (fact/fact.go). The catalog (catalog/catalog.go) evaluates its
  checks over the fact set: a check runs only when every fact it requires is there, without an error and not opaque,
  and its text passes the sanitiser (sanitize/sanitize.go) before it becomes a finding (finding/finding.go). The
  command layer (cli) scopes the findings by a profile (profile), rewrites accepted ones by the suppression file
  (suppress), scores them (score), compares them with another run (diff) and maps the result to an exit code. A
  collection can be written to an archive and evaluated later (bundle), and remediate turns the open failures into a
  script. Three pairs of a collector and a check module are modelled to the last line: sshd and SSHD, kernel and
  KERNEL, users and USERS.

  \<^bold>\<open>Which theory models what.\<close>
  \<^item> Prelude: the byte-string functions of Go's strings, strconv and path that the code calls. Float64, Sha256,
    Time, Glob and Json: what the code uses of float64, crypto/sha256, time.Parse, path.Match and encoding/json.
  \<^item> Sanitize: sanitize/sanitize.go. Finding: finding/finding.go. Fact: fact/fact.go; a Go map is an association list
    with distinct keys, read through the locale \<open>go_map\<close>, and what the runner needs of the set is the locale
    \<open>error_store\<close>. Catalog: catalog/catalog.go; a check is a record with its Eval, which returns an outcome or the
    text of a panic.
  \<^item> Registry: collect/collect.go, registration, cycle check and order, with the locale \<open>dependency_plan\<close>. Runner:
    collect/runner.go as a step relation; the state holds the phase of every goroutine, the slot for the expensive
    collector and the merged facts, and a step is one observable action of one of them.
  \<^item> System: the interface system.System as a record of the host's answers, with collect/textfile.go and
    collect/links.go.
  \<^item> Sshd: fact/sshd.go and collect/collectors/sshd. Sshd_Checks and Sshd_Catalog: catalog/checks/sshd.
  \<^item> Sysctl: fact/kernel.go and collect/collectors/kernel. Kernel_Checks and Kernel_Catalog: catalog/checks/kernel.
  \<^item> Users: fact/users.go, fact/nsswitch.go and collect/collectors/users. Logindefs: fact/logindefs.go, its reader in
    collect/collectors/auth and catalog/checks/logindefs. Users_Checks and Users_Catalog: catalog/checks/users.
  \<^item> Score, Diff, Suppress, Profile, Gate: score, diff, suppress, profile and the command flow of cli.
  \<^item> Bundle: bundle/bundle.go and bundle/evidence.go over the record \<open>codec\<close>; Account_Codec, Fact_Codec and Payload:
    how the modelled facts are marshalled and the registry of decoders, which is the program's own codec.
  \<^item> Remediate: the engine of remediate, its fixes, the script and the merge of a drop-in.

  The fields of a Go struct are those of a record, its string constants a datatype, or strings where a decoded value
  may hold any; an error return is a sum; a nil pointer or an ok flag is an option. The prose of the checks is part of
  the definitions, byte for byte.

  \<^bold>\<open>What the lemmas show.\<close>
  \<^item> No false assurance: a verdict other than UNKNOWN came from the check over usable facts (Catalog), a collector that
    did not finish leaves errors in place of its facts (Runner), exit 0 needs a complete scan and no tripped gate (Gate),
    and only a live acceptance keeps a failure from the gates (Gate, Suppress).
  \<^item> Order and termination: the collectors' order is topological, the cycle check exact, a run finishes and never runs two
    expensive collectors at once (Registry, Runner); the report is the catalog in order (Catalog).
  \<^item> What a fact says of the files: the collected sshd and sysctl configurations are the declarative reading of the files
    (Sshd, Sysctl_Laws), account files are read back as the accounts they list, and no hash reaches a fact (Users_Laws).
  \<^item> What a verdict says of the host: a passing SSHD check holds for every connection (Sshd_Verdicts), a KERNEL check
    decides on the observed value or on the setting in force (Kernel_Verdicts), a USERS check is exactly its claim and
    its PASS speaks for every line of the file (Users_Verdicts). Kernel_Gaps and the last sections of Sshd_Verdicts
    and Users_Verdicts hold the cases where the code claims more than it has seen.
  \<^item> Storage: an accepted archive is what was recorded, a written collection is read back (Bundle_Laws, Bundle_Roundtrip
    with the locale \<open>fact_codec\<close>, Bundle_Props), and every check of the three modules reaches the same finding over it
    (Sshd_Reread, Kernel_Reread, Module_Reread).
  \<^item> Figures and comparisons: posture is bounded and means what it says (Score over Float64), a comparison reports exactly
    the pairs that changed (Diff), profiles and suppression files are accepted exactly when they are well formed.
  \<^item> The script: every open failure is acted on or named, text of the host cannot become shell, and merging a drop-in
    twice changes nothing (Remediate_Laws).

  \<^bold>\<open>Bounds and fuel.\<close> The depth-first search of findCycle and the loop of Order have the number of identifiers as fuel,
  which \<open>findCycle_total\<close> and \<open>Order_topological\<close> show to be enough. The JSON parser has twice the length of the input
  plus one, which \<open>parse_fuel\<close> shows to be enough, and refuses nesting beyond 10000 as Go does. The link helper follows
  eight hops, sysctl files four, Includes eight levels, all as in the code. The loop that pulls in shell helpers has
  the number of helpers. Integers of the program are unbounded where nothing overflows and are wrapped to 64 bits
  where a product or a sum may; the runner's clock is left out, and that a budget expires is a step that may happen.

  \<^bold>\<open>Limits of the model.\<close> Case folding and lower case are those of ASCII and of the few other runes that map into
  ASCII. Quoting leaves bytes from 0x80 on as they are, so it is exact for printable UTF-8. Nil and empty slices are
  not told apart, except in what JSON shows of those the collectors make. A map that is ranged over is taken in key
  order. The tar and zstd layers of an archive are a list of members with a size, and the decoders of facts outside
  the three modules are parameters. The embedded shell, awk, sed and Python of the remediation script are text.

  \<^bold>\<open>Not modelled.\<close> The renderers (render), which print data modelled here; the implementations of system.System, which
  are system calls; the commands' registration, progress display and flag parsing (cmd, cli); and the collectors and check
  modules apparmor, auth but for login.defs, containers, cron, filesys, logging, memory, network and services with the file
  walker and unit parser they share. Each of these modules adds a file format and checks of its own; what the catalog,
  the runner, the gates and the bundle promise holds of them as of any collector and any check.
\<close>

end
